(* ===== verification/Prelude.thy ===== *)
theory Prelude
  imports Main "HOL-Library.Char_ord" "HOL-Library.List_Lexorder" "HOL-Library.Multiset"
begin

text \<open>
  The vocabulary every component shares: results that may fail, the JavaScript string
  operations the sources use, decimal numerals, the insertion-ordered \<open>Map\<close> of
  JavaScript and its stable \<open>Array.prototype.sort\<close>.

  A string of the sources is a \<open>string\<close> here, read as a sequence of code units below
  256 (Latin-1), so that \<open>length\<close> and slicing count what JavaScript counts.  The only
  other characters the sources write are the dash and the ellipsis of card titles: they
  stand here as their UTF-8 bytes.
\<close>

named_theorems result_simps \<open>unfolding of failing computations\<close>
named_theorems string_simps \<open>the JavaScript string operations on closed strings\<close>
named_theorems digits_simps \<open>facts about decimal numerals\<close>
named_theorems jsmap_simps \<open>lookup after an update of an insertion-ordered map\<close>

section \<open>Results\<close>

text \<open>
  A function of the sources that may throw returns \<open>Inl\<close> of the thrown value or
  \<open>Inr\<close> of its result.  \<open>and_then\<close> is sequencing, \<open>guardE\<close> an early throw, and
  \<open>catchE\<close> a \<open>try\<close> block whose handler throws another value.
\<close>

definition and_then :: "'e + 'a \<Rightarrow> ('a \<Rightarrow> 'e + 'b) \<Rightarrow> 'e + 'b" where
  "and_then m f = (case m of Inl e \<Rightarrow> Inl e | Inr x \<Rightarrow> f x)"

definition guardE :: "bool \<Rightarrow> 'e \<Rightarrow> 'e + unit" where
  "guardE b e = (if b then Inr () else Inl e)"

definition catchE :: "'e + 'a \<Rightarrow> ('e \<Rightarrow> 'f) \<Rightarrow> 'f + 'a" where
  "catchE m h = (case m of Inl e \<Rightarrow> Inl (h e) | Inr x \<Rightarrow> Inr x)"

lemma and_then_simps [simp, result_simps]:
  "and_then (Inl e) f = Inl e" "and_then (Inr x) f = f x"
  by (simp_all add: and_then_def)

lemma catchE_simps [simp, result_simps]:
  "catchE (Inl e) h = Inl (h e)" "catchE (Inr x) h = Inr x"
  by (simp_all add: catchE_def)

lemma guardE_simps [simp, result_simps]:
  "guardE True e = Inr ()" "guardE False e = Inl e"
  by (simp_all add: guardE_def)

lemma and_then_Inr [simp]:
  "and_then m f = Inr y \<longleftrightarrow> (\<exists>x. m = Inr x \<and> f x = Inr y)"
  by (cases m) simp_all

lemma and_then_Inl [simp]:
  "and_then m f = Inl e \<longleftrightarrow> m = Inl e \<or> (\<exists>x. m = Inr x \<and> f x = Inl e)"
  by (cases m) auto

lemma guardE_Inr [simp]: "guardE b e = Inr u \<longleftrightarrow> b"
  by (simp add: guardE_def)

lemma guardE_Inl [simp]: "guardE b e = Inl e' \<longleftrightarrow> \<not> b \<and> e' = e"
  by (auto simp: guardE_def)

lemma catchE_Inr [simp]: "catchE m h = Inr y \<longleftrightarrow> m = Inr y"
  by (cases m) simp_all

lemma catchE_Inl [simp]: "catchE m h = Inl e \<longleftrightarrow> (\<exists>e'. m = Inl e' \<and> e = h e')"
  by (cases m) auto

text \<open>An absent value is an error.\<close>

definition ok_or :: "'a option \<Rightarrow> 'e \<Rightarrow> 'e + 'a" where
  "ok_or x e = (case x of None \<Rightarrow> Inl e | Some v \<Rightarrow> Inr v)"

lemma ok_or_Inr [simp]: "ok_or x e = Inr v \<longleftrightarrow> x = Some v"
  by (simp add: ok_or_def split: option.splits)

lemma ok_or_Inl [simp]: "ok_or x e = Inl e' \<longleftrightarrow> x = None \<and> e' = e"
  by (auto simp: ok_or_def split: option.splits)

text \<open>
  What a result satisfies: \<open>delivers P\<close> says the function returns, and with a value in \<open>P\<close>;
  \<open>upon P\<close> says that if it returns the value is in \<open>P\<close>.
\<close>

definition delivers :: "('a \<Rightarrow> bool) \<Rightarrow> 'e + 'a \<Rightarrow> bool" where
  "delivers P m = (case m of Inl e \<Rightarrow> False | Inr x \<Rightarrow> P x)"

definition upon :: "('a \<Rightarrow> bool) \<Rightarrow> 'e + 'a \<Rightarrow> bool" where
  "upon P m = (case m of Inl e \<Rightarrow> True | Inr x \<Rightarrow> P x)"

lemma delivers_simps [simp]:
  "delivers P (Inr x) \<longleftrightarrow> P x" "\<not> delivers P (Inl e)"
  "delivers P (and_then m f) \<longleftrightarrow> delivers (\<lambda>x. delivers P (f x)) m"
  by (cases m; simp add: delivers_def)+

lemma upon_simps [simp]:
  "upon P (Inr x) \<longleftrightarrow> P x" "upon P (Inl e)"
  "upon P (and_then m f) \<longleftrightarrow> upon (\<lambda>x. upon P (f x)) m"
  by (cases m; simp add: upon_def)+

lemma delivers_eq: "delivers P m \<longleftrightarrow> (\<exists>x. m = Inr x \<and> P x)"
  by (cases m) simp_all

lemma delivers_mono: "delivers P m \<Longrightarrow> (\<And>x. P x \<Longrightarrow> Q x) \<Longrightarrow> delivers Q m"
  by (cases m) simp_all

lemma uponD: "upon P m \<Longrightarrow> m = Inr x \<Longrightarrow> P x"
  by simp

lemma uponI: "(\<And>x. m = Inr x \<Longrightarrow> P x) \<Longrightarrow> upon P m"
  by (cases m) simp_all

lemma upon_mono: "upon P m \<Longrightarrow> (\<And>x. P x \<Longrightarrow> Q x) \<Longrightarrow> upon Q m"
  by (cases m) simp_all

text \<open>
  An \<open>async\<close> function works on the state of the world: it returns or throws in the next state,
  or never returns (\<open>None\<close>).  \<open>eff_bind\<close> is \<open>await\<close> followed by the rest of the function,
  \<open>call\<close> an external call, which always answers or throws, \<open>eff_try\<close> a \<open>try\<close> block.
\<close>

type_synonym ('w, 'e, 'a) eff = "'w \<Rightarrow> (('e + 'a) \<times> 'w) option"

definition eff_ret :: "'a \<Rightarrow> ('w, 'e, 'a) eff" where
  "eff_ret x w = Some (Inr x, w)"

definition eff_throw :: "'e \<Rightarrow> ('w, 'e, 'a) eff" where
  "eff_throw e w = Some (Inl e, w)"

definition call :: "('w \<Rightarrow> ('e + 'a) \<times> 'w) \<Rightarrow> ('w, 'e, 'a) eff" where
  "call f w = Some (f w)"

definition eff_bind :: "('w, 'e, 'a) eff \<Rightarrow> ('a \<Rightarrow> ('w, 'e, 'b) eff) \<Rightarrow> ('w, 'e, 'b) eff" where
  "eff_bind m f w =
     (case m w of None \<Rightarrow> None | Some (Inl e, w') \<Rightarrow> Some (Inl e, w') | Some (Inr x, w') \<Rightarrow> f x w')"

definition eff_try :: "('w, 'e, 'a) eff \<Rightarrow> ('e \<Rightarrow> ('w, 'f, 'b) eff) \<Rightarrow> ('a \<Rightarrow> ('w, 'f, 'b) eff) \<Rightarrow> ('w, 'f, 'b) eff" where
  "eff_try m h f w =
     (case m w of None \<Rightarrow> None | Some (Inl e, w') \<Rightarrow> h e w' | Some (Inr x, w') \<Rightarrow> f x w')"

text \<open>A synchronous step of an \<open>async\<close> function, with its errors seen from the function.\<close>

definition eff_of :: "('d \<Rightarrow> 'e) \<Rightarrow> 'd + 'a \<Rightarrow> ('w, 'e, 'a) eff" where
  "eff_of h m w = Some (catchE m h, w)"

lemma eff_simps [simp, result_simps]:
  "eff_ret x w = Some (Inr x, w)" "eff_throw e w = Some (Inl e, w)" "call f w = Some (f w)"
  by (simp_all add: eff_ret_def eff_throw_def call_def)

lemma eff_bind_Some: "eff_bind m f w = Some r \<longleftrightarrow>
    (\<exists>e w'. m w = Some (Inl e, w') \<and> r = (Inl e, w')) \<or> (\<exists>x w'. m w = Some (Inr x, w') \<and> f x w' = Some r)"
  by (auto simp: eff_bind_def split: option.splits sum.splits)

lemma eff_try_Some: "eff_try m h f w = Some r \<longleftrightarrow>
    (\<exists>e w'. m w = Some (Inl e, w') \<and> h e w' = Some r) \<or> (\<exists>x w'. m w = Some (Inr x, w') \<and> f x w' = Some r)"
  by (auto simp: eff_try_def split: option.splits sum.splits)

lemma eff_bind_call [simp]: "eff_bind (call f) g w =
    (case f w of (Inl e, w') \<Rightarrow> Some (Inl e, w') | (Inr x, w') \<Rightarrow> g x w')"
  by (simp add: eff_bind_def split: prod.splits sum.splits)

lemma eff_try_call [simp]: "eff_try (call f) h g w =
    (case f w of (Inl e, w') \<Rightarrow> h e w' | (Inr x, w') \<Rightarrow> g x w')"
  by (simp add: eff_try_def split: prod.splits sum.splits)

text \<open>\<open>returns m\<close>: \<open>m\<close> ends, with a value or with a throw, from every world.\<close>

definition returns :: "('w, 'e, 'a) eff \<Rightarrow> bool" where
  "returns m \<longleftrightarrow> (\<forall>w. \<exists>r. m w = Some r)"

lemma returnsD: "returns m \<Longrightarrow> \<exists>r. m w = Some r"
  by (simp add: returns_def)

lemma returns_simps [simp]: "returns (eff_ret x)" "returns (eff_throw e)" "returns (call f)"
  by (simp_all add: returns_def)

lemma returns_bind:
  assumes "returns m" "\<And>x. returns (f x)"
  shows "returns (eff_bind m f)"
  unfolding returns_def
proof
  fix w
  obtain x w' where "m w = Some (x, w')" using returnsD [OF assms(1), of w] by auto
  then show "\<exists>r. eff_bind m f w = Some r"
    using assms(2) by (cases x) (auto simp: returns_def eff_bind_def)
qed

text \<open>\<open>yields P m\<close>: every value \<open>m\<close> returns satisfies \<open>P\<close>.\<close>

definition yields :: "('a \<Rightarrow> bool) \<Rightarrow> ('w, 'e, 'a) eff \<Rightarrow> bool" where
  "yields P m \<longleftrightarrow> (\<forall>w x w'. m w = Some (Inr x, w') \<longrightarrow> P x)"

lemma yieldsD: "yields P m \<Longrightarrow> m w = Some (Inr x, w') \<Longrightarrow> P x"
  by (auto simp: yields_def)

lemma yields_ret [simp]: "yields P (eff_ret x) \<longleftrightarrow> P x"
  by (simp add: yields_def)

lemma yields_throw [simp]: "yields P (eff_throw e)"
  by (simp add: yields_def)

lemma yields_of [simp]: "yields P (eff_of h m) \<longleftrightarrow> upon P m"
  by (cases m) (simp_all add: yields_def eff_of_def)

lemma returns_of [simp]: "returns (eff_of h m)"
  by (simp add: returns_def eff_of_def)

lemma eff_of_Inr [simp]: "eff_of h (Inr x) = eff_ret x"
  by (rule ext) (simp add: eff_of_def)

lemma eff_of_Inl [simp]: "eff_of h (Inl e) = eff_throw (h e)"
  by (rule ext) (simp add: eff_of_def)

lemma eff_bind_simps [simp]: "eff_bind (eff_ret x) f = f x" "eff_bind (eff_throw e) f = eff_throw e"
  by (rule ext, simp add: eff_bind_def)+

lemma yields_any [simp]: "yields (\<lambda>_. True) m"
  by (simp add: yields_def)

lemma yields_bind: "yields Q m \<Longrightarrow> (\<And>x. Q x \<Longrightarrow> yields P (f x)) \<Longrightarrow> yields P (eff_bind m f)"
  unfolding yields_def by (simp add: eff_bind_Some) blast

lemma yields_bind_any: "(\<And>x. yields P (f x)) \<Longrightarrow> yields P (eff_bind m f)"
  by (auto simp: yields_def eff_bind_Some)

lemma yields_try: "(\<And>e. yields P (h e)) \<Longrightarrow> (\<And>x. yields P (f x)) \<Longrightarrow> yields P (eff_try m h f)"
  unfolding yields_def by (simp add: eff_try_Some) blast

lemma yields_mono: "yields P m \<Longrightarrow> (\<And>x. P x \<Longrightarrow> Q x) \<Longrightarrow> yields Q m"
  by (auto simp: yields_def)

text \<open>
  A world may carry a trace of the calls of one kind.  \<open>emits Q m\<close>: \<open>m\<close> only appends to the
  trace, and every entry it appends satisfies \<open>Q\<close>.
\<close>

definition emits :: "('t \<Rightarrow> bool) \<Rightarrow> ('w \<times> 't list, 'e, 'a) eff \<Rightarrow> bool" where
  "emits Q m \<longleftrightarrow> (\<forall>w r. m w = Some r \<longrightarrow> (\<exists>new. snd (snd r) = snd w @ new \<and> (\<forall>t \<in> set new. Q t)))"

text \<open>An external call that is not traced, and one that is.\<close>

definition untraced :: "('w \<Rightarrow> 'r \<times> 'w) \<Rightarrow> 'w \<times> 't list \<Rightarrow> 'r \<times> 'w \<times> 't list" where
  "untraced f = (\<lambda>(w, ts). case f w of (r, w') \<Rightarrow> (r, w', ts))"

definition traced :: "'t \<Rightarrow> ('w \<Rightarrow> 'r \<times> 'w) \<Rightarrow> 'w \<times> 't list \<Rightarrow> 'r \<times> 'w \<times> 't list" where
  "traced t f = (\<lambda>(w, ts). case f w of (r, w') \<Rightarrow> (r, w', ts @ [t]))"

named_theorems emits_intro \<open>how traces compose\<close>

lemma emits_ret [emits_intro]: "emits Q (eff_ret x)"
  by (simp add: emits_def)

lemma emits_throw [emits_intro]: "emits Q (eff_throw e)"
  by (simp add: emits_def)

lemma emits_untraced [emits_intro]: "emits Q (call (untraced f))"
  by (auto simp: emits_def untraced_def split: prod.splits)

lemma emits_traced [emits_intro]: "Q t \<Longrightarrow> emits Q (call (traced t f))"
  by (auto simp: emits_def traced_def split: prod.splits)

lemma emitsD:
  "emits Q m \<Longrightarrow> m w = Some r \<Longrightarrow> \<exists>new. snd (snd r) = snd w @ new \<and> (\<forall>t \<in> set new. Q t)"
  unfolding emits_def by blast

lemma emits_trans:
  assumes "emits Q m" "m w = Some r" "\<exists>new. ts = snd (snd r) @ new \<and> (\<forall>t \<in> set new. Q t)"
  shows "\<exists>new. ts = snd w @ new \<and> (\<forall>t \<in> set new. Q t)"
proof -
  obtain a where "snd (snd r) = snd w @ a" "\<forall>t \<in> set a. Q t" using emitsD [OF assms(1,2)] by blast
  moreover obtain b where "ts = snd (snd r) @ b" "\<forall>t \<in> set b. Q t" using assms(3) by blast
  ultimately show ?thesis by (intro exI [of _ "a @ b"]) auto
qed

lemma emits_bind [emits_intro]:
  assumes "emits Q m" "\<And>x. emits Q (f x)"
  shows "emits Q (eff_bind m f)"
  unfolding emits_def
proof (intro allI impI)
  fix w r assume "eff_bind m f w = Some r"
  then obtain s where s: "m w = Some s"
    and n: "snd r = snd s \<or> (\<exists>x. fst s = Inr x \<and> f x (snd s) = Some r)"
    by (auto simp: eff_bind_Some)
  from n have "\<exists>new. snd (snd r) = snd (snd s) @ new \<and> (\<forall>t \<in> set new. Q t)"
    by (auto dest: emitsD [OF assms(2)])
  with s show "\<exists>new. snd (snd r) = snd w @ new \<and> (\<forall>t \<in> set new. Q t)"
    by (rule emits_trans [OF assms(1)])
qed

lemma emits_try [emits_intro]:
  assumes "emits Q m" "\<And>e. emits Q (h e)" "\<And>x. emits Q (f x)"
  shows "emits Q (eff_try m h f)"
  unfolding emits_def
proof (intro allI impI)
  fix w r assume "eff_try m h f w = Some r"
  then obtain s where s: "m w = Some s"
    and n: "(\<exists>e. fst s = Inl e \<and> h e (snd s) = Some r) \<or> (\<exists>x. fst s = Inr x \<and> f x (snd s) = Some r)"
    by (auto simp: eff_try_Some)
  from n have "\<exists>new. snd (snd r) = snd (snd s) @ new \<and> (\<forall>t \<in> set new. Q t)"
    by (auto dest: emitsD [OF assms(2)] emitsD [OF assms(3)])
  with s show "\<exists>new. snd (snd r) = snd w @ new \<and> (\<forall>t \<in> set new. Q t)"
    by (rule emits_trans [OF assms(1)])
qed

text \<open>\<open>xs[i] ?? d\<close> of the sources: a read past the end is \<open>undefined\<close>.\<close>

definition nth_or :: "'a \<Rightarrow> 'a list \<Rightarrow> nat \<Rightarrow> 'a" where
  "nth_or d xs i = (if i < length xs then xs ! i else d)"

definition js_nth :: "'a list \<Rightarrow> nat \<Rightarrow> 'a option" where
  "js_nth xs i = (if i < length xs then Some (xs ! i) else None)"

section \<open>Characters and strings\<close>

definition char_code :: "char \<Rightarrow> nat" where
  "char_code c = of_char c"

definition is_digit :: "char \<Rightarrow> bool" where
  "is_digit c \<longleftrightarrow> 48 \<le> char_code c \<and> char_code c \<le> 57"

text \<open>The white space of \<open>trim\<close> and of \<open>\s\<close> in a regular expression.\<close>

definition is_space :: "char \<Rightarrow> bool" where
  "is_space c \<longleftrightarrow> (9 \<le> char_code c \<and> char_code c \<le> 13) \<or> char_code c = 32 \<or> char_code c = 160"

definition js_trim :: "string \<Rightarrow> string" where
  "js_trim s = rev (dropWhile is_space (rev (dropWhile is_space s)))"

definition lower_char :: "char \<Rightarrow> char" where
  "lower_char c =
     (if (65 \<le> char_code c \<and> char_code c \<le> 90)
       \<or> (192 \<le> char_code c \<and> char_code c \<le> 222 \<and> char_code c \<noteq> 215)
      then char_of (char_code c + 32) else c)"

definition js_lower :: "string \<Rightarrow> string" where
  "js_lower s = map lower_char s"

text \<open>Upper case of the sharp s is two letters; two letters whose capitals are not
  Latin-1 (the micro sign and y with diaeresis) stay as they are.\<close>

definition upper_char :: "char \<Rightarrow> string" where
  "upper_char c =
     (if 97 \<le> char_code c \<and> char_code c \<le> 122 then [char_of (char_code c - 32)]
      else if 224 \<le> char_code c \<and> char_code c \<le> 254 \<and> char_code c \<noteq> 247
        then [char_of (char_code c - 32)]
      else if char_code c = 223 then ''SS''
      else [c])"

definition js_upper :: "string \<Rightarrow> string" where
  "js_upper s = concat (map upper_char s)"

fun starts_with :: "string \<Rightarrow> string \<Rightarrow> bool" where
  "starts_with [] s = True"
| "starts_with (p # ps) [] = False"
| "starts_with (p # ps) (c # cs) = (p = c \<and> starts_with ps cs)"

fun contains :: "string \<Rightarrow> string \<Rightarrow> bool" where
  "contains p [] = (p = [])"
| "contains p (c # cs) = (starts_with p (c # cs) \<or> contains p cs)"

fun js_split :: "char \<Rightarrow> string \<Rightarrow> string list" where
  "js_split d [] = [[]]"
| "js_split d (c # cs) =
     (if c = d then [] # js_split d cs
      else (case js_split d cs of [] \<Rightarrow> [[c]] | w # ws \<Rightarrow> (c # w) # ws))"

fun js_join :: "string \<Rightarrow> string list \<Rightarrow> string" where
  "js_join sep [] = []"
| "js_join sep [w] = w"
| "js_join sep (w # ws) = w @ sep @ js_join sep ws"

definition pad_start :: "nat \<Rightarrow> char \<Rightarrow> string \<Rightarrow> string" where
  "pad_start n c s = replicate (n - length s) c @ s"

definition pad_end :: "nat \<Rightarrow> char \<Rightarrow> string \<Rightarrow> string" where
  "pad_end n c s = s @ replicate (n - length s) c"

text \<open>\<open>s.replace(/0+$/, "")\<close>.\<close>

definition strip_zeros :: "string \<Rightarrow> string" where
  "strip_zeros s = rev (dropWhile (\<lambda>c. c = CHR ''0'') (rev s))"

text \<open>\<open>JSON.stringify\<close> of a string.\<close>

definition hex_digit :: "nat \<Rightarrow> char" where
  "hex_digit n = (if n < 10 then char_of (48 + n) else char_of (87 + n))"

definition json_char :: "char \<Rightarrow> string" where
  "json_char c =
     (if c = CHR 0x22 then [CHR 0x5C, CHR 0x22]
      else if c = CHR 0x5C then [CHR 0x5C, CHR 0x5C]
      else if char_code c = 8 then [CHR 0x5C, CHR ''b'']
      else if char_code c = 9 then [CHR 0x5C, CHR ''t'']
      else if char_code c = 10 then [CHR 0x5C, CHR ''n'']
      else if char_code c = 12 then [CHR 0x5C, CHR ''f'']
      else if char_code c = 13 then [CHR 0x5C, CHR ''r'']
      else if char_code c < 32 then
        CHR 0x5C # ''u00'' @ [hex_digit (char_code c div 16), hex_digit (char_code c mod 16)]
      else [c])"

definition json_quote :: "string \<Rightarrow> string" where
  "json_quote s = CHR 0x22 # concat (map json_char s) @ [CHR 0x22]"

text \<open>Characters of card titles that are not Latin-1.\<close>

definition em_dash :: string where
  "em_dash = [CHR 0xE2, CHR 0x80, CHR 0x94]"

definition ellipsis :: string where
  "ellipsis = [CHR 0xE2, CHR 0x80, CHR 0xA6]"

lemmas string_defs = js_trim_def js_lower_def lower_char_def js_upper_def upper_char_def
  char_code_def is_space_def is_digit_def pad_start_def pad_end_def strip_zeros_def

lemma js_split_nonempty [simp]: "js_split d s \<noteq> []"
  by (cases s) (auto split: list.splits)

lemma js_split_no_sep: "d \<notin> set s \<Longrightarrow> js_split d s = [s]"
  by (induction s) auto

lemma js_split_sep: "d \<notin> set s \<Longrightarrow> js_split d (s @ d # t) = s # js_split d t"
  by (induction s) auto

lemma length_pad_start [simp]: "length (pad_start n c s) = max n (length s)"
  by (simp add: pad_start_def)

lemma length_pad_end [simp]: "length (pad_end n c s) = max n (length s)"
  by (simp add: pad_end_def)

lemma list_all_pad_start: "list_all P s \<Longrightarrow> P c \<Longrightarrow> list_all P (pad_start n c s)"
  by (auto simp: pad_start_def list_all_iff)

lemma list_all_pad_end: "list_all P s \<Longrightarrow> P c \<Longrightarrow> list_all P (pad_end n c s)"
  by (auto simp: pad_end_def list_all_iff)

lemma is_digit_zero [simp]: "is_digit CHR ''0''"
  by (simp add: is_digit_def char_code_def)

lemma is_digit_not_dot: "is_digit c \<Longrightarrow> c \<noteq> CHR ''.''"
  by (auto simp: is_digit_def char_code_def)

lemma dot_notin_digits: "list_all is_digit s \<Longrightarrow> CHR ''.'' \<notin> set s"
  by (auto simp: list_all_iff is_digit_def char_code_def)

lemma dropWhile_trim_idem: "dropWhile P (dropWhile P s) = dropWhile P s"
  by (induction s) auto

lemma dropWhile_rev_prefix:
  "x = rev (dropWhile P (rev x)) @ rev (takeWhile P (rev x))"
  by (metis rev_append rev_rev_ident takeWhile_dropWhile_id)

lemma dropWhile_both_ends:
  assumes "x = [] \<or> \<not> P (hd x)"
  shows "dropWhile P (rev (dropWhile P (rev x))) = rev (dropWhile P (rev x))"
proof (cases "rev (dropWhile P (rev x))")
  case (Cons c cs)
  then have "x \<noteq> []" and "hd x = c"
    using dropWhile_rev_prefix [of x P] by (auto simp del: rev_is_Nil_conv) (metis append_Cons list.sel(1))
  with assms Cons show ?thesis by simp
next
  case Nil
  then show ?thesis by (simp only: dropWhile.simps)
qed

lemma trim_idem: "js_trim (js_trim s) = js_trim s"
proof -
  let ?x = "dropWhile is_space s"
  have "?x = [] \<or> \<not> is_space (hd ?x)" using hd_dropWhile by blast
  then have "dropWhile is_space (rev (dropWhile is_space (rev ?x))) = rev (dropWhile is_space (rev ?x))"
    by (rule dropWhile_both_ends)
  then show ?thesis by (simp add: js_trim_def dropWhile_trim_idem)
qed

section \<open>Decimal numerals\<close>

definition digit_char :: "nat \<Rightarrow> char" where
  "digit_char n = char_of (48 + n)"

definition digit_val :: "char \<Rightarrow> nat" where
  "digit_val c = char_code c - 48"

text \<open>\<open>n.toString()\<close> of a natural number and \<open>BigInt(s)\<close> of a string of digits.\<close>

fun dec_digits :: "nat \<Rightarrow> string" where
  "dec_digits n = (if n < 10 then [digit_char n] else dec_digits (n div 10) @ [digit_char (n mod 10)])"

declare dec_digits.simps [simp del]

definition nat_of_dec :: "string \<Rightarrow> nat" where
  "nat_of_dec s = foldl (\<lambda>a c. 10 * a + digit_val c) 0 s"

definition show_int :: "int \<Rightarrow> string" where
  "show_int i = (if i < 0 then CHR ''-'' # dec_digits (nat (- i)) else dec_digits (nat i))"

lemma show_int_nonneg [simp]: "0 \<le> i \<Longrightarrow> show_int i = dec_digits (nat i)"
  by (simp add: show_int_def)

lemma char_code_digit: "n < 10 \<Longrightarrow> char_code (digit_char n) = 48 + n"
  by (simp add: char_code_def digit_char_def)

lemma digit_val_char [simp, digits_simps]: "n < 10 \<Longrightarrow> digit_val (digit_char n) = n"
  by (simp add: digit_val_def char_code_digit)

lemma is_digit_char [simp, digits_simps]: "n < 10 \<Longrightarrow> is_digit (digit_char n)"
  by (simp add: is_digit_def char_code_digit)

lemma digit_val_less: "is_digit c \<Longrightarrow> digit_val c < 10"
  by (auto simp add: is_digit_def digit_val_def)

lemma digit_char_val: "is_digit c \<Longrightarrow> digit_char (digit_val c) = c"
  by (simp add: is_digit_def digit_val_def digit_char_def char_code_def)

lemma dec_digits_all [simp]: "list_all is_digit (dec_digits n)"
  by (induction n rule: dec_digits.induct) (subst dec_digits.simps, simp)

lemma dec_digits_nonempty [simp]: "dec_digits n \<noteq> []"
  by (subst dec_digits.simps) simp

lemma nat_of_dec_Nil [simp]: "nat_of_dec [] = 0"
  by (simp add: nat_of_dec_def)

lemma foldl_dec: "foldl (\<lambda>a c. 10 * a + digit_val c) a s = a * 10 ^ length s + nat_of_dec s"
proof (induction s arbitrary: a)
  case (Cons c cs)
  have "nat_of_dec (c # cs) = foldl (\<lambda>a c. 10 * a + digit_val c) (digit_val c) cs"
    by (simp add: nat_of_dec_def)
  then have "nat_of_dec (c # cs) = digit_val c * 10 ^ length cs + nat_of_dec cs"
    by (simp only: Cons)
  moreover have "foldl (\<lambda>a c. 10 * a + digit_val c) a (c # cs)
      = (10 * a + digit_val c) * 10 ^ length cs + nat_of_dec cs"
    using Cons by simp
  ultimately show ?case by (simp only: algebra_simps list.size power_Suc power_add) simp
qed (simp add: nat_of_dec_def)

lemma nat_of_dec_append [digits_simps]:
  "nat_of_dec (s @ t) = nat_of_dec s * 10 ^ length t + nat_of_dec t"
  by (metis foldl_append foldl_dec nat_of_dec_def)

lemma nat_of_dec_Cons [digits_simps]:
  "nat_of_dec (c # s) = digit_val c * 10 ^ length s + nat_of_dec s"
  using nat_of_dec_append [of "[c]" s] by (simp add: nat_of_dec_def)

lemma nat_of_dec_zeros [simp, digits_simps]: "nat_of_dec (replicate k CHR ''0'') = 0"
  by (induction k) (simp_all add: nat_of_dec_Cons digit_val_def char_code_def)

lemma nat_of_dec_digits [simp]: "nat_of_dec (dec_digits n) = n"
proof (induction n rule: dec_digits.induct)
  case (1 n)
  show ?case
  proof (cases "n < 10")
    case True
    then show ?thesis by (subst dec_digits.simps) (simp add: nat_of_dec_Cons)
  next
    case False
    with 1 show ?thesis
      by (subst dec_digits.simps) (simp add: nat_of_dec_append nat_of_dec_Cons)
  qed
qed

lemma nat_of_dec_bound: "list_all is_digit s \<Longrightarrow> nat_of_dec s < 10 ^ length s"
proof (induction s)
  case (Cons c cs)
  then have "digit_val c \<le> 9" and "nat_of_dec cs < 10 ^ length cs"
    using digit_val_less [of c] by auto
  then have "digit_val c * 10 ^ length cs + nat_of_dec cs < 9 * 10 ^ length cs + 10 ^ length cs"
    by (meson add_le_less_mono mult_le_mono1)
  then show ?case by (simp add: nat_of_dec_Cons)
qed simp

lemma dec_digits_length: "0 < k \<Longrightarrow> length (dec_digits n) \<le> k \<longleftrightarrow> n < 10 ^ k"
proof (induction n arbitrary: k rule: dec_digits.induct)
  case (1 n)
  then obtain j where k: "k = Suc j" by (cases k) auto
  show ?case
  proof (cases "n < 10")
    case True
    then have "n < 10 ^ k" by (rule less_le_trans) (simp add: k)
    with True show ?thesis using k by (subst dec_digits.simps) simp
  next
    case False
    then have "length (dec_digits n) \<le> k \<longleftrightarrow> length (dec_digits (n div 10)) \<le> j"
      using k by (subst dec_digits.simps) simp
    also have "\<dots> \<longleftrightarrow> n div 10 < 10 ^ j"
    proof (cases j)
      case 0
      then show ?thesis using False by simp
    next
      case (Suc i)
      then show ?thesis using 1(1) [OF False, of j] by simp
    qed
    also have "\<dots> \<longleftrightarrow> n < 10 ^ k"
      using k by (simp add: div_less_iff_less_mult mult.commute)
    finally show ?thesis .
  qed
qed

lemma nat_of_dec_pad_start [simp]: "nat_of_dec (pad_start n CHR ''0'' s) = nat_of_dec s"
  by (simp add: pad_start_def nat_of_dec_append)

lemma nat_of_dec_pad_end:
  "nat_of_dec (pad_end n CHR ''0'' s) = nat_of_dec s * 10 ^ (n - length s)"
  by (simp add: pad_end_def nat_of_dec_append)

lemma nat_of_dec_inj:
  "list_all is_digit s \<Longrightarrow> list_all is_digit t \<Longrightarrow> length s = length t \<Longrightarrow>
   nat_of_dec s = nat_of_dec t \<Longrightarrow> s = t"
proof (induction s t rule: list_induct2')
  case (4 x xs y ys)
  have b: "nat_of_dec xs < 10 ^ length xs" "nat_of_dec ys < 10 ^ length xs"
    using nat_of_dec_bound [of xs] nat_of_dec_bound [of ys] "4.prems" by auto
  have e: "digit_val x * 10 ^ length xs + nat_of_dec xs
         = digit_val y * 10 ^ length xs + nat_of_dec ys"
    using "4.prems" by (simp add: nat_of_dec_Cons)
  have "digit_val x = digit_val y"
    using arg_cong [OF e, of "\<lambda>n. n div 10 ^ length xs"] b by simp
  moreover from this e have "nat_of_dec xs = nat_of_dec ys" by simp
  moreover have "is_digit x" "is_digit y" "list_all is_digit xs" "list_all is_digit ys"
      "length xs = length ys" using "4.prems" by simp_all
  ultimately show ?case using "4.IH" digit_char_val by metis
qed simp_all

lemma strip_zeros_split:
  "\<exists>k. s = strip_zeros s @ replicate k CHR ''0''"
proof -
  let ?z = "\<lambda>c. c = CHR ''0''" and ?k = "length (takeWhile (\<lambda>c. c = CHR ''0'') (rev s))"
  have "takeWhile ?z (rev s) = replicate ?k CHR ''0''"
    by (rule replicate_length_same [symmetric]) (auto dest: set_takeWhileD)
  then have "rev (takeWhile ?z (rev s)) = replicate ?k CHR ''0''"
    by (metis rev_replicate)
  then have "s = strip_zeros s @ replicate ?k CHR ''0''"
    using dropWhile_rev_prefix [of s ?z] by (simp add: strip_zeros_def)
  then show ?thesis ..
qed

lemma strip_zeros_last: "strip_zeros s \<noteq> [] \<Longrightarrow> last (strip_zeros s) \<noteq> CHR ''0''"
  using hd_dropWhile [of "\<lambda>c. c = CHR ''0''" "rev s"]
  by (simp add: strip_zeros_def last_rev)

lemma strip_zeros_digits: "list_all is_digit s \<Longrightarrow> list_all is_digit (strip_zeros s)"
  by (auto simp: strip_zeros_def list_all_iff dest: set_dropWhileD)

lemma strip_zeros_snoc [simp]: "strip_zeros (s @ [CHR ''0'']) = strip_zeros s"
  by (simp add: strip_zeros_def)

lemma strip_zeros_replicate [simp]:
  "strip_zeros (s @ replicate k CHR ''0'') = strip_zeros s"
proof (induction k arbitrary: s)
  case (Suc k)
  have "s @ replicate (Suc k) CHR ''0'' = (s @ [CHR ''0'']) @ replicate k CHR ''0''" by simp
  then show ?case using Suc [of "s @ [CHR ''0'']"] by (simp del: append_assoc replicate_Suc)
qed simp

lemma strip_zeros_Nil [simp]: "strip_zeros [] = []"
  by (simp add: strip_zeros_def)

lemma strip_zeros_ident: "s = [] \<or> last s \<noteq> CHR ''0'' \<Longrightarrow> strip_zeros s = s"
  by (cases s rule: rev_cases) (auto simp: strip_zeros_def)

lemma length_strip_zeros: "length (strip_zeros s) \<le> length s"
  unfolding strip_zeros_def length_rev by (metis length_dropWhile_le length_rev)

lemma pad_end_strip_zeros:
  assumes "length s = n"
  shows "pad_end n CHR ''0'' (strip_zeros s) = s"
proof -
  obtain k where k: "s = strip_zeros s @ replicate k CHR ''0''" using strip_zeros_split by blast
  have "length s = length (strip_zeros s) + k" using arg_cong [OF k, of length] by simp
  then show ?thesis using k assms by (simp add: pad_end_def)
qed

end
