(* ===== verification/Scaled_Decimal.thy ===== *)
theory Scaled_Decimal
  imports Prelude
begin

text \<open>
  Fixed-point decimals.  Raw token units, stroops and kurus are all printed and parsed by
  the same arithmetic in the sources, with 7 or 2 fraction digits: this theory holds that
  arithmetic once, with its round trip, and the contract \<open>decimal_codec\<close> that a matching
  pair of a printer and a parser satisfies.
\<close>

section \<open>The shared arithmetic\<close>

text \<open>The value of \<open>[whole, frac]\<close>: \<open>BigInt(whole) * 10n ** d + BigInt(frac.padEnd(d, "0"))\<close>.\<close>

definition scaled_value :: "nat \<Rightarrow> string \<Rightarrow> nat" where
  "scaled_value d s =
     (let parts = js_split CHR ''.'' s;
          whole = nth_or ''0'' parts 0;
          frac = nth_or [] parts 1
      in nat_of_dec whole * 10 ^ d + nat_of_dec (pad_end d CHR ''0'' frac))"

text \<open>The fraction digits of a raw value, trailing zeros trimmed, and the whole numeral.\<close>

definition scaled_frac :: "nat \<Rightarrow> nat \<Rightarrow> string" where
  "scaled_frac d n = strip_zeros (pad_start d CHR ''0'' (dec_digits (n mod 10 ^ d)))"

definition scaled_print :: "nat \<Rightarrow> nat \<Rightarrow> string" where
  "scaled_print d n =
     (let whole = dec_digits (n div 10 ^ d); frac = scaled_frac d n
      in if frac \<noteq> [] then whole @ ''.'' @ frac else whole)"

text \<open>The pattern \<open>^\d{1,12}(\.\d{1,d})?$\<close> every parser of the sources tests first.\<close>

definition amount_re :: "nat \<Rightarrow> string \<Rightarrow> bool" where
  "amount_re d s =
     (let w = takeWhile is_digit s
      in 1 \<le> length w \<and> length w \<le> 12 \<and>
         (case dropWhile is_digit s of
            [] \<Rightarrow> True
          | c # f \<Rightarrow> c = CHR ''.'' \<and> 1 \<le> length f \<and> length f \<le> d \<and> list_all is_digit f))"

lemma dot_not_digit [simp]: "\<not> is_digit CHR ''.''"
  by (simp add: is_digit_def char_code_def)

lemma takeWhile_digits_dot:
  "list_all is_digit w \<Longrightarrow> takeWhile is_digit (w @ CHR ''.'' # f) = w"
  by (simp add: list_all_iff)

lemma dropWhile_digits_dot:
  "list_all is_digit w \<Longrightarrow> dropWhile is_digit (w @ CHR ''.'' # f) = CHR ''.'' # f"
  by (simp add: list_all_iff)

text \<open>The two shapes a string that matches the pattern can have.\<close>

lemma amount_re_cases:
  assumes "amount_re d s"
  obtains (whole) "list_all is_digit s" "1 \<le> length s" "length s \<le> 12"
  | (dotted) w f where "s = w @ CHR ''.'' # f" "list_all is_digit w" "1 \<le> length w"
      "length w \<le> 12" "list_all is_digit f" "1 \<le> length f" "length f \<le> d"
proof (cases "dropWhile is_digit s")
  case Nil
  then have tw: "takeWhile is_digit s = s" by (metis append_Nil2 takeWhile_dropWhile_id)
  have "list_all is_digit s" using Nil by (simp add: list_all_iff dropWhile_eq_Nil_conv)
  moreover have "1 \<le> length s" "length s \<le> 12"
    using assms unfolding amount_re_def Let_def tw by blast+
  ultimately show ?thesis by (rule whole)
next
  case (Cons c f)
  let ?w = "takeWhile is_digit s"
  have "s = ?w @ c # f" using Cons by (metis takeWhile_dropWhile_id)
  moreover have "list_all is_digit ?w" by (auto simp: list_all_iff dest: set_takeWhileD)
  ultimately show ?thesis using assms Cons dotted [of ?w f] by (simp add: amount_re_def Let_def)
qed

lemma amount_re_whole: "list_all is_digit s \<Longrightarrow> 1 \<le> length s \<Longrightarrow> length s \<le> 12 \<Longrightarrow> amount_re d s"
proof -
  assume s: "list_all is_digit s" and l: "1 \<le> length s" "length s \<le> 12"
  have "takeWhile is_digit s = s" and "dropWhile is_digit s = []"
    using s by (simp_all add: list_all_iff dropWhile_eq_Nil_conv)
  with l show ?thesis unfolding amount_re_def Let_def by (simp only: list.case simp_thms)
qed

lemma amount_re_dotted:
  "list_all is_digit w \<Longrightarrow> 1 \<le> length w \<Longrightarrow> length w \<le> 12 \<Longrightarrow> list_all is_digit f \<Longrightarrow>
   1 \<le> length f \<Longrightarrow> length f \<le> d \<Longrightarrow> amount_re d (w @ CHR ''.'' # f)"
  by (simp add: amount_re_def Let_def takeWhile_digits_dot dropWhile_digits_dot)

lemma scaled_value_whole: "list_all is_digit s \<Longrightarrow> scaled_value d s = nat_of_dec s * 10 ^ d"
  by (simp add: scaled_value_def Let_def js_split_no_sep dot_notin_digits nth_or_def
      pad_end_def)

lemma scaled_value_dotted:
  "list_all is_digit w \<Longrightarrow> list_all is_digit f \<Longrightarrow>
   scaled_value d (w @ CHR ''.'' # f)
     = nat_of_dec w * 10 ^ d + nat_of_dec (pad_end d CHR ''0'' f)"
  by (simp add: scaled_value_def Let_def js_split_sep js_split_no_sep dot_notin_digits nth_or_def)

text \<open>A matching string denotes fewer than \<open>10 ^ (12 + d)\<close> raw units.\<close>

lemma scaled_value_bound:
  assumes "amount_re d s"
  shows "scaled_value d s < 10 ^ (12 + d)"
  using assms
proof (cases rule: amount_re_cases)
  case whole
  have "nat_of_dec s < 10 ^ length s" using whole(1) by (rule nat_of_dec_bound)
  also have "\<dots> \<le> 10 ^ 12" using whole(3) by (rule power_increasing) simp
  finally show ?thesis using whole(1) by (simp add: scaled_value_whole power_add)
next
  case (dotted w f)
  have "nat_of_dec w < 10 ^ length w" using dotted(2) by (rule nat_of_dec_bound)
  also have "\<dots> \<le> 10 ^ 12" using dotted(4) by (rule power_increasing) simp
  finally have w: "nat_of_dec w + 1 \<le> 10 ^ 12" by simp
  have "list_all is_digit (pad_end d CHR ''0'' f)"
    using dotted(5) by (rule list_all_pad_end) simp
  from nat_of_dec_bound [OF this] have f: "nat_of_dec (pad_end d CHR ''0'' f) < 10 ^ d"
    using dotted(7) by simp
  have "nat_of_dec w * 10 ^ d + nat_of_dec (pad_end d CHR ''0'' f) < (nat_of_dec w + 1) * 10 ^ d"
    using f by simp
  also have "\<dots> \<le> 10 ^ 12 * 10 ^ d" using w by (rule mult_le_mono1)
  finally show ?thesis using dotted by (simp add: scaled_value_dotted power_add)
qed

lemma scaled_frac_digits: "list_all is_digit (scaled_frac d n)"
  unfolding scaled_frac_def
  by (rule strip_zeros_digits, rule list_all_pad_start) simp_all

lemma mod_digits_length: "0 < d \<Longrightarrow> length (dec_digits (n mod 10 ^ d)) \<le> d"
  by (simp add: dec_digits_length)

lemma length_scaled_frac: "0 < d \<Longrightarrow> length (scaled_frac d n) \<le> d"
  unfolding scaled_frac_def
  using length_strip_zeros [of "pad_start d CHR ''0'' (dec_digits (n mod 10 ^ d))"]
    mod_digits_length [of d n] by simp

lemma pad_end_scaled_frac:
  "0 < d \<Longrightarrow> nat_of_dec (pad_end d CHR ''0'' (scaled_frac d n)) = n mod 10 ^ d"
  unfolding scaled_frac_def using mod_digits_length [of d n]
  by (subst pad_end_strip_zeros) simp_all

lemma scaled_frac_Nil: "0 < d \<Longrightarrow> scaled_frac d n = [] \<Longrightarrow> n mod 10 ^ d = 0"
  using pad_end_scaled_frac [of d n] by (simp add: pad_end_def)

text \<open>Parsing what was printed gives the value back, for every number of fraction digits.\<close>

lemma scaled_roundtrip: "0 < d \<Longrightarrow> scaled_value d (scaled_print d n) = n"
proof (cases "scaled_frac d n = []")
  case True
  assume "0 < d"
  with True have "n mod 10 ^ d = 0" by (rule scaled_frac_Nil [rotated])
  then show ?thesis using True
    by (simp add: scaled_print_def scaled_value_whole) (metis add.right_neutral div_mult_mod_eq)
next
  case False
  assume "0 < d"
  with False show ?thesis
    by (simp add: scaled_print_def Let_def scaled_value_dotted scaled_frac_digits
        pad_end_scaled_frac div_mult_mod_eq del: One_nat_def)
qed

lemma scaled_print_re:
  assumes "0 < d" "n < 10 ^ (12 + d)"
  shows "amount_re d (scaled_print d n)"
proof -
  have "n div 10 ^ d < 10 ^ 12"
    using assms(2) by (simp add: div_less_iff_less_mult power_add)
  then have w: "length (dec_digits (n div 10 ^ d)) \<le> 12" by (simp add: dec_digits_length)
  have w1: "1 \<le> length (dec_digits (n div 10 ^ d))" by (simp add: Suc_le_eq)
  show ?thesis
  proof (cases "scaled_frac d n = []")
    case True
    with w w1 show ?thesis by (simp add: scaled_print_def amount_re_whole)
  next
    case False
    then have "1 \<le> length (scaled_frac d n)" by (simp add: Suc_le_eq)
    with w w1 False show ?thesis
      using amount_re_dotted [of "dec_digits (n div 10 ^ d)" "scaled_frac d n" d]
        length_scaled_frac [OF assms(1)] scaled_frac_digits
      by (simp add: scaled_print_def Let_def)
  qed
qed

text \<open>The printed form never carries a trailing zero or a trailing dot.\<close>

lemma scaled_print_canonical:
  "CHR ''.'' \<in> set (scaled_print d n) \<Longrightarrow>
   last (scaled_print d n) \<noteq> CHR ''0'' \<and> last (scaled_print d n) \<noteq> CHR ''.''"
proof -
  assume dot: "CHR ''.'' \<in> set (scaled_print d n)"
  have ne: "scaled_frac d n \<noteq> []"
    using dot dot_notin_digits [OF dec_digits_all, of "n div 10 ^ d"]
    by (auto simp: scaled_print_def Let_def split: if_splits)
  then have "last (scaled_frac d n) \<noteq> CHR ''0''"
    unfolding scaled_frac_def by (rule strip_zeros_last)
  moreover have "is_digit (last (scaled_frac d n))"
    using scaled_frac_digits [of d n] ne by (simp add: list_all_iff)
  ultimately show ?thesis using ne is_digit_not_dot by (auto simp: scaled_print_def Let_def)
qed

section \<open>The contract of a printer and a parser\<close>

text \<open>
  \<open>ok\<close> is the range of values that can be written.  The clients of a pair rely on three
  consequences: distinct values print differently, reading and printing again is stable,
  and a value read is one that can be printed.
\<close>

locale decimal_codec =
  fixes print :: "int \<Rightarrow> string"
    and parse :: "string \<Rightarrow> int option"
    and ok :: "int \<Rightarrow> bool"
  assumes parse_print: "ok n \<Longrightarrow> parse (print n) = Some n"
    and parse_ok: "parse s = Some n \<Longrightarrow> ok n"
begin

lemma print_inj: "ok m \<Longrightarrow> ok n \<Longrightarrow> print m = print n \<longleftrightarrow> m = n"
  by (metis option.inject parse_print)

lemma reprint_stable: "parse s = Some n \<Longrightarrow> parse (print n) = Some n"
  by (simp add: parse_ok parse_print)

lemma same_value_same_print: "parse s = Some m \<Longrightarrow> parse t = Some n \<Longrightarrow>
  print m = print n \<longleftrightarrow> parse s = parse t"
  by (simp add: parse_ok print_inj)

end

definition result_option :: "'e + 'a \<Rightarrow> 'a option" where
  "result_option r = (case r of Inl _ \<Rightarrow> None | Inr x \<Rightarrow> Some x)"

lemma result_option_simps [simp]: "result_option (Inl e) = None" "result_option (Inr x) = Some x"
  by (simp_all add: result_option_def)

lemma result_option_Some [simp]: "result_option r = Some x \<longleftrightarrow> r = Inr x"
  by (cases r) (auto simp: result_option_def)

lemma result_option_None [simp]: "result_option r = None \<longleftrightarrow> (\<exists>e. r = Inl e)"
  by (cases r) (auto simp: result_option_def)

end
