(* ===== verification/Keeper_Errors.thy ===== *)
theory Keeper_Errors
  imports Scaled_Decimal
begin

text \<open>
  \<open>stellar/src/keeper/errors.ts\<close>: how a failed submission is classified, and how long the
  keeper waits after each class of failure.  The guard client reuses the two tables.
\<close>

section \<open>Kinds, tables and classified errors\<close>

datatype error_kind =
  Already_Executed | Not_Due | Inactive | Rule_Violated | Allowance_Missing | Unknown_Contract
| Auth_Required | Keeper_Funds | Bad_Seq | Tx_Expired | Rpc_Error | Unknown_Kind

record classified_error =
  ce_kind :: error_kind
  ce_name :: string
  ce_code :: "nat option"
  ce_message :: string

text \<open>A \<open>GuardErrorDef\<close> is a name and a kind; a table is read by code.\<close>

type_synonym guard_error_def = "string \<times> error_kind"

definition guard_errors :: "nat \<Rightarrow> guard_error_def option" where
  "guard_errors = map_of [
     (100, ''NotConfigured'', Rule_Violated),
     (101, ''InvalidAmount'', Rule_Violated),
     (102, ''InvalidRule'', Rule_Violated),
     (103, ''OverPerTxLimit'', Rule_Violated),
     (104, ''OverDailyLimit'', Rule_Violated),
     (105, ''NeedsOwnerApproval'', Rule_Violated),
     (106, ''AssetNotAllowed'', Rule_Violated),
     (107, ''NoExecutor'', Auth_Required),
     (108, ''NotExecutor'', Auth_Required),
     (109, ''ScheduleNotFound'', Inactive),
     (110, ''ScheduleNotDue'', Not_Due),
     (111, ''ScheduleInactive'', Inactive),
     (112, ''InvalidSchedule'', Inactive),
     (113, ''NotScheduleOwner'', Auth_Required),
     (114, ''TooManySchedules'', Rule_Violated),
     (115, ''Overflow'', Unknown_Contract),
     (116, ''InsufficientAllowance'', Allowance_Missing)]"

definition token_errors :: "nat \<Rightarrow> guard_error_def option" where
  "token_errors = map_of [
     (2, ''SacOperationNotSupported'', Unknown_Contract),
     (3, ''SacAlreadyInitialized'', Unknown_Contract),
     (4, ''SacUnauthorized'', Auth_Required),
     (5, ''SacAuthentication'', Auth_Required),
     (6, ''SacAccountMissing'', Rule_Violated),
     (7, ''SacAccountIsNotClassic'', Rule_Violated),
     (8, ''SacNegativeAmount'', Rule_Violated),
     (9, ''SacAllowanceError'', Allowance_Missing),
     (10, ''SacBalanceError'', Allowance_Missing),
     (11, ''SacBalanceDeauthorized'', Rule_Violated),
     (12, ''SacOverflow'', Unknown_Contract),
     (13, ''SacTrustlineMissing'', Rule_Violated),
     (14, ''SacInsufficientAccountReserve'', Allowance_Missing),
     (15, ''SacTooManyAccountSubentries'', Rule_Violated)]"

definition guard_error_base :: nat where
  "guard_error_base = 100"

definition error_table :: "nat \<Rightarrow> guard_error_def option" where
  "error_table code = (if guard_error_base \<le> code then guard_errors code else token_errors code)"

section \<open>Reading host text\<close>

text \<open>
  \<open>text.split(/\r?\n/, 1)[0]\<close>, then at most 300 characters.
\<close>

fun upto_newline :: "string \<Rightarrow> string" where
  "upto_newline [] = []"
| "upto_newline (c # cs) =
     (if c = CHR 0x0A \<or> (c = CHR 0x0D \<and> starts_with [CHR 0x0A] cs) then []
      else c # upto_newline cs)"

definition first_line :: "string \<Rightarrow> string" where
  "first_line text =
     (let line = upto_newline text
      in if 300 < length line then take 297 line @ ''...'' else line)"

text \<open>
  \<open>/Error\(Contract,\s*#(\d+)\)/\<close>: the code of the leftmost match.  None of the three
  runs the pattern repeats can be shortened to make a match, so matching is greedy.
\<close>

definition contract_error_at :: "string \<Rightarrow> nat option" where
  "contract_error_at s =
     (if starts_with ''Error(Contract,'' s
      then (case dropWhile is_space (drop 15 s) of
              [] \<Rightarrow> None
            | c # r \<Rightarrow>
                (if c = CHR ''#'' \<and> takeWhile is_digit r \<noteq> []
                    \<and> starts_with '')'' (dropWhile is_digit r)
                 then Some (nat_of_dec (takeWhile is_digit r)) else None))
      else None)"

fun contract_error_re :: "string \<Rightarrow> nat option" where
  "contract_error_re [] = None"
| "contract_error_re (c # cs) =
     (case contract_error_at (c # cs) of Some n \<Rightarrow> Some n | None \<Rightarrow> contract_error_re cs)"

definition contains_any :: "string list \<Rightarrow> string \<Rightarrow> bool" where
  "contains_any ps s = list_ex (\<lambda>p. contains p s) ps"

definition name_patterns :: "(string list \<times> error_kind \<times> string) list" where
  "name_patterns = [
     ([''AlreadyExecuted''], Already_Executed, ''AlreadyExecuted''),
     ([''NotDue''], Not_Due, ''NotDue''),
     ([''ScheduleInactive'', ''Inactive'', ''Cancelled'', ''NoRunsLeft''], Inactive, ''ScheduleInactive''),
     ([''AllowanceMissing'', ''InsufficientAllowance'', ''InsufficientBalance''],
        Allowance_Missing, ''AllowanceMissing''),
     ([''LimitExceeded'', ''RecipientNotAllowed'', ''AssetNotAllowed'', ''RuleViolated''],
        Rule_Violated, ''RuleViolated'')]"

definition classified :: "error_kind \<Rightarrow> string \<Rightarrow> nat option \<Rightarrow> string \<Rightarrow> classified_error" where
  "classified k n c m = \<lparr>ce_kind = k, ce_name = n, ce_code = c, ce_message = m\<rparr>"

text \<open>The optional \<open>table\<close> argument replaces the lookup by code.\<close>

definition classify_with_table ::
    "string \<Rightarrow> (nat \<Rightarrow> guard_error_def option) \<Rightarrow> classified_error" where
  "classify_with_table text table =
     (case contract_error_re text of
        Some code \<Rightarrow>
          (case table code of
             Some (n, k) \<Rightarrow> classified k n (Some code) (first_line text)
           | None \<Rightarrow> classified Unknown_Contract (''ContractError#'' @ dec_digits code) (Some code)
                       (first_line text))
      | None \<Rightarrow>
          (if contains ''txBadSeq'' text
             then classified Bad_Seq ''txBadSeq'' None (first_line text)
           else if contains_any [''txInsufficientBalance'', ''txInsufficientFee'', ''txNoAccount''] text
             then classified Keeper_Funds ''KeeperUnderfunded'' None (first_line text)
           else if contains_any [''txTooLate'', ''txTooEarly''] text
             then classified Tx_Expired ''txTooLate'' None (first_line text)
           else (case find (\<lambda>(ps, _). contains_any ps text) name_patterns of
                   Some (_, k, n) \<Rightarrow> classified k n None (first_line text)
                 | None \<Rightarrow> classified Unknown_Kind ''Unknown'' None (first_line text))))"

definition classifyContractText :: "string \<Rightarrow> classified_error" where
  "classifyContractText text = classify_with_table text error_table"

text \<open>
  What an RPC call can throw: an \<open>Error\<close> with its \<open>name\<close> and \<open>message\<close>, or any other
  value, of which only \<open>String(value)\<close> is used.
\<close>

datatype js_thrown = Js_Error string string | Js_Value string

fun thrown_message :: "js_thrown \<Rightarrow> string" where
  "thrown_message (Js_Error n m) = m"
| "thrown_message (Js_Value s) = s"

fun thrown_name :: "js_thrown \<Rightarrow> string" where
  "thrown_name (Js_Error n m) = n"
| "thrown_name (Js_Value s) = ''Error''"

definition classifyThrown :: "js_thrown \<Rightarrow> classified_error" where
  "classifyThrown err =
     (let message = thrown_message err
      in if contract_error_re message \<noteq> None then classifyContractText message
         else classified Rpc_Error (thrown_name err) None (first_line message))"

definition classifyTxResultCode :: "string \<Rightarrow> classified_error" where
  "classifyTxResultCode code =
     (if code = ''txBadSeq'' then classified Bad_Seq code None code
      else if code \<in> {''txInsufficientBalance'', ''txInsufficientFee'', ''txNoAccount''}
        then classified Keeper_Funds code None code
      else if code \<in> {''txTooLate'', ''txTooEarly''} then classified Tx_Expired code None code
      else classified Unknown_Kind code None code)"

section \<open>Backoff\<close>

record backoff_policy =
  baseMs :: int
  maxMs :: int

definition policy :: "int \<Rightarrow> int \<Rightarrow> backoff_policy" where
  "policy b m = \<lparr>baseMs = b, maxMs = m\<rparr>"

definition seconds_ms :: int where "seconds_ms = 1000"
definition minutes_ms :: int where "minutes_ms = 60 * seconds_ms"

fun backoff_table :: "error_kind \<Rightarrow> backoff_policy" where
  "backoff_table Already_Executed = policy (1 * minutes_ms) (10 * minutes_ms)"
| "backoff_table Not_Due = policy (15 * seconds_ms) (2 * minutes_ms)"
| "backoff_table Inactive = policy (5 * minutes_ms) (60 * minutes_ms)"
| "backoff_table Rule_Violated = policy (1 * minutes_ms) (60 * minutes_ms)"
| "backoff_table Allowance_Missing = policy (1 * minutes_ms) (60 * minutes_ms)"
| "backoff_table Unknown_Contract = policy (1 * minutes_ms) (30 * minutes_ms)"
| "backoff_table Auth_Required = policy (5 * minutes_ms) (60 * minutes_ms)"
| "backoff_table Keeper_Funds = policy (1 * minutes_ms) (10 * minutes_ms)"
| "backoff_table Bad_Seq = policy (5 * seconds_ms) (60 * seconds_ms)"
| "backoff_table Tx_Expired = policy (5 * seconds_ms) (60 * seconds_ms)"
| "backoff_table Rpc_Error = policy (5 * seconds_ms) (60 * seconds_ms)"
| "backoff_table Unknown_Kind = policy (30 * seconds_ms) (10 * minutes_ms)"

definition backoffMs :: "error_kind \<Rightarrow> int \<Rightarrow> int" where
  "backoffMs kind consecutiveFailures =
     (let p = backoff_table kind;
          e = max 0 (consecutiveFailures - 1)
      in min (maxMs p) (baseMs p * 2 ^ nat (min e 20)))"

section \<open>Facts about the tables\<close>

lemma token_errors_range: "token_errors code \<noteq> None \<longleftrightarrow> 2 \<le> code \<and> code \<le> 15"
proof -
  have "dom token_errors = {2..15}"
    unfolding token_errors_def dom_map_of_conv_image_fst by (auto simp: numeral_eq_Suc atLeastAtMostSuc_conv)
  then show ?thesis by (auto simp: set_eq_iff dom_def)
qed

lemma guard_errors_range: "guard_errors code \<noteq> None \<longleftrightarrow> 100 \<le> code \<and> code \<le> 116"
proof -
  have "dom guard_errors = {100, 101, 102, 103, 104, 105, 106, 107, 108, 109, 110, 111, 112,
      113, 114, 115, 116}"
    unfolding guard_errors_def dom_map_of_conv_image_fst by simp
  moreover have "code \<in> {100, 101, 102, 103, 104, 105, 106, 107, 108, 109, 110, 111, 112,
      113, 114, 115, 116} \<longleftrightarrow> 100 \<le> code \<and> code \<le> 116"
    by simp presburger
  ultimately show ?thesis by (metis domIff)
qed

section \<open>Facts about host text\<close>

lemma starts_with_append [simp]: "starts_with p (p @ s)"
  by (induction p) simp_all

lemma starts_with_iff: "starts_with p s \<longleftrightarrow> (\<exists>t. s = p @ t)"
  by (induction p s rule: starts_with.induct) auto

lemma contains_iff: "contains p s \<longleftrightarrow> (\<exists>a b. s = a @ p @ b)"
proof (induction s)
  case (Cons c cs)
  note IH = Cons
  show ?case
  proof
    assume "contains p (c # cs)"
    then show "\<exists>a b. c # cs = a @ p @ b"
      using IH by (auto simp: starts_with_iff) (metis append_Cons append_Nil)+
  next
    assume "\<exists>a b. c # cs = a @ p @ b"
    then obtain a b where e: "c # cs = a @ p @ b" by blast
    show "contains p (c # cs)"
    proof (cases a)
      case Nil
      then have "starts_with p (c # cs)" using e by (simp add: starts_with_iff)
      then show ?thesis by simp
    next
      case (Cons d a')
      then have "cs = a' @ p @ b" using e by simp
      then show ?thesis using IH by auto
    qed
  qed
qed auto

lemma contract_error_at_prefix:
  "\<not> starts_with ''Error(Contract,'' s \<Longrightarrow> contract_error_at s = None"
  by (simp add: contract_error_at_def)

text \<open>Text in front of the first \<open>Error(Contract,\<close> does not change what is read.\<close>

lemma contract_error_re_skip:
  assumes "\<not> contains ''Error(Contract,'' (p @ butlast ''Error(Contract,'')"
    and "starts_with ''Error(Contract,'' s"
  shows "contract_error_re (p @ s) = contract_error_re s"
  using assms(1)
proof (induction p)
  case (Cons c p)
  let ?e = "''Error(Contract,''"
  obtain t where s: "s = ?e @ t" using assms(2) starts_with_iff by blast
  have "\<not> starts_with ?e ((c # p) @ s)"
  proof
    let ?x = "(c # p) @ butlast ?e"
    assume "starts_with ?e ((c # p) @ s)"
    then obtain r where r: "?x @ [CHR '',''] @ t = ?e @ r" by (auto simp: starts_with_iff s)
    have "take (length ?e) (?x @ [CHR '',''] @ t) = ?e" unfolding r by simp
    moreover have "take (length ?e) (?x @ [CHR '',''] @ t) = take (length ?e) ?x"
      by (simp del: append_Cons)
    ultimately have "?x = ?e @ drop (length ?e) ?x"
      using append_take_drop_id [of "length ?e" ?x] by (simp only:)
    then have "\<exists>a b. ?x = a @ ?e @ b" by (intro exI [of _ "[]"] exI) simp
    then have "contains ?e ?x" by (simp only: contains_iff)
    with Cons.prems show False by contradiction
  qed
  then have "contract_error_at ((c # p) @ s) = None" by (rule contract_error_at_prefix)
  moreover have "\<not> contains ?e (p @ butlast ?e)" using Cons.prems by simp
  ultimately show ?case using Cons.IH by simp
qed simp

text \<open>The host's own rendering of a code is read back as that code.\<close>

definition host_error :: "nat \<Rightarrow> string" where
  "host_error code = ''Error(Contract, #'' @ dec_digits code @ '')''"

lemma contract_error_at_host: "contract_error_at (host_error code @ t) = Some code"
proof -
  have "takeWhile is_digit (dec_digits code @ CHR '')'' # t) = dec_digits code"
    and "dropWhile is_digit (dec_digits code @ CHR '')'' # t) = CHR '')'' # t"
    using dec_digits_all [of code]
    by (simp_all add: list_all_iff is_digit_def char_code_def)
  then show ?thesis
    by (simp add: contract_error_at_def host_error_def is_space_def char_code_def)
qed

lemma contract_error_re_host: "contract_error_re (host_error code @ t) = Some code"
  using contract_error_at_host [of code t] by (simp add: host_error_def)

section \<open>Facts about the backoff\<close>

lemma backoff_table_bounds: "0 < baseMs (backoff_table k)" "baseMs (backoff_table k) \<le> maxMs (backoff_table k)"
  by (cases k; simp add: policy_def seconds_ms_def minutes_ms_def)+

lemma backoff_table_cap: "maxMs (backoff_table k) \<le> baseMs (backoff_table k) * 2 ^ 20"
  by (cases k) (simp_all add: policy_def seconds_ms_def minutes_ms_def)

text \<open>The cap of the exponent is invisible: every policy reaches its maximum before it.\<close>

lemma backoffMs_uncapped:
  "backoffMs k n = min (maxMs (backoff_table k)) (baseMs (backoff_table k) * 2 ^ nat (n - 1))"
proof (cases "n - 1 \<le> 20")
  case True
  then show ?thesis by (simp add: backoffMs_def Let_def max_def)
next
  case False
  then have "(2::int) ^ 20 \<le> 2 ^ nat (n - 1)" by (intro power_increasing) auto
  then have "baseMs (backoff_table k) * 2 ^ 20 \<le> baseMs (backoff_table k) * 2 ^ nat (n - 1)"
    using backoff_table_bounds(1) [of k] by (intro mult_left_mono) auto
  then show ?thesis using False backoff_table_cap [of k]
    by (simp add: backoffMs_def Let_def)
qed

lemma backoffMs_first: "n \<le> 1 \<Longrightarrow> backoffMs k n = baseMs (backoff_table k)"
  using backoff_table_bounds(2) [of k] by (simp add: backoffMs_uncapped)

lemma backoffMs_step: "1 \<le> n \<Longrightarrow> backoffMs k (n + 1) = min (maxMs (backoff_table k)) (2 * backoffMs k n)"
proof -
  assume "1 \<le> n"
  then have "nat n = Suc (nat (n - 1))" by simp
  moreover have "0 < maxMs (backoff_table k)" using backoff_table_bounds [of k] by simp
  ultimately show ?thesis by (simp add: backoffMs_uncapped min_def)
qed

lemma backoffMs_ge: "baseMs (backoff_table k) \<le> backoffMs k n"
proof -
  have "(1::int) \<le> 2 ^ nat (n - 1)" by simp
  then have "baseMs (backoff_table k) * 1 \<le> baseMs (backoff_table k) * 2 ^ nat (n - 1)"
    using backoff_table_bounds(1) [of k] by (intro mult_left_mono) auto
  then show ?thesis using backoff_table_bounds(2) [of k] by (simp add: backoffMs_uncapped)
qed

lemma backoffMs_le: "backoffMs k n \<le> maxMs (backoff_table k)"
  by (simp add: backoffMs_uncapped)

lemma backoffMs_mono: "m \<le> n \<Longrightarrow> backoffMs k m \<le> backoffMs k n"
proof -
  assume "m \<le> n"
  then have "(2::int) ^ nat (m - 1) \<le> 2 ^ nat (n - 1)" by (intro power_increasing) auto
  then have "baseMs (backoff_table k) * 2 ^ nat (m - 1) \<le> baseMs (backoff_table k) * 2 ^ nat (n - 1)"
    using backoff_table_bounds(1) [of k] by (intro mult_left_mono) auto
  then show ?thesis by (simp add: backoffMs_uncapped min_def)
qed

end
