(* ===== verification/Guard_Errors.thy ===== *)
theory Guard_Errors
  imports Keeper_Errors
begin

text \<open>
  \<open>stellar/src/guard/errors.ts\<close>: the typed error of the guard client, built from the
  keeper's tables.
\<close>

record guard_client_error =
  ge_name :: string
  ge_kind :: error_kind
  ge_code :: "nat option"
  ge_message :: string

definition guard_error :: "string \<Rightarrow> error_kind \<Rightarrow> nat option \<Rightarrow> string \<Rightarrow> guard_client_error" where
  "guard_error n k c m = \<lparr>ge_name = n, ge_kind = k, ge_code = c, ge_message = m\<rparr>"

definition guardErrorFromClassified :: "classified_error \<Rightarrow> guard_client_error" where
  "guardErrorFromClassified c = guard_error (ce_name c) (ce_kind c) (ce_code c) (ce_message c)"

definition guardErrorFromCode :: "nat \<Rightarrow> string option \<Rightarrow> guard_client_error" where
  "guardErrorFromCode code message =
     (case (if guard_error_base \<le> code then guard_errors else token_errors) code of
        Some (n, k) \<Rightarrow> guard_error n k (Some code)
          (case message of Some m \<Rightarrow> m
           | None \<Rightarrow> ''contract error #'' @ dec_digits code @ '' ('' @ n @ '')'')
      | None \<Rightarrow> guard_error (''ContractError#'' @ dec_digits code) Unknown_Contract (Some code)
          (case message of Some m \<Rightarrow> m
           | None \<Rightarrow> ''unrecognised contract error #'' @ dec_digits code))"

definition classifyGuardText :: "string \<Rightarrow> guard_client_error" where
  "classifyGuardText text = guardErrorFromClassified (classifyContractText text)"

text \<open>A value caught by the guard client: one of its own errors, or anything else.\<close>

datatype guard_thrown = Thrown_Guard guard_client_error | Thrown_Js js_thrown

fun asGuardClientError :: "guard_thrown \<Rightarrow> guard_client_error" where
  "asGuardClientError (Thrown_Guard e) = e"
| "asGuardClientError (Thrown_Js t) = guardErrorFromClassified (classifyThrown t)"

text \<open>
  Reading the code out of the host's text and building the error from the bare code agree,
  whatever stands around the code in the text.
\<close>

lemma classify_host_text:
  assumes "\<not> contains ''Error(Contract,'' (p @ ''Error(Contract'')"
  shows "classifyGuardText (p @ host_error code @ t)
       = guardErrorFromCode code (Some (first_line (p @ host_error code @ t)))"
proof -
  have sw: "starts_with ''Error(Contract,'' (host_error code @ t)"
    by (simp add: host_error_def)
  have "contract_error_re (p @ host_error code @ t) = contract_error_re (host_error code @ t)"
    by (rule contract_error_re_skip [OF _ sw]) (use assms in simp)
  also have "\<dots> = Some code" by (rule contract_error_re_host)
  finally show ?thesis
    by (simp add: classifyGuardText_def classifyContractText_def classify_with_table_def
        error_table_def guardErrorFromCode_def guardErrorFromClassified_def classified_def
        split: option.splits)
qed

end
