(* ===== verification/Guard_Contract.thy ===== *)
theory Guard_Contract
  imports Guard_Errors
begin

text \<open>
  The part of the Soroban contract \<open>contracts/polaris_guard/src/lib.rs\<close> that the TypeScript
  client mirrors: its error codes, the rule of one owner and its validation, and the two
  payment entry points.  The client's routing and approval code is compared with it.

  The state is that of one owner.  The token is external: \<open>tk_allowance\<close> is the SEP-41
  allowance the owner left to the guard for an asset, \<open>tk_transfer\<close> says whether
  \<open>transfer_from\<close> succeeds.  A trap of the token rolls the invocation back.
\<close>

section \<open>Errors\<close>

datatype contract_error =
  NotConfigured | InvalidAmount | InvalidRule | OverPerTxLimit | OverDailyLimit
| NeedsOwnerApproval | AssetNotAllowed | NoExecutor | NotExecutor | ScheduleNotFound
| ScheduleNotDue | ScheduleInactive | InvalidSchedule | NotScheduleOwner | TooManySchedules
| Overflow | InsufficientAllowance

fun contract_code :: "contract_error \<Rightarrow> nat" where
  "contract_code NotConfigured = 100"
| "contract_code InvalidAmount = 101"
| "contract_code InvalidRule = 102"
| "contract_code OverPerTxLimit = 103"
| "contract_code OverDailyLimit = 104"
| "contract_code NeedsOwnerApproval = 105"
| "contract_code AssetNotAllowed = 106"
| "contract_code NoExecutor = 107"
| "contract_code NotExecutor = 108"
| "contract_code ScheduleNotFound = 109"
| "contract_code ScheduleNotDue = 110"
| "contract_code ScheduleInactive = 111"
| "contract_code InvalidSchedule = 112"
| "contract_code NotScheduleOwner = 113"
| "contract_code TooManySchedules = 114"
| "contract_code Overflow = 115"
| "contract_code InsufficientAllowance = 116"

text \<open>The identifier of a variant, as the source spells it.\<close>

fun contract_error_name :: "contract_error \<Rightarrow> string" where
  "contract_error_name NotConfigured = ''NotConfigured''"
| "contract_error_name InvalidAmount = ''InvalidAmount''"
| "contract_error_name InvalidRule = ''InvalidRule''"
| "contract_error_name OverPerTxLimit = ''OverPerTxLimit''"
| "contract_error_name OverDailyLimit = ''OverDailyLimit''"
| "contract_error_name NeedsOwnerApproval = ''NeedsOwnerApproval''"
| "contract_error_name AssetNotAllowed = ''AssetNotAllowed''"
| "contract_error_name NoExecutor = ''NoExecutor''"
| "contract_error_name NotExecutor = ''NotExecutor''"
| "contract_error_name ScheduleNotFound = ''ScheduleNotFound''"
| "contract_error_name ScheduleNotDue = ''ScheduleNotDue''"
| "contract_error_name ScheduleInactive = ''ScheduleInactive''"
| "contract_error_name InvalidSchedule = ''InvalidSchedule''"
| "contract_error_name NotScheduleOwner = ''NotScheduleOwner''"
| "contract_error_name TooManySchedules = ''TooManySchedules''"
| "contract_error_name Overflow = ''Overflow''"
| "contract_error_name InsufficientAllowance = ''InsufficientAllowance''"

section \<open>The rule and the owner's state\<close>

text \<open>\<open>Rule\<close> of the contract, mirrored field by field by \<open>guard/types.ts\<close>.\<close>

record rule =
  auto_approve_limit :: int
  per_tx_limit :: int
  daily_limit :: int
  allowed_assets :: "string list"
  known_recipients_only :: bool

record day_spend =
  ds_day :: nat
  ds_amount :: int

record guard_state =
  gs_rule :: "rule option"
  gs_executor :: "string option"
  gs_known :: "string \<Rightarrow> bool"
  gs_spent :: "day_spend option"

record token =
  tk_allowance :: "string \<Rightarrow> int"
  tk_transfer :: "string \<Rightarrow> string \<Rightarrow> int \<Rightarrow> bool"

datatype guard_failure = Guard_Err contract_error | Token_Trap

definition MAX_ALLOWED_ASSETS_CONTRACT :: nat where
  "MAX_ALLOWED_ASSETS_CONTRACT = 10"

definition DAY_SECS :: nat where
  "DAY_SECS = 86400"

text \<open>\<open>i128::checked_add\<close>: \<open>None\<close> when the sum leaves the 128-bit range.\<close>

definition checked_add_i128 :: "int \<Rightarrow> int \<Rightarrow> int option" where
  "checked_add_i128 a b = (if - (2 ^ 127) \<le> a + b \<and> a + b < 2 ^ 127 then Some (a + b) else None)"

definition validate_rule :: "rule \<Rightarrow> contract_error + unit" where
  "validate_rule r =
     (if per_tx_limit r \<le> 0 \<or> daily_limit r \<le> 0 \<or> auto_approve_limit r < 0 then Inl InvalidRule
      else if auto_approve_limit r > per_tx_limit r \<or> per_tx_limit r > daily_limit r then Inl InvalidRule
      else if length (allowed_assets r) > MAX_ALLOWED_ASSETS_CONTRACT then Inl InvalidRule
      else if length (allowed_assets r) > 1 then Inl InvalidRule
      else Inr ())"

definition set_rule :: "guard_state \<Rightarrow> rule \<Rightarrow> contract_error + guard_state" where
  "set_rule st r = and_then (validate_rule r) (\<lambda>_. Inr (st\<lparr>gs_rule := Some r\<rparr>))"

definition set_executor :: "guard_state \<Rightarrow> string \<Rightarrow> guard_state" where
  "set_executor st e = st\<lparr>gs_executor := Some e\<rparr>"

definition revoke_executor :: "guard_state \<Rightarrow> guard_state" where
  "revoke_executor st = st\<lparr>gs_executor := None\<rparr>"

definition load_rule :: "guard_state \<Rightarrow> contract_error + rule" where
  "load_rule st = (case gs_rule st of None \<Rightarrow> Inl NotConfigured | Some r \<Rightarrow> Inr r)"

definition check_asset :: "rule \<Rightarrow> string \<Rightarrow> contract_error + unit" where
  "check_asset r asset = (if asset \<in> set (allowed_assets r) then Inr () else Inl AssetNotAllowed)"

definition today :: "nat \<Rightarrow> nat" where
  "today now = now div DAY_SECS"

definition read_spend :: "nat \<Rightarrow> guard_state \<Rightarrow> int" where
  "read_spend now st =
     (case gs_spent st of
        Some s \<Rightarrow> if ds_day s = today now then ds_amount s else 0
      | None \<Rightarrow> 0)"

definition check_hard_caps :: "nat \<Rightarrow> guard_state \<Rightarrow> rule \<Rightarrow> int \<Rightarrow> contract_error + unit" where
  "check_hard_caps now st r amount =
     (if amount \<le> 0 then Inl InvalidAmount
      else if amount > per_tx_limit r then Inl OverPerTxLimit
      else case checked_add_i128 (read_spend now st) amount of
             None \<Rightarrow> Inl Overflow
           | Some spent \<Rightarrow> if spent > daily_limit r then Inl OverDailyLimit else Inr ())"

definition record_spend :: "nat \<Rightarrow> guard_state \<Rightarrow> int \<Rightarrow> contract_error + guard_state" where
  "record_spend now st amount =
     (case checked_add_i128 (read_spend now st) amount of
        None \<Rightarrow> Inl Overflow
      | Some spent \<Rightarrow> Inr (st\<lparr>gs_spent := Some \<lparr>ds_day = today now, ds_amount = spent\<rparr>\<rparr>))"

definition settle :: "token \<Rightarrow> string \<Rightarrow> string \<Rightarrow> int \<Rightarrow> guard_failure + unit" where
  "settle tk to_addr asset amount =
     (if tk_allowance tk asset < amount then Inl (Guard_Err InsufficientAllowance)
      else if tk_transfer tk to_addr asset amount then Inr () else Inl Token_Trap)"

text \<open>A failing check of the contract, seen from the invocation.\<close>

definition lift_err :: "contract_error + 'a \<Rightarrow> guard_failure + 'a" where
  "lift_err r = catchE r Guard_Err"

definition pay_owner ::
    "token \<Rightarrow> nat \<Rightarrow> guard_state \<Rightarrow> string \<Rightarrow> string \<Rightarrow> int \<Rightarrow> guard_failure + guard_state" where
  "pay_owner tk now st to_addr asset amount =
     and_then (lift_err (load_rule st)) (\<lambda>r.
     and_then (lift_err (check_hard_caps now st r amount)) (\<lambda>_.
     and_then (lift_err (record_spend now st amount)) (\<lambda>st'.
     and_then (settle tk to_addr asset amount) (\<lambda>_. Inr st'))))"

definition pay_executor ::
    "token \<Rightarrow> nat \<Rightarrow> guard_state \<Rightarrow> string \<Rightarrow> string \<Rightarrow> string \<Rightarrow> int \<Rightarrow> guard_failure + guard_state" where
  "pay_executor tk now st executor to_addr asset amount =
     (case gs_executor st of
        None \<Rightarrow> Inl (Guard_Err NoExecutor)
      | Some registered \<Rightarrow>
          if registered \<noteq> executor then Inl (Guard_Err NotExecutor)
          else
            and_then (lift_err (load_rule st)) (\<lambda>r.
            and_then (lift_err (check_asset r asset)) (\<lambda>_.
            and_then (lift_err (check_hard_caps now st r amount)) (\<lambda>_.
            if amount > auto_approve_limit r then Inl (Guard_Err NeedsOwnerApproval)
            else if known_recipients_only r \<and> \<not> gs_known st to_addr
              then Inl (Guard_Err NeedsOwnerApproval)
            else
              and_then (lift_err (record_spend now st amount)) (\<lambda>st'.
              and_then (settle tk to_addr asset amount) (\<lambda>_. Inr st'))))))"

text \<open>
  The paginated scan the keeper polls: \<open>due i\<close> says that the schedule \<open>i\<close> exists, is active and
  its next run is not in the future; \<open>end_of_space\<close> is the next id to be given out.
\<close>

definition MAX_DUE_SCAN :: nat where
  "MAX_DUE_SCAN = 100"

definition list_due :: "nat \<Rightarrow> (nat \<Rightarrow> bool) \<Rightarrow> nat \<Rightarrow> nat \<Rightarrow> nat list \<times> nat" where
  "list_due end_of_space due cursor limit =
     (let start = (if cursor < 1 then 1 else cursor);
          window = (if limit > MAX_DUE_SCAN then MAX_DUE_SCAN else limit)
      in if window = 0 \<or> start \<ge> end_of_space then ([], 0)
         else
           let e = min (start + window) end_of_space
           in (filter due [start..<e], if e \<ge> end_of_space then 0 else e))"

section \<open>Facts\<close>

lemma lift_err_Inr [simp]: "lift_err r = Inr x \<longleftrightarrow> r = Inr x"
  by (simp add: lift_err_def)

lemma lift_err_Inl [simp]: "lift_err r = Inl e \<longleftrightarrow> (\<exists>c. r = Inl c \<and> e = Guard_Err c)"
  by (auto simp: lift_err_def)

lemma load_rule_Inr [simp]: "load_rule st = Inr r \<longleftrightarrow> gs_rule st = Some r"
  by (simp add: load_rule_def split: option.splits)

lemma check_asset_Inr [simp]: "check_asset r a = Inr u \<longleftrightarrow> a \<in> set (allowed_assets r)"
  by (simp add: check_asset_def)

lemma check_hard_caps_Inr: "check_hard_caps now st r amount = Inr u \<longleftrightarrow>
    0 < amount \<and> amount \<le> per_tx_limit r \<and> read_spend now st + amount \<le> daily_limit r
    \<and> checked_add_i128 (read_spend now st) amount = Some (read_spend now st + amount)"
  by (auto simp: check_hard_caps_def checked_add_i128_def split: if_splits)

lemma record_spend_Inr: "record_spend now st amount = Inr st' \<longleftrightarrow>
    checked_add_i128 (read_spend now st) amount = Some (read_spend now st + amount)
    \<and> st' = st\<lparr>gs_spent := Some \<lparr>ds_day = today now, ds_amount = read_spend now st + amount\<rparr>\<rparr>"
  by (auto simp: record_spend_def checked_add_i128_def split: if_splits)

lemma settle_Inr: "settle tk to_addr asset amount = Inr u \<longleftrightarrow>
    amount \<le> tk_allowance tk asset \<and> tk_transfer tk to_addr asset amount"
  by (simp add: settle_def)

text \<open>When the agent's entry point pays, in one line.\<close>

definition agent_may_pay :: "token \<Rightarrow> nat \<Rightarrow> guard_state \<Rightarrow> string \<Rightarrow> string \<Rightarrow> string \<Rightarrow> int \<Rightarrow> bool" where
  "agent_may_pay tk now st executor to_addr asset amount \<longleftrightarrow>
     (\<exists>st'. pay_executor tk now st executor to_addr asset amount = Inr st')"

lemma agent_may_pay_iff:
  "agent_may_pay tk now st executor to_addr asset amount \<longleftrightarrow>
     gs_executor st = Some executor \<and>
     (\<exists>r. gs_rule st = Some r \<and> asset \<in> set (allowed_assets r)
        \<and> 0 < amount \<and> amount \<le> per_tx_limit r \<and> read_spend now st + amount \<le> daily_limit r
        \<and> amount \<le> auto_approve_limit r
        \<and> (known_recipients_only r \<longrightarrow> gs_known st to_addr))
     \<and> checked_add_i128 (read_spend now st) amount = Some (read_spend now st + amount)
     \<and> amount \<le> tk_allowance tk asset \<and> tk_transfer tk to_addr asset amount"
proof (cases "gs_executor st = Some executor \<and> gs_rule st \<noteq> None")
  case True
  then obtain r where "gs_executor st = Some executor" and r: "gs_rule st = Some r" by auto
  then have "pay_executor tk now st executor to_addr asset amount =
      and_then (lift_err (check_asset r asset)) (\<lambda>_.
      and_then (lift_err (check_hard_caps now st r amount)) (\<lambda>_.
      if amount > auto_approve_limit r then Inl (Guard_Err NeedsOwnerApproval)
      else if known_recipients_only r \<and> \<not> gs_known st to_addr
        then Inl (Guard_Err NeedsOwnerApproval)
      else and_then (lift_err (record_spend now st amount)) (\<lambda>st'.
           and_then (settle tk to_addr asset amount) (\<lambda>_. Inr st'))))"
    by (simp add: pay_executor_def load_rule_def lift_err_def)
  then show ?thesis using True r
    by (auto simp: agent_may_pay_def check_hard_caps_Inr record_spend_Inr settle_Inr)
next
  case False
  then show ?thesis by (auto simp: agent_may_pay_def pay_executor_def split: option.splits)
qed

lemma validate_rule_Inr: "validate_rule r = Inr u \<longleftrightarrow>
    0 < per_tx_limit r \<and> 0 < daily_limit r \<and> 0 \<le> auto_approve_limit r
    \<and> auto_approve_limit r \<le> per_tx_limit r \<and> per_tx_limit r \<le> daily_limit r
    \<and> length (allowed_assets r) \<le> 1"
  by (auto simp: validate_rule_def MAX_ALLOWED_ASSETS_CONTRACT_def)

lemma set_rule_Inr: "set_rule st r = Inr st' \<longleftrightarrow>
    validate_rule r = Inr () \<and> st' = st\<lparr>gs_rule := Some r\<rparr>"
  by (auto simp: set_rule_def)

text \<open>The client's table and the contract's enum agree, code by code and name by name.\<close>

theorem guard_errors_match_contract:
  "\<exists>k. guard_errors (contract_code e) = Some (contract_error_name e, k)"
  by (cases e) (simp_all add: guard_errors_def)

lemma contract_code_inj: "contract_code a = contract_code b \<Longrightarrow> a = b"
  by (cases a; cases b; simp)

end
