(* ===== verification/Guard_Route.thy ===== *)
theory Guard_Route
  imports Guard_Contract
begin

text \<open>
  \<open>stellar/src/guard/route.ts\<close>: the entry point a guarded payment must use, decided before
  any transaction is built, and its comparison with the contract's two entry points.
\<close>

datatype guard_route = Pay_Executor | Pay_Owner

record guard_route_decision =
  rd_route :: guard_route
  rd_reason :: string

record guard_route_input =
  ri_rule :: rule
  ri_executor :: "string option"
  ri_amountRaw :: int
  ri_asset :: string
  ri_recipientKnown :: bool

definition refuse :: "string \<Rightarrow> nat \<Rightarrow> string \<Rightarrow> guard_client_error + 'a" where
  "refuse n code m = Inl (guard_error n Rule_Violated (Some code) m)"

definition decision :: "guard_route \<Rightarrow> string \<Rightarrow> guard_client_error + guard_route_decision" where
  "decision r why = Inr \<lparr>rd_route = r, rd_reason = why\<rparr>"

definition chooseGuardedRoute :: "guard_route_input \<Rightarrow> guard_client_error + guard_route_decision" where
  "chooseGuardedRoute i =
     (let r = ri_rule i; amount = ri_amountRaw i in
      if amount \<le> 0 then
        refuse ''InvalidAmount'' 101
          (''guarded amount must be positive, got '' @ show_int amount @ '' raw units'')
      else if \<not> List.member (allowed_assets r) (ri_asset i) then
        refuse ''AssetNotAllowed'' 106
          (''asset '' @ ri_asset i @ '' is not in the owner's allowed_assets'')
      else if amount > per_tx_limit r then
        refuse ''OverPerTxLimit'' 103
          (''amount '' @ show_int amount @ '' raw units exceeds the owner's per_tx_limit ''
             @ show_int (per_tx_limit r))
      else if ri_executor i = None then
        decision Pay_Owner ''no executor registered; the owner must sign''
      else if amount > auto_approve_limit r then
        decision Pay_Owner
          (''amount '' @ show_int amount @ '' exceeds auto_approve_limit ''
             @ show_int (auto_approve_limit r) @ ''; the owner must sign'')
      else if known_recipients_only r \<and> \<not> ri_recipientKnown i then
        decision Pay_Owner ''recipient is not in the alias book and known_recipients_only is set''
      else decision Pay_Executor ''inside the agent mandate; the executor may sign'')"

section \<open>The decision, case by case\<close>

definition route_is :: "guard_route_input \<Rightarrow> guard_route \<Rightarrow> bool" where
  "route_is i r = (case chooseGuardedRoute i of Inl _ \<Rightarrow> False | Inr d \<Rightarrow> rd_route d = r)"

lemma decision_Inr [simp]: "decision r why = Inr d \<longleftrightarrow> d = \<lparr>rd_route = r, rd_reason = why\<rparr>"
  by (auto simp: decision_def)

lemma decision_not_Inl [simp]: "decision r why \<noteq> Inl e"
  by (simp add: decision_def)

lemma refuse_not_Inr [simp]: "refuse n c m \<noteq> Inr d"
  by (simp add: refuse_def)

lemma route_accepted_iff:
  "(\<exists>d. chooseGuardedRoute i = Inr d) \<longleftrightarrow>
     0 < ri_amountRaw i \<and> ri_asset i \<in> set (allowed_assets (ri_rule i))
     \<and> ri_amountRaw i \<le> per_tx_limit (ri_rule i)"
  by (auto simp: chooseGuardedRoute_def Let_def refuse_def decision_def)

lemma route_executor_iff:
  "route_is i Pay_Executor \<longleftrightarrow>
     0 < ri_amountRaw i \<and> ri_asset i \<in> set (allowed_assets (ri_rule i))
     \<and> ri_amountRaw i \<le> per_tx_limit (ri_rule i) \<and> ri_executor i \<noteq> None
     \<and> ri_amountRaw i \<le> auto_approve_limit (ri_rule i)
     \<and> (known_recipients_only (ri_rule i) \<longrightarrow> ri_recipientKnown i)"
  by (auto simp: route_is_def chooseGuardedRoute_def Let_def refuse_def decision_def)

text \<open>The input the payment tool builds from what it reads of the chain.\<close>

definition route_input :: "guard_state \<Rightarrow> rule \<Rightarrow> string \<Rightarrow> string \<Rightarrow> int \<Rightarrow> guard_route_input" where
  "route_input st r to_addr asset amount =
     \<lparr>ri_rule = r, ri_executor = gs_executor st, ri_amountRaw = amount, ri_asset = asset,
      ri_recipientKnown = gs_known st to_addr\<rparr>"

lemmas route_input_simps [simp] = route_input_def

section \<open>The decision against the contract\<close>

text \<open>C1: The route decision is exactly the agent's mandate of the contract.  When a rule and
  an executor are on chain, \<open>pay_executor\<close> goes through if and only if the client chose the
  executor route and the three things the decision does not look at hold: the day's spend
  stays within the daily limit (without overflow), the token allowance covers the amount,
  and the token transfers.\<close>

theorem route_is_contract_mandate:
  assumes "gs_rule st = Some r" and "gs_executor st = Some e"
  shows "agent_may_pay tk now st e to_addr asset amount \<longleftrightarrow>
     route_is (route_input st r to_addr asset amount) Pay_Executor
     \<and> read_spend now st + amount \<le> daily_limit r
     \<and> checked_add_i128 (read_spend now st) amount \<noteq> None
     \<and> amount \<le> tk_allowance tk asset \<and> tk_transfer tk to_addr asset amount"
proof -
  have "checked_add_i128 (read_spend now st) amount \<noteq> None \<longleftrightarrow>
      checked_add_i128 (read_spend now st) amount = Some (read_spend now st + amount)"
    by (simp add: checked_add_i128_def)
  then show ?thesis
    using assms by (auto simp: agent_may_pay_iff route_executor_iff)
qed

definition rule_example :: rule where
  "rule_example = \<lparr>auto_approve_limit = 50, per_tx_limit = 100, daily_limit = 200,
     allowed_assets = [''CUSDC''], known_recipients_only = True\<rparr>"

definition state_example :: guard_state where
  "state_example = \<lparr>gs_rule = Some rule_example, gs_executor = Some ''GAGENT'',
     gs_known = (\<lambda>a. a = ''GALICE''), gs_spent = Some \<lparr>ds_day = 20000, ds_amount = 180\<rparr>\<rparr>"

definition token_example :: token where
  "token_example = \<lparr>tk_allowance = (\<lambda>_. 1000), tk_transfer = (\<lambda>_ _ _. True)\<rparr>"

lemmas example_defs = rule_example_def state_example_def token_example_def

theorem route_is_contract_mandate_witness:
  "agent_may_pay token_example (20000 * 86400 + 5) state_example ''GAGENT'' ''GALICE'' ''CUSDC'' 20
   \<and> \<not> agent_may_pay token_example (20000 * 86400 + 5) state_example ''GAGENT'' ''GALICE'' ''CUSDC'' 21"
proof -
  have st: "gs_rule state_example = Some rule_example" "gs_executor state_example = Some ''GAGENT''"
    by (simp_all add: state_example_def)
  show ?thesis
    unfolding route_is_contract_mandate [OF st]
    by (simp add: route_executor_iff example_defs read_spend_def today_def DAY_SECS_def
        checked_add_i128_def)
qed




text \<open>The two sides disagree about one input: for an amount that is not positive and an
  asset that is not allowed, the client reports \<open>InvalidAmount\<close> and the contract's agent
  entry point, which looks at the asset first, \<open>AssetNotAllowed\<close>.\<close>

theorem route_refusal_order_differs:
  "\<exists>err. chooseGuardedRoute (route_input state_example rule_example ''GALICE'' ''CEURC'' 0) = Inl err
     \<and> ge_name err = ''InvalidAmount''
     \<and> pay_executor token_example 0 state_example ''GAGENT'' ''GALICE'' ''CEURC'' 0
       = Inl (Guard_Err AssetNotAllowed)"
  by (simp add: chooseGuardedRoute_def Let_def refuse_def guard_error_def example_defs
      pay_executor_def load_rule_def lift_err_def check_asset_def)

end
