(* ===== verification/Guard_Amount.thy ===== *)
theory Guard_Amount
  imports Guard_Errors
begin

text \<open>
  \<open>stellar/src/guard/amount.ts\<close>: the only conversion between decimal amounts and raw token
  units, 7 decimals to a token.
\<close>

definition TOKEN_DECIMALS :: nat where
  "TOKEN_DECIMALS = 7"

definition RAW_UNITS_PER_TOKEN :: int where
  "RAW_UNITS_PER_TOKEN = 10 ^ TOKEN_DECIMALS"

definition I128_MAX :: int where
  "I128_MAX = 2 ^ 127 - 1"

definition I128_MIN :: int where
  "I128_MIN = - (2 ^ 127)"

definition invalidAmount :: "string \<Rightarrow> guard_client_error" where
  "invalidAmount m = guard_error ''InvalidAmount'' Rule_Violated (Some 101) m"

definition toRawUnits :: "string \<Rightarrow> guard_client_error + int" where
  "toRawUnits amount =
     (if \<not> amount_re TOKEN_DECIMALS amount then
        Inl (invalidAmount (''amount must be a non-negative decimal string with at most 7 fraction digits, got ''
              @ json_quote amount))
      else
        let parts = js_split CHR ''.'' amount;
            whole = nth_or ''0'' parts 0;
            frac = nth_or [] parts 1;
            raw = int (nat_of_dec whole) * RAW_UNITS_PER_TOKEN
                  + int (nat_of_dec (pad_end TOKEN_DECIMALS CHR ''0'' frac))
        in if raw > I128_MAX
           then Inl (invalidAmount (''amount '' @ json_quote amount @ '' exceeds i128::MAX''))
           else Inr raw)"

definition fromRawUnits :: "int \<Rightarrow> guard_client_error + string" where
  "fromRawUnits raw =
     (if raw < 0 then Inl (invalidAmount (''raw amount must not be negative, got '' @ show_int raw))
      else
        let whole = raw div RAW_UNITS_PER_TOKEN;
            frac = strip_zeros (pad_start TOKEN_DECIMALS CHR ''0'' (show_int (raw mod RAW_UNITS_PER_TOKEN)))
        in Inr (if frac \<noteq> [] then show_int whole @ ''.'' @ frac else show_int whole))"

text \<open>\<open>stroopsToXlm\<close> of \<open>guard/describe.ts\<close> and \<open>payments/summary.ts\<close>, on the fee as a number.\<close>

definition stroopsToXlm :: "nat \<Rightarrow> string" where
  "stroopsToXlm n =
     (let whole = n div 10000000;
          frac = strip_zeros (pad_start 7 CHR ''0'' (dec_digits (n mod 10000000)))
      in if frac \<noteq> [] then dec_digits whole @ ''.'' @ frac else dec_digits whole)"

section \<open>The two directions against the shared arithmetic\<close>

lemma raw_units_power: "RAW_UNITS_PER_TOKEN = 10 ^ 7"
  by (simp add: RAW_UNITS_PER_TOKEN_def TOKEN_DECIMALS_def)

lemma scaled_value_less_i128: "amount_re 7 s \<Longrightarrow> int (scaled_value 7 s) \<le> I128_MAX"
proof -
  assume "amount_re 7 s"
  then have "scaled_value 7 s < 10 ^ (12 + 7)" by (rule scaled_value_bound)
  then have "int (scaled_value 7 s) < 10 ^ 19" by simp
  moreover have "(10::int) ^ 19 \<le> I128_MAX" by (simp add: I128_MAX_def)
  ultimately show ?thesis by linarith
qed

text \<open>The \<open>i128\<close> check of \<open>toRawUnits\<close> never fires: the pattern already bounds the value.\<close>

lemma toRawUnits_eq:
  "toRawUnits s =
     (if amount_re 7 s then Inr (int (scaled_value 7 s))
      else Inl (invalidAmount (''amount must be a non-negative decimal string with at most 7 fraction digits, got ''
              @ json_quote s)))"
proof (cases "amount_re 7 s")
  case True
  have "int (nat_of_dec (nth_or ''0'' (js_split CHR ''.'' s) 0)) * RAW_UNITS_PER_TOKEN
      + int (nat_of_dec (pad_end 7 CHR ''0'' (nth_or [] (js_split CHR ''.'' s) 1)))
      = int (scaled_value 7 s)"
    by (simp add: scaled_value_def Let_def raw_units_power)
  then show ?thesis using True scaled_value_less_i128 [OF True]
    by (simp add: toRawUnits_def TOKEN_DECIMALS_def Let_def)
qed (simp add: toRawUnits_def TOKEN_DECIMALS_def)

lemma toRawUnits_Inr: "toRawUnits s = Inr n \<longleftrightarrow> amount_re 7 s \<and> n = int (scaled_value 7 s)"
  by (auto simp: toRawUnits_eq)

lemma toRawUnits_range: "toRawUnits s = Inr n \<Longrightarrow> 0 \<le> n \<and> n < 10 ^ 19"
  using scaled_value_bound [of 7 s] by (auto simp: toRawUnits_Inr)

lemma fromRawUnits_eq:
  "0 \<le> raw \<Longrightarrow> fromRawUnits raw = Inr (scaled_print 7 (nat raw))"
proof -
  assume raw: "0 \<le> raw"
  then have "0 \<le> raw div 10 ^ 7" "0 \<le> raw mod 10 ^ 7"
    by (simp_all add: pos_imp_zdiv_nonneg_iff)
  with raw show ?thesis
    by (simp add: fromRawUnits_def scaled_print_def scaled_frac_def Let_def raw_units_power
        TOKEN_DECIMALS_def nat_div_distrib nat_mod_distrib not_less)
qed

lemma fromRawUnits_Inr: "fromRawUnits raw = Inr s \<longleftrightarrow> 0 \<le> raw \<and> s = scaled_print 7 (nat raw)"
proof (cases "0 \<le> raw")
  case True
  then show ?thesis by (auto simp: fromRawUnits_eq)
qed (auto simp: fromRawUnits_def)

lemma stroopsToXlm_eq: "stroopsToXlm n = scaled_print 7 n"
  by (simp add: stroopsToXlm_def scaled_print_def scaled_frac_def Let_def)

text \<open>What evaluates \<open>toRawUnits\<close> on a closed string.\<close>

lemmas amount_eval = toRawUnits_eq amount_re_def scaled_value_def nth_or_def nat_of_dec_Cons
  nat_of_dec_pad_end digit_val_def is_digit_def char_code_def Let_def

section \<open>The codec\<close>

definition raw_printable :: "int \<Rightarrow> bool" where
  "raw_printable n \<longleftrightarrow> 0 \<le> n \<and> n < 10 ^ 19"

definition print_raw :: "int \<Rightarrow> string" where
  "print_raw n = (case fromRawUnits n of Inl _ \<Rightarrow> [] | Inr s \<Rightarrow> s)"

interpretation guard_codec:
  decimal_codec print_raw "\<lambda>s. result_option (toRawUnits s)" raw_printable
proof
  fix n assume "raw_printable n"
  then have n: "0 \<le> n" "nat n < 10 ^ (12 + 7)" by (simp_all add: raw_printable_def nat_less_iff)
  then have "amount_re 7 (scaled_print 7 (nat n))" by (intro scaled_print_re) simp_all
  then show "result_option (toRawUnits (print_raw n)) = Some n"
    using n by (simp add: print_raw_def fromRawUnits_eq toRawUnits_eq scaled_roundtrip)
next
  fix s n assume "result_option (toRawUnits s) = Some n"
  then show "raw_printable n" using toRawUnits_range [of s n] by (simp add: raw_printable_def)
qed

text \<open>C21: Converting raw token units to a decimal string and back is the identity on every
  amount below \<open>10^19\<close> raw units, which is every amount \<open>toRawUnits\<close> can ever produce.\<close>

theorem raw_units_roundtrip:
  assumes "0 \<le> raw" "raw < 10 ^ 19"
  shows "\<exists>s. fromRawUnits raw = Inr s \<and> toRawUnits s = Inr raw"
  using guard_codec.parse_print [of raw] assms
  by (simp add: raw_printable_def print_raw_def fromRawUnits_eq)

theorem raw_units_roundtrip_witness:
  "\<exists>s. fromRawUnits 105000000 = Inr s \<and> toRawUnits s = Inr 105000000"
  by (rule raw_units_roundtrip) simp_all

end
