(* ===== verification/JS_Number.thy ===== *)
theory JS_Number
  imports Prelude Complex_Main
begin

text \<open>
  The numbers of JavaScript, where a source checks one: every finite double is a rational,
  and there are \<open>NaN\<close> and the two infinities.  Arithmetic appears in the models only after
  such a check, on integers of at most 53 bits, where it is exact.
\<close>

datatype js_number = JNum rat | JNaN | JInf bool

definition jint :: "int \<Rightarrow> js_number" where
  "jint i = JNum (of_int i)"

text \<open>\<open>Number.isInteger\<close>.\<close>

fun is_integer :: "js_number \<Rightarrow> bool" where
  "is_integer (JNum q) = (of_int \<lfloor>q\<rfloor> = q)"
| "is_integer JNaN = False"
| "is_integer (JInf b) = False"

text \<open>The integer a number that passed \<open>Number.isInteger\<close> is, and \<open>Math.floor\<close>.\<close>

fun jfloor :: "js_number \<Rightarrow> int" where
  "jfloor (JNum q) = \<lfloor>q\<rfloor>"
| "jfloor JNaN = 0"
| "jfloor (JInf b) = 0"

text \<open>\<open>x < i\<close> and \<open>x > i\<close> against an integer constant: false for \<open>NaN\<close>.\<close>

fun jless :: "js_number \<Rightarrow> int \<Rightarrow> bool" where
  "jless (JNum q) i = (q < of_int i)"
| "jless JNaN i = False"
| "jless (JInf pos) i = (\<not> pos)"

fun jgreater :: "js_number \<Rightarrow> int \<Rightarrow> bool" where
  "jgreater (JNum q) i = (q > of_int i)"
| "jgreater JNaN i = False"
| "jgreater (JInf pos) i = pos"

text \<open>\<open>Number.isSafeInteger\<close>.\<close>

definition is_safe_integer :: "js_number \<Rightarrow> bool" where
  "is_safe_integer x \<longleftrightarrow> is_integer x \<and> - (2 ^ 53 - 1) \<le> jfloor x \<and> jfloor x \<le> 2 ^ 53 - 1"

lemma is_integer_jint [simp]: "is_integer (jint i)" "jfloor (jint i) = i"
  "jless (jint i) k \<longleftrightarrow> i < k" "jgreater (jint i) k \<longleftrightarrow> i > k"
  by (simp_all add: jint_def)

lemma is_integer_cases: "is_integer x \<longleftrightarrow> (\<exists>i. x = jint i)"
proof (cases x)
  case (JNum q)
  show ?thesis
  proof
    assume "is_integer x"
    then have "x = jint \<lfloor>q\<rfloor>" by (auto simp: JNum jint_def)
    then show "\<exists>i. x = jint i" ..
  qed auto
qed (auto simp: jint_def)

text \<open>
  \<open>Number(n)\<close> of a big integer: the nearest double, a tie to the even one.  Above 53 bits the
  doubles are the multiples of \<open>double_step\<close>.
\<close>

fun double_step :: "nat \<Rightarrow> nat" where
  "double_step n = (if n < 2 ^ 53 then 1 else 2 * double_step (n div 2))"

declare double_step.simps [simp del]

definition double_of :: "int \<Rightarrow> int" where
  "double_of n =
     (let s = int (double_step (nat \<bar>n\<bar>)); q = \<bar>n\<bar> div s; r = \<bar>n\<bar> mod s;
          m = (if 2 * r > s \<or> 2 * r = s \<and> odd q then q + 1 else q) * s
      in if n < 0 then - m else m)"

lemma double_step_small: "n < 2 ^ 53 \<Longrightarrow> double_step n = 1"
  by (subst double_step.simps) simp

lemma double_of_small [simp]:
  assumes "\<bar>n\<bar> < 2 ^ 53"
  shows "double_of n = n"
proof -
  have "nat \<bar>n\<bar> < 2 ^ 53" using assms by (simp add: nat_less_iff)
  then have "double_step (nat \<bar>n\<bar>) = 1" by (rule double_step_small)
  then show ?thesis by (simp add: double_of_def Let_def)
qed

end
