(* ===== verification/Approval.thy ===== *)
theory Approval
  imports Guard_Route Guard_Amount JS_Number
begin

text \<open>
  The pure part of \<open>stellar/src/approval\<close>: the auto-pay draft and its validation
  (\<open>types.ts\<close>), the classification of a rule change (\<open>classify.ts\<close>), the narrowing of the
  chain's route (\<open>routing.ts\<close>) and the spoken read-back (\<open>readback.ts\<close>).

  A failure is its machine code: callers match on the code, never on the message.  The
  address checks of the SDK's \<open>StrKey\<close> are the record \<open>strkey\<close>, an argument.
\<close>

section \<open>The draft\<close>

datatype approval_mode = Always_Ask | Auto_Under_Limit | Custom_Mode

datatype approval_error =
  Invalid_Amount_String | Invalid_Executor | Threshold_Negative | Non_Positive_Limit
| Amount_Out_Of_Range | Limit_Order | Too_Many_Assets | No_Assets | Invalid_Asset
| Allowance_Too_Small | Invalid_Allowance_Days | Missing_Asset | Already_Armed | Use_Enable_Flow

record strkey =
  sk_isValidContract :: "string \<Rightarrow> bool"
  sk_isValidEd25519PublicKey :: "string \<Rightarrow> bool"

record auto_pay_draft =
  ad_executor :: string
  ad_thresholdRaw :: int
  ad_dailyLimitRaw :: int
  ad_perTxLimitRaw :: int
  ad_allowedAssets :: "string list"
  ad_knownRecipientsOnly :: bool
  ad_allowanceRaw :: int
  ad_allowanceDays :: js_number

record auto_pay_draft_input =
  ai_executor :: string
  ai_threshold :: string
  ai_perTxLimit :: string
  ai_dailyLimit :: string
  ai_allowedAssets :: "string list"
  ai_knownRecipientsOnly :: bool
  ai_allowance :: "string option"
  ai_allowanceDays :: "js_number option"

definition DEFAULT_APPROVAL_PROFILE :: approval_mode where
  "DEFAULT_APPROVAL_PROFILE = Always_Ask"

definition MAX_ALLOWED_ASSETS :: nat where "MAX_ALLOWED_ASSETS = 1"
definition MIN_ALLOWANCE_DAYS :: int where "MIN_ALLOWANCE_DAYS = 1"
definition MAX_ALLOWANCE_DAYS :: int where "MAX_ALLOWANCE_DAYS = 90"
definition DEFAULT_ALLOWANCE_DAYS :: int where "DEFAULT_ALLOWANCE_DAYS = 30"
definition DEFAULT_ALLOWANCE_MULTIPLIER :: int where "DEFAULT_ALLOWANCE_MULTIPLIER = 7"

lemmas approval_constants = MAX_ALLOWED_ASSETS_def MIN_ALLOWANCE_DAYS_def MAX_ALLOWANCE_DAYS_def
  DEFAULT_ALLOWANCE_DAYS_def DEFAULT_ALLOWANCE_MULTIPLIER_def

definition parseDraftAmount :: "string \<Rightarrow> approval_error + int" where
  "parseDraftAmount v = catchE (toRawUnits v) (\<lambda>_. Invalid_Amount_String)"

definition makeAutoPayDraft :: "auto_pay_draft_input \<Rightarrow> approval_error + auto_pay_draft" where
  "makeAutoPayDraft i =
     and_then (parseDraftAmount (ai_dailyLimit i)) (\<lambda>daily.
     and_then (case ai_allowance i of
                 None \<Rightarrow> Inr (daily * DEFAULT_ALLOWANCE_MULTIPLIER)
               | Some a \<Rightarrow> parseDraftAmount a) (\<lambda>allowance.
     and_then (parseDraftAmount (ai_threshold i)) (\<lambda>threshold.
     and_then (parseDraftAmount (ai_perTxLimit i)) (\<lambda>per_tx.
       Inr \<lparr>ad_executor = ai_executor i, ad_thresholdRaw = threshold, ad_dailyLimitRaw = daily,
            ad_perTxLimitRaw = per_tx, ad_allowedAssets = ai_allowedAssets i,
            ad_knownRecipientsOnly = ai_knownRecipientsOnly i, ad_allowanceRaw = allowance,
            ad_allowanceDays = (case ai_allowanceDays i of Some d \<Rightarrow> d
                                | None \<Rightarrow> jint DEFAULT_ALLOWANCE_DAYS)\<rparr>))))"

definition ruleFromDraft :: "auto_pay_draft \<Rightarrow> rule" where
  "ruleFromDraft d =
     \<lparr>auto_approve_limit = ad_thresholdRaw d, per_tx_limit = ad_perTxLimitRaw d,
      daily_limit = ad_dailyLimitRaw d, allowed_assets = ad_allowedAssets d,
      known_recipients_only = ad_knownRecipientsOnly d\<rparr>"

section \<open>Validation\<close>

definition assertAtMostI128 :: "int \<Rightarrow> approval_error + unit" where
  "assertAtMostI128 v = guardE (v \<le> I128_MAX) Amount_Out_Of_Range"

definition assertValidAsset :: "strkey \<Rightarrow> string \<Rightarrow> approval_error + unit" where
  "assertValidAsset sk a = guardE (sk_isValidContract sk a) Invalid_Asset"

fun assertValidAssets :: "strkey \<Rightarrow> string list \<Rightarrow> approval_error + unit" where
  "assertValidAssets sk [] = Inr ()"
| "assertValidAssets sk (a # as) = and_then (assertValidAsset sk a) (\<lambda>_. assertValidAssets sk as)"

definition validateRuleAndAllowance ::
    "strkey \<Rightarrow> rule \<Rightarrow> int \<Rightarrow> js_number \<Rightarrow> approval_error + unit" where
  "validateRuleAndAllowance sk r allowance days =
     and_then (guardE (\<not> auto_approve_limit r < 0) Threshold_Negative) (\<lambda>_.
     and_then (guardE (\<not> (per_tx_limit r \<le> 0 \<or> daily_limit r \<le> 0)) Non_Positive_Limit) (\<lambda>_.
     and_then (guardE (\<not> allowance \<le> 0) Non_Positive_Limit) (\<lambda>_.
     and_then (assertAtMostI128 (auto_approve_limit r)) (\<lambda>_.
     and_then (assertAtMostI128 (per_tx_limit r)) (\<lambda>_.
     and_then (assertAtMostI128 (daily_limit r)) (\<lambda>_.
     and_then (assertAtMostI128 allowance) (\<lambda>_.
     and_then (guardE (\<not> (auto_approve_limit r > per_tx_limit r \<or> per_tx_limit r > daily_limit r))
                 Limit_Order) (\<lambda>_.
     and_then (guardE (\<not> length (allowed_assets r) > MAX_ALLOWED_ASSETS) Too_Many_Assets) (\<lambda>_.
     and_then (guardE (\<not> length (allowed_assets r) = 0) No_Assets) (\<lambda>_.
     and_then (assertValidAssets sk (allowed_assets r)) (\<lambda>_.
     and_then (guardE (\<not> allowance < daily_limit r) Allowance_Too_Small) (\<lambda>_.
       guardE (\<not> (\<not> is_integer days \<or> jless days MIN_ALLOWANCE_DAYS
                   \<or> jgreater days MAX_ALLOWANCE_DAYS)) Invalid_Allowance_Days))))))))))))"

definition assertAssetMatchesRule :: "string option \<Rightarrow> rule \<Rightarrow> approval_error + unit" where
  "assertAssetMatchesRule asset r =
     (case asset of
        None \<Rightarrow> Inr ()
      | Some a \<Rightarrow> (case js_nth (allowed_assets r) 0 of
                    None \<Rightarrow> Inr ()
                  | Some first \<Rightarrow> guardE (first = a) Invalid_Asset))"

record baseline_input =
  bi_rule :: rule
  bi_allowanceRaw :: int
  bi_allowanceDays :: js_number
  bi_assetContractId :: string

definition validateBaselineSetup :: "strkey \<Rightarrow> baseline_input \<Rightarrow> approval_error + unit" where
  "validateBaselineSetup sk i =
     and_then (validateRuleAndAllowance sk (bi_rule i) (bi_allowanceRaw i) (bi_allowanceDays i)) (\<lambda>_.
     and_then (assertValidAsset sk (bi_assetContractId i)) (\<lambda>_.
       assertAssetMatchesRule (Some (bi_assetContractId i)) (bi_rule i)))"

definition validateAutoPayDraft :: "strkey \<Rightarrow> auto_pay_draft \<Rightarrow> approval_error + unit" where
  "validateAutoPayDraft sk d =
     and_then (guardE (sk_isValidEd25519PublicKey sk (ad_executor d)) Invalid_Executor) (\<lambda>_.
     and_then (validateRuleAndAllowance sk (ruleFromDraft d) (ad_allowanceRaw d) (ad_allowanceDays d)) (\<lambda>_.
       assertAssetMatchesRule (js_nth (ad_allowedAssets d) 0) (ruleFromDraft d)))"

section \<open>Classification of a rule change\<close>

datatype change_kind = Loosening | Tightening | Mixed | Same | New_Rule
datatype confirmation_level = Card_And_Touch_Id | Light | No_Confirmation

definition LIMIT_KEYS :: "(rule \<Rightarrow> int) list" where
  "LIMIT_KEYS = [auto_approve_limit, per_tx_limit, daily_limit]"

definition compare_key :: "rule \<Rightarrow> rule \<Rightarrow> (rule \<Rightarrow> int) \<Rightarrow> bool \<times> bool \<Rightarrow> bool \<times> bool" where
  "compare_key current nxt key lt =
     (if key nxt > key current then (True, snd lt)
      else if key nxt < key current then (fst lt, True) else lt)"

definition classifyChange :: "rule option \<Rightarrow> rule \<Rightarrow> change_kind" where
  "classifyChange cur nxt =
     (case cur of
        None \<Rightarrow> New_Rule
      | Some current \<Rightarrow>
          let (l, t) = fold (compare_key current nxt) LIMIT_KEYS (False, False);
              l = (l \<or> list_ex (\<lambda>a. \<not> List.member (allowed_assets current) a) (allowed_assets nxt));
              t = (t \<or> list_ex (\<lambda>a. \<not> List.member (allowed_assets nxt) a) (allowed_assets current));
              l = (l \<or> (known_recipients_only current \<and> \<not> known_recipients_only nxt));
              t = (t \<or> (\<not> known_recipients_only current \<and> known_recipients_only nxt))
          in if l \<and> t then Mixed else if l then Loosening else if t then Tightening else Same)"

fun confirmationLevel :: "change_kind \<Rightarrow> confirmation_level" where
  "confirmationLevel Loosening = Card_And_Touch_Id"
| "confirmationLevel Mixed = Card_And_Touch_Id"
| "confirmationLevel New_Rule = Card_And_Touch_Id"
| "confirmationLevel Tightening = Light"
| "confirmationLevel Same = No_Confirmation"

definition assertTightening :: "change_kind \<Rightarrow> approval_error + unit" where
  "assertTightening c = guardE (confirmationLevel c \<noteq> Card_And_Touch_Id) Use_Enable_Flow"

text \<open>The empty string is falsy, as an absent executor is.\<close>

definition profileFromChain :: "rule option \<Rightarrow> string option \<Rightarrow> approval_mode" where
  "profileFromChain r executor =
     (case r of
        None \<Rightarrow> Always_Ask
      | Some rl \<Rightarrow> if executor = None \<or> executor = Some [] then Always_Ask
                  else if auto_approve_limit rl \<le> 0 then Always_Ask
                  else Auto_Under_Limit)"

section \<open>Routing and read-back\<close>

definition resolveApprovalRoute :: "approval_mode option \<Rightarrow> guard_route \<Rightarrow> guard_route" where
  "resolveApprovalRoute profile chain_route =
     (let mode = (case profile of None \<Rightarrow> Always_Ask | Some m \<Rightarrow> m)
      in if mode = Always_Ask then Pay_Owner else chain_route)"

definition requiresApprovalCard :: "guard_route \<Rightarrow> bool" where
  "requiresApprovalCard r \<longleftrightarrow> r = Pay_Owner"

text \<open>A number in a template literal; \<open>dec\<close> prints the numbers that are not integers.\<close>

fun number_string :: "(rat \<Rightarrow> string) \<Rightarrow> js_number \<Rightarrow> string" where
  "number_string dec (JNum q) = (if of_int \<lfloor>q\<rfloor> = q then show_int \<lfloor>q\<rfloor> else dec q)"
| "number_string dec JNaN = ''NaN''"
| "number_string dec (JInf pos) = (if pos then ''Infinity'' else ''-Infinity'')"

definition readBack :: "(rat \<Rightarrow> string) \<Rightarrow> auto_pay_draft \<Rightarrow> string \<Rightarrow> guard_client_error + string" where
  "readBack dec d assetSymbol =
     and_then (fromRawUnits (ad_thresholdRaw d)) (\<lambda>threshold.
     and_then (fromRawUnits (ad_dailyLimitRaw d)) (\<lambda>daily.
       Inr (''Allow automatic payments up to '' @ threshold @ '' '' @ assetSymbol @ '', ''
         @ ''max '' @ daily @ '' '' @ assetSymbol @ '' per day, ''
         @ (if ad_knownRecipientsOnly d then ''to saved contacts only'' else ''to anyone'') @ '', ''
         @ ''for '' @ number_string dec (ad_allowanceDays d)
         @ '' days? This needs your approval.'')))"

definition readBackDisable :: "string \<Rightarrow> bool \<Rightarrow> string" where
  "readBackDisable assetSymbol revokeAllowance =
     (if revokeAllowance
      then ''Stop automatic payments and revoke the remaining '' @ assetSymbol
             @ '' allowance? This needs your confirmation.''
      else ''Stop automatic payments? This needs your confirmation.'')"

section \<open>Validation against the contract\<close>

lemma assertAtMostI128_Inr [simp]: "assertAtMostI128 v = Inr u \<longleftrightarrow> v \<le> I128_MAX"
  by (simp add: assertAtMostI128_def)

lemma assertValidAssets_Inr [simp]:
  "assertValidAssets sk as = Inr u \<longleftrightarrow> (\<forall>a \<in> set as. sk_isValidContract sk a)"
  by (induction as) (auto simp: assertValidAsset_def)

definition valid_days :: "js_number \<Rightarrow> bool" where
  "valid_days x \<longleftrightarrow> is_integer x \<and> \<not> jless x 1 \<and> \<not> jgreater x 90"

lemma valid_days_iff: "valid_days x \<longleftrightarrow> (\<exists>d. x = jint d \<and> 1 \<le> d \<and> d \<le> 90)"
  by (auto simp: valid_days_def is_integer_cases)

lemma validateRule_conditions:
  "validateRuleAndAllowance sk r al days = Inr u \<longleftrightarrow>
     0 \<le> auto_approve_limit r \<and> 0 < per_tx_limit r \<and> 0 < daily_limit r \<and> 0 < al
     \<and> al \<le> I128_MAX \<and> auto_approve_limit r \<le> per_tx_limit r \<and> per_tx_limit r \<le> daily_limit r
     \<and> length (allowed_assets r) = 1 \<and> (\<forall>a \<in> set (allowed_assets r). sk_isValidContract sk a)
     \<and> daily_limit r \<le> al \<and> valid_days days"
  unfolding validateRuleAndAllowance_def approval_constants valid_days_def
  by (auto simp: not_le not_less le_Suc_eq)

lemma length_one_iff: "length xs = 1 \<longleftrightarrow> (\<exists>a. xs = [a])" "length xs = Suc 0 \<longleftrightarrow> (\<exists>a. xs = [a])"
  by (cases xs; simp)+

text \<open>C16: The app's validation of a rule is the contract's validation plus the app's own rules
  and nothing else: it accepts exactly when the contract's \<open>validate_rule\<close> accepts, there is
  an asset and it is a valid contract id, the allowance fits an \<open>i128\<close> and covers the daily
  limit, and the lifetime is a whole number of days from 1 to 90.\<close>

theorem validate_is_contract_plus_app:
  "validateRuleAndAllowance sk r al days = Inr () \<longleftrightarrow>
     validate_rule r = Inr ()
     \<and> (\<exists>a. allowed_assets r = [a] \<and> sk_isValidContract sk a)
     \<and> daily_limit r \<le> al \<and> al \<le> I128_MAX
     \<and> (\<exists>d. days = jint d \<and> 1 \<le> d \<and> d \<le> 90)"
  unfolding validateRule_conditions validate_rule_Inr valid_days_iff length_one_iff by auto

lemma validateBaselineSetup_Inr:
  "validateBaselineSetup sk i = Inr () \<longleftrightarrow>
     validateRuleAndAllowance sk (bi_rule i) (bi_allowanceRaw i) (bi_allowanceDays i) = Inr ()
     \<and> allowed_assets (bi_rule i) = [bi_assetContractId i]"
proof -
  have "allowed_assets (bi_rule i) = [bi_assetContractId i]
      \<Longrightarrow> validateRuleAndAllowance sk (bi_rule i) (bi_allowanceRaw i) (bi_allowanceDays i) = Inr ()
      \<Longrightarrow> sk_isValidContract sk (bi_assetContractId i)"
    by (simp add: validateRule_conditions)
  then show ?thesis
    by (auto simp: validateBaselineSetup_def assertValidAsset_def assertAssetMatchesRule_def js_nth_def
        validateRule_conditions length_one_iff)
qed

lemma validateAutoPayDraft_Inr:
  "validateAutoPayDraft sk d = Inr () \<longleftrightarrow>
     sk_isValidEd25519PublicKey sk (ad_executor d)
     \<and> validateRuleAndAllowance sk (ruleFromDraft d) (ad_allowanceRaw d) (ad_allowanceDays d) = Inr ()"
  by (auto simp: validateAutoPayDraft_def assertAssetMatchesRule_def ruleFromDraft_def js_nth_def)

section \<open>What a classification means\<close>

text \<open>\<open>rule_le r s\<close>: every limit of \<open>r\<close> is at most that of \<open>s\<close>, its assets are among those of
  \<open>s\<close>, and it keeps the recipients restriction of \<open>s\<close>.\<close>

definition rule_le :: "rule \<Rightarrow> rule \<Rightarrow> bool" where
  "rule_le r s \<longleftrightarrow> auto_approve_limit r \<le> auto_approve_limit s \<and> per_tx_limit r \<le> per_tx_limit s
     \<and> daily_limit r \<le> daily_limit s \<and> set (allowed_assets r) \<subseteq> set (allowed_assets s)
     \<and> (known_recipients_only s \<longrightarrow> known_recipients_only r)"

lemma compare_keys:
  "fold (compare_key c n) LIMIT_KEYS (l, t) =
     (l \<or> auto_approve_limit n > auto_approve_limit c \<or> per_tx_limit n > per_tx_limit c
        \<or> daily_limit n > daily_limit c,
      t \<or> auto_approve_limit n < auto_approve_limit c \<or> per_tx_limit n < per_tx_limit c
        \<or> daily_limit n < daily_limit c)"
  by (simp add: compare_key_def LIMIT_KEYS_def)

lemma classifyChange_flags:
  "classifyChange (Some c) n =
     (if \<not> rule_le n c \<and> \<not> rule_le c n then Mixed else if \<not> rule_le n c then Loosening
      else if \<not> rule_le c n then Tightening else Same)"
proof -
  have "(((False \<or> auto_approve_limit n > auto_approve_limit c \<or> per_tx_limit n > per_tx_limit c
        \<or> daily_limit n > daily_limit c)
      \<or> list_ex (\<lambda>a. \<not> List.member (allowed_assets c) a) (allowed_assets n))
      \<or> (known_recipients_only c \<and> \<not> known_recipients_only n)) = (\<not> rule_le n c)" for n c
    by (simp add: rule_le_def list_ex_iff not_le subset_iff) blast
  note flag = this
  have "((False \<or> auto_approve_limit n < auto_approve_limit c \<or> per_tx_limit n < per_tx_limit c
        \<or> daily_limit n < daily_limit c)
      \<or> list_ex (\<lambda>a. \<not> List.member (allowed_assets n) a) (allowed_assets c))
      \<or> (\<not> known_recipients_only c \<and> known_recipients_only n) \<longleftrightarrow> \<not> rule_le c n"
    by (simp add: rule_le_def list_ex_iff not_le subset_iff) blast
  then show ?thesis
    by (simp only: classifyChange_def compare_keys option.case Let_def prod.case flag)
qed

lemma classifyChange_rule_le:
  "classifyChange (Some c) n =
     (if rule_le n c then (if rule_le c n then Same else Tightening)
      else (if rule_le c n then Loosening else Mixed))"
  by (simp add: classifyChange_flags)

lemma rule_le_agent:
  assumes "rule_le n c" and "gs_rule st = Some c"
    and "agent_may_pay tk now (st\<lparr>gs_rule := Some n\<rparr>) e to_addr asset amount"
  shows "agent_may_pay tk now st e to_addr asset amount"
  using assms by (auto simp: agent_may_pay_iff rule_le_def read_spend_def)

lemma rule_le_owner:
  assumes "rule_le n c" and "gs_rule st = Some c"
    and "pay_owner tk now (st\<lparr>gs_rule := Some n\<rparr>) to_addr asset amount = Inr st'"
  shows "\<exists>st''. pay_owner tk now st to_addr asset amount = Inr st''"
proof -
  have [simp]: "read_spend now (st\<lparr>gs_rule := Some n\<rparr>) = read_spend now st" by (simp add: read_spend_def)
  show ?thesis using assms
    by (auto simp: pay_owner_def rule_le_def check_hard_caps_Inr record_spend_Inr)
qed

text \<open>C9: A change that skips the approval card never gives anybody more power.  Whenever the
  classification of a change does not ask for the card and Touch ID, every payment the
  contract lets the agent make under the new rule it let the agent make under the current
  one, and likewise for the owner's own payments.\<close>

theorem light_change_never_loosens:
  assumes "gs_rule st = Some c"
    and "confirmationLevel (classifyChange (gs_rule st) n) \<noteq> Card_And_Touch_Id"
  shows "(agent_may_pay tk now (st\<lparr>gs_rule := Some n\<rparr>) e to_addr asset amount
           \<longrightarrow> agent_may_pay tk now st e to_addr asset amount)
       \<and> (\<forall>st'. pay_owner tk now (st\<lparr>gs_rule := Some n\<rparr>) to_addr asset amount = Inr st'
           \<longrightarrow> (\<exists>st''. pay_owner tk now st to_addr asset amount = Inr st''))"
proof -
  have "rule_le n c" using assms by (auto simp: classifyChange_rule_le split: if_splits)
  then show ?thesis using assms(1) rule_le_agent rule_le_owner by blast
qed

theorem light_change_never_loosens_witness:
  "agent_may_pay token_example 0 state_example ''GAGENT'' ''GALICE'' ''CUSDC'' 20"
proof -
  let ?n = "rule_example\<lparr>daily_limit := 150\<rparr>"
  have st: "gs_rule state_example = Some rule_example" by (simp add: state_example_def)
  have "confirmationLevel (classifyChange (gs_rule state_example) ?n) \<noteq> Card_And_Touch_Id"
    by (simp add: st classifyChange_rule_le rule_le_def rule_example_def)
  moreover have "agent_may_pay token_example 0 (state_example\<lparr>gs_rule := Some ?n\<rparr>)
      ''GAGENT'' ''GALICE'' ''CUSDC'' 20"
    by (simp add: agent_may_pay_iff example_defs read_spend_def today_def checked_add_i128_def)
  ultimately show ?thesis using light_change_never_loosens [OF st] by blast
qed

text \<open>Classification is exact and symmetric: a change asks for the full confirmation
  exactly when the new rule is not below the current one in some field, undoing a loosening
  is a tightening and undoing a tightening a loosening, and \<open>Same\<close> means that the two rules
  allow the same assets and agree on everything else.\<close>

theorem classification_exact:
  "(confirmationLevel (classifyChange (Some c) n) = Card_And_Touch_Id \<longleftrightarrow> \<not> rule_le n c)
   \<and> (classifyChange (Some c) n = Loosening \<longleftrightarrow> classifyChange (Some n) c = Tightening)
   \<and> (classifyChange (Some c) n = Mixed \<longleftrightarrow> classifyChange (Some n) c = Mixed)
   \<and> (classifyChange (Some c) n = Same \<longleftrightarrow>
        n = c\<lparr>allowed_assets := allowed_assets n\<rparr> \<and> set (allowed_assets n) = set (allowed_assets c))"
proof -
  have "rule_le n c \<and> rule_le c n \<longleftrightarrow>
        n = c\<lparr>allowed_assets := allowed_assets n\<rparr> \<and> set (allowed_assets n) = set (allowed_assets c)"
    by (cases n; cases c) (auto simp: rule_le_def)
  then show ?thesis by (auto simp: classifyChange_rule_le)
qed

section \<open>The profile the app derives from the chain\<close>

text \<open>The derived profile tells the truth about the chain.  For a rule the contract accepted that allows
  an asset, and a registered executor, the app reports \<open>always_ask\<close> exactly when the contract would
  refuse every payment of that executor, whatever the token, the clock, the alias book, the amount
  and the recipient.  With no asset allowed the contract refuses every payment whatever is reported.\<close>

theorem profile_from_chain_exact:
  assumes "validate_rule r = Inr ()" and "allowed_assets r \<noteq> []" and "e \<noteq> []"
  shows "profileFromChain (Some r) (Some e) = Always_Ask \<longleftrightarrow>
     (\<forall>tk now st to_addr asset amount.
        gs_rule st = Some r \<longrightarrow> gs_executor st = Some e \<longrightarrow>
        \<not> agent_may_pay tk now st e to_addr asset amount)"
    (is "?ask \<longleftrightarrow> ?never")
proof
  assume ?ask
  then show ?never using assms by (auto simp: profileFromChain_def agent_may_pay_iff split: if_splits)
next
  assume never: ?never
  obtain a where a: "a \<in> set (allowed_assets r)" using assms(2) by (cases "allowed_assets r") auto
  let ?st = "\<lparr>gs_rule = Some r, gs_executor = Some e, gs_known = (\<lambda>_. True), gs_spent = None\<rparr>"
  have "\<not> agent_may_pay \<lparr>tk_allowance = (\<lambda>_. 1), tk_transfer = (\<lambda>_ _ _. True)\<rparr> 0 ?st e [] a 1"
    using never by simp
  then have "auto_approve_limit r \<le> 0"
    using assms a by (auto simp: agent_may_pay_iff validate_rule_Inr checked_add_i128_def read_spend_def)
  then show ?ask using assms by (simp add: profileFromChain_def)
qed

theorem profile_from_chain_exact_witness:
  "\<exists>tk now st to_addr asset amount. gs_rule st = Some rule_example
     \<and> agent_may_pay tk now st ''GAGENT'' to_addr asset amount"
proof -
  have "profileFromChain (Some rule_example) (Some ''GAGENT'') \<noteq> Always_Ask"
    by (simp add: profileFromChain_def rule_example_def)
  moreover have "validate_rule rule_example = Inr ()" "allowed_assets rule_example \<noteq> []"
    by (simp_all add: validate_rule_Inr rule_example_def)
  ultimately show ?thesis using profile_from_chain_exact [of rule_example "''GAGENT''"] by auto
qed

text \<open>The app preference only narrows the chain's decision, and the profile derived from
  the chain narrows nothing: the resolved route is the executor's only when the chain chose
  it and the profile does not ask, a missing profile always asks, and with the profile
  \<open>profileFromChain\<close> computes the resolved route is the chain's own.\<close>

theorem approval_route_narrows:
  "(resolveApprovalRoute p chain_route = Pay_Executor \<longleftrightarrow>
      chain_route = Pay_Executor \<and> p \<noteq> None \<and> p \<noteq> Some Always_Ask)
   \<and> (chooseGuardedRoute i = Inr d \<longrightarrow> ri_executor i \<noteq> Some [] \<longrightarrow>
      resolveApprovalRoute (Some (profileFromChain (Some (ri_rule i)) (ri_executor i))) (rd_route d)
        = rd_route d)"
proof -
  have "chooseGuardedRoute i = Inr d \<Longrightarrow> rd_route d = Pay_Executor \<Longrightarrow>
      ri_executor i \<noteq> None \<and> 0 < auto_approve_limit (ri_rule i)"
    using route_executor_iff [of i] by (auto simp: route_is_def)
  moreover have "rd_route d = Pay_Executor \<or> rd_route d = Pay_Owner" by (cases "rd_route d") auto
  ultimately show ?thesis
    by (auto simp: resolveApprovalRoute_def profileFromChain_def Let_def split: option.splits)
qed

theorem approval_route_narrows_witness:
  "resolveApprovalRoute (Some (profileFromChain (Some rule_example) (Some ''GAGENT''))) Pay_Executor
     = Pay_Executor"
proof -
  let ?i = "route_input state_example rule_example ''GALICE'' ''CUSDC'' 20"
  have "chooseGuardedRoute ?i = Inr \<lparr>rd_route = Pay_Executor,
      rd_reason = ''inside the agent mandate; the executor may sign''\<rparr>"
    by (simp add: chooseGuardedRoute_def Let_def decision_def rule_example_def state_example_def)
  from approval_route_narrows [THEN conjunct2, rule_format, OF this]
  show ?thesis by (simp add: state_example_def)
qed

section \<open>The draft and its read-back\<close>

lemma parseDraftAmount_Inr: "parseDraftAmount v = Inr n \<longleftrightarrow> toRawUnits v = Inr n"
  by (simp add: parseDraftAmount_def)

text \<open>A valid draft can always be read back to its owner.\<close>

lemma readBack_total:
  "validateAutoPayDraft sk d = Inr () \<Longrightarrow> \<exists>s. readBack dec d symbol = Inr s"
  by (auto simp: validateAutoPayDraft_Inr validateRule_conditions ruleFromDraft_def readBack_def
      fromRawUnits_eq)

text \<open>The default proposal is always fundable: a draft built from decimal strings without
  an explicit allowance and lifetime has an allowance of seven daily limits, never fails the
  allowance checks, and is accepted as soon as its executor and its asset are valid
  addresses, its limits are positive and in order.\<close>

theorem default_draft_accepted:
  assumes "makeAutoPayDraft i = Inr d" and "ai_allowance i = None" and "ai_allowanceDays i = None"
    and "sk_isValidEd25519PublicKey sk (ai_executor i)"
    and "ai_allowedAssets i = [a]" "sk_isValidContract sk a"
    and "0 < ad_perTxLimitRaw d" "ad_thresholdRaw d \<le> ad_perTxLimitRaw d"
      "ad_perTxLimitRaw d \<le> ad_dailyLimitRaw d"
  shows "ad_allowanceRaw d = 7 * ad_dailyLimitRaw d \<and> validateAutoPayDraft sk d = Inr ()"
proof -
  from assms(1-3) have d: "ad_allowanceRaw d = ad_dailyLimitRaw d * 7" "ad_allowanceDays d = jint 30"
      "ad_allowedAssets d = ai_allowedAssets i" "ad_executor d = ai_executor i"
    and daily: "toRawUnits (ai_dailyLimit i) = Inr (ad_dailyLimitRaw d)"
    and threshold: "toRawUnits (ai_threshold i) = Inr (ad_thresholdRaw d)"
    by (auto simp: makeAutoPayDraft_def parseDraftAmount_Inr approval_constants)
  have "ad_dailyLimitRaw d * 7 \<le> I128_MAX"
    using toRawUnits_range [OF daily] by (simp add: I128_MAX_def)
  moreover have "0 \<le> ad_thresholdRaw d" using toRawUnits_range [OF threshold] by simp
  ultimately show ?thesis using assms(4-9) d
    by (auto simp: validateAutoPayDraft_Inr validateRule_conditions ruleFromDraft_def valid_days_iff)
qed

definition draft_input_example :: auto_pay_draft_input where
  "draft_input_example = \<lparr>ai_executor = ''GAGENT'', ai_threshold = ''25'', ai_perTxLimit = ''50'',
     ai_dailyLimit = ''100.5'', ai_allowedAssets = [''CUSDC''], ai_knownRecipientsOnly = True,
     ai_allowance = None, ai_allowanceDays = None\<rparr>"

definition strkey_example :: strkey where
  "strkey_example = \<lparr>sk_isValidContract = (\<lambda>s. starts_with ''C'' s),
     sk_isValidEd25519PublicKey = (\<lambda>s. starts_with ''G'' s)\<rparr>"

definition draft_example :: auto_pay_draft where
  "draft_example = \<lparr>ad_executor = ''GAGENT'', ad_thresholdRaw = 250000000, ad_dailyLimitRaw = 1005000000,
     ad_perTxLimitRaw = 500000000, ad_allowedAssets = [''CUSDC''], ad_knownRecipientsOnly = True,
     ad_allowanceRaw = 7035000000, ad_allowanceDays = jint 30\<rparr>"

lemma draft_example_made: "makeAutoPayDraft draft_input_example = Inr draft_example"
proof -
  have "toRawUnits ''100.5'' = Inr 1005000000" "toRawUnits ''25'' = Inr 250000000"
    "toRawUnits ''50'' = Inr 500000000"
    by (simp_all add: amount_eval)
  then show ?thesis
    by (simp add: makeAutoPayDraft_def parseDraftAmount_def draft_input_example_def draft_example_def
        approval_constants)
qed

theorem default_draft_accepted_witness:
  "ad_allowanceRaw draft_example = 7 * 1005000000
   \<and> validateAutoPayDraft strkey_example draft_example = Inr ()"
  using default_draft_accepted [OF draft_example_made, of strkey_example "''CUSDC''"]
  by (simp add: draft_input_example_def strkey_example_def draft_example_def)

end
