(* ===== verification/Guard_Describe.thy ===== *)
theory Guard_Describe
  imports Guard_Amount Guard_Contract JS_Number
begin

text \<open>
  \<open>stellar/src/guard/describe.ts\<close>: what a card says about an unsigned invocation, decoded from
  its XDR.  The SDK is external, the record \<open>guard_sdk\<close>: building, assembling, encoding and
  decoding of transactions.  A plain \<open>Error\<close> is its message.
\<close>

section \<open>Values\<close>

text \<open>The values \<open>scValToNative\<close> returns.\<close>

datatype native =
  N_Big int | N_Str string | N_Num int | N_Bool bool | N_List "native list"
| N_Obj "(string \<times> native) list" | N_Null | N_Undefined

text \<open>The typed arguments the client hands to \<open>nativeToScVal\<close>.\<close>

datatype sc_value =
  Sc_Address string | Sc_I128 int | Sc_U32 int | Sc_U64 int | Sc_String string | Sc_Rule rule

text \<open>\<open>InvokeOptions\<close> of \<open>invoke.ts\<close>.\<close>

record invoke_options =
  io_contractId :: string
  io_method :: string
  io_args :: "sc_value list"
  io_source :: string
  io_networkPassphrase :: string
  io_txTimeoutSeconds :: "int option"

text \<open>The first operation of a transaction.\<close>

datatype first_op =
  No_Operation | Other_Operation | Other_Host_Function string | Invoke_Contract string string "native list"

record ('acc, 'tx, 'sim) guard_sdk =
  gk_encode_error :: "sc_value \<Rightarrow> string option"
  gk_build :: "invoke_options \<Rightarrow> 'acc \<Rightarrow> string + 'tx"
  gk_assemble :: "'tx \<Rightarrow> 'sim \<Rightarrow> string + 'tx"
  gk_toXDR :: "'tx \<Rightarrow> string"
  gk_fromXDR :: "string \<Rightarrow> string \<Rightarrow> string + 'tx option"
  gk_first_op :: "'tx \<Rightarrow> first_op"
  gk_hash :: "'tx \<Rightarrow> nat list"
  gk_fee :: "'tx \<Rightarrow> nat"

section \<open>Rendering\<close>

definition DEFAULT_EXPLORER_BASE :: string where
  "DEFAULT_EXPLORER_BASE = ''https://stellar.expert/explorer/testnet''"

definition hex_byte :: "nat \<Rightarrow> string" where
  "hex_byte b = [hex_digit (b div 16), hex_digit (b mod 16)]"

definition toHex :: "nat list \<Rightarrow> string" where
  "toHex bytes = concat (map hex_byte bytes)"

definition shortKey :: "string \<Rightarrow> string" where
  "shortKey address =
     (if length address > 8 then take 4 address @ ellipsis @ drop (length address - 4) address else address)"

text \<open>\<open>String(value)\<close>; an array joins its items with commas, and skips \<open>null\<close> and \<open>undefined\<close>.\<close>

fun js_string :: "native \<Rightarrow> string" where
  "js_string (N_Big i) = show_int i"
| "js_string (N_Str s) = s"
| "js_string (N_Num i) = show_int i"
| "js_string (N_Bool b) = (if b then ''true'' else ''false'')"
| "js_string (N_List vs) = js_join '','' (map (\<lambda>v. if v = N_Null \<or> v = N_Undefined then [] else js_string v) vs)"
| "js_string (N_Obj fs) = ''[object Object]''"
| "js_string N_Null = ''null''"
| "js_string N_Undefined = ''undefined''"

fun describeValue :: "native \<Rightarrow> string" where
  "describeValue (N_Big i) = show_int i"
| "describeValue (N_Str s) = s"
| "describeValue (N_List vs) = ''['' @ js_join '', '' (map describeValue vs) @ '']''"
| "describeValue (N_Obj fs) = ''{ '' @ js_join '', '' (map (\<lambda>(k, v). k @ '': '' @ describeValue v) fs) @ '' }''"
| "describeValue N_Null = ''null''"
| "describeValue N_Undefined = ''undefined''"
| "describeValue (N_Num i) = show_int i"
| "describeValue (N_Bool b) = (if b then ''true'' else ''false'')"

section \<open>Decoding\<close>

definition decodeTx :: "('acc, 'tx, 'sim) guard_sdk \<Rightarrow> string \<Rightarrow> string \<Rightarrow> string + 'tx" where
  "decodeTx sdk unsignedXdr networkPassphrase =
     and_then (gk_fromXDR sdk unsignedXdr networkPassphrase) (\<lambda>tx. case tx of
       None \<Rightarrow> Inl ''fee-bump envelopes are not supported for guard calls''
     | Some t \<Rightarrow> Inr t)"

record decoded_invocation =
  di_contractId :: string
  di_functionName :: string
  di_args :: "native list"

definition decodeInvocation :: "('acc, 'tx, 'sim) guard_sdk \<Rightarrow> string \<Rightarrow> string \<Rightarrow> string + decoded_invocation" where
  "decodeInvocation sdk unsignedXdr networkPassphrase =
     and_then (decodeTx sdk unsignedXdr networkPassphrase) (\<lambda>tx.
       case gk_first_op sdk tx of
         No_Operation \<Rightarrow> Inl ''the built transaction is not a contract invocation''
       | Other_Operation \<Rightarrow> Inl ''the built transaction is not a contract invocation''
       | Other_Host_Function ty \<Rightarrow> Inl (''the built transaction is not an invoke-contract call ('' @ ty @ '')'')
       | Invoke_Contract c f args \<Rightarrow> Inr \<lparr>di_contractId = c, di_functionName = f, di_args = args\<rparr>)"

section \<open>Summaries\<close>

record guard_summary =
  su_title :: string
  su_lines :: "string list"
  su_explorerUrl :: string
  su_estimatedFee :: string

record built_guard_summary =
  bs_summary :: guard_summary
  bs_payloadHash :: string

definition explorer_url :: "string option \<Rightarrow> string \<Rightarrow> string" where
  "explorer_url base payloadHash =
     (case base of Some b \<Rightarrow> b | None \<Rightarrow> DEFAULT_EXPLORER_BASE) @ ''/tx/'' @ payloadHash"

definition buildGuardCallSummary ::
    "('acc, 'tx, 'sim) guard_sdk \<Rightarrow> string \<Rightarrow> string \<Rightarrow> string option \<Rightarrow> string + built_guard_summary" where
  "buildGuardCallSummary sdk unsignedXdr networkPassphrase explorerBase =
     and_then (decodeTx sdk unsignedXdr networkPassphrase) (\<lambda>tx.
     and_then (decodeInvocation sdk unsignedXdr networkPassphrase) (\<lambda>invocation.
       let payloadHash = toHex (gk_hash sdk tx); fee = stroopsToXlm (gk_fee sdk tx) @ '' XLM'' in
       Inr \<lparr>bs_summary =
              \<lparr>su_title = ''polaris_guard: '' @ di_functionName invocation,
               su_lines = [''Contract: '' @ shortKey (di_contractId invocation),
                           ''Args: '' @ js_join '', '' (map describeValue (di_args invocation)),
                           ''Network: '' @ networkPassphrase, ''Fee: '' @ fee],
               su_explorerUrl = explorer_url explorerBase payloadHash,
               su_estimatedFee = fee\<rparr>,
            bs_payloadHash = payloadHash\<rparr>))"

record guarded_summary_input =
  gi_unsignedXdr :: string
  gi_networkPassphrase :: string
  gi_contractId :: string
  gi_pay_executor :: bool
  gi_alias :: string
  gi_assetCode :: string
  gi_explorerBase :: "string option"

text \<open>The two errors of the amount: not a big integer, or refused by \<open>fromRawUnits\<close>.\<close>

definition guarded_amount :: "native \<Rightarrow> (string + guard_client_error) + string" where
  "guarded_amount v =
     (case v of
        N_Big raw \<Rightarrow> catchE (fromRawUnits raw) Inr
      | _ \<Rightarrow> Inl (Inl ''guarded summary: amount argument is not an i128''))"

definition buildGuardedPaymentSummary ::
    "('acc, 'tx, 'sim) guard_sdk \<Rightarrow> guarded_summary_input \<Rightarrow> (string + guard_client_error) + built_guard_summary" where
  "buildGuardedPaymentSummary sdk i =
     and_then (catchE (decodeTx sdk (gi_unsignedXdr i) (gi_networkPassphrase i)) Inl) (\<lambda>tx.
     and_then (catchE (decodeInvocation sdk (gi_unsignedXdr i) (gi_networkPassphrase i)) Inl) (\<lambda>invocation.
       let route = (if gi_pay_executor i then ''pay_executor'' else ''pay_owner'') in
       if di_contractId invocation \<noteq> gi_contractId i then
         Inl (Inl (''guarded summary mismatch: XDR targets '' @ di_contractId invocation @ '', client is ''
                   @ gi_contractId i))
       else if di_functionName invocation \<noteq> route then
         Inl (Inl (''guarded summary mismatch: XDR calls '' @ di_functionName invocation @ '', route is '' @ route))
       else
         let args = di_args invocation;
             offset = (if gi_pay_executor i then 1 else 0);
             to_addr = js_string (nth_or N_Undefined args (offset + 1));
             asset = js_string (nth_or N_Undefined args (offset + 2)) in
         and_then (guarded_amount (nth_or N_Undefined args (offset + 3))) (\<lambda>amount.
         let signer = (if gi_pay_executor i then ''executor'' else ''owner'');
             payloadHash = toHex (gk_hash sdk tx);
             fee = stroopsToXlm (gk_fee sdk tx) @ '' XLM'' in
         Inr \<lparr>bs_summary =
                \<lparr>su_title = ''Guarded payment via polaris_guard ('' @ shortKey (gi_contractId i) @ '') '' @ em_dash
                   @ '' route: '' @ route,
                 su_lines = [''Route: '' @ route @ '' ('' @ signer @ '' signs)'',
                             ''Pay '' @ amount @ '' '' @ gi_assetCode i,
                             ''Asset (SAC): '' @ asset,
                             ''To '' @ gi_alias i @ '' ('' @ to_addr @ '')'',
                             ''Network: '' @ gi_networkPassphrase i, ''Fee: '' @ fee],
                 su_explorerUrl = explorer_url (gi_explorerBase i) payloadHash,
                 su_estimatedFee = fee\<rparr>,
              bs_payloadHash = payloadHash\<rparr>)))"

section \<open>Facts\<close>

lemma hex_byte_inj: "b < 256 \<Longrightarrow> b' < 256 \<Longrightarrow> hex_byte b = hex_byte b' \<Longrightarrow> b = b'"
proof -
  have inj: "i = j" if "hex_digit i = hex_digit j" "i < 16" "j < 16" for i j
  proof -
    have "(of_char (hex_digit k) :: nat) = (if k < 10 then 48 + k else 87 + k)" if "k < 16" for k
      using that by (simp add: hex_digit_def)
    then have "(if i < 10 then 48 + i else 87 + i) = (if j < 10 then 48 + j else 87 + j)"
      using that by metis
    then show ?thesis using that(2,3) by (simp split: if_splits)
  qed
  assume b: "b < 256" "b' < 256" and e: "hex_byte b = hex_byte b'"
  then have "b div 16 < 16" "b' div 16 < 16" by (simp_all add: less_mult_imp_div_less)
  then have "b div 16 = b' div 16" "b mod 16 = b' mod 16" using e by (auto simp: hex_byte_def dest!: inj)
  then show "b = b'" by (metis div_mult_mod_eq)
qed

text \<open>The payload hash a card carries is faithful: two byte strings print to the same hexadecimal
  text only when they are equal, and the text has two digits for each byte.\<close>

theorem hex_injective:
  assumes "\<forall>b \<in> set xs. b < 256" "\<forall>b \<in> set ys. b < 256" "toHex xs = toHex ys"
  shows "xs = ys \<and> length (toHex xs) = 2 * length xs"
proof
  show "xs = ys"
    using assms
  proof (induction xs arbitrary: ys)
    case Nil
    then show ?case by (cases ys) (auto simp: toHex_def hex_byte_def)
  next
    case (Cons x xs)
    then obtain y ys' where ys: "ys = y # ys'" by (cases ys) (auto simp: toHex_def hex_byte_def)
    have "hex_byte x = hex_byte y" "toHex xs = toHex ys'"
      using Cons.prems(3) by (simp_all add: ys toHex_def hex_byte_def)
    then show ?case using Cons.IH [of ys'] Cons.prems hex_byte_inj [of x y] by (simp add: ys)
  qed
  show "length (toHex xs) = 2 * length xs"
    by (induction xs) (simp_all add: toHex_def hex_byte_def)
qed

theorem hex_injective_witness:
  "[0, 171, 255] = [0, 171, 255::nat] \<and> length (toHex [0, 171, 255]) = 6"
  using hex_injective [of "[0, 171, 255]" "[0, 171, 255]"] by simp

end
