(* ===== verification/Guard_Client.thy ===== *)
theory Guard_Client
  imports Guard_Describe
begin

text \<open>
  \<open>stellar/src/guard/invoke.ts\<close>, \<open>allowance.ts\<close> and \<open>client.ts\<close>: building unsigned invocations of
  the guard and of the asset contract, and reading values by simulation.  The RPC node is
  external, \<open>guard_rpc\<close>; a rejected request is its message.
\<close>

datatype client_error = Guard_Failure guard_client_error | Raised string

text \<open>A simulation: an error text, or a result with the decoded return value, if any.\<close>

datatype 'sim simulation = Sim_Error string | Sim_Ok 'sim "native option"

record ('w, 'acc, 'tx, 'sim) guard_rpc =
  rq_getAccount :: "string \<Rightarrow> 'w \<Rightarrow> (string + 'acc) \<times> 'w"
  rq_simulateTransaction :: "'tx \<Rightarrow> 'w \<Rightarrow> (string + 'sim simulation) \<times> 'w"
  rq_getLatestLedger :: "'w \<Rightarrow> (string + js_number) \<times> 'w"

text \<open>An awaited request whose rejection is thrown on.\<close>

definition request :: "('w \<Rightarrow> (string + 'a) \<times> 'w) \<Rightarrow> ('w, client_error, 'a) eff" where
  "request f = call (\<lambda>w. case f w of (r, w') \<Rightarrow> (catchE r Raised, w'))"

section \<open>Invocations\<close>

definition DEFAULT_TX_TIMEOUT_SECONDS :: int where "DEFAULT_TX_TIMEOUT_SECONDS = 300"

text \<open>\<open>gk_build\<close> receives the timeout that \<open>setTimeout\<close> is given.\<close>

definition buildTransaction ::
    "('acc, 'tx, 'sim) guard_sdk \<Rightarrow> invoke_options \<Rightarrow> 'acc \<Rightarrow> string + 'tx" where
  "buildTransaction sdk opts account =
     gk_build sdk (opts\<lparr>io_txTimeoutSeconds := Some (case io_txTimeoutSeconds opts of Some t \<Rightarrow> t
                                                    | None \<Rightarrow> DEFAULT_TX_TIMEOUT_SECONDS)\<rparr>) account"

definition buildUnsignedInvoke ::
    "('acc, 'tx, 'sim) guard_sdk \<Rightarrow> ('w, 'acc, 'tx, 'sim) guard_rpc \<Rightarrow> invoke_options
      \<Rightarrow> ('w, client_error, 'tx \<times> string) eff" where
  "buildUnsignedInvoke sdk rpc opts =
     eff_bind (request (rq_getAccount rpc (io_source opts))) (\<lambda>account.
     eff_bind (eff_of Raised (buildTransaction sdk opts account)) (\<lambda>tx.
     eff_bind (request (rq_simulateTransaction rpc tx)) (\<lambda>sim. case sim of
       Sim_Error e \<Rightarrow> eff_throw (Guard_Failure (classifyGuardText e))
     | Sim_Ok s _ \<Rightarrow> eff_bind (eff_of Raised (gk_assemble sdk tx s)) (\<lambda>assembled.
         eff_ret (assembled, gk_toXDR sdk assembled)))))"

definition simulateReadValue ::
    "('acc, 'tx, 'sim) guard_sdk \<Rightarrow> ('w, 'acc, 'tx, 'sim) guard_rpc \<Rightarrow> invoke_options
      \<Rightarrow> ('w, client_error, native) eff" where
  "simulateReadValue sdk rpc opts =
     eff_bind (request (rq_getAccount rpc (io_source opts))) (\<lambda>account.
     eff_bind (eff_of Raised (buildTransaction sdk opts account)) (\<lambda>tx.
     eff_bind (request (rq_simulateTransaction rpc tx)) (\<lambda>sim. case sim of
       Sim_Error e \<Rightarrow> eff_throw (Guard_Failure (classifyGuardText e))
     | Sim_Ok _ None \<Rightarrow> eff_throw (Guard_Failure (guard_error ''NoReturnValue'' Unknown_Contract None
                          (io_method opts @ '' simulation returned no value'')))
     | Sim_Ok _ (Some v) \<Rightarrow> eff_ret v)))"

text \<open>The arguments of a call are encoded in order before anything is requested.\<close>

fun encode_args :: "('acc, 'tx, 'sim) guard_sdk \<Rightarrow> sc_value list \<Rightarrow> string + sc_value list" where
  "encode_args sdk [] = Inr []"
| "encode_args sdk (v # vs) =
     (case gk_encode_error sdk v of
        Some e \<Rightarrow> Inl e
      | None \<Rightarrow> and_then (encode_args sdk vs) (\<lambda>vs'. Inr (v # vs')))"

lemma encode_args_Inr: "encode_args sdk vs = Inr vs' \<Longrightarrow> vs' = vs"
  by (induction vs arbitrary: vs') (auto split: option.splits)

section \<open>BigInt\<close>

definition radix_digit :: "nat \<Rightarrow> char \<Rightarrow> nat option" where
  "radix_digit r c =
     (let n = char_code c;
          d = (if 48 \<le> n \<and> n \<le> 57 then n - 48
               else if 97 \<le> n \<and> n \<le> 102 then n - 87
               else if 65 \<le> n \<and> n \<le> 70 then n - 55 else 99)
      in if d < r then Some d else None)"

definition radix_value :: "nat \<Rightarrow> string \<Rightarrow> int option" where
  "radix_value r s =
     (if s = [] \<or> list_ex (\<lambda>c. radix_digit r c = None) s then None
      else Some (int (foldl (\<lambda>a c. a * r + (case radix_digit r c of Some d \<Rightarrow> d | None \<Rightarrow> 0)) 0 s)))"

fun unsigned_bigint :: "string \<Rightarrow> int option" where
  "unsigned_bigint (a # b # s) =
     (if a = CHR ''0'' \<and> (b = CHR ''x'' \<or> b = CHR ''X'') then radix_value 16 s
      else if a = CHR ''0'' \<and> (b = CHR ''o'' \<or> b = CHR ''O'') then radix_value 8 s
      else if a = CHR ''0'' \<and> (b = CHR ''b'' \<or> b = CHR ''B'') then radix_value 2 s
      else radix_value 10 (a # b # s))"
| "unsigned_bigint s = radix_value 10 s"

definition bigint_of_string :: "string \<Rightarrow> int option" where
  "bigint_of_string s =
     (case js_trim s of
        [] \<Rightarrow> Some 0
      | c # cs \<Rightarrow> if c = CHR ''-'' then map_option uminus (radix_value 10 cs)
                  else if c = CHR ''+'' then radix_value 10 cs
                  else unsigned_bigint (c # cs))"

definition js_BigInt :: "native \<Rightarrow> string + int" where
  "js_BigInt v =
     (case v of
        N_Big i \<Rightarrow> Inr i
      | N_Num i \<Rightarrow> Inr i
      | N_Bool b \<Rightarrow> Inr (if b then 1 else 0)
      | N_Null \<Rightarrow> Inl ''TypeError''
      | N_Undefined \<Rightarrow> Inl ''TypeError''
      | _ \<Rightarrow> (case bigint_of_string (js_string v) of Some i \<Rightarrow> Inr i | None \<Rightarrow> Inl ''SyntaxError''))"

section \<open>Allowances\<close>

definition LEDGERS_PER_DAY :: int where "LEDGERS_PER_DAY = 17280"
definition ALLOWANCE_WINDOW_DAYS :: int where "ALLOWANCE_WINDOW_DAYS = 30"

text \<open>\<open>num\<close> is \<open>String\<close> of a number.\<close>

definition allowanceExpiryLedger :: "(js_number \<Rightarrow> string) \<Rightarrow> js_number \<Rightarrow> js_number \<Rightarrow> guard_client_error + int" where
  "allowanceExpiryLedger num currentLedger days =
     (if \<not> is_integer currentLedger \<or> jless currentLedger 0 then
        Inl (guard_error ''InvalidLedger'' Rpc_Error None
          (''current ledger must be a non-negative integer, got '' @ num currentLedger))
      else if \<not> is_integer days \<or> jless days 1 then
        Inl (guard_error ''InvalidLedger'' Rpc_Error None
          (''allowance window must be a positive number of days, got '' @ num days))
      else Inr (jfloor currentLedger + jfloor days * LEDGERS_PER_DAY))"

record approve_input =
  ap_assetContractId :: string
  ap_from :: string
  ap_spender :: string
  ap_amount :: int
  ap_networkPassphrase :: string
  ap_days :: "js_number option"
  ap_txTimeoutSeconds :: "int option"
  ap_explorerBase :: "string option"

record guard_call =
  gc_unsignedXdr :: string
  gc_summary :: guard_summary
  gc_payloadHash :: string

record approve_result =
  ar_call :: guard_call
  ar_currentLedger :: int
  ar_liveUntilLedger :: int

definition assertAllowanceAmount :: "int \<Rightarrow> guard_client_error + unit" where
  "assertAllowanceAmount amount =
     (if amount \<le> 0 then Inl (invalidAmount
        (''allowance must be positive; to revoke it, approve 0 explicitly (got '' @ show_int amount @ '' raw units)''))
      else if amount > I128_MAX then Inl (invalidAmount
        (''allowance '' @ show_int amount @ '' raw units exceeds i128::MAX''))
      else Inr ())"

text \<open>An empty explorer base is dropped, as an absent one.\<close>

definition truthy_string :: "string option \<Rightarrow> string option" where
  "truthy_string s = (if s = Some [] then None else s)"

definition approve_options :: "approve_input \<Rightarrow> int \<Rightarrow> invoke_options" where
  "approve_options i liveUntilLedger =
     \<lparr>io_contractId = ap_assetContractId i, io_method = ''approve'',
      io_args = [Sc_Address (ap_from i), Sc_Address (ap_spender i), Sc_I128 (ap_amount i), Sc_U32 liveUntilLedger],
      io_source = ap_from i, io_networkPassphrase = ap_networkPassphrase i,
      io_txTimeoutSeconds = Some (case ap_txTimeoutSeconds i of Some t \<Rightarrow> t | None \<Rightarrow> DEFAULT_TX_TIMEOUT_SECONDS)\<rparr>"

text \<open>Encode, build, simulate, assemble, and decode back into a summary.\<close>

definition unsigned_call ::
    "('acc, 'tx, 'sim) guard_sdk \<Rightarrow> ('w, 'acc, 'tx, 'sim) guard_rpc \<Rightarrow> string option \<Rightarrow> invoke_options
      \<Rightarrow> ('w, client_error, guard_call) eff" where
  "unsigned_call sdk rpc explorerBase opts =
     eff_bind (eff_of Raised (encode_args sdk (io_args opts))) (\<lambda>args.
     eff_bind (buildUnsignedInvoke sdk rpc (opts\<lparr>io_args := args\<rparr>)) (\<lambda>(tx, unsignedXdr).
     eff_bind (eff_of Raised (buildGuardCallSummary sdk unsignedXdr (io_networkPassphrase opts) explorerBase)) (\<lambda>built.
       eff_ret \<lparr>gc_unsignedXdr = unsignedXdr, gc_summary = bs_summary built, gc_payloadHash = bs_payloadHash built\<rparr>)))"

definition buildApproveAllowance ::
    "(js_number \<Rightarrow> string) \<Rightarrow> ('acc, 'tx, 'sim) guard_sdk \<Rightarrow> ('w, 'acc, 'tx, 'sim) guard_rpc \<Rightarrow> approve_input
      \<Rightarrow> ('w, client_error, approve_result) eff" where
  "buildApproveAllowance num sdk rpc i =
     eff_bind (eff_of Guard_Failure (assertAllowanceAmount (ap_amount i))) (\<lambda>_.
     eff_bind (request (rq_getLatestLedger rpc)) (\<lambda>currentLedger.
     eff_bind (eff_of Guard_Failure (allowanceExpiryLedger num currentLedger
                (case ap_days i of Some d \<Rightarrow> d | None \<Rightarrow> jint ALLOWANCE_WINDOW_DAYS))) (\<lambda>liveUntilLedger.
     eff_bind (unsigned_call sdk rpc (truthy_string (ap_explorerBase i)) (approve_options i liveUntilLedger)) (\<lambda>c.
       eff_ret \<lparr>ar_call = c, ar_currentLedger = jfloor currentLedger, ar_liveUntilLedger = liveUntilLedger\<rparr>))))"

record allowance_query =
  aq_assetContractId :: string
  aq_from :: string
  aq_spender :: string
  aq_networkPassphrase :: string
  aq_txTimeoutSeconds :: "int option"

definition getAllowance ::
    "('acc, 'tx, 'sim) guard_sdk \<Rightarrow> ('w, 'acc, 'tx, 'sim) guard_rpc \<Rightarrow> allowance_query \<Rightarrow> ('w, client_error, int) eff" where
  "getAllowance sdk rpc q =
     eff_bind (eff_of Raised (encode_args sdk [Sc_Address (aq_from q), Sc_Address (aq_spender q)])) (\<lambda>args.
     eff_bind (simulateReadValue sdk rpc
       \<lparr>io_contractId = aq_assetContractId q, io_method = ''allowance'', io_args = args, io_source = aq_from q,
        io_networkPassphrase = aq_networkPassphrase q,
        io_txTimeoutSeconds = Some (case aq_txTimeoutSeconds q of Some t \<Rightarrow> t | None \<Rightarrow> DEFAULT_TX_TIMEOUT_SECONDS)\<rparr>)
       (\<lambda>v. eff_of Raised (js_BigInt v)))"

definition formatAllowance :: "int \<Rightarrow> guard_client_error + string" where
  "formatAllowance amount = fromRawUnits amount"

section \<open>The client\<close>

record ('w, 'acc, 'tx, 'sim) guard_client =
  cl_contractId :: string
  cl_rpc :: "('w, 'acc, 'tx, 'sim) guard_rpc"
  cl_networkPassphrase :: string
  cl_source :: string
  cl_txTimeoutSeconds :: int
  cl_explorerBase :: "string option"

record ('w, 'acc, 'tx, 'sim) guard_client_options =
  op_contractId :: string
  op_rpc :: "('w, 'acc, 'tx, 'sim) guard_rpc"
  op_networkPassphrase :: string
  op_source :: string
  op_txTimeoutSeconds :: "int option"
  op_explorerBase :: "string option"

definition createGuardClient ::
    "('w, 'acc, 'tx, 'sim) guard_client_options \<Rightarrow> string + ('w, 'acc, 'tx, 'sim) guard_client" where
  "createGuardClient opts =
     (if length (op_contractId opts) = 0 then Inl ''createGuardClient requires a contractId''
      else Inr \<lparr>cl_contractId = op_contractId opts, cl_rpc = op_rpc opts, cl_networkPassphrase = op_networkPassphrase opts,
                cl_source = op_source opts,
                cl_txTimeoutSeconds = (case op_txTimeoutSeconds opts of Some t \<Rightarrow> t | None \<Rightarrow> DEFAULT_TX_TIMEOUT_SECONDS),
                cl_explorerBase = op_explorerBase opts\<rparr>)"

definition client_options ::
    "('w, 'acc, 'tx, 'sim) guard_client \<Rightarrow> string \<Rightarrow> string \<Rightarrow> sc_value list \<Rightarrow> invoke_options" where
  "client_options cl src m args =
     \<lparr>io_contractId = cl_contractId cl, io_method = m, io_args = args, io_source = src,
      io_networkPassphrase = cl_networkPassphrase cl, io_txTimeoutSeconds = Some (cl_txTimeoutSeconds cl)\<rparr>"

type_synonym ('w, 'acc, 'tx, 'sim) write_method =
  "('acc, 'tx, 'sim) guard_sdk \<Rightarrow> ('w, 'acc, 'tx, 'sim) guard_client \<Rightarrow> ('w, client_error, guard_call) eff"

definition guard_write :: "string \<Rightarrow> string \<Rightarrow> sc_value list \<Rightarrow> ('w, 'acc, 'tx, 'sim) write_method" where
  "guard_write src m args sdk cl =
     unsigned_call sdk (cl_rpc cl) (truthy_string (cl_explorerBase cl)) (client_options cl src m args)"

definition guard_read ::
    "string \<Rightarrow> sc_value list \<Rightarrow> ('acc, 'tx, 'sim) guard_sdk \<Rightarrow> ('w, 'acc, 'tx, 'sim) guard_client \<Rightarrow> ('w, client_error, native) eff" where
  "guard_read m args sdk cl =
     eff_bind (eff_of Raised (encode_args sdk args)) (\<lambda>args.
       simulateReadValue sdk (cl_rpc cl) (client_options cl (cl_source cl) m args))"

definition setRule :: "string \<Rightarrow> rule \<Rightarrow> ('w, 'acc, 'tx, 'sim) write_method" where
  "setRule owner r = guard_write owner ''set_rule'' [Sc_Address owner, Sc_Rule r]"

definition setExecutor :: "string \<Rightarrow> string \<Rightarrow> ('w, 'acc, 'tx, 'sim) write_method" where
  "setExecutor owner executor = guard_write owner ''set_executor'' [Sc_Address owner, Sc_Address executor]"

definition revokeExecutor :: "string \<Rightarrow> ('w, 'acc, 'tx, 'sim) write_method" where
  "revokeExecutor owner = guard_write owner ''revoke_executor'' [Sc_Address owner]"

definition setAlias :: "string \<Rightarrow> string \<Rightarrow> string \<Rightarrow> ('w, 'acc, 'tx, 'sim) write_method" where
  "setAlias owner name address = guard_write owner ''set_alias'' [Sc_Address owner, Sc_String name, Sc_Address address]"

definition removeAlias :: "string \<Rightarrow> string \<Rightarrow> ('w, 'acc, 'tx, 'sim) write_method" where
  "removeAlias owner name = guard_write owner ''remove_alias'' [Sc_Address owner, Sc_String name]"

definition payOwner :: "string \<Rightarrow> string \<Rightarrow> string \<Rightarrow> int \<Rightarrow> ('w, 'acc, 'tx, 'sim) write_method" where
  "payOwner owner to_addr asset amount =
     guard_write owner ''pay_owner'' [Sc_Address owner, Sc_Address to_addr, Sc_Address asset, Sc_I128 amount]"

definition payExecutor :: "string \<Rightarrow> string \<Rightarrow> string \<Rightarrow> string \<Rightarrow> int \<Rightarrow> ('w, 'acc, 'tx, 'sim) write_method" where
  "payExecutor executor owner to_addr asset amount =
     guard_write executor ''pay_executor''
       [Sc_Address executor, Sc_Address owner, Sc_Address to_addr, Sc_Address asset, Sc_I128 amount]"

definition createSchedule ::
    "string \<Rightarrow> string \<Rightarrow> string \<Rightarrow> int \<Rightarrow> int \<Rightarrow> int \<Rightarrow> int \<Rightarrow> ('w, 'acc, 'tx, 'sim) write_method" where
  "createSchedule owner to_addr asset amount firstRunAt intervalSecs runs =
     guard_write owner ''create_schedule''
       [Sc_Address owner, Sc_Address to_addr, Sc_Address asset, Sc_I128 amount, Sc_U64 firstRunAt,
        Sc_U64 intervalSecs, Sc_U32 runs]"

definition cancelSchedule :: "string \<Rightarrow> int \<Rightarrow> ('w, 'acc, 'tx, 'sim) write_method" where
  "cancelSchedule owner sid = guard_write owner ''cancel_schedule'' [Sc_Address owner, Sc_U32 sid]"

section \<open>Reads\<close>

type_synonym ('w, 'acc, 'tx, 'sim, 'a) read_method =
  "('acc, 'tx, 'sim) guard_sdk \<Rightarrow> ('w, 'acc, 'tx, 'sim) guard_client \<Rightarrow> ('w, client_error, 'a) eff"

text \<open>\<open>value === null || value === undefined ? null : value\<close>.\<close>

definition non_nullish :: "native \<Rightarrow> native option" where
  "non_nullish v = (if v = N_Null \<or> v = N_Undefined then None else Some v)"

fun js_Boolean :: "native \<Rightarrow> bool" where
  "js_Boolean (N_Big i) = (i \<noteq> 0)"
| "js_Boolean (N_Num i) = (i \<noteq> 0)"
| "js_Boolean (N_Str s) = (s \<noteq> [])"
| "js_Boolean (N_Bool b) = b"
| "js_Boolean (N_List vs) = True"
| "js_Boolean (N_Obj fs) = True"
| "js_Boolean N_Null = False"
| "js_Boolean N_Undefined = False"

definition read_map :: "(native \<Rightarrow> 'a) \<Rightarrow> ('w, client_error, native) eff \<Rightarrow> ('w, client_error, 'a) eff" where
  "read_map f m = eff_bind m (\<lambda>v. eff_ret (f v))"

definition getRule :: "string \<Rightarrow> ('w, 'acc, 'tx, 'sim, native option) read_method" where
  "getRule owner sdk cl = read_map non_nullish (guard_read ''get_rule'' [Sc_Address owner] sdk cl)"

definition getExecutor :: "string \<Rightarrow> ('w, 'acc, 'tx, 'sim, string option) read_method" where
  "getExecutor owner sdk cl =
     read_map (\<lambda>v. map_option js_string (non_nullish v)) (guard_read ''get_executor'' [Sc_Address owner] sdk cl)"

definition getAlias :: "string \<Rightarrow> string \<Rightarrow> ('w, 'acc, 'tx, 'sim, string option) read_method" where
  "getAlias owner name sdk cl =
     read_map (\<lambda>v. map_option js_string (non_nullish v))
       (guard_read ''get_alias'' [Sc_Address owner, Sc_String name] sdk cl)"

definition isKnownRecipient :: "string \<Rightarrow> string \<Rightarrow> ('w, 'acc, 'tx, 'sim, bool) read_method" where
  "isKnownRecipient owner to_addr sdk cl =
     read_map js_Boolean (guard_read ''is_known_recipient'' [Sc_Address owner, Sc_Address to_addr] sdk cl)"

definition spentToday :: "string \<Rightarrow> ('w, 'acc, 'tx, 'sim, int) read_method" where
  "spentToday owner sdk cl =
     eff_bind (guard_read ''spent_today'' [Sc_Address owner] sdk cl) (\<lambda>v. eff_of Raised (js_BigInt v))"

definition getSchedule :: "int \<Rightarrow> ('w, 'acc, 'tx, 'sim, native option) read_method" where
  "getSchedule sid sdk cl = read_map non_nullish (guard_read ''get_schedule'' [Sc_U32 sid] sdk cl)"

definition listSchedules :: "string \<Rightarrow> ('w, 'acc, 'tx, 'sim, native list) read_method" where
  "listSchedules owner sdk cl =
     read_map (\<lambda>v. case v of N_List vs \<Rightarrow> vs | _ \<Rightarrow> []) (guard_read ''list_schedules'' [Sc_Address owner] sdk cl)"

text \<open>\<open>to_number\<close> is \<open>Number\<close>.\<close>

definition nextScheduleId :: "(native \<Rightarrow> js_number) \<Rightarrow> ('w, 'acc, 'tx, 'sim, js_number) read_method" where
  "nextScheduleId to_number sdk cl = read_map to_number (guard_read ''next_schedule_id'' [] sdk cl)"

section \<open>What a built call is\<close>

text \<open>\<open>built_from sdk opts c\<close>: the unsigned XDR of \<open>c\<close> is the assembled transaction of exactly the
  invocation \<open>opts\<close>, and its summary and hash were decoded from that XDR.\<close>

definition built_from :: "('acc, 'tx, 'sim) guard_sdk \<Rightarrow> string option \<Rightarrow> invoke_options \<Rightarrow> guard_call \<Rightarrow> bool" where
  "built_from sdk base opts c \<longleftrightarrow>
     (\<exists>account tx s assembled. buildTransaction sdk opts account = Inr tx \<and> gk_assemble sdk tx s = Inr assembled
        \<and> gc_unsignedXdr c = gk_toXDR sdk assembled)
     \<and> buildGuardCallSummary sdk (gc_unsignedXdr c) (io_networkPassphrase opts) base
         = Inr \<lparr>bs_summary = gc_summary c, bs_payloadHash = gc_payloadHash c\<rparr>"

lemma buildUnsignedInvoke_yields:
  "yields (\<lambda>(tx, xdr). xdr = gk_toXDR sdk tx
     \<and> (\<exists>account t s. buildTransaction sdk opts account = Inr t \<and> gk_assemble sdk t s = Inr tx))
     (buildUnsignedInvoke sdk rpc opts)"
  unfolding buildUnsignedInvoke_def
proof (rule yields_bind_any)
  fix account
  show "yields (\<lambda>(tx, xdr). xdr = gk_toXDR sdk tx
     \<and> (\<exists>account t s. buildTransaction sdk opts account = Inr t \<and> gk_assemble sdk t s = Inr tx))
     (eff_bind (eff_of Raised (buildTransaction sdk opts account)) (\<lambda>tx.
     eff_bind (request (rq_simulateTransaction rpc tx)) (\<lambda>sim. case sim of
       Sim_Error e \<Rightarrow> eff_throw (Guard_Failure (classifyGuardText e))
     | Sim_Ok s _ \<Rightarrow> eff_bind (eff_of Raised (gk_assemble sdk tx s)) (\<lambda>assembled.
         eff_ret (assembled, gk_toXDR sdk assembled)))))"
  proof (cases "buildTransaction sdk opts account")
    case (Inr t)
    have "yields (\<lambda>(tx, xdr). xdr = gk_toXDR sdk tx \<and> (\<exists>account t s. buildTransaction sdk opts account = Inr t \<and> gk_assemble sdk t s = Inr tx))
        (eff_bind (eff_of Raised (gk_assemble sdk t s)) (\<lambda>assembled. eff_ret (assembled, gk_toXDR sdk assembled)))" for s
      using Inr by (cases "gk_assemble sdk t s") (auto simp: yields_def)
    then show ?thesis unfolding Inr eff_of_Inr eff_bind_simps
      by (intro yields_bind_any) (simp split: simulation.split, blast)
  qed simp
qed

lemma unsigned_call_yields: "yields (built_from sdk base opts) (unsigned_call sdk rpc base opts)"
  unfolding unsigned_call_def
proof (rule yields_bind [where Q = "\<lambda>args. args = io_args opts"])
  show "yields (\<lambda>args. args = io_args opts) (eff_of Raised (encode_args sdk (io_args opts)))"
    by (auto intro!: uponI encode_args_Inr)
next
  fix args assume a: "args = io_args opts"
  show "yields (built_from sdk base opts) (eff_bind (buildUnsignedInvoke sdk rpc (opts\<lparr>io_args := args\<rparr>)) (\<lambda>(tx, unsignedXdr).
     eff_bind (eff_of Raised (buildGuardCallSummary sdk unsignedXdr (io_networkPassphrase opts) base)) (\<lambda>built.
       eff_ret \<lparr>gc_unsignedXdr = unsignedXdr, gc_summary = bs_summary built, gc_payloadHash = bs_payloadHash built\<rparr>)))"
  proof (rule yields_bind [OF buildUnsignedInvoke_yields], clarsimp)
    fix tx account t s
    assume "buildTransaction sdk (opts\<lparr>io_args := args\<rparr>) account = Inr t" "gk_assemble sdk t s = Inr tx"
    then show "yields (built_from sdk base opts)
        (eff_bind (eff_of Raised (buildGuardCallSummary sdk (gk_toXDR sdk tx) (io_networkPassphrase opts) base)) (\<lambda>built.
          eff_ret \<lparr>gc_unsignedXdr = gk_toXDR sdk tx, gc_summary = bs_summary built, gc_payloadHash = bs_payloadHash built\<rparr>))"
      by (cases "buildGuardCallSummary sdk (gk_toXDR sdk tx) (io_networkPassphrase opts) base")
        (auto simp: built_from_def a yields_def)
  qed
qed

text \<open>Every write of the client builds exactly the call it is named after.  A payment by the
  executor is, for the client's own contract and network and never any other, the invocation
  \<open>pay_executor\<close> with the executor, the owner, the recipient, the asset and the amount in the
  contract's order and the executor as the account that must sign, and its card and hash are
  decoded from the very XDR that is returned; the same holds of a payment by the owner, of the
  rule and of the executor registration.\<close>

theorem writes_build_their_call:
  "yields (built_from sdk (truthy_string (cl_explorerBase cl))
       (client_options cl executor ''pay_executor''
          [Sc_Address executor, Sc_Address owner, Sc_Address to_addr, Sc_Address asset, Sc_I128 amount]))
     (payExecutor executor owner to_addr asset amount sdk cl)
   \<and> yields (built_from sdk (truthy_string (cl_explorerBase cl))
       (client_options cl owner ''pay_owner'' [Sc_Address owner, Sc_Address to_addr, Sc_Address asset, Sc_I128 amount]))
     (payOwner owner to_addr asset amount sdk cl)
   \<and> yields (built_from sdk (truthy_string (cl_explorerBase cl))
       (client_options cl owner ''set_rule'' [Sc_Address owner, Sc_Rule r])) (setRule owner r sdk cl)
   \<and> yields (built_from sdk (truthy_string (cl_explorerBase cl))
       (client_options cl owner ''set_executor'' [Sc_Address owner, Sc_Address executor])) (setExecutor owner executor sdk cl)"
  using unsigned_call_yields
  by (fastforce simp: payExecutor_def payOwner_def setRule_def setExecutor_def guard_write_def client_options_def)

end
