(* ===== verification/Approval_Flows.thy ===== *)
theory Approval_Flows
  imports Approval Guard_Client
begin

text \<open>
  \<open>stellar/src/approval/enableAutoPay.ts\<close>: the builders of the enable, baseline, disable and
  tighten flows.  Each step is an unsigned invocation and each card is decoded from it.  External
  are the SDK, the RPC node, \<open>StrKey\<close>, \<open>String\<close> of a number and the two date formatters
  (\<open>flow_env\<close>); the clock reading is a field of the dependencies.
\<close>

section \<open>Data\<close>

datatype flow_error = Client_Failure client_error | Approval_Failure approval_error

datatype step_kind = Step_Set_Executor | Step_Set_Rule | Step_Approve | Step_Revoke_Executor

record approval_step =
  st_kind :: step_kind
  st_unsignedXdr :: string
  st_payloadHash :: string

record action_summary =
  ac_kind :: step_kind
  ac_lines :: "string list"
  ac_arming :: bool

record exposure =
  xp_thresholdRaw :: native
  xp_dailyLimitRaw :: native
  xp_allowanceRaw :: int
  xp_allowanceExpiresLocal :: string
  xp_allowanceExpiresUtc :: string

record card_summary =
  cs_title :: string
  cs_actions :: "action_summary list"
  cs_exposure :: "exposure option"
  cs_notes :: "string list"
  cs_confirmation :: confirmation_level

record flow_result =
  fr_steps :: "approval_step list"
  fr_summary :: card_summary
  fr_order :: "step_kind list"

record ('acc, 'tx, 'sim) flow_env =
  fe_sdk :: "('acc, 'tx, 'sim) guard_sdk"
  fe_strkey :: strkey
  fe_num :: "js_number \<Rightarrow> string"
  fe_parts :: "string \<Rightarrow> int \<Rightarrow> string + (string \<times> string) list"
  fe_iso :: "int \<Rightarrow> string + string"

record ('w, 'acc, 'tx, 'sim) enable_deps =
  dp_owner :: string
  dp_guard :: "('w, 'acc, 'tx, 'sim) guard_client"
  dp_rpc :: "('w, 'acc, 'tx, 'sim) guard_rpc"
  dp_networkPassphrase :: string
  dp_currentAllowanceRaw :: "int option"
  dp_current :: "(rule option \<times> string option) option"
  dp_now :: int
  dp_timeZone :: "string option"
  dp_txTimeoutSeconds :: "int option"
  dp_explorerBase :: "string option"

record ('w, 'acc, 'tx, 'sim) disable_deps =
  dd_owner :: string
  dd_guard :: "('w, 'acc, 'tx, 'sim) guard_client"
  dd_rpc :: "('w, 'acc, 'tx, 'sim) guard_rpc"
  dd_networkPassphrase :: string
  dd_assetContractId :: "string option"
  dd_days :: "js_number option"
  dd_txTimeoutSeconds :: "int option"
  dd_explorerBase :: "string option"

record disable_result = flow_result +
  dr_confirmation :: confirmation_level

record tighten_result =
  tr_steps :: "approval_step list"
  tr_classification :: change_kind
  tr_confirmation :: confirmation_level

definition LEDGER_SECONDS :: int where "LEDGER_SECONDS = 5"

definition SCHEDULE_ALLOWANCE_NOTE :: string where
  "SCHEDULE_ALLOWANCE_NOTE = ''Schedules need the allowance to cover their total: an active schedule whose total exceeds the allowance will fail.''"

definition REVOKE_EXECUTOR_SCHEDULE_CAVEAT :: string where
  "REVOKE_EXECUTOR_SCHEDULE_CAVEAT = ''Revoking the executor does not stop schedules that already exist (cancel them separately).''"

definition REVOKE_ALLOWANCE_KILL_SWITCH_CAVEAT :: string where
  "REVOKE_ALLOWANCE_KILL_SWITCH_CAVEAT = ''Revoking the allowance disables ALL guard payments, including ones you approve yourself.''"

definition ALWAYS_ASK_NOTE :: string where
  "ALWAYS_ASK_NOTE = ''Always ask: every payment will need your approval.''"

definition ARMING_STEP_NOTE :: string where
  "ARMING_STEP_NOTE = ''Step 3 (set_executor) registers the agent and arms unattended payments up to the threshold; until then nothing can be paid without your approval.''"

section \<open>Cards\<close>

definition decodedLines :: "('acc, 'tx, 'sim) guard_sdk \<Rightarrow> string \<Rightarrow> string \<Rightarrow> string + string list" where
  "decodedLines sdk unsignedXdr networkPassphrase =
     and_then (decodeInvocation sdk unsignedXdr networkPassphrase) (\<lambda>decoded.
       Inr [''Function: '' @ di_functionName decoded @ '' ('' @ shortKey (di_contractId decoded) @ '')'',
            ''Args: '' @ js_join '', '' (map describeValue (di_args decoded))])"

definition ruleFromSetRuleXdr :: "('acc, 'tx, 'sim) guard_sdk \<Rightarrow> string \<Rightarrow> string \<Rightarrow> string + native" where
  "ruleFromSetRuleXdr sdk unsignedXdr networkPassphrase =
     and_then (decodeInvocation sdk unsignedXdr networkPassphrase) (\<lambda>decoded.
       Inr (nth_or N_Undefined (di_args decoded) 1))"

text \<open>A property read: of \<open>null\<close> and \<open>undefined\<close> it throws.\<close>

definition native_field :: "native \<Rightarrow> string \<Rightarrow> string + native" where
  "native_field v k =
     (case v of
        N_Null \<Rightarrow> Inl ''TypeError''
      | N_Undefined \<Rightarrow> Inl ''TypeError''
      | N_Obj fs \<Rightarrow> Inr (case map_of fs k of Some x \<Rightarrow> x | None \<Rightarrow> N_Undefined)
      | _ \<Rightarrow> Inr N_Undefined)"

definition isAlreadyArmed :: "(rule option \<times> string option) option \<Rightarrow> bool" where
  "isAlreadyArmed current =
     (case current of
        None \<Rightarrow> False
      | Some (rl, executor) \<Rightarrow>
          (case executor of Some e \<Rightarrow> length e > 0 | None \<Rightarrow> False)
          \<and> (case rl of Some r \<Rightarrow> auto_approve_limit r | None \<Rightarrow> 0) > 0)"

definition formatInTimeZone :: "('acc, 'tx, 'sim) flow_env \<Rightarrow> int \<Rightarrow> string \<Rightarrow> string + string" where
  "formatInTimeZone env date timeZone =
     and_then (fe_parts env timeZone date) (\<lambda>parts.
       let pick = (\<lambda>ty. case filter (\<lambda>(t, v). t = ty) parts of [] \<Rightarrow> [] | (t, v) # _ \<Rightarrow> v)
       in Inr (pick ''year'' @ ''-'' @ pick ''month'' @ ''-'' @ pick ''day'' @ '' '' @ pick ''hour'' @ '':''
               @ pick ''minute''))"

definition allowanceChangeNotes :: "int option \<Rightarrow> int \<Rightarrow> guard_client_error + string list" where
  "allowanceChangeNotes currentAllowanceRaw nextAllowanceRaw =
     (case currentAllowanceRaw of
        None \<Rightarrow> Inr []
      | Some cur \<Rightarrow>
          and_then (formatAllowance cur) (\<lambda>c. and_then (formatAllowance nextAllowanceRaw) (\<lambda>n.
            Inr ([''Allowance: '' @ c @ '' -> '' @ n]
                 @ (if nextAllowanceRaw < cur
                    then [''WARNING: the new allowance is lower than the current one and may break scheduled payments.'']
                    else [])))))"

definition step_of :: "step_kind \<Rightarrow> guard_call \<Rightarrow> approval_step" where
  "step_of k c = \<lparr>st_kind = k, st_unsignedXdr = gc_unsignedXdr c, st_payloadHash = gc_payloadHash c\<rparr>"

text \<open>The actions of a card; \<open>arming\<close> marks the registration of the executor.\<close>

fun step_actions :: "('acc, 'tx, 'sim) guard_sdk \<Rightarrow> string \<Rightarrow> bool \<Rightarrow> approval_step list \<Rightarrow> string + action_summary list" where
  "step_actions sdk networkPassphrase arming [] = Inr []"
| "step_actions sdk networkPassphrase arming (s # ss) =
     and_then (decodedLines sdk (st_unsignedXdr s) networkPassphrase) (\<lambda>lines.
     and_then (step_actions sdk networkPassphrase arming ss) (\<lambda>actions.
       Inr (\<lparr>ac_kind = st_kind s, ac_lines = lines, ac_arming = (arming \<and> st_kind s = Step_Set_Executor)\<rparr> # actions)))"

text \<open>An awaited call of the client, with its errors seen from the flow.\<close>

definition client_step :: "('w, client_error, 'a) eff \<Rightarrow> ('w, flow_error, 'a) eff" where
  "client_step m = eff_try m (\<lambda>e. eff_throw (Client_Failure e)) eff_ret"

definition raise :: "string + 'a \<Rightarrow> ('w, flow_error, 'a) eff" where
  "raise m = eff_of (\<lambda>e. Client_Failure (Raised e)) m"

definition expires_ms :: "int \<Rightarrow> approve_result \<Rightarrow> int" where
  "expires_ms now r = now + (ar_liveUntilLedger r - ar_currentLedger r) * LEDGER_SECONDS * 1000"

text \<open>The card of the enable and the baseline flow; the exposure is decoded from the \<open>set_rule\<close> XDR.\<close>

definition flow_card ::
    "('acc, 'tx, 'sim) flow_env \<Rightarrow> ('w, 'acc, 'tx, 'sim) enable_deps \<Rightarrow> string \<Rightarrow> bool \<Rightarrow> string list \<Rightarrow> int
      \<Rightarrow> approve_result \<Rightarrow> native \<Rightarrow> approval_step list \<Rightarrow> ('v, flow_error, card_summary) eff" where
  "flow_card env deps title arming notes allowanceRaw approveCall decodedRule steps =
     eff_bind (raise (step_actions (fe_sdk env) (dp_networkPassphrase deps) arming steps)) (\<lambda>actions.
     eff_bind (raise (native_field decodedRule ''auto_approve_limit'')) (\<lambda>threshold.
     eff_bind (raise (native_field decodedRule ''daily_limit'')) (\<lambda>daily.
     eff_bind (raise (formatInTimeZone env (expires_ms (dp_now deps) approveCall)
                        (case dp_timeZone deps of Some z \<Rightarrow> z | None \<Rightarrow> ''UTC''))) (\<lambda>expiresLocal.
     eff_bind (raise (fe_iso env (expires_ms (dp_now deps) approveCall))) (\<lambda>expiresUtc.
     eff_bind (eff_of (\<lambda>e. Client_Failure (Guard_Failure e))
                 (allowanceChangeNotes (dp_currentAllowanceRaw deps) allowanceRaw)) (\<lambda>change.
       eff_ret \<lparr>cs_title = title, cs_actions = actions,
         cs_exposure = Some \<lparr>xp_thresholdRaw = threshold, xp_dailyLimitRaw = daily, xp_allowanceRaw = allowanceRaw,
                             xp_allowanceExpiresLocal = expiresLocal, xp_allowanceExpiresUtc = expiresUtc\<rparr>,
         cs_notes = notes @ change, cs_confirmation = Card_And_Touch_Id\<rparr>))))))"

section \<open>Enable\<close>

definition approve_input_of :: "('w, 'acc, 'tx, 'sim) enable_deps \<Rightarrow> string \<Rightarrow> int \<Rightarrow> js_number \<Rightarrow> approve_input" where
  "approve_input_of deps asset amount days =
     \<lparr>ap_assetContractId = asset, ap_from = dp_owner deps, ap_spender = cl_contractId (dp_guard deps),
      ap_amount = amount, ap_networkPassphrase = dp_networkPassphrase deps, ap_days = Some days,
      ap_txTimeoutSeconds = dp_txTimeoutSeconds deps, ap_explorerBase = truthy_string (dp_explorerBase deps)\<rparr>"

definition buildEnableAutoPay ::
    "('acc, 'tx, 'sim) flow_env \<Rightarrow> ('w, 'acc, 'tx, 'sim) enable_deps \<Rightarrow> auto_pay_draft \<Rightarrow> ('w, flow_error, flow_result) eff" where
  "buildEnableAutoPay env deps draft =
     eff_bind (eff_of Approval_Failure (validateAutoPayDraft (fe_strkey env) draft)) (\<lambda>_.
     case truthy_string (js_nth (ad_allowedAssets draft) 0) of
       None \<Rightarrow> eff_throw (Approval_Failure No_Assets)
     | Some assetContractId \<Rightarrow>
         if isAlreadyArmed (dp_current deps) then eff_throw (Approval_Failure Already_Armed)
         else
           let sdk = fe_sdk env; owner = dp_owner deps; guard = dp_guard deps in
           eff_bind (client_step (buildApproveAllowance (fe_num env) sdk (dp_rpc deps)
              (approve_input_of deps assetContractId (ad_allowanceRaw draft) (ad_allowanceDays draft)))) (\<lambda>approveCall.
           eff_bind (client_step (setRule owner (ruleFromDraft draft) sdk guard)) (\<lambda>setRuleCall.
           eff_bind (client_step (setExecutor owner (ad_executor draft) sdk guard)) (\<lambda>setExecutorCall.
           eff_bind (raise (ruleFromSetRuleXdr sdk (gc_unsignedXdr setRuleCall) (dp_networkPassphrase deps))) (\<lambda>decodedRule.
           let steps = [step_of Step_Approve (ar_call approveCall), step_of Step_Set_Rule setRuleCall,
                        step_of Step_Set_Executor setExecutorCall] in
           eff_bind (flow_card env deps ''Enable automatic payments (3 owner signatures, 1 approval)'' True
              [ARMING_STEP_NOTE, SCHEDULE_ALLOWANCE_NOTE] (ad_allowanceRaw draft) approveCall decodedRule steps) (\<lambda>card.
             eff_ret \<lparr>fr_steps = steps, fr_summary = card,
                      fr_order = [Step_Approve, Step_Set_Rule, Step_Set_Executor]\<rparr>))))))"

definition buildBaselineSetup ::
    "('acc, 'tx, 'sim) flow_env \<Rightarrow> ('w, 'acc, 'tx, 'sim) enable_deps \<Rightarrow> baseline_input \<Rightarrow> ('w, flow_error, flow_result) eff" where
  "buildBaselineSetup env deps i =
     eff_bind (eff_of Approval_Failure (validateBaselineSetup (fe_strkey env) i)) (\<lambda>_.
     let sdk = fe_sdk env in
     eff_bind (client_step (buildApproveAllowance (fe_num env) sdk (dp_rpc deps)
        (approve_input_of deps (bi_assetContractId i) (bi_allowanceRaw i) (bi_allowanceDays i)))) (\<lambda>approveCall.
     eff_bind (client_step (setRule (dp_owner deps) (bi_rule i) sdk (dp_guard deps))) (\<lambda>setRuleCall.
     eff_bind (raise (ruleFromSetRuleXdr sdk (gc_unsignedXdr setRuleCall) (dp_networkPassphrase deps))) (\<lambda>decodedRule.
     let steps = [step_of Step_Approve (ar_call approveCall), step_of Step_Set_Rule setRuleCall] in
     eff_bind (flow_card env deps ''Set up the Always-ask baseline (allowance + rule, no executor)'' False
        [ALWAYS_ASK_NOTE, SCHEDULE_ALLOWANCE_NOTE] (bi_allowanceRaw i) approveCall decodedRule steps) (\<lambda>card.
       eff_ret \<lparr>fr_steps = steps, fr_summary = card, fr_order = [Step_Approve, Step_Set_Rule]\<rparr>)))))"

section \<open>Disable and tighten\<close>

definition revoke_options :: "('w, 'acc, 'tx, 'sim) disable_deps \<Rightarrow> string \<Rightarrow> int \<Rightarrow> invoke_options" where
  "revoke_options deps asset liveUntilLedger =
     \<lparr>io_contractId = asset, io_method = ''approve'',
      io_args = [Sc_Address (dd_owner deps), Sc_Address (cl_contractId (dd_guard deps)), Sc_I128 0, Sc_U32 liveUntilLedger],
      io_source = dd_owner deps, io_networkPassphrase = dd_networkPassphrase deps,
      io_txTimeoutSeconds = dd_txTimeoutSeconds deps\<rparr>"

definition buildRevokeAllowanceCall ::
    "('acc, 'tx, 'sim) flow_env \<Rightarrow> ('w, 'acc, 'tx, 'sim) disable_deps \<Rightarrow> string \<Rightarrow> ('w, client_error, guard_call) eff" where
  "buildRevokeAllowanceCall env deps asset =
     eff_bind (request (rq_getLatestLedger (dd_rpc deps))) (\<lambda>currentLedger.
     eff_bind (eff_of Guard_Failure (allowanceExpiryLedger (fe_num env) currentLedger
                (case dd_days deps of Some d \<Rightarrow> d | None \<Rightarrow> jint ALLOWANCE_WINDOW_DAYS))) (\<lambda>liveUntilLedger.
       unsigned_call (fe_sdk env) (dd_rpc deps) (truthy_string (dd_explorerBase deps))
         (revoke_options deps asset liveUntilLedger)))"

definition disable_card :: "bool \<Rightarrow> action_summary list \<Rightarrow> card_summary" where
  "disable_card revokeAllowance actions =
     \<lparr>cs_title = ''Disable automatic payments'', cs_actions = actions, cs_exposure = None,
      cs_notes = (if revokeAllowance then [REVOKE_EXECUTOR_SCHEDULE_CAVEAT, REVOKE_ALLOWANCE_KILL_SWITCH_CAVEAT]
                  else [REVOKE_EXECUTOR_SCHEDULE_CAVEAT]),
      cs_confirmation = Light\<rparr>"

definition disable_result_of :: "bool \<Rightarrow> approval_step list \<Rightarrow> action_summary list \<Rightarrow> disable_result" where
  "disable_result_of revokeAllowance steps actions =
     \<lparr>fr_steps = steps, fr_summary = disable_card revokeAllowance actions, fr_order = map st_kind steps,
      dr_confirmation = Light\<rparr>"

definition buildDisableAutoPay ::
    "('acc, 'tx, 'sim) flow_env \<Rightarrow> ('w, 'acc, 'tx, 'sim) disable_deps \<Rightarrow> bool \<Rightarrow> ('w, flow_error, disable_result) eff" where
  "buildDisableAutoPay env deps revokeAllowance =
     (let sdk = fe_sdk env; network = dd_networkPassphrase deps in
      eff_bind (client_step (revokeExecutor (dd_owner deps) sdk (dd_guard deps))) (\<lambda>revoke.
      let revokeStep = step_of Step_Revoke_Executor revoke in
      eff_bind (raise (step_actions sdk network False [revokeStep])) (\<lambda>actions.
      if \<not> revokeAllowance then eff_ret (disable_result_of False [revokeStep] actions)
      else
        case truthy_string (dd_assetContractId deps) of
          None \<Rightarrow> eff_throw (Approval_Failure Missing_Asset)
        | Some asset \<Rightarrow>
            eff_bind (client_step (buildRevokeAllowanceCall env deps asset)) (\<lambda>approveZero.
            let approveStep = step_of Step_Approve approveZero in
            eff_bind (raise (step_actions sdk network False [approveStep])) (\<lambda>actions'.
              eff_ret (disable_result_of True [revokeStep, approveStep] (actions @ actions')))))))"

definition buildTightenRule ::
    "('acc, 'tx, 'sim) guard_sdk \<Rightarrow> string \<Rightarrow> ('w, 'acc, 'tx, 'sim) guard_client \<Rightarrow> rule option \<Rightarrow> rule \<Rightarrow> bool
      \<Rightarrow> ('w, flow_error, tighten_result) eff" where
  "buildTightenRule sdk owner guard current nextRule allowLoosening =
     (let classification = classifyChange current nextRule in
      if classification = Same then
        eff_ret \<lparr>tr_steps = [], tr_classification = classification, tr_confirmation = No_Confirmation\<rparr>
      else
        eff_bind (eff_of Approval_Failure (if allowLoosening then Inr () else assertTightening classification)) (\<lambda>_.
        eff_bind (client_step (setRule owner nextRule sdk guard)) (\<lambda>c.
          eff_ret \<lparr>tr_steps = [step_of Step_Set_Rule c], tr_classification = classification,
                   tr_confirmation = confirmationLevel classification\<rparr>)))"

end
