(* ===== verification/Approval_Flow_Laws.thy ===== *)
theory Approval_Flow_Laws
  imports Approval_Flows
begin

text \<open>
  What the approval flows do to the chain.  The steps a builder returns are the invocations listed
  here, and these are executed on the guard's contract and on the asset's allowance.
\<close>

section \<open>Executing the steps\<close>

record chain_state =
  ch_guard :: guard_state
  ch_allowance :: "string \<Rightarrow> int"

text \<open>The effect of an owner's call: the guard's entry points of \<open>Guard_Contract\<close>, and the SEP-41
  \<open>approve\<close> of the asset for the guard.  \<open>None\<close> is a call that fails.\<close>

definition apply_call :: "string \<Rightarrow> string \<Rightarrow> invoke_options \<Rightarrow> chain_state \<Rightarrow> chain_state option" where
  "apply_call guard_id owner c ch =
     (if io_source c \<noteq> owner then None
      else if io_method c = ''approve'' then
        (case io_args c of
           [Sc_Address src, Sc_Address spender, Sc_I128 amount, Sc_U32 ledger] \<Rightarrow>
             if src = owner \<and> spender = guard_id
             then Some (ch\<lparr>ch_allowance := (ch_allowance ch)(io_contractId c := amount)\<rparr>) else None
         | _ \<Rightarrow> None)
      else if io_contractId c \<noteq> guard_id then None
      else if io_method c = ''set_rule'' then
        (case io_args c of
           [Sc_Address src, Sc_Rule r] \<Rightarrow>
             if src = owner then (case set_rule (ch_guard ch) r of Inl _ \<Rightarrow> None | Inr g \<Rightarrow> Some (ch\<lparr>ch_guard := g\<rparr>))
             else None
         | _ \<Rightarrow> None)
      else if io_method c = ''set_executor'' then
        (case io_args c of
           [Sc_Address src, Sc_Address e] \<Rightarrow>
             if src = owner then Some (ch\<lparr>ch_guard := set_executor (ch_guard ch) e\<rparr>) else None
         | _ \<Rightarrow> None)
      else if io_method c = ''revoke_executor'' then
        (case io_args c of
           [Sc_Address src] \<Rightarrow> if src = owner then Some (ch\<lparr>ch_guard := revoke_executor (ch_guard ch)\<rparr>) else None
         | _ \<Rightarrow> None)
      else None)"

fun run_calls :: "string \<Rightarrow> string \<Rightarrow> invoke_options list \<Rightarrow> chain_state \<Rightarrow> chain_state option" where
  "run_calls g owner [] ch = Some ch"
| "run_calls g owner (c # cs) ch =
     (case apply_call g owner c ch of None \<Rightarrow> None | Some ch' \<Rightarrow> run_calls g owner cs ch')"

definition chain_token :: "chain_state \<Rightarrow> (string \<Rightarrow> string \<Rightarrow> int \<Rightarrow> bool) \<Rightarrow> token" where
  "chain_token ch transfer = \<lparr>tk_allowance = ch_allowance ch, tk_transfer = transfer\<rparr>"

text \<open>Nobody can make an unattended payment in this state.\<close>

definition disarmed :: "chain_state \<Rightarrow> bool" where
  "disarmed ch \<longleftrightarrow> (\<forall>transfer now e to_addr asset amount.
     \<not> agent_may_pay (chain_token ch transfer) now (ch_guard ch) e to_addr asset amount)"

lemma no_executor_disarmed: "gs_executor (ch_guard ch) = None \<Longrightarrow> disarmed ch"
  by (simp add: disarmed_def agent_may_pay_iff)

section \<open>Enabling\<close>

definition set_rule_call :: "('w, 'acc, 'tx, 'sim) guard_client \<Rightarrow> string \<Rightarrow> rule \<Rightarrow> invoke_options" where
  "set_rule_call cl owner r = client_options cl owner ''set_rule'' [Sc_Address owner, Sc_Rule r]"

definition set_executor_call :: "('w, 'acc, 'tx, 'sim) guard_client \<Rightarrow> string \<Rightarrow> string \<Rightarrow> invoke_options" where
  "set_executor_call cl owner e = client_options cl owner ''set_executor'' [Sc_Address owner, Sc_Address e]"

definition revoke_executor_call :: "('w, 'acc, 'tx, 'sim) guard_client \<Rightarrow> string \<Rightarrow> invoke_options" where
  "revoke_executor_call cl owner = client_options cl owner ''revoke_executor'' [Sc_Address owner]"

definition enable_calls :: "('w, 'acc, 'tx, 'sim) enable_deps \<Rightarrow> auto_pay_draft \<Rightarrow> string \<Rightarrow> int \<Rightarrow> invoke_options list" where
  "enable_calls deps draft asset ledger =
     [approve_options (approve_input_of deps asset (ad_allowanceRaw draft) (ad_allowanceDays draft)) ledger,
      set_rule_call (dp_guard deps) (dp_owner deps) (ruleFromDraft draft),
      set_executor_call (dp_guard deps) (dp_owner deps) (ad_executor draft)]"

definition step_built :: "('acc, 'tx, 'sim) guard_sdk \<Rightarrow> invoke_options \<Rightarrow> approval_step \<Rightarrow> bool" where
  "step_built sdk opts s \<longleftrightarrow>
     (\<exists>base c. built_from sdk base opts c \<and> st_unsignedXdr s = gc_unsignedXdr c \<and> st_payloadHash s = gc_payloadHash c)"

lemma step_built_of: "built_from sdk base opts c \<Longrightarrow> step_built sdk opts (step_of k c)"
  unfolding step_built_def by (auto simp: step_of_def)

lemma kind_step_of [simp]: "st_kind (step_of k c) = k"
  by (simp add: step_of_def)

lemma yields_client_step: "yields P m \<Longrightarrow> yields P (client_step m)"
  by (auto simp: client_step_def yields_def eff_try_Some)

lemma approve_yields:
  "yields (\<lambda>r. \<exists>ledger base. built_from sdk base (approve_options i ledger) (ar_call r))
     (buildApproveAllowance num sdk rpc i)"
  unfolding buildApproveAllowance_def
  by (rule yields_bind_any, rule yields_bind_any, rule yields_bind_any, rule yields_bind [OF unsigned_call_yields]) auto

lemma write_yields:
  "yields (\<lambda>c. \<exists>base. built_from sdk base (set_rule_call cl owner r) c) (setRule owner r sdk cl)"
  "yields (\<lambda>c. \<exists>base. built_from sdk base (set_executor_call cl owner e) c) (setExecutor owner e sdk cl)"
  "yields (\<lambda>c. \<exists>base. built_from sdk base (revoke_executor_call cl owner) c) (revokeExecutor owner sdk cl)"
  unfolding setRule_def setExecutor_def revokeExecutor_def guard_write_def set_rule_call_def set_executor_call_def
    revoke_executor_call_def
  by (blast intro: yields_mono [OF unsigned_call_yields])+

lemma actions_arming:
  "step_actions sdk network arming steps = Inr actions \<Longrightarrow>
     map ac_kind actions = map st_kind steps
     \<and> map ac_arming actions = map (\<lambda>s. arming \<and> st_kind s = Step_Set_Executor) steps
     \<and> list_all2 (\<lambda>a s. decodedLines sdk (st_unsignedXdr s) network = Inr (ac_lines a)) actions steps"
  by (induction steps arbitrary: actions) auto

text \<open>What the card says of its steps.\<close>

definition card_of_steps ::
    "('acc, 'tx, 'sim) guard_sdk \<Rightarrow> string \<Rightarrow> bool \<Rightarrow> card_summary \<Rightarrow> approval_step list \<Rightarrow> bool" where
  "card_of_steps sdk network arming summary steps \<longleftrightarrow>
     map ac_kind (cs_actions summary) = map st_kind steps
     \<and> map ac_arming (cs_actions summary) = map (\<lambda>s. arming \<and> st_kind s = Step_Set_Executor) steps
     \<and> list_all2 (\<lambda>a s. decodedLines sdk (st_unsignedXdr s) network = Inr (ac_lines a)) (cs_actions summary) steps"

lemma card_yields:
  "yields (\<lambda>card. cs_confirmation card = Card_And_Touch_Id
      \<and> card_of_steps (fe_sdk env) (dp_networkPassphrase deps) arming card steps)
     (flow_card env deps title arming notes allowance approveCall decodedRule steps)"
  unfolding flow_card_def raise_def
proof (rule yields_bind [where Q = "\<lambda>a. step_actions (fe_sdk env) (dp_networkPassphrase deps) arming steps = Inr a"])
  show "yields (\<lambda>a. step_actions (fe_sdk env) (dp_networkPassphrase deps) arming steps = Inr a)
     (eff_of (\<lambda>e. Client_Failure (Raised e)) (step_actions (fe_sdk env) (dp_networkPassphrase deps) arming steps))"
    by (auto intro: uponI)
next
  fix a assume "step_actions (fe_sdk env) (dp_networkPassphrase deps) arming steps = Inr a"
  from actions_arming [OF this]
  show "yields (\<lambda>card. cs_confirmation card = Card_And_Touch_Id
        \<and> card_of_steps (fe_sdk env) (dp_networkPassphrase deps) arming card steps)
     (eff_bind (eff_of (\<lambda>e. Client_Failure (Raised e)) (native_field decodedRule ''auto_approve_limit'')) (\<lambda>threshold.
     eff_bind (eff_of (\<lambda>e. Client_Failure (Raised e)) (native_field decodedRule ''daily_limit'')) (\<lambda>daily.
     eff_bind (eff_of (\<lambda>e. Client_Failure (Raised e)) (formatInTimeZone env (expires_ms (dp_now deps) approveCall)
                        (case dp_timeZone deps of Some z \<Rightarrow> z | None \<Rightarrow> ''UTC''))) (\<lambda>expiresLocal.
     eff_bind (eff_of (\<lambda>e. Client_Failure (Raised e)) (fe_iso env (expires_ms (dp_now deps) approveCall))) (\<lambda>expiresUtc.
     eff_bind (eff_of (\<lambda>e. Client_Failure (Guard_Failure e))
                 (allowanceChangeNotes (dp_currentAllowanceRaw deps) allowance)) (\<lambda>change.
       eff_ret \<lparr>cs_title = title, cs_actions = a,
         cs_exposure = Some \<lparr>xp_thresholdRaw = threshold, xp_dailyLimitRaw = daily, xp_allowanceRaw = allowance,
                             xp_allowanceExpiresLocal = expiresLocal, xp_allowanceExpiresUtc = expiresUtc\<rparr>,
         cs_notes = notes @ change, cs_confirmation = Card_And_Touch_Id\<rparr>))))))"
    by (intro yields_bind_any) (simp add: card_of_steps_def)
qed

lemma enable_yields:
  "yields (\<lambda>r. \<exists>asset ledger. validateAutoPayDraft (fe_strkey env) draft = Inr () \<and> js_nth (ad_allowedAssets draft) 0 = Some asset
      \<and> list_all2 (step_built (fe_sdk env)) (enable_calls deps draft asset ledger) (fr_steps r)
      \<and> map st_kind (fr_steps r) = [Step_Approve, Step_Set_Rule, Step_Set_Executor]
      \<and> fr_order r = [Step_Approve, Step_Set_Rule, Step_Set_Executor]
      \<and> cs_confirmation (fr_summary r) = Card_And_Touch_Id
      \<and> card_of_steps (fe_sdk env) (dp_networkPassphrase deps) True (fr_summary r) (fr_steps r))
     (buildEnableAutoPay env deps draft)"
  unfolding buildEnableAutoPay_def
proof (rule yields_bind [where Q = "\<lambda>_. validateAutoPayDraft (fe_strkey env) draft = Inr ()"], goal_cases)
  case 1
  show ?case by (auto intro: uponI)
next
  case (2 u)
  show ?case
  proof (cases "truthy_string (js_nth (ad_allowedAssets draft) 0)")
    case (Some asset)
    then have a: "js_nth (ad_allowedAssets draft) 0 = Some asset" by (auto simp: truthy_string_def split: if_splits)
    show ?thesis
      unfolding Some option.case Let_def
      apply (simp only: split: if_split)
      apply (intro conjI impI yields_throw)
      apply (rule yields_bind [OF yields_client_step [OF approve_yields]])
      apply (rule yields_bind [OF yields_client_step [OF write_yields(1)]])
      apply (rule yields_bind [OF yields_client_step [OF write_yields(2)]])
      apply (rule yields_bind_any)
      apply (rule yields_bind [OF card_yields])
      apply (use 2 a in \<open>auto simp: enable_calls_def intro!: exI [of _ asset] intro: step_built_of\<close>)
      done
  qed simp
qed

section \<open>The chain after each step\<close>

lemma apply_approve: "apply_call (ap_spender i) (ap_from i) (approve_options i ledger) ch
    = Some (ch\<lparr>ch_allowance := (ch_allowance ch)(ap_assetContractId i := ap_amount i)\<rparr>)"
  by (simp add: apply_call_def approve_options_def)

lemma apply_set_rule: "apply_call (cl_contractId cl) owner (set_rule_call cl owner r) ch
    = (case set_rule (ch_guard ch) r of Inl _ \<Rightarrow> None | Inr g \<Rightarrow> Some (ch\<lparr>ch_guard := g\<rparr>))"
  by (simp add: apply_call_def set_rule_call_def client_options_def)

lemma apply_set_executor: "apply_call (cl_contractId cl) owner (set_executor_call cl owner e) ch
    = Some (ch\<lparr>ch_guard := set_executor (ch_guard ch) e\<rparr>)"
  by (simp add: apply_call_def set_executor_call_def client_options_def)

lemma apply_revoke: "apply_call (cl_contractId cl) owner (revoke_executor_call cl owner) ch
    = Some (ch\<lparr>ch_guard := revoke_executor (ch_guard ch)\<rparr>)"
  by (simp add: apply_call_def revoke_executor_call_def client_options_def)

lemmas apply_calls = apply_set_rule apply_set_executor apply_revoke

lemma draft_rule_valid: "validateAutoPayDraft sk draft = Inr () \<Longrightarrow>
    validate_rule (ruleFromDraft draft) = Inr () \<and> (\<exists>a. ad_allowedAssets draft = [a])"
  by (auto simp: validateAutoPayDraft_Inr validateRule_conditions validate_rule_Inr length_one_iff ruleFromDraft_def)

text \<open>The states the three prefixes of the enable flow reach.\<close>

definition after_enable :: "auto_pay_draft \<Rightarrow> string \<Rightarrow> nat \<Rightarrow> chain_state \<Rightarrow> chain_state" where
  "after_enable draft asset k ch =
     (let ch1 = ch\<lparr>ch_allowance := (ch_allowance ch)(asset := ad_allowanceRaw draft)\<rparr>;
          ch2 = ch1\<lparr>ch_guard := (ch_guard ch)\<lparr>gs_rule := Some (ruleFromDraft draft)\<rparr>\<rparr>;
          ch3 = ch2\<lparr>ch_guard := set_executor (ch_guard ch2) (ad_executor draft)\<rparr>
      in if k = 0 then ch else if k = 1 then ch1 else if k = 2 then ch2 else ch3)"

lemma run_enable:
  assumes "validateAutoPayDraft sk draft = Inr ()" "k \<le> 3"
  shows "run_calls (cl_contractId (dp_guard deps)) (dp_owner deps) (take k (enable_calls deps draft asset ledger)) ch
     = Some (after_enable draft asset k ch)"
proof -
  have v: "validate_rule (ruleFromDraft draft) = Inr ()" using draft_rule_valid [OF assms(1)] by blast
  have a: "apply_call (cl_contractId (dp_guard deps)) (dp_owner deps)
        (approve_options (approve_input_of deps asset (ad_allowanceRaw draft) (ad_allowanceDays draft)) ledger) ch
      = Some (ch\<lparr>ch_allowance := (ch_allowance ch)(asset := ad_allowanceRaw draft)\<rparr>)" for ch
    using apply_approve [of "approve_input_of deps asset (ad_allowanceRaw draft) (ad_allowanceDays draft)"]
    by (simp add: approve_input_of_def)
  have "k = 0 \<or> k = 1 \<or> k = 2 \<or> k = 3" using assms(2) by linarith
  then show ?thesis
    by (elim disjE) (simp_all add: enable_calls_def after_enable_def Let_def a apply_calls set_rule_def v)
qed

lemma after_enable_prefix:
  "k < 3 \<Longrightarrow> gs_executor (ch_guard ch) = None \<Longrightarrow> disarmed (after_enable draft asset k ch)"
  by (rule no_executor_disarmed) (simp add: after_enable_def Let_def)

lemma after_enable_armed:
  assumes "validateAutoPayDraft sk draft = Inr ()" "js_nth (ad_allowedAssets draft) 0 = Some asset"
    and "agent_may_pay (chain_token (after_enable draft asset 3 ch) transfer) now (ch_guard (after_enable draft asset 3 ch)) e to_addr asset' amount"
  shows "e = ad_executor draft \<and> asset' = asset \<and> 0 < amount \<and> amount \<le> ad_thresholdRaw draft
     \<and> amount \<le> ad_allowanceRaw draft \<and> (ad_knownRecipientsOnly draft \<longrightarrow> gs_known (ch_guard ch) to_addr)"
proof -
  obtain a where "ad_allowedAssets draft = [a]" using draft_rule_valid [OF assms(1)] by blast
  then have "ad_allowedAssets draft = [asset]" using assms(2) by (simp add: js_nth_def)
  then show ?thesis using assms(3)
    by (auto simp: agent_may_pay_iff after_enable_def Let_def set_executor_def ruleFromDraft_def chain_token_def)
qed

text \<open>C11: Enabling automatic payments arms last and arms exactly what was asked.  Whatever the RPC
  answers, the flow returns three steps that are, in this order, the assembled allowance, rule and
  executor calls of the validated draft, with a card decoded from those very XDRs on which only the
  last step is marked as arming.  Executed on a chain with no executor, every proper prefix of the
  three calls succeeds and leaves the account unable to make any unattended payment, and the whole
  sequence lets exactly the draft's executor pay the draft's asset up to its threshold and
  allowance, to saved recipients only when the draft says so.\<close>

theorem enable_arms_last:
  assumes "buildEnableAutoPay env deps draft w = Some (Inr r, w')"
    and "gs_executor (ch_guard ch) = None"
  shows "\<exists>asset ledger. list_all2 (step_built (fe_sdk env)) (enable_calls deps draft asset ledger) (fr_steps r)
     \<and> fr_order r = [Step_Approve, Step_Set_Rule, Step_Set_Executor] \<and> map st_kind (fr_steps r) = fr_order r
     \<and> card_of_steps (fe_sdk env) (dp_networkPassphrase deps) True (fr_summary r) (fr_steps r)
     \<and> (\<forall>k < 3. \<exists>ch'. run_calls (cl_contractId (dp_guard deps)) (dp_owner deps)
            (take k (enable_calls deps draft asset ledger)) ch = Some ch' \<and> disarmed ch')
     \<and> (\<exists>ch'. run_calls (cl_contractId (dp_guard deps)) (dp_owner deps) (enable_calls deps draft asset ledger) ch = Some ch'
          \<and> (\<forall>transfer now e to_addr asset' amount.
               agent_may_pay (chain_token ch' transfer) now (ch_guard ch') e to_addr asset' amount \<longrightarrow>
               e = ad_executor draft \<and> asset' = asset \<and> 0 < amount \<and> amount \<le> ad_thresholdRaw draft
               \<and> amount \<le> ad_allowanceRaw draft
               \<and> (ad_knownRecipientsOnly draft \<longrightarrow> gs_known (ch_guard ch) to_addr)))"
proof -
  obtain asset ledger where r: "validateAutoPayDraft (fe_strkey env) draft = Inr ()"
      "js_nth (ad_allowedAssets draft) 0 = Some asset"
      "list_all2 (step_built (fe_sdk env)) (enable_calls deps draft asset ledger) (fr_steps r)"
      "map st_kind (fr_steps r) = fr_order r" "fr_order r = [Step_Approve, Step_Set_Rule, Step_Set_Executor]"
      "card_of_steps (fe_sdk env) (dp_networkPassphrase deps) True (fr_summary r) (fr_steps r)"
    using yieldsD [OF enable_yields assms(1)] by auto
  have "take 3 (enable_calls deps draft asset ledger) = enable_calls deps draft asset ledger"
    by (simp add: enable_calls_def)
  then have run: "run_calls (cl_contractId (dp_guard deps)) (dp_owner deps) (enable_calls deps draft asset ledger) ch
      = Some (after_enable draft asset 3 ch)"
    using run_enable [OF r(1), of 3 deps asset ledger ch] by simp
  have "\<exists>ch'. run_calls (cl_contractId (dp_guard deps)) (dp_owner deps)
            (take k (enable_calls deps draft asset ledger)) ch = Some ch' \<and> disarmed ch'" if "k < 3" for k
    using run_enable [OF r(1), of k deps asset ledger ch] after_enable_prefix [OF that assms(2), of draft asset] that by simp
  then show ?thesis
    using r run after_enable_armed [OF r(1,2)] by (intro exI [of _ asset] exI [of _ ledger]) blast
qed

text \<open>A refused enable does nothing: a draft that fails its validation, or an account that is
  already armed, is reported with its code before any request is made.\<close>

theorem enable_refusal_is_silent:
  "(validateAutoPayDraft (fe_strkey env) draft = Inl e \<longrightarrow>
      buildEnableAutoPay env deps draft w = Some (Inl (Approval_Failure e), w))
   \<and> (validateAutoPayDraft (fe_strkey env) draft = Inr () \<and> isAlreadyArmed (dp_current deps)
        \<and> js_nth (ad_allowedAssets draft) 0 \<noteq> Some [] \<longrightarrow>
      buildEnableAutoPay env deps draft w = Some (Inl (Approval_Failure Already_Armed), w))"
proof (intro conjI impI)
  assume h: "validateAutoPayDraft (fe_strkey env) draft = Inr () \<and> isAlreadyArmed (dp_current deps)
        \<and> js_nth (ad_allowedAssets draft) 0 \<noteq> Some []"
  then obtain a where "ad_allowedAssets draft = [a]" using draft_rule_valid by blast
  then show "buildEnableAutoPay env deps draft w = Some (Inl (Approval_Failure Already_Armed), w)"
    using h by (simp add: buildEnableAutoPay_def js_nth_def truthy_string_def)
qed (simp add: buildEnableAutoPay_def)

section \<open>Examples\<close>

text \<open>An SDK whose transaction is its invocation and whose XDR is the name of the method, and a node
  that answers every request.\<close>

definition example_rule_native :: native where
  "example_rule_native = N_Obj [(''auto_approve_limit'', N_Big 250000000), (''daily_limit'', N_Big 1005000000)]"

definition sdk_example :: "(unit, string, unit) guard_sdk" where
  "sdk_example = \<lparr>gk_encode_error = (\<lambda>_. None), gk_build = (\<lambda>opts _. Inr (io_method opts)),
     gk_assemble = (\<lambda>tx _. Inr tx), gk_toXDR = (\<lambda>tx. tx), gk_fromXDR = (\<lambda>s _. Inr (Some s)),
     gk_first_op = (\<lambda>tx. Invoke_Contract ''CGUARD'' tx [N_Str ''GOWNER'', example_rule_native]),
     gk_hash = (\<lambda>_. [1, 2]), gk_fee = (\<lambda>_. 100)\<rparr>"

definition rpc_ok :: "(unit, unit, string, unit) guard_rpc" where
  "rpc_ok = \<lparr>rq_getAccount = (\<lambda>_ w. (Inr (), w)), rq_simulateTransaction = (\<lambda>_ w. (Inr (Sim_Ok () None), w)),
     rq_getLatestLedger = (\<lambda>w. (Inr (jint 1000), w))\<rparr>"

definition client_example :: "(unit, unit, string, unit) guard_client" where
  "client_example = \<lparr>cl_contractId = ''CGUARD'', cl_rpc = rpc_ok, cl_networkPassphrase = ''Test'', cl_source = ''GOWNER'',
     cl_txTimeoutSeconds = 300, cl_explorerBase = None\<rparr>"

definition env_example :: "(unit, string, unit) flow_env" where
  "env_example = \<lparr>fe_sdk = sdk_example, fe_strkey = strkey_example, fe_num = (\<lambda>_. []),
     fe_parts = (\<lambda>_ _. Inr []), fe_iso = (\<lambda>_. Inr [])\<rparr>"

definition deps_example :: "(unit, unit, string, unit) enable_deps" where
  "deps_example = \<lparr>dp_owner = ''GOWNER'', dp_guard = client_example, dp_rpc = rpc_ok, dp_networkPassphrase = ''Test'',
     dp_currentAllowanceRaw = None, dp_current = None, dp_now = 0, dp_timeZone = None, dp_txTimeoutSeconds = None,
     dp_explorerBase = None\<rparr>"

definition disable_deps_example :: "(unit, unit, string, unit) disable_deps" where
  "disable_deps_example = \<lparr>dd_owner = ''GOWNER'', dd_guard = client_example, dd_rpc = rpc_ok,
     dd_networkPassphrase = ''Test'', dd_assetContractId = Some ''CUSDC'', dd_days = None, dd_txTimeoutSeconds = None,
     dd_explorerBase = None\<rparr>"

definition chain_example :: chain_state where
  "chain_example = \<lparr>ch_guard = \<lparr>gs_rule = None, gs_executor = None, gs_known = (\<lambda>_. True), gs_spent = None\<rparr>,
     ch_allowance = (\<lambda>_. 0)\<rparr>"

lemma draft_example_valid: "validateAutoPayDraft strkey_example draft_example = Inr ()"
  by (auto simp: validateAutoPayDraft_Inr validateRule_conditions ruleFromDraft_def draft_example_def
      strkey_example_def valid_days_iff I128_MAX_def intro!: exI [of _ 30])

lemma unsigned_call_example: "\<exists>c. unsigned_call sdk_example rpc_ok base opts w = Some (Inr c, w)"
proof -
  have "encode_args sdk_example vs = Inr vs" for vs by (induction vs) (simp_all add: sdk_example_def)
  then show ?thesis
    by (simp add: unsigned_call_def buildUnsignedInvoke_def request_def rpc_ok_def buildTransaction_def sdk_example_def
        buildGuardCallSummary_def decodeTx_def decodeInvocation_def Let_def eff_bind_def eff_of_def)
qed

lemma write_example: "\<exists>c. guard_write src m args sdk_example client_example w = Some (Inr c, w)"
  using unsigned_call_example by (simp add: guard_write_def client_example_def)

lemma client_step_eval: "client_step m w =
    (case m w of None \<Rightarrow> None | Some (r, w') \<Rightarrow> Some (catchE r Client_Failure, w'))"
  by (auto simp: client_step_def eff_try_def split: option.splits sum.splits)

lemma approve_example: "0 < ap_amount i \<Longrightarrow> ap_amount i \<le> I128_MAX \<Longrightarrow> ap_days i = Some (jint 30) \<Longrightarrow>
    \<exists>r. buildApproveAllowance num sdk_example rpc_ok i w = Some (Inr r, w)"
proof -
  assume h: "0 < ap_amount i" "ap_amount i \<le> I128_MAX" "ap_days i = Some (jint 30)"
  obtain c where "unsigned_call sdk_example rpc_ok (truthy_string (ap_explorerBase i)) (approve_options i 519400) w = Some (Inr c, w)"
    using unsigned_call_example by blast
  then show ?thesis using h
    by (simp add: buildApproveAllowance_def assertAllowanceAmount_def request_def rpc_ok_def allowanceExpiryLedger_def
        LEDGERS_PER_DAY_def eff_bind_def)
qed

lemma enable_example: "\<exists>r. buildEnableAutoPay env_example deps_example draft_example () = Some (Inr r, ())"
proof -
  obtain a where a: "buildApproveAllowance (fe_num env_example) sdk_example rpc_ok
      (approve_input_of deps_example ''CUSDC'' (ad_allowanceRaw draft_example) (ad_allowanceDays draft_example)) () = Some (Inr a, ())"
    using approve_example [of "approve_input_of deps_example ''CUSDC'' (ad_allowanceRaw draft_example) (ad_allowanceDays draft_example)"]
    by (auto simp: approve_input_of_def draft_example_def I128_MAX_def)
  obtain b c where bc: "setRule ''GOWNER'' (ruleFromDraft draft_example) sdk_example client_example () = Some (Inr b, ())"
      "setExecutor ''GOWNER'' (ad_executor draft_example) sdk_example client_example () = Some (Inr c, ())"
    using write_example unfolding setRule_def setExecutor_def by blast
  have "js_nth (ad_allowedAssets draft_example) 0 = Some ''CUSDC''" by (simp add: draft_example_def js_nth_def)
  then show ?thesis
    using a bc draft_example_valid
    by (simp add: buildEnableAutoPay_def client_step_eval env_example_def deps_example_def truthy_string_def isAlreadyArmed_def
        eff_bind_def eff_of_def raise_def flow_card_def sdk_example_def ruleFromSetRuleXdr_def decodeInvocation_def
        decodeTx_def nth_or_def example_rule_native_def native_field_def decodedLines_def formatInTimeZone_def Let_def
        allowanceChangeNotes_def)
qed

theorem enable_arms_last_witness:
  "\<exists>asset ledger ch'. run_calls ''CGUARD'' ''GOWNER'' (take 2 (enable_calls deps_example draft_example asset ledger))
     chain_example = Some ch' \<and> disarmed ch'"
proof -
  obtain r where r: "buildEnableAutoPay env_example deps_example draft_example () = Some (Inr r, ())"
    using enable_example by blast
  have "gs_executor (ch_guard chain_example) = None" by (simp add: chain_example_def)
  from enable_arms_last [OF r this] obtain asset ledger ch' where
      "run_calls ''CGUARD'' ''GOWNER'' (take 2 (enable_calls deps_example draft_example asset ledger)) chain_example = Some ch'"
      "disarmed ch'"
    by (auto simp: deps_example_def client_example_def dest: spec [where x = "2::nat"])
  then show ?thesis by blast
qed

theorem enable_refusal_is_silent_witness:
  "buildEnableAutoPay env_example (deps_example\<lparr>dp_current := Some (Some (ruleFromDraft draft_example), Some ''GAGENT'')\<rparr>)
     draft_example () = Some (Inl (Approval_Failure Already_Armed), ())"
  using enable_refusal_is_silent [of env_example draft_example _
      "deps_example\<lparr>dp_current := Some (Some (ruleFromDraft draft_example), Some ''GAGENT'')\<rparr>" "()"] draft_example_valid
  by (auto simp: env_example_def isAlreadyArmed_def ruleFromDraft_def draft_example_def js_nth_def)

section \<open>A prefix that arms\<close>

text \<open>An account whose rule has threshold 0 but where an earlier executor is still registered.\<close>

definition stale_rule :: rule where
  "stale_rule = (ruleFromDraft draft_example)\<lparr>auto_approve_limit := 0\<rparr>"

definition stale_chain :: chain_state where
  "stale_chain = \<lparr>ch_guard = \<lparr>gs_rule = Some stale_rule, gs_executor = Some ''GOLD'', gs_known = (\<lambda>_. True), gs_spent = None\<rparr>,
     ch_allowance = (\<lambda>_. 0)\<rparr>"

text \<open>The prefix-safety the source claims needs more than the builder checks.  With a registered
  executor and a threshold of 0 the account is not armed and the builder accepts it, even when told
  the state of the chain; after the first two steps, before the arming step, the old executor can
  spend the new mandate.\<close>

theorem prefix_arms_stale_executor:
  "disarmed stale_chain
   \<and> \<not> isAlreadyArmed (Some (gs_rule (ch_guard stale_chain), gs_executor (ch_guard stale_chain)))
   \<and> validateAutoPayDraft strkey_example draft_example = Inr ()
   \<and> (\<exists>ch'. run_calls ''CGUARD'' ''GOWNER'' (take 2 (enable_calls deps_example draft_example ''CUSDC'' 519400)) stale_chain
          = Some ch'
        \<and> agent_may_pay (chain_token ch' (\<lambda>_ _ _. True)) 0 (ch_guard ch') ''GOLD'' ''GANYONE'' ''CUSDC'' 250000000)"
proof (intro conjI)
  show "disarmed stale_chain"
    by (auto simp: disarmed_def agent_may_pay_iff stale_chain_def stale_rule_def)
  show "\<not> isAlreadyArmed (Some (gs_rule (ch_guard stale_chain), gs_executor (ch_guard stale_chain)))"
    by (simp add: isAlreadyArmed_def stale_chain_def stale_rule_def)
  show "validateAutoPayDraft strkey_example draft_example = Inr ()" by (rule draft_example_valid)
  show "\<exists>ch'. run_calls ''CGUARD'' ''GOWNER'' (take 2 (enable_calls deps_example draft_example ''CUSDC'' 519400)) stale_chain
          = Some ch'
        \<and> agent_may_pay (chain_token ch' (\<lambda>_ _ _. True)) 0 (ch_guard ch') ''GOLD'' ''GANYONE'' ''CUSDC'' 250000000"
    using run_enable [OF draft_example_valid, of 2 deps_example "''CUSDC''" 519400 stale_chain]
    by (simp add: deps_example_def client_example_def after_enable_def stale_chain_def agent_may_pay_iff chain_token_def
        ruleFromDraft_def draft_example_def checked_add_i128_def read_spend_def)
qed

section \<open>Disabling\<close>

lemma revoke_yields:
  "yields (\<lambda>c. \<exists>ledger base. built_from (fe_sdk env) base (revoke_options deps asset ledger) c)
     (buildRevokeAllowanceCall env deps asset)"
  unfolding buildRevokeAllowanceCall_def
  by (rule yields_bind_any, rule yields_bind_any) (blast intro: yields_mono [OF unsigned_call_yields])

lemma yields_raise: "yields (\<lambda>x. m = Inr x) (raise m)"
  by (auto simp: raise_def intro: uponI)

text \<open>The calls of the disable flow.\<close>

definition disable_calls :: "('w, 'acc, 'tx, 'sim) disable_deps \<Rightarrow> bool \<Rightarrow> int \<Rightarrow> invoke_options list" where
  "disable_calls deps revokeAllowance ledger =
     revoke_executor_call (dd_guard deps) (dd_owner deps)
       # (case dd_assetContractId deps of
            Some asset \<Rightarrow> if revokeAllowance then [revoke_options deps asset ledger] else []
          | None \<Rightarrow> [])"

lemma disable_yields:
  "yields (\<lambda>r. (revokeAllowance \<longrightarrow> dd_assetContractId deps \<noteq> None)
      \<and> (\<exists>ledger. list_all2 (step_built (fe_sdk env)) (disable_calls deps revokeAllowance ledger) (fr_steps r))
      \<and> fr_order r = map st_kind (fr_steps r) \<and> hd (fr_order r) = Step_Revoke_Executor
      \<and> dr_confirmation r = Light \<and> cs_confirmation (fr_summary r) = Light
      \<and> card_of_steps (fe_sdk env) (dd_networkPassphrase deps) False (fr_summary r) (fr_steps r))
     (buildDisableAutoPay env deps revokeAllowance)"
  unfolding buildDisableAutoPay_def Let_def
proof (rule yields_bind [OF yields_client_step [OF write_yields(3)]], rule yields_bind [OF yields_raise], goal_cases)
  case (1 c actions)
  then obtain base where c: "built_from (fe_sdk env) base (revoke_executor_call (dd_guard deps) (dd_owner deps)) c" by blast
  note a = actions_arming [OF 1(2)]
  show ?case
  proof (cases revokeAllowance)
    case False
    then show ?thesis using c a step_built_of [OF c]
      by (auto simp: disable_result_of_def disable_card_def disable_calls_def card_of_steps_def split: option.splits)
  next
    case rev: True
    show ?thesis
    proof (cases "truthy_string (dd_assetContractId deps)")
      case (Some asset)
      then have asset: "dd_assetContractId deps = Some asset" by (auto simp: truthy_string_def split: if_splits)
      show ?thesis
        unfolding Some option.case
        apply (simp only: rev not_True_eq_False if_False)
        apply (rule yields_bind [OF yields_client_step [OF revoke_yields]])
        apply (rule yields_bind [OF yields_raise])
        apply (drule actions_arming)
        apply (use a asset step_built_of [OF c] step_built_of in
            \<open>fastforce simp: disable_result_of_def disable_card_def disable_calls_def card_of_steps_def intro: list_all2_appendI\<close>)
        done
    qed (simp add: rev)
  qed
qed

text \<open>C22: Disabling disarms first and is complete.  The flow returns the executor's revocation as its
  first step, built from that call and with a card decoded from it, under the light confirmation.
  On every chain the first step alone ends all unattended payments, and when the allowance is
  revoked too, the flow's steps leave the contract unable to move any of the asset, for the owner's
  own payments as well.\<close>

theorem disable_disarms_first:
  assumes "buildDisableAutoPay env deps revokeAllowance w = Some (Inr r, w')"
  shows "\<exists>ledger. list_all2 (step_built (fe_sdk env)) (disable_calls deps revokeAllowance ledger) (fr_steps r)
     \<and> hd (fr_order r) = Step_Revoke_Executor \<and> fr_order r = map st_kind (fr_steps r) \<and> dr_confirmation r = Light
     \<and> card_of_steps (fe_sdk env) (dd_networkPassphrase deps) False (fr_summary r) (fr_steps r)
     \<and> (\<forall>ch. \<exists>ch1 ch2. run_calls (cl_contractId (dd_guard deps)) (dd_owner deps)
              (take 1 (disable_calls deps revokeAllowance ledger)) ch = Some ch1 \<and> disarmed ch1
          \<and> run_calls (cl_contractId (dd_guard deps)) (dd_owner deps) (disable_calls deps revokeAllowance ledger) ch = Some ch2
          \<and> disarmed ch2
          \<and> (revokeAllowance \<longrightarrow> (\<exists>asset. dd_assetContractId deps = Some asset
               \<and> (\<forall>transfer now to_addr amount st'.
                    pay_owner (chain_token ch2 transfer) now (ch_guard ch2) to_addr asset amount \<noteq> Inr st'))))"
proof -
  obtain ledger where r: "list_all2 (step_built (fe_sdk env)) (disable_calls deps revokeAllowance ledger) (fr_steps r)"
      "revokeAllowance \<longrightarrow> dd_assetContractId deps \<noteq> None"
      "fr_order r = map st_kind (fr_steps r)" "hd (fr_order r) = Step_Revoke_Executor" "dr_confirmation r = Light"
      "card_of_steps (fe_sdk env) (dd_networkPassphrase deps) False (fr_summary r) (fr_steps r)"
    using yieldsD [OF disable_yields assms] by auto
  let ?g = "cl_contractId (dd_guard deps)" and ?o = "dd_owner deps"
  have run: "\<exists>ch1 ch2. run_calls ?g ?o (take 1 (disable_calls deps revokeAllowance ledger)) ch = Some ch1 \<and> disarmed ch1
       \<and> run_calls ?g ?o (disable_calls deps revokeAllowance ledger) ch = Some ch2 \<and> disarmed ch2
       \<and> (revokeAllowance \<longrightarrow> (\<exists>asset. dd_assetContractId deps = Some asset \<and> ch_allowance ch2 asset = 0))" for ch
  proof -
    let ?ch1 = "ch\<lparr>ch_guard := revoke_executor (ch_guard ch)\<rparr>"
    have z: "apply_call ?g ?o (revoke_options deps asset ledger) c = Some (c\<lparr>ch_allowance := (ch_allowance c)(asset := 0)\<rparr>)" for asset c
      by (simp add: apply_call_def revoke_options_def)
    have d: "disarmed (c\<lparr>ch_guard := revoke_executor g\<rparr>)" "disarmed (c\<lparr>ch_guard := revoke_executor g, ch_allowance := al\<rparr>)" for c g al
      by (rule no_executor_disarmed, simp add: revoke_executor_def)+
    show ?thesis
      using r(2) d by (cases "dd_assetContractId deps") (auto simp: disable_calls_def apply_revoke z)
  qed
  have "pay_owner (chain_token c transfer) now (ch_guard c) to_addr asset amount \<noteq> Inr st'"
    if "ch_allowance c asset = 0" for c transfer now to_addr asset amount st'
    using that by (auto simp: pay_owner_def check_hard_caps_Inr settle_Inr chain_token_def)
  then show ?thesis using r run by (intro exI [of _ ledger]) (simp, metis)
qed

theorem disable_disarms_first_witness:
  "\<exists>ledger ch2. run_calls ''CGUARD'' ''GOWNER'' (disable_calls disable_deps_example True ledger) stale_chain = Some ch2
     \<and> disarmed ch2"
proof -
  obtain c where c: "revokeExecutor ''GOWNER'' sdk_example client_example () = Some (Inr c, ())"
    using write_example unfolding revokeExecutor_def by blast
  obtain z where z: "unsigned_call sdk_example rpc_ok None (revoke_options disable_deps_example ''CUSDC'' 519400) () = Some (Inr z, ())"
    using unsigned_call_example by blast
  have "\<exists>r. buildDisableAutoPay env_example disable_deps_example True () = Some (Inr r, ())"
    using c z
    by (simp add: buildDisableAutoPay_def client_step_eval env_example_def disable_deps_example_def truthy_string_def
        eff_bind_def eff_of_def raise_def sdk_example_def decodeInvocation_def decodeTx_def decodedLines_def Let_def
        buildRevokeAllowanceCall_def request_def rpc_ok_def allowanceExpiryLedger_def ALLOWANCE_WINDOW_DAYS_def LEDGERS_PER_DAY_def)
  then obtain r where "buildDisableAutoPay env_example disable_deps_example True () = Some (Inr r, ())" ..
  note laws = disable_disarms_first [OF this]
  have names: "dd_owner disable_deps_example = ''GOWNER''" "cl_contractId (dd_guard disable_deps_example) = ''CGUARD''"
    by (simp_all add: disable_deps_example_def client_example_def)
  from laws show ?thesis
    unfolding names by (elim exE conjE) (drule spec [where x = stale_chain], blast)
qed

section \<open>Tightening\<close>

definition tighten_calls :: "('w, 'acc, 'tx, 'sim) guard_client \<Rightarrow> string \<Rightarrow> rule option \<Rightarrow> rule \<Rightarrow> invoke_options list" where
  "tighten_calls cl owner current nextRule =
     (if classifyChange current nextRule = Same then [] else [set_rule_call cl owner nextRule])"

lemma tighten_yields:
  "yields (\<lambda>r. list_all2 (step_built sdk) (tighten_calls cl owner current nextRule) (tr_steps r)
      \<and> tr_classification r = classifyChange current nextRule
      \<and> tr_confirmation r = confirmationLevel (classifyChange current nextRule)
      \<and> (tr_confirmation r = Card_And_Touch_Id \<longrightarrow> allowLoosening))
     (buildTightenRule sdk owner cl current nextRule allowLoosening)"
proof (cases "classifyChange current nextRule = Same")
  case True
  then show ?thesis by (simp add: buildTightenRule_def tighten_calls_def)
next
  case False
  show ?thesis
    unfolding buildTightenRule_def Let_def
    apply (simp only: False if_False)
    apply (rule yields_bind [where Q = "\<lambda>_. confirmationLevel (classifyChange current nextRule) = Card_And_Touch_Id \<longrightarrow> allowLoosening"])
     apply (simp add: assertTightening_def guardE_def)
    apply (rule yields_bind [OF yields_client_step [OF write_yields(1)]])
    apply (use False in \<open>auto simp: tighten_calls_def step_built_of\<close>)
    done
qed

lemma tighten_run:
  assumes "confirmationLevel (classifyChange (Some c) n) \<noteq> Card_And_Touch_Id"
    and "gs_rule (ch_guard ch) = Some c"
    and "run_calls (cl_contractId cl) owner (tighten_calls cl owner (Some c) n) ch = Some ch'"
    and "agent_may_pay (chain_token ch' transfer) now (ch_guard ch') e to_addr asset amount"
  shows "agent_may_pay (chain_token ch transfer) now (ch_guard ch) e to_addr asset amount"
proof (cases "classifyChange (Some c) n = Same")
  case True
  then show ?thesis using assms by (simp add: tighten_calls_def)
next
  case False
  then have "ch' = ch\<lparr>ch_guard := (ch_guard ch)\<lparr>gs_rule := Some n\<rparr>\<rparr>"
    using assms(3) by (auto simp: tighten_calls_def apply_set_rule set_rule_def split: option.splits sum.splits)
  moreover have "rule_le n c" using assms(1) by (auto simp: classifyChange_rule_le split: if_splits)
  ultimately show ?thesis using assms(2,4) rule_le_agent [of n c "ch_guard ch"] by (simp add: chain_token_def)
qed

text \<open>C23: A rule change under the light confirmation only tightens.  The flow builds nothing for an
  identical rule and one \<open>set_rule\<close> step otherwise; it asks for the full confirmation exactly when the
  new rule is not below the current one, and such a change is built only when loosening was allowed
  explicitly.  When it asks for less, executing its step on a chain that holds the current rule lets the
  agent make no payment it could not make before.\<close>

theorem tighten_only_tightens:
  assumes "buildTightenRule sdk owner cl (Some c) nextRule allowLoosening w = Some (Inr r, w')"
  shows "list_all2 (step_built sdk) (tighten_calls cl owner (Some c) nextRule) (tr_steps r)
     \<and> (tr_confirmation r = Card_And_Touch_Id \<longleftrightarrow> \<not> rule_le nextRule c)
     \<and> (tr_confirmation r = Card_And_Touch_Id \<longrightarrow> allowLoosening)
     \<and> (\<forall>ch ch' transfer now e to_addr asset amount.
          tr_confirmation r \<noteq> Card_And_Touch_Id \<and> gs_rule (ch_guard ch) = Some c
          \<and> run_calls (cl_contractId cl) owner (tighten_calls cl owner (Some c) nextRule) ch = Some ch'
          \<and> agent_may_pay (chain_token ch' transfer) now (ch_guard ch') e to_addr asset amount \<longrightarrow>
          agent_may_pay (chain_token ch transfer) now (ch_guard ch) e to_addr asset amount)"
proof -
  have r: "list_all2 (step_built sdk) (tighten_calls cl owner (Some c) nextRule) (tr_steps r)"
      "tr_confirmation r = confirmationLevel (classifyChange (Some c) nextRule)"
      "tr_confirmation r = Card_And_Touch_Id \<longrightarrow> allowLoosening"
    using yieldsD [OF tighten_yields assms] by auto
  moreover have "confirmationLevel (classifyChange (Some c) nextRule) = Card_And_Touch_Id \<longleftrightarrow> \<not> rule_le nextRule c"
    by (simp add: classifyChange_rule_le)
  ultimately show ?thesis by (metis tighten_run)
qed

theorem tighten_only_tightens_witness:
  "\<exists>r. buildTightenRule sdk_example ''GOWNER'' client_example (Some (ruleFromDraft draft_example)) stale_rule False ()
       = Some (Inr r, ())
     \<and> list_all2 (step_built sdk_example) [set_rule_call client_example ''GOWNER'' stale_rule] (tr_steps r)"
proof -
  obtain s where s: "setRule ''GOWNER'' stale_rule sdk_example client_example () = Some (Inr s, ())"
    using write_example unfolding setRule_def by blast
  have c: "classifyChange (Some (ruleFromDraft draft_example)) stale_rule = Tightening"
    by (simp add: classifyChange_rule_le rule_le_def stale_rule_def ruleFromDraft_def draft_example_def)
  obtain r where r: "buildTightenRule sdk_example ''GOWNER'' client_example (Some (ruleFromDraft draft_example)) stale_rule False ()
       = Some (Inr r, ())"
    using s by (simp add: buildTightenRule_def c assertTightening_def client_step_eval eff_bind_def)
  from tighten_only_tightens [OF this] r c show ?thesis by (auto simp: tighten_calls_def)
qed

section \<open>The baseline\<close>

definition baseline_calls :: "('w, 'acc, 'tx, 'sim) enable_deps \<Rightarrow> baseline_input \<Rightarrow> int \<Rightarrow> invoke_options list" where
  "baseline_calls deps i ledger =
     [approve_options (approve_input_of deps (bi_assetContractId i) (bi_allowanceRaw i) (bi_allowanceDays i)) ledger,
      set_rule_call (dp_guard deps) (dp_owner deps) (bi_rule i)]"

lemma baseline_yields:
  "yields (\<lambda>r. \<exists>ledger. validateBaselineSetup (fe_strkey env) i = Inr ()
      \<and> list_all2 (step_built (fe_sdk env)) (baseline_calls deps i ledger) (fr_steps r)
      \<and> map st_kind (fr_steps r) = [Step_Approve, Step_Set_Rule]
      \<and> card_of_steps (fe_sdk env) (dp_networkPassphrase deps) False (fr_summary r) (fr_steps r))
     (buildBaselineSetup env deps i)"
  unfolding buildBaselineSetup_def Let_def
  apply (rule yields_bind [where Q = "\<lambda>_. validateBaselineSetup (fe_strkey env) i = Inr ()"])
   apply (auto intro: uponI)[1]
  apply (rule yields_bind [OF yields_client_step [OF approve_yields]])
  apply (rule yields_bind [OF yields_client_step [OF write_yields(1)]])
  apply (rule yields_bind_any)
  apply (rule yields_bind [OF card_yields])
  apply (auto simp: baseline_calls_def intro: step_built_of)
  done

text \<open>The baseline sets the rule and the allowance and registers nobody.  Executed on any chain its two
  calls succeed, leave the executor as it was, and let the guard move the asset up to the allowance.  So
  every payment still needs the owner when no executor was registered; nothing in the flow asks for a
  threshold of 0, and with an executor already registered the card's promise rests on that.\<close>

theorem baseline_registers_nobody:
  assumes "buildBaselineSetup env deps i w = Some (Inr r, w')"
  shows "\<exists>ledger. list_all2 (step_built (fe_sdk env)) (baseline_calls deps i ledger) (fr_steps r)
     \<and> card_of_steps (fe_sdk env) (dp_networkPassphrase deps) False (fr_summary r) (fr_steps r)
     \<and> (\<forall>ch. \<exists>ch'. run_calls (cl_contractId (dp_guard deps)) (dp_owner deps) (baseline_calls deps i ledger) ch = Some ch'
          \<and> gs_executor (ch_guard ch') = gs_executor (ch_guard ch) \<and> gs_rule (ch_guard ch') = Some (bi_rule i)
          \<and> ch_allowance ch' = (ch_allowance ch)(bi_assetContractId i := bi_allowanceRaw i)
          \<and> (gs_executor (ch_guard ch) = None \<or> auto_approve_limit (bi_rule i) = 0 \<longrightarrow> disarmed ch'))"
proof -
  obtain ledger where r: "validateBaselineSetup (fe_strkey env) i = Inr ()"
      "list_all2 (step_built (fe_sdk env)) (baseline_calls deps i ledger) (fr_steps r)"
      "card_of_steps (fe_sdk env) (dp_networkPassphrase deps) False (fr_summary r) (fr_steps r)"
    using yieldsD [OF baseline_yields assms] by auto
  have v: "validate_rule (bi_rule i) = Inr ()"
    using r(1) by (auto simp: validateBaselineSetup_Inr validateRule_conditions validate_rule_Inr)
  have "run_calls (cl_contractId (dp_guard deps)) (dp_owner deps) (baseline_calls deps i ledger) ch
      = Some (ch\<lparr>ch_allowance := (ch_allowance ch)(bi_assetContractId i := bi_allowanceRaw i),
                 ch_guard := (ch_guard ch)\<lparr>gs_rule := Some (bi_rule i)\<rparr>\<rparr>)" for ch
    using apply_approve [of "approve_input_of deps (bi_assetContractId i) (bi_allowanceRaw i) (bi_allowanceDays i)" ledger ch]
    by (simp add: baseline_calls_def apply_set_rule set_rule_def v approve_input_of_def)
  moreover have "disarmed (ch\<lparr>ch_allowance := al, ch_guard := (ch_guard ch)\<lparr>gs_rule := Some (bi_rule i)\<rparr>\<rparr>)"
    if "gs_executor (ch_guard ch) = None \<or> auto_approve_limit (bi_rule i) = 0" for ch al
    using that by (auto simp: disarmed_def agent_may_pay_iff)
  ultimately show ?thesis using r by (intro exI [of _ ledger]) simp
qed

theorem baseline_registers_nobody_witness:
  "\<exists>ledger. \<exists>ch'. run_calls ''CGUARD'' ''GOWNER''
        (baseline_calls deps_example \<lparr>bi_rule = stale_rule, bi_allowanceRaw = 2000000000, bi_allowanceDays = jint 30, bi_assetContractId = ''CUSDC''\<rparr> ledger)
        stale_chain = Some ch' \<and> disarmed ch'"
proof -
  let ?i = "\<lparr>bi_rule = stale_rule, bi_allowanceRaw = 2000000000, bi_allowanceDays = jint 30, bi_assetContractId = ''CUSDC''\<rparr>"
  have v: "validateBaselineSetup strkey_example ?i = Inr ()"
    using draft_example_valid
    by (auto simp: validateBaselineSetup_Inr validateAutoPayDraft_Inr validateRule_conditions stale_rule_def ruleFromDraft_def
        draft_example_def I128_MAX_def)
  obtain a where a: "buildApproveAllowance (fe_num env_example) sdk_example rpc_ok
      (approve_input_of deps_example ''CUSDC'' 2000000000 (jint 30)) () = Some (Inr a, ())"
    using approve_example [of "approve_input_of deps_example ''CUSDC'' 2000000000 (jint 30)"] by (auto simp: approve_input_of_def I128_MAX_def)
  obtain b where b: "setRule ''GOWNER'' stale_rule sdk_example client_example () = Some (Inr b, ())"
    using write_example unfolding setRule_def by blast
  have "\<exists>r. buildBaselineSetup env_example deps_example ?i () = Some (Inr r, ())"
    using a b v
    by (simp add: buildBaselineSetup_def client_step_eval env_example_def deps_example_def truthy_string_def
        eff_bind_def eff_of_def raise_def flow_card_def sdk_example_def ruleFromSetRuleXdr_def decodeInvocation_def
        decodeTx_def nth_or_def example_rule_native_def native_field_def decodedLines_def formatInTimeZone_def Let_def
        allowanceChangeNotes_def)
  then obtain r where "buildBaselineSetup env_example deps_example ?i () = Some (Inr r, ())" ..
  note laws = baseline_registers_nobody [OF this]
  have names: "dp_owner deps_example = ''GOWNER''" "cl_contractId (dp_guard deps_example) = ''CGUARD''"
    by (simp_all add: deps_example_def client_example_def)
  have "auto_approve_limit (bi_rule ?i) = 0" by (simp add: stale_rule_def)
  with laws show ?thesis unfolding names by blast
qed

end
