(* ===== verification/Guard_Port.thy ===== *)
theory Guard_Port
  imports Guard_Client
begin

text \<open>
  The interface \<open>GuardClient\<close> of \<open>stellar/src/guard/types.ts\<close>, through which the payment and
  the schedule tools reach the guard, and its implementation by the client of \<open>Guard_Client\<close>.
  What a failing method throws is a \<open>guard_thrown\<close>.
\<close>

record schedule =
  sh_id :: int
  sh_owner :: string
  sh_to :: string
  sh_asset :: string
  sh_amount :: int
  sh_next_run_at :: int
  sh_interval_secs :: int
  sh_runs_left :: int
  sh_active :: bool

record 'w guard_port =
  gp_contractId :: string
  gp_setRule :: "string \<Rightarrow> rule \<Rightarrow> ('w, guard_thrown, guard_call) eff"
  gp_getRule :: "string \<Rightarrow> ('w, guard_thrown, rule option) eff"
  gp_setExecutor :: "string \<Rightarrow> string \<Rightarrow> ('w, guard_thrown, guard_call) eff"
  gp_revokeExecutor :: "string \<Rightarrow> ('w, guard_thrown, guard_call) eff"
  gp_getExecutor :: "string \<Rightarrow> ('w, guard_thrown, string option) eff"
  gp_setAlias :: "string \<Rightarrow> string \<Rightarrow> string \<Rightarrow> ('w, guard_thrown, guard_call) eff"
  gp_removeAlias :: "string \<Rightarrow> string \<Rightarrow> ('w, guard_thrown, guard_call) eff"
  gp_getAlias :: "string \<Rightarrow> string \<Rightarrow> ('w, guard_thrown, string option) eff"
  gp_isKnownRecipient :: "string \<Rightarrow> string \<Rightarrow> ('w, guard_thrown, bool) eff"
  gp_payOwner :: "string \<Rightarrow> string \<Rightarrow> string \<Rightarrow> int \<Rightarrow> ('w, guard_thrown, guard_call) eff"
  gp_payExecutor :: "string \<Rightarrow> string \<Rightarrow> string \<Rightarrow> string \<Rightarrow> int \<Rightarrow> ('w, guard_thrown, guard_call) eff"
  gp_spentToday :: "string \<Rightarrow> ('w, guard_thrown, int) eff"
  gp_createSchedule :: "string \<Rightarrow> string \<Rightarrow> string \<Rightarrow> int \<Rightarrow> int \<Rightarrow> int \<Rightarrow> int \<Rightarrow> ('w, guard_thrown, guard_call) eff"
  gp_cancelSchedule :: "string \<Rightarrow> int \<Rightarrow> ('w, guard_thrown, guard_call) eff"
  gp_getSchedule :: "int \<Rightarrow> ('w, guard_thrown, schedule option) eff"
  gp_listSchedules :: "string \<Rightarrow> ('w, guard_thrown, schedule list) eff"
  gp_nextScheduleId :: "('w, guard_thrown, js_number) eff"

section \<open>The client as an implementation\<close>

text \<open>External to the client: the value \<open>scValToNative\<close> returned read as a \<open>Rule\<close> and as a
  \<open>Schedule\<close>, and \<open>Number\<close>.\<close>

record port_env =
  pe_rule :: "native \<Rightarrow> rule"
  pe_schedule :: "native \<Rightarrow> schedule"
  pe_number :: "native \<Rightarrow> js_number"

fun thrown_of :: "client_error \<Rightarrow> guard_thrown" where
  "thrown_of (Guard_Failure e) = Thrown_Guard e"
| "thrown_of (Raised m) = Thrown_Js (Js_Error ''Error'' m)"

definition port_method :: "('w, client_error, 'a) eff \<Rightarrow> ('w, guard_thrown, 'a) eff" where
  "port_method m = eff_try m (\<lambda>e. eff_throw (thrown_of e)) eff_ret"

definition eff_map :: "('a \<Rightarrow> 'b) \<Rightarrow> ('w, 'e, 'a) eff \<Rightarrow> ('w, 'e, 'b) eff" where
  "eff_map f m = eff_bind m (\<lambda>v. eff_ret (f v))"

definition client_port ::
    "port_env \<Rightarrow> ('acc, 'tx, 'sim) guard_sdk \<Rightarrow> ('w, 'acc, 'tx, 'sim) guard_client \<Rightarrow> 'w guard_port" where
  "client_port env sdk cl =
     \<lparr>gp_contractId = cl_contractId cl,
      gp_setRule = (\<lambda>owner r. port_method (setRule owner r sdk cl)),
      gp_getRule = (\<lambda>owner. port_method (eff_map (map_option (pe_rule env)) (getRule owner sdk cl))),
      gp_setExecutor = (\<lambda>owner e. port_method (setExecutor owner e sdk cl)),
      gp_revokeExecutor = (\<lambda>owner. port_method (revokeExecutor owner sdk cl)),
      gp_getExecutor = (\<lambda>owner. port_method (getExecutor owner sdk cl)),
      gp_setAlias = (\<lambda>owner name address. port_method (setAlias owner name address sdk cl)),
      gp_removeAlias = (\<lambda>owner name. port_method (removeAlias owner name sdk cl)),
      gp_getAlias = (\<lambda>owner name. port_method (getAlias owner name sdk cl)),
      gp_isKnownRecipient = (\<lambda>owner to_addr. port_method (isKnownRecipient owner to_addr sdk cl)),
      gp_payOwner = (\<lambda>owner to_addr asset amount. port_method (payOwner owner to_addr asset amount sdk cl)),
      gp_payExecutor = (\<lambda>e owner to_addr asset amount. port_method (payExecutor e owner to_addr asset amount sdk cl)),
      gp_spentToday = (\<lambda>owner. port_method (spentToday owner sdk cl)),
      gp_createSchedule = (\<lambda>owner to_addr asset amount first_run interval_secs runs.
         port_method (createSchedule owner to_addr asset amount first_run interval_secs runs sdk cl)),
      gp_cancelSchedule = (\<lambda>owner sid. port_method (cancelSchedule owner sid sdk cl)),
      gp_getSchedule = (\<lambda>sid. port_method (eff_map (map_option (pe_schedule env)) (getSchedule sid sdk cl))),
      gp_listSchedules = (\<lambda>owner. port_method (eff_map (map (pe_schedule env)) (listSchedules owner sdk cl))),
      gp_nextScheduleId = port_method (nextScheduleId (pe_number env) sdk cl)\<rparr>"

section \<open>The contract of the interface\<close>

text \<open>The invocations the writes of a client stand for; \<open>t\<close> is the network and the timeout.\<close>

definition call_of :: "string \<Rightarrow> string \<times> int \<Rightarrow> string \<Rightarrow> string \<Rightarrow> sc_value list \<Rightarrow> invoke_options" where
  "call_of contract t src m args =
     \<lparr>io_contractId = contract, io_method = m, io_args = args, io_source = src,
      io_networkPassphrase = fst t, io_txTimeoutSeconds = Some (snd t)\<rparr>"

definition pay_owner_call :: "string \<Rightarrow> string \<times> int \<Rightarrow> string \<Rightarrow> string \<Rightarrow> string \<Rightarrow> int \<Rightarrow> invoke_options" where
  "pay_owner_call contract t owner to_addr asset amount =
     call_of contract t owner ''pay_owner'' [Sc_Address owner, Sc_Address to_addr, Sc_Address asset, Sc_I128 amount]"

definition pay_executor_call :: "string \<Rightarrow> string \<times> int \<Rightarrow> string \<Rightarrow> string \<Rightarrow> string \<Rightarrow> string \<Rightarrow> int \<Rightarrow> invoke_options" where
  "pay_executor_call contract t executor owner to_addr asset amount =
     call_of contract t executor ''pay_executor''
       [Sc_Address executor, Sc_Address owner, Sc_Address to_addr, Sc_Address asset, Sc_I128 amount]"

definition create_schedule_call ::
    "string \<Rightarrow> string \<times> int \<Rightarrow> string \<Rightarrow> string \<Rightarrow> string \<Rightarrow> int \<Rightarrow> int \<Rightarrow> int \<Rightarrow> int \<Rightarrow> invoke_options" where
  "create_schedule_call contract t owner to_addr asset amount first_run interval_secs runs =
     call_of contract t owner ''create_schedule''
       [Sc_Address owner, Sc_Address to_addr, Sc_Address asset, Sc_I128 amount, Sc_U64 first_run,
        Sc_U64 interval_secs, Sc_U32 runs]"

definition cancel_schedule_call :: "string \<Rightarrow> string \<times> int \<Rightarrow> string \<Rightarrow> int \<Rightarrow> invoke_options" where
  "cancel_schedule_call contract t owner sid =
     call_of contract t owner ''cancel_schedule'' [Sc_Address owner, Sc_U32 sid]"

text \<open>
  What a tool relies on: a call that a write returns was \<open>built\<close> from the invocation the method is
  named after, and from no other.
\<close>

locale guard_writer =
  fixes port :: "'w guard_port"
    and built :: "invoke_options \<Rightarrow> guard_call \<Rightarrow> bool"
    and net :: "string \<times> int"
  assumes pay_owner_built:
      "yields (built (pay_owner_call (gp_contractId port) net owner to_addr asset amount)) (gp_payOwner port owner to_addr asset amount)"
    and pay_executor_built:
      "yields (built (pay_executor_call (gp_contractId port) net e owner to_addr asset amount)) (gp_payExecutor port e owner to_addr asset amount)"
    and create_schedule_built:
      "yields (built (create_schedule_call (gp_contractId port) net owner to_addr asset amount first_run interval_secs runs))
         (gp_createSchedule port owner to_addr asset amount first_run interval_secs runs)"
    and cancel_schedule_built:
      "yields (built (cancel_schedule_call (gp_contractId port) net owner sid)) (gp_cancelSchedule port owner sid)"

lemma yields_port_method: "yields P m \<Longrightarrow> yields P (port_method m)"
  by (auto simp: port_method_def yields_def eff_try_Some)

text \<open>The calls of the client are assembled by the SDK from their invocation and decoded from that XDR.\<close>

definition client_net :: "('w, 'acc, 'tx, 'sim) guard_client \<Rightarrow> string \<times> int" where
  "client_net cl = (cl_networkPassphrase cl, cl_txTimeoutSeconds cl)"

definition client_built :: "('acc, 'tx, 'sim) guard_sdk \<Rightarrow> ('w, 'acc, 'tx, 'sim) guard_client \<Rightarrow> invoke_options \<Rightarrow> guard_call \<Rightarrow> bool" where
  "client_built sdk cl opts c \<longleftrightarrow> built_from sdk (truthy_string (cl_explorerBase cl)) opts c"

lemma client_write_built:
  "yields (client_built sdk cl (call_of (cl_contractId cl) (client_net cl) src m args)) (port_method (guard_write src m args sdk cl))"
  using unsigned_call_yields [of sdk "truthy_string (cl_explorerBase cl)" "client_options cl src m args" "cl_rpc cl"]
  by (intro yields_port_method) (auto simp: client_built_def client_net_def guard_write_def client_options_def call_of_def elim: yields_mono)

interpretation client_writer: guard_writer "client_port env sdk cl" "client_built sdk cl" "client_net cl"
  for env sdk cl
  by unfold_locales (simp_all add: client_port_def pay_owner_call_def pay_executor_call_def create_schedule_call_def
      cancel_schedule_call_def payOwner_def payExecutor_def createSchedule_def cancelSchedule_def client_write_built)

end
