(* ===== verification/Collections_JS.thy ===== *)
theory Collections_JS
  imports Prelude
begin

text \<open>
  The two collection facilities of JavaScript the sources rely on, each behind a locale
  that states what its clients use: the insertion-ordered \<open>Map\<close> and the stable
  \<open>Array.prototype.sort\<close> with a comparator.
\<close>

section \<open>Maps\<close>

text \<open>
  \<open>keyed_store\<close> is the contract of a \<open>Map\<close>: what \<open>get\<close> returns after \<open>set\<close> and
  \<open>delete\<close>, and which keys it lists.
\<close>

locale keyed_store =
  fixes get :: "'m \<Rightarrow> 'k \<Rightarrow> 'v option"
    and put :: "'m \<Rightarrow> 'k \<Rightarrow> 'v \<Rightarrow> 'm"
    and del :: "'m \<Rightarrow> 'k \<Rightarrow> 'm"
    and keys_of :: "'m \<Rightarrow> 'k list"
    and wf :: "'m \<Rightarrow> bool"
  assumes get_put: "wf m \<Longrightarrow> get (put m k v) = (get m)(k \<mapsto> v)"
    and get_del: "wf m \<Longrightarrow> get (del m k) = (get m)(k := None)"
    and wf_put: "wf m \<Longrightarrow> wf (put m k v)"
    and wf_del: "wf m \<Longrightarrow> wf (del m k)"
    and set_keys: "wf m \<Longrightarrow> set (keys_of m) = dom (get m)"
    and distinct_keys: "wf m \<Longrightarrow> distinct (keys_of m)"
begin

lemma get_put_same: "wf m \<Longrightarrow> get (put m k v) k = Some v"
  by (simp add: get_put)

lemma get_put_other: "wf m \<Longrightarrow> k' \<noteq> k \<Longrightarrow> get (put m k v) k' = get m k'"
  by (simp add: get_put)

lemma keys_put: "wf m \<Longrightarrow> set (keys_of (put m k v)) = insert k (set (keys_of m))"
  by (simp add: set_keys wf_put get_put)

lemma keys_del: "wf m \<Longrightarrow> set (keys_of (del m k)) = set (keys_of m) - {k}"
  by (auto simp: set_keys wf_del get_del split: if_splits)

lemma key_iff: "wf m \<Longrightarrow> k \<in> set (keys_of m) \<longleftrightarrow> get m k \<noteq> None"
  by (auto simp: set_keys)

lemma get_fold_del:
  "wf m \<Longrightarrow> get (fold (\<lambda>k m. del m k) ks m) = (\<lambda>k. if k \<in> set ks then None else get m k)"
  by (induction ks arbitrary: m) (auto simp: get_del wf_del fun_eq_iff)

lemma size_keys_put: "wf m \<Longrightarrow>
  length (keys_of (put m k v)) = (if get m k = None then Suc (length (keys_of m)) else length (keys_of m))"
  using distinct_card [OF distinct_keys, of m] distinct_card [OF distinct_keys, of "put m k v"]
  by (auto simp: wf_put keys_put key_iff card_insert_if)

end

text \<open>
  The \<open>Map\<close> itself: an association list in insertion order.  Setting a key that is
  present keeps its position, as JavaScript does.
\<close>

type_synonym ('k, 'v) js_map = "('k \<times> 'v) list"

definition jm_get :: "('k, 'v) js_map \<Rightarrow> 'k \<Rightarrow> 'v option" where
  "jm_get m k = map_of m k"

fun jm_set :: "('k, 'v) js_map \<Rightarrow> 'k \<Rightarrow> 'v \<Rightarrow> ('k, 'v) js_map" where
  "jm_set [] k v = [(k, v)]"
| "jm_set ((k', v') # m) k v = (if k' = k then (k', v) # m else (k', v') # jm_set m k v)"

definition jm_delete :: "('k, 'v) js_map \<Rightarrow> 'k \<Rightarrow> ('k, 'v) js_map" where
  "jm_delete m k = filter (\<lambda>(k', _). k' \<noteq> k) m"

definition jm_keys :: "('k, 'v) js_map \<Rightarrow> 'k list" where
  "jm_keys m = map fst m"

definition jm_wf :: "('k, 'v) js_map \<Rightarrow> bool" where
  "jm_wf m \<longleftrightarrow> distinct (jm_keys m)"

lemma jm_get_set [simp, jsmap_simps]: "jm_get (jm_set m k v) = (jm_get m)(k \<mapsto> v)"
  by (induction m k v rule: jm_set.induct) (auto simp: jm_get_def fun_eq_iff)

lemma jm_get_delete [simp, jsmap_simps]: "jm_get (jm_delete m k) = (jm_get m)(k := None)"
  by (induction m) (auto simp: jm_get_def jm_delete_def fun_eq_iff)

lemma jm_get_Nil [simp]: "jm_get [] k = None"
  by (simp add: jm_get_def)

lemma jm_keys_set: "set (jm_keys (jm_set m k v)) = insert k (set (jm_keys m))"
  by (induction m k v rule: jm_set.induct) (auto simp: jm_keys_def)

lemma jm_wf_set: "jm_wf m \<Longrightarrow> jm_wf (jm_set m k v)"
proof (induction m k v rule: jm_set.induct)
  case (2 k' v' m k v)
  then show ?case using jm_keys_set [of m k v] by (auto simp: jm_wf_def jm_keys_def)
qed (simp add: jm_wf_def jm_keys_def)

lemma jm_wf_filter: "jm_wf m \<Longrightarrow> jm_wf (filter P m)"
  by (induction m) (auto simp: jm_wf_def jm_keys_def)

lemma jm_wf_delete: "jm_wf m \<Longrightarrow> jm_wf (jm_delete m k)"
  unfolding jm_delete_def by (rule jm_wf_filter)

lemma jm_keys_dom: "set (jm_keys m) = dom (jm_get m)"
proof -
  have "jm_get m = map_of m" by (simp add: fun_eq_iff jm_get_def)
  then show ?thesis by (simp add: jm_keys_def dom_map_of_conv_image_fst)
qed

interpretation jmap: keyed_store jm_get jm_set jm_delete jm_keys jm_wf
  by unfold_locales (auto simp: jm_wf_set jm_wf_delete jm_keys_dom, simp add: jm_wf_def)

lemma jm_wf_Nil [simp]: "jm_wf []"
  by (simp add: jm_wf_def jm_keys_def)

text \<open>With distinct keys, listing the entries and looking a key up agree.\<close>

lemma jm_get_mem: "jm_wf m \<Longrightarrow> (k, v) \<in> set m \<longleftrightarrow> jm_get m k = Some v"
  by (simp add: jm_get_def jm_wf_def jm_keys_def)

lemma jm_get_filter: "jm_wf m \<Longrightarrow> jm_get (filter P m) k = (case jm_get m k of
     None \<Rightarrow> None | Some v \<Rightarrow> if P (k, v) then Some v else None)"
  by (induction m)
    (auto simp: jm_get_def jm_wf_def jm_keys_def map_of_eq_None_iff split: option.splits)

section \<open>Sets\<close>

text \<open>The members of a \<open>Set\<close> filled from a list, in the order they were first added.\<close>

definition js_set_of :: "'a list \<Rightarrow> 'a list" where
  "js_set_of xs = foldl (\<lambda>acc x. if x \<in> set acc then acc else acc @ [x]) [] xs"

lemma set_fold_members: "set (foldl (\<lambda>acc x. if x \<in> set acc then acc else acc @ [x]) acc xs) = set acc \<union> set xs"
  by (induction xs arbitrary: acc) auto

lemma distinct_fold_members:
  "distinct acc \<Longrightarrow> distinct (foldl (\<lambda>acc x. if x \<in> set acc then acc else acc @ [x]) acc xs)"
  by (induction xs arbitrary: acc) auto

lemma set_js_set_of [simp]: "set (js_set_of xs) = set xs"
  by (simp add: js_set_of_def set_fold_members)

lemma distinct_js_set_of [simp]: "distinct (js_set_of xs)"
  by (simp add: js_set_of_def distinct_fold_members)

section \<open>Sorting\<close>

text \<open>
  \<open>xs.sort(cmp)\<close> is stable.  \<open>le x y\<close> stands for \<open>cmp(x, y) <= 0\<close>; the model sorts by
  insertion, which is stable for every \<open>le\<close>.
\<close>

fun sort_insert :: "('a \<Rightarrow> 'a \<Rightarrow> bool) \<Rightarrow> 'a \<Rightarrow> 'a list \<Rightarrow> 'a list" where
  "sort_insert le x [] = [x]"
| "sort_insert le x (y # ys) = (if le x y then x # y # ys else y # sort_insert le x ys)"

fun js_sort :: "('a \<Rightarrow> 'a \<Rightarrow> bool) \<Rightarrow> 'a list \<Rightarrow> 'a list" where
  "js_sort le [] = []"
| "js_sort le (x # xs) = sort_insert le x (js_sort le xs)"

lemma mset_sort_insert [simp]: "mset (sort_insert le x ys) = add_mset x (mset ys)"
  by (induction ys) auto

lemma mset_js_sort [simp]: "mset (js_sort le xs) = mset xs"
  by (induction xs) auto

lemma set_js_sort [simp]: "set (js_sort le xs) = set xs"
  by (metis mset_js_sort set_mset_mset)

lemma length_js_sort [simp]: "length (js_sort le xs) = length xs"
  by (metis mset_js_sort size_mset)

lemma js_sort_eq_Nil [simp]: "js_sort le xs = [] \<longleftrightarrow> xs = []"
  by (metis length_0_conv length_js_sort)

text \<open>Sorting commutes with a map that keeps the comparator's answers.\<close>

lemma sort_insert_map:
  "(\<And>a b. le' (f a) (f b) = le a b) \<Longrightarrow> sort_insert le' (f x) (map f ys) = map f (sort_insert le x ys)"
  by (induction ys) auto

lemma js_sort_map: "(\<And>a b. le' (f a) (f b) = le a b) \<Longrightarrow> js_sort le' (map f xs) = map f (js_sort le xs)"
  by (induction xs) (simp_all add: sort_insert_map)

text \<open>A comparator a sort may be given: total and transitive on the elements at hand.\<close>

locale comparator =
  fixes le :: "'a \<Rightarrow> 'a \<Rightarrow> bool"
  assumes le_total: "le x y \<or> le y x"
    and le_trans: "le x y \<Longrightarrow> le y z \<Longrightarrow> le x z"
begin

lemma le_refl: "le x x"
  using le_total by blast

lemma sorted_insert: "sorted_wrt le ys \<Longrightarrow> sorted_wrt le (sort_insert le x ys)"
proof (induction ys)
  case (Cons y ys)
  have set: "set (sort_insert le x ys) = insert x (set ys)"
    by (metis mset_sort_insert set_mset_mset set_mset_add_mset_insert)
  from Cons show ?case
    using le_total [of x y] by (auto simp: set intro: le_trans)
qed simp

lemma sorted_sort: "sorted_wrt le (js_sort le xs)"
  by (induction xs) (auto intro: sorted_insert)

lemma hd_least: "x \<in> set xs \<Longrightarrow> le (hd (js_sort le xs)) x"
proof -
  assume "x \<in> set xs"
  then have "x \<in> set (js_sort le xs)" by simp
  then show ?thesis using sorted_sort [of xs]
    by (cases "js_sort le xs") (auto intro: le_refl simp del: set_js_sort)
qed

lemma last_greatest: "x \<in> set xs \<Longrightarrow> le x (last (js_sort le xs))"
proof -
  assume x: "x \<in> set xs"
  then have "js_sort le xs \<noteq> []" by auto
  then obtain ys y where e: "js_sort le xs = ys @ [y]" by (metis rev_exhaust)
  have "\<forall>z \<in> set ys. le z y" using sorted_sort [of xs] by (auto simp: e sorted_wrt_append)
  moreover have "x \<in> set (ys @ [y])" using x by (simp flip: e)
  ultimately show ?thesis using le_refl by (auto simp: e)
qed

text \<open>
  Two sorted lists with the same elements are equal as soon as the comparator separates
  the elements, so the result of a sort does not depend on the order of its input.
\<close>

lemma sorted_unique:
  assumes "sorted_wrt le xs" "sorted_wrt le ys" "mset xs = mset ys"
    and "\<And>x y. x \<in> set xs \<Longrightarrow> y \<in> set xs \<Longrightarrow> le x y \<Longrightarrow> le y x \<Longrightarrow> x = y"
  shows "xs = ys"
  using assms
proof (induction xs arbitrary: ys)
  case (Cons x xs)
  have ne: "ys \<noteq> []" using Cons.prems(3) by auto
  then obtain y ys' where ys: "ys = y # ys'" by (cases ys) auto
  have mem: "set ys = set (x # xs)" by (metis Cons.prems(3) set_mset_mset)
  have y: "y \<in> set (x # xs)" and x: "x \<in> set (y # ys')"
    using mem ys by (metis list.set_intros(1))+
  have "le x y" using Cons.prems(1) y le_refl by auto
  moreover have "le y x" using Cons.prems(2) x ys le_refl by auto
  ultimately have "x = y" using Cons.prems(4) y by auto
  moreover have "xs = ys'"
    by (rule Cons.IH) (use Cons.prems ys \<open>x = y\<close> in auto)
  ultimately show ?case by (simp add: ys)
qed simp

lemma sort_perm:
  assumes "mset xs = mset ys"
    and "\<And>x y. x \<in> set xs \<Longrightarrow> y \<in> set xs \<Longrightarrow> le x y \<Longrightarrow> le y x \<Longrightarrow> x = y"
  shows "js_sort le xs = js_sort le ys"
  by (rule sorted_unique) (use assms in \<open>auto simp: sorted_sort\<close>)

text \<open>Filtering before or after a stable sort is the same.\<close>

lemma filter_insert:
  "sorted_wrt le ys \<Longrightarrow> filter P (sort_insert le x ys) = (if P x then sort_insert le x (filter P ys) else filter P ys)"
proof (induction ys)
  case (Cons y ys)
  have "sort_insert le x (filter P ys) = x # filter P ys" if "le x y"
  proof (cases "filter P ys")
    case z: (Cons z zs)
    then have "z \<in> set (filter P ys)" by (simp only: list.set_intros)
    then have "le x z" using Cons.prems that le_trans by auto
    then show ?thesis by (simp add: z)
  qed simp
  then show ?case using Cons by auto
qed simp

lemma filter_sort: "filter P (js_sort le xs) = js_sort le (filter P xs)"
  by (induction xs) (simp_all add: filter_insert sorted_sort)

end

text \<open>A comparator that separates all elements: sorting is a function of the multiset.\<close>

locale strict_comparator = comparator +
  assumes le_antisym: "le x y \<Longrightarrow> le y x \<Longrightarrow> x = y"
begin

lemma sort_mset: "mset xs = mset ys \<Longrightarrow> js_sort le xs = js_sort le ys"
  by (rule sort_perm) (auto intro: le_antisym)

lemma sort_sorted: "sorted_wrt le xs \<Longrightarrow> js_sort le xs = xs"
  by (rule sorted_unique) (auto simp: sorted_sort intro: le_antisym)

end

text \<open>The ascending order the sources sort amounts and strings by.\<close>

interpretation asc: strict_comparator "(\<le>) :: 'a::linorder \<Rightarrow> 'a \<Rightarrow> bool"
  by unfold_locales auto

lemma js_sort_asc: "js_sort (\<le>) xs = sort (xs :: 'a::linorder list)"
proof -
  have "sorted (js_sort (\<le>) xs)" by (rule asc.sorted_sort)
  then show ?thesis by (metis mset_js_sort properties_for_sort)
qed

text \<open>Comparing by a key and then by another is a comparator when both orders are.\<close>

lemma lex_comparator:
  fixes f :: "'a \<Rightarrow> 'b::linorder" and g :: "'a \<Rightarrow> 'c::linorder"
  shows "comparator (\<lambda>x y. f x < f y \<or> f x = f y \<and> g x \<le> g y)"
  by unfold_locales auto

end
