(* ===== verification/JS_Value.thy ===== *)
theory JS_Value
  imports JS_Number Collections_JS
begin

text \<open>
  Values of type \<open>unknown\<close>: what the tools receive from a parsed JSON text or from the language
  model before they check it, with \<open>undefined\<close> for what is missing.  A JSON text holds no big integer,
  so that printing such a value with \<open>JSON.stringify\<close> never throws; the values of the contract, which
  do hold them, are the type \<open>native\<close> of \<open>Guard_Describe\<close>.  The fields of an object stand in the order
  \<open>Object.entries\<close> lists them and have distinct names.
\<close>

datatype js_value =
  V_Undefined | V_Null | V_Bool bool | V_Num js_number | V_Str string
| V_Arr "js_value list" | V_Obj "(string \<times> js_value) list"

text \<open>\<open>v === undefined || v === null\<close>, and \<open>a ?? b\<close>.\<close>

fun nullish :: "js_value \<Rightarrow> bool" where
  "nullish V_Undefined = True"
| "nullish V_Null = True"
| "nullish _ = False"

definition js_or :: "js_value \<Rightarrow> js_value \<Rightarrow> js_value" where
  "js_or a b = (if nullish a then b else a)"

text \<open>\<open>typeof v === "object" && v !== null\<close>.\<close>

fun is_object :: "js_value \<Rightarrow> bool" where
  "is_object (V_Arr vs) = True"
| "is_object (V_Obj fs) = True"
| "is_object _ = False"

text \<open>A property read of an object or an array; the names read are never numerals, \<open>length\<close> or
  members of a prototype.\<close>

fun js_field :: "js_value \<Rightarrow> string \<Rightarrow> js_value" where
  "js_field (V_Obj fs) k = (case map_of fs k of Some v \<Rightarrow> v | None \<Rightarrow> V_Undefined)"
| "js_field _ k = V_Undefined"

lemma nullish_iff: "nullish v \<longleftrightarrow> v = V_Undefined \<or> v = V_Null"
  by (cases v) simp_all

lemma is_object_iff: "is_object v \<longleftrightarrow> (\<exists>vs. v = V_Arr vs) \<or> (\<exists>fs. v = V_Obj fs)"
  by (cases v) simp_all

lemma object_not_nullish: "is_object v \<Longrightarrow> \<not> nullish v"
  by (cases v) simp_all

lemma js_or_object [simp]: "js_or (V_Str s) b = V_Str s" "js_or V_Undefined b = b" "js_or V_Null b = b"
  by (simp_all add: js_or_def)

end
