(* ===== verification/Alias_Book.thy ===== *)
theory Alias_Book
  imports JS_Value
begin

text \<open>
  \<open>stellar/src/payments/aliases.ts\<close> and \<open>loadAliases.ts\<close>: the off-chain alias book, through which
  alone a recipient is resolved.  \<open>JSON.parse\<close> and the address check of \<open>StrKey\<close> are arguments.
  A thrown \<open>Error\<close> is one constructor of \<open>alias_error\<close> for each \<open>throw\<close>.
\<close>

section \<open>The book\<close>

record alias_entry =
  ae_address :: string
  ae_network :: string
  ae_ctRegistered :: "bool option"
  ae_sppReady :: "bool option"

type_synonym alias_book = "(string, alias_entry) js_map"

record parsed_alias_book =
  pb_book :: alias_book
  pb_warnings :: "string list"

datatype alias_error =
  Not_Json string | Not_An_Object | Reserved_Name string | Bad_Name string | Entry_Not_An_Object string
| Bad_Address string | Bad_Network string js_value | Bad_Flag string string

text \<open>\<open>^[a-z][a-z0-9_-]{0,31}$\<close>.\<close>

definition is_lower_letter :: "char \<Rightarrow> bool" where
  "is_lower_letter c \<longleftrightarrow> 97 \<le> char_code c \<and> char_code c \<le> 122"

definition alias_char :: "char \<Rightarrow> bool" where
  "alias_char c \<longleftrightarrow> is_lower_letter c \<or> is_digit c \<or> c = CHR ''_'' \<or> c = CHR ''-''"

definition ALIAS_NAME :: "string \<Rightarrow> bool" where
  "ALIAS_NAME s = (case s of [] \<Rightarrow> False | c # cs \<Rightarrow> is_lower_letter c \<and> length cs \<le> 31 \<and> list_all alias_char cs)"

definition RESERVED_ALIAS_NAMES :: "string list" where
  "RESERVED_ALIAS_NAMES = [''__proto__'', ''constructor'', ''prototype'']"

section \<open>Collisions\<close>

definition add_name :: "(string, string list) js_map \<Rightarrow> string \<times> alias_entry \<Rightarrow> (string, string list) js_map" where
  "add_name byAddress = (\<lambda>(name, entry).
     jm_set byAddress (ae_address entry)
       ((case jm_get byAddress (ae_address entry) of Some names \<Rightarrow> names | None \<Rightarrow> []) @ [name]))"

definition findAliasCollisions :: "alias_book \<Rightarrow> string list" where
  "findAliasCollisions book =
     map (\<lambda>(address, names). js_join '', '' names @ '' all resolve to '' @ address)
       (filter (\<lambda>(address, names). length names > 1) (foldl add_name [] book))"

section \<open>Parsing\<close>

text \<open>An optional flag: absent, a boolean, or refused.\<close>

definition flag :: "string \<Rightarrow> string \<Rightarrow> js_value \<Rightarrow> alias_error + bool option" where
  "flag name field v =
     (case v of V_Undefined \<Rightarrow> Inr None | V_Bool b \<Rightarrow> Inr (Some b) | _ \<Rightarrow> Inl (Bad_Flag name field))"

definition parse_entry :: "(string \<Rightarrow> bool) \<Rightarrow> string \<Rightarrow> js_value \<Rightarrow> alias_error + alias_entry" where
  "parse_entry valid_key name v =
     (if List.member RESERVED_ALIAS_NAMES name then Inl (Reserved_Name name)
      else if \<not> ALIAS_NAME name then Inl (Bad_Name name)
      else case v of
        V_Obj fs \<Rightarrow>
          (case js_field v ''address'' of
             V_Str address \<Rightarrow>
               if \<not> valid_key address then Inl (Bad_Address name)
               else if js_field v ''network'' \<noteq> V_Str ''testnet'' then Inl (Bad_Network name (js_field v ''network''))
               else
                 and_then (flag name ''ctRegistered'' (js_field v ''ctRegistered'')) (\<lambda>ct.
                 and_then (flag name ''sppReady'' (js_field v ''sppReady'')) (\<lambda>spp.
                   Inr \<lparr>ae_address = address, ae_network = ''testnet'', ae_ctRegistered = ct, ae_sppReady = spp\<rparr>))
           | _ \<Rightarrow> Inl (Bad_Address name))
      | _ \<Rightarrow> Inl (Entry_Not_An_Object name))"

fun parse_entries :: "(string \<Rightarrow> bool) \<Rightarrow> (string \<times> js_value) list \<Rightarrow> alias_book \<Rightarrow> alias_error + alias_book" where
  "parse_entries valid_key [] book = Inr book"
| "parse_entries valid_key ((name, v) # rest) book =
     and_then (parse_entry valid_key name v) (\<lambda>entry. parse_entries valid_key rest (jm_set book name entry))"

definition parseAliasBook ::
    "(string \<Rightarrow> string + js_value) \<Rightarrow> (string \<Rightarrow> bool) \<Rightarrow> js_value \<Rightarrow> alias_error + parsed_alias_book" where
  "parseAliasBook json_parse valid_key input =
     and_then (case input of V_Str text \<Rightarrow> catchE (json_parse text) Not_Json | _ \<Rightarrow> Inr input) (\<lambda>raw.
       case raw of
         V_Obj entries \<Rightarrow>
           and_then (parse_entries valid_key entries []) (\<lambda>book.
             Inr \<lparr>pb_book = book, pb_warnings = findAliasCollisions book\<rparr>)
       | _ \<Rightarrow> Inl Not_An_Object)"

text \<open>\<open>loadAliasBook\<close>: the file's text is read by Node.\<close>

definition loadAliasBook ::
    "(string \<Rightarrow> string + js_value) \<Rightarrow> (string \<Rightarrow> bool) \<Rightarrow> string \<Rightarrow> alias_error + parsed_alias_book" where
  "loadAliasBook json_parse valid_key file_text = parseAliasBook json_parse valid_key (V_Str file_text)"

section \<open>Lookup\<close>

definition resolveAlias :: "alias_book \<Rightarrow> string \<Rightarrow> alias_entry option" where
  "resolveAlias book name = jm_get book (js_lower (js_trim name))"

section \<open>What a parsed book holds\<close>

text \<open>The entries of a book that was accepted.\<close>

definition good_entry :: "(string \<Rightarrow> bool) \<Rightarrow> string \<Rightarrow> alias_entry \<Rightarrow> bool" where
  "good_entry valid_key name e \<longleftrightarrow> ALIAS_NAME name \<and> name \<notin> set RESERVED_ALIAS_NAMES
     \<and> valid_key (ae_address e) \<and> ae_network e = ''testnet''"

lemma parse_entry_good: "parse_entry valid_key name v = Inr e \<Longrightarrow> good_entry valid_key name e"
  by (auto simp: parse_entry_def good_entry_def split: if_splits js_value.splits)

lemma parse_entries_spec:
  assumes "parse_entries valid_key entries book = Inr book'" "jm_wf book" "distinct (map fst entries)"
    "set (jm_keys book) \<inter> fst ` set entries = {}"
  shows "jm_wf book' \<and> (\<forall>name. jm_get book' name =
     (case map_of entries name of None \<Rightarrow> jm_get book name
      | Some v \<Rightarrow> (case parse_entry valid_key name v of Inl _ \<Rightarrow> None | Inr e \<Rightarrow> Some e)))
     \<and> (\<forall>(name, v) \<in> set entries. \<exists>e. parse_entry valid_key name v = Inr e)"
  using assms
proof (induction valid_key entries book rule: parse_entries.induct)
  case (2 valid_key name v rest book)
  then obtain e where e: "parse_entry valid_key name v = Inr e"
      and rec: "parse_entries valid_key rest (jm_set book name e) = Inr book'" by auto
  have "set (jm_keys (jm_set book name e)) \<inter> fst ` set rest = {}"
    using 2 by (auto simp: jm_keys_set)
  from "2.IH" [OF rec jm_wf_set [OF "2.prems"(2)] _ this] "2.prems"(3)
  have ih: "jm_wf book'" "\<forall>n. jm_get book' n =
     (case map_of rest n of None \<Rightarrow> jm_get (jm_set book name e) n
      | Some v \<Rightarrow> (case parse_entry valid_key n v of Inl _ \<Rightarrow> None | Inr e \<Rightarrow> Some e))"
     "\<forall>(name, v) \<in> set rest. \<exists>e. parse_entry valid_key name v = Inr e" by auto
  have "map_of rest name = None" using "2.prems"(3) by (simp add: map_of_eq_None_iff)
  then show ?case using ih e by (auto split: option.splits)
qed auto

text \<open>Lower-casing and trimming keep names short.\<close>

lemma length_js_lower [simp]: "length (js_lower s) = length s"
  by (simp add: js_lower_def)

lemma alias_name_length: "ALIAS_NAME s \<Longrightarrow> 1 \<le> length s \<and> length s \<le> 32"
  by (auto simp: ALIAS_NAME_def split: list.splits)

lemma add_names:
  "jm_get (foldl add_name m book) a =
     (let names = map fst (filter (\<lambda>p. ae_address (snd p) = a) book)
      in if names = [] then jm_get m a
         else Some ((case jm_get m a of Some l \<Rightarrow> l | None \<Rightarrow> []) @ names))"
  by (induction book arbitrary: m) (auto simp: Let_def add_name_def split: option.splits)

lemma add_names_wf: "jm_wf m \<Longrightarrow> jm_wf (foldl add_name m book)"
  by (induction book arbitrary: m) (auto simp: add_name_def jm_wf_set)

lemma distinct_by_filter:
  "distinct (map f xs) \<longleftrightarrow> (\<forall>a. length (filter (\<lambda>x. f x = a) xs) \<le> 1)"
proof (induction xs)
  case (Cons x xs)
  show ?case
  proof (cases "f x \<in> f ` set xs")
    case True
    then obtain y where "y \<in> set xs" "f y = f x" by auto
    then have "filter (\<lambda>z. f z = f x) xs \<noteq> []" by (auto simp: filter_empty_conv)
    then have "\<not> length (filter (\<lambda>z. f z = f x) (x # xs)) \<le> 1" by simp
    with True show ?thesis by auto
  next
    case False
    then have "filter (\<lambda>z. f z = f x) xs = []" by (force simp: filter_empty_conv image_iff)
    then have "length (filter (\<lambda>z. f z = a) (x # xs)) \<le> 1 \<longleftrightarrow> length (filter (\<lambda>z. f z = a) xs) \<le> 1" for a by auto
    with False Cons show ?thesis by simp
  qed
qed simp

lemma no_collisions: "findAliasCollisions book = [] \<longleftrightarrow> distinct (map (\<lambda>p. ae_address (snd p)) book)"
proof -
  let ?m = "foldl add_name [] book"
  have m: "jm_get ?m a = (let names = map fst (filter (\<lambda>p. ae_address (snd p) = a) book) in if names = [] then None else Some names)" for a
    by (simp add: add_names Let_def)
  have "findAliasCollisions book = [] \<longleftrightarrow> (\<forall>(a, names) \<in> set ?m. length names \<le> 1)"
    by (auto simp: findAliasCollisions_def filter_empty_conv)
  also have "\<dots> \<longleftrightarrow> (\<forall>a names. jm_get ?m a = Some names \<longrightarrow> length names \<le> 1)"
    using jm_get_mem [OF add_names_wf [OF jm_wf_Nil, of book]] by fast
  also have "\<dots> \<longleftrightarrow> (\<forall>a. length (filter (\<lambda>p. ae_address (snd p) = a) book) \<le> 1)"
    by (auto simp: m Let_def) (metis le_zero_eq list.size(3) nat_le_linear le_SucI)
  finally show ?thesis by (simp add: distinct_by_filter)
qed

lemma inj_on_the:
  assumes "\<And>n. n \<in> A \<Longrightarrow> h n \<noteq> None"
  shows "inj_on (\<lambda>n. the (h n)) A \<longleftrightarrow> inj_on h A"
proof -
  have "the (h x) = the (h y) \<longleftrightarrow> h x = h y" if "x \<in> A" "y \<in> A" for x y
    using assms [OF that(1)] assms [OF that(2)] by auto
  then show ?thesis by (simp add: inj_on_def)
qed

section \<open>The book as the only source of recipients\<close>

text \<open>The book resolves exactly what was written into it.  When a JSON object is accepted,
  every name in it resolves, whatever the case and the spaces it is spoken with, to the address
  the file gives it; whatever resolves was written under a well-formed, unreserved name with a
  valid testnet address; no text longer than a name resolves, so a raw address never does; and
  there is no warning exactly when no two names share an address.\<close>

theorem parsed_book_exact:
  assumes "parseAliasBook json_parse valid_key (V_Obj entries) = Inr p" and "distinct (map fst entries)"
  shows "(\<forall>name v s. (name, v) \<in> set entries \<and> js_lower (js_trim s) = name \<longrightarrow>
            (\<exists>e. resolveAlias (pb_book p) s = Some e \<and> js_field v ''address'' = V_Str (ae_address e)))
     \<and> (\<forall>s e. resolveAlias (pb_book p) s = Some e \<longrightarrow>
            js_lower (js_trim s) \<in> fst ` set entries \<and> good_entry valid_key (js_lower (js_trim s)) e)
     \<and> (\<forall>s. 32 < length (js_trim s) \<longrightarrow> resolveAlias (pb_book p) s = None)
     \<and> (pb_warnings p = [] \<longleftrightarrow> inj_on (\<lambda>n. map_option ae_address (jm_get (pb_book p) n)) (fst ` set entries))"
proof -
  obtain book where b: "parse_entries valid_key entries [] = Inr book"
      "p = \<lparr>pb_book = book, pb_warnings = findAliasCollisions book\<rparr>"
    using assms(1) by (auto simp: parseAliasBook_def)
  have "jm_get ([] :: alias_book) = (\<lambda>_. None)" by (rule ext) simp
  from parse_entries_spec [OF b(1) jm_wf_Nil assms(2), unfolded this]
  have wf: "jm_wf book"
    and get: "\<And>name. jm_get book name = (case map_of entries name of None \<Rightarrow> None
        | Some v \<Rightarrow> (case parse_entry valid_key name v of Inl _ \<Rightarrow> None | Inr e \<Rightarrow> Some e))"
    and all: "\<And>name v. (name, v) \<in> set entries \<Longrightarrow> \<exists>e. parse_entry valid_key name v = Inr e"
    by (auto simp: jm_keys_def)
  have addr: "parse_entry valid_key name v = Inr e \<Longrightarrow> js_field v ''address'' = V_Str (ae_address e)" for name v e
    by (auto simp: parse_entry_def split: if_splits js_value.splits)
  have one: "\<exists>e. resolveAlias book s = Some e \<and> js_field v ''address'' = V_Str (ae_address e)"
    if "(name, v) \<in> set entries" "js_lower (js_trim s) = name" for name v s
    using all [OF that(1)] that addr assms(2) by (auto simp: resolveAlias_def get)
  have two: "js_lower (js_trim s) \<in> fst ` set entries \<and> good_entry valid_key (js_lower (js_trim s)) e"
    if "resolveAlias book s = Some e" for s e
    using that parse_entry_good by (force simp: resolveAlias_def get split: option.splits sum.splits dest: map_of_SomeD)
  then have three: "resolveAlias book s = None" if "32 < length (js_trim s)" for s
    using that alias_name_length [of "js_lower (js_trim s)"] by (cases "resolveAlias book s") (auto simp: good_entry_def)
  have keys: "set (map fst book) = fst ` set entries"
  proof (rule set_eqI)
    fix n
    have dom: "n \<in> set (map fst book) \<longleftrightarrow> jm_get book n \<noteq> None"
      using jm_keys_dom [of book] by (auto simp: jm_keys_def)
    show "n \<in> set (map fst book) \<longleftrightarrow> n \<in> fst ` set entries"
    proof (cases "map_of entries n")
      case None
      then show ?thesis unfolding dom get None by (simp add: map_of_eq_None_iff [symmetric] None)
    next
      case (Some v)
      then have "(n, v) \<in> set entries" by (rule map_of_SomeD)
      then show ?thesis unfolding dom get using all [of n v] Some by force
    qed
  qed
  let ?g = "\<lambda>n. the (map_option ae_address (jm_get book n))"
  have d: "distinct (map fst book)" using wf by (simp add: jm_wf_def jm_keys_def)
  then have "map (\<lambda>p. ae_address (snd p)) book = map ?g (map fst book)"
    by (auto simp: jm_get_def)
  then have "findAliasCollisions book = [] \<longleftrightarrow> distinct (map ?g (map fst book))"
    by (simp only: no_collisions)
  then have "findAliasCollisions book = [] \<longleftrightarrow> inj_on ?g (set (map fst book))"
    using d by (simp only: distinct_map [of ?g] simp_thms)
  moreover have "map_option ae_address (jm_get book n) \<noteq> None" if "n \<in> set (map fst book)" for n
    using that jm_keys_dom [of book] by (auto simp: jm_keys_def)
  note inj_on_the [OF this]
  ultimately have "findAliasCollisions book = [] \<longleftrightarrow> inj_on (\<lambda>n. map_option ae_address (jm_get book n)) (fst ` set entries)"
    unfolding keys by (rule trans)
  then show ?thesis using one two three b(2) by simp
qed

text \<open>A book with two names.\<close>

definition entries_example :: "(string \<times> js_value) list" where
  "entries_example =
     [(''ada'', V_Obj [(''address'', V_Str ''GADA''), (''network'', V_Str ''testnet'')]),
      (''bob'', V_Obj [(''address'', V_Str ''GBOB''), (''network'', V_Str ''testnet''), (''sppReady'', V_Bool True)])]"

lemma entries_example_parsed:
  "parse_entries (\<lambda>_. True) entries_example [] =
     Inr [(''ada'', \<lparr>ae_address = ''GADA'', ae_network = ''testnet'', ae_ctRegistered = None, ae_sppReady = None\<rparr>),
          (''bob'', \<lparr>ae_address = ''GBOB'', ae_network = ''testnet'', ae_ctRegistered = None, ae_sppReady = Some True\<rparr>)]"
  by (simp add: entries_example_def parse_entry_def RESERVED_ALIAS_NAMES_def ALIAS_NAME_def is_lower_letter_def
      alias_char_def char_code_def flag_def)

theorem parsed_book_exact_witness:
  "\<exists>p. parseAliasBook (\<lambda>_. Inl []) (\<lambda>_. True) (V_Obj entries_example) = Inr p
     \<and> (\<exists>e. resolveAlias (pb_book p) ''  ADA '' = Some e \<and> ae_address e = ''GADA'')"
proof -
  obtain p where p: "parseAliasBook (\<lambda>_. Inl []) (\<lambda>_. True) (V_Obj entries_example) = Inr p"
    by (simp add: parseAliasBook_def entries_example_parsed)
  have d: "distinct (map fst entries_example)" by (simp add: entries_example_def)
  have "js_lower (js_trim ''  ADA '') = ''ada''" by code_simp
  moreover have "(''ada'', V_Obj [(''address'', V_Str ''GADA''), (''network'', V_Str ''testnet'')]) \<in> set entries_example"
    by (simp add: entries_example_def)
  ultimately obtain e where "resolveAlias (pb_book p) ''  ADA '' = Some e"
      "js_field (V_Obj [(''address'', V_Str ''GADA''), (''network'', V_Str ''testnet'')]) ''address'' = V_Str (ae_address e)"
    using parsed_book_exact [OF p d] by blast
  then show ?thesis using p by auto
qed

end
