(* ===== verification/Payments.thy ===== *)
theory Payments
  imports Guard_Port Alias_Book Approval
begin

text \<open>
  \<open>stellar/src/payments\<close>: the asset registry (\<open>assets.ts\<close>), the card decoded from a payment
  (\<open>summary.ts\<close>), the \<open>sendPayment\<close> tool with its direct and its guarded route (\<open>sendPayment.ts\<close>),
  the \<open>changeTrust\<close> builder (\<open>trustline.ts\<close>) and the installed tool (\<open>index.ts\<close>).

  External are the SDK (\<open>pay_sdk\<close>), the account loader, the trustline check and the clock, which are
  fields of the dependencies.  A refusal is its code and the name of the guard error it carries:
  callers match on these, never on the message.
\<close>

section \<open>Assets\<close>

record asset_spec =
  sp_code :: string
  sp_issuer :: "string option"
  sp_native :: bool

definition TESTNET_USDC_ISSUER :: string where
  "TESTNET_USDC_ISSUER = ''GBBD47IF6LWK7P7MDEVSCWR7DPUWV3NY3DTQEVFL4NAT4AQH3ZLLFLA5''"

definition TESTNET_PGUSD_ISSUER :: string where
  "TESTNET_PGUSD_ISSUER = ''GB7YX7MYCIGU6DRSBACQ4HJHQAVUP4K7BHT7NP5VP6IYVACDSEF3F2EE''"

type_synonym asset_registry = "string \<Rightarrow> asset_spec option"

definition defaultAssetRegistry :: asset_registry where
  "defaultAssetRegistry code =
     map_of
       [(''XLM'', \<lparr>sp_code = ''XLM'', sp_issuer = None, sp_native = True\<rparr>),
        (''USDC'', \<lparr>sp_code = ''USDC'', sp_issuer = Some TESTNET_USDC_ISSUER, sp_native = False\<rparr>),
        (''PGUSD'', \<lparr>sp_code = ''PGUSD'', sp_issuer = Some TESTNET_PGUSD_ISSUER, sp_native = False\<rparr>)]
       (js_upper (js_trim code))"

datatype sdk_asset = Native_Asset | Issued_Asset string string

section \<open>The SDK\<close>

text \<open>What a tool asks the SDK to build, and what the first operation of a transaction is.\<close>

datatype pay_op = Op_Payment string sdk_asset string | Op_Change_Trust sdk_asset

record tx_request =
  tx_fee :: string
  tx_networkPassphrase :: string
  tx_minTime :: int
  tx_maxTimeMs :: int
  tx_operation :: pay_op

datatype trust_line = No_Line | Pool_Line | Asset_Line sdk_asset

datatype decoded_op = No_Op | Payment_Op string sdk_asset string | Change_Trust_Op trust_line | Other_Op

text \<open>\<open>ps_asset_error\<close> is the error \<open>new Asset\<close> throws, if any; \<open>ps_build\<close> builds one operation on an account.\<close>

record ('acc, 'tx) pay_sdk =
  ps_BASE_FEE :: string
  ps_asset_error :: "string \<Rightarrow> string \<Rightarrow> string option"
  ps_build :: "'acc \<Rightarrow> tx_request \<Rightarrow> string + 'tx"
  ps_toXDR :: "'tx \<Rightarrow> string"
  ps_fromXDR :: "string \<Rightarrow> string \<Rightarrow> string + 'tx"
  ps_is_transaction :: "'tx \<Rightarrow> bool"
  ps_first_op :: "'tx \<Rightarrow> decoded_op"
  ps_source :: "'tx \<Rightarrow> string"
  ps_hash :: "'tx \<Rightarrow> nat list"
  ps_fee :: "'tx \<Rightarrow> nat"

definition toSdkAsset :: "('acc, 'tx) pay_sdk \<Rightarrow> asset_spec \<Rightarrow> string + sdk_asset" where
  "toSdkAsset sdk spec =
     (if sp_native spec then Inr Native_Asset
      else case truthy_string (sp_issuer spec) of
        None \<Rightarrow> Inl (''asset '' @ sp_code spec @ '' has no issuer'')
      | Some issuer \<Rightarrow> (case ps_asset_error sdk (sp_code spec) issuer of
                          Some e \<Rightarrow> Inl e | None \<Rightarrow> Inr (Issued_Asset (sp_code spec) issuer)))"

section \<open>The card of a payment\<close>

definition strip_dot :: "string \<Rightarrow> string" where
  "strip_dot s = (if s \<noteq> [] \<and> last s = CHR ''.'' then butlast s else s)"

definition formatAmount :: "string \<Rightarrow> string" where
  "formatAmount amount = (if \<not> contains ''.'' amount then amount else strip_dot (strip_zeros amount))"

definition payloadHashOf :: "('acc, 'tx) pay_sdk \<Rightarrow> string \<Rightarrow> string \<Rightarrow> string + string" where
  "payloadHashOf sdk unsignedXdr networkPassphrase =
     and_then (ps_fromXDR sdk unsignedXdr networkPassphrase) (\<lambda>tx. Inr (toHex (ps_hash sdk tx)))"

record payment_summary_input =
  pi_unsignedXdr :: string
  pi_networkPassphrase :: string
  pi_alias :: string
  pi_explorerBase :: "string option"

definition buildPaymentSummary ::
    "('acc, 'tx) pay_sdk \<Rightarrow> payment_summary_input \<Rightarrow> string + built_guard_summary" where
  "buildPaymentSummary sdk i =
     and_then (ps_fromXDR sdk (pi_unsignedXdr i) (pi_networkPassphrase i)) (\<lambda>tx.
       if \<not> ps_is_transaction sdk tx then Inl ''fee-bump envelopes are not supported for payments''
       else case ps_first_op sdk tx of
         Payment_Op destination asset amount \<Rightarrow>
           let code = (case asset of Native_Asset \<Rightarrow> ''XLM'' | Issued_Asset c _ \<Rightarrow> c);
               displayAmount = formatAmount amount;
               assetLine = (case asset of
                   Native_Asset \<Rightarrow> ''Pay '' @ displayAmount @ '' '' @ code @ '' (native)''
                 | Issued_Asset _ issuer \<Rightarrow> ''Pay '' @ displayAmount @ '' '' @ code @ '' (issuer '' @ shortKey issuer @ '')'');
               payloadHash = toHex (ps_hash sdk tx);
               fee = stroopsToXlm (ps_fee sdk tx) @ '' XLM''
           in Inr \<lparr>bs_summary =
                     \<lparr>su_title = ''Send '' @ displayAmount @ '' '' @ code @ '' to '' @ pi_alias i,
                      su_lines = [assetLine, ''To '' @ pi_alias i @ '' ('' @ destination @ '')'',
                                  ''Network: '' @ pi_networkPassphrase i, ''Fee: '' @ fee],
                      su_explorerUrl = explorer_url (pi_explorerBase i) payloadHash,
                      su_estimatedFee = fee\<rparr>,
                   bs_payloadHash = payloadHash\<rparr>
       | _ \<Rightarrow> Inl ''the built transaction is not a payment'')"

section \<open>Refusals and dependencies\<close>

datatype payment_refusal_code =
  Not_Configured_Tool | Invalid_Intent | Invalid_Amount_Code | Unsupported_Asset | Unknown_Recipient
| Mode_Not_Supported | Guarded_Route_Not_Available | Recipient_No_Trustline | Trustline_Check_Failed
| Account_Not_Found | Guard_Rule_Missing | Guard_Limit_Exceeded | Guard_Asset_Not_Allowed | Guard_Client_Error

text \<open>A refusal, or an error that is not one: a plain \<open>Error\<close>, or one of the guard client.\<close>

datatype payment_error =
  Payment_Refusal payment_refusal_code "string option" | Payment_Raised string | Payment_Guard guard_client_error

abbreviation refusal :: "payment_refusal_code \<Rightarrow> payment_error" where
  "refusal c \<equiv> Payment_Refusal c None"

record ('w, 'acc) payment_deps =
  pd_ownerAddress :: string
  pd_aliases :: alias_book
  pd_loadAccount :: "string \<Rightarrow> 'w \<Rightarrow> (string + 'acc) \<times> 'w"
  pd_networkPassphrase :: string
  pd_explorerBase :: "string option"
  pd_assets :: asset_registry
  pd_checkTrustline :: "(string \<Rightarrow> asset_spec \<Rightarrow> 'w \<Rightarrow> (string + bool) \<times> 'w) option"
  pd_route :: "string option"
  pd_guard :: "'w guard_port option"
  pd_guardAssetContracts :: "(string \<times> string) list option"
  pd_approvalProfile :: "approval_mode option"
  pd_now :: int
  pd_timeboundSeconds :: "int option"

record chain_tool_result =
  ct_unsignedXdr :: string
  ct_summary :: guard_summary

section \<open>The checks both routes make\<close>

definition MAX_STROOPS :: int where "MAX_STROOPS = 9223372036854775807"

definition stroops_of :: "string \<Rightarrow> int" where
  "stroops_of amount =
     (let parts = js_split CHR ''.'' amount
      in int (nat_of_dec (nth_or [] parts 0)) * 10000000
         + int (nat_of_dec (pad_end 7 CHR ''0'' (nth_or [] parts 1))))"

definition assertPositiveAmount :: "js_value \<Rightarrow> payment_error + string" where
  "assertPositiveAmount v =
     (case v of
        V_Str amount \<Rightarrow>
          if \<not> amount_re 7 amount then Inl (refusal Invalid_Amount_Code)
          else if stroops_of amount \<le> 0 then Inl (refusal Invalid_Amount_Code)
          else if stroops_of amount > MAX_STROOPS then Inl (refusal Invalid_Amount_Code)
          else Inr amount
      | _ \<Rightarrow> Inl (refusal Invalid_Amount_Code))"

definition resolve_asset :: "asset_registry \<Rightarrow> js_value \<Rightarrow> payment_error + asset_spec" where
  "resolve_asset assets v =
     (case v of
        V_Str code \<Rightarrow> (case assets code of None \<Rightarrow> Inl (refusal Unsupported_Asset) | Some spec \<Rightarrow> Inr spec)
      | _ \<Rightarrow> Inl (refusal Unsupported_Asset))"

definition resolve_recipient :: "alias_book \<Rightarrow> js_value \<Rightarrow> payment_error + string \<times> alias_entry" where
  "resolve_recipient book intent =
     (case js_or (js_or (js_field intent ''recipient'') (js_field intent ''alias'')) (V_Str []) of
        V_Str raw \<Rightarrow>
          let alias = js_lower (js_trim raw) in
          if alias = [] then Inl (refusal Unknown_Recipient)
          else (case resolveAlias book alias of
                  None \<Rightarrow> Inl (refusal Unknown_Recipient) | Some entry \<Rightarrow> Inr (alias, entry))
      | _ \<Rightarrow> Inl (refusal Unknown_Recipient))"

definition awaited :: "payment_refusal_code \<Rightarrow> ('w \<Rightarrow> (string + 'a) \<times> 'w) \<Rightarrow> ('w, payment_error, 'a) eff" where
  "awaited code f = call (\<lambda>w. case f w of (r, w') \<Rightarrow> (catchE r (\<lambda>_. refusal code), w'))"

definition check_trustline :: "('w, 'acc) payment_deps \<Rightarrow> asset_spec \<Rightarrow> alias_entry \<Rightarrow> ('w, payment_error, unit) eff" where
  "check_trustline deps spec entry =
     (case pd_checkTrustline deps of
        Some check \<Rightarrow>
          if sp_native spec then eff_ret ()
          else eff_bind (awaited Trustline_Check_Failed (check (ae_address entry) spec)) (\<lambda>ok.
                 if \<not> ok then eff_throw (refusal Recipient_No_Trustline) else eff_ret ())
      | None \<Rightarrow> eff_ret ())"

section \<open>The guarded route\<close>

definition guardAssetContract :: "(string \<times> string) list option \<Rightarrow> string \<Rightarrow> string option" where
  "guardAssetContract table code =
     (case table of
        None \<Rightarrow> None
      | Some t \<Rightarrow> (case map_of t code of
                     Some c \<Rightarrow> Some c
                   | None \<Rightarrow> (case map_of t (js_upper code) of Some c \<Rightarrow> Some c | None \<Rightarrow> map_of t (js_lower code))))"

definition GUARD_REFUSAL_BY_NAME :: "(string \<times> payment_refusal_code) list" where
  "GUARD_REFUSAL_BY_NAME =
     [(''NotConfigured'', Guard_Rule_Missing), (''OverPerTxLimit'', Guard_Limit_Exceeded),
      (''OverDailyLimit'', Guard_Limit_Exceeded), (''AssetNotAllowed'', Guard_Asset_Not_Allowed),
      (''InvalidAmount'', Invalid_Amount_Code)]"

definition guardRefusal :: "guard_thrown \<Rightarrow> payment_error" where
  "guardRefusal e =
     (let mapped = asGuardClientError e
      in Payment_Refusal (case map_of GUARD_REFUSAL_BY_NAME (ge_name mapped) of Some c \<Rightarrow> c | None \<Rightarrow> Guard_Client_Error)
           (Some (ge_name mapped)))"

definition guard_try :: "('w, guard_thrown, 'a) eff \<Rightarrow> ('w, payment_error, 'a) eff" where
  "guard_try m = eff_try m (\<lambda>e. eff_throw (guardRefusal e)) eff_ret"

fun mode_name :: "approval_mode \<Rightarrow> string" where
  "mode_name Always_Ask = ''always_ask''"
| "mode_name Auto_Under_Limit = ''auto_under_limit''"
| "mode_name Custom_Mode = ''custom''"

definition with_approval_lines :: "approval_mode \<Rightarrow> guard_route \<Rightarrow> guard_summary \<Rightarrow> guard_summary" where
  "with_approval_lines profile route s =
     s\<lparr>su_lines := su_lines s @ [''Approval profile: '' @ mode_name profile,
         ''Approval card required: '' @ (if requiresApprovalCard route then ''yes'' else ''no'')]\<rparr>"

fun summary_error :: "string + guard_client_error \<Rightarrow> payment_error" where
  "summary_error (Inl m) = Payment_Raised m"
| "summary_error (Inr e) = Payment_Guard e"

definition guarded_call ::
    "'w guard_port \<Rightarrow> guard_route \<Rightarrow> string option \<Rightarrow> string \<Rightarrow> string \<Rightarrow> string \<Rightarrow> int \<Rightarrow> ('w, guard_thrown, guard_call) eff" where
  "guarded_call guard route executor owner to_addr asset amountRaw =
     (case route of
        Pay_Executor \<Rightarrow> gp_payExecutor guard (case executor of Some e \<Rightarrow> e | None \<Rightarrow> ''null'') owner to_addr asset amountRaw
      | Pay_Owner \<Rightarrow> gp_payOwner guard owner to_addr asset amountRaw)"

definition guardedPayment ::
    "('acc2, 'tx2, 'sim) guard_sdk \<Rightarrow> ('w, 'acc) payment_deps \<Rightarrow> js_value \<Rightarrow> ('w, payment_error, chain_tool_result) eff" where
  "guardedPayment gsdk deps intent =
     eff_bind (eff_of (\<lambda>e. e) (resolve_asset (pd_assets deps) (js_field intent ''asset''))) (\<lambda>spec.
     eff_bind (eff_of (\<lambda>e. e) (assertPositiveAmount (js_field intent ''amount''))) (\<lambda>amount.
     eff_bind (eff_of (\<lambda>e. e) (resolve_recipient (pd_aliases deps) intent)) (\<lambda>(alias, entry).
     eff_bind (check_trustline deps spec entry) (\<lambda>_.
     case pd_guard deps of None \<Rightarrow> eff_throw (refusal Guarded_Route_Not_Available) | Some guard \<Rightarrow>
     case truthy_string (guardAssetContract (pd_guardAssetContracts deps) (sp_code spec)) of
       None \<Rightarrow> eff_throw (refusal Unsupported_Asset)
     | Some assetContractId \<Rightarrow>
     eff_bind (guard_try (gp_getRule guard (pd_ownerAddress deps))) (\<lambda>rule.
     case rule of None \<Rightarrow> eff_throw (refusal Guard_Rule_Missing) | Some r \<Rightarrow>
     eff_bind (guard_try (gp_getExecutor guard (pd_ownerAddress deps))) (\<lambda>executor.
     eff_bind (guard_try (gp_isKnownRecipient guard (pd_ownerAddress deps) (ae_address entry))) (\<lambda>recipientKnown.
     eff_bind (eff_of Payment_Guard (toRawUnits amount)) (\<lambda>amountRaw.
     eff_bind (eff_of (\<lambda>e. guardRefusal (Thrown_Guard e)) (chooseGuardedRoute
        \<lparr>ri_rule = r, ri_executor = executor, ri_amountRaw = amountRaw, ri_asset = assetContractId,
         ri_recipientKnown = recipientKnown\<rparr>)) (\<lambda>decision.
     let profile = (case pd_approvalProfile deps of Some p \<Rightarrow> p | None \<Rightarrow> DEFAULT_APPROVAL_PROFILE);
         route = resolveApprovalRoute (Some profile) (rd_route decision) in
     eff_bind (guard_try (guarded_call guard route executor (pd_ownerAddress deps) (ae_address entry)
                 assetContractId amountRaw)) (\<lambda>c.
     eff_bind (eff_of summary_error (buildGuardedPaymentSummary gsdk
        \<lparr>gi_unsignedXdr = gc_unsignedXdr c, gi_networkPassphrase = pd_networkPassphrase deps,
         gi_contractId = gp_contractId guard, gi_pay_executor = (route = Pay_Executor), gi_alias = alias,
         gi_assetCode = sp_code spec, gi_explorerBase = truthy_string (pd_explorerBase deps)\<rparr>)) (\<lambda>built.
       eff_ret \<lparr>ct_unsignedXdr = gc_unsignedXdr c,
                ct_summary = with_approval_lines profile route (bs_summary built)\<rparr>)))))))))))"

section \<open>The direct route\<close>

definition payment_request :: "('acc, 'tx) pay_sdk \<Rightarrow> string \<Rightarrow> int \<Rightarrow> int option \<Rightarrow> pay_op \<Rightarrow> tx_request" where
  "payment_request sdk networkPassphrase now timeboundSeconds operation =
     \<lparr>tx_fee = ps_BASE_FEE sdk, tx_networkPassphrase = networkPassphrase, tx_minTime = 0,
      tx_maxTimeMs = now + (case timeboundSeconds of Some s \<Rightarrow> s | None \<Rightarrow> 300) * 1000,
      tx_operation = operation\<rparr>"

definition directPayment ::
    "('acc, 'tx) pay_sdk \<Rightarrow> ('w, 'acc) payment_deps \<Rightarrow> js_value \<Rightarrow> ('w, payment_error, chain_tool_result) eff" where
  "directPayment sdk deps intent =
     eff_bind (eff_of (\<lambda>e. e) (resolve_asset (pd_assets deps) (js_field intent ''asset''))) (\<lambda>spec.
     eff_bind (eff_of (\<lambda>e. e) (assertPositiveAmount (js_field intent ''amount''))) (\<lambda>amount.
     eff_bind (eff_of (\<lambda>e. e) (resolve_recipient (pd_aliases deps) intent)) (\<lambda>(alias, entry).
     eff_bind (check_trustline deps spec entry) (\<lambda>_.
     eff_bind (awaited Account_Not_Found (pd_loadAccount deps (pd_ownerAddress deps))) (\<lambda>source.
     eff_bind (eff_of Payment_Raised (toSdkAsset sdk spec)) (\<lambda>asset.
     eff_bind (eff_of Payment_Raised (ps_build sdk source
        (payment_request sdk (pd_networkPassphrase deps) (pd_now deps) (pd_timeboundSeconds deps)
           (Op_Payment (ae_address entry) asset amount)))) (\<lambda>tx.
     eff_bind (eff_of Payment_Raised (buildPaymentSummary sdk
        \<lparr>pi_unsignedXdr = ps_toXDR sdk tx, pi_networkPassphrase = pd_networkPassphrase deps, pi_alias = alias,
         pi_explorerBase = truthy_string (pd_explorerBase deps)\<rparr>)) (\<lambda>built.
       eff_ret \<lparr>ct_unsignedXdr = ps_toXDR sdk tx, ct_summary = bs_summary built\<rparr>))))))))"

definition createSendPayment ::
    "('acc, 'tx) pay_sdk \<Rightarrow> ('acc2, 'tx2, 'sim) guard_sdk \<Rightarrow> ('w, 'acc) payment_deps \<Rightarrow> js_value
      \<Rightarrow> ('w, payment_error, chain_tool_result) eff" where
  "createSendPayment sdk gsdk deps intent =
     (if \<not> is_object intent then eff_throw (refusal Invalid_Intent)
      else if js_field intent ''kind'' \<noteq> V_Str ''send'' then eff_throw (refusal Invalid_Intent)
      else if js_or (js_field intent ''mode'') (V_Str ''public'') \<noteq> V_Str ''public'' then eff_throw (refusal Mode_Not_Supported)
      else
        let route = (case pd_route deps of Some r \<Rightarrow> r | None \<Rightarrow> ''direct'') in
        if route = ''guarded'' then guardedPayment gsdk deps intent
        else if route \<noteq> ''direct'' then eff_throw (refusal Guarded_Route_Not_Available)
        else directPayment sdk deps intent)"

section \<open>The installed tool\<close>

text \<open>The module variable \<open>active\<close> is the state; \<open>configurePayments\<close> writes it.\<close>

type_synonym ('w, 'acc) active_payments = "('w, 'acc) payment_deps option"

definition configurePayments :: "('w, 'acc) payment_deps \<Rightarrow> ('w, 'acc) active_payments \<Rightarrow> ('w, 'acc) active_payments" where
  "configurePayments deps active = Some deps"

definition getConfiguredPayments :: "('w, 'acc) active_payments \<Rightarrow> payment_error + ('w, 'acc) payment_deps" where
  "getConfiguredPayments active = (case active of None \<Rightarrow> Inl (refusal Not_Configured_Tool) | Some d \<Rightarrow> Inr d)"

definition sendPayment ::
    "('acc, 'tx) pay_sdk \<Rightarrow> ('acc2, 'tx2, 'sim) guard_sdk \<Rightarrow> ('w, 'acc) active_payments \<Rightarrow> js_value
      \<Rightarrow> ('w, payment_error, chain_tool_result) eff" where
  "sendPayment sdk gsdk active intent =
     (case getConfiguredPayments active of Inl e \<Rightarrow> eff_throw e | Inr deps \<Rightarrow> createSendPayment sdk gsdk deps intent)"

end
