(* ===== verification/Payment_Laws.thy ===== *)
theory Payment_Laws
  imports Payments
begin

text \<open>
  What the payment tool builds: the amount both routes read, what is refused before anything is
  requested, and the transaction each route returns.
\<close>

section \<open>Amounts\<close>

lemma stroops_scaled: "amount_re 7 s \<Longrightarrow> stroops_of s = int (scaled_value 7 s)"
proof -
  have "js_split CHR ''.'' s \<noteq> []" by simp
  then have "nth_or [] (js_split CHR ''.'' s) 0 = nth_or ''0'' (js_split CHR ''.'' s) 0"
    by (cases "js_split CHR ''.'' s") (simp_all add: nth_or_def)
  then show ?thesis by (simp add: stroops_of_def scaled_value_def Let_def)
qed

lemma assertPositiveAmount_Inr:
  "assertPositiveAmount v = Inr s \<longleftrightarrow> v = V_Str s \<and> (\<exists>n. toRawUnits s = Inr n \<and> 0 < n \<and> n \<le> MAX_STROOPS)"
  by (auto simp: assertPositiveAmount_def toRawUnits_Inr stroops_scaled split: js_value.splits if_splits)

lemma assertPositiveAmount_Inl: "assertPositiveAmount v = Inl e \<Longrightarrow> e = refusal Invalid_Amount_Code"
  by (auto simp: assertPositiveAmount_def split: js_value.splits if_splits)

text \<open>The amount of an operation as the SDK prints it, with all seven digits.\<close>

definition xdr_amount :: "nat \<Rightarrow> string" where
  "xdr_amount n = dec_digits (n div 10 ^ 7) @ ''.'' @ pad_start 7 CHR ''0'' (dec_digits (n mod 10 ^ 7))"

lemma contains_append: "contains [c] (s @ c # t)"
  by (induction s) auto

lemma strip_zeros_after_dot:
  "strip_zeros (w @ CHR ''.'' # f) = w @ CHR ''.'' # strip_zeros f"
proof -
  obtain k where k: "f = strip_zeros f @ replicate k CHR ''0''" using strip_zeros_split by blast
  have "strip_zeros (w @ CHR ''.'' # f) = strip_zeros ((w @ CHR ''.'' # strip_zeros f) @ replicate k CHR ''0'')"
    using k by simp
  also have "\<dots> = strip_zeros (w @ CHR ''.'' # strip_zeros f)" by (rule strip_zeros_replicate)
  also have "\<dots> = w @ CHR ''.'' # strip_zeros f"
    using strip_zeros_last [of f] by (intro strip_zeros_ident) auto
  finally show ?thesis .
qed

lemma strip_dot_digits:
  "list_all is_digit f \<Longrightarrow> strip_dot (w @ CHR ''.'' # f) = (if f = [] then w else w @ CHR ''.'' # f)"
proof (cases "f = []")
  case False
  assume "list_all is_digit f"
  then have "is_digit (last f)" using False by (simp add: list_all_iff)
  then have "last f \<noteq> CHR ''.''" by (rule is_digit_not_dot)
  then show ?thesis using False by (simp add: strip_dot_def)
qed (simp add: strip_dot_def butlast_append)

lemma formatAmount_xdr: "formatAmount (xdr_amount n) = scaled_print 7 n"
proof -
  have x: "xdr_amount n = dec_digits (n div 10 ^ 7) @ CHR ''.'' # pad_start 7 CHR ''0'' (dec_digits (n mod 10 ^ 7))"
    by (simp add: xdr_amount_def)
  have "formatAmount (xdr_amount n) = strip_dot (dec_digits (n div 10 ^ 7) @ CHR ''.'' # scaled_frac 7 n)"
    unfolding x formatAmount_def scaled_frac_def
    by (simp only: contains_append not_True_eq_False if_False strip_zeros_after_dot)
  also have "\<dots> = scaled_print 7 n"
    unfolding scaled_print_def Let_def
    by (subst strip_dot_digits) (simp_all only: scaled_frac_def strip_zeros_digits list_all_pad_start dec_digits_all is_digit_zero append.simps split: if_split, simp)
  finally show ?thesis .
qed

lemma card_amount: "0 < n \<Longrightarrow> fromRawUnits n = Inr (formatAmount (xdr_amount (nat n)))"
  by (simp add: formatAmount_xdr fromRawUnits_eq)

text \<open>One amount on both routes.  The tool accepts exactly the decimal texts whose raw value the
  guard client would compute is positive and fits an \<open>int64\<close>; and when the SDK prints that value
  back with its seven digits, the card of a direct payment shows it as the card of a guarded payment
  does.\<close>

theorem payment_amount_agrees:
  "(assertPositiveAmount (V_Str s) = Inr s \<longleftrightarrow> (\<exists>n. toRawUnits s = Inr n \<and> 0 < n \<and> n \<le> MAX_STROOPS))
   \<and> fromRawUnits (int n) = Inr (formatAmount (xdr_amount n))"
  by (simp add: assertPositiveAmount_Inr formatAmount_xdr fromRawUnits_eq del: One_nat_def)

section \<open>Refusals\<close>

lemma resolve_asset_Inr: "resolve_asset assets v = Inr spec \<longleftrightarrow> (\<exists>code. v = V_Str code \<and> assets code = Some spec)"
  by (auto simp: resolve_asset_def split: js_value.splits option.splits)

lemma resolve_recipient_Inr:
  "resolve_recipient book intent = Inr (name, entry) \<longleftrightarrow>
     (\<exists>raw. js_or (js_or (js_field intent ''recipient'') (js_field intent ''alias'')) (V_Str []) = V_Str raw
        \<and> name = js_lower (js_trim raw) \<and> name \<noteq> [] \<and> resolveAlias book name = Some entry)"
  by (auto simp: resolve_recipient_def Let_def split: js_value.splits option.splits)

lemma local_checks_Inl:
  "resolve_asset assets v = Inl e \<Longrightarrow> e = refusal Unsupported_Asset"
  "resolve_recipient book intent = Inl e \<Longrightarrow> e = refusal Unknown_Recipient"
  by (auto simp: resolve_asset_def resolve_recipient_def Let_def split: js_value.splits option.splits if_splits)

text \<open>An intent that can be paid: what the tool checks without asking anybody.\<close>

definition payable :: "('w, 'acc) payment_deps \<Rightarrow> js_value \<Rightarrow> bool" where
  "payable deps intent \<longleftrightarrow> js_field intent ''kind'' = V_Str ''send''
     \<and> js_or (js_field intent ''mode'') (V_Str ''public'') = V_Str ''public''
     \<and> (\<exists>spec. resolve_asset (pd_assets deps) (js_field intent ''asset'') = Inr spec)
     \<and> (\<exists>amount. assertPositiveAmount (js_field intent ''amount'') = Inr amount)
     \<and> (\<exists>p. resolve_recipient (pd_aliases deps) intent = Inr p)"

lemma payment_checks_fail:
  assumes "\<not> ((\<exists>spec. resolve_asset (pd_assets deps) (js_field intent ''asset'') = Inr spec)
     \<and> (\<exists>amount. assertPositiveAmount (js_field intent ''amount'') = Inr amount)
     \<and> (\<exists>p. resolve_recipient (pd_aliases deps) intent = Inr p))"
  shows "\<exists>code. guardedPayment gsdk deps intent w = Some (Inl (refusal code), w)"
    and "\<exists>code. directPayment sdk deps intent w = Some (Inl (refusal code), w)"
  using assms unfolding guardedPayment_def directPayment_def
  by (cases "resolve_asset (pd_assets deps) (js_field intent ''asset'')";
      cases "assertPositiveAmount (js_field intent ''amount'')";
      cases "resolve_recipient (pd_aliases deps) intent";
      auto dest: local_checks_Inl assertPositiveAmount_Inl)+

text \<open>C36: Nothing is requested for an intent that cannot be paid.  Another kind, a privacy mode, an asset
  that is not pinned, an amount that is not positive or does not fit, a recipient that is not in the
  alias book, or a route that does not exist: the answer is a typed refusal, whatever the route, and
  the world is as it was.\<close>

theorem unpayable_is_refused_silently:
  assumes "\<not> payable deps intent"
  shows "\<exists>code. createSendPayment sdk gsdk deps intent w = Some (Inl (refusal code), w)"
proof (cases "js_field intent ''kind'' = V_Str ''send''
     \<and> js_or (js_field intent ''mode'') (V_Str ''public'') = V_Str ''public''")
  case True
  then have "\<not> ((\<exists>spec. resolve_asset (pd_assets deps) (js_field intent ''asset'') = Inr spec)
     \<and> (\<exists>amount. assertPositiveAmount (js_field intent ''amount'') = Inr amount)
     \<and> (\<exists>p. resolve_recipient (pd_aliases deps) intent = Inr p))"
    using assms by (auto simp: payable_def)
  note this [THEN payment_checks_fail(1)] this [THEN payment_checks_fail(2)]
  then show ?thesis using True unfolding createSendPayment_def Let_def by (simp split: if_split, metis eff_simps(2))
next
  case False
  then show ?thesis by (auto simp: createSendPayment_def)
qed

section \<open>The direct route\<close>

lemma yields_awaited: "yields (\<lambda>x. \<exists>w1 w2. f w1 = (Inr x, w2)) (awaited code f)"
  unfolding yields_def awaited_def by (auto split: prod.splits)

lemma yields_eff_of: "yields (\<lambda>x. m = Inr x) (eff_of h m)"
  by (auto intro: uponI)

text \<open>The recipient was asked about and can hold the asset.\<close>

definition holds_asset :: "('w, 'acc) payment_deps \<Rightarrow> asset_spec \<Rightarrow> alias_entry \<Rightarrow> bool" where
  "holds_asset deps spec entry \<longleftrightarrow>
     (\<forall>check. pd_checkTrustline deps = Some check \<and> \<not> sp_native spec \<longrightarrow>
        (\<exists>w1 w2. check (ae_address entry) spec w1 = (Inr True, w2)))"

lemma check_trustline_yields: "yields (\<lambda>_. holds_asset deps spec entry) (check_trustline deps spec entry)"
proof (cases "pd_checkTrustline deps")
  case (Some check)
  show ?thesis
  proof (cases "sp_native spec")
    case False
    have "yields (\<lambda>_. holds_asset deps spec entry)
        (eff_bind (awaited Trustline_Check_Failed (check (ae_address entry) spec)) (\<lambda>ok.
           if \<not> ok then eff_throw (refusal Recipient_No_Trustline) else eff_ret ()))"
      by (rule yields_bind [OF yields_awaited]) (case_tac x; simp add: holds_asset_def Some)
    then show ?thesis by (simp add: check_trustline_def Some False)
  qed (simp add: check_trustline_def Some holds_asset_def)
qed (simp add: check_trustline_def holds_asset_def)

definition direct_result :: "('acc, 'tx) pay_sdk \<Rightarrow> ('w, 'acc) payment_deps \<Rightarrow> js_value \<Rightarrow> chain_tool_result \<Rightarrow> bool" where
  "direct_result sdk deps intent r \<longleftrightarrow>
     (\<exists>spec amount name entry asset account tx payloadHash w1 w2.
        resolve_asset (pd_assets deps) (js_field intent ''asset'') = Inr spec
        \<and> assertPositiveAmount (js_field intent ''amount'') = Inr amount
        \<and> resolve_recipient (pd_aliases deps) intent = Inr (name, entry)
        \<and> holds_asset deps spec entry
        \<and> pd_loadAccount deps (pd_ownerAddress deps) w1 = (Inr account, w2)
        \<and> toSdkAsset sdk spec = Inr asset
        \<and> ps_build sdk account (payment_request sdk (pd_networkPassphrase deps) (pd_now deps) (pd_timeboundSeconds deps)
             (Op_Payment (ae_address entry) asset amount)) = Inr tx
        \<and> ct_unsignedXdr r = ps_toXDR sdk tx
        \<and> buildPaymentSummary sdk \<lparr>pi_unsignedXdr = ct_unsignedXdr r, pi_networkPassphrase = pd_networkPassphrase deps,
             pi_alias = name, pi_explorerBase = truthy_string (pd_explorerBase deps)\<rparr>
           = Inr \<lparr>bs_summary = ct_summary r, bs_payloadHash = payloadHash\<rparr>)"

lemma direct_yields: "yields (direct_result sdk deps intent) (directPayment sdk deps intent)"
  unfolding directPayment_def
  apply (rule yields_bind [OF yields_eff_of])
  apply (rule yields_bind [OF yields_eff_of])
  apply (rule yields_bind [OF yields_eff_of], clarify)
  apply (rule yields_bind [OF check_trustline_yields])
  apply (rule yields_bind [OF yields_awaited])
  apply (rule yields_bind [OF yields_eff_of])
  apply (rule yields_bind [OF yields_eff_of])
  apply (rule yields_bind [OF yields_eff_of])
  apply (simp add: direct_result_def)
  apply (metis built_guard_summary.surjective old.unit.exhaust)
  done

text \<open>What the SDK documents of a payment it builds: its XDR reads back as that transaction, whose first
  operation is the one asked for, the amount printed with all its digits.\<close>

definition reads_back :: "('acc, 'tx) pay_sdk \<Rightarrow> bool" where
  "reads_back sdk \<longleftrightarrow>
     (\<forall>account req tx. ps_build sdk account req = Inr tx \<longrightarrow>
        ps_fromXDR sdk (ps_toXDR sdk tx) (tx_networkPassphrase req) = Inr tx \<and> ps_is_transaction sdk tx
        \<and> (\<forall>destination asset amount. tx_operation req = Op_Payment destination asset amount \<longrightarrow>
             ps_first_op sdk tx = Payment_Op destination asset (xdr_amount (nat (stroops_of amount)))))"

text \<open>C35: A direct payment is what its card says.  When the tool returns on the direct route, the intent
  was payable, the recipient can hold the asset as far as the tool may ask, and the XDR is that of one
  payment built on the owner's account for the address the alias book gives for the spoken name, in the
  pinned asset and the amount of the intent, with no lower time bound.  The card names that alias and
  address, and the exact amount.\<close>

theorem direct_payment_exact:
  assumes "createSendPayment sdk gsdk deps intent w = Some (Inr r, w')"
    and "pd_route deps \<noteq> Some ''guarded''" and "reads_back sdk"
  shows "payable deps intent \<and> (\<exists>spec amount n shown name entry asset account tx w1 w2.
     resolve_asset (pd_assets deps) (js_field intent ''asset'') = Inr spec
     \<and> js_field intent ''amount'' = V_Str amount \<and> toRawUnits amount = Inr n \<and> 0 < n \<and> fromRawUnits n = Inr shown
     \<and> resolve_recipient (pd_aliases deps) intent = Inr (name, entry) \<and> holds_asset deps spec entry
     \<and> toSdkAsset sdk spec = Inr asset
     \<and> pd_loadAccount deps (pd_ownerAddress deps) w1 = (Inr account, w2)
     \<and> ps_build sdk account (payment_request sdk (pd_networkPassphrase deps) (pd_now deps) (pd_timeboundSeconds deps)
          (Op_Payment (ae_address entry) asset amount)) = Inr tx
     \<and> ct_unsignedXdr r = ps_toXDR sdk tx
     \<and> su_title (ct_summary r) = ''Send '' @ shown @ '' '' @ (case asset of Native_Asset \<Rightarrow> ''XLM'' | Issued_Asset c _ \<Rightarrow> c)
          @ '' to '' @ name
     \<and> su_lines (ct_summary r) ! 1 = ''To '' @ name @ '' ('' @ ae_address entry @ '')'')"
proof -
  have direct: "directPayment sdk deps intent w = Some (Inr r, w')"
    and kind: "js_field intent ''kind'' = V_Str ''send''" "js_or (js_field intent ''mode'') (V_Str ''public'') = V_Str ''public''"
    using assms(1,2) by (auto simp: createSendPayment_def Let_def split: if_splits option.splits)
  then obtain spec amount name entry asset account tx payloadHash w1 w2 where d:
      "resolve_asset (pd_assets deps) (js_field intent ''asset'') = Inr spec"
      "assertPositiveAmount (js_field intent ''amount'') = Inr amount"
      "resolve_recipient (pd_aliases deps) intent = Inr (name, entry)" "holds_asset deps spec entry"
      "pd_loadAccount deps (pd_ownerAddress deps) w1 = (Inr account, w2)" "toSdkAsset sdk spec = Inr asset"
      and tx: "ps_build sdk account (payment_request sdk (pd_networkPassphrase deps) (pd_now deps) (pd_timeboundSeconds deps)
          (Op_Payment (ae_address entry) asset amount)) = Inr tx"
      and xdr: "ct_unsignedXdr r = ps_toXDR sdk tx"
      and card: "buildPaymentSummary sdk \<lparr>pi_unsignedXdr = ct_unsignedXdr r, pi_networkPassphrase = pd_networkPassphrase deps,
             pi_alias = name, pi_explorerBase = truthy_string (pd_explorerBase deps)\<rparr>
           = Inr \<lparr>bs_summary = ct_summary r, bs_payloadHash = payloadHash\<rparr>"
    using yieldsD [OF direct_yields direct] unfolding direct_result_def by blast
  obtain n where n: "js_field intent ''amount'' = V_Str amount" "toRawUnits amount = Inr n" "0 < n"
    using d(2) by (auto simp: assertPositiveAmount_Inr)
  then have stroops: "stroops_of amount = n" by (auto simp: toRawUnits_Inr stroops_scaled)
  have op: "ps_fromXDR sdk (ps_toXDR sdk tx) (pd_networkPassphrase deps) = Inr tx" "ps_is_transaction sdk tx"
      "ps_first_op sdk tx = Payment_Op (ae_address entry) asset (xdr_amount (nat n))"
    using assms(3) [unfolded reads_back_def, rule_format, OF tx] stroops by (auto simp: payment_request_def)
  have "su_title (ct_summary r) = ''Send '' @ formatAmount (xdr_amount (nat n)) @ '' ''
          @ (case asset of Native_Asset \<Rightarrow> ''XLM'' | Issued_Asset c _ \<Rightarrow> c) @ '' to '' @ name
     \<and> su_lines (ct_summary r) ! 1 = ''To '' @ name @ '' ('' @ ae_address entry @ '')''"
    using card op by (auto simp: buildPaymentSummary_def xdr Let_def dest!: sym [of _ "ct_summary r"])
  moreover have "payable deps intent" using d kind unfolding payable_def by blast
  ultimately show ?thesis using d n tx xdr card_amount [OF n(3)] by blast
qed

section \<open>The guarded route\<close>

lemma yields_guard_try: "yields P m \<Longrightarrow> yields P (guard_try m)"
  by (auto simp: guard_try_def yields_def eff_try_Some)

text \<open>A value a method returned in some world.\<close>

definition answered :: "('w, 'e, 'a) eff \<Rightarrow> 'a \<Rightarrow> bool" where
  "answered m x \<longleftrightarrow> (\<exists>w w'. m w = Some (Inr x, w'))"

lemma yields_answered: "yields (answered m) m"
  by (auto simp: yields_def answered_def)

text \<open>What the guarded route read before it chose, and what it returns.\<close>

definition guarded_reads ::
    "('w, 'acc) payment_deps \<Rightarrow> 'w guard_port \<Rightarrow> js_value \<Rightarrow> string \<Rightarrow> alias_entry \<Rightarrow> guard_route_input \<Rightarrow> bool" where
  "guarded_reads deps port intent name entry i \<longleftrightarrow>
     (\<exists>spec amount. resolve_asset (pd_assets deps) (js_field intent ''asset'') = Inr spec
        \<and> assertPositiveAmount (js_field intent ''amount'') = Inr amount
        \<and> resolve_recipient (pd_aliases deps) intent = Inr (name, entry) \<and> holds_asset deps spec entry
        \<and> guardAssetContract (pd_guardAssetContracts deps) (sp_code spec) = Some (ri_asset i)
        \<and> toRawUnits amount = Inr (ri_amountRaw i))
     \<and> answered (gp_getRule port (pd_ownerAddress deps)) (Some (ri_rule i))
     \<and> answered (gp_getExecutor port (pd_ownerAddress deps)) (ri_executor i)
     \<and> answered (gp_isKnownRecipient port (pd_ownerAddress deps) (ae_address entry)) (ri_recipientKnown i)"

definition may_use_executor :: "('w, 'acc) payment_deps \<Rightarrow> bool" where
  "may_use_executor deps \<longleftrightarrow> pd_approvalProfile deps \<noteq> None \<and> pd_approvalProfile deps \<noteq> Some Always_Ask"

lemma default_profile:
  "resolveApprovalRoute (Some (case p of None \<Rightarrow> DEFAULT_APPROVAL_PROFILE | Some m \<Rightarrow> m)) r = resolveApprovalRoute p r"
  by (simp add: resolveApprovalRoute_def DEFAULT_APPROVAL_PROFILE_def split: option.split)

context guard_writer
begin

text \<open>The call a guarded payment returns, by the interface's contract alone.\<close>

lemma guarded_call_built:
  "yields (\<lambda>c. (route = Pay_Owner \<and> built (pay_owner_call (gp_contractId port) net owner to_addr asset amount) c)
      \<or> (route = Pay_Executor \<and> built (pay_executor_call (gp_contractId port) net
            (case executor of Some e \<Rightarrow> e | None \<Rightarrow> ''null'') owner to_addr asset amount) c))
     (guarded_call port route executor owner to_addr asset amount)"
  unfolding guarded_call_def
  by (cases route) (auto intro: yields_mono [OF pay_owner_built] yields_mono [OF pay_executor_built])

lemma guarded_yields:
  assumes "pd_guard deps = Some port"
  shows "yields (\<lambda>r. \<exists>name entry i c d. guarded_reads deps port intent name entry i
      \<and> chooseGuardedRoute i = Inr d \<and> ct_unsignedXdr r = gc_unsignedXdr c
      \<and> ((resolveApprovalRoute (pd_approvalProfile deps) (rd_route d) = Pay_Owner
            \<and> built (pay_owner_call (gp_contractId port) net (pd_ownerAddress deps) (ae_address entry) (ri_asset i) (ri_amountRaw i)) c)
         \<or> (resolveApprovalRoute (pd_approvalProfile deps) (rd_route d) = Pay_Executor
            \<and> built (pay_executor_call (gp_contractId port) net (case ri_executor i of Some e \<Rightarrow> e | None \<Rightarrow> ''null'')
                 (pd_ownerAddress deps) (ae_address entry) (ri_asset i) (ri_amountRaw i)) c)))
     (guardedPayment gsdk deps intent)"
  unfolding guardedPayment_def
  apply (rule yields_bind [OF yields_eff_of])
  apply (rule yields_bind [OF yields_eff_of])
  apply (rule yields_bind [OF yields_eff_of], clarify)
  apply (rule yields_bind [OF check_trustline_yields])
  apply (simp only: assms option.case)
  apply (split option.split, intro conjI allI impI, simp)
  apply (rule yields_bind [OF yields_guard_try [OF yields_answered]])
  apply (split option.split, intro conjI allI impI, simp)
  apply (rule yields_bind [OF yields_guard_try [OF yields_answered]])
  apply (rule yields_bind [OF yields_guard_try [OF yields_answered]])
  apply (rule yields_bind [OF yields_eff_of])
  apply (rule yields_bind [OF yields_eff_of])
  apply (unfold Let_def)
  apply (rule yields_bind [OF yields_guard_try [OF guarded_call_built]])
  apply (rule yields_bind_any)
  subgoal for spec amount name entry u asset rule' r executor known n d c b
    by (rule yields_ret [THEN iffD2], rule exI [of _ name], rule exI [of _ entry],
        rule exI [of _ "\<lparr>ri_rule = r, ri_executor = executor, ri_amountRaw = n, ri_asset = asset, ri_recipientKnown = known\<rparr>"],
        rule exI [of _ c], rule exI [of _ d])
      (auto simp: guarded_reads_def truthy_string_def default_profile split: if_splits)
  done

end

text \<open>C2: A guarded payment stays within the agent's mandate and the owner's preference.  When the tool
  returns through the client, it read the rule, the executor and whether the recipient is known, and the
  XDR is the client's call for the resolved address, the asset contract of the owner's table and the
  intent's amount.  It is the owner's payment, or, only when the owner set a profile other than
  \<open>always_ask\<close>, the registered executor's; and that one the contract accepts in every state in which
  what was read still holds, the day's limit has room and the token pays.\<close>

theorem guarded_payment_within_mandate:
  assumes "createSendPayment sdk gsdk deps intent w = Some (Inr r, w')"
    and "pd_route deps = Some ''guarded''" and "pd_guard deps = Some (client_port env gsdk cl)"
  shows "payable deps intent \<and> (\<exists>name entry i c.
     guarded_reads deps (client_port env gsdk cl) intent name entry i \<and> ct_unsignedXdr r = gc_unsignedXdr c
     \<and> (client_built gsdk cl (pay_owner_call (cl_contractId cl) (client_net cl) (pd_ownerAddress deps) (ae_address entry)
            (ri_asset i) (ri_amountRaw i)) c
        \<or> (\<exists>e. ri_executor i = Some e \<and> may_use_executor deps
             \<and> client_built gsdk cl (pay_executor_call (cl_contractId cl) (client_net cl) e (pd_ownerAddress deps)
                  (ae_address entry) (ri_asset i) (ri_amountRaw i)) c
             \<and> (\<forall>st tk now. gs_rule st = Some (ri_rule i) \<and> gs_executor st = Some e
                   \<and> gs_known st (ae_address entry) = ri_recipientKnown i
                   \<and> read_spend now st + ri_amountRaw i \<le> daily_limit (ri_rule i)
                   \<and> checked_add_i128 (read_spend now st) (ri_amountRaw i) = Some (read_spend now st + ri_amountRaw i)
                   \<and> ri_amountRaw i \<le> tk_allowance tk (ri_asset i) \<and> tk_transfer tk (ae_address entry) (ri_asset i) (ri_amountRaw i) \<longrightarrow>
                   agent_may_pay tk now st e (ae_address entry) (ri_asset i) (ri_amountRaw i)))))"
proof -
  have guarded: "guardedPayment gsdk deps intent w = Some (Inr r, w')"
    and kind: "js_field intent ''kind'' = V_Str ''send''" "js_or (js_field intent ''mode'') (V_Str ''public'') = V_Str ''public''"
    using assms(1,2) by (auto simp: createSendPayment_def Let_def split: if_splits)
  let ?port = "client_port env gsdk cl"
  have id: "gp_contractId ?port = cl_contractId cl" by (simp add: client_port_def)
  obtain name entry i c d where g: "guarded_reads deps ?port intent name entry i" "chooseGuardedRoute i = Inr d"
      "ct_unsignedXdr r = gc_unsignedXdr c"
    and call: "(resolveApprovalRoute (pd_approvalProfile deps) (rd_route d) = Pay_Owner
            \<and> client_built gsdk cl (pay_owner_call (cl_contractId cl) (client_net cl) (pd_ownerAddress deps) (ae_address entry) (ri_asset i) (ri_amountRaw i)) c)
         \<or> (resolveApprovalRoute (pd_approvalProfile deps) (rd_route d) = Pay_Executor
            \<and> client_built gsdk cl (pay_executor_call (cl_contractId cl) (client_net cl) (case ri_executor i of Some e \<Rightarrow> e | None \<Rightarrow> ''null'')
                 (pd_ownerAddress deps) (ae_address entry) (ri_asset i) (ri_amountRaw i)) c)"
    using yieldsD [OF client_writer.guarded_yields [OF assms(3)] guarded] unfolding id by blast
  have "payable deps intent" using g(1) kind unfolding payable_def guarded_reads_def by blast
  moreover have "\<exists>e. ri_executor i = Some e \<and> may_use_executor deps \<and> (\<forall>st tk now. gs_rule st = Some (ri_rule i) \<and> gs_executor st = Some e
                   \<and> gs_known st (ae_address entry) = ri_recipientKnown i
                   \<and> read_spend now st + ri_amountRaw i \<le> daily_limit (ri_rule i)
                   \<and> checked_add_i128 (read_spend now st) (ri_amountRaw i) = Some (read_spend now st + ri_amountRaw i)
                   \<and> ri_amountRaw i \<le> tk_allowance tk (ri_asset i) \<and> tk_transfer tk (ae_address entry) (ri_asset i) (ri_amountRaw i) \<longrightarrow>
                   agent_may_pay tk now st e (ae_address entry) (ri_asset i) (ri_amountRaw i))"
    if e: "resolveApprovalRoute (pd_approvalProfile deps) (rd_route d) = Pay_Executor"
  proof -
    have "may_use_executor deps" "rd_route d = Pay_Executor"
      using e by (auto simp: may_use_executor_def resolveApprovalRoute_def Let_def split: if_splits option.splits)
    moreover from this have "route_is i Pay_Executor" using g(2) by (simp add: route_is_def)
    then have "ri_executor i \<noteq> None" and m: "0 < ri_amountRaw i" "ri_asset i \<in> set (allowed_assets (ri_rule i))"
        "ri_amountRaw i \<le> per_tx_limit (ri_rule i)" "ri_amountRaw i \<le> auto_approve_limit (ri_rule i)"
        "known_recipients_only (ri_rule i) \<longrightarrow> ri_recipientKnown i"
      unfolding route_executor_iff by blast+
    ultimately show ?thesis using m unfolding agent_may_pay_iff by auto
  qed
  ultimately show ?thesis using g call by (metis option.case(2))
qed

section \<open>Examples\<close>

definition book_example :: alias_book where
  "book_example = [(''ada'', \<lparr>ae_address = ''GADA'', ae_network = ''testnet'', ae_ctRegistered = None, ae_sppReady = None\<rparr>)]"

definition intent_example :: js_value where
  "intent_example = V_Obj [(''kind'', V_Str ''send''), (''asset'', V_Str ''USDC''), (''amount'', V_Str ''2''), (''alias'', V_Str ''Ada'')]"

text \<open>An SDK whose transaction and XDR are the payment's destination.\<close>

definition pay_sdk_example :: "(unit, sdk_asset \<times> string \<times> nat) pay_sdk" where
  "pay_sdk_example = \<lparr>ps_BASE_FEE = ''100'', ps_asset_error = (\<lambda>_ _. None),
     ps_build = (\<lambda>_ req. case tx_operation req of
        Op_Payment d a m \<Rightarrow> if d = ''GADA'' \<and> stroops_of m = 20000000 \<and> a = Issued_Asset ''USDC'' TESTNET_USDC_ISSUER
          then Inr (a, d, 20000000) else Inl ''no''
      | _ \<Rightarrow> Inl ''no''),
     ps_toXDR = (\<lambda>_. ''AAAA''),
     ps_fromXDR = (\<lambda>_ _. Inr (Issued_Asset ''USDC'' TESTNET_USDC_ISSUER, ''GADA'', 20000000)),
     ps_is_transaction = (\<lambda>_. True), ps_first_op = (\<lambda>(a, d, n). Payment_Op d a (xdr_amount n)),
     ps_source = (\<lambda>_. ''GOWNER''), ps_hash = (\<lambda>_. [1, 2]), ps_fee = (\<lambda>_. 100)\<rparr>"

text \<open>A guard SDK whose transaction and XDR are the name of the method.\<close>

definition guard_sdk_example :: "(unit, string, unit) guard_sdk" where
  "guard_sdk_example = \<lparr>gk_encode_error = (\<lambda>_. None), gk_build = (\<lambda>opts _. Inr (io_method opts)),
     gk_assemble = (\<lambda>tx _. Inr tx), gk_toXDR = (\<lambda>tx. tx), gk_fromXDR = (\<lambda>s _. Inr (Some s)),
     gk_first_op = (\<lambda>tx. Invoke_Contract ''CGUARD'' tx
        [N_Str ''GAGENT'', N_Str ''GOWNER'', N_Str ''GADA'', N_Str ''CUSDC'', N_Big 20000000]),
     gk_hash = (\<lambda>_. [1, 2]), gk_fee = (\<lambda>_. 100)\<rparr>"

definition pay_deps_example :: "(unit, unit) payment_deps" where
  "pay_deps_example = \<lparr>pd_ownerAddress = ''GOWNER'', pd_aliases = book_example, pd_loadAccount = (\<lambda>_ w. (Inr (), w)),
     pd_networkPassphrase = ''Test'', pd_explorerBase = None, pd_assets = defaultAssetRegistry, pd_checkTrustline = None,
     pd_route = None, pd_guard = None, pd_guardAssetContracts = Some [(''USDC'', ''CUSDC'')],
     pd_approvalProfile = Some Auto_Under_Limit, pd_now = 0, pd_timeboundSeconds = None\<rparr>"

lemma pay_sdk_example_reads_back: "reads_back pay_sdk_example"
  by (auto simp: reads_back_def pay_sdk_example_def split: pay_op.splits if_splits)

lemma stroops_two: "stroops_of ''2'' = 20000000"
  by code_simp

lemma intent_example_checks:
  "resolve_asset defaultAssetRegistry (js_field intent_example ''asset'')
     = Inr \<lparr>sp_code = ''USDC'', sp_issuer = Some TESTNET_USDC_ISSUER, sp_native = False\<rparr>"
  "assertPositiveAmount (js_field intent_example ''amount'') = Inr ''2''"
  "resolve_recipient book_example intent_example
     = Inr (''ada'', \<lparr>ae_address = ''GADA'', ae_network = ''testnet'', ae_ctRegistered = None, ae_sppReady = None\<rparr>)"
proof -
  have "js_upper (js_trim ''USDC'') = ''USDC''" by code_simp
  then show "resolve_asset defaultAssetRegistry (js_field intent_example ''asset'')
     = Inr \<lparr>sp_code = ''USDC'', sp_issuer = Some TESTNET_USDC_ISSUER, sp_native = False\<rparr>"
    by (simp add: resolve_asset_def intent_example_def defaultAssetRegistry_def)
  have "amount_re 7 ''2''" by code_simp
  then show "assertPositiveAmount (js_field intent_example ''amount'') = Inr ''2''"
    by (simp add: assertPositiveAmount_def intent_example_def stroops_two MAX_STROOPS_def)
  have "js_lower (js_trim ''Ada'') = ''ada''" "js_lower (js_trim ''ada'') = ''ada''" by code_simp+
  then show "resolve_recipient book_example intent_example
     = Inr (''ada'', \<lparr>ae_address = ''GADA'', ae_network = ''testnet'', ae_ctRegistered = None, ae_sppReady = None\<rparr>)"
    by (simp add: resolve_recipient_def intent_example_def resolveAlias_def book_example_def jm_get_def js_or_def)
qed

lemma intent_example_kind:
  "is_object intent_example" "js_field intent_example ''kind'' = V_Str ''send''"
  "js_or (js_field intent_example ''mode'') (V_Str ''public'') = V_Str ''public''"
  by (simp_all add: intent_example_def)

lemma direct_example: "\<exists>r. directPayment pay_sdk_example pay_deps_example intent_example () = Some (Inr r, ())"
proof -
  have "TESTNET_USDC_ISSUER \<noteq> []" by (simp add: TESTNET_USDC_ISSUER_def)
  then show ?thesis
    using intent_example_checks stroops_two
    by (auto simp: directPayment_def pay_deps_example_def check_trustline_def awaited_def eff_bind_def
        eff_of_def toSdkAsset_def truthy_string_def pay_sdk_example_def payment_request_def buildPaymentSummary_def Let_def)
qed

theorem direct_payment_exact_witness:
  "\<exists>r. createSendPayment pay_sdk_example guard_sdk_example pay_deps_example intent_example () = Some (Inr r, ())
     \<and> su_lines (ct_summary r) ! 1 = ''To ada (GADA)''"
proof -
  have route: "pd_route pay_deps_example = None" by (simp add: pay_deps_example_def)
  obtain r where r: "createSendPayment pay_sdk_example guard_sdk_example pay_deps_example intent_example () = Some (Inr r, ())"
    using direct_example intent_example_kind by (auto simp: createSendPayment_def route)
  have book: "pd_aliases pay_deps_example = book_example" by (simp add: pay_deps_example_def)
  have "pd_route pay_deps_example \<noteq> Some ''guarded''" by (simp add: route)
  from direct_payment_exact [OF r this pay_sdk_example_reads_back] intent_example_checks(3) r show ?thesis
    unfolding book by (auto simp del: nth_Cons_numeral)
qed

theorem unpayable_is_refused_silently_witness:
  "\<exists>code. createSendPayment pay_sdk_example guard_sdk_example pay_deps_example (V_Obj [(''kind'', V_Str ''send''), (''mode'', V_Str ''private'')]) ()
     = Some (Inl (refusal code), ())"
proof -
  have "\<not> payable pay_deps_example (V_Obj [(''kind'', V_Str ''send''), (''mode'', V_Str ''private'')])"
    by (simp add: payable_def js_or_def)
  then show ?thesis by (rule unpayable_is_refused_silently)
qed

text \<open>A guard client on a node that answers each read of the contract.\<close>

definition guard_rpc_example :: "(unit, unit, string, unit) guard_rpc" where
  "guard_rpc_example = \<lparr>rq_getAccount = (\<lambda>_ w. (Inr (), w)),
     rq_simulateTransaction = (\<lambda>tx w. (Inr (Sim_Ok () (Some
        (if tx = ''get_executor'' then N_Str ''GAGENT'' else if tx = ''is_known_recipient'' then N_Bool True else N_Big 0))), w)),
     rq_getLatestLedger = (\<lambda>w. (Inr (jint 1000), w))\<rparr>"

definition guard_client_example :: "(unit, unit, string, unit) guard_client" where
  "guard_client_example = \<lparr>cl_contractId = ''CGUARD'', cl_rpc = guard_rpc_example, cl_networkPassphrase = ''Test'',
     cl_source = ''GOWNER'', cl_txTimeoutSeconds = 300, cl_explorerBase = None\<rparr>"

definition port_env_example :: port_env where
  "port_env_example = \<lparr>pe_rule = (\<lambda>_. \<lparr>auto_approve_limit = 50000000, per_tx_limit = 100000000, daily_limit = 200000000,
        allowed_assets = [''CUSDC''], known_recipients_only = True\<rparr>),
     pe_schedule = (\<lambda>_. \<lparr>sh_id = 0, sh_owner = [], sh_to = [], sh_asset = [], sh_amount = 0, sh_next_run_at = 0,
        sh_interval_secs = 0, sh_runs_left = 0, sh_active = False\<rparr>),
     pe_number = (\<lambda>_. JNaN)\<rparr>"

definition guarded_deps_example :: "(unit, unit) payment_deps" where
  "guarded_deps_example = pay_deps_example\<lparr>pd_route := Some ''guarded'',
     pd_guard := Some (client_port port_env_example guard_sdk_example guard_client_example)\<rparr>"

lemma encode_args_example: "encode_args guard_sdk_example vs = Inr vs"
  by (induction vs) (simp_all add: guard_sdk_example_def)

lemma read_example:
  "guard_read m args guard_sdk_example guard_client_example w = Some (Inr
     (if m = ''get_executor'' then N_Str ''GAGENT'' else if m = ''is_known_recipient'' then N_Bool True else N_Big 0), w)"
  unfolding guard_read_def encode_args_example eff_of_Inr eff_bind_simps
  by (simp add: simulateReadValue_def request_def guard_client_example_def guard_rpc_example_def client_options_def
      buildTransaction_def guard_sdk_example_def eff_bind_def eff_of_def)

lemma write_example_c: "\<exists>c. guard_write src m args guard_sdk_example guard_client_example w = Some (Inr c, w) \<and> gc_unsignedXdr c = m"
  unfolding guard_write_def unsigned_call_def encode_args_example eff_of_Inr eff_bind_simps
  by (simp add: buildUnsignedInvoke_def request_def guard_client_example_def guard_rpc_example_def client_options_def
      buildTransaction_def guard_sdk_example_def buildGuardCallSummary_def decodeTx_def decodeInvocation_def Let_def
      eff_bind_def eff_of_def)

lemma guarded_example: "\<exists>r. guardedPayment guard_sdk_example guarded_deps_example intent_example () = Some (Inr r, ())"
proof -
  obtain c where c: "payExecutor ''GAGENT'' ''GOWNER'' ''GADA'' ''CUSDC'' 20000000 guard_sdk_example guard_client_example () = Some (Inr c, ())"
      "gc_unsignedXdr c = ''pay_executor''"
    using write_example_c unfolding payExecutor_def by blast
  have raw: "toRawUnits ''2'' = Inr 20000000" by (simp add: amount_eval)
  obtain b where b: "buildGuardedPaymentSummary guard_sdk_example
       \<lparr>gi_unsignedXdr = ''pay_executor'', gi_networkPassphrase = ''Test'', gi_contractId = ''CGUARD'',
        gi_pay_executor = True, gi_alias = ''ada'', gi_assetCode = ''USDC'', gi_explorerBase = None\<rparr> = Inr b"
    by (simp add: buildGuardedPaymentSummary_def guard_sdk_example_def decodeTx_def decodeInvocation_def Let_def
        nth_or_def guarded_amount_def fromRawUnits_eq)
  have cid: "cl_contractId guard_client_example = ''CGUARD''" by (simp add: guard_client_example_def)
  have upper: "guardAssetContract (Some [(''USDC'', ''CUSDC'')]) ''USDC'' = Some ''CUSDC''" by (simp add: guardAssetContract_def)
  show ?thesis
    using intent_example_checks c raw upper b
    by (simp add: guardedPayment_def guarded_deps_example_def pay_deps_example_def check_trustline_def eff_of_def eff_bind_def
        truthy_string_def guard_try_def eff_try_def client_port_def port_method_def eff_map_def getRule_def getExecutor_def
        isKnownRecipient_def read_map_def read_example non_nullish_def port_env_example_def chooseGuardedRoute_def
        decision_def resolveApprovalRoute_def guarded_call_def Let_def cid)
qed

theorem guarded_payment_within_mandate_witness:
  "\<exists>r name entry i. createSendPayment pay_sdk_example guard_sdk_example guarded_deps_example intent_example () = Some (Inr r, ())
     \<and> guarded_reads guarded_deps_example (client_port port_env_example guard_sdk_example guard_client_example)
          intent_example name entry i"
proof -
  have route: "pd_route guarded_deps_example = Some ''guarded''"
    and port: "pd_guard guarded_deps_example = Some (client_port port_env_example guard_sdk_example guard_client_example)"
    by (simp_all add: guarded_deps_example_def)
  obtain r where r: "createSendPayment pay_sdk_example guard_sdk_example guarded_deps_example intent_example () = Some (Inr r, ())"
    using guarded_example intent_example_kind by (auto simp: createSendPayment_def route)
  from guarded_payment_within_mandate [OF r route port] r show ?thesis by blast
qed

end
