(* ===== verification/Trustline.thy ===== *)
theory Trustline
  imports Payments
begin

text \<open>
  \<open>stellar/src/payments/trustline.ts\<close>: the unsigned \<open>changeTrust\<close> of the wallet's "Add asset".
\<close>

definition TESTNET_SRT_ISSUER :: string where
  "TESTNET_SRT_ISSUER = ''GCDNJUBQSX7AJWLJACMJ7I4BC3Z47BQUTMHEICZLE6MU4KQBRYG5JY6B''"

definition defaultTrustlineAssets :: "asset_spec list" where
  "defaultTrustlineAssets =
     [\<lparr>sp_code = ''USDC'', sp_issuer = Some TESTNET_USDC_ISSUER, sp_native = False\<rparr>,
      \<lparr>sp_code = ''SRT'', sp_issuer = Some TESTNET_SRT_ISSUER, sp_native = False\<rparr>]"

definition resolveTrustlineAsset :: "asset_spec list \<Rightarrow> string \<Rightarrow> asset_spec option" where
  "resolveTrustlineAsset assets code =
     (let wanted = js_upper (js_trim code)
      in find (\<lambda>spec. \<not> sp_native spec \<and> js_upper (sp_code spec) = wanted) assets)"

text \<open>A refusal is its code; any other error its message.\<close>

datatype trustline_error = Unsupported_Trustline_Asset | Owner_Not_Found | Trustline_Raised string

record ('w, 'acc) trustline_deps =
  td_ownerAddress :: string
  td_loadAccount :: "string \<Rightarrow> 'w \<Rightarrow> (string + 'acc) \<times> 'w"
  td_networkPassphrase :: string
  td_assets :: "asset_spec list option"
  td_explorerBase :: "string option"
  td_now :: int
  td_timeboundSeconds :: "int option"

definition buildTrustlineSummary ::
    "('acc, 'tx) pay_sdk \<Rightarrow> string \<Rightarrow> string \<Rightarrow> string option \<Rightarrow> string + built_guard_summary" where
  "buildTrustlineSummary sdk unsignedXdr networkPassphrase explorerBase =
     and_then (ps_fromXDR sdk unsignedXdr networkPassphrase) (\<lambda>tx.
       if \<not> ps_is_transaction sdk tx then Inl ''fee-bump envelopes are not supported for trustlines''
       else case ps_first_op sdk tx of
         Change_Trust_Op (Asset_Line (Issued_Asset code issuer)) \<Rightarrow>
           and_then (payloadHashOf sdk unsignedXdr networkPassphrase) (\<lambda>payloadHash.
           let fee = stroopsToXlm (ps_fee sdk tx) @ '' XLM''
           in Inr \<lparr>bs_summary =
                     \<lparr>su_title = ''Add '' @ code @ '' to your wallet'',
                      su_lines = [''Trust '' @ code @ '' (issuer '' @ shortKey issuer @ '')'',
                                  ''To '' @ ps_source sdk tx, ''Network: '' @ networkPassphrase, ''Fee: '' @ fee,
                                  ''Without a trustline this account cannot receive or hold the asset.''],
                      su_explorerUrl = explorer_url explorerBase payloadHash,
                      su_estimatedFee = fee\<rparr>,
                   bs_payloadHash = payloadHash\<rparr>)
       | Change_Trust_Op _ \<Rightarrow> Inl ''the built change_trust does not target an issued asset''
       | _ \<Rightarrow> Inl ''the built transaction is not a change_trust'')"

definition createAddTrustline ::
    "('acc, 'tx) pay_sdk \<Rightarrow> ('w, 'acc) trustline_deps \<Rightarrow> string \<Rightarrow> ('w, trustline_error, chain_tool_result) eff" where
  "createAddTrustline sdk deps assetCode =
     (let catalog = (case td_assets deps of Some a \<Rightarrow> a | None \<Rightarrow> defaultTrustlineAssets) in
      case resolveTrustlineAsset catalog assetCode of
        None \<Rightarrow> eff_throw Unsupported_Trustline_Asset
      | Some spec \<Rightarrow>
          eff_bind (call (\<lambda>w. case td_loadAccount deps (td_ownerAddress deps) w of
                              (r, w') \<Rightarrow> (catchE r (\<lambda>_. Owner_Not_Found), w'))) (\<lambda>source.
          eff_bind (eff_of Trustline_Raised (toSdkAsset sdk spec)) (\<lambda>asset.
          eff_bind (eff_of Trustline_Raised (ps_build sdk source
             (payment_request sdk (td_networkPassphrase deps) (td_now deps) (td_timeboundSeconds deps)
                (Op_Change_Trust asset)))) (\<lambda>tx.
          eff_bind (eff_of Trustline_Raised (buildTrustlineSummary sdk (ps_toXDR sdk tx) (td_networkPassphrase deps)
             (truthy_string (td_explorerBase deps)))) (\<lambda>built.
            eff_ret \<lparr>ct_unsignedXdr = ps_toXDR sdk tx, ct_summary = bs_summary built\<rparr>)))))"

section \<open>Only the catalog\<close>

lemma resolveTrustlineAsset_Some:
  "resolveTrustlineAsset assets code = Some spec \<Longrightarrow>
     spec \<in> set assets \<and> \<not> sp_native spec \<and> js_upper (sp_code spec) = js_upper (js_trim code)"
  by (auto simp: resolveTrustlineAsset_def Let_def find_Some_iff)

lemma default_trustlines:
  "resolveTrustlineAsset defaultTrustlineAssets code =
     (if js_upper (js_trim code) = ''USDC'' then Some \<lparr>sp_code = ''USDC'', sp_issuer = Some TESTNET_USDC_ISSUER, sp_native = False\<rparr>
      else if js_upper (js_trim code) = ''SRT'' then Some \<lparr>sp_code = ''SRT'', sp_issuer = Some TESTNET_SRT_ISSUER, sp_native = False\<rparr>
      else None)"
proof -
  have "js_upper ''USDC'' = ''USDC''" "js_upper ''SRT'' = ''SRT''" by code_simp+
  then show ?thesis by (simp add: resolveTrustlineAsset_def defaultTrustlineAssets_def Let_def)
qed

text \<open>The wallet adds only pinned assets.  With the default catalog, a code that is not USDC or SRT
  in some case is refused before the account is loaded, and whatever is built is one \<open>changeTrust\<close> for
  the pinned issuer of the code that was asked, on the owner's account.\<close>

theorem trustline_only_pinned:
  assumes "td_assets deps = None" and "createAddTrustline sdk deps code w = Some (res, w')"
  shows "(js_upper (js_trim code) \<notin> {''USDC'', ''SRT''} \<longrightarrow> res = Inl Unsupported_Trustline_Asset \<and> w' = w)
     \<and> (\<forall>r. res = Inr r \<longrightarrow> (\<exists>account tx w1.
          td_loadAccount deps (td_ownerAddress deps) w = (Inr account, w1) \<and> ct_unsignedXdr r = ps_toXDR sdk tx
          \<and> ps_build sdk account (payment_request sdk (td_networkPassphrase deps) (td_now deps) (td_timeboundSeconds deps)
               (Op_Change_Trust (Issued_Asset (js_upper (js_trim code))
                  (if js_upper (js_trim code) = ''USDC'' then TESTNET_USDC_ISSUER else TESTNET_SRT_ISSUER)))) = Inr tx))"
proof (cases "resolveTrustlineAsset defaultTrustlineAssets code")
  case None
  then show ?thesis using assms by (auto simp: createAddTrustline_def)
next
  case (Some spec)
  then have spec: "spec = \<lparr>sp_code = js_upper (js_trim code),
        sp_issuer = Some (if js_upper (js_trim code) = ''USDC'' then TESTNET_USDC_ISSUER else TESTNET_SRT_ISSUER), sp_native = False\<rparr>"
      and pinned: "js_upper (js_trim code) \<in> {''USDC'', ''SRT''}"
    by (auto simp: default_trustlines split: if_splits)
  then show ?thesis
    using assms Some
    by (auto simp: createAddTrustline_def eff_bind_Some eff_of_def toSdkAsset_def truthy_string_def
        TESTNET_USDC_ISSUER_def TESTNET_SRT_ISSUER_def split: prod.splits sum.splits option.splits if_splits)
qed

definition trust_sdk_example :: "(unit, sdk_asset) pay_sdk" where
  "trust_sdk_example = \<lparr>ps_BASE_FEE = ''100'', ps_asset_error = (\<lambda>_ _. None),
     ps_build = (\<lambda>_ req. case tx_operation req of Op_Change_Trust a \<Rightarrow> Inr a | _ \<Rightarrow> Inl ''no''),
     ps_toXDR = (\<lambda>_. ''AAAA''), ps_fromXDR = (\<lambda>_ _. Inr (Issued_Asset ''USDC'' TESTNET_USDC_ISSUER)),
     ps_is_transaction = (\<lambda>_. True), ps_first_op = (\<lambda>a. Change_Trust_Op (Asset_Line a)),
     ps_source = (\<lambda>_. ''GOWNER''), ps_hash = (\<lambda>_. [1, 2]), ps_fee = (\<lambda>_. 100)\<rparr>"

definition trust_deps_example :: "(unit, unit) trustline_deps" where
  "trust_deps_example = \<lparr>td_ownerAddress = ''GOWNER'', td_loadAccount = (\<lambda>_ w. (Inr (), w)), td_networkPassphrase = ''Test'',
     td_assets = None, td_explorerBase = None, td_now = 0, td_timeboundSeconds = None\<rparr>"

theorem trustline_only_pinned_witness:
  "\<exists>r tx. createAddTrustline trust_sdk_example trust_deps_example '' usdc'' () = Some (Inr r, ())
     \<and> ps_build trust_sdk_example () (payment_request trust_sdk_example ''Test'' 0 None
          (Op_Change_Trust (Issued_Asset ''USDC'' TESTNET_USDC_ISSUER))) = Inr tx"
proof -
  have code: "js_upper (js_trim '' usdc'') = ''USDC''" by code_simp
  have "TESTNET_USDC_ISSUER \<noteq> []" by (simp add: TESTNET_USDC_ISSUER_def)
  then obtain r where r: "createAddTrustline trust_sdk_example trust_deps_example '' usdc'' () = Some (Inr r, ())"
    by (simp add: createAddTrustline_def trust_deps_example_def default_trustlines code eff_bind_def eff_of_def toSdkAsset_def
        truthy_string_def trust_sdk_example_def payment_request_def buildTrustlineSummary_def payloadHashOf_def Let_def)
  have none: "td_assets trust_deps_example = None" by (simp add: trust_deps_example_def)
  from trustline_only_pinned [OF none r] r show ?thesis
    by (auto simp: code trust_deps_example_def)
qed

end
