(* ===== verification/Civil_Time.thy ===== *)
theory Civil_Time
  imports Prelude
begin

text \<open>
  The dates of JavaScript the sources use: \<open>Date.UTC\<close>, the \<open>getUTC...\<close> methods and
  \<open>toISOString\<close>, on a time value in milliseconds, after the algorithms of the language's
  specification.  The main fact is that they agree with the calendar.
\<close>

section \<open>Days, years and months\<close>

definition leap_year :: "int \<Rightarrow> bool" where
  "leap_year y \<longleftrightarrow> y mod 4 = 0 \<and> (y mod 100 \<noteq> 0 \<or> y mod 400 = 0)"

definition day_from_year :: "int \<Rightarrow> int" where
  "day_from_year y = 365 * (y - 1970) + (y - 1969) div 4 - (y - 1901) div 100 + (y - 1601) div 400"

text \<open>The days before a month of the year, months counted from 0.\<close>

definition month_start :: "bool \<Rightarrow> int \<Rightarrow> int" where
  "month_start leap m =
     (let table = [0, 31, 59, 90, 120, 151, 181, 212, 243, 273, 304, 334]
      in table ! nat m + (if leap \<and> m \<ge> 2 then 1 else 0))"

definition year_length :: "int \<Rightarrow> int" where
  "year_length y = (if leap_year y then 366 else 365)"

definition month_length :: "int \<Rightarrow> int \<Rightarrow> int" where
  "month_length y m = (if m = 11 then year_length y else month_start (leap_year y) (m + 1)) - month_start (leap_year y) m"

text \<open>The year and the month of a day number.\<close>

definition year_from_day :: "int \<Rightarrow> int" where
  "year_from_day d =
     (let y = 1970 + (400 * d) div 146097
      in if d < day_from_year y then y - 1 else if day_from_year (y + 1) \<le> d then y + 1 else y)"

definition month_of :: "bool \<Rightarrow> int \<Rightarrow> int" where
  "month_of leap n = int (length (filter (\<lambda>m. month_start leap m \<le> n) [1, 2, 3, 4, 5, 6, 7, 8, 9, 10, 11]))"

definition make_day :: "int \<Rightarrow> int \<Rightarrow> int \<Rightarrow> int" where
  "make_day y m d =
     (let ym = y + m div 12; mn = m mod 12
      in day_from_year ym + month_start (leap_year ym) mn + d - 1)"

definition date_utc :: "int \<Rightarrow> int \<Rightarrow> int \<Rightarrow> int \<Rightarrow> int \<Rightarrow> int \<Rightarrow> int" where
  "date_utc y m d h mi s =
     (let full_year = (if 0 \<le> y \<and> y \<le> 99 then 1900 + y else y)
      in make_day full_year m d * 86400000 + h * 3600000 + mi * 60000 + s * 1000)"

definition utc_day :: "int \<Rightarrow> int" where "utc_day t = t div 86400000"

definition getUTCFullYear :: "int \<Rightarrow> int" where "getUTCFullYear t = year_from_day (utc_day t)"

definition day_in_year :: "int \<Rightarrow> int" where
  "day_in_year t = utc_day t - day_from_year (getUTCFullYear t)"

definition getUTCMonth :: "int \<Rightarrow> int" where
  "getUTCMonth t = month_of (leap_year (getUTCFullYear t)) (day_in_year t)"

definition getUTCDate :: "int \<Rightarrow> int" where
  "getUTCDate t = day_in_year t - month_start (leap_year (getUTCFullYear t)) (getUTCMonth t) + 1"

text \<open>\<open>String(n).padStart(width, "0")\<close>.\<close>

definition pad_int :: "nat \<Rightarrow> int \<Rightarrow> string" where
  "pad_int width n = pad_start width CHR ''0'' (show_int n)"

text \<open>\<open>toISOString\<close>: a \<open>RangeError\<close> outside the range of a \<open>Date\<close>.\<close>

definition iso_year :: "int \<Rightarrow> string" where
  "iso_year y = (if 0 \<le> y \<and> y \<le> 9999 then pad_int 4 y
                 else (if y < 0 then ''-'' else ''+'') @ pad_start 6 CHR ''0'' (show_int \<bar>y\<bar>))"

definition iso_string :: "int \<Rightarrow> string + string" where
  "iso_string t =
     (if \<bar>t\<bar> > 8640000000000000 then Inl ''Invalid time value''
      else Inr (iso_year (getUTCFullYear t) @ ''-'' @ pad_int 2 (getUTCMonth t + 1) @ ''-'' @ pad_int 2 (getUTCDate t)
        @ ''T'' @ pad_int 2 (t div 3600000 mod 24) @ '':'' @ pad_int 2 (t div 60000 mod 60) @ '':''
        @ pad_int 2 (t div 1000 mod 60) @ ''.'' @ pad_int 3 (t mod 1000) @ ''Z''))"

section \<open>Years\<close>

lemma div_step: "0 < n \<Longrightarrow> (a + 1) div n = a div n + (if (a + 1) mod n = 0 then 1 else (0::int))"
proof -
  assume n: "0 < n"
  define q r where "q = a div n" and "r = a mod n"
  have a: "a = n * q + r" "0 \<le> r" "r < n" using n by (simp_all add: q_def r_def)
  show ?thesis
  proof (cases "r + 1 = n")
    case True
    then have e: "a + 1 = n * (q + 1)" using a by (simp add: distrib_left)
    have "(a + 1) div n = q + 1" "(a + 1) mod n = 0" unfolding e using n by simp_all
    then show ?thesis by (simp add: q_def)
  next
    case False
    then have e: "a + 1 = n * q + (r + 1)" "0 \<le> r + 1" "r + 1 < n" using a by simp_all
    have "(a + 1) div n = q" "(a + 1) mod n = r + 1"
      using int_div_pos_eq [OF e] int_mod_pos_eq [OF e] by simp_all
    then show ?thesis using a(2) by (simp add: q_def)
  qed
qed

lemma year_step: "day_from_year (y + 1) = day_from_year y + year_length y"
proof -
  define p q r where "p = (y - 1969) div 4" and "q = (y - 1901) div 100" and "r = (y - 1601) div 400"
  have m: "(y - 1968) mod 4 = y mod 4" "(y - 1900) mod 100 = y mod 100" "(y - 1600) mod 400 = y mod 400"
    by (simp_all only: mod_eq_dvd_iff) simp_all
  have e: "y - 1969 + 1 = y - 1968" "y - 1901 + 1 = y - 1900" "y - 1601 + 1 = y - 1600" by simp_all
  have s: "(y - 1968) div 4 = p + (if y mod 4 = 0 then 1 else 0)"
    using div_step [of 4 "y - 1969"] unfolding e m p_def by (simp only: zero_less_numeral)
  have s': "(y - 1900) div 100 = q + (if y mod 100 = 0 then 1 else 0)"
    using div_step [of 100 "y - 1901"] unfolding e m q_def by (simp only: zero_less_numeral)
  have s'': "(y - 1600) div 400 = r + (if y mod 400 = 0 then 1 else 0)"
    using div_step [of 400 "y - 1601"] unfolding e m r_def by (simp only: zero_less_numeral)
  have i: "y mod 400 = 0 \<longrightarrow> y mod 100 = 0" "y mod 100 = 0 \<longrightarrow> y mod 4 = 0"
    using dvd_trans [of 100 400 y] dvd_trans [of 4 100 y] by (simp_all add: mod_eq_0_iff_dvd)
  have step: "365 * (k + 1) + (p + (if A then 1 else 0)) - (q + (if B then 1 else 0)) + (r + (if C then 1 else 0))
      = 365 * k + p - q + r + (if A \<and> (\<not> B \<or> C) then 366 else 365)"
    if "C \<longrightarrow> B" "B \<longrightarrow> A" for A B C and k :: int
    using that by (cases A; cases B; cases C) simp_all
  have "y + 1 - 1970 = y - 1970 + 1" "y + 1 - 1969 = y - 1968" "y + 1 - 1901 = y - 1900" "y + 1 - 1601 = y - 1600" by simp_all
  then have "day_from_year (y + 1) = 365 * (y - 1970 + 1) + (y - 1968) div 4 - (y - 1900) div 100 + (y - 1600) div 400"
    by (simp only: day_from_year_def)
  also have "\<dots> = 365 * (y - 1970) + p - q + r + year_length y"
    unfolding s s' s'' year_length_def leap_year_def by (rule step [OF i])
  finally show ?thesis by (simp only: day_from_year_def p_def q_def r_def)
qed

lemma year_length_bounds: "365 \<le> year_length y" "year_length y \<le> 366"
  by (simp_all add: year_length_def)

lemma div_interval: "0 < n \<Longrightarrow> a - (n - 1) \<le> n * (a div n) \<and> n * (a div n) \<le> (a::int)"
proof -
  assume n: "0 < n"
  have "n * (a div n) = a - a mod n" by (simp add: minus_mod_eq_mult_div)
  then show ?thesis using pos_mod_sign [OF n, of a] pos_mod_bound [OF n, of a] by linarith
qed

lemma day_from_year_bounds:
  "146097 * (y - 1970) - 506 \<le> 400 * day_from_year y" "400 * day_from_year y \<le> 146097 * (y - 1970) + 589"
proof -
  define p q r where "p = (y - 1969) div 4" and "q = (y - 1901) div 100" and "r = (y - 1601) div 400"
  have "y - 1969 - 3 \<le> 4 * p" "4 * p \<le> y - 1969" "y - 1901 - 99 \<le> 100 * q" "100 * q \<le> y - 1901"
      "y - 1601 - 399 \<le> 400 * r" "400 * r \<le> y - 1601"
    using div_interval [of 4 "y - 1969"] div_interval [of 100 "y - 1901"] div_interval [of 400 "y - 1601"]
    by (simp_all add: p_def q_def r_def)
  moreover have "day_from_year y = 365 * (y - 1970) + p - q + r" by (simp add: day_from_year_def p_def q_def r_def)
  ultimately show "146097 * (y - 1970) - 506 \<le> 400 * day_from_year y" "400 * day_from_year y \<le> 146097 * (y - 1970) + 589"
    by simp_all
qed

lemma year_from_day: "day_from_year (year_from_day d) \<le> d \<and> d < day_from_year (year_from_day d + 1)"
proof -
  define k y where "k = (400 * d) div 146097" and "y = 1970 + k"
  have k: "146097 * k \<le> 400 * d" "400 * d - 146096 \<le> 146097 * k"
    using div_interval [of 146097 "400 * d"] by (simp_all add: k_def)
  have "400 * day_from_year y \<le> 146097 * k + 589" "146097 * (k + 1) - 506 \<le> 400 * day_from_year (y + 1)"
    using day_from_year_bounds(2) [of y] day_from_year_bounds(1) [of "y + 1"] by (simp_all add: y_def)
  then have "400 * day_from_year y \<le> 400 * d + 589" "400 * d - 505 \<le> 400 * day_from_year (y + 1)"
    using k by (simp_all add: distrib_left)
  then have "day_from_year y \<le> d + 1" "d - 2 < day_from_year (y + 1)" by simp_all
  moreover have "day_from_year (y - 1) + 365 \<le> day_from_year y" "day_from_year (y + 1) + 365 \<le> day_from_year (y + 1 + 1)"
    using year_step [of "y - 1"] year_step [of "y + 1"] year_length_bounds by simp_all
  moreover have "year_from_day d = (if d < day_from_year y then y - 1 else if day_from_year (y + 1) \<le> d then y + 1 else y)"
    unfolding year_from_day_def Let_def k_def y_def by (rule refl)
  ultimately show ?thesis by (simp only: split: if_split) auto
qed

lemma day_from_year_mono: "y \<le> z \<Longrightarrow> day_from_year y \<le> day_from_year z"
proof (induction z rule: int_ge_induct)
  case (step z)
  then show ?case using year_step [of z] year_length_bounds [of z] by linarith
qed simp

lemma year_unique:
  assumes "day_from_year y \<le> d" "d < day_from_year (y + 1)"
  shows "year_from_day d = y"
proof (rule ccontr)
  assume "year_from_day d \<noteq> y"
  then have "year_from_day d + 1 \<le> y \<or> y + 1 \<le> year_from_day d" by linarith
  then show False
    using day_from_year_mono [of "year_from_day d + 1" y] day_from_year_mono [of "y + 1" "year_from_day d"]
      year_from_day [of d] assms by auto
qed

text \<open>The start of a year moves by whole days, so a day number has one year.\<close>

lemma year_of_iff: "year_from_day d = y \<longleftrightarrow> day_from_year y \<le> d \<and> d < day_from_year y + year_length y"
  using year_unique [of y d] year_from_day [of d] year_step [of y] by auto

section \<open>Months\<close>

definition month_end :: "bool \<Rightarrow> int \<Rightarrow> int" where
  "month_end leap m = (if m = 11 then (if leap then 366 else 365) else month_start leap (m + 1))"

lemma months: "0 \<le> m \<Longrightarrow> m \<le> 11 \<Longrightarrow> m \<in> {0, 1, 2, 3, 4, 5, 6, 7, 8, 9, 10, 11 :: int}"
  by simp presburger

lemma month_start_values:
  "month_start l 0 = 0" "month_start l 1 = 31" "month_start l 2 = (if l then 60 else 59)"
  "month_start l 3 = (if l then 91 else 90)" "month_start l 4 = (if l then 121 else 120)"
  "month_start l 5 = (if l then 152 else 151)" "month_start l 6 = (if l then 182 else 181)"
  "month_start l 7 = (if l then 213 else 212)" "month_start l 8 = (if l then 244 else 243)"
  "month_start l 9 = (if l then 274 else 273)" "month_start l 10 = (if l then 305 else 304)"
  "month_start l 11 = (if l then 335 else 334)"
  by (simp_all add: month_start_def)

lemma month_unique:
  assumes "0 \<le> m" "m \<le> 11" "month_start l m \<le> n" "n < month_end l m"
  shows "month_of l n = m"
  using months [OF assms(1,2)] assms(3,4)
  by (elim insertE emptyE; cases l) (simp_all add: month_of_def month_end_def month_start_values)

lemma month_exists:
  assumes "0 \<le> n" "n < (if l then 366 else 365)"
  shows "\<exists>m. 0 \<le> m \<and> m \<le> 11 \<and> month_start l m \<le> n \<and> n < month_end l m"
proof -
  have "\<exists>m \<in> {0, 1, 2, 3, 4, 5, 6, 7, 8, 9, 10, 11}. month_start l m \<le> n \<and> n < month_end l m"
    using assms by (cases l) (simp_all add: month_end_def month_start_values, linarith+)
  then obtain m where m: "m \<in> {0, 1, 2, 3, 4, 5, 6, 7, 8, 9, 10, 11}"
      and b: "month_start l m \<le> n \<and> n < month_end l m" by (rule bexE)
  have "0 \<le> m \<and> m \<le> 11" using m by (elim insertE emptyE) simp_all
  then show ?thesis using b by blast
qed

lemma month_of_bounds:
  assumes "0 \<le> n" "n < (if l then 366 else 365)"
  shows "0 \<le> month_of l n \<and> month_of l n \<le> 11 \<and> month_start l (month_of l n) \<le> n \<and> n < month_end l (month_of l n)"
  using month_exists [OF assms] month_unique by metis

lemma month_length_end: "month_length y m = month_end (leap_year y) m - month_start (leap_year y) m"
  by (simp add: month_length_def month_end_def year_length_def)

lemma month_end_bound: "0 \<le> m \<Longrightarrow> m \<le> 11 \<Longrightarrow> 0 \<le> month_start l m \<and> month_end l m \<le> (if l then 366 else 365)"
  using months [of m] by (cases l) (auto simp: month_end_def month_start_values)

section \<open>The calendar\<close>

text \<open>A date of the calendar, its month counted from 1.\<close>

definition valid_date :: "int \<Rightarrow> int \<Rightarrow> int \<Rightarrow> bool" where
  "valid_date y m d \<longleftrightarrow> 1 \<le> m \<and> m \<le> 12 \<and> 1 \<le> d \<and> d \<le> month_length y (m - 1)"

lemma make_day_date:
  assumes "valid_date y m d"
  shows "year_from_day (make_day y (m - 1) d) = y"
    and "month_of (leap_year y) (make_day y (m - 1) d - day_from_year y) = m - 1"
    and "make_day y (m - 1) d = day_from_year y + month_start (leap_year y) (m - 1) + d - 1"
proof -
  have m: "0 \<le> m - 1" "m - 1 \<le> 11" using assms by (simp_all add: valid_date_def)
  then show e: "make_day y (m - 1) d = day_from_year y + month_start (leap_year y) (m - 1) + d - 1"
    by (simp add: make_day_def)
  have b: "month_start (leap_year y) (m - 1) + d - 1 < month_end (leap_year y) (m - 1)" "1 \<le> d"
    using assms by (simp_all add: valid_date_def month_length_end)
  show "year_from_day (make_day y (m - 1) d) = y"
    unfolding year_of_iff e using b month_end_bound [OF m, of "leap_year y"] by (auto simp: year_length_def)
  show "month_of (leap_year y) (make_day y (m - 1) d - day_from_year y) = m - 1"
    using b by (intro month_unique m) (simp_all add: e)
qed

text \<open>A point of time given by its fields, and the fields of a point of time.\<close>

lemma time_of_day:
  fixes n s :: int
  assumes "0 \<le> s" "s < 86400000"
  shows "(n * 86400000 + s) div 86400000 = n"
  using assms int_div_pos_eq [of "n * 86400000 + s" 86400000 n s] by (simp add: mult.commute)

definition valid_clock :: "int \<Rightarrow> int \<Rightarrow> int \<Rightarrow> bool" where
  "valid_clock h mi s \<longleftrightarrow> 0 \<le> h \<and> h \<le> 23 \<and> 0 \<le> mi \<and> mi \<le> 59 \<and> 0 \<le> s \<and> s \<le> 59"

lemma valid_clock_bound: "valid_clock h mi s \<Longrightarrow>
    0 \<le> h * 3600000 + mi * 60000 + s * 1000 \<and> h * 3600000 + mi * 60000 + s * 1000 < 86400000"
  by (simp add: valid_clock_def)

lemma utc_fields:
  assumes d: "valid_date y m d" and c: "valid_clock h mi s" and y: "y < 0 \<or> 100 \<le> y"
  defines "t \<equiv> date_utc y (m - 1) d h mi s"
  shows "getUTCFullYear t = y" "getUTCMonth t = m - 1" "getUTCDate t = d"
proof -
  have "t = make_day y (m - 1) d * 86400000 + (h * 3600000 + mi * 60000 + s * 1000)"
    using y by (auto simp: t_def date_utc_def)
  then have u: "utc_day t = make_day y (m - 1) d"
    using time_of_day valid_clock_bound [OF c] by (simp add: utc_day_def)
  show fy: "getUTCFullYear t = y" by (simp add: getUTCFullYear_def u make_day_date(1) [OF d])
  have n: "day_in_year t = make_day y (m - 1) d - day_from_year y" by (simp add: day_in_year_def u fy)
  show fm: "getUTCMonth t = m - 1" unfolding getUTCMonth_def fy n by (rule make_day_date(2) [OF d])
  show "getUTCDate t = d" unfolding getUTCDate_def fy fm n by (simp add: make_day_date(3) [OF d])
qed

lemma day_in_year_bounds: "0 \<le> day_in_year t" "day_in_year t < (if leap_year (getUTCFullYear t) then 366 else 365)"
  using year_from_day [of "utc_day t"] year_step [of "getUTCFullYear t"]
  by (simp_all add: day_in_year_def getUTCFullYear_def year_length_def)

lemma utc_fields_valid: "valid_date (getUTCFullYear t) (getUTCMonth t + 1) (getUTCDate t)"
proof -
  have "0 \<le> getUTCMonth t \<and> getUTCMonth t \<le> 11
      \<and> month_start (leap_year (getUTCFullYear t)) (getUTCMonth t) \<le> day_in_year t
      \<and> day_in_year t < month_end (leap_year (getUTCFullYear t)) (getUTCMonth t)"
    unfolding getUTCMonth_def by (rule month_of_bounds [OF day_in_year_bounds])
  then show ?thesis by (simp add: valid_date_def month_length_end getUTCDate_def)
qed

lemma make_day_fields: "make_day (getUTCFullYear t) (getUTCMonth t) (getUTCDate t) = utc_day t"
  using make_day_date(3) [OF utc_fields_valid [of t]] by (simp add: getUTCDate_def day_in_year_def)

text \<open>The clock fields and the day together are the whole seconds of the time.\<close>

definition utc_hours :: "int \<Rightarrow> int" where "utc_hours t = t div 3600000 mod 24"
definition utc_minutes :: "int \<Rightarrow> int" where "utc_minutes t = t div 60000 mod 60"
definition utc_seconds :: "int \<Rightarrow> int" where "utc_seconds t = t div 1000 mod 60"

lemma utc_clock_valid: "valid_clock (utc_hours t) (utc_minutes t) (utc_seconds t)"
  unfolding valid_clock_def utc_hours_def utc_minutes_def utc_seconds_def
  using pos_mod_bound [of 24 "t div 3600000"] pos_mod_bound [of 60 "t div 60000"] pos_mod_bound [of 60 "t div 1000"]
  by (simp add: zle_diff1_eq [symmetric])

lemma utc_clock: "utc_day t * 86400000 + utc_hours t * 3600000 + utc_minutes t * 60000 + utc_seconds t * 1000 = t - t mod 1000"
proof -
  define a b c d where "a = t div 1000" and "b = t div 60000" and "c = t div 3600000" and "d = t div 86400000"
  have "a div 60 = b" "b div 60 = c" "c div 24 = d"
    using zdiv_zmult2_eq [of 60 t 1000] zdiv_zmult2_eq [of 60 t 60000] zdiv_zmult2_eq [of 24 t 3600000]
    by (simp_all add: a_def b_def c_def d_def)
  then have "a = 60 * b + a mod 60" "b = 60 * c + b mod 60" "c = 24 * d + c mod 24"
    using mult_div_mod_eq [of 60 a] mult_div_mod_eq [of 60 b] mult_div_mod_eq [of 24 c] by simp_all
  moreover have "t - t mod 1000 = 1000 * a" by (simp only: a_def minus_mod_eq_mult_div)
  ultimately show ?thesis
    unfolding utc_day_def utc_hours_def utc_minutes_def utc_seconds_def a_def [symmetric] b_def [symmetric] c_def [symmetric] d_def [symmetric]
    by linarith
qed

theorem date_utc_of_fields:
  assumes "getUTCFullYear t < 0 \<or> 100 \<le> getUTCFullYear t"
  shows "date_utc (getUTCFullYear t) (getUTCMonth t) (getUTCDate t) (utc_hours t) (utc_minutes t) (utc_seconds t) = t - t mod 1000"
proof -
  have "(0 \<le> getUTCFullYear t \<and> getUTCFullYear t \<le> 99) = False" using assms by auto
  then show ?thesis unfolding date_utc_def using utc_clock [of t] make_day_fields [of t] by (auto simp: Let_def)
qed

end
