(* ===== verification/Schedule_Errors.thy ===== *)
theory Schedule_Errors
  imports Guard_Errors JS_Value
begin

text \<open>
  \<open>stellar/src/schedule/errors.ts\<close>: the refusals of the schedule tools.  A refusal is its code and
  its details; callers match on the code, the message is for people and is not modelled.
\<close>

datatype schedule_refusal_code =
  Sr_Invalid_Intent | Sr_Invalid_Amount | Sr_Unsupported_Asset | Sr_Unknown_Recipient | Sr_Invalid_Time
| Sr_Time_Does_Not_Exist | Sr_Time_In_Past | Sr_Unsupported_Repeat | Sr_Guard_Rule_Missing
| Sr_Amount_Over_Per_Tx_Limit | Sr_Asset_Not_Allowed | Sr_Too_Many_Schedules | Sr_Allowance_Insufficient
| Sr_Schedule_Not_Found | Sr_Not_Configured

record schedule_candidate =
  sc_id :: int
  sc_recipientAlias :: "string option"
  sc_recipientAddress :: string
  sc_asset :: string
  sc_amountRaw :: string
  sc_amount :: string
  sc_nextRunUtc :: string
  sc_intervalWords :: string
  sc_runsLeft :: int

text \<open>An instant and how it reads on the wall.\<close>

record moment =
  mo_epochSeconds :: int
  mo_localIso :: string

datatype refusal_details =
  No_Details
| Nearest_Times moment moment
| Too_Early int int rat
| Asset_Contract string
| Over_Limit int int
| Active_Schedules int int
| Short_Allowance int int string
| Guard_Error_Name string

text \<open>A refusal, the question which schedule is meant, or an error that is neither.\<close>

datatype schedule_error =
  Schedule_Refusal schedule_refusal_code refusal_details
| Schedule_Ambiguous "schedule_candidate list"
| Schedule_Guard guard_client_error
| Schedule_Raised string

abbreviation sched_refusal :: "schedule_refusal_code \<Rightarrow> schedule_error" where
  "sched_refusal c \<equiv> Schedule_Refusal c No_Details"

definition isScheduleRefusal :: "schedule_error \<Rightarrow> bool" where
  "isScheduleRefusal e = (case e of Schedule_Refusal c d \<Rightarrow> True | _ \<Rightarrow> False)"

definition isScheduleAmbiguous :: "schedule_error \<Rightarrow> bool" where
  "isScheduleAmbiguous e = (case e of Schedule_Ambiguous cs \<Rightarrow> True | _ \<Rightarrow> False)"

text \<open>The message the question is asked with.\<close>

definition ambiguous_message :: "schedule_candidate list \<Rightarrow> string" where
  "ambiguous_message candidates =
     ''more than one active schedule matches this request (''
     @ js_join '', '' (map (\<lambda>c. ''#'' @ show_int (sc_id c)) candidates)
     @ ''); ask which one before cancelling''"

end
