(* ===== verification/Local_Time.thy ===== *)
theory Local_Time
  imports Civil_Time Schedule_Errors
begin

text \<open>
  \<open>stellar/src/schedule/time.ts\<close>: a local wall-clock time in a named zone becomes the second of
  UTC the contract stores.  External is \<open>Intl\<close>: which zone names it accepts and what the wall
  clock of a zone shows at an instant.  Instants are milliseconds, as \<open>Date\<close> counts them.
  An offset is printed from its seconds, which \<open>offsetSecondsAt\<close> returns; the sources divide them by
  60 first, and return the quotient.
\<close>

section \<open>Walls and zones\<close>

record wall =
  wl_year :: int
  wl_month :: int
  wl_day :: int
  wl_hour :: int
  wl_minute :: int

record wall_clock = wall +
  wl_second :: int

text \<open>
  \<open>ze_wall\<close> are the numbers of \<open>formatToParts\<close> at a whole second; \<open>ze_date\<close> is
  \<open>new Date(v).getTime()\<close>, \<open>None\<close> for \<open>NaN\<close>; \<open>ze_fraction\<close> prints the minutes of an offset that
  has seconds, and \<open>ze_number\<close> the numbers beyond the whole numbers of 53 bits.
\<close>

record zone_env =
  ze_valid :: "string \<Rightarrow> bool"
  ze_wall :: "string \<Rightarrow> int \<Rightarrow> wall_clock"
  ze_date :: "js_value \<Rightarrow> int option"
  ze_fraction :: "int \<Rightarrow> string"
  ze_number :: "rat \<Rightarrow> string"

definition invalidTime :: schedule_error where
  "invalidTime = sched_refusal Sr_Invalid_Time"

definition isValidTimeZone :: "zone_env \<Rightarrow> js_value \<Rightarrow> bool" where
  "isValidTimeZone env v = (case v of V_Str z \<Rightarrow> z \<noteq> [] \<and> ze_valid env z | _ \<Rightarrow> False)"

definition floor_second :: "int \<Rightarrow> int" where
  "floor_second epochMs = epochMs div 1000 * 1000"

definition wallAt :: "zone_env \<Rightarrow> string \<Rightarrow> int \<Rightarrow> wall_clock" where
  "wallAt env z epochMs = ze_wall env z (floor_second epochMs)"

text \<open>\<open>Date.UTC\<close> of the fields of a wall, with a second.\<close>

definition wall_utc :: "'a wall_scheme \<Rightarrow> int \<Rightarrow> int" where
  "wall_utc w second = date_utc (wl_year w) (wl_month w - 1) (wl_day w) (wl_hour w) (wl_minute w) second"

definition offsetSecondsAt :: "zone_env \<Rightarrow> string \<Rightarrow> int \<Rightarrow> int" where
  "offsetSecondsAt env z epochMs =
     (let floored = floor_second epochMs; w = wallAt env z floored
      in (wall_utc w (wl_second w) - floored) div 1000)"

section \<open>The instants of a wall\<close>

definition same_minute :: "'a wall_scheme \<Rightarrow> 'b wall_scheme \<Rightarrow> bool" where
  "same_minute local w \<longleftrightarrow> wl_year local = wl_year w \<and> wl_month local = wl_month w
     \<and> wl_day local = wl_day w \<and> wl_hour local = wl_hour w \<and> wl_minute local = wl_minute w"

definition probe_offsets :: "zone_env \<Rightarrow> string \<Rightarrow> int \<Rightarrow> int list" where
  "probe_offsets env z asUtc =
     js_set_of (map (offsetSecondsAt env z) [asUtc - 86400000, asUtc, asUtc + 86400000])"

definition found_at :: "zone_env \<Rightarrow> string \<Rightarrow> wall \<Rightarrow> int \<Rightarrow> int \<Rightarrow> bool" where
  "found_at env z w asUtc offset =
     (let candidate = asUtc - offset * 1000
      in same_minute (wallAt env z candidate) w \<and> offsetSecondsAt env z candidate = offset)"

definition possibleInstants :: "zone_env \<Rightarrow> string \<Rightarrow> wall \<Rightarrow> int list" where
  "possibleInstants env z w =
     (let asUtc = wall_utc w 0;
          found = js_set_of (map (\<lambda>offset. asUtc - offset * 1000)
                    (filter (found_at env z w asUtc) (probe_offsets env z asUtc)))
      in js_sort (\<le>) found)"

text \<open>The loop of \<open>findTransition\<close>.\<close>

partial_function (option) bisect :: "zone_env \<Rightarrow> string \<Rightarrow> int \<Rightarrow> int \<Rightarrow> int \<Rightarrow> int option" where
  "bisect env z before lo hi =
     (if hi - lo > 1000 then
        let mid = (lo + hi) div 2000 * 1000 in
        if offsetSecondsAt env z mid = before then bisect env z before mid hi else bisect env z before lo mid
      else Some hi)"

definition findTransition :: "zone_env \<Rightarrow> string \<Rightarrow> int \<Rightarrow> int option option" where
  "findTransition env z centerMs =
     (let half = 36 * 3600 * 1000; lo = centerMs - half; hi = centerMs + half;
          before = offsetSecondsAt env z lo in
      if before = offsetSecondsAt env z hi then Some None
      else map_option Some (bisect env z before lo hi))"

section \<open>Printing\<close>

definition formatOffset :: "zone_env \<Rightarrow> int \<Rightarrow> string" where
  "formatOffset env offset =
     (let abs = \<bar>offset\<bar> in
      (if offset < 0 then ''-'' else ''+'') @ pad_int 2 (abs div 3600) @ '':''
      @ (if abs mod 60 = 0 then pad_int 2 (abs div 60 mod 60) else pad_start 2 CHR ''0'' (ze_fraction env abs)))"

definition toLocalIso :: "zone_env \<Rightarrow> 'a wall_scheme \<Rightarrow> int \<Rightarrow> int \<Rightarrow> string" where
  "toLocalIso env w second offset =
     show_int (wl_year w) @ ''-'' @ pad_int 2 (wl_month w) @ ''-'' @ pad_int 2 (wl_day w) @ ''T''
     @ pad_int 2 (wl_hour w) @ '':'' @ pad_int 2 (wl_minute w) @ '':'' @ pad_int 2 second @ formatOffset env offset"

section \<open>Parsing\<close>

definition digits :: "nat \<Rightarrow> string \<Rightarrow> bool" where
  "digits n s \<longleftrightarrow> length s = n \<and> list_all is_digit s"

definition DATE_RE :: "string \<Rightarrow> bool" where
  "DATE_RE s = (case js_split CHR ''-'' s of [y, m, d] \<Rightarrow> digits 4 y \<and> digits 2 m \<and> digits 2 d | _ \<Rightarrow> False)"

definition TIME_RE :: "string \<Rightarrow> bool" where
  "TIME_RE s = (case js_split CHR '':'' s of [h, m] \<Rightarrow> digits 2 h \<and> digits 2 m | _ \<Rightarrow> False)"

text \<open>The numbers of \<open>s.split(d).map(Number)\<close>, on texts the expressions above accepted.\<close>

definition numbers_of :: "char \<Rightarrow> string \<Rightarrow> int list" where
  "numbers_of d s = map (\<lambda>w. int (nat_of_dec w)) (js_split d s)"

definition parseWall :: "string \<Rightarrow> string \<Rightarrow> schedule_error + wall" where
  "parseWall localDate localTime =
     (let ymd = numbers_of CHR ''-'' localDate; hm = numbers_of CHR '':'' localTime;
          year = nth_or 0 ymd 0; month = nth_or 0 ymd 1; day = nth_or 0 ymd 2;
          hour = nth_or 0 hm 0; minute = nth_or 0 hm 1 in
      if month < 1 \<or> month > 12 then Inl invalidTime
      else if hour > 23 then Inl invalidTime
      else if minute > 59 then Inl invalidTime
      else
        let check = date_utc year (month - 1) day 0 0 0 in
        if getUTCFullYear check \<noteq> year \<or> getUTCMonth check \<noteq> month - 1 \<or> getUTCDate check \<noteq> day
        then Inl invalidTime
        else Inr \<lparr>wl_year = year, wl_month = month, wl_day = day, wl_hour = hour, wl_minute = minute\<rparr>)"

text \<open>The optional clock: absent, a \<open>Date\<close> (\<open>None\<close> when it is invalid), or a value \<open>Date\<close> converts.\<close>

datatype now_value = Now_Absent | Now_Date "int option" | Now_Value js_value

definition coerceNow :: "zone_env \<Rightarrow> int \<Rightarrow> now_value \<Rightarrow> schedule_error + int" where
  "coerceNow env clock v =
     (case v of
        Now_Absent \<Rightarrow> Inr clock
      | Now_Date None \<Rightarrow> Inl invalidTime
      | Now_Date (Some t) \<Rightarrow> Inr t
      | Now_Value u \<Rightarrow> (case ze_date env u of None \<Rightarrow> Inl invalidTime | Some t \<Rightarrow> Inr t))"

section \<open>Resolution\<close>

record time_input =
  ti_localDate :: js_value
  ti_localTime :: js_value
  ti_timeZone :: js_value
  ti_now :: now_value
  ti_minLeadSeconds :: js_value

record resolved_time =
  rt_epochSeconds :: int
  rt_utcIso :: string
  rt_localIso :: string
  rt_offsetMinutes :: rat
  rt_ambiguous :: bool

definition min_lead :: "js_value \<Rightarrow> schedule_error + rat" where
  "min_lead v =
     (case v of
        V_Undefined \<Rightarrow> Inr 60
      | V_Num (JNum q) \<Rightarrow> if q < 0 then Inl invalidTime else Inr q
      | _ \<Rightarrow> Inl invalidTime)"

text \<open>The checks before the zone is asked: the zone, the wall, the lead and the clock.\<close>

definition time_args :: "zone_env \<Rightarrow> int \<Rightarrow> time_input option \<Rightarrow> schedule_error + string \<times> wall \<times> rat \<times> int" where
  "time_args env clock input =
     (case input of None \<Rightarrow> Inl invalidTime | Some i \<Rightarrow>
      (case ti_localDate i of V_Str localDate \<Rightarrow>
         if \<not> DATE_RE localDate then Inl invalidTime else
         (case ti_localTime i of V_Str localTime \<Rightarrow>
            if \<not> TIME_RE localTime then Inl invalidTime
            else if \<not> isValidTimeZone env (ti_timeZone i) then Inl invalidTime
            else (case ti_timeZone i of V_Str z \<Rightarrow>
              and_then (parseWall localDate localTime) (\<lambda>w.
              and_then (min_lead (ti_minLeadSeconds i)) (\<lambda>lead.
              and_then (coerceNow env clock (ti_now i)) (\<lambda>now. Inr (z, w, lead, now))))
            | _ \<Rightarrow> Inl invalidTime)
          | _ \<Rightarrow> Inl invalidTime)
       | _ \<Rightarrow> Inl invalidTime))"

definition moment_at :: "zone_env \<Rightarrow> string \<Rightarrow> int \<Rightarrow> moment" where
  "moment_at env z ms =
     (let w = wallAt env z ms
      in \<lparr>mo_epochSeconds = ms div 1000, mo_localIso = toLocalIso env w (wl_second w) (offsetSecondsAt env z ms)\<rparr>)"

definition missing_time :: "zone_env \<Rightarrow> string \<Rightarrow> wall \<Rightarrow> schedule_error option" where
  "missing_time env z w =
     (let asUtc = wall_utc w 0 in
      map_option (\<lambda>transition.
        let beforeMs = (case transition of Some t \<Rightarrow> t - 1000 | None \<Rightarrow> asUtc - 3600000);
            afterMs = (case transition of Some t \<Rightarrow> t | None \<Rightarrow> asUtc + 3600000)
        in Schedule_Refusal Sr_Time_Does_Not_Exist (Nearest_Times (moment_at env z beforeMs) (moment_at env z afterMs)))
        (findTransition env z asUtc))"

definition resolved_at :: "zone_env \<Rightarrow> string \<Rightarrow> wall \<Rightarrow> rat \<Rightarrow> int \<Rightarrow> int list \<Rightarrow> schedule_error + resolved_time" where
  "resolved_at env z w lead now instants =
     (let epochMs = nth_or 0 instants 0; epochSeconds = epochMs div 1000; nowSeconds = now div 1000 in
      if of_int epochSeconds < of_int nowSeconds + lead
      then Inl (Schedule_Refusal Sr_Time_In_Past (Too_Early epochSeconds nowSeconds lead))
      else and_then (catchE (iso_string (epochSeconds * 1000)) Schedule_Raised) (\<lambda>utcIso.
        Inr \<lparr>rt_epochSeconds = epochSeconds, rt_utcIso = utcIso,
             rt_localIso = toLocalIso env w 0 (offsetSecondsAt env z epochMs),
             rt_offsetMinutes = of_int (offsetSecondsAt env z epochMs) / 60, rt_ambiguous = length instants > 1\<rparr>))"

definition resolveLocalTime :: "zone_env \<Rightarrow> int \<Rightarrow> time_input option \<Rightarrow> (schedule_error + resolved_time) option" where
  "resolveLocalTime env clock input =
     (case time_args env clock input of
        Inl e \<Rightarrow> Some (Inl e)
      | Inr (z, w, lead, now) \<Rightarrow>
          let instants = possibleInstants env z w in
          if instants = [] then map_option Inl (missing_time env z w)
          else Some (resolved_at env z w lead now instants))"

section \<open>The list of upcoming payments\<close>

text \<open>\<open>formatToParts\<close> throws outside the range of a \<open>Date\<close>; only here can an instant be there.\<close>

definition formatInZone :: "zone_env \<Rightarrow> js_number \<Rightarrow> js_value \<Rightarrow> schedule_error + string" where
  "formatInZone env epochSeconds timeZone =
     (case epochSeconds of
        JNum q \<Rightarrow>
          if \<not> isValidTimeZone env timeZone then Inl invalidTime
          else (case timeZone of V_Str z \<Rightarrow>
            let ms = \<lfloor>q\<rfloor> * 1000 in
            if \<bar>ms\<bar> > 8640000000000000 then Inl (Schedule_Raised ''Invalid time value'')
            else Inr (toLocalIso env (wallAt env z ms) (wl_second (wallAt env z ms)) (offsetSecondsAt env z ms))
          | _ \<Rightarrow> Inl invalidTime)
      | _ \<Rightarrow> Inl invalidTime)"

definition print_number :: "zone_env \<Rightarrow> rat \<Rightarrow> string" where
  "print_number env q =
     (if of_int \<lfloor>q\<rfloor> = q \<and> \<bar>\<lfloor>q\<rfloor>\<bar> < 2 ^ 53 then show_int \<lfloor>q\<rfloor> else ze_number env q)"

definition plural :: "zone_env \<Rightarrow> rat \<Rightarrow> string \<Rightarrow> string" where
  "plural env n unit_name =
     (if n = 1 then ''every '' @ unit_name else ''every '' @ print_number env n @ '' '' @ unit_name @ ''s'')"

text \<open>\<open>n % k === 0\<close> on a finite number.\<close>

definition multiple_of :: "rat \<Rightarrow> int \<Rightarrow> bool" where
  "multiple_of q k = (of_int \<lfloor>q\<rfloor> = q \<and> \<lfloor>q\<rfloor> mod k = 0)"

definition intervalWords :: "zone_env \<Rightarrow> js_number \<Rightarrow> schedule_error + string" where
  "intervalWords env intervalSecs =
     (case intervalSecs of
        JNum q \<Rightarrow>
          if q < 0 then Inl invalidTime
          else Inr (if q = 0 then ''one-shot (no repeat)''
            else if multiple_of q 604800 then plural env (q / 604800) ''week''
            else if multiple_of q 86400 then plural env (q / 86400) ''day''
            else if multiple_of q 3600 then plural env (q / 3600) ''hour''
            else if multiple_of q 60 then plural env (q / 60) ''minute''
            else plural env q ''second'')
      | _ \<Rightarrow> Inl invalidTime)"

end
