(* ===== verification/Schedules.thy ===== *)
theory Schedules
  imports Local_Time Payments
begin

text \<open>
  \<open>stellar/src/schedule\<close>: the tools that create, cancel and list the scheduled payments of an
  owner (\<open>schedulePayment.ts\<close>, \<open>cancelSchedule.ts\<close>, \<open>listUpcoming.ts\<close>), with their shared helpers
  (\<open>internal.ts\<close>, \<open>view.ts\<close>, \<open>summary.ts\<close>).  The guard is reached through \<open>guard_port\<close>, \<open>Intl\<close>
  through \<open>zone_env\<close>, the SDK that decodes an XDR through \<open>guard_sdk\<close>.
\<close>

section \<open>Dependencies\<close>

text \<open>\<open>sd_now\<close> is the \<open>Date\<close> of the injected clock, \<open>None\<close> when it is invalid.\<close>

record 'w schedule_deps =
  sd_ownerAddress :: string
  sd_aliases :: alias_book
  sd_guard :: "'w guard_port"
  sd_assets :: asset_registry
  sd_guardAssetContracts :: "(string \<times> string) list option"
  sd_networkPassphrase :: string
  sd_explorerBase :: "string option"
  sd_now :: "int option"
  sd_pollSeconds :: "js_number option"
  sd_getAllowance :: "string \<Rightarrow> 'w \<Rightarrow> (guard_thrown + int) \<times> 'w"

text \<open>What the types leave of \<open>assertScheduleDeps\<close>.\<close>

definition assertScheduleDeps :: "'w schedule_deps \<Rightarrow> schedule_error + unit" where
  "assertScheduleDeps deps =
     guardE (sd_ownerAddress deps \<noteq> [] \<and> sd_networkPassphrase deps \<noteq> []) (sched_refusal Sr_Not_Configured)"

definition schedule_asset_contract :: "'w schedule_deps \<Rightarrow> string \<Rightarrow> string option" where
  "schedule_asset_contract deps code =
     (case sd_guardAssetContracts deps of
        None \<Rightarrow> None
      | Some table \<Rightarrow>
          (case map_of table code of Some c \<Rightarrow> Some c
           | None \<Rightarrow> (case map_of table (js_upper code) of Some c \<Rightarrow> Some c | None \<Rightarrow> map_of table (js_lower code))))"

definition SCHEDULE_REFUSAL_BY_NAME :: "(string \<times> schedule_refusal_code) list" where
  "SCHEDULE_REFUSAL_BY_NAME =
     [(''NotConfigured'', Sr_Guard_Rule_Missing), (''OverPerTxLimit'', Sr_Amount_Over_Per_Tx_Limit),
      (''OverDailyLimit'', Sr_Amount_Over_Per_Tx_Limit), (''AssetNotAllowed'', Sr_Asset_Not_Allowed),
      (''TooManySchedules'', Sr_Too_Many_Schedules), (''InvalidAmount'', Sr_Invalid_Amount),
      (''InvalidSchedule'', Sr_Unsupported_Repeat)]"

definition scheduleRefusalFromGuard :: "guard_thrown \<Rightarrow> schedule_error" where
  "scheduleRefusalFromGuard e =
     (let mapped = asGuardClientError e in
      case map_of SCHEDULE_REFUSAL_BY_NAME (ge_name mapped) of
        None \<Rightarrow> Schedule_Guard mapped
      | Some code \<Rightarrow> Schedule_Refusal code (Guard_Error_Name (ge_name mapped)))"

definition schedule_try :: "('w, guard_thrown, 'a) eff \<Rightarrow> ('w, schedule_error, 'a) eff" where
  "schedule_try m = eff_try m (\<lambda>e. eff_throw (scheduleRefusalFromGuard e)) eff_ret"

text \<open>The name of an address: the first of its aliases in the order of their code units.\<close>

definition reverse_step :: "alias_book \<Rightarrow> (string, string) js_map \<Rightarrow> string \<Rightarrow> (string, string) js_map" where
  "reverse_step book out name =
     (case jm_get book name of
        Some entry \<Rightarrow> if jm_get out (ae_address entry) = None then jm_set out (ae_address entry) name else out
      | None \<Rightarrow> out)"

definition reverseAliases :: "alias_book \<Rightarrow> (string, string) js_map" where
  "reverseAliases book = foldl (reverse_step book) [] (js_sort (\<le>) (jm_keys book))"

section \<open>Rows\<close>

definition assetCodeFor :: "'w schedule_deps \<Rightarrow> string \<Rightarrow> string" where
  "assetCodeFor deps assetSac =
     (case sd_guardAssetContracts deps of
        None \<Rightarrow> assetSac
      | Some table \<Rightarrow> (case find (\<lambda>(code, contract). contract = assetSac) table of
                         Some (code, _) \<Rightarrow> js_upper code | None \<Rightarrow> assetSac))"

definition nextRunUtc :: "schedule \<Rightarrow> schedule_error + string" where
  "nextRunUtc s = catchE (iso_string (double_of (sh_next_run_at s) * 1000)) Schedule_Raised"

definition words_of_interval :: "zone_env \<Rightarrow> int \<Rightarrow> schedule_error + string" where
  "words_of_interval env n = intervalWords env (jint (double_of n))"

definition candidateFor :: "zone_env \<Rightarrow> 'w schedule_deps \<Rightarrow> (string, string) js_map \<Rightarrow> schedule \<Rightarrow> schedule_error + schedule_candidate" where
  "candidateFor env deps aliases s =
     and_then (catchE (fromRawUnits (sh_amount s)) Schedule_Guard) (\<lambda>amount.
     and_then (nextRunUtc s) (\<lambda>next_run.
     and_then (words_of_interval env (sh_interval_secs s)) (\<lambda>repeat_words.
       Inr \<lparr>sc_id = sh_id s, sc_recipientAlias = jm_get aliases (sh_to s), sc_recipientAddress = sh_to s,
            sc_asset = assetCodeFor deps (sh_asset s), sc_amountRaw = show_int (sh_amount s), sc_amount = amount,
            sc_nextRunUtc = next_run, sc_intervalWords = repeat_words, sc_runsLeft = sh_runs_left s\<rparr>)))"

text \<open>\<open>xs.map(f)\<close> when \<open>f\<close> may throw.\<close>

fun map_results :: "('a \<Rightarrow> 'e + 'b) \<Rightarrow> 'a list \<Rightarrow> 'e + 'b list" where
  "map_results f [] = Inr []"
| "map_results f (x # xs) = and_then (f x) (\<lambda>y. and_then (map_results f xs) (\<lambda>ys. Inr (y # ys)))"

section \<open>Cards\<close>

definition schedule_decodeTx :: "('acc, 'tx, 'sim) guard_sdk \<Rightarrow> string \<Rightarrow> string \<Rightarrow> schedule_error + 'tx" where
  "schedule_decodeTx sdk unsignedXdr networkPassphrase =
     and_then (catchE (gk_fromXDR sdk unsignedXdr networkPassphrase) Schedule_Raised) (\<lambda>tx. case tx of
       None \<Rightarrow> Inl (Schedule_Raised ''fee-bump envelopes are not supported for schedule calls'')
     | Some t \<Rightarrow> Inr t)"

definition decodeArgs ::
    "('acc, 'tx, 'sim) guard_sdk \<Rightarrow> string \<Rightarrow> string \<Rightarrow> string \<Rightarrow> string \<Rightarrow> schedule_error + native list" where
  "decodeArgs sdk unsignedXdr networkPassphrase contractId fn =
     and_then (catchE (decodeInvocation sdk unsignedXdr networkPassphrase) Schedule_Raised) (\<lambda>invocation.
       if di_contractId invocation \<noteq> contractId then
         Inl (Schedule_Raised (''schedule summary mismatch: XDR targets '' @ di_contractId invocation @ '', client is '' @ contractId))
       else if di_functionName invocation \<noteq> fn then
         Inl (Schedule_Raised (''schedule summary mismatch: XDR calls '' @ di_functionName invocation @ '', expected '' @ fn))
       else Inr (di_args invocation))"

record create_summary_input =
  ci_unsignedXdr :: string
  ci_networkPassphrase :: string
  ci_contractId :: string
  ci_alias :: string
  ci_assetCode :: string
  ci_timeZone :: string
  ci_explorerBase :: "string option"

text \<open>The numbers of a \<open>create_schedule\<close> call: amount, first run, interval and runs.\<close>

definition create_numbers :: "native list \<Rightarrow> schedule_error + int \<times> int \<times> int \<times> int" where
  "create_numbers args =
     (case (nth_or N_Undefined args 3, nth_or N_Undefined args 4, nth_or N_Undefined args 5) of
        (N_Big amountRaw, N_Big firstRunAt, N_Big intervalSecs) \<Rightarrow>
          (case nth_or N_Undefined args 6 of
             N_Num runs \<Rightarrow> if runs < 1 then Inl (Schedule_Raised ''create_schedule summary: runs is not a positive integer'')
               else Inr (amountRaw, firstRunAt, intervalSecs, runs)
           | _ \<Rightarrow> Inl (Schedule_Raised ''create_schedule summary: runs is not a positive integer''))
      | _ \<Rightarrow> Inl (Schedule_Raised ''create_schedule summary: amount/first_run_at/interval_secs are not integers''))"

definition buildCreateScheduleSummary ::
    "zone_env \<Rightarrow> ('acc, 'tx, 'sim) guard_sdk \<Rightarrow> create_summary_input \<Rightarrow> schedule_error + built_guard_summary" where
  "buildCreateScheduleSummary env sdk i =
     and_then (schedule_decodeTx sdk (ci_unsignedXdr i) (ci_networkPassphrase i)) (\<lambda>tx.
     and_then (decodeArgs sdk (ci_unsignedXdr i) (ci_networkPassphrase i) (ci_contractId i) ''create_schedule'') (\<lambda>args.
     let to_addr = js_string (nth_or N_Undefined args 1); assetSac = js_string (nth_or N_Undefined args 2) in
     and_then (create_numbers args) (\<lambda>(amountRaw, firstRunAt, intervalSecs, runs).
     and_then (catchE (fromRawUnits amountRaw) Schedule_Guard) (\<lambda>amount.
     and_then (catchE (fromRawUnits (amountRaw * runs)) Schedule_Guard) (\<lambda>total.
     let firstRunEpoch = double_of firstRunAt in
     and_then (words_of_interval env intervalSecs) (\<lambda>repeat_words.
     and_then (catchE (iso_string (firstRunEpoch * 1000)) Schedule_Raised) (\<lambda>utcIso.
     and_then (formatInZone env (jint firstRunEpoch) (V_Str (ci_timeZone i))) (\<lambda>localIso.
     let payloadHash = toHex (gk_hash sdk tx); fee = stroopsToXlm (gk_fee sdk tx) @ '' XLM'';
         code = ci_assetCode i in
     Inr \<lparr>bs_summary =
            \<lparr>su_title = ''Schedule '' @ amount @ '' '' @ code @ '' to '' @ ci_alias i @ '' '' @ em_dash @ '' '' @ repeat_words,
             su_lines =
               [''Schedule payment via polaris_guard ('' @ shortKey (ci_contractId i) @ '') '' @ em_dash @ '' create_schedule'',
                ''To '' @ ci_alias i @ '' ('' @ to_addr @ '')'',
                ''Per run: '' @ amount @ '' '' @ code,
                ''Asset (SAC): '' @ assetSac,
                ''First run: '' @ localIso @ '' ('' @ ci_timeZone i @ '') '' @ em_dash @ '' '' @ utcIso @ '' UTC'',
                ''Repeat: '' @ repeat_words,
                ''Runs: '' @ show_int runs,
                ''Total: '' @ total @ '' '' @ code @ '' ('' @ show_int runs @ '' '' @ [CHR 0xD7] @ '' '' @ amount @ '')'',
                ''Funding needed: '' @ total @ '' '' @ code @ '' (SAC allowance to the guard)'',
                ''Network: '' @ ci_networkPassphrase i, ''Fee: '' @ fee, ''Approval: owner signature required''],
             su_explorerUrl = explorer_url (ci_explorerBase i) payloadHash,
             su_estimatedFee = fee\<rparr>,
          bs_payloadHash = payloadHash\<rparr>))))))))"

record cancel_summary_input =
  xi_unsignedXdr :: string
  xi_networkPassphrase :: string
  xi_contractId :: string
  xi_alias :: "string option"
  xi_recipientAddress :: string
  xi_assetCode :: string
  xi_amount :: string
  xi_nextRunUtc :: string
  xi_explorerBase :: "string option"

definition buildCancelScheduleSummary ::
    "('acc, 'tx, 'sim) guard_sdk \<Rightarrow> cancel_summary_input \<Rightarrow> schedule_error + built_guard_summary" where
  "buildCancelScheduleSummary sdk i =
     and_then (schedule_decodeTx sdk (xi_unsignedXdr i) (xi_networkPassphrase i)) (\<lambda>tx.
     and_then (decodeArgs sdk (xi_unsignedXdr i) (xi_networkPassphrase i) (xi_contractId i) ''cancel_schedule'') (\<lambda>args.
     case nth_or N_Undefined args 1 of
       N_Num sid \<Rightarrow>
         let owner = js_string (nth_or N_Undefined args 0);
             payloadHash = toHex (gk_hash sdk tx); fee = stroopsToXlm (gk_fee sdk tx) @ '' XLM'';
             recipient = (case truthy_string (xi_alias i) of
                 Some a \<Rightarrow> a @ '' ('' @ xi_recipientAddress i @ '')''
               | None \<Rightarrow> if xi_recipientAddress i = [] then ''unknown'' else xi_recipientAddress i)
         in Inr \<lparr>bs_summary =
              \<lparr>su_title = ''Cancel scheduled payment #'' @ show_int sid @ '' ('' @ xi_amount i @ '' '' @ xi_assetCode i @ '' to ''
                 @ (case xi_alias i of Some a \<Rightarrow> a | None \<Rightarrow> recipient) @ '')'',
               su_lines =
                 [''Cancel scheduled payment via polaris_guard ('' @ shortKey (xi_contractId i) @ '') '' @ em_dash @ '' cancel_schedule'',
                  ''Schedule id: '' @ show_int sid,
                  ''Recipient: '' @ recipient,
                  ''Amount: '' @ xi_amount i @ '' '' @ xi_assetCode i @ '' per run'',
                  ''Next run: '' @ xi_nextRunUtc i @ '' UTC'',
                  ''Owner: '' @ owner,
                  ''Network: '' @ xi_networkPassphrase i, ''Fee: '' @ fee,
                  ''Confirmation: light '' @ em_dash @ '' cancelling a schedule only tightens limits (owner auth only)'',
                  ''Approval: owner signature required''],
               su_explorerUrl = explorer_url (xi_explorerBase i) payloadHash,
               su_estimatedFee = fee\<rparr>,
            bs_payloadHash = payloadHash\<rparr>
     | _ \<Rightarrow> Inl (Schedule_Raised ''cancel_schedule summary: id is not a u32'')))"

section \<open>The draft\<close>

definition MAX_SCHEDULES :: nat where "MAX_SCHEDULES = 25"
definition U32_MAX_VALUE :: int where "U32_MAX_VALUE = 4294967295"
definition DAY_SECONDS_SCHEDULE :: int where "DAY_SECONDS_SCHEDULE = 86400"
definition WEEK_SECONDS :: int where "WEEK_SECONDS = 604800"

definition schedule_amount :: "js_value \<Rightarrow> schedule_error + string" where
  "schedule_amount v =
     (case v of
        V_Str amount \<Rightarrow>
          if \<not> amount_re 7 amount then Inl (sched_refusal Sr_Invalid_Amount)
          else if stroops_of amount \<le> 0 then Inl (sched_refusal Sr_Invalid_Amount)
          else if stroops_of amount > MAX_STROOPS then Inl (sched_refusal Sr_Invalid_Amount)
          else Inr amount
      | _ \<Rightarrow> Inl (sched_refusal Sr_Invalid_Amount))"

definition parseRuns :: "js_value \<Rightarrow> schedule_error + int" where
  "parseRuns v =
     (case v of
        V_Num x \<Rightarrow> if \<not> is_integer x \<or> jless x 1 \<or> jgreater x U32_MAX_VALUE then Inl (sched_refusal Sr_Invalid_Intent)
                    else Inr (jfloor x)
      | _ \<Rightarrow> Inl (sched_refusal Sr_Invalid_Intent))"

record first_run =
  fr_localDate :: string
  fr_localTime :: string
  fr_timeZone :: string

definition parseFirstRun :: "js_value \<Rightarrow> schedule_error + first_run" where
  "parseFirstRun v =
     (if \<not> is_object v then Inl (sched_refusal Sr_Invalid_Time)
      else case (js_field v ''localDate'', js_field v ''localTime'', js_field v ''timeZone'') of
        (V_Str d, V_Str t, V_Str z) \<Rightarrow> Inr \<lparr>fr_localDate = d, fr_localTime = t, fr_timeZone = z\<rparr>
      | _ \<Rightarrow> Inl (sched_refusal Sr_Invalid_Time))"

definition resolveInterval :: "js_value \<Rightarrow> js_value \<Rightarrow> schedule_error + int \<times> int" where
  "resolveInterval repeat_value runsInput =
     (if nullish repeat_value then
        if \<not> nullish runsInput \<and> runsInput \<noteq> V_Num (jint 1) then Inl (sched_refusal Sr_Unsupported_Repeat) else Inr (0, 1)
      else if \<not> is_object repeat_value then Inl (sched_refusal Sr_Unsupported_Repeat)
      else
        let every = js_field repeat_value ''every'' in
        and_then (if nullish runsInput then Inr 1 else parseRuns runsInput) (\<lambda>runs.
          if every = V_Str ''day'' then Inr (DAY_SECONDS_SCHEDULE, runs)
          else if every = V_Str ''week'' then Inr (WEEK_SECONDS, runs)
          else if every = V_Str ''custom'' then
            (case js_field repeat_value ''customSeconds'' of
               V_Num x \<Rightarrow> if \<not> is_safe_integer x \<or> jless x 1 then Inl (sched_refusal Sr_Unsupported_Repeat)
                           else Inr (jfloor x, runs)
             | _ \<Rightarrow> Inl (sched_refusal Sr_Unsupported_Repeat))
          else Inl (sched_refusal Sr_Unsupported_Repeat)))"

record parsed_draft =
  dr_alias :: string
  dr_address :: string
  dr_assetCode :: string
  dr_assetSac :: string
  dr_amount :: string
  dr_amountRaw :: int
  dr_intervalSecs :: int
  dr_runs :: int
  dr_firstRun :: first_run

definition draft_asset :: "'w schedule_deps \<Rightarrow> js_value \<Rightarrow> schedule_error + string \<times> string" where
  "draft_asset deps v =
     (case v of
        V_Str code \<Rightarrow>
          (case sd_assets deps code of
             None \<Rightarrow> Inl (sched_refusal Sr_Unsupported_Asset)
           | Some spec \<Rightarrow>
               (case truthy_string (schedule_asset_contract deps (sp_code spec)) of
                  None \<Rightarrow> Inl (sched_refusal Sr_Unsupported_Asset)
                | Some sac \<Rightarrow> Inr (sp_code spec, sac)))
      | _ \<Rightarrow> Inl (sched_refusal Sr_Unsupported_Asset))"

definition draft_recipient :: "alias_book \<Rightarrow> js_value \<Rightarrow> schedule_error + string \<times> alias_entry" where
  "draft_recipient book v =
     (case v of
        V_Str raw \<Rightarrow>
          let alias = js_lower (js_trim raw) in
          if alias = [] then Inl (sched_refusal Sr_Unknown_Recipient)
          else (case resolveAlias book alias of
                  None \<Rightarrow> Inl (sched_refusal Sr_Unknown_Recipient) | Some entry \<Rightarrow> Inr (alias, entry))
      | _ \<Rightarrow> Inl (sched_refusal Sr_Unknown_Recipient))"

definition parseDraft :: "'w schedule_deps \<Rightarrow> js_value \<Rightarrow> schedule_error + parsed_draft" where
  "parseDraft deps draft =
     (if \<not> is_object draft then Inl (sched_refusal Sr_Invalid_Intent)
      else
        and_then (draft_asset deps (js_field draft ''asset'')) (\<lambda>(assetCode, assetSac).
        and_then (schedule_amount (js_field draft ''amount'')) (\<lambda>amount.
        and_then (catchE (toRawUnits amount) (\<lambda>_. sched_refusal Sr_Invalid_Amount)) (\<lambda>amountRaw.
        and_then (draft_recipient (sd_aliases deps) (js_field draft ''recipient'')) (\<lambda>(alias, entry).
        and_then (resolveInterval (js_field draft ''repeat'') (js_field draft ''runs'')) (\<lambda>(intervalSecs, runs).
        and_then (parseFirstRun (js_field draft ''firstRun'')) (\<lambda>firstRun.
          Inr \<lparr>dr_alias = alias, dr_address = ae_address entry, dr_assetCode = assetCode, dr_assetSac = assetSac,
               dr_amount = amount, dr_amountRaw = amountRaw, dr_intervalSecs = intervalSecs, dr_runs = runs,
               dr_firstRun = firstRun\<rparr>)))))))"

section \<open>Creating a schedule\<close>

definition F03_WARNING :: string where
  "F03_WARNING = ''Recipient rules are not re-checked at run time (F-03): polaris_guard schedules ignore ''
     @ ''known_recipients_only; only the hard caps (per-tx, daily) and allowed assets apply.''"

definition KEEPER_WARNING :: string where
  "KEEPER_WARNING =
     ''Scheduled payments run only while a keeper is online; expect roughly 15-25 s after the due time.''"

record schedule_result =
  sr_unsignedXdr :: string
  sr_summary :: guard_summary
  sr_payloadHash :: string
  sr_warnings :: "string list"

definition eff_total :: "('e + 'a) option \<Rightarrow> ('w, 'e, 'a) eff" where
  "eff_total r w = map_option (\<lambda>x. (x, w)) r"

definition draft_time :: "zone_env \<Rightarrow> parsed_draft \<Rightarrow> int \<Rightarrow> (schedule_error + resolved_time) option" where
  "draft_time env d now =
     resolveLocalTime env now (Some
       \<lparr>ti_localDate = V_Str (fr_localDate (dr_firstRun d)), ti_localTime = V_Str (fr_localTime (dr_firstRun d)),
        ti_timeZone = V_Str (fr_timeZone (dr_firstRun d)), ti_now = Now_Date (Some now), ti_minLeadSeconds = V_Undefined\<rparr>)"

definition draft_warnings :: "parsed_draft \<Rightarrow> resolved_time \<Rightarrow> rule \<Rightarrow> string list" where
  "draft_warnings d t r =
     [F03_WARNING]
     @ (if rt_ambiguous t then
          [''The local time '' @ rt_localIso t @ '' is ambiguous (the clocks fall back); the earlier of the two possible instants was selected ''
           @ em_dash @ '' double-check the first run.''] else [])
     @ (if dr_amountRaw d \<ge> daily_limit r then
          [''A single run of '' @ dr_amount d @ '' '' @ dr_assetCode d
           @ '' meets or exceeds the daily limit; the scheduled run may be rejected at run time.''] else [])
     @ [KEEPER_WARNING]"

definition schedulePayment ::
    "zone_env \<Rightarrow> ('acc, 'tx, 'sim) guard_sdk \<Rightarrow> 'w schedule_deps \<Rightarrow> js_value \<Rightarrow> ('w, schedule_error, schedule_result) eff" where
  "schedulePayment env sdk deps draft =
     eff_bind (eff_of (\<lambda>e. e) (assertScheduleDeps deps)) (\<lambda>_.
     eff_bind (eff_of (\<lambda>e. e) (parseDraft deps draft)) (\<lambda>d.
     case sd_now deps of None \<Rightarrow> eff_throw (sched_refusal Sr_Invalid_Time) | Some now \<Rightarrow>
     eff_bind (eff_total (draft_time env d now)) (\<lambda>t.
     eff_bind (schedule_try (gp_getRule (sd_guard deps) (sd_ownerAddress deps))) (\<lambda>rule.
     case rule of None \<Rightarrow> eff_throw (sched_refusal Sr_Guard_Rule_Missing) | Some r \<Rightarrow>
     if \<not> List.member (allowed_assets r) (dr_assetSac d) then
       eff_throw (Schedule_Refusal Sr_Asset_Not_Allowed (Asset_Contract (dr_assetSac d)))
     else if dr_amountRaw d > per_tx_limit r then
       eff_throw (Schedule_Refusal Sr_Amount_Over_Per_Tx_Limit (Over_Limit (dr_amountRaw d) (per_tx_limit r)))
     else
     eff_bind (schedule_try (gp_listSchedules (sd_guard deps) (sd_ownerAddress deps))) (\<lambda>schedules.
     let activeCount = length (filter sh_active schedules) in
     if activeCount \<ge> MAX_SCHEDULES then
       eff_throw (Schedule_Refusal Sr_Too_Many_Schedules (Active_Schedules (int activeCount) (int MAX_SCHEDULES)))
     else
     let neededRaw = dr_amountRaw d * dr_runs d in
     eff_bind (schedule_try (call (sd_getAllowance deps (dr_assetSac d)))) (\<lambda>availableRaw.
     if availableRaw < neededRaw then
       eff_throw (Schedule_Refusal Sr_Allowance_Insufficient (Short_Allowance neededRaw availableRaw (dr_assetSac d)))
     else
     eff_bind (schedule_try (gp_createSchedule (sd_guard deps) (sd_ownerAddress deps) (dr_address d) (dr_assetSac d)
                 (dr_amountRaw d) (rt_epochSeconds t) (dr_intervalSecs d) (dr_runs d))) (\<lambda>c.
     eff_bind (eff_of (\<lambda>e. e) (buildCreateScheduleSummary env sdk
        \<lparr>ci_unsignedXdr = gc_unsignedXdr c, ci_networkPassphrase = sd_networkPassphrase deps,
         ci_contractId = gp_contractId (sd_guard deps), ci_alias = dr_alias d, ci_assetCode = dr_assetCode d,
         ci_timeZone = fr_timeZone (dr_firstRun d), ci_explorerBase = truthy_string (sd_explorerBase deps)\<rparr>)) (\<lambda>built.
       eff_ret \<lparr>sr_unsignedXdr = gc_unsignedXdr c, sr_summary = bs_summary built,
                sr_payloadHash = bs_payloadHash built, sr_warnings = draft_warnings d t r\<rparr>))))))))"

section \<open>Cancelling a schedule\<close>

record cancel_request =
  cq_id :: "int option"
  cq_recipient :: "string option"
  cq_which :: "string option"

definition request_id :: "js_value \<Rightarrow> schedule_error + int option" where
  "request_id v =
     (if nullish v then Inr None
      else case v of
        V_Num x \<Rightarrow> if \<not> is_integer x \<or> jless x 0 \<or> jgreater x U32_MAX_VALUE then Inl (sched_refusal Sr_Invalid_Intent)
                    else Inr (Some (jfloor x))
      | _ \<Rightarrow> Inl (sched_refusal Sr_Invalid_Intent))"

definition parseRequest :: "js_value \<Rightarrow> schedule_error + cancel_request" where
  "parseRequest req =
     (if \<not> is_object req then Inl (sched_refusal Sr_Invalid_Intent)
      else
        and_then (request_id (js_field req ''id'')) (\<lambda>sid.
        and_then (case js_field req ''recipient'' of
            V_Undefined \<Rightarrow> Inr None | V_Null \<Rightarrow> Inr None | V_Str s \<Rightarrow> Inr (Some s)
          | _ \<Rightarrow> Inl (sched_refusal Sr_Unknown_Recipient)) (\<lambda>recipient.
        and_then (case js_field req ''which'' of
            V_Undefined \<Rightarrow> Inr None | V_Null \<Rightarrow> Inr None
          | V_Str s \<Rightarrow> if s = ''last'' \<or> s = ''next'' then Inr (Some s) else Inl (sched_refusal Sr_Invalid_Intent)
          | _ \<Rightarrow> Inl (sched_refusal Sr_Invalid_Intent)) (\<lambda>which.
          if sid = None \<and> recipient = None then Inl (sched_refusal Sr_Invalid_Intent)
          else Inr \<lparr>cq_id = sid, cq_recipient = recipient, cq_which = which\<rparr>))))"

definition run_order :: "schedule \<Rightarrow> schedule \<Rightarrow> bool" where
  "run_order a b \<longleftrightarrow>
     (if double_of (sh_next_run_at a) = double_of (sh_next_run_at b) then sh_id a \<le> sh_id b
      else double_of (sh_next_run_at a) \<le> double_of (sh_next_run_at b))"

definition pickByRecipient ::
    "zone_env \<Rightarrow> 'w schedule_deps \<Rightarrow> schedule list \<Rightarrow> string \<Rightarrow> string option \<Rightarrow> schedule_error + schedule \<times> string" where
  "pickByRecipient env deps schedules recipient which =
     and_then (draft_recipient (sd_aliases deps) (V_Str recipient)) (\<lambda>(alias, entry).
       let found = filter (\<lambda>s. sh_to s = ae_address entry) schedules in
       (case found of
          [] \<Rightarrow> Inl (sched_refusal Sr_Schedule_Not_Found)
        | [s] \<Rightarrow> Inr (s, alias)
        | s # _ \<Rightarrow>
          (case which of
             None \<Rightarrow> and_then (map_results (candidateFor env deps (reverseAliases (sd_aliases deps))) found)
                        (\<lambda>candidates. Inl (Schedule_Ambiguous candidates))
           | Some w \<Rightarrow>
               let sorted = js_sort run_order found in
               Inr (if w = ''next'' then nth_or s sorted 0 else nth_or s sorted (length sorted - 1), alias))))"

definition pick_schedule ::
    "zone_env \<Rightarrow> 'w schedule_deps \<Rightarrow> schedule list \<Rightarrow> cancel_request \<Rightarrow> schedule_error + schedule \<times> string option" where
  "pick_schedule env deps active q =
     (case cq_id q of
        Some sid \<Rightarrow>
          (case find (\<lambda>s. sh_id s = sid) active of
             None \<Rightarrow> Inl (sched_refusal Sr_Schedule_Not_Found)
           | Some s \<Rightarrow> Inr (s, jm_get (reverseAliases (sd_aliases deps)) (sh_to s)))
      | None \<Rightarrow>
          and_then (pickByRecipient env deps active (case cq_recipient q of Some r \<Rightarrow> r | None \<Rightarrow> []) (cq_which q))
            (\<lambda>(s, alias). Inr (s, Some alias)))"

record cancel_result =
  xr_unsignedXdr :: string
  xr_summary :: guard_summary
  xr_payloadHash :: string
  xr_id :: int
  xr_recipientAlias :: "string option"

definition cancelScheduleTool ::
    "zone_env \<Rightarrow> ('acc, 'tx, 'sim) guard_sdk \<Rightarrow> 'w schedule_deps \<Rightarrow> js_value \<Rightarrow> ('w, schedule_error, cancel_result) eff" where
  "cancelScheduleTool env sdk deps req =
     eff_bind (eff_of (\<lambda>e. e) (assertScheduleDeps deps)) (\<lambda>_.
     eff_bind (eff_of (\<lambda>e. e) (parseRequest req)) (\<lambda>q.
     eff_bind (schedule_try (gp_listSchedules (sd_guard deps) (sd_ownerAddress deps))) (\<lambda>schedules.
     let active = filter sh_active schedules in
     eff_bind (eff_of (\<lambda>e. e) (pick_schedule env deps active q)) (\<lambda>(s, recipientAlias).
     eff_bind (schedule_try (gp_cancelSchedule (sd_guard deps) (sd_ownerAddress deps) (sh_id s))) (\<lambda>c.
     eff_bind (eff_of (\<lambda>e. e)
       (and_then (catchE (fromRawUnits (sh_amount s)) Schedule_Guard) (\<lambda>amount.
        and_then (nextRunUtc s) (\<lambda>next_run.
          buildCancelScheduleSummary sdk
            \<lparr>xi_unsignedXdr = gc_unsignedXdr c, xi_networkPassphrase = sd_networkPassphrase deps,
             xi_contractId = gp_contractId (sd_guard deps), xi_alias = recipientAlias, xi_recipientAddress = sh_to s,
             xi_assetCode = assetCodeFor deps (sh_asset s), xi_amount = amount, xi_nextRunUtc = next_run,
             xi_explorerBase = truthy_string (sd_explorerBase deps)\<rparr>)))) (\<lambda>built.
       eff_ret \<lparr>xr_unsignedXdr = gc_unsignedXdr c, xr_summary = bs_summary built, xr_payloadHash = bs_payloadHash built,
                xr_id = sh_id s, xr_recipientAlias = recipientAlias\<rparr>))))))"

section \<open>Listing\<close>

definition DEFAULT_POLL_SECONDS :: int where "DEFAULT_POLL_SECONDS = 15"

datatype upcoming_status = Up_Scheduled | Up_Due | Up_Delayed | Up_Finished

record upcoming_payment =
  up_id :: int
  up_recipientAlias :: "string option"
  up_recipientAddress :: string
  up_asset :: string
  up_amountRaw :: string
  up_amount :: string
  up_nextRunUtc :: string
  up_nextRunLocal :: string
  up_runsLeft :: int
  up_intervalWords :: string
  up_status :: upcoming_status

record list_options =
  lo_timeZone :: js_value
  lo_now :: now_value

definition parseOptions :: "zone_env \<Rightarrow> list_options option \<Rightarrow> schedule_error + list_options" where
  "parseOptions env options =
     (case options of
        None \<Rightarrow> Inl (sched_refusal Sr_Invalid_Intent)
      | Some raw \<Rightarrow> if \<not> isValidTimeZone env (lo_timeZone raw) then Inl (sched_refusal Sr_Invalid_Time) else Inr raw)"

definition grade :: "schedule \<Rightarrow> int \<Rightarrow> rat \<Rightarrow> upcoming_status" where
  "grade s nowSeconds pollSeconds =
     (if \<not> sh_active s \<or> sh_runs_left s \<le> 0 then Up_Finished
      else let due = double_of (sh_next_run_at s) in
        if nowSeconds < due then Up_Scheduled
        else if of_int (nowSeconds - due) < 2 * pollSeconds then Up_Due else Up_Delayed)"

definition poll_seconds :: "'w schedule_deps \<Rightarrow> schedule_error + rat" where
  "poll_seconds deps =
     (case sd_pollSeconds deps of
        None \<Rightarrow> Inr (of_int DEFAULT_POLL_SECONDS)
      | Some (JNum q) \<Rightarrow> if q \<le> 0 then Inl (sched_refusal Sr_Not_Configured) else Inr q
      | Some _ \<Rightarrow> Inl (sched_refusal Sr_Not_Configured))"

definition upcoming_row ::
    "zone_env \<Rightarrow> 'w schedule_deps \<Rightarrow> (string, string) js_map \<Rightarrow> js_value \<Rightarrow> int \<Rightarrow> rat \<Rightarrow> schedule \<Rightarrow> schedule_error + upcoming_payment" where
  "upcoming_row env deps aliases timeZone nowSeconds pollSeconds s =
     and_then (catchE (fromRawUnits (sh_amount s)) Schedule_Guard) (\<lambda>amount.
     and_then (nextRunUtc s) (\<lambda>next_run.
     and_then (formatInZone env (jint (double_of (sh_next_run_at s))) timeZone) (\<lambda>local_run.
     and_then (words_of_interval env (sh_interval_secs s)) (\<lambda>repeat_words.
       Inr \<lparr>up_id = sh_id s, up_recipientAlias = jm_get aliases (sh_to s), up_recipientAddress = sh_to s,
            up_asset = assetCodeFor deps (sh_asset s), up_amountRaw = show_int (sh_amount s), up_amount = amount,
            up_nextRunUtc = next_run, up_nextRunLocal = local_run, up_runsLeft = sh_runs_left s,
            up_intervalWords = repeat_words, up_status = grade s nowSeconds pollSeconds\<rparr>))))"

definition upcoming_order :: "upcoming_payment \<Rightarrow> upcoming_payment \<Rightarrow> bool" where
  "upcoming_order a b \<longleftrightarrow> (if up_nextRunUtc a = up_nextRunUtc b then up_id a \<le> up_id b else up_nextRunUtc a < up_nextRunUtc b)"

definition listUpcoming ::
    "zone_env \<Rightarrow> int \<Rightarrow> 'w schedule_deps \<Rightarrow> list_options option \<Rightarrow> ('w, schedule_error, upcoming_payment list) eff" where
  "listUpcoming env clock deps options =
     eff_bind (eff_of (\<lambda>e. e) (assertScheduleDeps deps)) (\<lambda>_.
     eff_bind (eff_of (\<lambda>e. e) (poll_seconds deps)) (\<lambda>pollSeconds.
     eff_bind (eff_of (\<lambda>e. e) (parseOptions env options)) (\<lambda>parsed.
     eff_bind (eff_of (\<lambda>e. e) (coerceNow env clock (lo_now parsed))) (\<lambda>now.
     eff_bind (schedule_try (gp_listSchedules (sd_guard deps) (sd_ownerAddress deps))) (\<lambda>schedules.
     eff_bind (eff_of (\<lambda>e. e) (map_results (upcoming_row env deps (reverseAliases (sd_aliases deps)) (lo_timeZone parsed)
                 (now div 1000) pollSeconds) schedules)) (\<lambda>rows.
       eff_ret (js_sort upcoming_order rows)))))))"

end
