(* ===== verification/Guard_Schedules.thy ===== *)
theory Guard_Schedules
  imports Guard_Port
begin

text \<open>
  The schedules of the contract \<open>contracts/polaris_guard/src/lib.rs\<close>: creating, cancelling, running
  and listing them, as the state machine the schedule tools and the keeper drive.  An operation is
  the call after \<open>require_auth\<close>; storage rent and events are not modelled.  A schedule is abstracted
  to a standing order of so many runs on a grid of slots, which its runs refine.
\<close>

section \<open>State\<close>

record contract_state =
  cs_next :: int
  cs_schedule :: "int \<Rightarrow> schedule option"
  cs_owned :: "string \<Rightarrow> int list"
  cs_guard :: "string \<Rightarrow> guard_state"

definition MAX_ACTIVE_PER_OWNER :: nat where "MAX_ACTIVE_PER_OWNER = 25"

definition checked_u32 :: "int \<Rightarrow> int option" where
  "checked_u32 x = (if 0 \<le> x \<and> x < 2 ^ 32 then Some x else None)"

definition checked_u64 :: "int \<Rightarrow> int option" where
  "checked_u64 x = (if 0 \<le> x \<and> x < 2 ^ 64 then Some x else None)"

section \<open>Operations\<close>

definition load_schedule :: "contract_state \<Rightarrow> int \<Rightarrow> contract_error + schedule" where
  "load_schedule st sid = ok_or (cs_schedule st sid) ScheduleNotFound"

definition deindex :: "contract_state \<Rightarrow> string \<Rightarrow> int \<Rightarrow> contract_state" where
  "deindex st owner sid = st\<lparr>cs_owned := (cs_owned st)(owner := remove1 sid (cs_owned st owner))\<rparr>"

definition create_schedule ::
    "contract_state \<Rightarrow> string \<Rightarrow> string \<Rightarrow> string \<Rightarrow> int \<Rightarrow> int \<Rightarrow> int \<Rightarrow> int \<Rightarrow> contract_error + int \<times> contract_state" where
  "create_schedule st owner to_addr asset amount first_run interval_secs runs =
     (if amount \<le> 0 then Inl InvalidAmount
      else if runs = 0 \<or> interval_secs = 0 \<and> runs \<noteq> 1 then Inl InvalidSchedule
      else
        and_then (load_rule (cs_guard st owner)) (\<lambda>r.
        and_then (check_asset r asset) (\<lambda>_.
          if amount > per_tx_limit r then Inl OverPerTxLimit
          else
            let owned = cs_owned st owner in
            if length owned \<ge> MAX_ACTIVE_PER_OWNER then Inl TooManySchedules
            else
              let sid = cs_next st in
              and_then (ok_or (checked_u32 (sid + 1)) Overflow) (\<lambda>next_id.
                Inr (sid, st\<lparr>cs_next := next_id,
                    cs_schedule := (cs_schedule st)(sid \<mapsto>
                      \<lparr>sh_id = sid, sh_owner = owner, sh_to = to_addr, sh_asset = asset, sh_amount = amount,
                       sh_next_run_at = first_run, sh_interval_secs = interval_secs, sh_runs_left = runs, sh_active = True\<rparr>),
                    cs_owned := (cs_owned st)(owner := owned @ [sid])\<rparr>)))))"

definition cancel_schedule :: "contract_state \<Rightarrow> string \<Rightarrow> int \<Rightarrow> contract_error + contract_state" where
  "cancel_schedule st owner sid =
     and_then (load_schedule st sid) (\<lambda>s.
       if sh_owner s \<noteq> owner then Inl NotScheduleOwner
       else if \<not> sh_active s then Inl ScheduleInactive
       else Inr (deindex (st\<lparr>cs_schedule := (cs_schedule st)(sid \<mapsto> s\<lparr>sh_active := False\<rparr>)\<rparr>) owner sid))"

text \<open>The schedule after one run at \<open>now\<close>.\<close>

definition after_run :: "int \<Rightarrow> schedule \<Rightarrow> contract_error + schedule" where
  "after_run now s =
     and_then (ok_or (checked_u32 (sh_runs_left s - 1)) Overflow) (\<lambda>left.
       let s = s\<lparr>sh_runs_left := left\<rparr> in
       if sh_interval_secs s = 0 \<or> left = 0 then Inr (s\<lparr>sh_active := False\<rparr>)
       else
         let elapsed = now - sh_next_run_at s; skipped = elapsed div sh_interval_secs s in
         and_then (ok_or (checked_u64 (skipped + 1)) Overflow) (\<lambda>n.
         and_then (ok_or (checked_u64 (n * sh_interval_secs s)) Overflow) (\<lambda>advance.
         and_then (ok_or (checked_u64 (sh_next_run_at s + advance)) Overflow) (\<lambda>next_run.
           Inr (s\<lparr>sh_next_run_at := next_run\<rparr>)))))"

definition execute_schedule :: "(string \<Rightarrow> token) \<Rightarrow> nat \<Rightarrow> contract_state \<Rightarrow> int \<Rightarrow> guard_failure + contract_state" where
  "execute_schedule tk now st sid =
     and_then (lift_err (load_schedule st sid)) (\<lambda>s.
       if \<not> sh_active s then Inl (Guard_Err ScheduleInactive)
       else if int now < sh_next_run_at s then Inl (Guard_Err ScheduleNotDue)
       else
         let owner = sh_owner s; g = cs_guard st owner in
         and_then (lift_err (load_rule g)) (\<lambda>r.
         and_then (lift_err (check_asset r (sh_asset s))) (\<lambda>_.
         and_then (lift_err (check_hard_caps now g r (sh_amount s))) (\<lambda>_.
         and_then (lift_err (record_spend now g (sh_amount s))) (\<lambda>g'.
         and_then (lift_err (after_run (int now) s)) (\<lambda>s'.
           let st' = st\<lparr>cs_guard := (cs_guard st)(owner := g'), cs_schedule := (cs_schedule st)(sid \<mapsto> s')\<rparr>;
               st'' = (if sh_active s' then st' else deindex st' owner sid) in
           and_then (settle (tk owner) (sh_to s) (sh_asset s) (sh_amount s)) (\<lambda>_. Inr st'')))))))"

definition list_schedules :: "contract_state \<Rightarrow> string \<Rightarrow> schedule list" where
  "list_schedules st owner = List.map_filter (cs_schedule st) (cs_owned st owner)"

definition next_schedule_id :: "contract_state \<Rightarrow> int" where
  "next_schedule_id st = cs_next st"

section \<open>The machine\<close>

text \<open>
  One step at a ledger time: an operation on schedules, or anything that changes only the rule, the
  executor or the spending of owners.  The token of a step is whatever it is at that time.
\<close>

datatype guard_event = Ev_Created int | Ev_Cancelled int | Ev_Ran int | Ev_Other

inductive guard_step :: "nat \<Rightarrow> contract_state \<Rightarrow> guard_event \<Rightarrow> contract_state \<Rightarrow> bool" where
  step_create: "create_schedule st owner to_addr asset amount first_run interval_secs runs = Inr (sid, st') \<Longrightarrow>
    0 \<le> first_run \<Longrightarrow> 0 \<le> interval_secs \<Longrightarrow> 0 \<le> runs \<Longrightarrow> guard_step now st (Ev_Created sid) st'"
| step_cancel: "cancel_schedule st owner sid = Inr st' \<Longrightarrow> guard_step now st (Ev_Cancelled sid) st'"
| step_run: "execute_schedule tk now st sid = Inr st' \<Longrightarrow> guard_step now st (Ev_Ran sid) st'"
| step_other: "st' = st\<lparr>cs_guard := g\<rparr> \<Longrightarrow> guard_step now st Ev_Other st'"

inductive_cases guard_stepE: "guard_step now st ev st'"

text \<open>Steps at ledger times that never run backwards; the trace lists the events with their times.\<close>

inductive guard_steps :: "nat \<Rightarrow> contract_state \<Rightarrow> (nat \<times> guard_event) list \<Rightarrow> contract_state \<Rightarrow> bool" where
  steps_nil: "guard_steps t0 st [] st"
| steps_cons: "t0 \<le> now \<Longrightarrow> guard_step now st ev st' \<Longrightarrow> guard_steps now st' evs st'' \<Longrightarrow>
    guard_steps t0 st ((now, ev) # evs) st''"

inductive_cases guard_steps_consE: "guard_steps t0 st (e # evs) st''"

definition initial_state :: "(string \<Rightarrow> guard_state) \<Rightarrow> contract_state" where
  "initial_state g = \<lparr>cs_next = 1, cs_schedule = (\<lambda>_. None), cs_owned = (\<lambda>_. []), cs_guard = g\<rparr>"

text \<open>
  The invariant: the schedules are the ids handed out; the index of an owner holds exactly the
  active ones, each once and at most 25; an active one has runs left, and a one-shot one run.
\<close>

definition good_schedule :: "int \<Rightarrow> schedule \<Rightarrow> bool" where
  "good_schedule i s \<longleftrightarrow> sh_id s = i \<and> 0 < sh_amount s \<and> 0 \<le> sh_interval_secs s \<and> 0 \<le> sh_runs_left s
     \<and> (sh_active s \<longrightarrow> 1 \<le> sh_runs_left s \<and> (sh_interval_secs s = 0 \<longrightarrow> sh_runs_left s = 1))"

definition guard_inv :: "contract_state \<Rightarrow> bool" where
  "guard_inv st \<longleftrightarrow> 1 \<le> cs_next st
     \<and> (\<forall>i. cs_schedule st i \<noteq> None \<longleftrightarrow> 1 \<le> i \<and> i < cs_next st)
     \<and> (\<forall>i s. cs_schedule st i = Some s \<longrightarrow> good_schedule i s)
     \<and> (\<forall>o'. distinct (cs_owned st o') \<and> length (cs_owned st o') \<le> MAX_ACTIVE_PER_OWNER
         \<and> set (cs_owned st o') = {i. \<exists>s. cs_schedule st i = Some s \<and> sh_owner s = o' \<and> sh_active s})"

section \<open>The operations in one line\<close>

lemma checked_Some [simp]:
  "checked_u32 x = Some y \<longleftrightarrow> 0 \<le> x \<and> x < 2 ^ 32 \<and> y = x"
  "checked_u64 x = Some y \<longleftrightarrow> 0 \<le> x \<and> x < 2 ^ 64 \<and> y = x"
  by (auto simp: checked_u32_def checked_u64_def)

definition new_schedule :: "int \<Rightarrow> string \<Rightarrow> string \<Rightarrow> string \<Rightarrow> int \<Rightarrow> int \<Rightarrow> int \<Rightarrow> int \<Rightarrow> schedule" where
  "new_schedule sid owner to_addr asset amount first_run interval_secs runs =
     \<lparr>sh_id = sid, sh_owner = owner, sh_to = to_addr, sh_asset = asset, sh_amount = amount,
      sh_next_run_at = first_run, sh_interval_secs = interval_secs, sh_runs_left = runs, sh_active = True\<rparr>"

lemma create_schedule_Inr:
  "create_schedule st owner to_addr asset amount first_run interval_secs runs = Inr (sid, st') \<longleftrightarrow>
     0 < amount \<and> runs \<noteq> 0 \<and> (interval_secs = 0 \<longrightarrow> runs = 1)
     \<and> (\<exists>r. gs_rule (cs_guard st owner) = Some r \<and> asset \<in> set (allowed_assets r) \<and> amount \<le> per_tx_limit r)
     \<and> length (cs_owned st owner) < MAX_ACTIVE_PER_OWNER \<and> 0 \<le> cs_next st + 1 \<and> cs_next st + 1 < 2 ^ 32
     \<and> sid = cs_next st
     \<and> st' = st\<lparr>cs_next := sid + 1,
          cs_schedule := (cs_schedule st)(sid \<mapsto> new_schedule sid owner to_addr asset amount first_run interval_secs runs),
          cs_owned := (cs_owned st)(owner := cs_owned st owner @ [sid])\<rparr>"
  by (cases "gs_rule (cs_guard st owner)")
    (auto simp: create_schedule_def new_schedule_def load_rule_def Let_def not_less not_le split: if_splits)

lemma cancel_schedule_Inr:
  "cancel_schedule st owner sid = Inr st' \<longleftrightarrow>
     (\<exists>s. cs_schedule st sid = Some s \<and> sh_owner s = owner \<and> sh_active s
        \<and> st' = deindex (st\<lparr>cs_schedule := (cs_schedule st)(sid \<mapsto> s\<lparr>sh_active := False\<rparr>)\<rparr>) owner sid)"
  by (auto simp: cancel_schedule_def load_schedule_def)

lemma execute_schedule_Inr:
  assumes "execute_schedule tk now st sid = Inr st'"
  shows "\<exists>s s' g' r. cs_schedule st sid = Some s \<and> sh_active s \<and> sh_next_run_at s \<le> int now
     \<and> gs_rule (cs_guard st (sh_owner s)) = Some r \<and> sh_asset s \<in> set (allowed_assets r)
     \<and> check_hard_caps now (cs_guard st (sh_owner s)) r (sh_amount s) = Inr ()
     \<and> record_spend now (cs_guard st (sh_owner s)) (sh_amount s) = Inr g' \<and> after_run (int now) s = Inr s'
     \<and> sh_amount s \<le> tk_allowance (tk (sh_owner s)) (sh_asset s)
     \<and> st' = (let st1 = st\<lparr>cs_guard := (cs_guard st)(sh_owner s := g'), cs_schedule := (cs_schedule st)(sid \<mapsto> s')\<rparr>
             in if sh_active s' then st1 else deindex st1 (sh_owner s) sid)"
proof -
  obtain s r u v g' s' where "cs_schedule st sid = Some s" "sh_active s" "\<not> int now < sh_next_run_at s"
      "gs_rule (cs_guard st (sh_owner s)) = Some r" "check_asset r (sh_asset s) = Inr u"
      "check_hard_caps now (cs_guard st (sh_owner s)) r (sh_amount s) = Inr v"
      "record_spend now (cs_guard st (sh_owner s)) (sh_amount s) = Inr g'" "after_run (int now) s = Inr s'"
      "settle (tk (sh_owner s)) (sh_to s) (sh_asset s) (sh_amount s) = Inr ()"
      "st' = (let st1 = st\<lparr>cs_guard := (cs_guard st)(sh_owner s := g'), cs_schedule := (cs_schedule st)(sid \<mapsto> s')\<rparr>
             in if sh_active s' then st1 else deindex st1 (sh_owner s) sid)"
    using assms unfolding execute_schedule_def load_schedule_def Let_def
    by (auto simp del: check_asset_Inr split: if_split_asm)
  then show ?thesis by (auto simp: settle_Inr intro!: exI [of _ s] exI [of _ s'] exI [of _ g'])
qed

lemma after_run_Inr:
  "after_run now s = Inr s' \<longleftrightarrow> 1 \<le> sh_runs_left s \<and> sh_runs_left s - 1 < 2 ^ 32
     \<and> (if sh_interval_secs s = 0 \<or> sh_runs_left s = 1 then s' = s\<lparr>sh_runs_left := sh_runs_left s - 1, sh_active := False\<rparr>
        else let n = (now - sh_next_run_at s) div sh_interval_secs s + 1; t = sh_next_run_at s + n * sh_interval_secs s in
          0 \<le> n \<and> n < 2 ^ 64 \<and> 0 \<le> n * sh_interval_secs s \<and> n * sh_interval_secs s < 2 ^ 64 \<and> 0 \<le> t \<and> t < 2 ^ 64
          \<and> s' = s\<lparr>sh_runs_left := sh_runs_left s - 1, sh_next_run_at := t\<rparr>)"
  by (auto simp: after_run_def Let_def)

lemma after_run_fields:
  assumes "after_run now s = Inr s'"
  shows "sh_id s' = sh_id s" "sh_owner s' = sh_owner s" "sh_to s' = sh_to s" "sh_asset s' = sh_asset s"
    "sh_amount s' = sh_amount s" "sh_interval_secs s' = sh_interval_secs s" "sh_runs_left s' = sh_runs_left s - 1"
    "1 \<le> sh_runs_left s"
    "sh_active s' \<longleftrightarrow> sh_active s \<and> sh_interval_secs s \<noteq> 0 \<and> sh_runs_left s \<noteq> 1"
  using assms unfolding after_run_Inr by (auto simp: Let_def split: if_splits)

section \<open>The invariant\<close>

lemma guard_invI:
  assumes "1 \<le> cs_next st" "\<And>i. cs_schedule st i \<noteq> None \<longleftrightarrow> 1 \<le> i \<and> i < cs_next st"
    "\<And>i s. cs_schedule st i = Some s \<Longrightarrow> good_schedule i s"
    "\<And>o'. distinct (cs_owned st o')" "\<And>o'. length (cs_owned st o') \<le> MAX_ACTIVE_PER_OWNER"
    "\<And>o' i. i \<in> set (cs_owned st o') \<longleftrightarrow> (\<exists>s. cs_schedule st i = Some s \<and> sh_owner s = o' \<and> sh_active s)"
  shows "guard_inv st"
  unfolding guard_inv_def using assms by blast

lemma guard_invD:
  assumes "guard_inv st"
  shows "1 \<le> cs_next st" "cs_schedule st i \<noteq> None \<longleftrightarrow> 1 \<le> i \<and> i < cs_next st"
    "cs_schedule st i = Some s \<Longrightarrow> good_schedule i s"
    "distinct (cs_owned st o')" "length (cs_owned st o') \<le> MAX_ACTIVE_PER_OWNER"
    "i \<in> set (cs_owned st o') \<longleftrightarrow> (\<exists>s. cs_schedule st i = Some s \<and> sh_owner s = o' \<and> sh_active s)"
  using assms unfolding guard_inv_def by blast+

lemma initial_inv: "guard_inv (initial_state g)"
  by (rule guard_invI) (simp_all add: initial_state_def)

lemma create_inv:
  assumes inv: "guard_inv st" and c: "create_schedule st owner to_addr asset amount first_run interval_secs runs = Inr (sid, st')"
    and range: "0 \<le> interval_secs" "0 \<le> runs"
  shows "guard_inv st'"
proof (rule guard_invI)
  note d = guard_invD [OF inv]
  note e = c [unfolded create_schedule_Inr]
  have new: "cs_schedule st (cs_next st) = None" using d(2) [of "cs_next st"] by auto
  have st': "cs_next st' = cs_next st + 1" "cs_owned st' = (cs_owned st)(owner := cs_owned st owner @ [cs_next st])"
      "cs_schedule st' = (cs_schedule st)(cs_next st \<mapsto> new_schedule (cs_next st) owner to_addr asset amount first_run interval_secs runs)"
    using e by auto
  show "1 \<le> cs_next st'" using d(1) by (simp add: st')
  show "cs_schedule st' i \<noteq> None \<longleftrightarrow> 1 \<le> i \<and> i < cs_next st'" for i
    using d(1) d(2) [of i] by (auto simp: st')
  show "good_schedule i s" if "cs_schedule st' i = Some s" for i s
    using that d(3) [of i s] e range by (auto simp: st' good_schedule_def new_schedule_def split: if_splits)
  have fresh: "cs_next st \<notin> set (cs_owned st o')" for o' using d(6) [of "cs_next st" o'] new by auto
  show "distinct (cs_owned st' o')" for o' using d(4) [of o'] d(4) [of owner] fresh by (simp add: st')
  show "length (cs_owned st' o') \<le> MAX_ACTIVE_PER_OWNER" for o' using d(5) [of o'] e by (simp add: st')
  show "i \<in> set (cs_owned st' o') \<longleftrightarrow> (\<exists>s. cs_schedule st' i = Some s \<and> sh_owner s = o' \<and> sh_active s)" for o' i
    using d(6) [of i o'] fresh [of o'] by (auto simp: st' new_schedule_def)
qed

text \<open>Replacing one schedule of an owner, keeping its identity, and dropping it from the index when
  it is no longer active.\<close>

lemma update_inv:
  assumes inv: "guard_inv st" and s: "cs_schedule st sid = Some s" "sh_active s"
    and g: "good_schedule sid s'" "sh_owner s' = sh_owner s"
    and e: "cs_next st' = cs_next st" "cs_schedule st' = (cs_schedule st)(sid \<mapsto> s')"
      "cs_owned st' = (cs_owned st)(sh_owner s := (if sh_active s' then cs_owned st (sh_owner s) else remove1 sid (cs_owned st (sh_owner s))))"
  shows "guard_inv st'"
proof (rule guard_invI)
  note d = guard_invD [OF inv]
  show "1 \<le> cs_next st'" using d(1) by (simp add: e)
  show "cs_schedule st' i \<noteq> None \<longleftrightarrow> 1 \<le> i \<and> i < cs_next st'" for i
    using d(2) [of i] s(1) by (auto simp: e)
  show "good_schedule i t" if "cs_schedule st' i = Some t" for i t
    using that d(3) [of i t] g(1) by (auto simp: e split: if_splits)
  show "distinct (cs_owned st' o')" for o' using d(4) [of o'] d(4) [of "sh_owner s"] by (simp add: e)
  have "length (cs_owned st' o') \<le> length (cs_owned st o')" for o' by (simp add: e length_remove1)
  then show "length (cs_owned st' o') \<le> MAX_ACTIVE_PER_OWNER" for o' using d(5) [of o'] le_trans by blast
  show "i \<in> set (cs_owned st' o') \<longleftrightarrow> (\<exists>s. cs_schedule st' i = Some s \<and> sh_owner s = o' \<and> sh_active s)" for o' i
    using d(6) [of i o'] d(4) [of o'] s g(2) by (auto simp: e set_remove1_eq)
qed

lemma guard_inv_after:
  assumes "guard_step now st ev st'" "guard_inv st"
  shows "guard_inv st'"
  using assms
proof (cases rule: guard_step.cases)
  case (step_create owner to_addr asset amount first_run interval_secs runs sid)
  then show ?thesis using create_inv assms(2) by blast
next
  case (step_cancel owner sid)
  then obtain s where s: "cs_schedule st sid = Some s" "sh_owner s = owner" "sh_active s"
      "st' = deindex (st\<lparr>cs_schedule := (cs_schedule st)(sid \<mapsto> s\<lparr>sh_active := False\<rparr>)\<rparr>) owner sid"
    by (auto simp: cancel_schedule_Inr)
  show ?thesis
    by (rule update_inv [OF assms(2) s(1,3), of "s\<lparr>sh_active := False\<rparr>"])
      (use guard_invD(3) [OF assms(2) s(1)] s in \<open>auto simp: good_schedule_def deindex_def\<close>)
next
  case (step_run tk sid)
  from execute_schedule_Inr [OF step_run(2)] obtain s s' g' where s: "cs_schedule st sid = Some s" "sh_active s"
      "after_run (int now) s = Inr s'"
      "st' = (let st1 = st\<lparr>cs_guard := (cs_guard st)(sh_owner s := g'), cs_schedule := (cs_schedule st)(sid \<mapsto> s')\<rparr>
             in if sh_active s' then st1 else deindex st1 (sh_owner s) sid)"
    by blast
  show ?thesis
    by (rule update_inv [OF assms(2) s(1,2), of s'])
      (use guard_invD(3) [OF assms(2) s(1)] after_run_fields [OF s(3)] s(4) in
        \<open>auto simp: good_schedule_def deindex_def Let_def\<close>)
next
  case (step_other g)
  then show ?thesis using assms(2) by (simp add: guard_inv_def)
qed

lemma guard_steps_inv: "guard_steps t0 st evs st' \<Longrightarrow> guard_inv st \<Longrightarrow> guard_inv st'"
  by (induction rule: guard_steps.induct) (auto intro: guard_inv_after)

section \<open>Standing orders\<close>

text \<open>
  The specification of a repeating schedule: so many runs left, on the slots of a grid that starts
  at the first run; slot \<open>k\<close> is free when no run has used it or a later one.
\<close>

record standing_order =
  so_left :: int
  so_slot :: int
  so_live :: bool

definition may_run :: "standing_order \<Rightarrow> int \<Rightarrow> bool" where
  "may_run ord k \<longleftrightarrow> so_live ord \<and> so_slot ord \<le> k"

definition run_in_slot :: "standing_order \<Rightarrow> int \<Rightarrow> standing_order" where
  "run_in_slot ord k =
     (let left = so_left ord - 1
      in \<lparr>so_left = left, so_slot = (if left = 0 then so_slot ord else k + 1), so_live = left \<noteq> 0\<rparr>)"

text \<open>The slot of an instant, and the order a schedule stands for.\<close>

definition slot_of :: "int \<Rightarrow> int \<Rightarrow> int \<Rightarrow> int" where
  "slot_of first interval t = (t - first) div interval"

definition order_of :: "int \<Rightarrow> schedule \<Rightarrow> standing_order" where
  "order_of first s = \<lparr>so_left = sh_runs_left s, so_slot = slot_of first (sh_interval_secs s) (sh_next_run_at s), so_live = sh_active s\<rparr>"

definition on_grid :: "int \<Rightarrow> schedule \<Rightarrow> bool" where
  "on_grid first s \<longleftrightarrow> first \<le> sh_next_run_at s \<and> 0 \<le> sh_interval_secs s
     \<and> (\<exists>q. sh_next_run_at s = first + q * sh_interval_secs s)"

lemma on_grid_next: "on_grid first s \<Longrightarrow> 0 < sh_interval_secs s \<Longrightarrow>
    sh_next_run_at s = first + slot_of first (sh_interval_secs s) (sh_next_run_at s) * sh_interval_secs s"
  by (auto simp: on_grid_def slot_of_def)

lemma slot_shift: "0 < i \<Longrightarrow> slot_of first i t = q + (t - (first + q * i)) div i"
  using div_mult_self1 [of i "t - (first + q * i)" q] by (simp add: slot_of_def algebra_simps)

lemma slot_mono: "0 < i \<Longrightarrow> t \<le> t' \<Longrightarrow> slot_of first i t \<le> slot_of first i t'"
  by (simp add: slot_of_def zdiv_mono1)

lemma run_refines:
  assumes "after_run now s = Inr s'" "on_grid first s" "0 < sh_interval_secs s" "sh_next_run_at s \<le> now" "sh_active s"
  defines "k \<equiv> slot_of first (sh_interval_secs s) now"
  shows "may_run (order_of first s) k \<and> order_of first s' = run_in_slot (order_of first s) k \<and> on_grid first s'
    \<and> (sh_active s' \<longrightarrow> now < sh_next_run_at s')"
proof -
  define i q where "i = sh_interval_secs s" and "q = slot_of first i (sh_next_run_at s)"
  have i: "0 < i" and q: "sh_next_run_at s = first + q * i"
    using assms(3) on_grid_next [OF assms(2,3)] by (simp_all add: i_def q_def)
  have k: "k = q + (now - sh_next_run_at s) div i"
    using slot_shift [OF i, of first now q] by (simp add: k_def i_def q)
  have "q \<le> k" using slot_mono [OF i assms(4), of first] by (simp add: k_def q_def i_def)
  moreover have "order_of first s' = run_in_slot (order_of first s) k \<and> on_grid first s' \<and> (sh_active s' \<longrightarrow> now < sh_next_run_at s')"
  proof (cases "sh_runs_left s = 1")
    case True
    then have s': "s' = s\<lparr>sh_runs_left := 0, sh_active := False\<rparr>" using assms(1) by (simp add: after_run_Inr)
    show ?thesis using assms(2) by (simp add: s' order_of_def run_in_slot_def True on_grid_def)
  next
    case False
    define n where "n = (now - sh_next_run_at s) div i + 1"
    have s': "s' = s\<lparr>sh_runs_left := sh_runs_left s - 1, sh_next_run_at := sh_next_run_at s + n * i\<rparr>"
      using assms(1,3) False by (auto simp: after_run_Inr n_def i_def Let_def)
    have nk: "q + n = k + 1" by (simp add: k n_def)
    have next_run: "sh_next_run_at s' = first + (k + 1) * i" by (simp add: s' q flip: nk) (simp add: algebra_simps)
    then have slot: "slot_of first i (sh_next_run_at s') = k + 1" using i by (simp add: slot_of_def)
    have "i * k + (now - first) mod i = now - first"
      unfolding k_def slot_of_def i_def [symmetric] by (rule mult_div_mod_eq)
    moreover have "(k + 1) * i = i * k + i" by (simp add: algebra_simps)
    ultimately have "now - first < (k + 1) * i" using pos_mod_bound [OF i, of "now - first"] by linarith
    then have "now < sh_next_run_at s'" by (simp add: next_run)
    moreover have "on_grid first s'"
      using assms(2,4) \<open>now < sh_next_run_at s'\<close> next_run by (auto simp: on_grid_def s' i_def)
    moreover have "order_of first s' = run_in_slot (order_of first s) k"
      using slot assms(1,5) False by (simp add: order_of_def run_in_slot_def s' i_def)
    ultimately show ?thesis by blast
  qed
  ultimately show ?thesis using assms(5) by (simp add: may_run_def order_of_def q_def i_def)
qed

section \<open>What a schedule can ever pay\<close>

text \<open>The times at which a trace runs a schedule.\<close>

definition run_times :: "int \<Rightarrow> (nat \<times> guard_event) list \<Rightarrow> int list" where
  "run_times sid evs = map (\<lambda>(now, ev). int now) (filter (\<lambda>(now, ev). ev = Ev_Ran sid) evs)"

lemma run_times_simps [simp]:
  "run_times sid [] = []"
  "run_times sid ((now, ev) # evs) = (if ev = Ev_Ran sid then int now # run_times sid evs else run_times sid evs)"
  by (simp_all add: run_times_def)

definition same_terms :: "schedule \<Rightarrow> schedule \<Rightarrow> bool" where
  "same_terms s s' \<longleftrightarrow> sh_owner s' = sh_owner s \<and> sh_to s' = sh_to s \<and> sh_asset s' = sh_asset s
     \<and> sh_amount s' = sh_amount s \<and> sh_interval_secs s' = sh_interval_secs s"

text \<open>One step, seen from one schedule: it runs, or it keeps its runs and its next run and is not revived.\<close>

lemma step_of_schedule:
  assumes "guard_step now st ev st'" "guard_inv st" "cs_schedule st sid = Some s"
  shows "\<exists>s'. cs_schedule st' sid = Some s' \<and> same_terms s s' \<and>
    (if ev = Ev_Ran sid then sh_active s \<and> sh_next_run_at s \<le> int now \<and> after_run (int now) s = Inr s'
     else sh_runs_left s' = sh_runs_left s \<and> sh_next_run_at s' = sh_next_run_at s \<and> (sh_active s' \<longrightarrow> sh_active s))"
  using assms(1)
proof (cases rule: guard_step.cases)
  case (step_create owner to_addr asset amount first_run interval_secs runs new_id)
  then have "new_id \<noteq> sid" using guard_invD(2) [OF assms(2), of sid] assms(3) by (auto simp: create_schedule_Inr)
  then show ?thesis using step_create assms(3) by (auto simp: create_schedule_Inr same_terms_def)
next
  case (step_cancel owner other)
  then show ?thesis using assms(3) by (auto simp: cancel_schedule_Inr deindex_def same_terms_def)
next
  case (step_run tk other)
  from execute_schedule_Inr [OF step_run(2)] show ?thesis
    using step_run(1) assms(3) by (cases "other = sid") (auto simp: deindex_def same_terms_def Let_def after_run_fields split: if_splits)
next
  case (step_other g)
  then show ?thesis using assms(3) by (simp add: same_terms_def)
qed

definition later_slot :: "int \<Rightarrow> int \<Rightarrow> int \<Rightarrow> int \<Rightarrow> bool" where
  "later_slot first interval a b \<longleftrightarrow> slot_of first interval a < slot_of first interval b"

lemma runs_of_steps:
  assumes "guard_steps t0 st evs st'" "guard_inv st" "cs_schedule st sid = Some s" "on_grid first s"
  shows "\<exists>s'. cs_schedule st' sid = Some s' \<and> same_terms s s'
    \<and> sh_runs_left s' = sh_runs_left s - int (length (run_times sid evs))
    \<and> (\<forall>t \<in> set (run_times sid evs). sh_next_run_at s \<le> t)
    \<and> (\<not> sh_active s \<longrightarrow> run_times sid evs = [])
    \<and> (0 < sh_interval_secs s \<longrightarrow> sorted_wrt (later_slot first (sh_interval_secs s)) (run_times sid evs))"
  using assms
proof (induction arbitrary: s rule: guard_steps.induct)
  case (steps_nil t0 st)
  then show ?case by (simp add: same_terms_def)
next
  case (steps_cons t0 now st ev st' evs st'')
  obtain s1 where s1: "cs_schedule st' sid = Some s1" "same_terms s s1"
    and step: "if ev = Ev_Ran sid then sh_active s \<and> sh_next_run_at s \<le> int now \<and> after_run (int now) s = Inr s1
     else sh_runs_left s1 = sh_runs_left s \<and> sh_next_run_at s1 = sh_next_run_at s \<and> (sh_active s1 \<longrightarrow> sh_active s)"
    using step_of_schedule [OF steps_cons.hyps(2) steps_cons.prems(1,2)] by blast
  have inv: "guard_inv st'" by (rule guard_inv_after [OF steps_cons.hyps(2) steps_cons.prems(1)])
  have same: "sh_interval_secs s1 = sh_interval_secs s" using s1(2) by (simp add: same_terms_def)
  show ?case
  proof (cases "ev = Ev_Ran sid")
    case False
    then have "on_grid first s1" using step steps_cons.prems(3) same by (simp add: on_grid_def)
    from steps_cons.IH [OF inv s1(1) this] show ?thesis
      using False step s1(2) same by (auto simp: same_terms_def)
  next
    case True
    then have r: "sh_active s" "sh_next_run_at s \<le> int now" "after_run (int now) s = Inr s1" using step by simp_all
    have grid: "on_grid first s1 \<and> (sh_active s1 \<longrightarrow> 0 < sh_interval_secs s
        \<and> slot_of first (sh_interval_secs s) (int now) < slot_of first (sh_interval_secs s) (sh_next_run_at s1)
        \<and> sh_next_run_at s \<le> sh_next_run_at s1)"
    proof (cases "0 < sh_interval_secs s")
      case pos: True
      from run_refines [OF r(3) steps_cons.prems(3) pos r(2,1)] show ?thesis
        using r after_run_fields(7,9) [OF r(3)] same pos
        by (auto simp: order_of_def run_in_slot_def Let_def split: if_splits)
    next
      case False
      then have "sh_interval_secs s = 0" using steps_cons.prems(3) by (simp add: on_grid_def)
      then have "s1 = s\<lparr>sh_runs_left := sh_runs_left s - 1, sh_active := False\<rparr>" using r(3) by (simp add: after_run_Inr)
      then show ?thesis using steps_cons.prems(3) by (simp add: on_grid_def)
    qed
    from steps_cons.IH [OF inv s1(1) conjunct1 [OF grid]] obtain s2 where s2:
        "cs_schedule st'' sid = Some s2" "same_terms s1 s2"
        "sh_runs_left s2 = sh_runs_left s1 - int (length (run_times sid evs))"
        "\<forall>t \<in> set (run_times sid evs). sh_next_run_at s1 \<le> t" "\<not> sh_active s1 \<longrightarrow> run_times sid evs = []"
        "0 < sh_interval_secs s1 \<longrightarrow> sorted_wrt (later_slot first (sh_interval_secs s1)) (run_times sid evs)"
      by blast
    have later: "later_slot first (sh_interval_secs s) (int now) t \<and> sh_next_run_at s \<le> t"
      if t: "t \<in> set (run_times sid evs)" for t
    proof -
      have a: "sh_active s1" using s2(5) t by (cases "run_times sid evs") auto
      have "sh_next_run_at s1 \<le> t" using s2(4) t by blast
      then show ?thesis using grid a slot_mono [of "sh_interval_secs s" "sh_next_run_at s1" t first]
        by (auto simp: later_slot_def)
    qed
    then show ?thesis
      using True r s2 s1(2) same after_run_fields(7) [OF r(3)] by (auto simp: same_terms_def)
  qed
qed

lemma created_budget:
  assumes "guard_inv st" "create_schedule st owner to_addr asset amount first_run interval_secs runs = Inr (sid, st1)"
    "0 \<le> interval_secs" "0 \<le> runs" "guard_steps now st1 evs st2"
  shows "int (length (run_times sid evs)) \<le> runs \<and> amount * int (length (run_times sid evs)) \<le> amount * runs
    \<and> (\<forall>t \<in> set (run_times sid evs). first_run \<le> t)
    \<and> (0 < interval_secs \<longrightarrow> sorted_wrt (later_slot first_run interval_secs) (run_times sid evs))
    \<and> (\<exists>s. cs_schedule st2 sid = Some s \<and> sh_owner s = owner \<and> sh_to s = to_addr \<and> sh_asset s = asset
        \<and> sh_amount s = amount \<and> sh_runs_left s = runs - int (length (run_times sid evs)))"
proof -
  let ?s = "new_schedule sid owner to_addr asset amount first_run interval_secs runs"
  have inv: "guard_inv st1" by (rule create_inv [OF assms(1-4)])
  have new: "cs_schedule st1 sid = Some ?s" "0 < amount" using assms(2) by (auto simp: create_schedule_Inr)
  have grid: "on_grid first_run ?s" using assms(3) by (auto simp: on_grid_def new_schedule_def intro!: exI [of _ 0])
  obtain s' where s': "cs_schedule st2 sid = Some s'" "same_terms ?s s'"
      "sh_runs_left s' = sh_runs_left ?s - int (length (run_times sid evs))"
      "\<forall>t \<in> set (run_times sid evs). sh_next_run_at ?s \<le> t"
      "0 < sh_interval_secs ?s \<longrightarrow> sorted_wrt (later_slot first_run (sh_interval_secs ?s)) (run_times sid evs)"
    using runs_of_steps [OF assms(5) inv new(1) grid] by blast
  have "0 \<le> sh_runs_left s'"
    using guard_invD(3) [OF guard_steps_inv [OF assms(5) inv] s'(1)] by (simp add: good_schedule_def)
  then have n: "int (length (run_times sid evs)) \<le> runs" using s'(3) by (simp add: new_schedule_def)
  then have "amount * int (length (run_times sid evs)) \<le> amount * runs" using new(2) by (simp add: mult_left_mono)
  then show ?thesis using n s' by (auto simp: new_schedule_def same_terms_def)
qed

text \<open>C4: What a schedule can ever pay.  However the owners change their rules, whatever the token answers
  and whenever keepers call, a schedule that was created runs at most \<open>runs\<close> times, so that it pays at
  most \<open>amount\<close> times \<open>runs\<close>; never before its first run, never twice in one slot of its interval, and
  always on the terms it was created with.\<close>

theorem schedule_budget:
  assumes "guard_steps t0 (initial_state g) evs0 st"
    "create_schedule st owner to_addr asset amount first_run interval_secs runs = Inr (sid, st1)"
    "0 \<le> interval_secs" "0 \<le> runs" "guard_steps now st1 evs st2"
  shows "int (length (run_times sid evs)) \<le> runs \<and> amount * int (length (run_times sid evs)) \<le> amount * runs
    \<and> (\<forall>t \<in> set (run_times sid evs). first_run \<le> t)
    \<and> (0 < interval_secs \<longrightarrow> sorted_wrt (later_slot first_run interval_secs) (run_times sid evs))
    \<and> (\<exists>s. cs_schedule st2 sid = Some s \<and> sh_owner s = owner \<and> sh_to s = to_addr \<and> sh_asset s = asset
        \<and> sh_amount s = amount \<and> sh_runs_left s = runs - int (length (run_times sid evs)))"
  by (rule created_budget [OF guard_steps_inv [OF assms(1) initial_inv] assms(2-5)])

text \<open>C17: A run of a repeating schedule refines the standing order: the order may run in the slot of the
  ledger time, the stored schedule afterwards stands for the order after that run, the next run lies
  on the grid, and while the schedule is active it lies after now.\<close>

theorem execute_refines_order:
  assumes "execute_schedule tk now st sid = Inr st'" "cs_schedule st sid = Some s" "on_grid first s" "0 < sh_interval_secs s"
  shows "may_run (order_of first s) (slot_of first (sh_interval_secs s) (int now))
    \<and> (\<exists>s'. cs_schedule st' sid = Some s' \<and> on_grid first s'
        \<and> order_of first s' = run_in_slot (order_of first s) (slot_of first (sh_interval_secs s) (int now))
        \<and> (sh_active s' \<longrightarrow> int now < sh_next_run_at s'))"
proof -
  from execute_schedule_Inr [OF assms(1)] obtain s' g' where e: "sh_active s" "sh_next_run_at s \<le> int now"
      "after_run (int now) s = Inr s'"
      "st' = (let st1 = st\<lparr>cs_guard := (cs_guard st)(sh_owner s := g'), cs_schedule := (cs_schedule st)(sid \<mapsto> s')\<rparr>
             in if sh_active s' then st1 else deindex st1 (sh_owner s) sid)"
    using assms(2) by auto
  from e(4) have "cs_schedule st' sid = Some s'" by (simp add: Let_def deindex_def)
  then show ?thesis using run_refines [OF e(3) assms(3,4) e(2,1)] by blast
qed

lemma map_filter_some: "(\<And>x. x \<in> set xs \<Longrightarrow> f x \<noteq> None) \<Longrightarrow> List.map_filter f xs = map (\<lambda>x. the (f x)) xs"
proof (induction xs)
  case (Cons x xs)
  then obtain y where "f x = Some y" using Cons.prems [of x] by auto
  then show ?case using Cons by (simp add: List.map_filter_simps)
qed (simp add: List.map_filter_simps)

lemma list_schedules_map:
  assumes "guard_inv st"
  shows "list_schedules st owner = map (\<lambda>i. the (cs_schedule st i)) (cs_owned st owner)"
  unfolding list_schedules_def by (rule map_filter_some) (use guard_invD(6) [OF assms] in fastforce)

lemma length_list_schedules: "guard_inv st \<Longrightarrow> length (list_schedules st owner) = length (cs_owned st owner)"
  by (simp add: list_schedules_map)

text \<open>C33: In every state the machine reaches, an owner's listing holds exactly the active schedules of that
  owner, each once and at most 25; each has runs left, and a one-shot schedule one run.\<close>

theorem listing_exact:
  assumes "guard_steps t0 (initial_state g) evs st"
  shows "distinct (list_schedules st owner) \<and> length (list_schedules st owner) \<le> 25
    \<and> set (list_schedules st owner) = {s. \<exists>i. cs_schedule st i = Some s \<and> sh_owner s = owner \<and> sh_active s}
    \<and> (\<forall>s \<in> set (list_schedules st owner). 1 \<le> sh_runs_left s \<and> 0 < sh_amount s
         \<and> (sh_interval_secs s = 0 \<longrightarrow> sh_runs_left s = 1))"
proof -
  have inv: "guard_inv st" by (rule guard_steps_inv [OF assms initial_inv])
  note d = guard_invD [OF inv]
  have some: "\<exists>s. cs_schedule st i = Some s \<and> sh_owner s = owner \<and> sh_active s" if "i \<in> set (cs_owned st owner)" for i
    using d(6) that by blast
  note l = list_schedules_map [OF inv, of owner]
  have "inj_on (\<lambda>i. the (cs_schedule st i)) (set (cs_owned st owner))"
  proof (rule inj_onI)
    fix i j assume ij: "i \<in> set (cs_owned st owner)" "j \<in> set (cs_owned st owner)"
      and e: "the (cs_schedule st i) = the (cs_schedule st j)"
    obtain s where s: "cs_schedule st i = Some s" using some [OF ij(1)] by blast
    obtain t where t: "cs_schedule st j = Some t" using some [OF ij(2)] by blast
    have "s = t" using e s t by simp
    then show "i = j" using d(3) [OF s] d(3) [OF t] by (simp add: good_schedule_def)
  qed
  then have "distinct (list_schedules st owner)" using d(4) by (simp add: l distinct_map)
  moreover have "length (list_schedules st owner) \<le> 25" using d(5) [of owner] by (simp add: l MAX_ACTIVE_PER_OWNER_def)
  moreover have set: "set (list_schedules st owner) = {s. \<exists>i. cs_schedule st i = Some s \<and> sh_owner s = owner \<and> sh_active s}"
  proof (intro set_eqI iffI)
    fix s assume "s \<in> set (list_schedules st owner)"
    then obtain i where "i \<in> set (cs_owned st owner)" "s = the (cs_schedule st i)" by (auto simp: l)
    then show "s \<in> {s. \<exists>i. cs_schedule st i = Some s \<and> sh_owner s = owner \<and> sh_active s}" using some [of i] by auto
  next
    fix s assume "s \<in> {s. \<exists>i. cs_schedule st i = Some s \<and> sh_owner s = owner \<and> sh_active s}"
    then obtain i where i: "cs_schedule st i = Some s" "sh_owner s = owner" "sh_active s" by blast
    then have "i \<in> set (cs_owned st owner)" using d(6) by blast
    then show "s \<in> set (list_schedules st owner)" using i(1) by (auto simp: l intro!: rev_image_eqI)
  qed
  moreover have "1 \<le> sh_runs_left s \<and> 0 < sh_amount s \<and> (sh_interval_secs s = 0 \<longrightarrow> sh_runs_left s = 1)"
    if "s \<in> set (list_schedules st owner)" for s
  proof -
    have "s \<in> {s. \<exists>i. cs_schedule st i = Some s \<and> sh_owner s = owner \<and> sh_active s}" using that unfolding set .
    then obtain i where "cs_schedule st i = Some s" "sh_active s" by blast
    then show ?thesis using d(3) [of i s] by (simp add: good_schedule_def)
  qed
  ultimately show ?thesis by blast
qed

section \<open>A run of the machine\<close>

definition rule_example :: rule where
  "rule_example = \<lparr>auto_approve_limit = 50000000, per_tx_limit = 100000000, daily_limit = 200000000,
     allowed_assets = [''CUSDC''], known_recipients_only = True\<rparr>"

definition contract_example :: contract_state where
  "contract_example = initial_state (\<lambda>_. \<lparr>gs_rule = Some rule_example, gs_executor = None, gs_known = (\<lambda>_. False), gs_spent = None\<rparr>)"

definition token_example :: "string \<Rightarrow> token" where
  "token_example = (\<lambda>_. \<lparr>tk_allowance = (\<lambda>_. 1000000000), tk_transfer = (\<lambda>_ _ _. True)\<rparr>)"

text \<open>Two weekly runs, the first after a missed week.\<close>

definition created_example :: contract_state where
  "created_example = contract_example\<lparr>cs_next := 2,
     cs_schedule := (cs_schedule contract_example)(1 \<mapsto> new_schedule 1 ''GOWNER'' ''GADA'' ''CUSDC'' 20000000 1000 604800 2),
     cs_owned := (cs_owned contract_example)(''GOWNER'' := [1])\<rparr>"

lemma created_example: "create_schedule contract_example ''GOWNER'' ''GADA'' ''CUSDC'' 20000000 1000 604800 2 = Inr (1, created_example)"
  unfolding create_schedule_Inr
  by (simp add: contract_example_def initial_state_def rule_example_def MAX_ACTIVE_PER_OWNER_def created_example_def)

lemma run_example: "\<exists>st. execute_schedule token_example 700000 created_example 1 = Inr st"
  by (simp add: execute_schedule_def load_schedule_def ok_or_def created_example_def contract_example_def initial_state_def
      new_schedule_def load_rule_def lift_err_def check_asset_def rule_example_def check_hard_caps_def read_spend_def
      checked_add_i128_def record_spend_def after_run_def checked_u32_def checked_u64_def settle_def token_example_def Let_def)

lemma steps_example: "\<exists>st. guard_steps 0 created_example [(700000, Ev_Ran 1)] st"
  using run_example step_run steps_cons [OF _ _ steps_nil] by blast

lemma contract_example_steps: "guard_steps 0 contract_example [] contract_example"
  by (rule steps_nil)

theorem schedule_budget_witness:
  "\<exists>st s. guard_steps 0 created_example [(700000, Ev_Ran 1)] st \<and> cs_schedule st 1 = Some s \<and> sh_runs_left s = 1"
proof -
  obtain st where st: "guard_steps 0 created_example [(700000, Ev_Ran 1)] st" using steps_example by blast
  have init: "guard_steps 0 (initial_state (\<lambda>_. \<lparr>gs_rule = Some rule_example, gs_executor = None, gs_known = (\<lambda>_. False), gs_spent = None\<rparr>))
      [] contract_example"
    using contract_example_steps by (simp add: contract_example_def)
  show ?thesis using schedule_budget [OF init created_example _ _ st] st by auto
qed

theorem execute_refines_order_witness:
  "\<exists>st s'. execute_schedule token_example 700000 created_example 1 = Inr st \<and> cs_schedule st 1 = Some s'
     \<and> order_of 1000 s' = \<lparr>so_left = 1, so_slot = 2, so_live = True\<rparr>"
proof -
  let ?s = "new_schedule 1 ''GOWNER'' ''GADA'' ''CUSDC'' 20000000 1000 604800 2"
  obtain st where st: "execute_schedule token_example 700000 created_example 1 = Inr st" using run_example by blast
  have s: "cs_schedule created_example 1 = Some ?s" "on_grid 1000 ?s" "0 < sh_interval_secs ?s"
    by (auto simp: created_example_def on_grid_def new_schedule_def intro: exI [of _ 0])
  show ?thesis using execute_refines_order [OF st s] st
    by (auto simp: order_of_def new_schedule_def slot_of_def run_in_slot_def)
qed

theorem listing_exact_witness:
  "list_schedules created_example ''GOWNER'' \<noteq> [] \<and> length (list_schedules created_example ''GOWNER'') \<le> 25"
proof -
  have "guard_steps 0 contract_example [(0, Ev_Created 1)] created_example"
    using steps_cons [OF _ step_create [OF created_example] steps_nil] by simp
  then have steps: "guard_steps 0 (initial_state (\<lambda>_. \<lparr>gs_rule = Some rule_example, gs_executor = None, gs_known = (\<lambda>_. False), gs_spent = None\<rparr>))
      [(0, Ev_Created 1)] created_example"
    by (simp add: contract_example_def)
  have "new_schedule 1 ''GOWNER'' ''GADA'' ''CUSDC'' 20000000 1000 604800 2 \<in>
      {s. \<exists>i. cs_schedule created_example i = Some s \<and> sh_owner s = ''GOWNER'' \<and> sh_active s}"
    by (auto simp: created_example_def new_schedule_def intro!: exI [of _ 1])
  then show ?thesis using listing_exact [OF steps, of "''GOWNER''"] by auto
qed

end
