(* ===== verification/Local_Time_Laws.thy ===== *)
theory Local_Time_Laws
  imports Local_Time
begin

text \<open>
  What \<open>Local_Time\<close> promises: a date is accepted exactly when the calendar has it, the chosen
  instant is the first at which the wall of the zone shows the requested time, and a time that the
  clocks skip is refused with the last second before and the first after the jump.  The laws of a
  zone are hypotheses about \<open>Intl\<close>.
\<close>

section \<open>Dates\<close>

definition wall_of :: "string \<Rightarrow> string \<Rightarrow> wall" where
  "wall_of localDate localTime =
     (let ymd = numbers_of CHR ''-'' localDate; hm = numbers_of CHR '':'' localTime
      in \<lparr>wl_year = nth_or 0 ymd 0, wl_month = nth_or 0 ymd 1, wl_day = nth_or 0 ymd 2,
          wl_hour = nth_or 0 hm 0, wl_minute = nth_or 0 hm 1\<rparr>)"

text \<open>A minute of the calendar, from the year 100 on.\<close>

definition real_wall :: "'a wall_scheme \<Rightarrow> bool" where
  "real_wall w \<longleftrightarrow> valid_date (wl_year w) (wl_month w) (wl_day w) \<and> valid_clock (wl_hour w) (wl_minute w) 0 \<and> 100 \<le> wl_year w"

lemma digits_bound: "digits n s \<Longrightarrow> 0 \<le> int (nat_of_dec s) \<and> int (nat_of_dec s) < 10 ^ n"
  using nat_of_dec_bound [of s] by (auto simp: digits_def)

lemma wall_of_bounds:
  assumes "DATE_RE d" "TIME_RE t"
  shows "0 \<le> wl_year (wall_of d t)" "wl_year (wall_of d t) < 10000" "0 \<le> wl_month (wall_of d t)" "wl_month (wall_of d t) < 100"
    "0 \<le> wl_day (wall_of d t)" "wl_day (wall_of d t) < 100" "0 \<le> wl_hour (wall_of d t)" "0 \<le> wl_minute (wall_of d t)"
proof -
  obtain ys ms ds where d: "js_split CHR ''-'' d = [ys, ms, ds]" "digits 4 ys" "digits 2 ms" "digits 2 ds"
    using assms(1) by (auto simp: DATE_RE_def split: list.splits)
  obtain hs mis where t: "js_split CHR '':'' t = [hs, mis]" "digits 2 hs" "digits 2 mis"
    using assms(2) by (auto simp: TIME_RE_def split: list.splits)
  have w: "wall_of d t = \<lparr>wl_year = int (nat_of_dec ys), wl_month = int (nat_of_dec ms), wl_day = int (nat_of_dec ds),
      wl_hour = int (nat_of_dec hs), wl_minute = int (nat_of_dec mis)\<rparr>"
    by (simp add: wall_of_def numbers_of_def d(1) t(1) nth_or_def)
  show "0 \<le> wl_year (wall_of d t)" "wl_year (wall_of d t) < 10000" "0 \<le> wl_month (wall_of d t)" "wl_month (wall_of d t) < 100"
    "0 \<le> wl_day (wall_of d t)" "wl_day (wall_of d t) < 100" "0 \<le> wl_hour (wall_of d t)" "0 \<le> wl_minute (wall_of d t)"
    using digits_bound [OF d(2)] digits_bound [OF d(3)] digits_bound [OF d(4)] by (simp_all add: w)
qed

text \<open>The check of \<open>parseWall\<close>: \<open>Date.UTC\<close> returns the fields it was given only for a real date
  that it does not move to the twentieth century.\<close>

lemma check_date:
  assumes "1 \<le> m" "m \<le> 12" "0 \<le> d" "0 \<le> y"
  shows "getUTCFullYear (date_utc y (m - 1) d 0 0 0) = y \<and> getUTCMonth (date_utc y (m - 1) d 0 0 0) = m - 1
      \<and> getUTCDate (date_utc y (m - 1) d 0 0 0) = d \<longleftrightarrow> valid_date y m d \<and> 100 \<le> y" (is "?l \<longleftrightarrow> ?r")
proof
  let ?t = "date_utc y (m - 1) d 0 0 0"
  assume l: ?l
  then have v: "valid_date y m d" using utc_fields_valid [of ?t] by simp
  have "\<not> y \<le> 99"
  proof
    assume "y \<le> 99"
    then have "?t = make_day (1900 + y) (m - 1) d * 86400000" using assms by (simp add: date_utc_def)
    then have u: "utc_day ?t = make_day (1900 + y) (m - 1) d" by (simp add: utc_day_def)
    have "day_from_year (1900 + y) - 1 \<le> make_day (1900 + y) (m - 1) d"
      using assms month_end_bound [of "m - 1" "leap_year (1900 + y)"] by (simp add: make_day_def Let_def)
    moreover have "day_from_year (y + 1) + 365 \<le> day_from_year (1900 + y)"
      using day_from_year_mono [of "y + 2" "1900 + y"] year_step [of "y + 1"] year_length_bounds [of "y + 1"]
        by (simp add: add.commute)
    moreover have "utc_day ?t < day_from_year (y + 1)"
      using l year_from_day [of "utc_day ?t"] by (simp add: getUTCFullYear_def)
    ultimately show False using u by linarith
  qed
  with v show ?r by simp
next
  assume ?r
  then have "valid_date y m d" "valid_clock 0 0 0" "y < 0 \<or> 100 \<le> y" by (simp_all add: valid_clock_def)
  then show ?l using utc_fields by blast
qed

lemma month_length_pos: "valid_date y m d \<Longrightarrow> 1 \<le> m \<and> m \<le> 12 \<and> 1 \<le> d"
  by (simp add: valid_date_def)

lemma parse_wall_eq:
  assumes "DATE_RE localDate" "TIME_RE localTime"
  shows "parseWall localDate localTime =
    (if real_wall (wall_of localDate localTime) then Inr (wall_of localDate localTime) else Inl invalidTime)"
proof -
  define y m d h mi where "y = wl_year (wall_of localDate localTime)" and "m = wl_month (wall_of localDate localTime)"
    and "d = wl_day (wall_of localDate localTime)" and "h = wl_hour (wall_of localDate localTime)"
    and "mi = wl_minute (wall_of localDate localTime)"
  note b = wall_of_bounds [OF assms, folded y_def m_def d_def h_def mi_def]
  define t where "t = date_utc y (m - 1) d 0 0 0"
  have e: "parseWall localDate localTime =
      (if m < 1 \<or> m > 12 then Inl invalidTime else if h > 23 then Inl invalidTime else if mi > 59 then Inl invalidTime
       else if getUTCFullYear t \<noteq> y \<or> getUTCMonth t \<noteq> m - 1 \<or> getUTCDate t \<noteq> d then Inl invalidTime
       else Inr (wall_of localDate localTime))"
    by (simp add: parseWall_def wall_of_def y_def m_def d_def h_def mi_def t_def Let_def)
  have r: "real_wall (wall_of localDate localTime) \<longleftrightarrow> valid_date y m d \<and> h \<le> 23 \<and> mi \<le> 59 \<and> 100 \<le> y"
    using b by (auto simp: real_wall_def valid_clock_def y_def m_def d_def h_def mi_def)
  show ?thesis
    using check_date [of m d y, folded t_def] b month_length_pos [of y m d] unfolding e r by auto
qed

section \<open>Reading back a printed minute\<close>

definition wall_date :: "wall \<Rightarrow> string" where
  "wall_date w = pad_int 4 (wl_year w) @ ''-'' @ pad_int 2 (wl_month w) @ ''-'' @ pad_int 2 (wl_day w)"

definition wall_time :: "wall \<Rightarrow> string" where
  "wall_time w = pad_int 2 (wl_hour w) @ '':'' @ pad_int 2 (wl_minute w)"

lemma pad_int_digits:
  assumes "0 \<le> n" "n < 10 ^ k" "0 < k"
  shows "digits k (pad_int k n)" "int (nat_of_dec (pad_int k n)) = n"
proof -
  have "nat n < 10 ^ k" using assms by (simp add: nat_less_iff)
  then have "length (dec_digits (nat n)) \<le> k" using dec_digits_length [OF assms(3), of "nat n"] by simp
  then show "digits k (pad_int k n)" using assms(1) by (simp add: digits_def pad_int_def list_all_pad_start)
  show "int (nat_of_dec (pad_int k n)) = n" using assms(1) by (simp add: pad_int_def)
qed

lemma digits_sep: "digits k s \<Longrightarrow> \<not> is_digit c \<Longrightarrow> c \<notin> set s"
  by (auto simp: digits_def list_all_iff)

lemma real_wall_bounds:
  assumes "real_wall w" "wl_year w < 10000"
  shows "0 \<le> wl_year w \<and> wl_year w < 10 ^ 4" "0 \<le> wl_month w \<and> wl_month w < 10 ^ 2" "0 \<le> wl_day w \<and> wl_day w < 10 ^ 2"
    "0 \<le> wl_hour w \<and> wl_hour w < 10 ^ 2" "0 \<le> wl_minute w \<and> wl_minute w < 10 ^ 2"
proof -
  have m: "0 \<le> wl_month w - 1" "wl_month w - 1 \<le> 11" using assms by (simp_all add: real_wall_def valid_date_def)
  have "month_length (wl_year w) (wl_month w - 1) \<le> 31"
    using months [OF m] by (cases "leap_year (wl_year w)") (auto simp: month_length_end month_end_def month_start_values)
  then show "0 \<le> wl_year w \<and> wl_year w < 10 ^ 4" "0 \<le> wl_month w \<and> wl_month w < 10 ^ 2" "0 \<le> wl_day w \<and> wl_day w < 10 ^ 2"
    "0 \<le> wl_hour w \<and> wl_hour w < 10 ^ 2" "0 \<le> wl_minute w \<and> wl_minute w < 10 ^ 2"
    using assms by (simp_all add: real_wall_def valid_date_def valid_clock_def)
qed

lemma printed_wall:
  assumes "real_wall w" "wl_year w < 10000"
  shows "DATE_RE (wall_date w) \<and> TIME_RE (wall_time w) \<and> wall_of (wall_date w) (wall_time w) = w"
proof -
  note b = real_wall_bounds [OF assms]
  have d: "digits 4 (pad_int 4 (wl_year w))" "digits 2 (pad_int 2 (wl_month w))" "digits 2 (pad_int 2 (wl_day w))"
      "digits 2 (pad_int 2 (wl_hour w))" "digits 2 (pad_int 2 (wl_minute w))"
    using b by (auto intro: pad_int_digits)
  have nd: "\<not> is_digit CHR ''-''" "\<not> is_digit CHR '':''" by (simp_all add: is_digit_def char_code_def)
  have "js_split CHR ''-'' (wall_date w) = [pad_int 4 (wl_year w), pad_int 2 (wl_month w), pad_int 2 (wl_day w)]"
    using digits_sep [OF d(1) nd(1)] digits_sep [OF d(2) nd(1)] digits_sep [OF d(3) nd(1)]
    by (simp add: wall_date_def js_split_sep js_split_no_sep)
  moreover have "js_split CHR '':'' (wall_time w) = [pad_int 2 (wl_hour w), pad_int 2 (wl_minute w)]"
    using digits_sep [OF d(4) nd(2)] digits_sep [OF d(5) nd(2)] by (simp add: wall_time_def js_split_sep js_split_no_sep)
  ultimately show ?thesis
    using d b by (simp add: DATE_RE_def TIME_RE_def wall_of_def numbers_of_def nth_or_def pad_int_digits(2))
qed

lemma printed_parse: "real_wall w \<Longrightarrow> wl_year w < 10000 \<Longrightarrow> parseWall (wall_date w) (wall_time w) = Inr w"
  using parse_wall_eq [of "wall_date w" "wall_time w"] printed_wall [of w] by auto

section \<open>Instants\<close>

text \<open>The wall of the zone shows the minute \<open>w\<close> at second 0, at the whole second \<open>t\<close>.\<close>

definition shows_wall :: "zone_env \<Rightarrow> string \<Rightarrow> wall \<Rightarrow> int \<Rightarrow> bool" where
  "shows_wall env z w t \<longleftrightarrow> t mod 1000 = 0 \<and> same_minute (wallAt env z t) w \<and> wl_second (wallAt env z t) = 0"

lemma floor_second_whole [simp]: "t mod 1000 = 0 \<Longrightarrow> floor_second t = t"
  unfolding floor_second_def using div_mult_mod_eq [of t 1000] by simp

lemma floor_second_idem [simp]: "floor_second (floor_second t) = floor_second t"
  by (simp add: floor_second_def)

lemma wallAt_floor [simp]: "wallAt env z (floor_second t) = wallAt env z t"
  by (simp add: wallAt_def)

lemma date_utc_second: "date_utc y m d h mi s = date_utc y m d h mi 0 + s * 1000"
  by (simp add: date_utc_def)

lemma date_utc_whole: "date_utc y m d h mi s mod 1000 = 0"
proof -
  have "date_utc y m d h mi s = 1000 * (make_day (if 0 \<le> y \<and> y \<le> 99 then 1900 + y else y) m d * 86400 + h * 3600 + mi * 60 + s)"
    by (simp add: date_utc_def Let_def)
  then show ?thesis by simp
qed

lemma wall_utc_whole: "wall_utc w s mod 1000 = 0"
  by (simp add: wall_utc_def date_utc_whole)

lemma wall_utc_same: "same_minute v w \<Longrightarrow> wall_utc v s = wall_utc w 0 + s * 1000"
  unfolding wall_utc_def same_minute_def by (metis date_utc_second)

text \<open>The wall clock of the zone at \<open>t\<close>, read as UTC, is the offset away from \<open>t\<close>.\<close>

lemma offset_wall:
  "wall_utc (wallAt env z t) (wl_second (wallAt env z t)) = floor_second t + 1000 * offsetSecondsAt env z t"
proof -
  have "1000 dvd wall_utc (wallAt env z t) (wl_second (wallAt env z t)) - floor_second t"
    using wall_utc_whole by (auto simp: floor_second_def mod_eq_0_iff_dvd intro!: dvd_diff)
  then show ?thesis by (simp add: offsetSecondsAt_def Let_def)
qed

lemma shows_offset: "shows_wall env z w t \<Longrightarrow> t = wall_utc w 0 - offsetSecondsAt env z t * 1000"
  using offset_wall [of env z t] wall_utc_same [of "wallAt env z t" w 0] by (auto simp: shows_wall_def)

lemma found_shows:
  assumes "found_at env z w (wall_utc w 0) offset"
  shows "shows_wall env z w (wall_utc w 0 - offset * 1000)"
proof -
  let ?t = "wall_utc w 0 - offset * 1000"
  have m: "same_minute (wallAt env z ?t) w" and o: "offsetSecondsAt env z ?t = offset"
    using assms by (simp_all add: found_at_def Let_def)
  have "1000 dvd ?t" using wall_utc_whole [of w 0] by (simp add: mod_eq_0_iff_dvd)
  then have whole: "?t mod 1000 = 0" by (simp only: mod_eq_0_iff_dvd)
  have "wall_utc (wallAt env z ?t) (wl_second (wallAt env z ?t)) = ?t + 1000 * offset"
    using offset_wall [of env z ?t] whole o by simp
  then have "wl_second (wallAt env z ?t) = 0" using wall_utc_same [OF m, of "wl_second (wallAt env z ?t)"] by simp
  then show ?thesis using whole m by (simp add: shows_wall_def)
qed

lemma shows_found: "shows_wall env z w t \<Longrightarrow> found_at env z w (wall_utc w 0) (offsetSecondsAt env z t)"
  unfolding found_at_def Let_def by (subst (1 2) shows_offset [symmetric]) (auto simp: shows_wall_def)

lemma possible_iff:
  "t \<in> set (possibleInstants env z w) \<longleftrightarrow>
     shows_wall env z w t \<and> offsetSecondsAt env z t \<in> set (probe_offsets env z (wall_utc w 0))" (is "?l \<longleftrightarrow> ?r")
proof
  assume ?l
  then obtain k where k: "k \<in> set (probe_offsets env z (wall_utc w 0))" "found_at env z w (wall_utc w 0) k"
      and t: "t = wall_utc w 0 - k * 1000"
    by (auto simp: possibleInstants_def Let_def)
  then show ?r using found_shows [OF k(2)] by (simp add: found_at_def Let_def)
next
  assume r: ?r
  then have "found_at env z w (wall_utc w 0) (offsetSecondsAt env z t)" by (simp add: shows_found)
  with r show ?l using shows_offset [of env z w t] by (auto simp: possibleInstants_def Let_def intro!: rev_image_eqI)
qed

lemma possible_sorted: "sorted (possibleInstants env z w)" "distinct (possibleInstants env z w)"
  by (simp_all add: possibleInstants_def Let_def js_sort_asc)

section \<open>The jump between two offsets\<close>

text \<open>
  The loop halves an interval whose ends are whole seconds with different offsets: it ends, at a
  second whose predecessor still has the first offset.
\<close>

lemma whole_half:
  fixes a b :: int
  assumes "1 < b - a"
  shows "a < (a + b) div 2" "(a + b) div 2 < b"
  using assms by linarith+

lemma bisect_finds:
  assumes "a < b" "offsetSecondsAt env z (1000 * a) = before" "offsetSecondsAt env z (1000 * b) \<noteq> before"
  shows "\<exists>m. bisect env z before (1000 * a) (1000 * b) = Some (1000 * m) \<and> a < m \<and> m \<le> b
    \<and> offsetSecondsAt env z (1000 * (m - 1)) = before \<and> offsetSecondsAt env z (1000 * m) \<noteq> before"
  using assms
proof (induction "nat (b - a)" arbitrary: a b rule: less_induct)
  case less
  show ?case
  proof (cases "b - a > 1")
    case False
    then have "b = a + 1" using less.prems by simp
    then show ?thesis using less.prems by (subst bisect.simps) (auto intro!: exI [of _ b])
  next
    case True
    define c where "c = (a + b) div 2"
    have c: "a < c" "c < b" using whole_half [OF True] by (simp_all add: c_def)
    have mid: "(1000 * a + 1000 * b) div 2000 * 1000 = 1000 * c"
      using div_mult_mult1 [of 1000 "a + b" 2] by (simp add: c_def distrib_left)
    have step: "bisect env z before (1000 * a) (1000 * b) =
        (if offsetSecondsAt env z (1000 * c) = before then bisect env z before (1000 * c) (1000 * b)
         else bisect env z before (1000 * a) (1000 * c))"
      using True by (subst bisect.simps) (simp add: mid)
    show ?thesis
    proof (cases "offsetSecondsAt env z (1000 * c) = before")
      case True
      have "nat (b - c) < nat (b - a)" using c by simp
      from less.hyps [OF this c(2) True less.prems(3)] show ?thesis using c True step by auto
    next
      case False
      have "nat (c - a) < nat (b - a)" using c by simp
      from less.hyps [OF this c(1) less.prems(2) False] show ?thesis using c False step by auto
    qed
  qed
qed

lemma find_transition:
  assumes "center mod 1000 = 0"
  shows "findTransition env z center = Some None
      \<and> offsetSecondsAt env z (center - 129600000) = offsetSecondsAt env z (center + 129600000)
    \<or> (\<exists>t. findTransition env z center = Some (Some t) \<and> t mod 1000 = 0
        \<and> center - 129600000 < t \<and> t \<le> center + 129600000
        \<and> offsetSecondsAt env z (t - 1000) = offsetSecondsAt env z (center - 129600000)
        \<and> offsetSecondsAt env z t \<noteq> offsetSecondsAt env z (center - 129600000))"
proof (cases "offsetSecondsAt env z (center - 129600000) = offsetSecondsAt env z (center + 129600000)")
  case True
  then show ?thesis by (simp add: findTransition_def)
next
  case False
  obtain k where k: "center = 1000 * k" using assms by (auto elim: dvdE simp: mod_eq_0_iff_dvd)
  have e: "center - 129600000 = 1000 * (k - 129600)" "center + 129600000 = 1000 * (k + 129600)" by (simp_all add: k)
  have lt: "k - 129600 < k + 129600" by simp
  have ne: "offsetSecondsAt env z (1000 * (k + 129600)) \<noteq> offsetSecondsAt env z (1000 * (k - 129600))"
    using False unfolding e by (rule not_sym)
  obtain m where m: "bisect env z (offsetSecondsAt env z (1000 * (k - 129600))) (1000 * (k - 129600)) (1000 * (k + 129600)) = Some (1000 * m)"
      "k - 129600 < m" "m \<le> k + 129600" "offsetSecondsAt env z (1000 * (m - 1)) = offsetSecondsAt env z (1000 * (k - 129600))"
      "offsetSecondsAt env z (1000 * m) \<noteq> offsetSecondsAt env z (1000 * (k - 129600))"
    using bisect_finds [OF lt refl ne] by blast
  have "findTransition env z center = Some (Some (1000 * m))"
    using False m(1) unfolding e by (simp add: findTransition_def e [symmetric]) (simp add: e)
  moreover have "1000 * m - 1000 = 1000 * (m - 1)" by simp
  ultimately show ?thesis using m unfolding e by auto
qed

lemma resolve_total: "\<exists>r. resolveLocalTime env clock input = Some r"
proof -
  have "\<exists>e. missing_time env z w = Some e" for z w
    using find_transition [OF wall_utc_whole [of w 0], of env z] by (auto simp: missing_time_def Let_def)
  then show ?thesis by (auto simp: resolveLocalTime_def Let_def split: sum.splits)
qed

text \<open>The resolution of a local time always ends: the search for a jump halves an interval of whole
  seconds whose ends have different offsets, whatever the zone does.\<close>

theorem resolve_returns: "\<exists>r. resolveLocalTime env clock input = Some r"
  by (rule resolve_total)

section \<open>The chosen instant\<close>

text \<open>The offset of the zone changes at most once between two instants.\<close>

definition one_change :: "zone_env \<Rightarrow> string \<Rightarrow> int \<Rightarrow> int \<Rightarrow> bool" where
  "one_change env z lo hi \<longleftrightarrow>
     (\<exists>jump. \<forall>t. lo \<le> t \<and> t \<le> hi \<longrightarrow>
        offsetSecondsAt env z t = (if t < jump then offsetSecondsAt env z lo else offsetSecondsAt env z hi))"

text \<open>Around the wall \<open>w\<close>: no offset beyond a day where it shows, and at most one change.\<close>

definition usual_zone :: "zone_env \<Rightarrow> string \<Rightarrow> wall \<Rightarrow> bool" where
  "usual_zone env z w \<longleftrightarrow>
     (\<forall>t. shows_wall env z w t \<longrightarrow> \<bar>offsetSecondsAt env z t\<bar> \<le> 86400)
     \<and> one_change env z (wall_utc w 0 - 86400000) (wall_utc w 0 + 86400000)"

definition earliest :: "zone_env \<Rightarrow> string \<Rightarrow> wall \<Rightarrow> int \<Rightarrow> bool" where
  "earliest env z w t \<longleftrightarrow> shows_wall env z w t \<and> (\<forall>t'. shows_wall env z w t' \<longrightarrow> t \<le> t')"

lemma possible_complete:
  assumes "usual_zone env z w"
  shows "set (possibleInstants env z w) = {t. shows_wall env z w t}"
proof -
  let ?u = "wall_utc w 0"
  have "offsetSecondsAt env z t \<in> set (probe_offsets env z ?u)" if s: "shows_wall env z w t" for t
  proof -
    have "\<bar>offsetSecondsAt env z t\<bar> \<le> 86400" using assms s by (simp add: usual_zone_def)
    then have "?u - 86400000 \<le> t" "t \<le> ?u + 86400000" using shows_offset [OF s] by linarith+
    then have "offsetSecondsAt env z t \<in> {offsetSecondsAt env z (?u - 86400000), offsetSecondsAt env z (?u + 86400000)}"
      using assms unfolding usual_zone_def one_change_def by (metis insert_iff)
    then show ?thesis by (auto simp: probe_offsets_def)
  qed
  then show ?thesis by (auto simp: possible_iff)
qed

lemma shows_iff_possible: "usual_zone env z w \<Longrightarrow> shows_wall env z w t \<longleftrightarrow> t \<in> set (possibleInstants env z w)"
  by (simp add: possible_complete)

lemma possible_hd:
  assumes "usual_zone env z w" "earliest env z w t"
  shows "\<exists>ts. possibleInstants env z w = t # ts"
proof -
  have t: "t \<in> set (possibleInstants env z w)" "\<forall>t' \<in> set (possibleInstants env z w). t \<le> t'"
    using assms(2) by (simp_all add: possible_complete [OF assms(1)] earliest_def)
  then obtain t0 ts where l: "possibleInstants env z w = t0 # ts" by (cases "possibleInstants env z w") auto
  then have "t0 \<le> t" "t \<le> t0" using t possible_sorted(1) [of env z w] by auto
  then show ?thesis using l by simp
qed

lemma possible_many:
  assumes "usual_zone env z w" "earliest env z w t"
  shows "length (possibleInstants env z w) > 1 \<longleftrightarrow> (\<exists>t'. shows_wall env z w t' \<and> t' \<noteq> t)"
proof -
  obtain ts where l: "possibleInstants env z w = t # ts" using possible_hd [OF assms] by blast
  then have "t \<notin> set ts" using possible_sorted(2) [of env z w] by simp
  then have "(\<exists>t'. shows_wall env z w t' \<and> t' \<noteq> t) \<longleftrightarrow> ts \<noteq> []"
    unfolding shows_iff_possible [OF assms(1)] l by (cases ts) auto
  then show ?thesis by (simp add: l)
qed

lemma time_args_parts:
  assumes "time_args env clock input = Inr (z, w, lead, now)"
  shows "real_wall w" "wl_year w < 10000" "0 \<le> lead" "isValidTimeZone env (V_Str z)"
proof -
  obtain i d t where i: "input = Some i" "ti_localDate i = V_Str d" "ti_localTime i = V_Str t" "DATE_RE d" "TIME_RE t"
      "parseWall d t = Inr w" "min_lead (ti_minLeadSeconds i) = Inr lead" "isValidTimeZone env (V_Str z)"
    using assms by (auto simp: time_args_def split: option.splits js_value.splits if_splits)
  then have e: "real_wall (wall_of d t)" "w = wall_of d t"
    using parse_wall_eq [OF i(4,5)] by (auto split: if_splits)
  then show "real_wall w" "wl_year w < 10000" using wall_of_bounds [OF i(4,5)] by simp_all
  show "0 \<le> lead" using i(7) by (auto simp: min_lead_def split: js_value.splits js_number.splits if_splits)
  show "isValidTimeZone env (V_Str z)" by (rule i(8))
qed

text \<open>A real minute before the year 10000 lies well inside the range of a \<open>Date\<close>.\<close>

lemma wall_utc_range:
  assumes "real_wall w" "wl_year w < 10000"
  shows "- 60000000000000 \<le> wall_utc w 0 \<and> wall_utc w 0 \<le> 254000000000000"
proof -
  have v: "valid_date (wl_year w) (wl_month w) (wl_day w)" "valid_clock (wl_hour w) (wl_minute w) 0" "100 \<le> wl_year w"
    using assms by (simp_all add: real_wall_def)
  let ?n = "make_day (wl_year w) (wl_month w - 1) (wl_day w)"
  have y: "day_from_year (wl_year w) \<le> ?n \<and> ?n < day_from_year (wl_year w) + year_length (wl_year w)"
    using make_day_date(1) [OF v(1)] by (simp only: year_of_iff)
  note y1 = conjunct1 [OF y] and y2 = conjunct2 [OF y]
  have "wall_utc w 0 = ?n * 86400000 + (wl_hour w * 3600000 + wl_minute w * 60000 + 0 * 1000)"
    using v(3) by (simp add: wall_utc_def date_utc_def Let_def)
  moreover have "- 60000000000000 \<le> n * 86400000 + c \<and> n * 86400000 + c \<le> 254000000000000"
    if "d \<le> n" "n < d + l" "146097 * (y - 1970) - 506 \<le> 400 * d" "400 * d \<le> 146097 * (y - 1970) + 589"
      "l \<le> 366" "100 \<le> y" "y < 10000" "0 \<le> c" "c < 86400000" for d n l y c :: int
    using that by simp
  note this [OF y1 y2 day_from_year_bounds year_length_bounds(2) v(3) assms(2)
    conjunct1 [OF valid_clock_bound [OF v(2)]] conjunct2 [OF valid_clock_bound [OF v(2)]]]
  ultimately show ?thesis by simp
qed

text \<open>C15: The chosen instant is the first at which the wall of the zone shows the requested minute.  It is
  returned when it lies at least the lead after now, and refused with that instant otherwise; the
  result says so when a second instant shows the same minute; and a minute the zone never shows is
  refused as such.  The zone is one of \<open>Intl\<close>: within a day of UTC, with at most one change of the
  offset in the two days around the minute.\<close>

theorem resolve_picks_earliest:
  assumes args: "time_args env clock input = Inr (z, w, lead, now)" and zone: "usual_zone env z w"
  shows "(resolveLocalTime env clock input = Some (Inr r) \<longrightarrow>
      earliest env z w (1000 * rt_epochSeconds r)
      \<and> of_int (now div 1000) + lead \<le> of_int (rt_epochSeconds r)
      \<and> (rt_ambiguous r \<longleftrightarrow> (\<exists>t. shows_wall env z w t \<and> t \<noteq> 1000 * rt_epochSeconds r)))
    \<and> (earliest env z w (1000 * s) \<and> of_int (now div 1000) + lead \<le> of_int s \<longrightarrow>
      (\<exists>r. resolveLocalTime env clock input = Some (Inr r) \<and> rt_epochSeconds r = s))
    \<and> (earliest env z w (1000 * s) \<and> of_int s < of_int (now div 1000) + lead \<longrightarrow>
      resolveLocalTime env clock input = Some (Inl (Schedule_Refusal Sr_Time_In_Past (Too_Early s (now div 1000) lead))))
    \<and> ((\<exists>t. shows_wall env z w t) \<or>
      (\<exists>before after. resolveLocalTime env clock input
         = Some (Inl (Schedule_Refusal Sr_Time_Does_Not_Exist (Nearest_Times before after)))))"
    (is "?ok \<and> ?late \<and> ?past \<and> ?missing")
proof -
  have found: "resolveLocalTime env clock input = Some (resolved_at env z w lead now (possibleInstants env z w))"
    if "possibleInstants env z w = t # ts" for t ts
    using that by (simp add: resolveLocalTime_def args)
  have empty: "resolveLocalTime env clock input = map_option Inl (missing_time env z w)"
    if "possibleInstants env z w = []"
    using that by (simp add: resolveLocalTime_def args)
  have miss: "\<exists>b a. missing_time env z w = Some (Schedule_Refusal Sr_Time_Does_Not_Exist (Nearest_Times b a))"
    using find_transition [OF wall_utc_whole [of w 0], of env z] by (auto simp: missing_time_def Let_def)
  have iso: "\<exists>u. iso_string t = Inr u" if t: "shows_wall env z w t" for t
  proof -
    have "\<bar>offsetSecondsAt env z t\<bar> \<le> 86400" using zone t by (simp add: usual_zone_def)
    then have "\<bar>t\<bar> \<le> 8640000000000000"
      using shows_offset [OF t] wall_utc_range [OF time_args_parts(1,2) [OF args]] by linarith
    then show ?thesis by (simp add: iso_string_def)
  qed
  have at: "\<exists>u. resolved_at env z w lead now (possibleInstants env z w) =
      (if of_int (t div 1000) < of_int (now div 1000) + lead
       then Inl (Schedule_Refusal Sr_Time_In_Past (Too_Early (t div 1000) (now div 1000) lead))
       else Inr \<lparr>rt_epochSeconds = t div 1000, rt_utcIso = u, rt_localIso = toLocalIso env w 0 (offsetSecondsAt env z t),
             rt_offsetMinutes = of_int (offsetSecondsAt env z t) / 60, rt_ambiguous = length (possibleInstants env z w) > 1\<rparr>)"
    and whole: "1000 * (t div 1000) = t" and hd: "\<exists>ts. possibleInstants env z w = t # ts" if t: "earliest env z w t" for t
  proof -
    show hd: "\<exists>ts. possibleInstants env z w = t # ts" by (rule possible_hd [OF zone t])
    show w: "1000 * (t div 1000) = t" using t mult_div_mod_eq [of 1000 t] by (simp add: earliest_def shows_wall_def)
    obtain u where "iso_string (t div 1000 * 1000) = Inr u" using iso [of t] t w by (auto simp: earliest_def mult.commute)
    then show "\<exists>u. resolved_at env z w lead now (possibleInstants env z w) =
      (if of_int (t div 1000) < of_int (now div 1000) + lead
       then Inl (Schedule_Refusal Sr_Time_In_Past (Too_Early (t div 1000) (now div 1000) lead))
       else Inr \<lparr>rt_epochSeconds = t div 1000, rt_utcIso = u, rt_localIso = toLocalIso env w 0 (offsetSecondsAt env z t),
             rt_offsetMinutes = of_int (offsetSecondsAt env z t) / 60, rt_ambiguous = length (possibleInstants env z w) > 1\<rparr>)"
      using hd by (auto simp: resolved_at_def nth_or_def Let_def)
  qed
  have first: "earliest env z w t" if "possibleInstants env z w = t # ts" for t ts
  proof -
    have "\<forall>t' \<in> set ts. t \<le> t'" using possible_sorted(1) [of env z w] that by simp
    then show ?thesis unfolding earliest_def shows_iff_possible [OF zone] that by simp
  qed
  have ?ok
  proof
    assume r: "resolveLocalTime env clock input = Some (Inr r)"
    then obtain t ts where l: "possibleInstants env z w = t # ts"
      using empty miss by (cases "possibleInstants env z w") auto
    note t = first [OF l]
    show "earliest env z w (1000 * rt_epochSeconds r) \<and> of_int (now div 1000) + lead \<le> of_int (rt_epochSeconds r)
      \<and> (rt_ambiguous r \<longleftrightarrow> (\<exists>t. shows_wall env z w t \<and> t \<noteq> 1000 * rt_epochSeconds r))"
      using r found [OF l] at [OF t] whole [OF t] t possible_many [OF zone t] by (auto split: if_splits)
  qed
  moreover have ?late ?past
    using at [of "1000 * s"] hd [of "1000 * s"] found by auto
  moreover have ?missing
    using empty miss possible_complete [OF zone] by (cases "possibleInstants env z w") auto
  ultimately show ?thesis by blast
qed

section \<open>A time the clocks skip\<close>

text \<open>Two minutes that read the same as UTC are the same minute.\<close>

lemma sexagesimal:
  fixes a b c d :: int
  assumes "a * 60 + b = c * 60 + d" "0 \<le> b" "b \<le> 59" "0 \<le> d" "d \<le> 59"
  shows "a = c \<and> b = d"
proof -
  have "\<not> a + 1 \<le> c" "\<not> c + 1 \<le> a" using assms by simp_all
  then have "a = c" by simp
  then show ?thesis using assms(1) by simp
qed

definition real_clock :: "wall_clock \<Rightarrow> bool" where
  "real_clock v \<longleftrightarrow> valid_date (wl_year v) (wl_month v) (wl_day v)
     \<and> valid_clock (wl_hour v) (wl_minute v) (wl_second v) \<and> 100 \<le> wl_year v"

lemma wall_utc_inj:
  assumes v: "real_clock v" and w: "real_wall w" and e: "wall_utc v (wl_second v) = wall_utc w 0"
  shows "same_minute v w \<and> wl_second v = 0"
proof -
  have vd: "valid_date (wl_year v) (wl_month v) (wl_day v)" "valid_clock (wl_hour v) (wl_minute v) (wl_second v)"
      "wl_year v < 0 \<or> 100 \<le> wl_year v"
    and wd: "valid_date (wl_year w) (wl_month w) (wl_day w)" "valid_clock (wl_hour w) (wl_minute w) 0"
      "wl_year w < 0 \<or> 100 \<le> wl_year w"
    using v w by (simp_all add: real_clock_def real_wall_def)
  have f: "wl_year v = wl_year w" "wl_month v = wl_month w" "wl_day v = wl_day w"
    using utc_fields [OF vd] utc_fields [OF wd] e by (simp_all add: wall_utc_def)
  then have "wl_hour v * 3600000 + wl_minute v * 60000 + wl_second v * 1000 = wl_hour w * 3600000 + wl_minute w * 60000"
    using e by (simp add: wall_utc_def date_utc_def Let_def)
  then have s: "(wl_hour v * 60 + wl_minute v) * 60 + wl_second v = (wl_hour w * 60 + wl_minute w) * 60 + 0" by simp
  then have hm: "wl_hour v * 60 + wl_minute v = wl_hour w * 60 + wl_minute w" "wl_second v = 0"
    using sexagesimal [OF s] vd(2) by (simp_all add: valid_clock_def)
  then show ?thesis using sexagesimal [OF hm(1)] vd(2) wd(2) f by (simp add: valid_clock_def same_minute_def)
qed

text \<open>Between two instants the walls of the zone are those of the calendar, at most a day from UTC.\<close>

definition calendar_zone :: "zone_env \<Rightarrow> string \<Rightarrow> int \<Rightarrow> int \<Rightarrow> bool" where
  "calendar_zone env z lo hi \<longleftrightarrow>
     (\<forall>t. lo \<le> t \<and> t \<le> hi \<longrightarrow> real_clock (wallAt env z t) \<and> \<bar>offsetSecondsAt env z t\<bar> \<le> 86400)"

lemma shows_if_offset:
  assumes "calendar_zone env z lo hi" "real_wall w" "wall_utc w 0 - 1000 * k = t" "lo \<le> t" "t \<le> hi" "offsetSecondsAt env z t = k"
  shows "shows_wall env z w t"
proof -
  have "1000 dvd t" using wall_utc_whole [of w 0] assms(3) by (auto simp: mod_eq_0_iff_dvd)
  then have whole: "t mod 1000 = 0" by (simp add: mod_eq_0_iff_dvd)
  have "real_clock (wallAt env z t)" using assms by (simp add: calendar_zone_def)
  moreover have "wall_utc (wallAt env z t) (wl_second (wallAt env z t)) = wall_utc w 0"
    using offset_wall [of env z t] whole assms(3,6) by simp
  ultimately show ?thesis using wall_utc_inj [OF _ assms(2)] whole by (auto simp: shows_wall_def)
qed

lemma missing_names_jump:
  assumes w: "real_wall w" and none: "\<nexists>t. shows_wall env z w t"
    and cal: "calendar_zone env z (wall_utc w 0 - 129600000) (wall_utc w 0 + 129600000)"
    and one: "one_change env z (wall_utc w 0 - 129600000) (wall_utc w 0 + 129600000)"
  shows "\<exists>jump. missing_time env z w = Some (Schedule_Refusal Sr_Time_Does_Not_Exist
      (Nearest_Times (moment_at env z (jump - 1000)) (moment_at env z jump)))
    \<and> wall_utc (wallAt env z (jump - 1000)) (wl_second (wallAt env z (jump - 1000))) < wall_utc w 0
    \<and> wall_utc w 0 < wall_utc (wallAt env z jump) (wl_second (wallAt env z jump))
    \<and> offsetSecondsAt env z (jump - 1000) < offsetSecondsAt env z jump"
proof -
  let ?u = "wall_utc w 0"
  let ?lo = "?u - 129600000" and ?hi = "?u + 129600000"
  let ?a = "offsetSecondsAt env z ?lo" and ?b = "offsetSecondsAt env z ?hi"
  obtain jump where j: "\<And>t. ?lo \<le> t \<Longrightarrow> t \<le> ?hi \<Longrightarrow> offsetSecondsAt env z t = (if t < jump then ?a else ?b)"
    using one unfolding one_change_def by blast
  have bounds: "\<bar>?a\<bar> \<le> 86400" "\<bar>?b\<bar> \<le> 86400" using cal unfolding calendar_zone_def by simp_all
  have in_a: "?lo \<le> ?u - 1000 * ?a" "?u - 1000 * ?a \<le> ?hi" and in_b: "?lo \<le> ?u - 1000 * ?b" "?u - 1000 * ?b \<le> ?hi"
    using bounds by linarith+
  have "\<not> ?u - 1000 * ?a < jump"
    using shows_if_offset [OF cal w refl in_a] j [OF in_a] none by auto
  then have left: "jump \<le> ?u - 1000 * ?a" by simp
  have "?u - 1000 * ?b < jump"
    using shows_if_offset [OF cal w refl in_b] j [OF in_b] none by (intro notI ccontr [of "_ < _"]) auto
  with left have less: "?a < ?b" by simp
  then obtain t where t: "findTransition env z ?u = Some (Some t)" "t mod 1000 = 0" "?lo < t" "t \<le> ?hi"
      "offsetSecondsAt env z (t - 1000) = ?a" "offsetSecondsAt env z t \<noteq> ?a"
    using find_transition [OF wall_utc_whole [of w 0], of env z] by auto
  have tb: "offsetSecondsAt env z t = ?b" "jump \<le> t" using j [of t] t by (auto split: if_splits)
  obtain p q where pq: "?u = 1000 * p" "t = 1000 * q"
    using wall_utc_whole [of w 0] t(2) by (auto simp: mod_eq_0_iff_dvd elim!: dvdE)
  then have "p - 129600 < q" using t(3) by simp
  then have "?lo \<le> t - 1000" by (simp add: pq)
  moreover have "t - 1000 = 1000 * (q - 1)" by (simp add: pq)
  then have "(t - 1000) mod 1000 = 0" by (simp only: mod_mult_self1_is_0)
  ultimately have whole: "(t - 1000) mod 1000 = 0" "?lo \<le> t - 1000" by simp_all
  have tj: "t - 1000 < jump"
    using j [of "t - 1000"] whole t less by (auto split: if_splits)
  have "missing_time env z w = Some (Schedule_Refusal Sr_Time_Does_Not_Exist
      (Nearest_Times (moment_at env z (t - 1000)) (moment_at env z t)))"
    by (simp add: missing_time_def t(1))
  moreover have "wall_utc (wallAt env z (t - 1000)) (wl_second (wallAt env z (t - 1000))) < ?u"
    using offset_wall [of env z "t - 1000"] whole t(5) tj left by simp
  moreover have "?u < wall_utc (wallAt env z t) (wl_second (wallAt env z t))"
    using offset_wall [of env z t] t(2) tb \<open>?u - 1000 * ?b < jump\<close> by simp
  ultimately show ?thesis using t(5) tb(1) less by auto
qed

text \<open>
  A time is refused as one that does not exist exactly when the clocks of the zone skip it, and the refusal
  names the last second before the jump and the first after it: the offset grows between them, and on
  the wall the requested minute lies strictly between the two.
\<close>

theorem gap_names_the_jump:
  assumes args: "time_args env clock input = Inr (z, w, lead, now)" and zone: "usual_zone env z w"
    and cal: "calendar_zone env z (wall_utc w 0 - 129600000) (wall_utc w 0 + 129600000)"
    and one: "one_change env z (wall_utc w 0 - 129600000) (wall_utc w 0 + 129600000)"
  shows "((\<exists>d. resolveLocalTime env clock input = Some (Inl (Schedule_Refusal Sr_Time_Does_Not_Exist d)))
        \<longleftrightarrow> (\<nexists>t. shows_wall env z w t))
    \<and> (resolveLocalTime env clock input = Some (Inl (Schedule_Refusal Sr_Time_Does_Not_Exist d)) \<longrightarrow>
        (\<exists>jump. d = Nearest_Times (moment_at env z (jump - 1000)) (moment_at env z jump)
           \<and> wall_utc (wallAt env z (jump - 1000)) (wl_second (wallAt env z (jump - 1000))) < wall_utc w 0
           \<and> wall_utc w 0 < wall_utc (wallAt env z jump) (wl_second (wallAt env z jump))
           \<and> offsetSecondsAt env z (jump - 1000) < offsetSecondsAt env z jump))"
proof -
  have found: "possibleInstants env z w = [] \<longleftrightarrow> (\<nexists>t. shows_wall env z w t)"
    using possible_complete [OF zone] by (metis empty_Collect_eq set_empty)
  have other: "resolved_at env z w lead now ts \<noteq> Inl (Schedule_Refusal Sr_Time_Does_Not_Exist d')" for ts d'
    by (auto simp: resolved_at_def Let_def split: if_splits)
  have run: "resolveLocalTime env clock input = (if \<nexists>t. shows_wall env z w t then map_option Inl (missing_time env z w)
      else Some (resolved_at env z w lead now (possibleInstants env z w)))"
    using found by (simp add: resolveLocalTime_def args Let_def)
  show ?thesis
  proof (cases "\<exists>t. shows_wall env z w t")
    case True
    then show ?thesis by (simp add: run other)
  next
    case False
    from missing_names_jump [OF time_args_parts(1) [OF args] this cal one] False show ?thesis by (auto simp: run)
  qed
qed

section \<open>A zone with a jump\<close>

text \<open>One hour east of UTC until 2026-03-29T01:00Z, two hours from then on.\<close>

definition utc_wall :: "int \<Rightarrow> wall_clock" where
  "utc_wall t = \<lparr>wl_year = getUTCFullYear t, wl_month = getUTCMonth t + 1, wl_day = getUTCDate t,
     wl_hour = utc_hours t, wl_minute = utc_minutes t, wl_second = utc_seconds t\<rparr>"

definition example_jump :: int where "example_jump = 1774746000000"

definition example_offset :: "int \<Rightarrow> int" where
  "example_offset t = (if t < example_jump then 3600 else 7200)"

definition example_zone :: zone_env where
  "example_zone = \<lparr>ze_valid = (\<lambda>z. z = ''Europe/Berlin''), ze_wall = (\<lambda>z t. utc_wall (t + 1000 * example_offset t)),
     ze_date = (\<lambda>v. None), ze_fraction = (\<lambda>n. []), ze_number = (\<lambda>q. [])\<rparr>"

lemma floor_second_bounds: "floor_second t \<le> t" "t < floor_second t + 1000"
  using div_mult_mod_eq [of t 1000] pos_mod_bound [of 1000 t] pos_mod_sign [of 1000 t] by (simp_all add: floor_second_def)

lemma floor_second_mod [simp]: "floor_second t mod 1000 = 0"
  by (simp add: floor_second_def)

lemma example_offset_floor: "example_offset (floor_second t) = example_offset t"
proof -
  have "floor_second t < example_jump \<longleftrightarrow> t < example_jump"
  proof
    assume "floor_second t < example_jump"
    then have "t div 1000 < 1774746000" by (simp add: floor_second_def example_jump_def)
    then have "t div 1000 + 1 \<le> 1774746000" by simp
    then have "floor_second t + 1000 \<le> example_jump" by (simp add: floor_second_def example_jump_def)
    then show "t < example_jump" using floor_second_bounds(2) [of t] by simp
  qed (use floor_second_bounds(1) [of t] in simp)
  then show ?thesis by (simp add: example_offset_def)
qed

lemma example_wall: "wallAt example_zone z t = utc_wall (floor_second t + 1000 * example_offset t)"
  by (simp add: wallAt_def example_zone_def example_offset_floor)

lemma example_offset_at:
  assumes "100 \<le> wl_year (wallAt example_zone z t)"
  shows "offsetSecondsAt example_zone z t = example_offset t"
proof -
  define x where "x = floor_second t + 1000 * example_offset t"
  have w: "wallAt example_zone z t = utc_wall x" by (simp add: example_wall x_def)
  have "x mod 1000 = floor_second t mod 1000" by (simp add: x_def)
  then have m: "x mod 1000 = 0" by simp
  have "wall_utc (utc_wall x) (wl_second (utc_wall x)) = x - x mod 1000"
    using date_utc_of_fields [of x] assms by (simp add: w wall_utc_def utc_wall_def)
  then show ?thesis using offset_wall [of example_zone z t] by (simp add: w m x_def)
qed

lemma example_year:
  assumes "0 \<le> t"
  shows "100 \<le> wl_year (wallAt example_zone z t)"
proof -
  have "0 \<le> floor_second t + 1000 * example_offset t"
    using assms by (simp add: floor_second_def example_offset_def)
  then have d: "0 \<le> utc_day (floor_second t + 1000 * example_offset t)" by (simp add: utc_day_def)
  have "day_from_year 101 \<le> -1" by (simp add: day_from_year_def)
  then have "\<not> year_from_day (utc_day (floor_second t + 1000 * example_offset t)) + 1 \<le> 101"
    using d year_from_day [of "utc_day (floor_second t + 1000 * example_offset t)"]
      day_from_year_mono [of "year_from_day (utc_day (floor_second t + 1000 * example_offset t)) + 1" 101] by auto
  then show ?thesis by (simp add: example_wall utc_wall_def getUTCFullYear_def)
qed

lemma example_calendar: "0 \<le> lo \<Longrightarrow> calendar_zone example_zone z lo hi"
  unfolding calendar_zone_def
proof (intro allI impI)
  fix t assume "0 \<le> lo" "lo \<le> t \<and> t \<le> hi"
  then have y: "100 \<le> wl_year (wallAt example_zone z t)" using example_year [of t z] by simp
  then have "real_clock (wallAt example_zone z t)"
    using utc_fields_valid utc_clock_valid by (simp add: real_clock_def example_wall utc_wall_def)
  then show "real_clock (wallAt example_zone z t) \<and> \<bar>offsetSecondsAt example_zone z t\<bar> \<le> 86400"
    by (simp add: example_offset_at [OF y] example_offset_def)
qed

lemma example_one_change:
  assumes "0 \<le> lo"
  shows "one_change example_zone z lo hi"
  unfolding one_change_def
proof (intro exI allI impI)
  fix t assume t: "lo \<le> t \<and> t \<le> hi"
  then have "offsetSecondsAt example_zone z x = example_offset x" if "x \<in> {lo, t, hi}" for x
    using that assms by (auto intro!: example_offset_at example_year)
  then show "offsetSecondsAt example_zone z t = (if t < example_jump then offsetSecondsAt example_zone z lo
      else offsetSecondsAt example_zone z hi)"
    using t by (simp add: example_offset_def)
qed

lemma example_shows:
  assumes "shows_wall example_zone z w t" "100 \<le> wl_year w"
  shows "t = wall_utc w 0 - 1000 * example_offset t"
proof -
  have "100 \<le> wl_year (wallAt example_zone z t)" using assms by (simp add: shows_wall_def same_minute_def)
  then show ?thesis using shows_offset [OF assms(1)] by (simp add: example_offset_at)
qed

lemma example_usual: "86400000 \<le> wall_utc w 0 \<Longrightarrow> 100 \<le> wl_year w \<Longrightarrow> usual_zone example_zone z w"
  unfolding usual_zone_def
proof (intro conjI allI impI)
  fix t assume w: "86400000 \<le> wall_utc w 0" "100 \<le> wl_year w" and s: "shows_wall example_zone z w t"
  have "100 \<le> wl_year (wallAt example_zone z t)" using s w by (simp add: shows_wall_def same_minute_def)
  then show "\<bar>offsetSecondsAt example_zone z t\<bar> \<le> 86400" by (simp add: example_offset_at example_offset_def)
qed (rule example_one_change, simp)

definition example_gap :: wall where
  "example_gap = \<lparr>wl_year = 2026, wl_month = 3, wl_day = 29, wl_hour = 2, wl_minute = 30\<rparr>"

lemma example_gap_utc: "wall_utc example_gap 0 = 1774751400000" "real_wall example_gap"
  by (simp_all add: example_gap_def wall_utc_def date_utc_def make_day_def day_from_year_def leap_year_def
      month_start_values real_wall_def valid_date_def valid_clock_def month_length_def)

lemma example_gap_none: "\<nexists>t. shows_wall example_zone z example_gap t"
proof
  assume "\<exists>t. shows_wall example_zone z example_gap t"
  then obtain t where "shows_wall example_zone z example_gap t" ..
  from example_shows [OF this] have "t = 1774751400000 - 1000 * example_offset t"
    by (simp add: example_gap_utc) (simp add: example_gap_def)
  then show False by (auto simp: example_offset_def example_jump_def split: if_splits)
qed

definition example_gap_input :: time_input where
  "example_gap_input = \<lparr>ti_localDate = V_Str (wall_date example_gap), ti_localTime = V_Str (wall_time example_gap),
     ti_timeZone = V_Str ''Europe/Berlin'', ti_now = Now_Absent, ti_minLeadSeconds = V_Undefined\<rparr>"

theorem gap_names_the_jump_witness:
  "\<exists>jump. offsetSecondsAt example_zone ''Europe/Berlin'' (jump - 1000) < offsetSecondsAt example_zone ''Europe/Berlin'' jump
     \<and> resolveLocalTime example_zone 1000 (Some example_gap_input) = Some (Inl (Schedule_Refusal Sr_Time_Does_Not_Exist
      (Nearest_Times (moment_at example_zone ''Europe/Berlin'' (jump - 1000)) (moment_at example_zone ''Europe/Berlin'' jump))))"
proof -
  have r: "real_wall example_gap" "wl_year example_gap < 10000" using example_gap_utc(2) by (simp_all add: example_gap_def)
  have "time_args example_zone 1000 (Some example_gap_input) = Inr (''Europe/Berlin'', example_gap, 60, 1000)"
    by (simp add: time_args_def example_gap_input_def printed_wall [OF r] printed_parse [OF r] isValidTimeZone_def example_zone_def
        min_lead_def coerceNow_def)
  moreover have "usual_zone example_zone ''Europe/Berlin'' example_gap"
    by (rule example_usual) (simp_all add: example_gap_utc, simp add: example_gap_def)
  ultimately show ?thesis
    using gap_names_the_jump [of example_zone 1000 "Some example_gap_input" "''Europe/Berlin''" example_gap 60 1000]
      example_calendar example_one_change example_gap_none by (fastforce simp: example_gap_utc)
qed

definition example_summer :: wall where
  "example_summer = \<lparr>wl_year = 2026, wl_month = 6, wl_day = 1, wl_hour = 12, wl_minute = 0\<rparr>"

definition example_input :: time_input where
  "example_input = \<lparr>ti_localDate = V_Str ''2026-06-01'', ti_localTime = V_Str ''12:00'',
     ti_timeZone = V_Str ''Europe/Berlin'', ti_now = Now_Absent, ti_minLeadSeconds = V_Undefined\<rparr>"

lemma example_args: "time_args example_zone 1000 (Some example_input) = Inr (''Europe/Berlin'', example_summer, 60, 1000)"
proof -
  have p: "parseWall ''2026-06-01'' ''12:00'' = Inr example_summer" by code_simp
  have r: "DATE_RE ''2026-06-01''" "TIME_RE ''12:00''" by code_simp+
  show ?thesis by (simp add: time_args_def example_input_def p r isValidTimeZone_def example_zone_def min_lead_def coerceNow_def)
qed

lemma example_summer_utc: "wall_utc example_summer 0 = 1780315200000" "real_wall example_summer"
  by (simp_all add: example_summer_def wall_utc_def date_utc_def make_day_def day_from_year_def leap_year_def
      month_start_values real_wall_def valid_date_def valid_clock_def month_length_def)

lemma example_earliest: "earliest example_zone ''Europe/Berlin'' example_summer (1000 * 1780308000)"
  unfolding earliest_def
proof (intro conjI allI impI)
  have y: "100 \<le> wl_year (wallAt example_zone ''Europe/Berlin'' 1780308000000)" by (rule example_year) simp
  show "shows_wall example_zone ''Europe/Berlin'' example_summer (1000 * 1780308000)"
    by (rule shows_if_offset [OF example_calendar [of 0 _ 2000000000000], where k = 7200])
      (simp_all add: example_summer_utc example_offset_at y example_offset_def example_jump_def)
  fix t assume "shows_wall example_zone ''Europe/Berlin'' example_summer t"
  from example_shows [OF this] have "t = 1780315200000 - 1000 * example_offset t"
    by (simp add: example_summer_utc) (simp add: example_summer_def)
  then show "1000 * 1780308000 \<le> t" by (simp add: example_offset_def split: if_splits)
qed

theorem resolve_picks_earliest_witness:
  "\<exists>r. resolveLocalTime example_zone 1000 (Some example_input) = Some (Inr r) \<and> rt_epochSeconds r = 1780308000"
proof -
  have zone: "usual_zone example_zone ''Europe/Berlin'' example_summer"
    by (rule example_usual) (simp_all add: example_summer_utc, simp add: example_summer_def)
  show ?thesis using resolve_picks_earliest [OF example_args zone, of undefined 1780308000] example_earliest by simp
qed

end
