(* ===== verification/Iso_Order.thy ===== *)
theory Iso_Order
  imports Civil_Time
begin

text \<open>
  The texts \<open>toISOString\<close> prints order like the instants, from 1970 to the end of the year 9999:
  the sources sort and compare them as strings.
\<close>

lemma append_less:
  fixes s :: "'a::linorder list"
  assumes "length s = length t"
  shows "s @ u < t @ v \<longleftrightarrow> s < t \<or> s = t \<and> u < v"
  using assms by (induction s t rule: list_induct2) auto

lemma digit_less: "is_digit c \<Longrightarrow> is_digit d \<Longrightarrow> c < d \<longleftrightarrow> digit_val c < digit_val d"
  by (auto simp: is_digit_def digit_val_def char_code_def less_char_def)

lemma numeral_less:
  assumes "length s = length t" "list_all is_digit s" "list_all is_digit t"
  shows "s < t \<longleftrightarrow> nat_of_dec s < nat_of_dec t"
  using assms
proof (induction s t rule: list_induct2)
  case (Cons c s d t)
  have b: "nat_of_dec s < 10 ^ length t" "nat_of_dec t < 10 ^ length t"
    using nat_of_dec_bound [of s] nat_of_dec_bound [of t] Cons by auto
  have eq: "c = d \<longleftrightarrow> digit_val c = digit_val d"
  proof -
    have "is_digit c" "is_digit d" using Cons.prems by simp_all
    then show ?thesis using digit_char_val by metis
  qed
  have "nat_of_dec (c # s) < nat_of_dec (d # t) \<longleftrightarrow>
      digit_val c < digit_val d \<or> digit_val c = digit_val d \<and> nat_of_dec s < nat_of_dec t" (is "?l \<longleftrightarrow> ?r")
  proof (cases "digit_val c" "digit_val d" rule: linorder_cases)
    case less
    then have "(digit_val c + 1) * 10 ^ length t \<le> digit_val d * 10 ^ length t" by (intro mult_le_mono1) simp
    then have "digit_val c * 10 ^ length t + 10 ^ length t \<le> digit_val d * 10 ^ length t" by (simp add: add.commute)
    then show ?thesis using less b(1) Cons.hyps by (simp add: nat_of_dec_Cons)
  next
    case greater
    then have "(digit_val d + 1) * 10 ^ length t \<le> digit_val c * 10 ^ length t" by (intro mult_le_mono1) simp
    then have "digit_val d * 10 ^ length t + 10 ^ length t \<le> digit_val c * 10 ^ length t" by (simp add: add.commute)
    then show ?thesis using greater b(2) Cons.hyps by (simp add: nat_of_dec_Cons)
  qed (simp add: nat_of_dec_Cons Cons.hyps)
  then show ?case using digit_less [of c d] eq Cons by simp
qed simp

text \<open>A number that fits its field.\<close>

definition fits :: "nat \<Rightarrow> int \<Rightarrow> bool" where
  "fits k n \<longleftrightarrow> 0 \<le> n \<and> n < 10 ^ k \<and> 0 < k"

lemma pad_int_length: "fits k n \<Longrightarrow> length (pad_int k n) = k"
proof -
  assume f: "fits k n"
  then have "nat n < 10 ^ k" by (simp add: fits_def nat_less_iff)
  then have "length (dec_digits (nat n)) \<le> k" using f dec_digits_length [of k "nat n"] by (simp add: fits_def)
  then show ?thesis using f by (simp add: pad_int_def fits_def)
qed

lemma pad_int_less:
  assumes "fits k m" "fits k n"
  shows "pad_int k m < pad_int k n \<longleftrightarrow> m < n"
proof -
  have "list_all is_digit (pad_int k x)" if "fits k x" for x
    using that by (simp add: pad_int_def fits_def list_all_pad_start)
  moreover have "nat_of_dec (pad_int k x) = nat x" if "fits k x" for x
    using that by (simp add: pad_int_def fits_def)
  ultimately show ?thesis
    using numeral_less [of "pad_int k m" "pad_int k n"] assms by (auto simp: pad_int_length fits_def)
qed

lemma pad_step:
  assumes "fits k m" "fits k n" "m < n \<or> m = n \<and> u < v"
  shows "pad_int k m @ u < pad_int k n @ v"
  using assms pad_int_less [OF assms(1,2)] append_less [of "pad_int k m" "pad_int k n"] by (auto simp: pad_int_length)

section \<open>The fields of an instant\<close>

lemma year_mono: "d \<le> d' \<Longrightarrow> year_from_day d \<le> year_from_day d'"
proof (rule ccontr)
  assume d: "d \<le> d'" "\<not> year_from_day d \<le> year_from_day d'"
  then have "day_from_year (year_from_day d' + 1) \<le> day_from_year (year_from_day d)" by (intro day_from_year_mono) simp
  then show False using d year_from_day [of d] year_from_day [of d'] by linarith
qed

lemma month_mono: "n \<le> n' \<Longrightarrow> month_of l n \<le> month_of l n'"
proof -
  assume n: "n \<le> n'"
  have "length (filter (\<lambda>m. month_start l m \<le> n) ms) \<le> length (filter (\<lambda>m. month_start l m \<le> n') ms)" for ms :: "int list"
    using n by (induction ms) auto
  then show ?thesis unfolding month_of_def of_nat_le_iff .
qed

text \<open>The parts of a day are the digits of a mixed radix number.\<close>

lemma radix_part: "0 < k \<Longrightarrow> (t div n) mod k = t div n - k * (t div (n * k))" for t n k :: int
  using minus_mult_div_eq_mod [of "t div n" k] zdiv_zmult2_eq [of k t n] by simp

definition iso_fields :: "int \<Rightarrow> string" where
  "iso_fields t = pad_int 4 (getUTCFullYear t) @ ''-'' @ pad_int 2 (getUTCMonth t + 1) @ ''-'' @ pad_int 2 (getUTCDate t)
     @ ''T'' @ pad_int 2 (t div 3600000 mod 24) @ '':'' @ pad_int 2 (t div 60000 mod 60) @ '':''
     @ pad_int 2 (t div 1000 mod 60) @ ''.'' @ pad_int 3 (t mod 1000) @ ''Z''"

definition in_four_digits :: "int \<Rightarrow> bool" where
  "in_four_digits t \<longleftrightarrow> 0 \<le> t \<and> t < 253402300800000"

lemma four_digit_year: "in_four_digits t \<Longrightarrow> 1970 \<le> getUTCFullYear t \<and> getUTCFullYear t \<le> 9999"
proof -
  assume t: "in_four_digits t"
  have lo: "0 \<le> utc_day t" using t by (simp add: in_four_digits_def utc_day_def pos_imp_zdiv_nonneg_iff)
  have "utc_day t * 86400000 \<le> t" unfolding utc_day_def using div_mult_mod_eq [of t 86400000] pos_mod_sign [of 86400000 t] by linarith
  then have hi: "utc_day t < 2932897" using t by (simp add: in_four_digits_def)
  have e: "day_from_year 1970 = 0" "day_from_year 10000 = 2932897" by (simp_all add: day_from_year_def)
  have "\<not> year_from_day (utc_day t) + 1 \<le> 1970"
    using day_from_year_mono [of "year_from_day (utc_day t) + 1" 1970] year_from_day [of "utc_day t"] lo e(1) by auto
  moreover have "\<not> 10000 \<le> year_from_day (utc_day t)"
    using day_from_year_mono [of 10000 "year_from_day (utc_day t)"] year_from_day [of "utc_day t"] hi e(2) by auto
  ultimately show ?thesis by (simp add: getUTCFullYear_def)
qed

lemma iso_string_fields: "in_four_digits t \<Longrightarrow> iso_string t = Inr (iso_fields t)"
  using four_digit_year [of t] by (simp add: iso_string_def iso_fields_def iso_year_def in_four_digits_def)

lemma fields_fit:
  assumes "in_four_digits t"
  shows "fits 4 (getUTCFullYear t)" "fits 2 (getUTCMonth t + 1)" "fits 2 (getUTCDate t)" "fits 2 (t div 3600000 mod 24)"
    "fits 2 (t div 60000 mod 60)" "fits 2 (t div 1000 mod 60)" "fits 3 (t mod 1000)"
proof -
  have v: "valid_date (getUTCFullYear t) (getUTCMonth t + 1) (getUTCDate t)" by (rule utc_fields_valid)
  then have m: "0 \<le> getUTCMonth t" "getUTCMonth t \<le> 11" by (simp_all add: valid_date_def)
  have "month_length (getUTCFullYear t) (getUTCMonth t) \<le> 31"
    using months [OF m] by (cases "leap_year (getUTCFullYear t)") (auto simp: month_length_end month_end_def month_start_values)
  then show "fits 2 (getUTCDate t)" "fits 2 (getUTCMonth t + 1)" using v m by (simp_all add: valid_date_def fits_def)
  show "fits 4 (getUTCFullYear t)" using four_digit_year [OF assms] by (simp add: fits_def)
  have "0 \<le> x mod k \<and> x mod k < k" if "0 < k" for x k :: int using that pos_mod_bound pos_mod_sign by blast
  note this [of 24 "t div 3600000"] this [of 60 "t div 60000"] this [of 60 "t div 1000"] this [of 1000 t]
  then show "fits 2 (t div 3600000 mod 24)" "fits 2 (t div 60000 mod 60)" "fits 2 (t div 1000 mod 60)" "fits 3 (t mod 1000)"
    unfolding fits_def by simp_all
qed

lemma iso_fields_less:
  assumes t: "in_four_digits t" and u: "in_four_digits u" and less: "t < u"
  shows "iso_fields t < iso_fields u"
proof -
  note ft = fields_fit [OF t] and fu = fields_fit [OF u]
  note steps = pad_step [OF ft(1) fu(1)] pad_step [OF ft(2) fu(2)] pad_step [OF ft(3) fu(3)] pad_step [OF ft(4) fu(4)]
    pad_step [OF ft(5) fu(5)] pad_step [OF ft(6) fu(6)] pad_step [OF ft(7) fu(7)]
  have day: "utc_day t \<le> utc_day u" unfolding utc_day_def using less by (intro zdiv_mono1) simp_all
  have year: "getUTCFullYear t \<le> getUTCFullYear u" unfolding getUTCFullYear_def by (rule year_mono [OF day])
  have month: "getUTCMonth t \<le> getUTCMonth u" if "getUTCFullYear t = getUTCFullYear u"
    unfolding getUTCMonth_def that by (rule month_mono) (use day that in \<open>simp add: day_in_year_def\<close>)
  have date: "getUTCDate t \<le> getUTCDate u \<and> (getUTCDate t = getUTCDate u \<longrightarrow> utc_day t = utc_day u)"
    if "getUTCFullYear t = getUTCFullYear u" "getUTCMonth t = getUTCMonth u"
    using day that by (simp add: getUTCDate_def day_in_year_def)
  have H: "t div 3600000 mod 24 = t div 3600000 - 24 * utc_day t" "u div 3600000 mod 24 = u div 3600000 - 24 * utc_day u"
    using radix_part [of 24 t 3600000] radix_part [of 24 u 3600000] by (simp_all add: utc_day_def)
  have M: "t div 60000 mod 60 = t div 60000 - 60 * (t div 3600000)" "u div 60000 mod 60 = u div 60000 - 60 * (u div 3600000)"
    using radix_part [of 60 t 60000] radix_part [of 60 u 60000] by simp_all
  have S: "t div 1000 mod 60 = t div 1000 - 60 * (t div 60000)" "u div 1000 mod 60 = u div 1000 - 60 * (u div 60000)"
    using radix_part [of 60 t 1000] radix_part [of 60 u 1000] by simp_all
  have ms: "t mod 1000 = t - 1000 * (t div 1000)" "u mod 1000 = u - 1000 * (u div 1000)"
    by (simp_all only: minus_mult_div_eq_mod)
  have last_part: "pad_int 3 (t mod 1000) @ ''Z'' < pad_int 3 (u mod 1000) @ ''Z''" if "t div 1000 = u div 1000"
    by (rule steps(7)) (use ms less that in simp)
  have mono: "t div n \<le> u div n" if "0 < n" for n using that less by (intro zdiv_mono1) simp_all
  have time: "pad_int 2 (t div 3600000 mod 24) @ '':'' @ pad_int 2 (t div 60000 mod 60) @ '':''
     @ pad_int 2 (t div 1000 mod 60) @ ''.'' @ pad_int 3 (t mod 1000) @ ''Z''
    < pad_int 2 (u div 3600000 mod 24) @ '':'' @ pad_int 2 (u div 60000 mod 60) @ '':''
     @ pad_int 2 (u div 1000 mod 60) @ ''.'' @ pad_int 3 (u mod 1000) @ ''Z''" if d: "utc_day t = utc_day u"
  proof (rule steps(4))
    consider "t div 3600000 < u div 3600000" | "t div 3600000 = u div 3600000" using mono [of 3600000] by linarith
    then show "t div 3600000 mod 24 < u div 3600000 mod 24 \<or> t div 3600000 mod 24 = u div 3600000 mod 24 \<and>
        '':'' @ pad_int 2 (t div 60000 mod 60) @ '':'' @ pad_int 2 (t div 1000 mod 60) @ ''.'' @ pad_int 3 (t mod 1000) @ ''Z''
        < '':'' @ pad_int 2 (u div 60000 mod 60) @ '':'' @ pad_int 2 (u div 1000 mod 60) @ ''.'' @ pad_int 3 (u mod 1000) @ ''Z''"
    proof cases
      case 1
      then show ?thesis using H d by simp
    next
      case 2
      have "pad_int 2 (t div 60000 mod 60) @ '':'' @ pad_int 2 (t div 1000 mod 60) @ ''.'' @ pad_int 3 (t mod 1000) @ ''Z''
        < pad_int 2 (u div 60000 mod 60) @ '':'' @ pad_int 2 (u div 1000 mod 60) @ ''.'' @ pad_int 3 (u mod 1000) @ ''Z''"
      proof (rule steps(5))
        consider "t div 60000 < u div 60000" | "t div 60000 = u div 60000" using mono [of 60000] by linarith
        then show "t div 60000 mod 60 < u div 60000 mod 60 \<or> t div 60000 mod 60 = u div 60000 mod 60 \<and>
          '':'' @ pad_int 2 (t div 1000 mod 60) @ ''.'' @ pad_int 3 (t mod 1000) @ ''Z''
          < '':'' @ pad_int 2 (u div 1000 mod 60) @ ''.'' @ pad_int 3 (u mod 1000) @ ''Z''"
        proof cases
          case 1
          then show ?thesis using M 2 by simp
        next
          case m: 2
          have "t div 1000 < u div 1000 \<or> t div 1000 = u div 1000" using mono [of 1000] by linarith
          then have "pad_int 2 (t div 1000 mod 60) @ ''.'' @ pad_int 3 (t mod 1000) @ ''Z''
            < pad_int 2 (u div 1000 mod 60) @ ''.'' @ pad_int 3 (u mod 1000) @ ''Z''"
            using last_part by (intro steps(6)) (auto simp: S m)
          then show ?thesis using M 2 m by simp
        qed
      qed
      then show ?thesis using H 2 d by simp
    qed
  qed
  show ?thesis
    unfolding iso_fields_def
  proof (rule steps(1))
    have "pad_int 2 (getUTCMonth t + 1) @ ''-'' @ pad_int 2 (getUTCDate t) @ ''T'' @ x
        < pad_int 2 (getUTCMonth u + 1) @ ''-'' @ pad_int 2 (getUTCDate u) @ ''T'' @ y"
      if y: "getUTCFullYear t = getUTCFullYear u" and xy: "utc_day t = utc_day u \<Longrightarrow> x < y" for x y
    proof (rule steps(2))
      have "getUTCMonth t < getUTCMonth u \<or> getUTCMonth t = getUTCMonth u" using month [OF y] by linarith
      moreover have "pad_int 2 (getUTCDate t) @ ''T'' @ x < pad_int 2 (getUTCDate u) @ ''T'' @ y" if m: "getUTCMonth t = getUTCMonth u"
        by (rule steps(3)) (use date [OF y m] xy in auto)
      ultimately show "getUTCMonth t + 1 < getUTCMonth u + 1 \<or> getUTCMonth t + 1 = getUTCMonth u + 1 \<and>
          ''-'' @ pad_int 2 (getUTCDate t) @ ''T'' @ x < ''-'' @ pad_int 2 (getUTCDate u) @ ''T'' @ y" by auto
    qed
    note this [OF _ time]
    moreover have "getUTCFullYear t < getUTCFullYear u \<or> getUTCFullYear t = getUTCFullYear u" using year by linarith
    ultimately show "getUTCFullYear t < getUTCFullYear u \<or> getUTCFullYear t = getUTCFullYear u \<and>
      ''-'' @ pad_int 2 (getUTCMonth t + 1) @ ''-'' @ pad_int 2 (getUTCDate t)
     @ ''T'' @ pad_int 2 (t div 3600000 mod 24) @ '':'' @ pad_int 2 (t div 60000 mod 60) @ '':''
     @ pad_int 2 (t div 1000 mod 60) @ ''.'' @ pad_int 3 (t mod 1000) @ ''Z'' <
      ''-'' @ pad_int 2 (getUTCMonth u + 1) @ ''-'' @ pad_int 2 (getUTCDate u)
     @ ''T'' @ pad_int 2 (u div 3600000 mod 24) @ '':'' @ pad_int 2 (u div 60000 mod 60) @ '':''
     @ pad_int 2 (u div 1000 mod 60) @ ''.'' @ pad_int 3 (u mod 1000) @ ''Z''" by auto
  qed
qed

lemma iso_fields_order:
  assumes "in_four_digits t" "in_four_digits u"
  shows "iso_fields t < iso_fields u \<longleftrightarrow> t < u" "iso_fields t = iso_fields u \<longleftrightarrow> t = u"
  using iso_fields_less [OF assms] iso_fields_less [OF assms(2,1)] by (cases t u rule: linorder_cases; auto)+

end
