(* ===== verification/Schedule_Laws.thy ===== *)
theory Schedule_Laws
  imports Schedules Guard_Schedules Local_Time_Laws Payment_Laws Iso_Order
begin

text \<open>
  What the schedule tools promise: a draft that cannot be scheduled is refused before anything is
  requested; a schedule that is built is one the contract accepts and can ever pay no more than the
  allowance the tool demanded; cancelling never guesses; the list of upcoming payments is sorted.
\<close>

section \<open>Drafts\<close>

lemma schedule_amount_Inr:
  "schedule_amount v = Inr s \<longleftrightarrow> v = V_Str s \<and> (\<exists>n. toRawUnits s = Inr n \<and> 0 < n \<and> n \<le> MAX_STROOPS)"
  by (auto simp: schedule_amount_def toRawUnits_Inr stroops_scaled split: js_value.splits if_splits)

lemma parseRuns_Inr: "parseRuns v = Inr n \<longleftrightarrow> v = V_Num (jint n) \<and> 1 \<le> n \<and> n \<le> U32_MAX_VALUE"
proof (cases v)
  case (V_Num x)
  show ?thesis
  proof (cases "is_integer x")
    case True
    then obtain i where "x = jint i" by (auto simp: is_integer_cases)
    then show ?thesis by (auto simp: parseRuns_def V_Num) (simp_all add: jint_def)
  qed (auto simp: parseRuns_def V_Num)
qed (simp_all add: parseRuns_def)

text \<open>What the contract's \<open>create_schedule\<close> checks of the interval and the runs.\<close>

definition good_interval :: "int \<Rightarrow> int \<Rightarrow> bool" where
  "good_interval interval runs \<longleftrightarrow> 0 \<le> interval \<and> interval \<le> 2 ^ 53 - 1 \<and> 1 \<le> runs \<and> runs \<le> U32_MAX_VALUE
     \<and> (interval = 0 \<longrightarrow> runs = 1)"

lemma resolveInterval_good: "resolveInterval rep runs = Inr (i, n) \<Longrightarrow> good_interval i n"
  by (auto simp: resolveInterval_def good_interval_def Let_def DAY_SECONDS_SCHEDULE_def WEEK_SECONDS_def U32_MAX_VALUE_def
      parseRuns_Inr is_safe_integer_def is_integer_cases split: if_splits js_value.splits)

lemma draft_recipient_Inr:
  "draft_recipient book v = Inr (name, entry) \<longleftrightarrow>
     (\<exists>raw. v = V_Str raw \<and> name = js_lower (js_trim raw) \<and> name \<noteq> [] \<and> resolveAlias book name = Some entry)"
  by (auto simp: draft_recipient_def Let_def split: js_value.splits option.splits)

lemma draft_asset_Inr:
  "draft_asset deps v = Inr (code, sac) \<longleftrightarrow>
     (\<exists>c spec. v = V_Str c \<and> sd_assets deps c = Some spec \<and> code = sp_code spec
        \<and> schedule_asset_contract deps (sp_code spec) = Some sac \<and> sac \<noteq> [])"
  by (auto simp: draft_asset_def truthy_string_def split: js_value.splits option.splits if_splits)

lemma parseDraft_Inr:
  assumes "parseDraft deps draft = Inr d"
  shows "toRawUnits (dr_amount d) = Inr (dr_amountRaw d) \<and> js_field draft ''amount'' = V_Str (dr_amount d)
    \<and> 0 < dr_amountRaw d \<and> dr_amountRaw d \<le> MAX_STROOPS \<and> good_interval (dr_intervalSecs d) (dr_runs d)
    \<and> (\<exists>entry. draft_recipient (sd_aliases deps) (js_field draft ''recipient'') = Inr (dr_alias d, entry) \<and> ae_address entry = dr_address d)
    \<and> draft_asset deps (js_field draft ''asset'') = Inr (dr_assetCode d, dr_assetSac d)"
proof -
  obtain entry where p: "draft_asset deps (js_field draft ''asset'') = Inr (dr_assetCode d, dr_assetSac d)"
      "schedule_amount (js_field draft ''amount'') = Inr (dr_amount d)" "toRawUnits (dr_amount d) = Inr (dr_amountRaw d)"
      "draft_recipient (sd_aliases deps) (js_field draft ''recipient'') = Inr (dr_alias d, entry)" "ae_address entry = dr_address d"
      "resolveInterval (js_field draft ''repeat'') (js_field draft ''runs'') = Inr (dr_intervalSecs d, dr_runs d)"
    using assms unfolding parseDraft_def by (fastforce split: if_split_asm)
  then show ?thesis using resolveInterval_good [OF p(6)] by (auto simp: schedule_amount_Inr)
qed

text \<open>Every throw of a computation is a typed refusal.\<close>

definition refuses :: "schedule_error + 'a \<Rightarrow> bool" where
  "refuses m \<longleftrightarrow> (\<forall>e. m = Inl e \<longrightarrow> isScheduleRefusal e)"

named_theorems refuses_intro \<open>every throw is a refusal\<close>

lemma refuses_Inr [refuses_intro]: "refuses (Inr x)"
  by (simp add: refuses_def)

lemma refuses_code [refuses_intro]: "refuses (Inl (Schedule_Refusal c d))"
  by (simp add: refuses_def isScheduleRefusal_def)

lemma refuses_bind [refuses_intro]: "refuses m \<Longrightarrow> (\<And>x. refuses (f x)) \<Longrightarrow> refuses (and_then m f)"
  by (auto simp: refuses_def)

lemma refuses_if [refuses_intro]: "refuses x \<Longrightarrow> refuses y \<Longrightarrow> refuses (if b then x else y)"
  by simp

lemma refuses_js [refuses_intro]:
  "refuses a \<Longrightarrow> refuses b \<Longrightarrow> (\<And>x. refuses (c x)) \<Longrightarrow> (\<And>x. refuses (d x)) \<Longrightarrow> (\<And>x. refuses (f x)) \<Longrightarrow> (\<And>x. refuses (g x))
    \<Longrightarrow> (\<And>x. refuses (h x)) \<Longrightarrow>
   refuses (case v of V_Undefined \<Rightarrow> a | V_Null \<Rightarrow> b | V_Bool x \<Rightarrow> c x | V_Num x \<Rightarrow> d x | V_Str x \<Rightarrow> f x | V_Arr x \<Rightarrow> g x | V_Obj x \<Rightarrow> h x)"
  by (cases v) simp_all

lemma refuses_option [refuses_intro]: "refuses a \<Longrightarrow> (\<And>x. refuses (f x)) \<Longrightarrow> refuses (case v of None \<Rightarrow> a | Some x \<Rightarrow> f x)"
  by (cases v) simp_all

lemma refuses_prod [refuses_intro]: "(\<And>x y. refuses (f x y)) \<Longrightarrow> refuses (case p of (x, y) \<Rightarrow> f x y)"
  by (cases p) simp

lemma refuses_catch [refuses_intro]: "refuses (catchE m (\<lambda>_. Schedule_Refusal c d))"
  by (cases m) (simp_all add: refuses_def isScheduleRefusal_def)

lemma draft_refuses [refuses_intro]:
  "refuses (draft_asset deps v)" "refuses (schedule_amount v)" "refuses (draft_recipient book v)" "refuses (parseRuns v)"
  "refuses (resolveInterval v u)" "refuses (parseFirstRun v)"
  unfolding draft_asset_def schedule_amount_def draft_recipient_def parseRuns_def resolveInterval_def parseFirstRun_def Let_def
  by (intro refuses_intro)+

lemma parseDraft_refuses: "refuses (parseDraft deps draft)"
  unfolding parseDraft_def by (intro refuses_intro)

lemma parseDraft_Inl: "parseDraft deps draft = Inl e \<Longrightarrow> isScheduleRefusal e"
  using parseDraft_refuses [of deps draft] by (simp add: refuses_def)

lemma eff_total_simps [simp]: "eff_total (Some (Inr x)) = eff_ret x" "eff_total (Some (Inl e)) = eff_throw e"
  by (rule ext, simp add: eff_total_def)+

text \<open>
  A zone is never a day or more away from UTC: the offset at an instant that shows a minute of the
  calendar, from the year 100 on, is at most a day.
\<close>

definition zone_offsets :: "zone_env \<Rightarrow> bool" where
  "zone_offsets env \<longleftrightarrow>
     (\<forall>z w t. ze_valid env z \<and> real_wall w \<and> shows_wall env z w t \<longrightarrow> \<bar>offsetSecondsAt env z t\<bar> \<le> 86400)"

lemma resolved_errors:
  assumes args: "time_args env clock input = Inr (z, w, lead, now)" and zone: "zone_offsets env"
    and some: "possibleInstants env z w \<noteq> []" and e: "resolved_at env z w lead now (possibleInstants env z w) = Inl e"
  shows "isScheduleRefusal e"
proof -
  note p = time_args_parts [OF args]
  obtain t ts where l: "possibleInstants env z w = t # ts" using some by (cases "possibleInstants env z w") auto
  then have on: "shows_wall env z w t" using possible_iff [of t env z w] by simp
  have "ze_valid env z" using p(4) by (simp add: isValidTimeZone_def)
  then have "\<bar>offsetSecondsAt env z t\<bar> \<le> 86400" using zone p(1) on unfolding zone_offsets_def by blast
  then have "\<bar>t\<bar> \<le> 8640000000000000" using shows_offset [OF on] wall_utc_range [OF p(1,2)] by linarith
  moreover have "t div 1000 * 1000 = t" using on by (simp add: shows_wall_def mod_eq_0_iff_dvd)
  ultimately have "\<exists>u. iso_string (t div 1000 * 1000) = Inr u" by (simp add: iso_string_def)
  then show ?thesis using e by (auto simp: resolved_at_def l nth_or_def isScheduleRefusal_def Let_def split: if_splits)
qed

lemma time_errors:
  assumes zone: "zone_offsets env" and r: "resolveLocalTime env clock input = Some (Inl e)"
  shows "isScheduleRefusal e"
proof -
  have "refuses (parseWall d t)" "refuses (min_lead v)" for d t v
    unfolding parseWall_def min_lead_def invalidTime_def Let_def
    by (intro refuses_intro) (cases v; auto intro!: refuses_intro split: js_number.split)
  moreover have "refuses (coerceNow env clock v)" for v
    unfolding coerceNow_def invalidTime_def by (cases v) (auto intro!: refuses_intro split: option.split)
  ultimately have "refuses (time_args env clock input)"
    unfolding time_args_def invalidTime_def by (intro refuses_intro)
  then have bad: "time_args env clock input = Inl e \<Longrightarrow> isScheduleRefusal e" by (simp add: refuses_def)
  have missing: "missing_time env z w = Some e \<Longrightarrow> isScheduleRefusal e" for z w
    by (auto simp: missing_time_def isScheduleRefusal_def Let_def)
  show ?thesis
  proof (cases "time_args env clock input")
    case (Inl e')
    then show ?thesis using r bad by (simp add: resolveLocalTime_def)
  next
    case (Inr args)
    obtain z w lead now where "args = (z, w, lead, now)" by (cases args)
    with Inr r missing resolved_errors [OF _ zone] show ?thesis
      by (auto simp: resolveLocalTime_def Let_def split: if_splits)
  qed
qed

lemma isScheduleRefusal_iff: "isScheduleRefusal e \<longleftrightarrow> (\<exists>c d. e = Schedule_Refusal c d)"
  by (cases e) (simp_all add: isScheduleRefusal_def)

text \<open>C37: Nothing is requested for a draft that cannot be scheduled: hostile or incomplete input, an asset
  without a contract, an amount, recipient, repeat or number of runs that is not accepted, a broken
  clock, or a first run that is no instant of the zone or too early.  The answer is a typed refusal with
  its code, never another error, and the world is as it was.  The zones are those of the engine of the
  language: none is more than a day away from UTC.\<close>

theorem unschedulable_is_refused_silently:
  assumes "zone_offsets env"
    and "\<not> (\<exists>d now t. parseDraft deps draft = Inr d \<and> sd_now deps = Some now \<and> draft_time env d now = Some (Inr t))"
  shows "\<exists>code details. schedulePayment env sdk deps draft w = Some (Inl (Schedule_Refusal code details), w)"
proof (cases "assertScheduleDeps deps")
  case (Inl e)
  then show ?thesis by (auto simp: schedulePayment_def assertScheduleDeps_def guardE_def split: if_splits)
next
  case ok: (Inr u)
  show ?thesis
  proof (cases "parseDraft deps draft")
    case (Inl e)
    then show ?thesis using parseDraft_Inl [OF Inl] by (auto simp: schedulePayment_def ok isScheduleRefusal_iff)
  next
    case d: (Inr d)
    show ?thesis
    proof (cases "sd_now deps")
      case None
      then show ?thesis by (simp add: schedulePayment_def ok d)
    next
      case now: (Some now)
      obtain r where r: "draft_time env d now = Some r" unfolding draft_time_def using resolve_total by blast
      obtain e where e: "r = Inl e" using assms(2) d now r by (cases r) auto
      then have "isScheduleRefusal e" using time_errors [OF assms(1), of now _ e] r by (simp add: draft_time_def)
      then show ?thesis using e r by (auto simp: schedulePayment_def ok d now isScheduleRefusal_iff)
    qed
  qed
qed

section \<open>What is built\<close>

lemma yields_schedule_try: "yields P m \<Longrightarrow> yields P (schedule_try m)"
  by (auto simp: schedule_try_def yields_def eff_try_Some)

lemma yields_total: "yields (\<lambda>x. r = Some (Inr x)) (eff_total r)"
  by (auto simp: yields_def eff_total_def)

lemma yields_if: "(b \<Longrightarrow> yields P x) \<Longrightarrow> (\<not> b \<Longrightarrow> yields P y) \<Longrightarrow> yields P (if b then x else y)"
  by simp

text \<open>What the tool read and checked before it built the call: the draft, the first run, the owner's
  rule, the active schedules and the allowance.\<close>

definition schedule_reads ::
    "zone_env \<Rightarrow> 'w schedule_deps \<Rightarrow> js_value \<Rightarrow> parsed_draft \<Rightarrow> resolved_time \<Rightarrow> rule \<Rightarrow> nat \<Rightarrow> int \<Rightarrow> bool" where
  "schedule_reads env deps draft d t r active avail \<longleftrightarrow>
     parseDraft deps draft = Inr d \<and> (\<exists>now. sd_now deps = Some now \<and> draft_time env d now = Some (Inr t))
     \<and> answered (gp_getRule (sd_guard deps) (sd_ownerAddress deps)) (Some r)
     \<and> (\<exists>schedules. answered (gp_listSchedules (sd_guard deps) (sd_ownerAddress deps)) schedules
          \<and> active = length (filter sh_active schedules))
     \<and> answered (call (sd_getAllowance deps (dr_assetSac d))) avail
     \<and> dr_assetSac d \<in> set (allowed_assets r) \<and> dr_amountRaw d \<le> per_tx_limit r \<and> active < MAX_SCHEDULES
     \<and> dr_amountRaw d * dr_runs d \<le> avail"

context guard_writer
begin

lemma schedule_yields:
  assumes "sd_guard deps = port"
  shows "yields (\<lambda>r. \<exists>d t rule active avail c b. schedule_reads env deps draft d t rule active avail
      \<and> built (create_schedule_call (gp_contractId port) net (sd_ownerAddress deps) (dr_address d) (dr_assetSac d) (dr_amountRaw d)
           (rt_epochSeconds t) (dr_intervalSecs d) (dr_runs d)) c
      \<and> buildCreateScheduleSummary env sdk
          \<lparr>ci_unsignedXdr = gc_unsignedXdr c, ci_networkPassphrase = sd_networkPassphrase deps,
           ci_contractId = gp_contractId port, ci_alias = dr_alias d, ci_assetCode = dr_assetCode d,
           ci_timeZone = fr_timeZone (dr_firstRun d), ci_explorerBase = truthy_string (sd_explorerBase deps)\<rparr> = Inr b
      \<and> r = \<lparr>sr_unsignedXdr = gc_unsignedXdr c, sr_summary = bs_summary b, sr_payloadHash = bs_payloadHash b,
             sr_warnings = draft_warnings d t rule\<rparr>)
     (schedulePayment env sdk deps draft)"
  unfolding schedulePayment_def assms
  apply (rule yields_bind_any)
  apply (rule yields_bind [OF yields_eff_of])
  apply (split option.split, intro conjI allI impI, simp)
  apply (rule yields_bind [OF yields_total])
  apply (rule yields_bind [OF yields_schedule_try [OF yields_answered]])
  apply (split option.split, intro conjI allI impI, simp)
  apply (rule yields_if, simp)
  apply (rule yields_if, simp)
  apply (rule yields_bind [OF yields_schedule_try [OF yields_answered]])
  apply (unfold Let_def)
  apply (rule yields_if, simp)
  apply (rule yields_bind [OF yields_schedule_try [OF yields_answered]])
  apply (rule yields_if, simp)
  apply (rule yields_bind [OF yields_schedule_try [OF create_schedule_built]])
  apply (rule yields_bind [OF yields_eff_of])
  subgoal for u d now t rule' rule schedules avail c b
    by (rule yields_ret [THEN iffD2], rule exI [of _ d], rule exI [of _ t], rule exI [of _ rule],
        rule exI [of _ "length (filter sh_active schedules)"], rule exI [of _ avail], rule exI [of _ c], rule exI [of _ b])
      (auto simp: schedule_reads_def assms)
  done

end

lemma first_run_bounds:
  assumes "draft_time env d now = Some (Inr t)"
  shows "of_int (now div 1000) + 60 \<le> (of_int (rt_epochSeconds t) :: rat)"
  using assms by (auto simp: draft_time_def resolveLocalTime_def time_args_def min_lead_def coerceNow_def resolved_at_def Let_def
      split: sum.splits if_splits)

text \<open>C3: A schedule that is built is within the owner's mandate.  The XDR is the client's
  \<open>create_schedule\<close> of the resolved address, the asset contract of the owner's table, the draft's amount,
  the resolved first run, at least a minute ahead, and the draft's interval and runs.  In every state of
  the contract that agrees with what the tool read the contract accepts it; and whatever happens after
  that, the runs of the schedule together never pay more than the allowance the tool found.\<close>

theorem schedule_within_mandate:
  assumes "schedulePayment env sdk deps draft w = Some (Inr r, w')" and "sd_guard deps = client_port penv sdk cl"
  shows "\<exists>d t rule active avail c now. schedule_reads env deps draft d t rule active avail
    \<and> sd_now deps = Some now \<and> of_int (now div 1000) + 60 \<le> (of_int (rt_epochSeconds t) :: rat)
    \<and> sr_unsignedXdr r = gc_unsignedXdr c \<and> sr_warnings r = draft_warnings d t rule
    \<and> client_built sdk cl (create_schedule_call (cl_contractId cl) (client_net cl) (sd_ownerAddress deps) (dr_address d)
         (dr_assetSac d) (dr_amountRaw d) (rt_epochSeconds t) (dr_intervalSecs d) (dr_runs d)) c
    \<and> (\<forall>st. guard_inv st \<and> gs_rule (cs_guard st (sd_ownerAddress deps)) = Some rule
         \<and> length (list_schedules st (sd_ownerAddress deps)) = active \<and> cs_next st + 1 < 2 ^ 32 \<longrightarrow>
         (\<exists>sid st1. create_schedule st (sd_ownerAddress deps) (dr_address d) (dr_assetSac d) (dr_amountRaw d)
              (rt_epochSeconds t) (dr_intervalSecs d) (dr_runs d) = Inr (sid, st1)
            \<and> (\<forall>from_time evs st2. guard_steps from_time st1 evs st2 \<longrightarrow>
                 dr_amountRaw d * int (length (run_times sid evs)) \<le> avail)))"
proof -
  have id: "gp_contractId (client_port penv sdk cl) = cl_contractId cl" by (simp add: client_port_def)
  obtain d t rule active avail c where reads: "schedule_reads env deps draft d t rule active avail"
    and call: "client_built sdk cl (create_schedule_call (cl_contractId cl) (client_net cl) (sd_ownerAddress deps) (dr_address d)
         (dr_assetSac d) (dr_amountRaw d) (rt_epochSeconds t) (dr_intervalSecs d) (dr_runs d)) c"
    and r: "sr_unsignedXdr r = gc_unsignedXdr c" "sr_warnings r = draft_warnings d t rule"
    using yieldsD [OF client_writer.schedule_yields [OF assms(2)] assms(1)] unfolding id by force
  obtain now where now: "sd_now deps = Some now" "draft_time env d now = Some (Inr t)" and d: "parseDraft deps draft = Inr d"
    and caps: "dr_assetSac d \<in> set (allowed_assets rule)" "dr_amountRaw d \<le> per_tx_limit rule" "active < MAX_SCHEDULES"
      "dr_amountRaw d * dr_runs d \<le> avail"
    using reads by (auto simp: schedule_reads_def)
  note p = parseDraft_Inr [OF d]
  have good: "0 \<le> dr_intervalSecs d" "1 \<le> dr_runs d" "dr_intervalSecs d = 0 \<longrightarrow> dr_runs d = 1" "0 < dr_amountRaw d"
    using p by (simp_all add: good_interval_def)
  have accepted: "\<exists>sid st1. create_schedule st (sd_ownerAddress deps) (dr_address d) (dr_assetSac d) (dr_amountRaw d)
              (rt_epochSeconds t) (dr_intervalSecs d) (dr_runs d) = Inr (sid, st1)
            \<and> (\<forall>from_time evs st2. guard_steps from_time st1 evs st2 \<longrightarrow> dr_amountRaw d * int (length (run_times sid evs)) \<le> avail)"
    if inv: "guard_inv st" and st: "gs_rule (cs_guard st (sd_ownerAddress deps)) = Some rule"
      "length (list_schedules st (sd_ownerAddress deps)) = active" "cs_next st + 1 < 2 ^ 32" for st
  proof -
    have "length (cs_owned st (sd_ownerAddress deps)) < MAX_ACTIVE_PER_OWNER"
      using st(2) caps(3) by (simp add: length_list_schedules [OF inv] MAX_SCHEDULES_def MAX_ACTIVE_PER_OWNER_def)
    moreover have "0 \<le> cs_next st + 1" using guard_invD(1) [OF inv] by simp
    ultimately obtain sid st1 where c: "create_schedule st (sd_ownerAddress deps) (dr_address d) (dr_assetSac d) (dr_amountRaw d)
              (rt_epochSeconds t) (dr_intervalSecs d) (dr_runs d) = Inr (sid, st1)"
      using st caps good unfolding create_schedule_Inr by auto
    have "0 \<le> dr_runs d" using good(2) by simp
    from created_budget [OF inv c good(1) this] caps(4) c show ?thesis by (meson order_trans)
  qed
  show ?thesis using reads now(1) first_run_bounds [OF now(2)] r call accepted by blast
qed

lemma resolved_range:
  assumes "draft_time env d now = Some (Inr t)"
  shows "\<bar>rt_epochSeconds t * 1000\<bar> \<le> 8640000000000000"
proof -
  have "\<bar>e\<bar> \<le> 8640000000000000" if "iso_string e = Inr u" for e u
    using that by (simp add: iso_string_def split: if_splits)
  then show ?thesis using assms
    by (auto simp: draft_time_def resolveLocalTime_def resolved_at_def Let_def split: sum.splits if_splits)
qed

text \<open>C38: Every number handed to \<open>create_schedule\<close> has the type of its argument: the amount is a positive
  64-bit amount, the first run and the interval are \<open>u64\<close>, the runs are a \<open>u32\<close> other than 0, and a
  one-shot schedule has one run.  The product the allowance is compared with fits an \<open>i128\<close>.\<close>

theorem schedule_args_typed:
  assumes "schedule_reads env deps draft d t r active avail" "sd_now deps = Some now" "0 \<le> now"
  shows "0 < dr_amountRaw d \<and> dr_amountRaw d < 2 ^ 63 \<and> 0 \<le> rt_epochSeconds t \<and> rt_epochSeconds t < 2 ^ 64
    \<and> 0 \<le> dr_intervalSecs d \<and> dr_intervalSecs d < 2 ^ 64 \<and> 1 \<le> dr_runs d \<and> dr_runs d < 2 ^ 32
    \<and> (dr_intervalSecs d = 0 \<longrightarrow> dr_runs d = 1) \<and> dr_amountRaw d * dr_runs d < 2 ^ 127"
proof -
  have d: "parseDraft deps draft = Inr d" and t: "draft_time env d now = Some (Inr t)"
    using assms(1,2) by (auto simp: schedule_reads_def)
  have p: "0 < dr_amountRaw d" "dr_amountRaw d \<le> MAX_STROOPS" "good_interval (dr_intervalSecs d) (dr_runs d)"
    using parseDraft_Inr [OF d] by simp_all
  have runs: "1 \<le> dr_runs d" "dr_runs d \<le> 4294967295" using p(3) by (simp_all add: good_interval_def U32_MAX_VALUE_def)
  have "dr_amountRaw d * dr_runs d \<le> MAX_STROOPS * 4294967295" using p runs by (intro mult_mono) simp_all
  then have total: "dr_amountRaw d * dr_runs d < 2 ^ 127" by (simp add: MAX_STROOPS_def)
  have "0 \<le> now div 1000" using assms(3) by (simp add: pos_imp_zdiv_nonneg_iff)
  then have "(0::rat) \<le> of_int (rt_epochSeconds t)"
    using first_run_bounds [OF t] by (meson add_nonneg_nonneg of_int_0_le_iff order_trans zero_le_numeral)
  then have "0 \<le> rt_epochSeconds t" by simp
  moreover have "rt_epochSeconds t < 2 ^ 64" using resolved_range [OF t] by simp
  ultimately show ?thesis using p runs total by (simp add: good_interval_def MAX_STROOPS_def)
qed

section \<open>Cancelling\<close>

interpretation run_sort: comparator run_order
proof -
  have eq: "run_order = (\<lambda>a b. double_of (sh_next_run_at a) < double_of (sh_next_run_at b)
      \<or> double_of (sh_next_run_at a) = double_of (sh_next_run_at b) \<and> sh_id a \<le> sh_id b)"
    by (rule ext, rule ext) (auto simp: run_order_def)
  show "comparator run_order" unfolding eq by (rule lex_comparator)
qed

text \<open>Which of the owner's active schedules a request means.\<close>

definition meant :: "alias_book \<Rightarrow> schedule list \<Rightarrow> cancel_request \<Rightarrow> schedule \<Rightarrow> bool" where
  "meant book active q s \<longleftrightarrow>
     (case cq_id q of
        Some i \<Rightarrow> sh_id s = i
      | None \<Rightarrow>
          (\<exists>name entry. draft_recipient book (V_Str (case cq_recipient q of Some r \<Rightarrow> r | None \<Rightarrow> [])) = Inr (name, entry)
             \<and> sh_to s = ae_address entry
             \<and> (case cq_which q of
                  None \<Rightarrow> filter (\<lambda>x. sh_to x = ae_address entry) active = [s]
                | Some which \<Rightarrow>
                    (\<forall>x \<in> set active. sh_to x = ae_address entry \<longrightarrow>
                       (if which = ''next'' then run_order s x else run_order x s)))))"

lemma nth_or_sorted:
  assumes "js_sort run_order xs \<noteq> []"
  shows "nth_or d (js_sort run_order xs) 0 = hd (js_sort run_order xs)"
    "nth_or d (js_sort run_order xs) (length (js_sort run_order xs) - 1) = last (js_sort run_order xs)"
  using assms by (simp_all add: nth_or_def hd_conv_nth last_conv_nth)

lemma picked_extreme:
  assumes "xs \<noteq> []" "x = (if w = ''next'' then nth_or d (js_sort run_order xs) 0
      else nth_or d (js_sort run_order xs) (length (js_sort run_order xs) - 1))"
  shows "x \<in> set xs \<and> (\<forall>y \<in> set xs. if w = ''next'' then run_order x y else run_order y x)"
proof -
  let ?l = "js_sort run_order xs"
  have ne: "?l \<noteq> []" using assms(1) by simp
  have x: "x = (if w = ''next'' then hd ?l else last ?l)" unfolding assms(2) nth_or_sorted [OF ne] ..
  then have "x \<in> set ?l" using ne by (simp del: set_js_sort)
  then have "x \<in> set xs" by simp
  then show ?thesis using x run_sort.hd_least run_sort.last_greatest by auto
qed

lemma pick_meant:
  assumes "pick_schedule env deps active q = Inr (s, name)"
  shows "s \<in> set active \<and> meant (sd_aliases deps) active q s"
proof (cases "cq_id q")
  case (Some i)
  then show ?thesis using assms
    by (auto simp: pick_schedule_def meant_def find_Some_iff split: option.splits)
next
  case None
  define rec where "rec = (case cq_recipient q of Some r \<Rightarrow> r | None \<Rightarrow> [])"
  obtain al where p: "pickByRecipient env deps active rec (cq_which q) = Inr (s, al)"
    using assms None by (auto simp: pick_schedule_def rec_def)
  then obtain name' entry where r: "draft_recipient (sd_aliases deps) (V_Str rec) = Inr (name', entry)"
    unfolding pickByRecipient_def and_then_Inr by fast
  let ?found = "filter (\<lambda>x. sh_to x = ae_address entry) active"
  have cases: "?found = [s] \<or> (\<exists>w. cq_which q = Some w \<and> ?found \<noteq> []
      \<and> (\<exists>d. s = (if w = ''next'' then nth_or d (js_sort run_order ?found) 0
               else nth_or d (js_sort run_order ?found) (length (js_sort run_order ?found) - 1))))"
  proof (cases ?found)
    case Nil
    then show ?thesis using p r by (simp add: pickByRecipient_def)
  next
    case (Cons x xs)
    show ?thesis
    proof (cases xs)
      case Nil
      then show ?thesis using p r Cons by (simp add: pickByRecipient_def)
    next
      case two: (Cons y ys)
      show ?thesis
      proof (cases "cq_which q")
        case None
        then show ?thesis using p r Cons two by (simp add: pickByRecipient_def)
      next
        case (Some w)
        define v where "v = (if w = ''next'' then nth_or x (js_sort run_order ?found) 0
               else nth_or x (js_sort run_order ?found) (length (js_sort run_order ?found) - 1))"
        have "pickByRecipient env deps active rec (cq_which q) = Inr (v, name')"
          unfolding pickByRecipient_def r v_def using Cons two Some by (simp add: Let_def del: js_sort.simps length_js_sort)
        then have "s = v" using p by simp
        then have sv: "s = (if w = ''next'' then nth_or x (js_sort run_order ?found) 0
               else nth_or x (js_sort run_order ?found) (length (js_sort run_order ?found) - 1))"
          unfolding v_def .
        have "?found \<noteq> []" unfolding Cons by (rule list.distinct(2))
        then show ?thesis by (intro disjI2 exI [of _ w] conjI Some exI [of _ x] sv)
      qed
    qed
  qed
  have "s \<in> set ?found \<and> (\<forall>w. cq_which q = Some w \<longrightarrow>
      (\<forall>x \<in> set ?found. if w = ''next'' then run_order s x else run_order x s))
    \<and> (cq_which q = None \<longrightarrow> ?found = [s])"
    using cases
  proof (elim disjE exE conjE)
    assume f: "?found = [s]"
    then show ?thesis using run_sort.le_refl by auto
  next
    fix w d assume w: "cq_which q = Some w" "?found \<noteq> []"
      and s: "s = (if w = ''next'' then nth_or d (js_sort run_order ?found) 0
               else nth_or d (js_sort run_order ?found) (length (js_sort run_order ?found) - 1))"
    show ?thesis using picked_extreme [OF w(2) s] w(1) by auto
  qed
  then show ?thesis using r None by (auto simp: meant_def rec_def split: option.splits if_splits)
qed

context guard_writer
begin

lemma cancel_yields:
  assumes "sd_guard deps = port"
  shows "yields (\<lambda>r. \<exists>q schedules s c. parseRequest req = Inr q
      \<and> answered (gp_listSchedules port (sd_ownerAddress deps)) schedules
      \<and> s \<in> set schedules \<and> sh_active s \<and> meant (sd_aliases deps) (filter sh_active schedules) q s
      \<and> built (cancel_schedule_call (gp_contractId port) net (sd_ownerAddress deps) (sh_id s)) c
      \<and> xr_unsignedXdr r = gc_unsignedXdr c \<and> xr_id r = sh_id s)
     (cancelScheduleTool env sdk deps req)"
  unfolding cancelScheduleTool_def assms Let_def
  apply (rule yields_bind_any)
  apply (rule yields_bind [OF yields_eff_of])
  apply (rule yields_bind [OF yields_schedule_try [OF yields_answered]])
  apply (rule yields_bind [OF yields_eff_of], clarify)
  apply (rule yields_bind [OF yields_schedule_try [OF cancel_schedule_built]])
  apply (rule yields_bind_any)
  subgoal for q schedules s name c b
    by (rule yields_ret [THEN iffD2], rule exI [of _ q], rule exI [of _ schedules], rule exI [of _ s], rule exI [of _ c])
      (use pick_meant [of env deps "filter sh_active schedules" q s name] in auto)
  done

end

text \<open>C12: Cancelling never guesses.  What is built is the client's \<open>cancel_schedule\<close> of one active schedule
  of the owner's listing: the one with the requested id, or the only one that pays the named recipient,
  or, when the request says which, the next or the last of them.  In every state in which the contract
  still holds that schedule for the owner it accepts the call, and the schedule never runs again.\<close>

theorem cancel_never_guesses:
  assumes "cancelScheduleTool env sdk deps req w = Some (Inr r, w')" and "sd_guard deps = client_port penv sdk cl"
  shows "\<exists>q schedules s c. parseRequest req = Inr q
      \<and> answered (gp_listSchedules (client_port penv sdk cl) (sd_ownerAddress deps)) schedules
      \<and> s \<in> set schedules \<and> sh_active s \<and> meant (sd_aliases deps) (filter sh_active schedules) q s
      \<and> client_built sdk cl (cancel_schedule_call (cl_contractId cl) (client_net cl) (sd_ownerAddress deps) (sh_id s)) c
      \<and> xr_unsignedXdr r = gc_unsignedXdr c \<and> xr_id r = sh_id s
      \<and> (\<forall>st. guard_inv st \<and> cs_schedule st (sh_id s) = Some s \<and> sh_owner s = sd_ownerAddress deps \<longrightarrow>
           (\<exists>st1. cancel_schedule st (sd_ownerAddress deps) (sh_id s) = Inr st1
              \<and> (\<forall>t evs st2. guard_steps t st1 evs st2 \<longrightarrow> run_times (sh_id s) evs = [])))"
proof -
  have id: "gp_contractId (client_port penv sdk cl) = cl_contractId cl" by (simp add: client_port_def)
  obtain q schedules s c where b: "parseRequest req = Inr q"
      "answered (gp_listSchedules (client_port penv sdk cl) (sd_ownerAddress deps)) schedules"
      "s \<in> set schedules" "sh_active s" "meant (sd_aliases deps) (filter sh_active schedules) q s"
      "client_built sdk cl (cancel_schedule_call (cl_contractId cl) (client_net cl) (sd_ownerAddress deps) (sh_id s)) c"
      "xr_unsignedXdr r = gc_unsignedXdr c" "xr_id r = sh_id s"
    using yieldsD [OF client_writer.cancel_yields [OF assms(2)] assms(1)] unfolding id by blast
  have "\<exists>st1. cancel_schedule st (sd_ownerAddress deps) (sh_id s) = Inr st1
      \<and> (\<forall>t evs st2. guard_steps t st1 evs st2 \<longrightarrow> run_times (sh_id s) evs = [])"
    if inv: "guard_inv st" and st: "cs_schedule st (sh_id s) = Some s" "sh_owner s = sd_ownerAddress deps" for st
  proof -
    define st1 where "st1 = deindex (st\<lparr>cs_schedule := (cs_schedule st)(sh_id s \<mapsto> s\<lparr>sh_active := False\<rparr>)\<rparr>) (sd_ownerAddress deps) (sh_id s)"
    have c: "cancel_schedule st (sd_ownerAddress deps) (sh_id s) = Inr st1"
      using st b(4) by (auto simp: cancel_schedule_Inr st1_def)
    have inv1: "guard_inv st1" by (rule guard_inv_after [OF step_cancel [OF c] inv])
    have s1: "cs_schedule st1 (sh_id s) = Some (s\<lparr>sh_active := False\<rparr>)" by (simp add: st1_def deindex_def)
    have "on_grid (sh_next_run_at s) (s\<lparr>sh_active := False\<rparr>)"
      using guard_invD(3) [OF inv st(1)] by (auto simp: on_grid_def good_schedule_def intro!: exI [of _ 0])
    then have "run_times (sh_id s) evs = []" if "guard_steps t st1 evs st2" for t evs st2
      using runs_of_steps [OF that inv1 s1] by auto
    then show ?thesis using c by blast
  qed
  then show ?thesis using b by blast
qed

section \<open>Listing\<close>

lemma map_results_Inr: "map_results f xs = Inr ys \<longleftrightarrow> list_all2 (\<lambda>x y. f x = Inr y) xs ys"
  by (induction xs arbitrary: ys) (auto simp: list_all2_Cons1)

text \<open>A row shows its schedule, and its status is the one of the clock.\<close>

definition row_of :: "zone_env \<Rightarrow> 'w schedule_deps \<Rightarrow> js_value \<Rightarrow> int \<Rightarrow> rat \<Rightarrow> schedule \<Rightarrow> upcoming_payment \<Rightarrow> bool" where
  "row_of env deps tz now poll s row \<longleftrightarrow>
     upcoming_row env deps (reverseAliases (sd_aliases deps)) tz now poll s = Inr row"

lemma upcoming_comparator: "comparator upcoming_order"
proof -
  have eq: "upcoming_order = (\<lambda>a b. up_nextRunUtc a < up_nextRunUtc b \<or> up_nextRunUtc a = up_nextRunUtc b \<and> up_id a \<le> up_id b)"
    by (rule ext, rule ext) (auto simp: upcoming_order_def)
  show ?thesis unfolding eq by (rule lex_comparator)
qed

interpretation upcoming_sort: comparator upcoming_order
  by (rule upcoming_comparator)

lemma listUpcoming_yields:
  "yields (\<lambda>rows. \<exists>schedules now poll tz. answered (gp_listSchedules (sd_guard deps) (sd_ownerAddress deps)) schedules
      \<and> poll_seconds deps = Inr poll
      \<and> (\<exists>ys. list_all2 (row_of env deps tz now poll) schedules ys \<and> rows = js_sort upcoming_order ys))
     (listUpcoming env clock deps options)"
  unfolding listUpcoming_def
  apply (rule yields_bind_any)
  apply (rule yields_bind [OF yields_eff_of])
  apply (rule yields_bind [OF yields_eff_of])
  apply (rule yields_bind [OF yields_eff_of])
  apply (rule yields_bind [OF yields_schedule_try [OF yields_answered]])
  apply (rule yields_bind [OF yields_eff_of])
  subgoal for u poll parsed now schedules rows
    by (rule yields_ret [THEN iffD2], rule exI [of _ schedules], rule exI [of _ "now div 1000"], rule exI [of _ poll],
        rule exI [of _ "lo_timeZone parsed"]) (auto simp: map_results_Inr row_of_def [abs_def])
  done

lemma row_fields:
  assumes "row_of env deps tz now poll s row"
  shows "up_id row = sh_id s" "iso_string (double_of (sh_next_run_at s) * 1000) = Inr (up_nextRunUtc row)"
    "up_status row = grade s now poll" "fromRawUnits (sh_amount s) = Inr (up_amount row)"
    "up_recipientAddress row = sh_to s" "up_runsLeft row = sh_runs_left s"
  using assms by (auto simp: row_of_def upcoming_row_def nextRunUtc_def)

lemma row_time:
  assumes "row_of env deps tz now poll s row" "0 \<le> sh_next_run_at s" "sh_next_run_at s < 253402300800"
  shows "up_nextRunUtc row = iso_fields (sh_next_run_at s * 1000) \<and> in_four_digits (sh_next_run_at s * 1000)"
proof -
  have d: "double_of (sh_next_run_at s) = sh_next_run_at s" using assms(2,3) by simp
  have f: "in_four_digits (sh_next_run_at s * 1000)" using assms(2,3) by (simp add: in_four_digits_def)
  then show ?thesis using row_fields(2) [OF assms(1)] unfolding d iso_string_fields [OF f] by simp
qed

text \<open>The list of upcoming payments has one row for each schedule the guard lists, and nothing else;
  it is sorted by the next run and then by the id, although the sources compare printed times, as
  long as no run lies beyond the year 9999; and a row is due or delayed only when its run is not in the
  future.\<close>

theorem upcoming_sorted:
  assumes "listUpcoming env clock deps options w = Some (Inr rows, w')"
  shows "\<exists>schedules now poll tz ys. answered (gp_listSchedules (sd_guard deps) (sd_ownerAddress deps)) schedules
    \<and> list_all2 (row_of env deps tz now poll) schedules ys \<and> mset rows = mset ys
    \<and> ((\<forall>s \<in> set schedules. 0 \<le> sh_next_run_at s \<and> sh_next_run_at s < 253402300800) \<longrightarrow>
        (\<forall>i j. i < j \<and> j < length rows \<longrightarrow>
          (\<exists>a \<in> set schedules. \<exists>b \<in> set schedules. row_of env deps tz now poll a (rows ! i) \<and> row_of env deps tz now poll b (rows ! j)
             \<and> (sh_next_run_at a < sh_next_run_at b \<or> sh_next_run_at a = sh_next_run_at b \<and> sh_id a \<le> sh_id b))))
    \<and> (\<forall>row \<in> set rows. \<exists>s \<in> set schedules. row_of env deps tz now poll s row
         \<and> (up_status row \<in> {Up_Due, Up_Delayed} \<longleftrightarrow> sh_active s \<and> 0 < sh_runs_left s \<and> double_of (sh_next_run_at s) \<le> now))"
proof -
  obtain schedules now poll tz ys where l: "answered (gp_listSchedules (sd_guard deps) (sd_ownerAddress deps)) schedules"
      "list_all2 (row_of env deps tz now poll) schedules ys" "rows = js_sort upcoming_order ys"
    using yieldsD [OF listUpcoming_yields assms] by blast
  have src: "\<exists>s \<in> set schedules. row_of env deps tz now poll s row" if row: "row \<in> set rows" for row
  proof -
    obtain i where "i < length ys" "row = ys ! i" using row by (auto simp: l(3) in_set_conv_nth)
    then show ?thesis using l(2) by (auto simp: list_all2_conv_all_nth intro!: bexI [of _ "schedules ! i"])
  qed
  have sorted: "sorted_wrt upcoming_order rows" unfolding l(3) by (rule upcoming_sort.sorted_sort)
  have order: "\<exists>a \<in> set schedules. \<exists>b \<in> set schedules. row_of env deps tz now poll a (rows ! i) \<and> row_of env deps tz now poll b (rows ! j)
             \<and> (sh_next_run_at a < sh_next_run_at b \<or> sh_next_run_at a = sh_next_run_at b \<and> sh_id a \<le> sh_id b)"
    if range: "\<forall>s \<in> set schedules. 0 \<le> sh_next_run_at s \<and> sh_next_run_at s < 253402300800" and ij: "i < j \<and> j < length rows" for i j
  proof -
    obtain a where a: "a \<in> set schedules" "row_of env deps tz now poll a (rows ! i)" using src [of "rows ! i"] ij by auto
    obtain b where b: "b \<in> set schedules" "row_of env deps tz now poll b (rows ! j)" using src [of "rows ! j"] ij by auto
    have "upcoming_order (rows ! i) (rows ! j)" using sorted ij by (simp add: sorted_wrt_iff_nth_less)
    then have "up_nextRunUtc (rows ! i) < up_nextRunUtc (rows ! j)
        \<or> up_nextRunUtc (rows ! i) = up_nextRunUtc (rows ! j) \<and> up_id (rows ! i) \<le> up_id (rows ! j)"
      by (auto simp: upcoming_order_def split: if_splits)
    then have "sh_next_run_at a < sh_next_run_at b \<or> sh_next_run_at a = sh_next_run_at b \<and> sh_id a \<le> sh_id b"
      using row_time [OF a(2)] row_time [OF b(2)] range a(1) b(1) row_fields(1) [OF a(2)] row_fields(1) [OF b(2)]
      by (simp add: iso_fields_order)
    then show ?thesis using a b by blast
  qed
  have status: "up_status row \<in> {Up_Due, Up_Delayed} \<longleftrightarrow> sh_active s \<and> 0 < sh_runs_left s \<and> double_of (sh_next_run_at s) \<le> now"
    if "row_of env deps tz now poll s row" for s row
    unfolding row_fields(3) [OF that] by (auto simp: grade_def Let_def)
  have stat: "\<forall>row \<in> set rows. \<exists>s \<in> set schedules. row_of env deps tz now poll s row
      \<and> (up_status row \<in> {Up_Due, Up_Delayed} \<longleftrightarrow> sh_active s \<and> 0 < sh_runs_left s \<and> double_of (sh_next_run_at s) \<le> now)"
    using src status by blast
  have "mset rows = mset ys" by (simp add: l(3))
  then show ?thesis
    by (intro exI [of _ schedules] exI [of _ now] exI [of _ poll] exI [of _ tz] exI [of _ ys] conjI impI allI)
      (use l stat order in simp_all)
qed

end
