(* ===== verification/Schedule_Examples.thy ===== *)
theory Schedule_Examples
  imports Schedule_Laws
begin

text \<open>
  Runs of the schedule tools through the guard client, on a node and a zone given as functions: each
  property of \<open>Schedule_Laws\<close> at a concrete draft, request and listing.
\<close>

section \<open>A node and a guard\<close>

definition sdk_with :: "native list \<Rightarrow> (unit, string, unit) guard_sdk" where
  "sdk_with args = guard_sdk_example\<lparr>gk_first_op := (\<lambda>tx. Invoke_Contract ''CGUARD'' tx args)\<rparr>"

definition client_with :: "(string \<Rightarrow> native) \<Rightarrow> (unit, unit, string, unit) guard_client" where
  "client_with answer = guard_client_example\<lparr>cl_rpc :=
     guard_rpc_example\<lparr>rq_simulateTransaction := (\<lambda>tx w. (Inr (Sim_Ok () (Some (answer tx))), w))\<rparr>\<rparr>"

lemma encode_args_with: "encode_args (sdk_with f) vs = Inr vs"
  by (induction vs) (simp_all add: sdk_with_def guard_sdk_example_def)

lemma read_with: "guard_read m args (sdk_with f) (client_with answer) w = Some (Inr (answer m), w)"
  unfolding guard_read_def encode_args_with eff_of_Inr eff_bind_simps
  by (simp add: simulateReadValue_def request_def client_with_def guard_client_example_def guard_rpc_example_def client_options_def
      buildTransaction_def sdk_with_def guard_sdk_example_def eff_bind_def eff_of_def)

lemma write_with: "\<exists>c. guard_write src m args (sdk_with f) (client_with answer) w = Some (Inr c, w) \<and> gc_unsignedXdr c = m"
  unfolding guard_write_def unsigned_call_def encode_args_with eff_of_Inr eff_bind_simps
  by (simp add: buildUnsignedInvoke_def request_def client_with_def guard_client_example_def guard_rpc_example_def client_options_def
      buildTransaction_def sdk_with_def guard_sdk_example_def buildGuardCallSummary_def decodeTx_def decodeInvocation_def Let_def
      eff_bind_def eff_of_def)

definition weekly_example :: schedule where
  "weekly_example = new_schedule 7 ''GOWNER'' ''GADA'' ''CUSDC'' 20000000 1780308000 604800 4"

definition schedule_env_example :: port_env where
  "schedule_env_example = \<lparr>pe_rule = (\<lambda>_. rule_example), pe_schedule = (\<lambda>_. weekly_example), pe_number = (\<lambda>_. JNaN)\<rparr>"

definition schedule_deps_with :: "native list \<Rightarrow> (string \<Rightarrow> native) \<Rightarrow> unit schedule_deps" where
  "schedule_deps_with args answer = \<lparr>sd_ownerAddress = ''GOWNER'', sd_aliases = book_example,
     sd_guard = client_port schedule_env_example (sdk_with args) (client_with answer), sd_assets = defaultAssetRegistry,
     sd_guardAssetContracts = Some [(''USDC'', ''CUSDC'')], sd_networkPassphrase = ''Test'', sd_explorerBase = None,
     sd_now = Some 1000, sd_pollSeconds = None, sd_getAllowance = (\<lambda>_ w. (Inr 1000000000, w))\<rparr>"

lemma deps_with_fields:
  "sd_ownerAddress (schedule_deps_with args answer) = ''GOWNER''" "sd_aliases (schedule_deps_with args answer) = book_example"
  "sd_guard (schedule_deps_with args answer) = client_port schedule_env_example (sdk_with args) (client_with answer)"
  "sd_assets (schedule_deps_with args answer) = defaultAssetRegistry" "sd_now (schedule_deps_with args answer) = Some 1000"
  "sd_guardAssetContracts (schedule_deps_with args answer) = Some [(''USDC'', ''CUSDC'')]"
  "sd_networkPassphrase (schedule_deps_with args answer) = ''Test''" "sd_explorerBase (schedule_deps_with args answer) = None"
  "sd_getAllowance (schedule_deps_with args answer) = (\<lambda>_ w. (Inr 1000000000, w))" "sd_pollSeconds (schedule_deps_with args answer) = None"
  "assertScheduleDeps (schedule_deps_with args answer) = Inr ()"
  by (simp_all add: schedule_deps_with_def assertScheduleDeps_def)

lemma port_calls:
  "schedule_try (gp_getRule (client_port schedule_env_example (sdk_with args) (client_with answer)) owner) w
     = Some (Inr (if answer ''get_rule'' = N_Null \<or> answer ''get_rule'' = N_Undefined then None else Some rule_example), w)"
  "schedule_try (gp_listSchedules (client_port schedule_env_example (sdk_with args) (client_with answer)) owner) w
     = Some (Inr (case answer ''list_schedules'' of N_List vs \<Rightarrow> map (\<lambda>_. weekly_example) vs | _ \<Rightarrow> []), w)"
  by (auto simp: schedule_try_def client_port_def port_method_def eff_try_def eff_map_def eff_bind_def getRule_def listSchedules_def
      read_map_def read_with non_nullish_def schedule_env_example_def split: native.split)

section \<open>Creating\<close>

definition draft_example :: js_value where
  "draft_example = V_Obj
     [(''recipient'', V_Str ''Ada''), (''asset'', V_Str ''USDC''), (''amount'', V_Str ''2''), (''runs'', V_Num (jint 4)),
      (''repeat'', V_Obj [(''every'', V_Str ''week'')]),
      (''firstRun'', V_Obj [(''localDate'', V_Str ''2026-06-01''), (''localTime'', V_Str ''12:00''), (''timeZone'', V_Str ''Europe/Berlin'')])]"

definition parsed_example :: parsed_draft where
  "parsed_example = \<lparr>dr_alias = ''ada'', dr_address = ''GADA'', dr_assetCode = ''USDC'', dr_assetSac = ''CUSDC'', dr_amount = ''2'',
     dr_amountRaw = 20000000, dr_intervalSecs = 604800, dr_runs = 4,
     dr_firstRun = \<lparr>fr_localDate = ''2026-06-01'', fr_localTime = ''12:00'', fr_timeZone = ''Europe/Berlin''\<rparr>\<rparr>"

lemma ada_example: "draft_recipient book_example (V_Str ''Ada'')
    = Inr (''ada'', \<lparr>ae_address = ''GADA'', ae_network = ''testnet'', ae_ctRegistered = None, ae_sppReady = None\<rparr>)"
proof -
  have "js_lower (js_trim ''Ada'') = ''ada''" "js_lower (js_trim ''ada'') = ''ada''" by code_simp+
  then show ?thesis by (simp add: draft_recipient_def resolveAlias_def book_example_def jm_get_def)
qed

lemma parsed_example: "parseDraft (schedule_deps_with args answer) draft_example = Inr parsed_example"
proof -
  have "js_upper (js_trim ''USDC'') = ''USDC''" by code_simp
  then have asset: "draft_asset (schedule_deps_with args answer) (V_Str ''USDC'') = Inr (''USDC'', ''CUSDC'')"
    by (simp add: draft_asset_def deps_with_fields defaultAssetRegistry_def schedule_asset_contract_def truthy_string_def)
  have amount: "schedule_amount (V_Str ''2'') = Inr ''2''" "toRawUnits ''2'' = Inr 20000000"
  proof -
    have "amount_re 7 ''2''" by code_simp
    then show "schedule_amount (V_Str ''2'') = Inr ''2''" by (simp add: schedule_amount_def stroops_two MAX_STROOPS_def)
  qed (simp add: amount_eval)
  have interval: "resolveInterval (V_Obj [(''every'', V_Str ''week'')]) (V_Num (jint 4)) = Inr (604800, 4)"
    by (simp add: resolveInterval_def parseRuns_def U32_MAX_VALUE_def WEEK_SECONDS_def)
  show ?thesis
    by (simp add: parseDraft_def draft_example_def asset amount deps_with_fields ada_example interval parseFirstRun_def parsed_example_def)
qed

lemma resolved_example: "\<exists>t. draft_time example_zone parsed_example 1000 = Some (Inr t) \<and> rt_epochSeconds t = 1780308000"
proof -
  have zone: "usual_zone example_zone ''Europe/Berlin'' example_summer"
    by (rule example_usual) (simp_all add: example_summer_utc, simp add: example_summer_def)
  obtain ts where l: "possibleInstants example_zone ''Europe/Berlin'' example_summer = 1000 * 1780308000 # ts"
    using possible_hd [OF zone example_earliest] by blast
  have p: "parseWall ''2026-06-01'' ''12:00'' = Inr example_summer" by code_simp
  have r: "DATE_RE ''2026-06-01''" "TIME_RE ''12:00''" by code_simp+
  have a: "time_args example_zone 1000 (Some \<lparr>ti_localDate = V_Str ''2026-06-01'', ti_localTime = V_Str ''12:00'',
      ti_timeZone = V_Str ''Europe/Berlin'', ti_now = Now_Date (Some 1000), ti_minLeadSeconds = V_Undefined\<rparr>)
      = Inr (''Europe/Berlin'', example_summer, 60, 1000)"
    by (simp add: time_args_def p r isValidTimeZone_def example_zone_def min_lead_def coerceNow_def)
  have d: "draft_time example_zone parsed_example 1000 = resolveLocalTime example_zone 1000 (Some \<lparr>ti_localDate = V_Str ''2026-06-01'',
      ti_localTime = V_Str ''12:00'', ti_timeZone = V_Str ''Europe/Berlin'', ti_now = Now_Date (Some 1000), ti_minLeadSeconds = V_Undefined\<rparr>)"
    by (simp add: draft_time_def parsed_example_def)
  obtain u where "iso_string 1780308000000 = Inr u" by (simp add: iso_string_def)
  then show ?thesis
    unfolding d by (simp add: resolveLocalTime_def a l resolved_at_def nth_or_def)
qed

definition create_args :: "native list" where
  "create_args = [N_Str ''GOWNER'', N_Str ''GADA'', N_Str ''CUSDC'', N_Big 20000000, N_Big 1780308000, N_Big 604800, N_Num 4]"

lemma words_example: "\<exists>s. words_of_interval env 604800 = Inr s"
  by (simp add: words_of_interval_def intervalWords_def jint_def)

lemma create_card_example:
  "\<exists>b. buildCreateScheduleSummary example_zone (sdk_with create_args)
     \<lparr>ci_unsignedXdr = ''create_schedule'', ci_networkPassphrase = ''Test'', ci_contractId = ''CGUARD'', ci_alias = ''ada'',
      ci_assetCode = ''USDC'', ci_timeZone = ''Europe/Berlin'', ci_explorerBase = None\<rparr> = Inr b"
proof -
  obtain s where s: "words_of_interval example_zone 604800 = Inr s" using words_example by blast
  obtain u where u: "iso_string 1780308000000 = Inr u" by (simp add: iso_string_def)
  obtain l where l: "formatInZone example_zone (jint 1780308000) (V_Str ''Europe/Berlin'') = Inr l"
    by (simp add: formatInZone_def jint_def isValidTimeZone_def example_zone_def)
  have sdk: "gk_fromXDR (sdk_with create_args) x y = Inr (Some x)" "gk_first_op (sdk_with create_args) x = Invoke_Contract ''CGUARD'' x create_args" for x y
    by (simp_all add: sdk_with_def guard_sdk_example_def)
  have n: "create_numbers create_args = Inr (20000000, 1780308000, 604800, 4)"
    by (simp add: create_numbers_def create_args_def nth_or_def)
  have "\<exists>x. fromRawUnits 20000000 = Inr x" "\<exists>x. fromRawUnits (20000000 * 4) = Inr x" by (simp_all add: fromRawUnits_eq)
  then obtain x y where xy: "fromRawUnits 20000000 = Inr x" "fromRawUnits (20000000 * 4) = Inr y" by blast
  show ?thesis
    unfolding buildCreateScheduleSummary_def schedule_decodeTx_def decodeArgs_def decodeInvocation_def decodeTx_def
    by (simp add: sdk n s u l xy [simplified] Let_def)
qed

definition answers :: "string \<Rightarrow> native" where
  "answers m = (if m = ''list_schedules'' then N_List [N_Big 0] else N_Big 0)"

lemma create_run_example:
  "\<exists>r. schedulePayment example_zone (sdk_with create_args) (schedule_deps_with create_args answers) draft_example () = Some (Inr r, ())"
proof -
  obtain t where t: "draft_time example_zone parsed_example 1000 = Some (Inr t)" "rt_epochSeconds t = 1780308000"
    using resolved_example by blast
  obtain c where c: "createSchedule ''GOWNER'' ''GADA'' ''CUSDC'' 20000000 1780308000 604800 4 (sdk_with create_args) (client_with answers) () = Some (Inr c, ())"
      "gc_unsignedXdr c = ''create_schedule''"
    unfolding createSchedule_def using write_with by blast
  have call: "schedule_try (gp_createSchedule (client_port schedule_env_example (sdk_with create_args) (client_with answers))
      ''GOWNER'' ''GADA'' ''CUSDC'' 20000000 1780308000 604800 4) () = Some (Inr c, ())"
    by (simp add: schedule_try_def client_port_def port_method_def eff_try_def c)
  obtain b where b: "buildCreateScheduleSummary example_zone (sdk_with create_args)
     \<lparr>ci_unsignedXdr = ''create_schedule'', ci_networkPassphrase = ''Test'', ci_contractId = ''CGUARD'', ci_alias = ''ada'',
      ci_assetCode = ''USDC'', ci_timeZone = ''Europe/Berlin'', ci_explorerBase = None\<rparr> = Inr b"
    using create_card_example by blast
  have id: "gp_contractId (client_port schedule_env_example (sdk_with create_args) (client_with answers)) = ''CGUARD''"
    by (simp add: client_port_def client_with_def guard_client_example_def)
  have reads: "schedule_try (gp_listSchedules (client_port schedule_env_example (sdk_with create_args) (client_with answers)) ''GOWNER'') () = Some (Inr [weekly_example], ())"
      "schedule_try (gp_getRule (client_port schedule_env_example (sdk_with create_args) (client_with answers)) ''GOWNER'') () = Some (Inr (Some rule_example), ())"
    by (simp_all add: port_calls) (simp_all add: answers_def)
  have allow: "schedule_try (call (\<lambda>w. (Inr 1000000000, w))) () = Some (Inr 1000000000, ())"
    by (simp add: schedule_try_def)
  show ?thesis
    using t b by (simp add: schedulePayment_def deps_with_fields parsed_example eff_bind_def eff_of_def eff_total_def reads
        rule_example_def parsed_example_def MAX_SCHEDULES_def allow call c id truthy_string_def Let_def)
qed

theorem schedule_within_mandate_witness:
  "\<exists>r d t rule active avail. schedulePayment example_zone (sdk_with create_args) (schedule_deps_with create_args answers) draft_example () = Some (Inr r, ())
     \<and> schedule_reads example_zone (schedule_deps_with create_args answers) draft_example d t rule active avail"
proof -
  obtain r where r: "schedulePayment example_zone (sdk_with create_args) (schedule_deps_with create_args answers) draft_example () = Some (Inr r, ())"
    using create_run_example by blast
  show ?thesis using schedule_within_mandate [OF r deps_with_fields(3)] r by blast
qed

lemma reads_example:
  "\<exists>t. schedule_reads example_zone (schedule_deps_with create_args answers) draft_example parsed_example t rule_example 1 1000000000"
proof -
  obtain t where t: "draft_time example_zone parsed_example 1000 = Some (Inr t)" using resolved_example by blast
  have rule: "answered (gp_getRule (client_port schedule_env_example (sdk_with create_args) (client_with answers)) ''GOWNER'') (Some rule_example)"
    by (auto simp: answered_def client_port_def port_method_def eff_try_def eff_map_def eff_bind_def getRule_def read_map_def read_with
        non_nullish_def schedule_env_example_def answers_def)
  have list: "answered (gp_listSchedules (client_port schedule_env_example (sdk_with create_args) (client_with answers)) ''GOWNER'') [weekly_example]"
    by (auto simp: answered_def client_port_def port_method_def eff_try_def eff_map_def eff_bind_def listSchedules_def read_map_def read_with
        schedule_env_example_def answers_def)
  have "length (filter sh_active [weekly_example]) = 1" by (simp add: weekly_example_def new_schedule_def)
  then show ?thesis
    using t rule list unfolding schedule_reads_def deps_with_fields parsed_example
    by (intro exI [of _ t] conjI exI [of _ "[weekly_example]"])
      (auto simp: answered_def parsed_example_def rule_example_def MAX_SCHEDULES_def)
qed

theorem schedule_args_typed_witness: "\<exists>t. draft_time example_zone parsed_example 1000 = Some (Inr t) \<and> rt_epochSeconds t < 2 ^ 64"
proof -
  obtain t where t: "schedule_reads example_zone (schedule_deps_with create_args answers) draft_example parsed_example t rule_example 1 1000000000"
    using reads_example by blast
  have "draft_time example_zone parsed_example 1000 = Some (Inr t)" using t by (auto simp: schedule_reads_def deps_with_fields)
  then show ?thesis using schedule_args_typed [OF t deps_with_fields(5)] by auto
qed

lemma example_zone_offsets: "zone_offsets example_zone"
  unfolding zone_offsets_def
proof (intro allI impI, elim conjE)
  fix z w t assume "real_wall w" "shows_wall example_zone z w t"
  then have "100 \<le> wl_year (wallAt example_zone z t)" by (simp add: real_wall_def shows_wall_def same_minute_def)
  from example_offset_at [OF this] show "\<bar>offsetSecondsAt example_zone z t\<bar> \<le> 86400" by (simp add: example_offset_def)
qed

theorem unschedulable_is_refused_silently_witness:
  "\<exists>code details. schedulePayment example_zone (sdk_with create_args) (schedule_deps_with create_args answers) V_Null ()
     = Some (Inl (Schedule_Refusal code details), ())"
proof -
  have "\<not> (\<exists>d now t. parseDraft (schedule_deps_with create_args answers) V_Null = Inr d
      \<and> sd_now (schedule_deps_with create_args answers) = Some now \<and> draft_time example_zone d now = Some (Inr t))"
    by (simp add: parseDraft_def)
  from unschedulable_is_refused_silently [OF example_zone_offsets this] show ?thesis by blast
qed

section \<open>Cancelling and listing\<close>

definition cancel_args :: "native list" where "cancel_args = [N_Str ''GOWNER'', N_Num 7]"

definition request_example :: js_value where "request_example = V_Obj [(''recipient'', V_Str ''Ada'')]"

lemma next_run_example: "\<exists>u. nextRunUtc weekly_example = Inr u"
  by (simp add: nextRunUtc_def weekly_example_def new_schedule_def iso_string_def)

lemma cancel_run_example:
  "\<exists>r. cancelScheduleTool example_zone (sdk_with cancel_args) (schedule_deps_with cancel_args answers) request_example () = Some (Inr r, ())"
proof -
  obtain c where c: "cancelSchedule ''GOWNER'' 7 (sdk_with cancel_args) (client_with answers) () = Some (Inr c, ())"
      "gc_unsignedXdr c = ''cancel_schedule''"
    unfolding cancelSchedule_def using write_with by blast
  have call: "schedule_try (gp_cancelSchedule (client_port schedule_env_example (sdk_with cancel_args) (client_with answers)) ''GOWNER'' 7) () = Some (Inr c, ())"
    by (simp add: schedule_try_def client_port_def port_method_def eff_try_def c)
  have q: "parseRequest request_example = Inr \<lparr>cq_id = None, cq_recipient = Some ''Ada'', cq_which = None\<rparr>"
    by (simp add: parseRequest_def request_example_def request_id_def)
  obtain u where u: "nextRunUtc weekly_example = Inr u" using next_run_example by blast
  have sdk: "gk_fromXDR (sdk_with cancel_args) x y = Inr (Some x)" "gk_first_op (sdk_with cancel_args) x = Invoke_Contract ''CGUARD'' x cancel_args" for x y
    by (simp_all add: sdk_with_def guard_sdk_example_def)
  have id: "gp_contractId (client_port schedule_env_example (sdk_with cancel_args) (client_with answers)) = ''CGUARD''"
    by (simp add: client_port_def client_with_def guard_client_example_def)
  have list: "schedule_try (gp_listSchedules (client_port schedule_env_example (sdk_with cancel_args) (client_with answers)) ''GOWNER'') () = Some (Inr [weekly_example], ())"
    by (simp add: port_calls) (simp add: answers_def)
  have w: "sh_to weekly_example = ''GADA''" "sh_active weekly_example" "sh_id weekly_example = 7" "sh_amount weekly_example = 20000000"
    by (simp_all add: weekly_example_def new_schedule_def)
  have nths: "nth_or N_Undefined cancel_args 1 = N_Num 7" "nth_or N_Undefined cancel_args 0 = N_Str ''GOWNER''"
    "nth_or N_Undefined cancel_args (Suc 0) = N_Num 7"
    by (simp_all add: nth_or_def cancel_args_def)
  have pick: "pick_schedule example_zone (schedule_deps_with cancel_args answers) [weekly_example]
      \<lparr>cq_id = None, cq_recipient = Some ''Ada'', cq_which = None\<rparr> = Inr (weekly_example, Some ''ada'')"
    by (simp add: pick_schedule_def pickByRecipient_def deps_with_fields ada_example w)
  show ?thesis
    by (simp add: cancelScheduleTool_def deps_with_fields q list pick w call eff_bind_def eff_of_def u c id fromRawUnits_eq
        buildCancelScheduleSummary_def schedule_decodeTx_def decodeArgs_def decodeInvocation_def decodeTx_def sdk nths Let_def)
qed

theorem cancel_never_guesses_witness:
  "\<exists>r (s :: schedule). cancelScheduleTool example_zone (sdk_with cancel_args) (schedule_deps_with cancel_args answers) request_example () = Some (Inr r, ())
     \<and> sh_active s \<and> xr_id r = sh_id s"
proof -
  obtain r where r: "cancelScheduleTool example_zone (sdk_with cancel_args) (schedule_deps_with cancel_args answers) request_example () = Some (Inr r, ())"
    using cancel_run_example by blast
  obtain s :: schedule where "sh_active s" "xr_id r = sh_id s"
    using cancel_never_guesses [OF r deps_with_fields(3)] by (elim exE conjE) (rule that, assumption+)
  then show ?thesis using r by blast
qed

lemma list_run_example:
  "\<exists>rows. listUpcoming example_zone 0 (schedule_deps_with [] answers) (Some \<lparr>lo_timeZone = V_Str ''Europe/Berlin'', lo_now = Now_Absent\<rparr>) ()
     = Some (Inr rows, ())"
proof -
  obtain u where u: "nextRunUtc weekly_example = Inr u" using next_run_example by blast
  obtain s where s: "words_of_interval example_zone 604800 = Inr s" using words_example by blast
  obtain l where l: "formatInZone example_zone (jint 1780308000) (V_Str ''Europe/Berlin'') = Inr l"
    by (simp add: formatInZone_def jint_def isValidTimeZone_def example_zone_def)
  have w: "sh_amount weekly_example = 20000000" "sh_next_run_at weekly_example = 1780308000" "sh_interval_secs weekly_example = 604800"
    by (simp_all add: weekly_example_def new_schedule_def)
  have list: "schedule_try (gp_listSchedules (client_port schedule_env_example (sdk_with []) (client_with answers)) ''GOWNER'') () = Some (Inr [weekly_example], ())"
    by (simp add: port_calls) (simp add: answers_def)
  show ?thesis
    by (simp add: listUpcoming_def deps_with_fields poll_seconds_def parseOptions_def isValidTimeZone_def example_zone_def coerceNow_def
        eff_bind_def eff_of_def list upcoming_row_def w fromRawUnits_eq u s [unfolded example_zone_def] l [unfolded example_zone_def])
qed

theorem upcoming_sorted_witness:
  "\<exists>rows schedules. listUpcoming example_zone 0 (schedule_deps_with [] answers) (Some \<lparr>lo_timeZone = V_Str ''Europe/Berlin'', lo_now = Now_Absent\<rparr>) ()
     = Some (Inr rows, ()) \<and> answered (gp_listSchedules (client_port schedule_env_example (sdk_with []) (client_with answers)) ''GOWNER'') schedules"
proof -
  obtain rows where r: "listUpcoming example_zone 0 (schedule_deps_with [] answers) (Some \<lparr>lo_timeZone = V_Str ''Europe/Berlin'', lo_now = Now_Absent\<rparr>) ()
     = Some (Inr rows, ())"
    using list_run_example by blast
  show ?thesis using upcoming_sorted [OF r] r unfolding deps_with_fields by blast
qed

end
