(* ===== verification/Keeper_Chain.thy ===== *)
theory Keeper_Chain
  imports Keeper_Errors JS_Number
begin

text \<open>
  \<open>stellar/src/keeper/chain.ts\<close> and the accessors of \<open>xdr-compat.ts\<close>: how the keeper reads
  the guard contract and how it submits \<open>execute_schedule\<close> and waits for its outcome.

  The Stellar SDK and the RPC node are external.  The SDK's builders are the record \<open>sdk\<close>;
  the node is the record \<open>rpc\<close>, whose calls take the state of the world and return what they
  answer, or throw, with the next state.  The clock and \<open>sleep\<close> are functions of the world.
\<close>

section \<open>Results of the port\<close>

datatype exec_result =
  Success string int
| Failed string classified_error
| Rejected classified_error "string option"
| Pending string int
| Restore_Pending string int
| Dry_Run "string option"

record 'i due_page =
  dp_ids :: "'i list"
  dp_nextCursor :: "int option"

record keeper_schedule =
  sch_id :: int
  sch_owner :: string
  sch_to :: string
  sch_asset :: string
  sch_amount :: int
  sch_next_run_at :: int
  sch_interval_secs :: int
  sch_runs_left :: int
  sch_active :: bool

section \<open>XDR values\<close>

text \<open>
  A value decoded by the SDK.  An object's entry is a property or, in older SDKs, a method
  without arguments (flag \<open>True\<close>) that returns the value.
\<close>

datatype xval =
  X_Undef | X_Null | X_Str string | X_Num int | X_Arr "xval list"
| X_Obj "(string \<times> bool \<times> xval) list"

fun xfield :: "xval \<Rightarrow> string \<Rightarrow> xval" where
  "xfield (X_Obj ps) n = (case map_of ps n of None \<Rightarrow> X_Undef | Some (_, v) \<Rightarrow> v)"
| "xfield _ n = X_Undef"

fun as_string :: "xval \<Rightarrow> string option" where
  "as_string (X_Str s) = Some s"
| "as_string _ = None"

fun variant :: "xval \<Rightarrow> string option" where
  "variant (X_Obj ps) =
     (case map_of ps ''type'' of
        Some (False, X_Str t) \<Rightarrow> Some t
      | _ \<Rightarrow> (case map_of ps ''switch'' of
               Some (True, s) \<Rightarrow> as_string (xfield s ''name'')
             | _ \<Rightarrow> None))"
| "variant _ = None"

fun as_array :: "xval \<Rightarrow> xval list" where
  "as_array (X_Arr vs) = vs"
| "as_array _ = []"

text \<open>\<open>String(v)\<close> and \<open>Number(v)\<close> of a decoded value.\<close>

fun xstring :: "xval \<Rightarrow> string" where
  "xstring X_Undef = ''undefined''"
| "xstring X_Null = ''null''"
| "xstring (X_Str s) = s"
| "xstring (X_Num i) = show_int i"
| "xstring (X_Arr vs) = js_join '','' (map (\<lambda>v. if v = X_Undef \<or> v = X_Null then [] else xstring v) vs)"
| "xstring (X_Obj ps) = ''[object Object]''"

text \<open>\<open>other\<close> reads the values a \<open>u32\<close> never decodes to: strings, arrays and objects.\<close>

definition xnumber :: "(xval \<Rightarrow> js_number) \<Rightarrow> xval \<Rightarrow> js_number" where
  "xnumber other v =
     (case v of X_Num i \<Rightarrow> jint i | X_Undef \<Rightarrow> JNaN | X_Null \<Rightarrow> jint 0 | _ \<Rightarrow> other v)"

section \<open>Result decoding\<close>

definition feeAboveCapError :: "int \<Rightarrow> int \<Rightarrow> classified_error" where
  "feeAboveCapError fee cap = classified Keeper_Funds ''FeeAboveCap'' None
     (''fee '' @ show_int fee @ '' stroops exceeds KEEPER_MAX_FEE_STROOPS='' @ show_int cap)"

definition describeSendError :: "xval \<Rightarrow> classified_error" where
  "describeSendError errorResult =
     (case variant (xfield errorResult ''result'') of
        Some code \<Rightarrow> (if code \<noteq> [] then classifyTxResultCode code
                      else classified Unknown_Kind ''SendError'' None ''sendTransaction returned ERROR'')
      | None \<Rightarrow> classified Unknown_Kind ''SendError'' None ''sendTransaction returned ERROR'')"

fun contract_error_of_values :: "xval list \<Rightarrow> classified_error option" where
  "contract_error_of_values [] = None"
| "contract_error_of_values (v # vs) =
     (if variant v \<noteq> Some ''scvError'' then contract_error_of_values vs
      else if variant (xfield v ''error'') = Some ''sceContract''
        then Some (classifyContractText
               (''Error(Contract, #'' @ xstring (xfield (xfield v ''error'') ''contractCode'') @ '')''))
      else contract_error_of_values vs)"

definition event_values :: "xval \<Rightarrow> xval list" where
  "event_values de =
     (let v0 = xfield (xfield (xfield de ''event'') ''body'') ''v0''
      in as_array (xfield v0 ''topics'') @ [xfield v0 ''data''])"

fun contractErrorFromEvents :: "xval list \<Rightarrow> classified_error option" where
  "contractErrorFromEvents [] = None"
| "contractErrorFromEvents (de # des) =
     (case contract_error_of_values (event_values de) of
        Some e \<Rightarrow> Some e
      | None \<Rightarrow> contractErrorFromEvents des)"

record failed_tx =
  ft_resultXdr :: xval
  ft_diagnosticEvents :: "xval list option"

definition describeFailure :: "failed_tx \<Rightarrow> classified_error" where
  "describeFailure res =
     (case contractErrorFromEvents (case ft_diagnosticEvents res of None \<Rightarrow> [] | Some es \<Rightarrow> es) of
        Some e \<Rightarrow> e
      | None \<Rightarrow>
          let result = xfield (ft_resultXdr res) ''result'';
              name = variant result;
              first = nth_or X_Undef (as_array (xfield result ''results'')) 0;
              inner = variant (xfield (xfield first ''tr'') ''invokeHostFunctionResult'');
              name = (if name = Some ''txFailed''
                      then (case inner of Some n \<Rightarrow> (if n \<noteq> [] then inner else name) | None \<Rightarrow> name)
                      else name);
              n = (case name of Some n \<Rightarrow> n | None \<Rightarrow> ''TxFailed'')
          in classified Unknown_Kind n None (''transaction failed: '' @ n))"

section \<open>The SDK and the node\<close>

datatype send_status = Send_Error xval | Send_Try_Again_Later | Send_Pending | Send_Duplicate

datatype tx_status = Tx_Success "int option" | Tx_Failed failed_tx | Tx_Other

text \<open>
  A simulation is an error, or a success that carries the authorization entries and the return
  value, and possibly a restore preamble.
\<close>

datatype ('p, 's) simulation =
  Sim_Error string
| Sim_Success (sim_preamble: "'p option") (sim_auth: "xval list") (sim_retval: "xval option") (sim_data: 's)

record ('w, 'a, 't, 'p, 's) rpc =
  rpc_getAccount :: "'w \<Rightarrow> (js_thrown + 'a) \<times> 'w"
  rpc_simulate :: "'t \<Rightarrow> 'w \<Rightarrow> (js_thrown + ('p, 's) simulation) \<times> 'w"
  rpc_send :: "'t \<Rightarrow> 'w \<Rightarrow> (js_thrown + send_status) \<times> 'w"
  rpc_getTransaction :: "string \<Rightarrow> 'w \<Rightarrow> (js_thrown + tx_status) \<times> 'w"
  rpc_now :: "'w \<Rightarrow> int \<times> 'w"
  rpc_sleep :: "int \<Rightarrow> 'w \<Rightarrow> 'w"

record ('a, 't, 'p, 's) sdk =
  sdk_readTx :: "'a \<Rightarrow> string \<Rightarrow> js_number list \<Rightarrow> 't"
  sdk_executeTx :: "'a \<Rightarrow> js_number \<Rightarrow> 't"
  sdk_restoreTx :: "'a \<Rightarrow> 'p \<Rightarrow> 't"
  sdk_assemble :: "'t \<Rightarrow> 's \<Rightarrow> 't"
  sdk_sign :: "'t \<Rightarrow> 't"
  sdk_fee :: "'t \<Rightarrow> int"
  sdk_hash :: "'t \<Rightarrow> string"
  sdk_maxTime :: "'t \<Rightarrow> int option"
  sdk_number :: "xval \<Rightarrow> js_number"

record chain_options =
  co_txTimeoutSeconds :: int
  co_maxFeeStroops :: int
  co_pollIntervalMs :: int

definition EXPIRY_SLACK_MS :: int where
  "EXPIRY_SLACK_MS = 15000"


section \<open>Reads\<close>

definition js_error :: "string \<Rightarrow> js_thrown" where
  "js_error m = Js_Error ''Error'' m"

definition readCall ::
    "('a, 't, 'p, 's) sdk \<Rightarrow> ('w, 'a, 't, 'p, 's) rpc \<Rightarrow> string \<Rightarrow> js_number list \<Rightarrow> ('w, js_thrown, xval) eff" where
  "readCall sdk rpc method args =
     eff_bind (call (rpc_getAccount rpc)) (\<lambda>account.
     eff_bind (call (rpc_simulate rpc (sdk_readTx sdk account method args))) (\<lambda>sim.
       case sim of
         Sim_Error e \<Rightarrow> eff_throw (js_error (method @ '' simulation failed: '' @ e))
       | Sim_Success _ _ None _ \<Rightarrow> eff_throw (js_error (method @ '' simulation returned no value''))
       | Sim_Success _ _ (Some v) _ \<Rightarrow> eff_ret v))"

text \<open>Decoding of a page: \<open>[ids, next]\<close>, where a next cursor of 0 means no more pages.\<close>

definition decode_page :: "(xval \<Rightarrow> js_number) \<Rightarrow> xval \<Rightarrow> js_thrown + js_number due_page" where
  "decode_page other value =
     (case value of
        X_Arr [ids, next] \<Rightarrow>
          (case ids of
             X_Arr vs \<Rightarrow>
               let nextCursor = xnumber other next in
               if \<not> is_integer nextCursor \<or> jless nextCursor 0
               then Inl (js_error (''list_due returned a malformed next cursor: '' @ xstring next))
               else Inr \<lparr>dp_ids = map (xnumber other) vs,
                         dp_nextCursor = (if jfloor nextCursor = 0 then None else Some (jfloor nextCursor))\<rparr>
           | _ \<Rightarrow> Inl (js_error ''list_due returned a non-array id vector''))
      | _ \<Rightarrow> Inl (js_error ''list_due returned a malformed page (expected (Vec<u32>, u32))''))"

definition lift_sum :: "'e + 'x \<Rightarrow> ('w, 'e, 'x) eff" where
  "lift_sum r = (case r of Inl e \<Rightarrow> eff_throw e | Inr x \<Rightarrow> eff_ret x)"

definition listDue ::
    "('a, 't, 'p, 's) sdk \<Rightarrow> ('w, 'a, 't, 'p, 's) rpc \<Rightarrow> int \<Rightarrow> int \<Rightarrow> ('w, js_thrown, js_number due_page) eff" where
  "listDue sdk rpc cursor limit =
     eff_bind (readCall sdk rpc ''list_due'' [jint cursor, jint limit]) (\<lambda>value.
       lift_sum (decode_page (sdk_number sdk) value))"

text \<open>The record a decoded value is cast to is left decoded.\<close>

definition getSchedule ::
    "('a, 't, 'p, 's) sdk \<Rightarrow> ('w, 'a, 't, 'p, 's) rpc \<Rightarrow> js_number \<Rightarrow> ('w, js_thrown, xval option) eff" where
  "getSchedule sdk rpc i =
     eff_bind (readCall sdk rpc ''get_schedule'' [i]) (\<lambda>value.
       eff_ret (if value = X_Null \<or> value = X_Undef then None else Some value))"

section \<open>Writes\<close>

definition buildExecuteTx ::
    "('a, 't, 'p, 's) sdk \<Rightarrow> ('w, 'a, 't, 'p, 's) rpc \<Rightarrow> js_number \<Rightarrow> ('w, js_thrown, 't) eff" where
  "buildExecuteTx sdk rpc i =
     eff_bind (call (rpc_getAccount rpc)) (\<lambda>account. eff_ret (sdk_executeTx sdk account i))"

definition feeAboveCap :: "('a, 't, 'p, 's) sdk \<Rightarrow> chain_options \<Rightarrow> 't \<Rightarrow> bool" where
  "feeAboveCap sdk opts tx \<longleftrightarrow> sdk_fee sdk tx > co_maxFeeStroops opts"

definition checkPending ::
    "('w, 'a, 't, 'p, 's) rpc \<Rightarrow> string \<Rightarrow> int \<Rightarrow> ('w, js_thrown, exec_result) eff" where
  "checkPending rpc hash expiresAt =
     eff_bind (call (rpc_getTransaction rpc hash)) (\<lambda>res.
       case res of
         Tx_Success ledger \<Rightarrow> eff_ret (Success hash (case ledger of Some l \<Rightarrow> l | None \<Rightarrow> 0))
       | Tx_Failed f \<Rightarrow> eff_ret (Failed hash (describeFailure f))
       | Tx_Other \<Rightarrow> (\<lambda>w. case rpc_now rpc w of (now, w') \<Rightarrow>
           (if now \<ge> expiresAt + EXPIRY_SLACK_MS
            then eff_ret (Rejected (classified Tx_Expired ''txTooLate'' None
                   ''transaction never landed before its max time'') (Some hash))
            else eff_ret (Pending hash expiresAt)) w'))"

text \<open>The polling loop of \<open>submitAndWait\<close>; nothing bounds it but the clock.\<close>

partial_function (option) poll_loop ::
    "('w, 'a, 't, 'p, 's) rpc \<Rightarrow> chain_options \<Rightarrow> string \<Rightarrow> int \<Rightarrow> 'w \<Rightarrow> ((js_thrown + exec_result) \<times> 'w) option" where
  "poll_loop rpc opts hash expiresAt w =
     (case checkPending rpc hash expiresAt w of
        None \<Rightarrow> None
      | Some (Inl _, w') \<Rightarrow> Some (Inr (Pending hash expiresAt), w')
      | Some (Inr (Pending _ _), w') \<Rightarrow>
          poll_loop rpc opts hash expiresAt (rpc_sleep rpc (co_pollIntervalMs opts) w')
      | Some (Inr res, w') \<Rightarrow> Some (Inr res, w'))"

definition expires_at ::
    "('a, 't, 'p, 's) sdk \<Rightarrow> ('w, 'a, 't, 'p, 's) rpc \<Rightarrow> chain_options \<Rightarrow> 't \<Rightarrow> ('w, js_thrown, int) eff" where
  "expires_at sdk rpc opts tx =
     (let maxTimeSec = (case sdk_maxTime sdk tx of Some t \<Rightarrow> t | None \<Rightarrow> 0)
      in if maxTimeSec > 0 then eff_ret (maxTimeSec * 1000)
         else (\<lambda>w. case rpc_now rpc w of (now, w') \<Rightarrow> eff_ret (now + co_txTimeoutSeconds opts * 1000) w'))"

definition submitAndWait ::
    "('a, 't, 'p, 's) sdk \<Rightarrow> ('w, 'a, 't, 'p, 's) rpc \<Rightarrow> chain_options \<Rightarrow> 't \<Rightarrow> ('w, js_thrown, exec_result) eff" where
  "submitAndWait sdk rpc opts tx =
     (let hash = sdk_hash sdk tx in
      eff_bind (expires_at sdk rpc opts tx) (\<lambda>expiresAt.
      eff_try (call (rpc_send rpc tx))
        (\<lambda>_. eff_ret (Pending hash expiresAt))
        (\<lambda>sent. case sent of
           Send_Error errorResult \<Rightarrow> eff_ret (Rejected (describeSendError errorResult) (Some hash))
         | Send_Try_Again_Later \<Rightarrow>
             eff_ret (Rejected (classified Rpc_Error ''TRY_AGAIN_LATER'' None
               ''node asked to try again later'') (Some hash))
         | Send_Pending \<Rightarrow> poll_loop rpc opts hash expiresAt
         | Send_Duplicate \<Rightarrow> poll_loop rpc opts hash expiresAt)))"

definition restore ::
    "('a, 't, 'p, 's) sdk \<Rightarrow> ('w, 'a, 't, 'p, 's) rpc \<Rightarrow> chain_options \<Rightarrow> 'p \<Rightarrow> ('w, js_thrown, exec_result) eff" where
  "restore sdk rpc opts preamble =
     eff_bind (call (rpc_getAccount rpc)) (\<lambda>account.
       let tx = sdk_restoreTx sdk account preamble in
       if feeAboveCap sdk opts tx
       then eff_ret (Rejected (feeAboveCapError (sdk_fee sdk tx) (co_maxFeeStroops opts)) None)
       else submitAndWait sdk rpc opts (sdk_sign sdk tx))"

text \<open>An authorization entry that some other address than the source must sign.\<close>

definition foreign_auth :: "xval list \<Rightarrow> bool" where
  "foreign_auth auth =
     list_ex (\<lambda>a. variant (xfield a ''credentials'') \<noteq> Some ''sorobanCredentialsSourceAccount'') auth"

text \<open>What \<open>execute\<close> does with the last simulation.\<close>

definition finish_execute ::
    "('a, 't, 'p, 's) sdk \<Rightarrow> ('w, 'a, 't, 'p, 's) rpc \<Rightarrow> chain_options \<Rightarrow> bool \<Rightarrow> 't
       \<Rightarrow> ('p, 's) simulation \<Rightarrow> ('w, js_thrown, exec_result) eff" where
  "finish_execute sdk rpc opts dryRun tx sim =
     (case sim of
        Sim_Error e \<Rightarrow> eff_ret (Rejected (classifyContractText e) None)
      | Sim_Success _ auth _ dat \<Rightarrow>
          if foreign_auth auth
          then eff_ret (Rejected (classified Auth_Required ''AuthRequired'' None
                 ''simulation requires authorization from an address other than the keeper'') None)
          else
            let assembled = sdk_assemble sdk tx dat in
            if feeAboveCap sdk opts assembled
            then eff_ret (Rejected (feeAboveCapError (sdk_fee sdk assembled) (co_maxFeeStroops opts)) None)
            else if dryRun then eff_ret (Dry_Run None)
            else submitAndWait sdk rpc opts (sdk_sign sdk assembled))"

definition execute ::
    "('a, 't, 'p, 's) sdk \<Rightarrow> ('w, 'a, 't, 'p, 's) rpc \<Rightarrow> chain_options \<Rightarrow> js_number \<Rightarrow> bool
       \<Rightarrow> ('w, js_thrown, exec_result) eff" where
  "execute sdk rpc opts i dryRun =
     eff_bind (buildExecuteTx sdk rpc i) (\<lambda>tx.
     eff_bind (call (rpc_simulate rpc tx)) (\<lambda>sim.
       case sim of
         Sim_Success (Some preamble) _ _ _ \<Rightarrow>
           if dryRun then eff_ret (Dry_Run (Some ''would restore archived entries first''))
           else
             eff_bind (restore sdk rpc opts preamble) (\<lambda>restored.
               case restored of
                 Pending hash expiresAt \<Rightarrow> eff_ret (Restore_Pending hash expiresAt)
               | Success _ _ \<Rightarrow>
                   eff_bind (buildExecuteTx sdk rpc i) (\<lambda>tx.
                   eff_bind (call (rpc_simulate rpc tx)) (\<lambda>sim.
                     finish_execute sdk rpc opts dryRun tx sim))
               | _ \<Rightarrow> eff_ret restored)
       | _ \<Rightarrow> finish_execute sdk rpc opts dryRun tx sim))"


section \<open>What a result can be\<close>

fun result_hash :: "exec_result \<Rightarrow> string option" where
  "result_hash (Success h l) = Some h"
| "result_hash (Failed h e) = Some h"
| "result_hash (Rejected e h) = h"
| "result_hash (Pending h e) = Some h"
| "result_hash (Restore_Pending h e) = Some h"
| "result_hash (Dry_Run n) = None"

fun is_pending :: "exec_result \<Rightarrow> bool" where
  "is_pending (Pending h e) = True"
| "is_pending _ = False"

text \<open>The results \<open>checkPending\<close> promises its caller: those of a submitted transaction.\<close>

fun tx_result :: "exec_result \<Rightarrow> bool" where
  "tx_result (Restore_Pending h e) = False"
| "tx_result (Dry_Run n) = False"
| "tx_result (Rejected e h) = (h \<noteq> None)"
| "tx_result _ = True"

lemma checkPending_result:
  "checkPending rpc h e w = Some (Inr r, w') \<Longrightarrow> tx_result r \<and> result_hash r = Some h"
  by (auto simp: checkPending_def split: prod.splits sum.splits tx_status.splits if_splits)

lemma checkPending_returns: "\<exists>r. checkPending rpc h e w = Some r"
  by (auto simp: checkPending_def split: prod.splits sum.splits tx_status.splits)

lemma poll_loop_result:
  assumes "poll_loop rpc opts h e w = Some r"
  shows "\<exists>x. fst r = Inr x \<and> tx_result x \<and> result_hash x = Some h"
  by (rule poll_loop.raw_induct
      [where P = "\<lambda>rpc opts h e w r. \<exists>x. fst r = Inr x \<and> tx_result x \<and> result_hash x = Some h", OF _ assms])
    (auto split: option.splits prod.splits sum.splits exec_result.splits dest: checkPending_result)

lemma expires_at_returns: "\<exists>t w'. expires_at sdk rpc opts tx w = Some (Inr t, w')"
  by (auto simp: expires_at_def Let_def split: prod.splits)

text \<open>A submission never loses its transaction: whatever comes back names its hash.\<close>

lemma submitAndWait_result:
  assumes "submitAndWait sdk rpc opts tx w = Some r"
  shows "\<exists>x. fst r = Inr x \<and> tx_result x \<and> result_hash x = Some (sdk_hash sdk tx)"
proof -
  obtain t w' where e: "expires_at sdk rpc opts tx w = Some (Inr t, w')"
    using expires_at_returns [of sdk rpc opts tx w] by blast
  show ?thesis
    using assms e
    by (auto simp: submitAndWait_def Let_def eff_bind_Some eff_try_Some
        split: prod.splits sum.splits send_status.splits dest: poll_loop_result)
qed

section \<open>The submission ends\<close>

text \<open>
  What the wait needs of the environment: time, as \<open>clk\<close> measures it, never runs backwards
  over a call, the clock reads at least that time, and \<open>sleep\<close> lets the time pass.
\<close>

definition clock_advances :: "('w \<Rightarrow> int) \<Rightarrow> ('w, 'a, 't, 'p, 's) rpc \<Rightarrow> bool" where
  "clock_advances clk rpc \<longleftrightarrow>
     (\<forall>w. clk w \<le> fst (rpc_now rpc w) \<and> clk w \<le> clk (snd (rpc_now rpc w)))
     \<and> (\<forall>h w. clk w \<le> clk (snd (rpc_getTransaction rpc h w)))
     \<and> (\<forall>ms w. clk w + ms \<le> clk (rpc_sleep rpc ms w))"

lemma checkPending_clock:
  assumes "clock_advances clk rpc" "checkPending rpc h e w = Some r"
  shows "clk w \<le> clk (snd r) \<and> (fst r = Inr (Pending h e) \<longrightarrow> clk w < e + EXPIRY_SLACK_MS)"
proof -
  obtain x w1 where g: "rpc_getTransaction rpc h w = (x, w1)" by (cases "rpc_getTransaction rpc h w")
  obtain t w2 where n: "rpc_now rpc w1 = (t, w2)" by (cases "rpc_now rpc w1")
  have "clk w \<le> clk (snd (rpc_getTransaction rpc h w))" "clk w1 \<le> fst (rpc_now rpc w1)"
      "clk w1 \<le> clk (snd (rpc_now rpc w1))"
    using assms(1) unfolding clock_advances_def by blast+
  then have "clk w \<le> clk w1" "clk w1 \<le> t" "clk w1 \<le> clk w2" by (simp_all add: g n)
  then show ?thesis using assms(2)
    by (auto simp: checkPending_def g n split: sum.splits tx_status.splits if_splits)
qed

lemma poll_loop_returns:
  assumes "clock_advances clk rpc" "0 < co_pollIntervalMs opts"
  shows "\<exists>r. poll_loop rpc opts h e w = Some r"
proof (induction "nat (e + EXPIRY_SLACK_MS - clk w)" arbitrary: w rule: less_induct)
  case less
  obtain r where r: "checkPending rpc h e w = Some r" using checkPending_returns [of rpc h e w] by blast
  obtain x w' where xw: "r = (x, w')" by (cases r)
  have sleep: "clk w' + co_pollIntervalMs opts \<le> clk (rpc_sleep rpc (co_pollIntervalMs opts) w')"
    using assms(1) by (simp add: clock_advances_def)
  show ?case
  proof (cases "x = Inr (Pending h e)")
    case True
    then have "clk w \<le> clk w'" "clk w < e + EXPIRY_SLACK_MS"
      using checkPending_clock [OF assms(1) r] by (simp_all add: xw)
    with sleep have
      "nat (e + EXPIRY_SLACK_MS - clk (rpc_sleep rpc (co_pollIntervalMs opts) w')) < nat (e + EXPIRY_SLACK_MS - clk w)"
      using assms(2) by linarith
    from less [OF this] show ?thesis
      using r True by (subst poll_loop.simps) (simp add: xw)
  next
    case False
    have "\<not> is_pending y" if "x = Inr y" for y
      using that r False by (auto simp: xw checkPending_def split: prod.splits sum.splits tx_status.splits if_splits)
    then show ?thesis
      using r by (subst poll_loop.simps) (auto simp: xw split: sum.splits exec_result.splits)
  qed
qed

section \<open>A concrete node\<close>

text \<open>The world is the clock.  Envelopes are a label and a fee; a transaction is found from the
  time 2000 on.\<close>

definition sdk_example :: "(unit, string \<times> int, unit, int) sdk" where
  "sdk_example =
     \<lparr>sdk_readTx = (\<lambda>_ m _. (m, 100)), sdk_executeTx = (\<lambda>_ i. (''execute'', 100)),
      sdk_restoreTx = (\<lambda>_ _. (''restore'', 100)), sdk_assemble = (\<lambda>(l, f) d. (l, f + d)),
      sdk_sign = (\<lambda>(l, f). (l @ ''!'', f)), sdk_fee = snd, sdk_hash = fst, sdk_maxTime = (\<lambda>_. Some 3),
      sdk_number = (\<lambda>_. JNaN)\<rparr>"

definition rpc_example :: "(int, unit, string \<times> int, unit, int) rpc" where
  "rpc_example =
     \<lparr>rpc_getAccount = (\<lambda>w. (Inr (), w)),
      rpc_simulate = (\<lambda>(l, _) w. (Inr (Sim_Success None []
         (if l = ''list_due'' then Some (X_Arr [X_Arr [X_Num 1], X_Num 0])
          else if l = ''get_schedule'' then Some X_Null else None) 900), w)),
      rpc_send = (\<lambda>_ w. (Inr Send_Pending, w)),
      rpc_getTransaction = (\<lambda>_ w. (Inr (if 2000 \<le> w then Tx_Success (Some 7) else Tx_Other), w)),
      rpc_now = (\<lambda>w. (w, w)), rpc_sleep = (\<lambda>ms w. w + ms)\<rparr>"

definition options_example :: chain_options where
  "options_example = \<lparr>co_txTimeoutSeconds = 30, co_maxFeeStroops = 1000, co_pollIntervalMs = 1000\<rparr>"

lemmas chain_example_defs = sdk_example_def rpc_example_def options_example_def

lemma clock_example: "clock_advances (\<lambda>w. w) rpc_example"
  by (simp add: clock_advances_def rpc_example_def)

lemma submitAndWait_returns:
  assumes "clock_advances clk rpc" and "0 < co_pollIntervalMs opts"
  shows "\<exists>r. submitAndWait sdk rpc opts tx w = Some r"
proof -
  obtain t w' where e: "expires_at sdk rpc opts tx w = Some (Inr t, w')"
    using expires_at_returns [of sdk rpc opts tx w] by blast
  show ?thesis
    using poll_loop_returns [OF assms]
    by (auto simp: submitAndWait_def eff_bind_def eff_try_def e Let_def
        split: prod.splits sum.splits send_status.splits)
qed

text \<open>C27: Waiting for a submitted transaction always ends, and never loses the transaction.
  As soon as the clock of the environment advances and the poll interval is positive,
  \<open>submitAndWait\<close> returns; it never throws, and its result is the outcome of a submitted
  transaction that names the hash of the envelope it was given.\<close>

theorem submit_returns:
  assumes "clock_advances clk rpc" and "0 < co_pollIntervalMs opts"
  shows "\<exists>res w'. submitAndWait sdk rpc opts tx w = Some (Inr res, w')
     \<and> tx_result res \<and> result_hash res = Some (sdk_hash sdk tx)"
proof -
  obtain r where "submitAndWait sdk rpc opts tx w = Some r"
    using submitAndWait_returns [OF assms] by blast
  with submitAndWait_result [OF this] show ?thesis by (cases r) auto
qed

theorem submit_returns_witness:
  "\<exists>res w'. submitAndWait sdk_example rpc_example options_example (''tx'', 1) 0 = Some (Inr res, w')
     \<and> tx_result res \<and> result_hash res = Some ''tx''"
  using submit_returns [OF clock_example, of options_example sdk_example "(''tx'', 1)" 0]
  by (simp add: chain_example_defs)

section \<open>A restore is never taken for an execution\<close>

definition execute_tx_hash :: "('a, 't, 'p, 's) sdk \<Rightarrow> js_number \<Rightarrow> string \<Rightarrow> bool" where
  "execute_tx_hash sdk i h \<longleftrightarrow>
     (\<exists>account dat. h = sdk_hash sdk (sdk_sign sdk (sdk_assemble sdk (sdk_executeTx sdk account i) dat)))"

lemma execute_tx_hashI [intro, simp]: "execute_tx_hash sdk i
    (sdk_hash sdk (sdk_sign sdk (sdk_assemble sdk (sdk_executeTx sdk account i) dat)))"
  unfolding execute_tx_hash_def by blast

lemma buildExecuteTx_yields:
  "yields (\<lambda>tx. \<exists>account. tx = sdk_executeTx sdk account i) (buildExecuteTx sdk rpc i)"
  unfolding buildExecuteTx_def by (rule yields_bind_any) auto

lemma submitAndWait_yields:
  "yields (\<lambda>r. tx_result r \<and> result_hash r = Some (sdk_hash sdk tx)) (submitAndWait sdk rpc opts tx)"
  unfolding yields_def by (auto dest: submitAndWait_result)

text \<open>What \<open>execute\<close> may report of the id \<open>i\<close>.\<close>

fun reports_execution :: "('a, 't, 'p, 's) sdk \<Rightarrow> js_number \<Rightarrow> bool \<Rightarrow> exec_result \<Rightarrow> bool" where
  "reports_execution sdk i dry (Success h l) \<longleftrightarrow> \<not> dry \<and> execute_tx_hash sdk i h"
| "reports_execution sdk i dry (Pending h e) \<longleftrightarrow> \<not> dry \<and> execute_tx_hash sdk i h"
| "reports_execution sdk i dry (Failed h e) \<longleftrightarrow> \<not> dry"
| "reports_execution sdk i dry (Restore_Pending h e) \<longleftrightarrow> \<not> dry"
| "reports_execution sdk i dry (Rejected e h) \<longleftrightarrow> dry \<longrightarrow> h = None"
| "reports_execution sdk i dry (Dry_Run n) \<longleftrightarrow> dry"

lemma finish_execute_yields:
  "yields (reports_execution sdk i dry)
     (finish_execute sdk rpc opts dry (sdk_executeTx sdk account i) sim)"
proof (cases sim)
  case (Sim_Success pre auth rv dat)
  let ?tx = "sdk_sign sdk (sdk_assemble sdk (sdk_executeTx sdk account i) dat)"
  have "yields (reports_execution sdk i False) (submitAndWait sdk rpc opts ?tx)"
    by (rule yields_mono [OF submitAndWait_yields]) (auto elim!: tx_result.elims)
  then show ?thesis by (auto simp: finish_execute_def Sim_Success Let_def)
qed (simp add: finish_execute_def)

lemma restore_yields: "yields (\<lambda>r. tx_result r \<or> (\<exists>e. r = Rejected e None)) (restore sdk rpc opts preamble)"
  unfolding restore_def Let_def
  by (rule yields_bind_any)
    (auto intro!: yields_mono [OF submitAndWait_yields])

lemma execute_yields: "yields (reports_execution sdk i dry) (execute sdk rpc opts i dry)"
proof -
  have again: "yields (reports_execution sdk i dry)
     (eff_bind (buildExecuteTx sdk rpc i) (\<lambda>tx. eff_bind (call (rpc_simulate rpc tx)) (\<lambda>sim.
        finish_execute sdk rpc opts dry tx sim)))"
    by (rule yields_bind [OF buildExecuteTx_yields]) (auto intro: yields_bind_any finish_execute_yields)
  have restored: "yields (reports_execution sdk i dry)
     (eff_bind (restore sdk rpc opts preamble) (\<lambda>restored.
        case restored of
          Pending hash expiresAt \<Rightarrow> eff_ret (Restore_Pending hash expiresAt)
        | Success _ _ \<Rightarrow>
            eff_bind (buildExecuteTx sdk rpc i) (\<lambda>tx. eff_bind (call (rpc_simulate rpc tx)) (\<lambda>sim.
              finish_execute sdk rpc opts dry tx sim))
        | _ \<Rightarrow> eff_ret restored))" if "\<not> dry" for preamble
  proof (rule yields_bind [OF restore_yields])
    fix x assume x: "tx_result x \<or> (\<exists>e. x = Rejected e None)"
    show "yields (reports_execution sdk i dry) (case x of
          Pending hash expiresAt \<Rightarrow> eff_ret (Restore_Pending hash expiresAt)
        | Success _ _ \<Rightarrow>
            eff_bind (buildExecuteTx sdk rpc i) (\<lambda>tx. eff_bind (call (rpc_simulate rpc tx)) (\<lambda>sim.
              finish_execute sdk rpc opts dry tx sim))
        | _ \<Rightarrow> eff_ret x)"
      using x that again by (cases x) simp_all
  qed
  show ?thesis
    unfolding execute_def
    by (rule yields_bind [OF buildExecuteTx_yields], rule yields_bind_any)
      (cases dry; use restored in \<open>auto intro: finish_execute_yields split: simulation.splits option.splits\<close>)
qed

lemma execute_hash:
  "execute sdk rpc opts i dry w = Some (Inr (Success h l), w') \<Longrightarrow> execute_tx_hash sdk i h"
  "execute sdk rpc opts i dry w = Some (Inr (Pending h e), w') \<Longrightarrow> execute_tx_hash sdk i h"
  using yieldsD [OF execute_yields, of sdk rpc opts i dry w] by fastforce+

text \<open>C26: What \<open>execute\<close> reports as a success or as a pending transaction of a schedule is the
  transaction that calls \<open>execute_schedule\<close> on that very id: a restore of archived entries
  is never reported as either.  A dry run reports neither, nor anything else that was
  submitted.\<close>

theorem execute_reports_execution:
  assumes "execute sdk rpc opts i dry w = Some (Inr r, w')"
  shows "(\<forall>h l. r = Success h l \<longrightarrow> execute_tx_hash sdk i h)
    \<and> (\<forall>h e. r = Pending h e \<longrightarrow> execute_tx_hash sdk i h)
    \<and> (dry \<longrightarrow> result_hash r = None)"
  using yieldsD [OF execute_yields assms] by (cases r) auto

lemmas execute_eval = execute_def buildExecuteTx_def finish_execute_def foreign_auth_def feeAboveCap_def
  submitAndWait_def expires_at_def eff_bind_def eff_try_def poll_loop.simps checkPending_def Let_def

theorem execute_reports_execution_witness:
  "execute_tx_hash sdk_example (jint 1) ''execute!''"
proof -
  have "execute sdk_example rpc_example options_example (jint 1) False 5000
      = Some (Inr (Success ''execute!'' 7), 5000)"
    by (simp add: execute_eval chain_example_defs)
  from execute_reports_execution [OF this] show ?thesis by simp
qed

section \<open>What is sent\<close>

text \<open>The node with a trace of the envelopes handed to \<open>sendTransaction\<close>.\<close>

definition send_traced :: "('w, 'a, 't, 'p, 's) rpc \<Rightarrow> ('w \<times> 't list, 'a, 't, 'p, 's) rpc" where
  "send_traced rpc =
     \<lparr>rpc_getAccount = untraced (rpc_getAccount rpc),
      rpc_simulate = (\<lambda>tx. untraced (rpc_simulate rpc tx)),
      rpc_send = (\<lambda>tx. traced tx (rpc_send rpc tx)),
      rpc_getTransaction = (\<lambda>h. untraced (rpc_getTransaction rpc h)),
      rpc_now = untraced (rpc_now rpc),
      rpc_sleep = (\<lambda>ms (w, ts). (rpc_sleep rpc ms w, ts))\<rparr>"

definition within_cap :: "('a, 't, 'p, 's) sdk \<Rightarrow> chain_options \<Rightarrow> bool \<Rightarrow> 't \<Rightarrow> bool" where
  "within_cap sdk opts dry t \<longleftrightarrow>
     \<not> dry \<and> (\<exists>u. t = sdk_sign sdk u \<and> sdk_fee sdk u \<le> co_maxFeeStroops opts)"

lemma emits_now: "(\<And>t. emits Q (f t)) \<Longrightarrow>
    emits Q (\<lambda>w. case rpc_now (send_traced rpc) w of (now, w') \<Rightarrow> f now w')"
  by (auto simp: emits_def send_traced_def untraced_def split: prod.splits)

lemma emits_checkPending [emits_intro]: "emits Q (checkPending (send_traced rpc) h e)"
proof -
  have g: "rpc_getTransaction (send_traced rpc) h = untraced (rpc_getTransaction rpc h)"
    by (simp add: send_traced_def)
  show ?thesis unfolding checkPending_def g
    by (rule emits_bind) (auto intro!: emits_intro emits_now split: tx_status.splits)
qed


lemma emits_poll_loop [emits_intro]: "emits Q (poll_loop (send_traced rpc) opts h e)"
proof -
  have "snd (snd r) = snd w" if "poll_loop (send_traced rpc) opts h e w = Some r" for w r
  proof -
    have g: "snd (snd (rpc_getTransaction (send_traced rpc) h w)) = snd w"
        "snd (snd (rpc_now (send_traced rpc) w)) = snd w" "snd (rpc_sleep (send_traced rpc) ms w) = snd w"
      for w h ms by (cases w; simp add: send_traced_def untraced_def split: prod.splits)+
    have c: "snd (snd r) = snd w" if "checkPending (send_traced rpc) h e w = Some r" for w r h e
      using that g(1) [of h w] g(2)
      by (auto simp: checkPending_def split: prod.splits sum.splits tx_status.splits if_splits)
        (metis snd_conv)+
    have "rpc' = send_traced rpc \<longrightarrow> snd (snd r) = snd w"
      if "poll_loop rpc' opts h e w = Some r" for rpc' opts h e w r
      by (rule poll_loop.raw_induct
          [where P = "\<lambda>rpc' opts h e w r. rpc' = send_traced rpc \<longrightarrow> snd (snd r) = snd w", OF _ that])
        (auto split: option.splits prod.splits sum.splits exec_result.splits dest!: c simp: g)
    with that show ?thesis by blast
  qed
  then show ?thesis by (simp add: emits_def)
qed

lemma emits_submit:
  assumes "Q tx"
  shows "emits Q (submitAndWait sdk (send_traced rpc) opts tx)"
proof -
  have [emits_intro]: "emits Q (expires_at sdk (send_traced rpc) opts tx)"
    by (auto simp: expires_at_def Let_def intro!: emits_intro emits_now)
  have s: "rpc_send (send_traced rpc) tx = traced tx (rpc_send rpc tx)" by (simp add: send_traced_def)
  have [emits_intro]: "emits Q (call (rpc_send (send_traced rpc) tx))"
    unfolding s by (rule emits_traced) fact
  show ?thesis
    unfolding submitAndWait_def Let_def
    by (rule emits_bind, rule emits_intro, rule emits_try)
      (auto intro!: emits_intro split: send_status.splits)
qed

lemma emits_reads [emits_intro]:
  "emits Q (call (rpc_getAccount (send_traced rpc)))"
  "emits Q (call (rpc_simulate (send_traced rpc) tx))"
  by (auto simp: send_traced_def intro: emits_intro)

lemma emits_build [emits_intro]: "emits Q (buildExecuteTx sdk (send_traced rpc) i)"
  unfolding buildExecuteTx_def by (intro emits_intro)

lemma emits_finish [emits_intro]:
  "emits (within_cap sdk opts dry) (finish_execute sdk (send_traced rpc) opts dry tx sim)"
  by (cases sim)
    (auto simp: finish_execute_def Let_def within_cap_def feeAboveCap_def not_less
      intro!: emits_intro emits_submit)

lemma emits_restore [emits_intro]:
  "\<not> dry \<Longrightarrow> emits (within_cap sdk opts dry) (restore sdk (send_traced rpc) opts preamble)"
  unfolding restore_def Let_def
  by (rule emits_bind)
    (auto simp: within_cap_def feeAboveCap_def not_less intro!: emits_intro emits_submit)

lemma emits_execute: "emits (within_cap sdk opts dry) (execute sdk (send_traced rpc) opts i dry)"
  unfolding execute_def
  by (intro emits_bind emits_intro)
    (auto intro!: emits_intro split: simulation.splits option.splits exec_result.splits)

text \<open>C20: The keeper never signs away more than its cap.  Every envelope that one \<open>execute\<close>
  hands to \<open>sendTransaction\<close>, the restore of archived entries included, is a transaction
  whose fee is at most \<open>maxFeeStroops\<close>, whatever fees the node asks for; a dry run hands
  over none.\<close>

theorem sent_within_cap:
  assumes "execute sdk (send_traced rpc) opts i dry (w, []) = Some (r, w', sent)"
  shows "(\<forall>t \<in> set sent. \<exists>u. t = sdk_sign sdk u \<and> sdk_fee sdk u \<le> co_maxFeeStroops opts)
       \<and> (dry \<longrightarrow> sent = [])"
proof -
  from emitsD [OF emits_execute assms] have "\<forall>t \<in> set sent. within_cap sdk opts dry t" by auto
  then show ?thesis by (cases sent) (auto simp: within_cap_def)
qed

theorem sent_within_cap_witness:
  "\<exists>u. (''execute!'', 1000) = sdk_sign sdk_example u
     \<and> sdk_fee sdk_example u \<le> co_maxFeeStroops options_example"
proof -
  have "execute sdk_example (send_traced rpc_example) options_example (jint 1) False (5000, [])
      = Some (Inr (Success ''execute!'' 7), (5000, [(''execute!'', 1000)]))"
    by (simp add: execute_eval send_traced_def untraced_def traced_def chain_example_defs)
  from sent_within_cap [OF this] show ?thesis by simp
qed

text \<open>With such a clock an execution always returns.\<close>

lemma execute_returns:
  assumes "clock_advances clk rpc" and "0 < co_pollIntervalMs opts"
  shows "returns (execute sdk rpc opts i dry)"
proof -
  have sub: "returns (submitAndWait sdk rpc opts tx)" for tx
    using submitAndWait_returns [OF assms] by (simp add: returns_def)
  have fin: "returns (finish_execute sdk rpc opts dry tx sim)" for tx sim
    using sub by (auto simp: finish_execute_def Let_def split: simulation.splits)
  have build: "returns (buildExecuteTx sdk rpc i)"
    unfolding buildExecuteTx_def by (intro returns_bind) simp_all
  have rest: "returns (restore sdk rpc opts pre)" for pre
    unfolding restore_def Let_def by (intro returns_bind) (simp_all add: sub)
  have again: "returns (eff_bind (buildExecuteTx sdk rpc i) (\<lambda>tx.
      eff_bind (call (rpc_simulate rpc tx)) (\<lambda>sim. finish_execute sdk rpc opts dry tx sim)))"
    by (intro returns_bind build fin) simp
  have restored: "returns (eff_bind (restore sdk rpc opts pre) (\<lambda>restored.
               case restored of
                 Pending hash expiresAt \<Rightarrow> eff_ret (Restore_Pending hash expiresAt)
               | Success _ _ \<Rightarrow>
                   eff_bind (buildExecuteTx sdk rpc i) (\<lambda>tx.
                   eff_bind (call (rpc_simulate rpc tx)) (\<lambda>sim.
                     finish_execute sdk rpc opts dry tx sim))
               | _ \<Rightarrow> eff_ret restored))" for pre
    by (rule returns_bind [OF rest]) (simp add: again split: exec_result.splits)
  show ?thesis
    unfolding execute_def
    by (rule returns_bind [OF build], rule returns_bind)
      (simp_all add: fin restored split: simulation.splits option.splits)
qed

end
