(* ===== verification/Keeper.thy ===== *)
theory Keeper
  imports Keeper_Chain Collections_JS Guard_Contract
begin

text \<open>
  \<open>stellar/src/keeper/keeper.ts\<close>: the keeper's state machine.  A state carries the three
  in-memory tables, the sweep cursor, the log written so far and the world; an operation
  returns the next state.  The chain the keeper talks to is the record \<open>keeper_port\<close>
  (\<open>KeeperChain\<close> with the injected clock, sleep and abort signal); only its \<open>execute\<close> may fail
  to return, so the operations that execute return an option.
\<close>

section \<open>State\<close>

datatype log_level = Debug | Info | Warn | Error_Level

datatype purpose = Execute_Tx | Restore_Tx

record pending_tx =
  pt_hash :: string
  pt_expiresAt :: int
  pt_purpose :: purpose

record backoff_entry =
  be_failures :: int
  be_until :: int
  be_kind :: error_kind

record tick_summary =
  ts_ok :: bool
  ts_due :: nat
  ts_attempted :: nat
  ts_executed :: nat
  ts_failed :: nat
  ts_error :: "classified_error option"

datatype 'i log_event =
  Log_Executed 'i string int "(int \<times> int \<times> bool) option"
| Log_Dry_Run 'i "string option" "keeper_schedule option"
| Log_Pending 'i string
| Log_Restore_Pending 'i string
| Log_Failed 'i string classified_error int
| Log_Rejected 'i "string option" classified_error int
| Log_Restore_Confirmed 'i string int
| Log_Restore_Failed 'i string classified_error int
| Log_Restore_Rejected 'i "string option" classified_error int
| Log_Pending_Check_Failed 'i string classified_error
| Log_List_Due_Failed int classified_error nat
| Log_List_Due_Page_Failed int nat classified_error
| Log_Tick "'i list" "'i list" int nat int int
| Log_Keeper_Started int bool
| Log_Keeper_Stopped "'i list"

record ('w, 'i) keeper =
  k_inflight :: "'i list"
  k_pending :: "('i, pending_tx) js_map"
  k_backoff :: "('i, backoff_entry) js_map"
  k_sweepCursor :: int
  k_tickFailures :: nat
  k_log :: "(log_level \<times> 'i log_event) list"
  k_world :: 'w

record ('w, 'i) keeper_port =
  kp_listDue :: "int \<Rightarrow> int \<Rightarrow> 'w \<Rightarrow> (js_thrown + 'i due_page) \<times> 'w"
  kp_getSchedule :: "'i \<Rightarrow> 'w \<Rightarrow> (js_thrown + keeper_schedule option) \<times> 'w"
  kp_execute :: "'i \<Rightarrow> bool \<Rightarrow> ('w, js_thrown, exec_result) eff"
  kp_checkPending :: "string \<Rightarrow> int \<Rightarrow> 'w \<Rightarrow> (js_thrown + exec_result) \<times> 'w"
  kp_now :: "'w \<Rightarrow> int \<times> 'w"
  kp_sleep :: "int \<Rightarrow> 'w \<Rightarrow> 'w"
  kp_aborted :: "'w \<Rightarrow> bool"

record keeper_options =
  ko_pollSeconds :: int
  ko_maxPerTick :: nat
  ko_dryRun :: bool

definition MAX_LIST_LIMIT :: nat where "MAX_LIST_LIMIT = 200"
definition MAX_PAGES_PER_TICK :: nat where "MAX_PAGES_PER_TICK = 10"
definition MAX_TICK_BACKOFF_MS :: int where "MAX_TICK_BACKOFF_MS = 2 * 60000"

definition new_keeper :: "'w \<Rightarrow> ('w, 'i) keeper" where
  "new_keeper w = \<lparr>k_inflight = [], k_pending = [], k_backoff = [], k_sweepCursor = 0,
     k_tickFailures = 0, k_log = [], k_world = w\<rparr>"

section \<open>Single steps\<close>

text \<open>A call of the port from a keeper state.\<close>

definition k_call :: "('w \<Rightarrow> 'r \<times> 'w) \<Rightarrow> ('w, 'i) keeper \<Rightarrow> 'r \<times> ('w, 'i) keeper" where
  "k_call f k = (case f (k_world k) of (r, w) \<Rightarrow> (r, k\<lparr>k_world := w\<rparr>))"

definition write_log :: "log_level \<Rightarrow> 'i log_event \<Rightarrow> ('w, 'i) keeper \<Rightarrow> ('w, 'i) keeper" where
  "write_log lvl e k = k\<lparr>k_log := k_log k @ [(lvl, e)]\<rparr>"

fun levelFor :: "error_kind \<Rightarrow> log_level" where
  "levelFor Already_Executed = Info"
| "levelFor Not_Due = Info"
| "levelFor Keeper_Funds = Error_Level"
| "levelFor _ = Warn"

definition postRunState :: "keeper_schedule option \<Rightarrow> (int \<times> int \<times> bool) option" where
  "postRunState s = map_option (\<lambda>s. (sch_next_run_at s, sch_runs_left s, sch_active s)) s"

definition describe :: "('w, 'i) keeper_port \<Rightarrow> 'i \<Rightarrow> ('w, 'i) keeper \<Rightarrow> keeper_schedule option \<times> ('w, 'i) keeper" where
  "describe port i k =
     (case k_call (kp_getSchedule port i) k of
        (Inr s, k') \<Rightarrow> (s, k')
      | (Inl _, k') \<Rightarrow> (None, k'))"

definition registerFailure :: "('w, 'i) keeper_port \<Rightarrow> 'i \<Rightarrow> classified_error \<Rightarrow> ('w, 'i) keeper \<Rightarrow> ('w, 'i) keeper" where
  "registerFailure port i err k =
     (let prev = jm_get (k_backoff k) i;
          failures = (case prev of
                        Some b \<Rightarrow> if be_kind b = ce_kind err then be_failures b else 0
                      | None \<Rightarrow> 0) + 1
      in case k_call (kp_now port) k of
           (now, k') \<Rightarrow>
             k'\<lparr>k_backoff := jm_set (k_backoff k') i
                \<lparr>be_failures = failures, be_until = now + backoffMs (ce_kind err) failures,
                 be_kind = ce_kind err\<rparr>\<rparr>)"

definition until_of :: "('w, 'i) keeper \<Rightarrow> 'i \<Rightarrow> int" where
  "until_of k i = (case jm_get (k_backoff k) i of Some b \<Rightarrow> be_until b | None \<Rightarrow> 0)"

definition retryIn :: "('w, 'i) keeper_port \<Rightarrow> 'i \<Rightarrow> ('w, 'i) keeper \<Rightarrow> int \<times> ('w, 'i) keeper" where
  "retryIn port i k = (case k_call (kp_now port) k of (now, k') \<Rightarrow> (max 0 (until_of k i - now), k'))"

definition handle :: "('w, 'i) keeper_port \<Rightarrow> 'i \<Rightarrow> exec_result \<Rightarrow> ('w, 'i) keeper \<Rightarrow> ('w, 'i) keeper" where
  "handle port i result k =
     (case result of
        Success hash ledger \<Rightarrow>
          (case describe port i (k\<lparr>k_backoff := jm_delete (k_backoff k) i\<rparr>) of
             (s, k') \<Rightarrow> write_log Info (Log_Executed i hash ledger (postRunState s)) k')
      | Dry_Run note \<Rightarrow>
          (case describe port i k of (s, k') \<Rightarrow> write_log Info (Log_Dry_Run i note s) k')
      | Pending hash expiresAt \<Rightarrow>
          write_log Warn (Log_Pending i hash)
            (k\<lparr>k_pending := jm_set (k_pending k) i
                \<lparr>pt_hash = hash, pt_expiresAt = expiresAt, pt_purpose = Execute_Tx\<rparr>\<rparr>)
      | Restore_Pending hash expiresAt \<Rightarrow>
          write_log Warn (Log_Restore_Pending i hash)
            (k\<lparr>k_pending := jm_set (k_pending k) i
                \<lparr>pt_hash = hash, pt_expiresAt = expiresAt, pt_purpose = Restore_Tx\<rparr>\<rparr>)
      | Failed hash err \<Rightarrow>
          (case retryIn port i (registerFailure port i err k) of
             (ms, k') \<Rightarrow> write_log Error_Level (Log_Failed i hash err ms) k')
      | Rejected err hash \<Rightarrow>
          (case retryIn port i (registerFailure port i err k) of
             (ms, k') \<Rightarrow> write_log (levelFor (ce_kind err)) (Log_Rejected i hash err ms) k'))"

definition handleRestoreResolution :: "('w, 'i) keeper_port \<Rightarrow> 'i \<Rightarrow> exec_result \<Rightarrow> ('w, 'i) keeper \<Rightarrow> ('w, 'i) keeper" where
  "handleRestoreResolution port i res k =
     (case res of
        Success hash ledger \<Rightarrow> write_log Info (Log_Restore_Confirmed i hash ledger) k
      | Failed hash err \<Rightarrow>
          (case retryIn port i (registerFailure port i err k) of
             (ms, k') \<Rightarrow> write_log Error_Level (Log_Restore_Failed i hash err ms) k')
      | Rejected err hash \<Rightarrow>
          (case retryIn port i (registerFailure port i err k) of
             (ms, k') \<Rightarrow> write_log (levelFor (ce_kind err)) (Log_Restore_Rejected i hash err ms) k')
      | _ \<Rightarrow> k)"

text \<open>One turn of the loop of \<open>resolvePending\<close>, and the loop over a snapshot of the map.\<close>

definition resolve_one :: "('w, 'i) keeper_port \<Rightarrow> 'i \<times> pending_tx \<Rightarrow> ('w, 'i) keeper \<Rightarrow> ('w, 'i) keeper" where
  "resolve_one port ip k =
     (case ip of (i, p) \<Rightarrow>
      (case k_call (kp_checkPending port (pt_hash p) (pt_expiresAt p)) k of
         (Inl err, k') \<Rightarrow>
           write_log Warn (Log_Pending_Check_Failed i (pt_hash p) (classifyThrown err)) k'
       | (Inr res, k') \<Rightarrow>
           if is_pending res then k'
           else
             let k' = k'\<lparr>k_pending := jm_delete (k_pending k') i\<rparr> in
             if pt_purpose p = Restore_Tx then handleRestoreResolution port i res k'
             else handle port i res k'))"

definition resolvePending :: "('w, 'i) keeper_port \<Rightarrow> ('w, 'i) keeper \<Rightarrow> ('w, 'i) keeper" where
  "resolvePending port k = fold (resolve_one port) (k_pending k) k"

definition set_add :: "'i \<Rightarrow> 'i list \<Rightarrow> 'i list" where
  "set_add x xs = (if List.member xs x then xs else xs @ [x])"

definition set_remove :: "'i \<Rightarrow> 'i list \<Rightarrow> 'i list" where
  "set_remove x xs = filter (\<lambda>y. y \<noteq> x) xs"

definition runOne :: "('w, 'i) keeper_port \<Rightarrow> bool \<Rightarrow> 'i \<Rightarrow> ('w, 'i) keeper \<Rightarrow> (exec_result \<times> ('w, 'i) keeper) option" where
  "runOne port dryRun i k =
     (if List.member (k_inflight k) i \<or> jm_get (k_pending k) i \<noteq> None
      then Some (Dry_Run (Some ''already in flight''), k)
      else
        let k = k\<lparr>k_inflight := set_add i (k_inflight k)\<rparr> in
        case kp_execute port i dryRun (k_world k) of
          None \<Rightarrow> None
        | Some (r, w) \<Rightarrow>
            let result = (case r of Inl err \<Rightarrow> Rejected (classifyThrown err) None | Inr res \<Rightarrow> res);
                k = k\<lparr>k_world := w, k_inflight := set_remove i (k_inflight k)\<rparr>
            in Some (result, handle port i result k))"

section \<open>A tick\<close>

definition activeBackoffIds :: "int \<Rightarrow> ('w, 'i) keeper \<Rightarrow> 'i list" where
  "activeBackoffIds now k = map fst (filter (\<lambda>(_, b). be_until b > now) (k_backoff k))"

definition suppressed :: "int \<Rightarrow> ('w, 'i) keeper \<Rightarrow> 'i \<Rightarrow> bool" where
  "suppressed now k i \<longleftrightarrow>
     List.member (k_inflight k) i \<or> jm_get (k_pending k) i \<noteq> None \<or> until_of k i > now"

definition page_limit :: "keeper_options \<Rightarrow> int \<Rightarrow> ('w, 'i) keeper \<Rightarrow> nat" where
  "page_limit opts now k =
     (let skipCount = length (remdups (k_inflight k @ jm_keys (k_pending k) @ activeBackoffIds now k))
      in min MAX_LIST_LIMIT (ko_maxPerTick opts + skipCount))"

text \<open>The lists a scan fills; \<open>seen\<close> of the source holds the elements of \<open>dueIds\<close>.\<close>

record 'i scan =
  sc_due :: "'i list"
  sc_candidates :: "'i list"

definition add_id :: "nat \<Rightarrow> ('i \<Rightarrow> bool) \<Rightarrow> 'i \<Rightarrow> 'i scan \<Rightarrow> 'i scan" where
  "add_id maxPerTick skip i sc =
     (if List.member (sc_due sc) i then sc
      else
        \<lparr>sc_due = sc_due sc @ [i],
         sc_candidates = (if length (sc_candidates sc) < maxPerTick \<and> \<not> skip i
                          then sc_candidates sc @ [i] else sc_candidates sc)\<rparr>)"

text \<open>The page loop; the first argument counts the pages left.\<close>

fun scan_pages ::
    "nat \<Rightarrow> ('w, 'i) keeper_port \<Rightarrow> keeper_options \<Rightarrow> nat \<Rightarrow> ('i \<Rightarrow> bool) \<Rightarrow> nat \<Rightarrow> int \<Rightarrow> 'i scan
       \<Rightarrow> ('w, 'i) keeper \<Rightarrow> (classified_error + 'i scan \<times> nat) \<times> ('w, 'i) keeper" where
  "scan_pages 0 port opts limit skip pages cursor sc k = (Inr (sc, pages), k)"
| "scan_pages (Suc left) port opts limit skip pages cursor sc k =
     (case k_call (kp_listDue port cursor (int limit)) k of
        (Inl err, k') \<Rightarrow>
          let e = classifyThrown err;
              k' = k'\<lparr>k_sweepCursor := cursor\<rparr>
          in if pages = 0
             then let k' = k'\<lparr>k_tickFailures := k_tickFailures k' + 1\<rparr>
                  in (Inl e, write_log Error_Level (Log_List_Due_Failed cursor e (k_tickFailures k')) k')
             else (Inr (sc, pages), write_log Warn (Log_List_Due_Page_Failed cursor pages e) k')
      | (Inr page, k') \<Rightarrow>
          let pages = pages + 1;
              sc = fold (add_id (ko_maxPerTick opts) skip) (dp_ids page) sc;
              endOfSpace = (case dp_nextCursor page of None \<Rightarrow> True | Some n \<Rightarrow> n \<le> cursor);
              k' = k'\<lparr>k_sweepCursor := (if endOfSpace then 0 else the (dp_nextCursor page))\<rparr>
          in if length (sc_candidates sc) \<ge> ko_maxPerTick opts then (Inr (sc, pages), k')
             else if endOfSpace then (Inr (sc, pages), k')
             else scan_pages left port opts limit skip pages (k_sweepCursor k') sc k')"

definition pruneBackoff :: "'i list \<Rightarrow> int \<Rightarrow> ('w, 'i) keeper \<Rightarrow> ('w, 'i) keeper" where
  "pruneBackoff dueNow now k =
     k\<lparr>k_backoff := filter (\<lambda>(i, b). \<not> (be_until b \<le> now \<and> \<not> List.member dueNow i)) (k_backoff k)\<rparr>"

definition count_result :: "exec_result \<Rightarrow> tick_summary \<Rightarrow> tick_summary" where
  "count_result r s =
     (case r of
        Success _ _ \<Rightarrow> s\<lparr>ts_executed := ts_executed s + 1\<rparr>
      | Dry_Run _ \<Rightarrow> s
      | Pending _ _ \<Rightarrow> s
      | _ \<Rightarrow> s\<lparr>ts_failed := ts_failed s + 1\<rparr>)"

fun run_candidates ::
    "('w, 'i) keeper_port \<Rightarrow> bool \<Rightarrow> 'i list \<Rightarrow> tick_summary \<Rightarrow> ('w, 'i) keeper
       \<Rightarrow> (tick_summary \<times> ('w, 'i) keeper) option" where
  "run_candidates port dryRun [] s k = Some (s, k)"
| "run_candidates port dryRun (i # is) s k =
     (if kp_aborted port (k_world k) then Some (s, k)
      else
        case runOne port dryRun i k of
          None \<Rightarrow> None
        | Some (result, k') \<Rightarrow>
            run_candidates port dryRun is (count_result result (s\<lparr>ts_attempted := ts_attempted s + 1\<rparr>)) k')"

definition empty_summary :: "bool \<Rightarrow> nat \<Rightarrow> classified_error option \<Rightarrow> tick_summary" where
  "empty_summary ok due err =
     \<lparr>ts_ok = ok, ts_due = due, ts_attempted = 0, ts_executed = 0, ts_failed = 0, ts_error = err\<rparr>"

definition tick ::
    "('w, 'i) keeper_port \<Rightarrow> keeper_options \<Rightarrow> ('w, 'i) keeper \<Rightarrow> (tick_summary \<times> ('w, 'i) keeper) option" where
  "tick port opts k =
     (case k_call (kp_now port) (resolvePending port k) of (now, k) \<Rightarrow>
        let limit = page_limit opts now k;
            cursorFrom = k_sweepCursor k
        in case scan_pages MAX_PAGES_PER_TICK port opts limit (suppressed now k) 0 cursorFrom
                  \<lparr>sc_due = [], sc_candidates = []\<rparr> k of
             (Inl e, k) \<Rightarrow> Some (empty_summary False 0 (Some e), k)
           | (Inr (sc, pages), k) \<Rightarrow>
               let k = k\<lparr>k_tickFailures := 0\<rparr>;
                   k = pruneBackoff (sc_due sc) now k;
                   k = write_log Debug (Log_Tick (sc_due sc) (sc_candidates sc) (int limit) pages
                         cursorFrom (k_sweepCursor k)) k
               in run_candidates port (ko_dryRun opts) (sc_candidates sc)
                    (empty_summary True (length (sc_due sc)) None) k)"

section \<open>The loop\<close>

definition tick_delay :: "keeper_options \<Rightarrow> bool \<Rightarrow> nat \<Rightarrow> int" where
  "tick_delay opts ok failures =
     (let pollMs = ko_pollSeconds opts * 1000
      in if ok then pollMs else min MAX_TICK_BACKOFF_MS (pollMs * 2 ^ min failures 6))"

text \<open>
  At most \<open>n\<close> rounds of \<open>run\<close>.  The model's \<open>tick\<close> cannot throw, so the defensive \<open>catch\<close> of
  the source has nothing to catch.
\<close>

fun run_rounds :: "nat \<Rightarrow> ('w, 'i) keeper_port \<Rightarrow> keeper_options \<Rightarrow> ('w, 'i) keeper \<Rightarrow> ('w, 'i) keeper option" where
  "run_rounds 0 port opts k = Some k"
| "run_rounds (Suc n) port opts k =
     (if kp_aborted port (k_world k) then Some k
      else
        case tick port opts k of
          None \<Rightarrow> None
        | Some (s, k') \<Rightarrow>
            run_rounds n port opts
              (k'\<lparr>k_world := kp_sleep port (tick_delay opts (ts_ok s) (k_tickFailures k')) (k_world k')\<rparr>))"

definition run :: "nat \<Rightarrow> ('w, 'i) keeper_port \<Rightarrow> keeper_options \<Rightarrow> ('w, 'i) keeper \<Rightarrow> ('w, 'i) keeper option" where
  "run n port opts k =
     map_option
       (\<lambda>k'. if kp_aborted port (k_world k') then write_log Info (Log_Keeper_Stopped (jm_keys (k_pending k'))) k' else k')
       (run_rounds n port opts
         (write_log Info (Log_Keeper_Started (ko_pollSeconds opts) (ko_dryRun opts)) k))"


section \<open>What each step leaves alone\<close>

lemma set_jm_set: "set (jm_set m k v) \<subseteq> insert (k, v) (set m)"
  by (induction m k v rule: jm_set.induct) auto

lemma set_jm_delete: "set (jm_delete m k) \<subseteq> set m"
  by (auto simp: jm_delete_def)

lemma k_call_frame [simp]:
  "k_pending (snd (k_call f k)) = k_pending k" "k_inflight (snd (k_call f k)) = k_inflight k"
  "k_backoff (snd (k_call f k)) = k_backoff k" "k_log (snd (k_call f k)) = k_log k"
  "k_sweepCursor (snd (k_call f k)) = k_sweepCursor k"
  "k_tickFailures (snd (k_call f k)) = k_tickFailures k"
  by (simp_all add: k_call_def split: prod.splits)

lemma write_log_frame [simp]:
  "k_pending (write_log l e k) = k_pending k" "k_inflight (write_log l e k) = k_inflight k"
  "k_backoff (write_log l e k) = k_backoff k" "k_log (write_log l e k) = k_log k @ [(l, e)]"
  "k_sweepCursor (write_log l e k) = k_sweepCursor k" "k_world (write_log l e k) = k_world k"
  "k_tickFailures (write_log l e k) = k_tickFailures k"
  by (simp_all add: write_log_def)

lemma describe_frame [simp]:
  "k_pending (snd (describe port i k)) = k_pending k" "k_inflight (snd (describe port i k)) = k_inflight k"
  "k_backoff (snd (describe port i k)) = k_backoff k" "k_log (snd (describe port i k)) = k_log k"
  "k_sweepCursor (snd (describe port i k)) = k_sweepCursor k"
  by (auto simp: describe_def k_call_def split: prod.splits sum.splits)

lemma registerFailure_frame [simp]:
  "k_pending (registerFailure port i e k) = k_pending k" "k_inflight (registerFailure port i e k) = k_inflight k"
  "k_log (registerFailure port i e k) = k_log k"
  "k_sweepCursor (registerFailure port i e k) = k_sweepCursor k"
  by (simp_all add: registerFailure_def k_call_def Let_def split: prod.splits)

lemma retryIn_frame [simp]:
  "k_pending (snd (retryIn port i k)) = k_pending k" "k_inflight (snd (retryIn port i k)) = k_inflight k"
  "k_backoff (snd (retryIn port i k)) = k_backoff k" "k_log (snd (retryIn port i k)) = k_log k"
  "k_sweepCursor (snd (retryIn port i k)) = k_sweepCursor k"
  by (simp_all add: retryIn_def k_call_def split: prod.splits)

text \<open>The handler, with the state each branch hands to the log.\<close>

lemma handle_simps [simp]:
  "handle port i (Success h l) k =
     write_log Info (Log_Executed i h l (postRunState (fst (describe port i (k\<lparr>k_backoff := jm_delete (k_backoff k) i\<rparr>)))))
       (snd (describe port i (k\<lparr>k_backoff := jm_delete (k_backoff k) i\<rparr>)))"
  "handle port i (Dry_Run n) k =
     write_log Info (Log_Dry_Run i n (fst (describe port i k))) (snd (describe port i k))"
  "handle port i (Pending h e) k =
     write_log Warn (Log_Pending i h) (k\<lparr>k_pending := jm_set (k_pending k) i
                \<lparr>pt_hash = h, pt_expiresAt = e, pt_purpose = Execute_Tx\<rparr>\<rparr>)"
  "handle port i (Restore_Pending h e) k =
     write_log Warn (Log_Restore_Pending i h) (k\<lparr>k_pending := jm_set (k_pending k) i
                \<lparr>pt_hash = h, pt_expiresAt = e, pt_purpose = Restore_Tx\<rparr>\<rparr>)"
  "handle port i (Failed h err) k =
     write_log Error_Level (Log_Failed i h err (fst (retryIn port i (registerFailure port i err k))))
       (snd (retryIn port i (registerFailure port i err k)))"
  "handle port i (Rejected err h') k =
     write_log (levelFor (ce_kind err)) (Log_Rejected i h' err (fst (retryIn port i (registerFailure port i err k))))
       (snd (retryIn port i (registerFailure port i err k)))"
  by (simp_all add: handle_def split: prod.splits)

lemma handleRestore_simps [simp]:
  "handleRestoreResolution port i (Success h l) k = write_log Info (Log_Restore_Confirmed i h l) k"
  "handleRestoreResolution port i (Failed h err) k =
     write_log Error_Level (Log_Restore_Failed i h err (fst (retryIn port i (registerFailure port i err k))))
       (snd (retryIn port i (registerFailure port i err k)))"
  "handleRestoreResolution port i (Rejected err h') k =
     write_log (levelFor (ce_kind err)) (Log_Restore_Rejected i h' err (fst (retryIn port i (registerFailure port i err k))))
       (snd (retryIn port i (registerFailure port i err k)))"
  "handleRestoreResolution port i (Pending h e) k = k"
  "handleRestoreResolution port i (Restore_Pending h e) k = k"
  "handleRestoreResolution port i (Dry_Run n) k = k"
  by (simp_all add: handleRestoreResolution_def split: prod.splits)

lemma handle_frame [simp]:
  "k_inflight (handle port i r k) = k_inflight k" "k_sweepCursor (handle port i r k) = k_sweepCursor k"
  by (cases r; simp)+

lemma handleRestore_frame [simp]:
  "k_inflight (handleRestoreResolution port i r k) = k_inflight k"
  "k_pending (handleRestoreResolution port i r k) = k_pending k"
  "k_sweepCursor (handleRestoreResolution port i r k) = k_sweepCursor k"
  by (cases r; simp)+

lemma resolve_one_unfold:
  "resolve_one port (i, p) k =
     (let c = k_call (kp_checkPending port (pt_hash p) (pt_expiresAt p)) k;
          k' = (snd c)\<lparr>k_pending := jm_delete (k_pending k) i\<rparr>
      in case fst c of
           Inl err \<Rightarrow> write_log Warn (Log_Pending_Check_Failed i (pt_hash p) (classifyThrown err)) (snd c)
         | Inr res \<Rightarrow>
             if is_pending res then snd c
             else if pt_purpose p = Restore_Tx then handleRestoreResolution port i res k'
             else handle port i res k')"
proof -
  obtain r w where "kp_checkPending port (pt_hash p) (pt_expiresAt p) (k_world k) = (r, w)"
    by (cases "kp_checkPending port (pt_hash p) (pt_expiresAt p) (k_world k)")
  then show ?thesis by (cases r) (simp_all add: resolve_one_def k_call_def Let_def)
qed

lemma resolve_one_frame [simp]:
  "k_inflight (resolve_one port ip k) = k_inflight k"
  "k_sweepCursor (resolve_one port ip k) = k_sweepCursor k"
  by (cases ip; auto simp: resolve_one_unfold Let_def split: sum.splits)+

lemma resolvePending_frame [simp]:
  "k_inflight (resolvePending port k) = k_inflight k"
  "k_sweepCursor (resolvePending port k) = k_sweepCursor k"
proof -
  have "k_inflight (fold (resolve_one port) ps k) = k_inflight k
      \<and> k_sweepCursor (fold (resolve_one port) ps k) = k_sweepCursor k" for ps
    by (induction ps arbitrary: k) simp_all
  then show "k_inflight (resolvePending port k) = k_inflight k"
    "k_sweepCursor (resolvePending port k) = k_sweepCursor k"
    by (simp_all add: resolvePending_def)
qed

lemma pruneBackoff_frame [simp]:
  "k_inflight (pruneBackoff d n k) = k_inflight k" "k_pending (pruneBackoff d n k) = k_pending k"
  "k_log (pruneBackoff d n k) = k_log k" "k_sweepCursor (pruneBackoff d n k) = k_sweepCursor k"
  "k_world (pruneBackoff d n k) = k_world k"
  by (simp_all add: pruneBackoff_def)

text \<open>Every line of the log that says a schedule was executed satisfies \<open>P\<close>.\<close>

fun executed_ok :: "('i \<Rightarrow> string \<Rightarrow> bool) \<Rightarrow> 'i log_event \<Rightarrow> bool" where
  "executed_ok P (Log_Executed i h l a) = P i h"
| "executed_ok P _ = True"

definition log_honest :: "('i \<Rightarrow> string \<Rightarrow> bool) \<Rightarrow> ('w, 'i) keeper \<Rightarrow> bool" where
  "log_honest P k \<longleftrightarrow> (\<forall>(l, e) \<in> set (k_log k). executed_ok P e)"

lemma log_honest_write [simp]: "log_honest P (write_log l e k) \<longleftrightarrow> log_honest P k \<and> executed_ok P e"
  by (auto simp: log_honest_def)

lemma log_honest_cong: "k_log k = k_log k' \<Longrightarrow> log_honest P k \<longleftrightarrow> log_honest P k'"
  by (simp add: log_honest_def)

lemma log_honest_frame [simp]:
  "log_honest P (snd (k_call f k)) \<longleftrightarrow> log_honest P k"
  "log_honest P (snd (describe port i k)) \<longleftrightarrow> log_honest P k"
  "log_honest P (registerFailure port i e k) \<longleftrightarrow> log_honest P k"
  "log_honest P (snd (retryIn port i k)) \<longleftrightarrow> log_honest P k"
  "log_honest P (pruneBackoff d n k) \<longleftrightarrow> log_honest P k"
  by (simp_all add: log_honest_def)

lemma log_honest_update [simp]:
  "log_honest P (k\<lparr>k_pending := a\<rparr>) \<longleftrightarrow> log_honest P k"
  "log_honest P (k\<lparr>k_backoff := b\<rparr>) \<longleftrightarrow> log_honest P k"
  "log_honest P (k\<lparr>k_inflight := c\<rparr>) \<longleftrightarrow> log_honest P k"
  "log_honest P (k\<lparr>k_world := w\<rparr>) \<longleftrightarrow> log_honest P k"
  "log_honest P (k\<lparr>k_sweepCursor := n\<rparr>) \<longleftrightarrow> log_honest P k"
  "log_honest P (k\<lparr>k_tickFailures := m\<rparr>) \<longleftrightarrow> log_honest P k"
  by (simp_all add: log_honest_def)

text \<open>Induction over the pages of a scan: \<open>I\<close> holds after it if every single change keeps it.\<close>

lemma scan_induct:
  assumes "I k"
    and world: "\<And>k w. I k \<Longrightarrow> I (k\<lparr>k_world := w\<rparr>)"
    and sweep: "\<And>k n. I k \<Longrightarrow> I (k\<lparr>k_sweepCursor := n\<rparr>)"
    and fails: "\<And>k n. I k \<Longrightarrow> I (k\<lparr>k_tickFailures := n\<rparr>)"
    and log: "\<And>k l e. I k \<Longrightarrow> executed_ok (\<lambda>_ _. False) e \<Longrightarrow> I (write_log l e k)"
  shows "I (snd (scan_pages left port opts limit skip pages cursor sc k))"
  using assms(1)
proof (induction left arbitrary: pages cursor sc k)
  case (Suc left)
  obtain r w where c: "k_call (kp_listDue port cursor (int limit)) k = (r, k\<lparr>k_world := w\<rparr>)"
    by (cases "kp_listDue port cursor (int limit) (k_world k)") (simp add: k_call_def)
  show ?case
  proof (cases r)
    case (Inl err)
    have "I (k\<lparr>k_world := w, k_sweepCursor := cursor\<rparr>)"
      using sweep [OF world [OF Suc.prems, of w], of cursor] by simp
    moreover from fails [OF this, of "Suc (k_tickFailures k)"]
    have "I (k\<lparr>k_world := w, k_sweepCursor := cursor, k_tickFailures := Suc (k_tickFailures k)\<rparr>)" by simp
    ultimately show ?thesis using Inl by (simp add: c Let_def log)
  next
    case (Inr page)
    have "I (k\<lparr>k_world := w, k_sweepCursor := n\<rparr>)" for n
      using sweep [OF world [OF Suc.prems, of w], of n] by simp
    then show ?thesis using Inr Suc.IH by (simp add: c Let_def)
  qed
qed simp

lemma scan_frame [simp]:
  "k_inflight (snd (scan_pages left port opts limit skip pages cursor sc k)) = k_inflight k"
  "k_pending (snd (scan_pages left port opts limit skip pages cursor sc k)) = k_pending k"
  "k_backoff (snd (scan_pages left port opts limit skip pages cursor sc k)) = k_backoff k"
proof -
  let ?k = "snd (scan_pages left port opts limit skip pages cursor sc k)"
  show "k_inflight ?k = k_inflight k"
    by (rule scan_induct [where I = "\<lambda>k'. k_inflight k' = k_inflight k"]) simp_all
  show "k_pending ?k = k_pending k"
    by (rule scan_induct [where I = "\<lambda>k'. k_pending k' = k_pending k"]) simp_all
  show "k_backoff ?k = k_backoff k"
    by (rule scan_induct [where I = "\<lambda>k'. k_backoff k' = k_backoff k"]) simp_all
qed

lemma executed_ok_any: "executed_ok (\<lambda>_ _. False) e \<Longrightarrow> executed_ok P e"
  by (cases e) simp_all

lemma scan_log_honest [simp]:
  "log_honest P k \<Longrightarrow> log_honest P (snd (scan_pages left port opts limit skip pages cursor sc k))"
  by (rule scan_induct) (auto intro: executed_ok_any)

section \<open>What the keeper logs as executed\<close>

text \<open>
  The contract of the chain, as far as the log rests on it: \<open>is_exec i h\<close> says that \<open>h\<close> is the
  hash of a transaction that executes the schedule \<open>i\<close>.
\<close>

locale executing_port =
  fixes port :: "('w, 'i) keeper_port" and is_exec :: "'i \<Rightarrow> string \<Rightarrow> bool"
  assumes execute_success: "kp_execute port i dry w = Some (Inr (Success h l), w') \<Longrightarrow> is_exec i h"
    and execute_pending: "kp_execute port i dry w = Some (Inr (Pending h e), w') \<Longrightarrow> is_exec i h"
    and check_hash: "kp_checkPending port h e w = (Inr r, w') \<Longrightarrow> tx_result r \<and> result_hash r = Some h"
begin

text \<open>Every pending execution is an execution, and the log is honest.\<close>

definition honest :: "('w, 'i) keeper \<Rightarrow> bool" where
  "honest k \<longleftrightarrow> log_honest is_exec k
     \<and> (\<forall>(i, p) \<in> set (k_pending k). pt_purpose p = Execute_Tx \<longrightarrow> is_exec i (pt_hash p))"

lemma honest_frame [simp]:
  "honest (k\<lparr>k_world := w\<rparr>) \<longleftrightarrow> honest k" "honest (k\<lparr>k_tickFailures := n\<rparr>) \<longleftrightarrow> honest k"
  "honest (pruneBackoff d t k) \<longleftrightarrow> honest k" "honest (snd (k_call f k)) \<longleftrightarrow> honest k"
  "honest (write_log l e k) \<longleftrightarrow> honest k \<and> executed_ok is_exec e"
  by (auto simp: honest_def)

lemma honest_new: "honest (new_keeper w)"
  by (simp add: honest_def log_honest_def new_keeper_def)

lemma honest_handle:
  assumes "honest k"
    and "case r of Success h l \<Rightarrow> is_exec i h | Pending h e \<Rightarrow> is_exec i h | _ \<Rightarrow> True"
  shows "honest (handle port i r k)"
proof (cases r)
  case (Pending h e)
  then show ?thesis using assms
      set_jm_set [of "k_pending k" i "\<lparr>pt_hash = h, pt_expiresAt = e, pt_purpose = Execute_Tx\<rparr>"]
    by (auto simp: honest_def)
next
  case (Restore_Pending h e)
  then show ?thesis using assms
      set_jm_set [of "k_pending k" i "\<lparr>pt_hash = h, pt_expiresAt = e, pt_purpose = Restore_Tx\<rparr>"]
    by (auto simp: honest_def)
qed (use assms in \<open>auto simp: honest_def\<close>)

lemma honest_handleRestore: "honest k \<Longrightarrow> honest (handleRestoreResolution port i r k)"
  by (cases r) (auto simp: honest_def)

lemma honest_resolve_one:
  assumes "honest k" and "pt_purpose p = Execute_Tx \<longrightarrow> is_exec i (pt_hash p)"
  shows "honest (resolve_one port (i, p) k)"
proof -
  let ?c = "k_call (kp_checkPending port (pt_hash p) (pt_expiresAt p)) k"
  let ?k = "(snd ?c)\<lparr>k_pending := jm_delete (k_pending k) i\<rparr>"
  have k: "honest ?k" "honest (snd ?c)"
    using assms(1) set_jm_delete [of "k_pending k" i] by (auto simp: honest_def)
  show ?thesis
  proof (cases "fst ?c")
    case (Inl err)
    then show ?thesis using k by (simp add: resolve_one_unfold Let_def honest_def)
  next
    case (Inr res)
    then have "tx_result res \<and> result_hash res = Some (pt_hash p)"
      using check_hash by (auto simp: k_call_def split: prod.splits)
    then have "pt_purpose p = Execute_Tx \<Longrightarrow> honest (handle port i res ?k)"
      using assms(2) by (intro honest_handle k) (auto split: exec_result.splits)
    then show ?thesis
      using Inr k honest_handleRestore [OF k(1)]
      by (cases "pt_purpose p") (simp_all add: resolve_one_unfold Let_def)
  qed
qed

lemma honest_resolve: "honest k \<Longrightarrow> honest (resolvePending port k)"
proof -
  have "honest (fold (resolve_one port) ps k)"
    if "honest k" "\<forall>(i, p) \<in> set ps. pt_purpose p = Execute_Tx \<longrightarrow> is_exec i (pt_hash p)" for ps k
    using that
  proof (induction ps arbitrary: k)
    case (Cons ip ps)
    then show ?case by (cases ip) (simp add: honest_resolve_one)
  qed simp
  note loop = this
  assume h: "honest k"
  then have "\<forall>(i, p) \<in> set (k_pending k). pt_purpose p = Execute_Tx \<longrightarrow> is_exec i (pt_hash p)"
    unfolding honest_def by (rule conjunct2)
  with h show ?thesis unfolding resolvePending_def by (rule loop)
qed

lemma honest_runOne:
  assumes "honest k" "runOne port dry i k = Some (r, k')"
  shows "honest k'"
proof (cases "List.member (k_inflight k) i \<or> jm_get (k_pending k) i \<noteq> None")
  case True
  then show ?thesis using assms by (simp add: runOne_def)
next
  case False
  then obtain x w where e: "kp_execute port i dry (k_world k) = Some (x, w)"
    using assms(2) by (auto simp: runOne_def Let_def split: option.splits)
  let ?k = "k\<lparr>k_world := w, k_inflight := set_remove i (set_add i (k_inflight k))\<rparr>"
  have "honest ?k" using assms(1) by (simp add: honest_def)
  then have "honest (handle port i (case x of Inl err \<Rightarrow> Rejected (classifyThrown err) None | Inr res \<Rightarrow> res) ?k)"
    by (rule honest_handle)
      (use e execute_success execute_pending in \<open>auto split: sum.splits exec_result.splits\<close>)
  then show ?thesis using False assms(2) e by (auto simp: runOne_def Let_def)
qed

lemma honest_run_candidates:
  "honest k \<Longrightarrow> run_candidates port dry is s k = Some (s', k') \<Longrightarrow> honest k'"
proof (induction "is" arbitrary: s k)
  case (Cons i "is")
  then show ?case
    by (auto split: if_splits option.splits prod.splits dest: honest_runOne)
qed simp

lemma honest_scan: "honest k \<Longrightarrow> honest (snd (scan_pages left port opts limit skip pages cursor sc k))"
  by (simp add: honest_def)

lemma honest_tick:
  assumes "honest k" "tick port opts k = Some (s, k')"
  shows "honest k'"
proof -
  obtain now k1 where c: "k_call (kp_now port) (resolvePending port k) = (now, k1)"
    by (cases "k_call (kp_now port) (resolvePending port k)")
  have "honest (snd (k_call (kp_now port) (resolvePending port k)))"
    using honest_resolve [OF assms(1)] by (simp add: honest_def)
  then have k1: "honest k1" by (simp add: c)
  let ?scan = "scan_pages MAX_PAGES_PER_TICK port opts (page_limit opts now k1) (suppressed now k1) 0
      (k_sweepCursor k1) \<lparr>sc_due = [], sc_candidates = []\<rparr> k1"
  obtain x k2 where sc: "?scan = (x, k2)" by (cases ?scan)
  have k2: "honest k2" using honest_scan [OF k1] sc by (metis snd_conv)
  show ?thesis
  proof (cases x)
    case (Inl e)
    then show ?thesis using assms(2) k2 by (simp add: tick_def c sc Let_def)
  next
    case (Inr a)
    then show ?thesis using assms(2) k2
      by (cases a)
        (auto simp: tick_def c sc Let_def dest: honest_run_candidates [rotated])
  qed
qed

lemma honest_run:
  assumes "run n port opts k = Some k'" "honest k"
  shows "honest k'"
proof -
  have "run_rounds n port opts k = Some k' \<Longrightarrow> honest k \<Longrightarrow> honest k'" for k k'
    by (induction n arbitrary: k) (auto split: if_splits option.splits dest: honest_tick)
  note rounds = this
  let ?k = "write_log Info (Log_Keeper_Started (ko_pollSeconds opts) (ko_dryRun opts)) k"
  obtain k1 where k1: "run_rounds n port opts ?k = Some k1" using assms(1) by (auto simp: run_def)
  have "honest ?k" using assms(2) by simp
  from rounds [OF k1 this] show ?thesis using assms(1) k1 by (auto simp: run_def split: if_splits)
qed

end

section \<open>The keeper on the Soroban chain\<close>

text \<open>\<open>SorobanChain\<close> as a port; \<open>cast\<close> reads a decoded schedule record.\<close>

definition soroban_port ::
    "('a, 't, 'p, 's) sdk \<Rightarrow> ('w, 'a, 't, 'p, 's) rpc \<Rightarrow> chain_options \<Rightarrow> (xval \<Rightarrow> keeper_schedule)
       \<Rightarrow> (int \<Rightarrow> 'w \<Rightarrow> 'w) \<Rightarrow> ('w \<Rightarrow> bool) \<Rightarrow> ('w, js_number) keeper_port" where
  "soroban_port sdk rpc copts cast sleep aborted =
     \<lparr>kp_listDue = (\<lambda>cursor limit w. the (listDue sdk rpc cursor limit w)),
      kp_getSchedule = (\<lambda>i w. case the (getSchedule sdk rpc i w) of
          (Inl e, w') \<Rightarrow> (Inl e, w') | (Inr v, w') \<Rightarrow> (Inr (map_option cast v), w')),
      kp_execute = execute sdk rpc copts,
      kp_checkPending = (\<lambda>h e w. the (checkPending rpc h e w)),
      kp_now = rpc_now rpc, kp_sleep = sleep, kp_aborted = aborted\<rparr>"

interpretation soroban: executing_port "soroban_port sdk rpc copts cast sleep aborted" "execute_tx_hash sdk"
  for sdk :: "('a, 't, 'p, 's) sdk" and rpc :: "('w, 'a, 't, 'p, 's) rpc" and copts cast sleep aborted
proof
  fix i dry h l e w and w' :: 'w
  show "kp_execute (soroban_port sdk rpc copts cast sleep aborted) i dry w = Some (Inr (Success h l), w')
      \<Longrightarrow> execute_tx_hash sdk i h"
    by (simp add: soroban_port_def execute_hash)
  show "kp_execute (soroban_port sdk rpc copts cast sleep aborted) i dry w = Some (Inr (Pending h e), w')
      \<Longrightarrow> execute_tx_hash sdk i h"
    by (simp add: soroban_port_def execute_hash)
next
  fix h e w r and w' :: 'w
  obtain x where "checkPending rpc h e w = Some x" using checkPending_returns [of rpc h e w] by blast
  then show "kp_checkPending (soroban_port sdk rpc copts cast sleep aborted) h e w = (Inr r, w')
      \<Longrightarrow> tx_result r \<and> result_hash r = Some h"
    using checkPending_result [of rpc h e w r w'] by (simp add: soroban_port_def)
qed

text \<open>C19: What the keeper logs as executed was executed.  However many rounds a fresh keeper
  runs on the Soroban chain, and whatever the node answers, every log line that says a
  schedule was executed names a transaction that calls \<open>execute_schedule\<close> on that schedule:
  never the restore of its archived entries, whose outcome the keeper tracks in the same
  table, and never another schedule's transaction.\<close>

theorem executed_log_is_honest:
  assumes "run n (soroban_port sdk rpc copts cast sleep aborted) opts (new_keeper w) = Some k"
    and "(lvl, Log_Executed i h ledger after) \<in> set (k_log k)"
  shows "execute_tx_hash sdk i h"
  using soroban.honest_run [OF assms(1) soroban.honest_new] assms(2)
  by (force simp: soroban.honest_def log_honest_def)

section \<open>Rounds always end\<close>

lemma runOne_returns:
  assumes "\<And>i d. returns (kp_execute port i d)"
  shows "\<exists>r k'. runOne port dry i k = Some (r, k')"
proof -
  obtain r w where "kp_execute port i dry (k_world k) = Some (r, w)"
    using returnsD [OF assms] by fastforce
  then show ?thesis by (auto simp: runOne_def Let_def)
qed

lemma run_candidates_returns:
  assumes "\<And>i d. returns (kp_execute port i d)"
  shows "\<exists>r. run_candidates port dry is s k = Some r"
proof (induction "is" arbitrary: s k)
  case (Cons i "is")
  obtain r k' where "runOne port dry i k = Some (r, k')" using runOne_returns [OF assms] by blast
  then show ?case using Cons by simp
qed simp

lemma tick_returns:
  assumes "\<And>i d. returns (kp_execute port i d)"
  shows "\<exists>s k'. tick port opts k = Some (s, k')"
  using run_candidates_returns [of port, OF assms]
  by (simp add: tick_def Let_def split: prod.splits sum.splits)

lemma run_returns:
  assumes "\<And>i d. returns (kp_execute port i d)"
  shows "\<exists>k'. run n port opts k = Some k'"
proof -
  have "\<exists>k'. run_rounds n port opts k = Some k'" for k
  proof (induction n arbitrary: k)
    case (Suc n)
    obtain s k' where "tick port opts k = Some (s, k')" using tick_returns [of port, OF assms] by blast
    then show ?case using Suc by simp
  qed simp
  then show ?thesis by (simp add: run_def)
qed

text \<open>C34: The keeper never hangs.  When the clock advances and the poll interval is positive,
  any number of rounds of the keeper on the Soroban chain ends, whatever the node answers and
  whatever state the keeper is in.\<close>

theorem keeper_rounds_end:
  assumes "clock_advances clk rpc" and "0 < co_pollIntervalMs copts"
  shows "\<exists>k'. run n (soroban_port sdk rpc copts cast sleep aborted) opts k = Some k'"
  by (rule run_returns) (use execute_returns [OF assms] in \<open>simp add: soroban_port_def\<close>)

section \<open>What a scan selects\<close>

text \<open>A scan's lists are free of repetitions, the candidates are due, few and not suppressed.\<close>

definition scan_ok :: "nat \<Rightarrow> ('i \<Rightarrow> bool) \<Rightarrow> 'i scan \<Rightarrow> bool" where
  "scan_ok m skip sc \<longleftrightarrow> distinct (sc_due sc) \<and> distinct (sc_candidates sc)
     \<and> set (sc_candidates sc) \<subseteq> set (sc_due sc) \<and> length (sc_candidates sc) \<le> m
     \<and> (\<forall>i \<in> set (sc_candidates sc). \<not> skip i)"

lemma scan_ok_add: "scan_ok m skip sc \<Longrightarrow> scan_ok m skip (add_id m skip i sc)"
  by (auto simp: scan_ok_def add_id_def)

lemma scan_ok_fold: "scan_ok m skip sc \<Longrightarrow> scan_ok m skip (fold (add_id m skip) is sc)"
  by (induction "is" arbitrary: sc) (simp_all add: scan_ok_add)

lemma scan_ok_pages:
  "scan_ok (ko_maxPerTick opts) skip sc \<Longrightarrow>
   scan_pages left port opts limit skip pages cursor sc k = (Inr (sc', n), k') \<Longrightarrow>
   scan_ok (ko_maxPerTick opts) skip sc'"
proof (induction left arbitrary: pages cursor sc k)
  case (Suc left)
  obtain r k1 where c: "k_call (kp_listDue port cursor (int limit)) k = (r, k1)"
    by (cases "k_call (kp_listDue port cursor (int limit)) k")
  show ?case
  proof (cases r)
    case (Inl err)
    then show ?thesis using Suc.prems by (simp add: c Let_def split: if_splits)
  next
    case (Inr page)
    then show ?thesis using Suc.prems Suc.IH [OF scan_ok_fold]
      by (simp add: c Let_def scan_ok_fold split: if_splits)
        (use scan_ok_fold in blast)+
  qed
qed simp

section \<open>What a tick executes\<close>

text \<open>The chain with a trace of the ids handed to \<open>execute\<close>.\<close>

definition execute_traced :: "('w, 'i) keeper_port \<Rightarrow> ('w \<times> 'i list, 'i) keeper_port" where
  "execute_traced port =
     \<lparr>kp_listDue = (\<lambda>c l. untraced (kp_listDue port c l)),
      kp_getSchedule = (\<lambda>i. untraced (kp_getSchedule port i)),
      kp_execute = (\<lambda>i d (w, ts). map_option (\<lambda>(r, w'). (r, (w', ts @ [i]))) (kp_execute port i d w)),
      kp_checkPending = (\<lambda>h e. untraced (kp_checkPending port h e)),
      kp_now = untraced (kp_now port),
      kp_sleep = (\<lambda>ms (w, ts). (kp_sleep port ms w, ts)),
      kp_aborted = (\<lambda>(w, ts). kp_aborted port w)\<rparr>"

definition trace_of :: "('w \<times> 'i list, 'i) keeper \<Rightarrow> 'i list" where
  "trace_of k = snd (k_world k)"

lemma trace_call [simp]: "trace_of (snd (k_call (untraced f) k)) = trace_of k"
  by (auto simp: trace_of_def k_call_def untraced_def split: prod.splits)

lemma trace_callD: "k_call (untraced f) k = (r, k') \<Longrightarrow> trace_of k' = trace_of k"
  by (metis trace_call snd_conv)

lemma trace_frame [simp]:
  "trace_of (write_log l e k) = trace_of k" "trace_of (pruneBackoff d n k) = trace_of k"
  "trace_of (k\<lparr>k_pending := p\<rparr>) = trace_of k" "trace_of (k\<lparr>k_backoff := b\<rparr>) = trace_of k"
  "trace_of (k\<lparr>k_inflight := f\<rparr>) = trace_of k" "trace_of (k\<lparr>k_sweepCursor := c\<rparr>) = trace_of k"
  "trace_of (k\<lparr>k_tickFailures := t\<rparr>) = trace_of k"
  by (simp_all add: trace_of_def)

lemma traced_calls [simp]:
  "kp_now (execute_traced port) = untraced (kp_now port)"
  "kp_listDue (execute_traced port) c l = untraced (kp_listDue port c l)"
  "kp_getSchedule (execute_traced port) i = untraced (kp_getSchedule port i)"
  "kp_checkPending (execute_traced port) h e = untraced (kp_checkPending port h e)"
  by (simp_all add: execute_traced_def)

lemma trace_steps [simp]:
  "trace_of (snd (describe (execute_traced port) i k)) = trace_of k"
  "trace_of (registerFailure (execute_traced port) i e k) = trace_of k"
  "trace_of (snd (retryIn (execute_traced port) i k)) = trace_of k"
  by (auto simp: describe_def registerFailure_def retryIn_def Let_def dest: trace_callD
      split: prod.splits sum.splits)

lemma trace_handle [simp]:
  "trace_of (handle (execute_traced port) i r k) = trace_of k"
  "trace_of (handleRestoreResolution (execute_traced port) i r k) = trace_of k"
  by (cases r; simp)+

lemma trace_resolve [simp]: "trace_of (resolvePending (execute_traced port) k) = trace_of k"
proof -
  have "trace_of (resolve_one (execute_traced port) ip k) = trace_of k" for ip k
    by (cases ip) (simp add: resolve_one_unfold Let_def split: sum.splits)
  then have "trace_of (fold (resolve_one (execute_traced port)) ps k) = trace_of k" for ps
    by (induction ps arbitrary: k) simp_all
  then show ?thesis by (simp add: resolvePending_def)
qed

lemma trace_scan [simp]:
  "trace_of (snd (scan_pages left (execute_traced port) opts limit skip pages cursor sc k)) = trace_of k"
proof (induction left arbitrary: pages cursor sc k)
  case (Suc left)
  obtain r k1 where c: "k_call (untraced (kp_listDue port cursor (int limit))) k = (r, k1)"
    by (cases "k_call (untraced (kp_listDue port cursor (int limit))) k")
  have "trace_of k1 = trace_of k" using trace_call [of "kp_listDue port cursor (int limit)" k] c by simp
  then show ?case using Suc by (cases r) (simp_all add: c Let_def)
qed simp

lemma runOne_traced:
  assumes "runOne (execute_traced port) dry i k = Some (r, k')"
    and "i \<notin> set (k_inflight k)" "jm_get (k_pending k) i = None"
  shows "trace_of k' = trace_of k @ [i]"
    and "j \<noteq> i \<Longrightarrow> j \<in> set (k_inflight k') \<longleftrightarrow> j \<in> set (k_inflight k)"
    and "j \<noteq> i \<Longrightarrow> jm_get (k_pending k') j = jm_get (k_pending k) j"
proof -
  let ?k = "\<lambda>w. k\<lparr>k_world := w, k_inflight := set_remove i (set_add i (k_inflight k))\<rparr>"
  obtain x w where e: "kp_execute (execute_traced port) i dry (k_world k) = Some (x, w)"
    and k': "k' = handle (execute_traced port) i r (?k w)"
    using assms by (auto simp: runOne_def Let_def split: option.splits)
  have "snd w = snd (k_world k) @ [i]"
    using e by (auto simp: execute_traced_def split: prod.splits)
  then show "trace_of k' = trace_of k @ [i]" by (simp add: k') (simp add: trace_of_def)
  assume j: "j \<noteq> i"
  show "j \<in> set (k_inflight k') \<longleftrightarrow> j \<in> set (k_inflight k)"
    using j by (auto simp: k' set_remove_def set_add_def)
  show "jm_get (k_pending k') j = jm_get (k_pending k) j"
    using j by (cases r) (simp_all add: k')
qed

lemma count_result_frame [simp]:
  "ts_attempted (count_result r s) = ts_attempted s" "ts_ok (count_result r s) = ts_ok s"
  "ts_executed (count_result r s) + ts_failed (count_result r s) \<le> ts_executed s + ts_failed s + 1"
  by (cases r; simp add: count_result_def)+

lemma run_candidates_traced:
  assumes "run_candidates (execute_traced port) dry is s k = Some (s', k')"
    and "distinct is" "\<forall>i \<in> set is. i \<notin> set (k_inflight k) \<and> jm_get (k_pending k) i = None"
  shows "\<exists>n \<le> length is. trace_of k' = trace_of k @ take n is \<and> ts_attempted s' = ts_attempted s + n
     \<and> ts_executed s' + ts_failed s' \<le> ts_executed s + ts_failed s + n"
  using assms
proof (induction "is" arbitrary: s k)
  case (Cons i "is")
  show ?case
  proof (cases "kp_aborted (execute_traced port) (k_world k)")
    case True
    then show ?thesis using Cons.prems by (intro exI [of _ 0]) simp
  next
    case False
    let ?s = "\<lambda>r. count_result r (s\<lparr>ts_attempted := ts_attempted s + 1\<rparr>)"
    obtain r k1 where one: "runOne (execute_traced port) dry i k = Some (r, k1)"
      and rest: "run_candidates (execute_traced port) dry is (?s r) k1 = Some (s', k')"
      using Cons.prems(1) False by (auto split: option.splits)
    have i: "i \<notin> set (k_inflight k)" "jm_get (k_pending k) i = None" using Cons.prems(3) by simp_all
    have "\<forall>j \<in> set is. j \<notin> set (k_inflight k1) \<and> jm_get (k_pending k1) j = None"
    proof
      fix j assume j: "j \<in> set is"
      then have "j \<noteq> i" using Cons.prems(2) by auto
      then show "j \<notin> set (k_inflight k1) \<and> jm_get (k_pending k1) j = None"
        using runOne_traced(2,3) [OF one i] Cons.prems(3) j by simp
    qed
    from Cons.IH [OF rest _ this] Cons.prems(2)
    obtain n where n: "n \<le> length is" "trace_of k' = trace_of k1 @ take n is"
        "ts_attempted s' = ts_attempted (?s r) + n"
        "ts_executed s' + ts_failed s' \<le> ts_executed (?s r) + ts_failed (?s r) + n" by auto
    moreover have "ts_executed (?s r) + ts_failed (?s r) \<le> ts_executed s + ts_failed s + 1"
      using count_result_frame(3) [of r "s\<lparr>ts_attempted := ts_attempted s + 1\<rparr>"] by simp
    ultimately show ?thesis using runOne_traced(1) [OF one i] by (intro exI [of _ "Suc n"]) simp
  qed
qed simp

lemma tick_split:
  assumes "tick port opts k = Some (s, k')"
  obtains (fails) now k1 e where "k_call (kp_now port) (resolvePending port k) = (now, k1)"
      "fst (scan_pages MAX_PAGES_PER_TICK port opts (page_limit opts now k1) (suppressed now k1) 0
         (k_sweepCursor k1) \<lparr>sc_due = [], sc_candidates = []\<rparr> k1) = Inl e"
      "k' = snd (scan_pages MAX_PAGES_PER_TICK port opts (page_limit opts now k1) (suppressed now k1) 0
         (k_sweepCursor k1) \<lparr>sc_due = [], sc_candidates = []\<rparr> k1)"
      "s = empty_summary False 0 (Some e)"
  | (scanned) now k1 sc pages k2 where "k_call (kp_now port) (resolvePending port k) = (now, k1)"
      "scan_pages MAX_PAGES_PER_TICK port opts (page_limit opts now k1) (suppressed now k1) 0
         (k_sweepCursor k1) \<lparr>sc_due = [], sc_candidates = []\<rparr> k1 = (Inr (sc, pages), k2)"
      "run_candidates port (ko_dryRun opts) (sc_candidates sc) (empty_summary True (length (sc_due sc)) None)
         (write_log Debug (Log_Tick (sc_due sc) (sc_candidates sc) (int (page_limit opts now k1)) pages
            (k_sweepCursor k1) (k_sweepCursor k2))
           (pruneBackoff (sc_due sc) now (k2\<lparr>k_tickFailures := 0\<rparr>))) = Some (s, k')"
proof -
  obtain now k1 where c: "k_call (kp_now port) (resolvePending port k) = (now, k1)"
    by (cases "k_call (kp_now port) (resolvePending port k)")
  let ?scan = "scan_pages MAX_PAGES_PER_TICK port opts (page_limit opts now k1) (suppressed now k1) 0
      (k_sweepCursor k1) \<lparr>sc_due = [], sc_candidates = []\<rparr> k1"
  obtain x k2 where sc: "?scan = (x, k2)" by (cases ?scan)
  show ?thesis
  proof (cases x)
    case (Inl e)
    show ?thesis
    proof (rule fails [OF c])
      show "fst ?scan = Inl e" by (simp add: sc Inl)
      show "k' = snd ?scan" "s = empty_summary False 0 (Some e)"
        using assms by (simp_all add: tick_def c sc Inl Let_def)
    qed
  next
    case (Inr a)
    obtain d pages where a: "a = (d, pages)" by (cases a)
    show ?thesis
    proof (rule scanned [OF c])
      show "?scan = (Inr (d, pages), k2)" by (simp only: sc Inr a)
      show "run_candidates port (ko_dryRun opts) (sc_candidates d) (empty_summary True (length (sc_due d)) None)
         (write_log Debug (Log_Tick (sc_due d) (sc_candidates d) (int (page_limit opts now k1)) pages
            (k_sweepCursor k1) (k_sweepCursor k2))
           (pruneBackoff (sc_due d) now (k2\<lparr>k_tickFailures := 0\<rparr>))) = Some (s, k')"
        using assms by (simp add: tick_def c sc Inr a Let_def)
    qed
  qed
qed

text \<open>C8: One tick never submits a schedule twice, never submits one that is already on its
  way or still backed off, and never submits more than \<open>maxPerTick\<close>.  The ids a tick hands
  to \<open>execute\<close> are distinct, as many as its summary says it attempted, at most
  \<open>maxPerTick\<close>, and none of them was in flight, pending or inside its backoff window when
  the tick looked at the clock; at most that many are counted as executed or failed.\<close>

theorem tick_executes_once:
  assumes "tick (execute_traced port) opts k = Some (s, k')"
    and "k_call (kp_now (execute_traced port)) (resolvePending (execute_traced port) k) = (now, k1)"
  shows "\<exists>new. snd (k_world k') = snd (k_world k) @ new \<and> distinct new
     \<and> length new = ts_attempted s \<and> length new \<le> ko_maxPerTick opts
     \<and> (\<forall>i \<in> set new. \<not> suppressed now k1 i)
     \<and> ts_executed s + ts_failed s \<le> ts_attempted s"
  using assms(1)
proof (cases rule: tick_split)
  case (fails now' k1' e)
  have "trace_of k1 = trace_of k"
    using assms(2) trace_call [of "kp_now port" "resolvePending (execute_traced port) k"] by simp
  then have "trace_of k' = trace_of k" using fails assms(2) by simp
  then show ?thesis using fails by (intro exI [of _ "[]"]) (simp add: trace_of_def empty_summary_def)
next
  case (scanned now' k1' sc pages k2)
  then have e: "now' = now" "k1' = k1" using assms(2) by simp_all
  let ?k = "write_log Debug (Log_Tick (sc_due sc) (sc_candidates sc) (int (page_limit opts now k1)) pages
            (k_sweepCursor k1) (k_sweepCursor k2)) (pruneBackoff (sc_due sc) now (k2\<lparr>k_tickFailures := 0\<rparr>))"
  have ok: "scan_ok (ko_maxPerTick opts) (suppressed now k1) sc"
    by (rule scan_ok_pages [OF _ scanned(2) [unfolded e]]) (simp add: scan_ok_def)
  have k2: "k_inflight k2 = k_inflight k1" "k_pending k2 = k_pending k1" "trace_of k2 = trace_of k1"
    using arg_cong [OF scanned(2) [unfolded e], of snd]
    by (metis scan_frame(1) snd_conv, metis scan_frame(2) snd_conv, metis trace_scan snd_conv)
  have "\<forall>i \<in> set (sc_candidates sc). i \<notin> set (k_inflight ?k) \<and> jm_get (k_pending ?k) i = None"
    using ok by (auto simp: scan_ok_def suppressed_def k2)
  from run_candidates_traced [OF scanned(3) [unfolded e] _ this] ok
  obtain n where n: "n \<le> length (sc_candidates sc)" "trace_of k' = trace_of ?k @ take n (sc_candidates sc)"
      "ts_attempted s = n" "ts_executed s + ts_failed s \<le> n"
    by (auto simp: scan_ok_def empty_summary_def)
  have "trace_of k1 = trace_of k"
    using assms(2) trace_call [of "kp_now port" "resolvePending (execute_traced port) k"] by simp
  then have "trace_of k' = trace_of k @ take n (sc_candidates sc)" using n k2 by simp
  then show ?thesis using n ok
    by (intro exI [of _ "take n (sc_candidates sc)"])
      (auto simp: trace_of_def scan_ok_def dest: in_set_takeD)
qed

section \<open>Backing off\<close>

text \<open>How the entry of \<open>i\<close> changes when a failure of a kind is registered at the time \<open>now\<close>.\<close>

definition backed_off :: "error_kind \<Rightarrow> int \<Rightarrow> 'i \<Rightarrow> ('w, 'i) keeper \<Rightarrow> ('w, 'i) keeper \<Rightarrow> bool" where
  "backed_off kind now i k k' \<longleftrightarrow>
     (\<exists>n. n = (case jm_get (k_backoff k) i of
                 Some b \<Rightarrow> if be_kind b = kind then be_failures b else 0 | None \<Rightarrow> 0) + 1
        \<and> jm_get (k_backoff k') i = Some \<lparr>be_failures = n, be_until = now + backoffMs kind n, be_kind = kind\<rparr>
        \<and> until_of k' i = now + backoffMs kind n)
     \<and> (\<forall>j. j \<noteq> i \<longrightarrow> jm_get (k_backoff k') j = jm_get (k_backoff k) j)"

lemma registerFailure_backed_off:
  "backed_off (ce_kind err) (fst (kp_now port (k_world k))) i k (registerFailure port i err k)"
  by (simp add: backed_off_def registerFailure_def until_of_def k_call_def Let_def split: prod.splits)

lemma backed_off_frame:
  "k_backoff k1 = k_backoff k2 \<Longrightarrow> backed_off kind now i k k1 \<longleftrightarrow> backed_off kind now i k k2"
  by (simp add: backed_off_def until_of_def)

text \<open>What registering a failure promises: the entry above, a wait between the base and the
  maximum of the kind's policy, and the id suppressed at every earlier time.\<close>

definition waits :: "error_kind \<Rightarrow> int \<Rightarrow> 'i \<Rightarrow> ('w, 'i) keeper \<Rightarrow> ('w, 'i) keeper \<Rightarrow> bool" where
  "waits kind now i k k' \<longleftrightarrow> backed_off kind now i k k'
     \<and> now + baseMs (backoff_table kind) \<le> until_of k' i
     \<and> until_of k' i \<le> now + maxMs (backoff_table kind)
     \<and> (\<forall>t. t < until_of k' i \<longrightarrow> suppressed t k' i)"

lemma backed_off_waits: "backed_off kind now i k k' \<Longrightarrow> waits kind now i k k'"
  using backoffMs_ge [of kind] backoffMs_le [of kind]
  by (auto simp: waits_def backed_off_def suppressed_def)

lemma registered_waits:
  assumes "k_backoff k' = k_backoff (registerFailure port i err k)"
  shows "waits (ce_kind err) (fst (kp_now port (k_world k))) i k k'"
  by (rule backed_off_waits, subst backed_off_frame [OF assms]) (rule registerFailure_backed_off)

text \<open>Every refusal makes the keeper wait, each time longer and never too long.  When an
  attempt or a restore fails or is rejected, the id is suppressed for at least the base and
  at most the maximum of the backoff of that kind of error, counted from the clock reading at
  the failure; a further failure of the same kind counts up, one of another kind starts over,
  no other id is touched, and a success forgets the entry.\<close>

theorem refusals_back_off:
  "waits (ce_kind err) (fst (kp_now port (k_world k))) i k (handle port i (Failed h err) k)
   \<and> waits (ce_kind err) (fst (kp_now port (k_world k))) i k (handle port i (Rejected err h') k)
   \<and> waits (ce_kind err) (fst (kp_now port (k_world k))) i k (handleRestoreResolution port i (Failed h err) k)
   \<and> waits (ce_kind err) (fst (kp_now port (k_world k))) i k (handleRestoreResolution port i (Rejected err h') k)
   \<and> jm_get (k_backoff (handle port i (Success h l) k)) i = None"
  by (intro conjI registered_waits) simp_all

text \<open>Pruning the table never makes an id eligible.\<close>

lemma prune_invisible:
  assumes "jm_wf (k_backoff k)" "0 \<le> now"
  shows "suppressed now (pruneBackoff d now k) i \<longleftrightarrow> suppressed now k i"
  using assms
  by (auto simp: suppressed_def until_of_def pruneBackoff_def jm_get_filter split: option.splits)

section \<open>The sweep over the id space\<close>

text \<open>A chain whose pages are those of the contract, with \<open>n\<close> the end of the id space.\<close>

definition pages_of_contract :: "nat \<Rightarrow> (nat \<Rightarrow> bool) \<Rightarrow> ('w, nat) keeper_port \<Rightarrow> bool" where
  "pages_of_contract n due port \<longleftrightarrow>
     (\<forall>c l w. fst (kp_listDue port (int c) (int l) w) =
        Inr \<lparr>dp_ids = fst (list_due n due c l),
             dp_nextCursor = (if snd (list_due n due c l) = 0 then None
                              else Some (int (snd (list_due n due c l))))\<rparr>)"

text \<open>The ids a scan from \<open>c\<close> to the next cursor \<open>c'\<close> (0 at the end of the space) covers.\<close>

definition window :: "nat \<Rightarrow> nat \<Rightarrow> nat \<Rightarrow> nat list" where
  "window n c c' = [max 1 c..<(if c' = 0 then n else c')]"

lemma fold_add_due:
  "distinct is \<Longrightarrow> set is \<inter> set (sc_due sc) = {} \<Longrightarrow>
   sc_due (fold (add_id m skip) is sc) = sc_due sc @ is"
proof (induction "is" arbitrary: sc)
  case (Cons i "is")
  then have "sc_due (add_id m skip i sc) = sc_due sc @ [i]" by (auto simp: add_id_def)
  then show ?case using Cons by auto
qed simp

lemma list_due_window:
  assumes "0 < l"
  obtains (last) "list_due n due c l = (filter due (window n c 0), 0)"
  | (more) c' where "list_due n due c l = (filter due (window n c c'), c')" "max 1 c < c'" "c' < n"
proof (cases "max 1 c \<ge> n")
  case True
  then show ?thesis by (intro last) (auto simp: list_due_def window_def max_def split: if_splits)
next
  case False
  define e where "e = min (max 1 c + min l 100) n"
  have start: "(if c < 1 then 1 else c) = max 1 c" by auto
  have win: "(if 100 < l then 100 else l) = min l 100" by auto
  have ld: "list_due n due c l = (filter due [max 1 c..<e], if e \<ge> n then 0 else e)"
    using False assms unfolding list_due_def MAX_DUE_SCAN_def Let_def start win e_def [symmetric]
    by (simp add: min_def)
  show ?thesis
  proof (cases "e \<ge> n")
    case True
    then have "e = n" by (simp add: e_def)
    then show ?thesis using ld by (intro last) (simp add: window_def)
  next
    case e: False
    have "max 1 c < e" using False assms by (simp add: e_def not_le)
    then show ?thesis using ld e by (intro more [of e]) (simp_all add: window_def)
  qed
qed

lemma window_extend:
  assumes "max 1 c < c'" "c' < n" "c'' = 0 \<or> c' \<le> c''"
  shows "window n c c'' = window n c c' @ window n c' c''"
proof -
  let ?e = "if c'' = 0 then n else c''"
  have "c' \<le> ?e" using assms by auto
  then have "[max 1 c..<?e] = [max 1 c..<c'] @ [c'..<?e]"
    using assms(1) upt_add_eq_append [of "max 1 c" c' "?e - c'"] by simp
  then show ?thesis using assms(1) by (simp add: window_def max_def)
qed

lemma scan_window:
  assumes "pages_of_contract n due port" "0 < limit"
    and "k_sweepCursor k = int c" "left = 0 \<longrightarrow> 0 < c" "\<forall>i \<in> set (sc_due sc). i < max 1 c"
  shows "\<exists>c' sc' m. k_sweepCursor (snd (scan_pages left port opts limit skip pages (int c) sc k)) = int c'
     \<and> fst (scan_pages left port opts limit skip pages (int c) sc k) = Inr (sc', m)
     \<and> (c' = 0 \<or> c \<le> c' \<and> (0 < left \<longrightarrow> c < c'))
     \<and> sc_due sc' = sc_due sc @ filter due (window n c c')"
  using assms(3-5)
proof (induction left arbitrary: pages c sc k)
  case 0
  then show ?case by (intro exI [of _ c] exI [of _ sc] exI [of _ pages]) (simp add: window_def)
next
  case (Suc left)
  obtain r w where l: "kp_listDue port (int c) (int limit) (k_world k) = (r, w)"
    by (cases "kp_listDue port (int c) (int limit) (k_world k)")
  let ?p = "list_due n due c limit"
  have r: "r = Inr \<lparr>dp_ids = fst ?p, dp_nextCursor = (if snd ?p = 0 then None else Some (int (snd ?p)))\<rparr>"
    using assms(1) l by (metis fst_conv pages_of_contract_def)
  have c: "k_call (kp_listDue port (int c) (int limit)) k = (r, k\<lparr>k_world := w\<rparr>)"
    by (simp add: k_call_def l)
  let ?sc = "fold (add_id (ko_maxPerTick opts) skip) (fst ?p) sc"
  have due: "sc_due ?sc = sc_due sc @ filter due (window n c c')"
    if "fst ?p = filter due (window n c c')" for c'
    unfolding that
    by (rule fold_add_due) (use Suc.prems(3) in \<open>auto simp: window_def\<close>)
  from assms(2) show ?case
  proof (cases rule: list_due_window [of limit n due c])
    case last
    then show ?thesis using due [of 0]
      by (intro exI [of _ 0]) (simp add: c r Let_def)
  next
    case (more c')
    let ?k = "k\<lparr>k_world := w, k_sweepCursor := int c'\<rparr>"
    show ?thesis
    proof (cases "ko_maxPerTick opts \<le> length (sc_candidates ?sc)")
      case True
      then show ?thesis using more due [of c']
        by (intro exI [of _ c']) (simp add: c r Let_def)
    next
      case False
      have scan: "scan_pages (Suc left) port opts limit skip pages (int c) sc k
          = scan_pages left port opts limit skip (pages + 1) (int c') ?sc ?k"
        using False more by (simp add: c r Let_def)
      have "\<forall>i \<in> set (sc_due ?sc). i < max 1 c'"
        using Suc.prems(3) more due [of c'] by (auto simp: window_def)
      from Suc.IH [OF _ _ this, of ?k "pages + 1"] more
      obtain c'' sc' m where IH: "k_sweepCursor (snd (scan_pages left port opts limit skip (pages + 1) (int c') ?sc ?k)) = int c''"
          "fst (scan_pages left port opts limit skip (pages + 1) (int c') ?sc ?k) = Inr (sc', m)"
          "c'' = 0 \<or> c' \<le> c''" "sc_due sc' = sc_due ?sc @ filter due (window n c' c'')"
        by auto
      then have "sc_due sc' = sc_due sc @ filter due (window n c c'')" "c'' = 0 \<or> c < c''"
        using more due [of c'] window_extend [of c c' n c''] by auto
      then show ?thesis
        unfolding scan using IH(1,2) by (intro exI [of _ c''] exI [of _ sc'] exI [of _ m]) auto
    qed
  qed
qed

lemma handle_log: "set (k_log k) \<subseteq> set (k_log (handle port i r k))"
  by (cases r) auto

lemma runOne_frame:
  assumes "runOne port d i k = Some (r, k')"
  shows "k_sweepCursor k' = k_sweepCursor k" "set (k_log k) \<subseteq> set (k_log k')"
proof -
  have "k' = k \<or> (\<exists>w f res. k' = handle port i res (k\<lparr>k_world := w, k_inflight := f\<rparr>))"
    using assms by (auto simp: runOne_def Let_def split: if_splits option.splits)
  then show "k_sweepCursor k' = k_sweepCursor k" "set (k_log k) \<subseteq> set (k_log k')"
    using handle_log [of "k\<lparr>k_world := _, k_inflight := _\<rparr>"] by fastforce+
qed

lemma run_candidates_frame:
  assumes "run_candidates port d is s k = Some (s', k')"
  shows "k_sweepCursor k' = k_sweepCursor k \<and> set (k_log k) \<subseteq> set (k_log k')
     \<and> ts_ok s' = ts_ok s \<and> ts_due s' = ts_due s"
  using assms
proof (induction "is" arbitrary: s k)
  case (Cons i "is")
  have due: "ts_due (count_result r s) = ts_due s" for r s by (cases r) (simp_all add: count_result_def)
  show ?case
  proof (cases "kp_aborted port (k_world k)")
    case True
    then show ?thesis using Cons.prems by simp
  next
    case False
    then obtain r k1 where one: "runOne port d i k = Some (r, k1)"
      and rest: "run_candidates port d is (count_result r (s\<lparr>ts_attempted := ts_attempted s + 1\<rparr>)) k1 = Some (s', k')"
      using Cons.prems by (auto split: option.splits)
    from Cons.IH [OF rest] runOne_frame [OF one] due show ?thesis by auto
  qed
qed simp

text \<open>C28: The sweep skips no schedule.  On a chain whose pages are those of the contract, a
  tick with a positive \<open>maxPerTick\<close> always succeeds; it looks at exactly the ids from the
  cursor where the previous tick stopped up to the cursor it leaves behind, finds every due
  one of them, in order, and the cursor moves forward until it wraps to 0 at the end of the id
  space.\<close>

theorem sweep_covers:
  fixes port :: "('w, nat) keeper_port"
  assumes "pages_of_contract n due port" "0 < ko_maxPerTick opts"
    and "k_sweepCursor k = int c" "tick port opts k = Some (s, k')"
  shows "ts_ok s \<and> (\<exists>c'. k_sweepCursor k' = int c' \<and> (c' = 0 \<or> c < c')
     \<and> ts_due s = length (filter due (window n c c'))
     \<and> (\<exists>cands lim pages. (Debug, Log_Tick (filter due (window n c c')) cands lim pages (int c) (int c'))
          \<in> set (k_log k')))"
proof -
  have limit: "0 < page_limit opts now k1" for now :: int and k1 :: "('w, nat) keeper"
    using assms(2) by (simp add: page_limit_def MAX_LIST_LIMIT_def Let_def)
  show ?thesis
    using assms(4)
proof (cases rule: tick_split)
  case (fails now k1 e)
  have k1: "k_sweepCursor k1 = int c"
    using arg_cong [OF fails(1), of "k_sweepCursor \<circ> snd"] assms(3) by simp
  obtain sc m where "fst (scan_pages MAX_PAGES_PER_TICK port opts (page_limit opts now k1) (suppressed now k1) 0
         (int c) \<lparr>sc_due = [], sc_candidates = []\<rparr> k1) = Inr (sc, m)"
    using scan_window [OF assms(1) limit [of now k1] k1, where left = MAX_PAGES_PER_TICK
        and sc = "\<lparr>sc_due = [], sc_candidates = []\<rparr>" and opts = opts and skip = "suppressed now k1" and pages = 0]
    by (auto simp: MAX_PAGES_PER_TICK_def)
  then show ?thesis using fails(2) k1 by simp
next
  case (scanned now k1 sc pages k2)
  have k1: "k_sweepCursor k1 = int c"
    using arg_cong [OF scanned(1), of "k_sweepCursor \<circ> snd"] assms(3) by simp
  obtain c' sc' m where c': "k_sweepCursor (snd (scan_pages MAX_PAGES_PER_TICK port opts (page_limit opts now k1)
        (suppressed now k1) 0 (int c) \<lparr>sc_due = [], sc_candidates = []\<rparr> k1)) = int c'"
      "fst (scan_pages MAX_PAGES_PER_TICK port opts (page_limit opts now k1)
        (suppressed now k1) 0 (int c) \<lparr>sc_due = [], sc_candidates = []\<rparr> k1) = Inr (sc', m)"
      "c' = 0 \<or> c < c'" "sc_due sc' = filter due (window n c c')"
    using scan_window [OF assms(1) limit [of now k1] k1, where left = MAX_PAGES_PER_TICK
        and sc = "\<lparr>sc_due = [], sc_candidates = []\<rparr>" and opts = opts and skip = "suppressed now k1" and pages = 0]
    by (auto simp: MAX_PAGES_PER_TICK_def)
  then have d: "k_sweepCursor k2 = int c'" "sc_due sc = filter due (window n c c')"
    using scanned(2) k1 by simp_all
  from run_candidates_frame [OF scanned(3)] d c'(3) k1 show ?thesis
    by (intro conjI exI [of _ c'] exI [of _ "sc_candidates sc"] exI [of _ "int (page_limit opts now k1)"]
        exI [of _ pages]) (simp_all add: empty_summary_def)
qed
qed

section \<open>A concrete keeper\<close>

definition keeper_options_example :: keeper_options where
  "keeper_options_example = \<lparr>ko_pollSeconds = 15, ko_maxPerTick = 5, ko_dryRun = False\<rparr>"

definition soroban_example :: "(int, js_number) keeper_port" where
  "soroban_example = soroban_port sdk_example rpc_example options_example
     (\<lambda>_. \<lparr>sch_id = 1, sch_owner = [], sch_to = [], sch_asset = [], sch_amount = 0, sch_next_run_at = 0,
         sch_interval_secs = 0, sch_runs_left = 0, sch_active = True\<rparr>) (\<lambda>ms w. w + ms) (\<lambda>_. False)"

text \<open>A chain with the schedules 1, 2 and 3, all due, that executes whatever it is given.\<close>

definition port_example :: "(int, nat) keeper_port" where
  "port_example =
     \<lparr>kp_listDue = (\<lambda>c l w. (Inr
         \<lparr>dp_ids = fst (list_due 4 (\<lambda>_. True) (nat c) (nat l)),
          dp_nextCursor = (if snd (list_due 4 (\<lambda>_. True) (nat c) (nat l)) = 0 then None
                           else Some (int (snd (list_due 4 (\<lambda>_. True) (nat c) (nat l)))))\<rparr>, w)),
      kp_getSchedule = (\<lambda>_ w. (Inr None, w)),
      kp_execute = (\<lambda>i _. call (\<lambda>w. (Inr (Success ''hash'' 7), w))),
      kp_checkPending = (\<lambda>h e w. (Inr (Pending h e), w)),
      kp_now = (\<lambda>w. (w, w)), kp_sleep = (\<lambda>ms w. w + ms), kp_aborted = (\<lambda>_. False)\<rparr>"

theorem keeper_rounds_end_witness:
  "\<exists>k'. run 7 soroban_example keeper_options_example (new_keeper 0) = Some k'"
  unfolding soroban_example_def
  by (rule keeper_rounds_end [OF clock_example]) (simp add: options_example_def)

theorem tick_executes_once_witness:
  "\<exists>s k'. tick (execute_traced port_example) keeper_options_example (new_keeper (0, [])) = Some (s, k')
     \<and> distinct (snd (k_world k')) \<and> length (snd (k_world k')) = ts_attempted s \<and> ts_attempted s \<le> 5"
proof -
  let ?k = "new_keeper (0, []) :: (int \<times> nat list, nat) keeper"
  have "returns (kp_execute (execute_traced port_example) i d)" for i d
    by (auto simp: returns_def execute_traced_def port_example_def)
  then obtain s k' where t: "tick (execute_traced port_example) keeper_options_example ?k = Some (s, k')"
    using tick_returns [of "execute_traced port_example"] by blast
  obtain now k1 where c: "k_call (kp_now (execute_traced port_example))
      (resolvePending (execute_traced port_example) ?k) = (now, k1)"
    by (cases "k_call (kp_now (execute_traced port_example)) (resolvePending (execute_traced port_example) ?k)")
  from tick_executes_once [OF t c] t show ?thesis
    by (auto simp: new_keeper_def keeper_options_example_def)
qed

theorem sweep_covers_witness:
  "\<exists>s k' c'. tick port_example keeper_options_example (new_keeper 0) = Some (s, k')
     \<and> ts_ok s \<and> k_sweepCursor k' = int c' \<and> ts_due s = length (window 4 0 c')"
proof -
  have p: "pages_of_contract 4 (\<lambda>_. True) port_example"
    by (simp add: pages_of_contract_def port_example_def)
  have "returns (kp_execute port_example i d)" for i d by (simp add: port_example_def)
  then obtain s k' where t: "tick port_example keeper_options_example (new_keeper 0) = Some (s, k')"
    using tick_returns [of port_example] by blast
  from sweep_covers [OF p _ _ t, of 0] t show ?thesis
    by (auto simp: new_keeper_def keeper_options_example_def)
qed

text \<open>One round of the concrete keeper, evaluated.\<close>

lemma MAX_PAGES_Suc: "MAX_PAGES_PER_TICK = Suc 9"
  by (simp add: MAX_PAGES_PER_TICK_def)

lemmas scan_first = scan_pages.simps(2) [of 9, folded MAX_PAGES_Suc]

lemmas read_eval = listDue_def readCall_def decode_page_def lift_sum_def xnumber_def getSchedule_def
  eff_bind_def

lemma list_due_example: "listDue sdk_example rpc_example c l w =
    Some (Inr \<lparr>dp_ids = [jint 1], dp_nextCursor = None\<rparr>, w)"
  by (simp add: read_eval chain_example_defs)

lemma get_schedule_example: "getSchedule sdk_example rpc_example i w = Some (Inr None, w)"
  by (simp add: read_eval chain_example_defs)

lemma execute_example: "execute sdk_example rpc_example options_example i False 5000
    = Some (Inr (Success ''execute!'' 7), 5000)"
  by (simp add: execute_eval chain_example_defs)

lemma now_example: "rpc_now rpc_example w = (w, w)"
  by (simp add: rpc_example_def)

lemma round_example:
  "\<exists>k. run 1 soroban_example keeper_options_example (new_keeper 5000) = Some k
     \<and> (Info, Log_Executed (jint 1) ''execute!'' 7 None) \<in> set (k_log k)"
  by (simp add: run_def tick_def soroban_example_def soroban_port_def new_keeper_def
      resolvePending_def k_call_def now_example scan_first MAX_LIST_LIMIT_def list_due_example get_schedule_example
      execute_example page_limit_def activeBackoffIds_def jm_keys_def add_id_def suppressed_def
      until_of_def pruneBackoff_def runOne_def set_add_def set_remove_def describe_def postRunState_def
      keeper_options_example_def write_log_def jm_delete_def empty_summary_def count_result_def Let_def)

theorem executed_log_is_honest_witness:
  "execute_tx_hash sdk_example (jint 1) ''execute!''
   \<and> \<not> execute_tx_hash sdk_example (jint 1) ''restore!''"
proof -
  obtain k where k: "run 1 soroban_example keeper_options_example (new_keeper 5000) = Some k"
      "(Info, Log_Executed (jint 1) ''execute!'' 7 None) \<in> set (k_log k)"
    using round_example by blast
  have "execute_tx_hash sdk_example (jint 1) ''execute!''"
    by (rule executed_log_is_honest [OF k(1) [unfolded soroban_example_def] k(2)])
  then show ?thesis by (simp add: execute_tx_hash_def sdk_example_def)
qed

end
