(* ===== verification/Suggest_Amount.thy ===== *)
theory Suggest_Amount
  imports Scaled_Decimal JS_Number
begin

text \<open>
  \<open>stellar/src/suggest/amount.ts\<close>: the float-free amounts of the suggestions engine, for any
  number of decimals, and their integer roundings.  Every throw is an error value.
\<close>

datatype suggest_error =
  Invalid_Asset_Decimals
| Invalid_Decimal_Amount string
| Too_Many_Places string nat
| Divisor_Not_Positive
| Step_Not_Positive
| Invalid_Display_Multiple
| Negative_Values
| Empty_Input
| Invalid_Time_Zone
| Invalid_Time_Value
| Percentile_Out_Of_Range
| Multiplier_Out_Of_Range

definition ROUNDING_STEP_DISPLAY :: int where "ROUNDING_STEP_DISPLAY = 5"

definition unitScale :: "js_number \<Rightarrow> suggest_error + int" where
  "unitScale decimals =
     (if \<not> is_integer decimals \<or> jless decimals 0 \<or> jgreater decimals 100 then Inl Invalid_Asset_Decimals
      else Inr (10 ^ nat (jfloor decimals)))"

definition formatAmount :: "int \<Rightarrow> js_number \<Rightarrow> suggest_error + string" where
  "formatAmount raw decimals =
     and_then (unitScale decimals) (\<lambda>_.
       let d = nat (jfloor decimals);
           negative = raw < 0;
           a = (if negative then - raw else raw);
           digits = dec_digits (nat a);
           (integerPart, fractionPart) =
             (if d = 0 then (digits, [])
              else if length digits \<le> d then (''0'', pad_start d CHR ''0'' digits)
              else (take (length digits - d) digits, drop (length digits - d) digits));
           fractionPart = strip_zeros fractionPart;
           body = (if length fractionPart > 0 then integerPart @ ''.'' @ fractionPart else integerPart)
       in Inr (if negative then CHR ''-'' # body else body))"

text \<open>The groups of \<open>^(-?)(\d+)(?:\.(\d+))?$\<close>.\<close>

fun sign_of :: "string \<Rightarrow> bool \<times> string" where
  "sign_of [] = (False, [])"
| "sign_of (c # cs) = (if c = CHR ''-'' then (True, cs) else (False, c # cs))"

definition unsigned_re :: "string \<Rightarrow> (string \<times> string) option" where
  "unsigned_re r =
     (let w = takeWhile is_digit r
      in if w = [] then None
         else (case dropWhile is_digit r of
                 [] \<Rightarrow> Some (w, [])
               | c # f \<Rightarrow> if c = CHR ''.'' \<and> f \<noteq> [] \<and> list_all is_digit f then Some (w, f) else None))"

definition decimal_re :: "string \<Rightarrow> (bool \<times> string \<times> string) option" where
  "decimal_re s = map_option (Pair (fst (sign_of s))) (unsigned_re (snd (sign_of s)))"

definition parseAmount :: "string \<Rightarrow> js_number \<Rightarrow> suggest_error + int" where
  "parseAmount display decimals =
     and_then (unitScale decimals) (\<lambda>_.
       case decimal_re (js_trim display) of
         None \<Rightarrow> Inl (Invalid_Decimal_Amount display)
       | Some (neg, integerPart, fractionPart) \<Rightarrow>
           let d = nat (jfloor decimals) in
           if length fractionPart > d then Inl (Too_Many_Places display d)
           else
             let padded = pad_end d CHR ''0'' fractionPart
             in Inr ((if neg then -1 else 1) * int (nat_of_dec (integerPart @ padded))))"

definition ceilDiv :: "int \<Rightarrow> int \<Rightarrow> suggest_error + int" where
  "ceilDiv a b =
     (if b \<le> 0 then Inl Divisor_Not_Positive
      else if a \<le> 0 then Inr 0
      else Inr ((a + b - 1) div b))"

definition roundUpToStep :: "int \<Rightarrow> int \<Rightarrow> suggest_error + int" where
  "roundUpToStep raw step =
     (if step \<le> 0 then Inl Step_Not_Positive
      else if raw \<le> 0 then Inr 0
      else and_then (ceilDiv raw step) (\<lambda>q. Inr (q * step)))"

definition displayStepRaw :: "int \<Rightarrow> js_number \<Rightarrow> suggest_error + int" where
  "displayStepRaw multiple decimals =
     (if multiple \<le> 0 then Inl Invalid_Display_Multiple
      else and_then (unitScale decimals) (\<lambda>u. Inr (multiple * u)))"

definition roundUpToDisplayMultiple :: "int \<Rightarrow> js_number \<Rightarrow> int \<Rightarrow> suggest_error + int" where
  "roundUpToDisplayMultiple raw decimals multiple =
     and_then (displayStepRaw multiple decimals) (\<lambda>step. roundUpToStep raw step)"

definition mulDivCeil :: "int \<Rightarrow> int \<Rightarrow> int \<Rightarrow> suggest_error + int" where
  "mulDivCeil a numerator denominator =
     (if denominator \<le> 0 then Inl Divisor_Not_Positive
      else if numerator < 0 \<or> a < 0 then Inl Negative_Values
      else ceilDiv (a * numerator) denominator)"

section \<open>Decimals\<close>

definition valid_decimals :: "js_number \<Rightarrow> bool" where
  "valid_decimals x \<longleftrightarrow> (\<exists>d. x = jint d \<and> 0 \<le> d \<and> d \<le> 100)"

lemma unitScale_valid: "0 \<le> d \<Longrightarrow> d \<le> 100 \<Longrightarrow> unitScale (jint d) = Inr (10 ^ nat d)"
  by (simp add: unitScale_def)

lemma unitScale_Inr: "unitScale x = Inr u \<longleftrightarrow> valid_decimals x \<and> u = 10 ^ nat (jfloor x)"
  by (auto simp: unitScale_def valid_decimals_def is_integer_cases split: if_splits)

lemma valid_decimals_scale: "valid_decimals x \<Longrightarrow> unitScale x = Inr (10 ^ nat (jfloor x))"
  by (simp add: unitScale_Inr)

section \<open>Printing and parsing\<close>

lemma digits_no_space: "list_all is_digit s \<Longrightarrow> c \<in> set s \<Longrightarrow> \<not> is_space c"
  by (auto simp: list_all_iff is_digit_def is_space_def)

lemma dropWhile_none: "(\<And>c. c \<in> set s \<Longrightarrow> \<not> P c) \<Longrightarrow> dropWhile P s = s"
  by (cases s) auto

lemma trim_no_space: "(\<And>c. c \<in> set s \<Longrightarrow> \<not> is_space c) \<Longrightarrow> js_trim s = s"
  using dropWhile_none [of s is_space] dropWhile_none [of "rev s" is_space]
  by (simp add: js_trim_def)

lemma minus_not_digit [simp]: "\<not> is_digit CHR ''-''"
  by (simp add: is_digit_def char_code_def)

lemma sign_of_digit: "is_digit c \<Longrightarrow> sign_of (c # s) = (False, c # s)"
  by auto

lemma unsigned_whole: "list_all is_digit w \<Longrightarrow> w \<noteq> [] \<Longrightarrow> unsigned_re w = Some (w, [])"
proof -
  assume w: "list_all is_digit w" "w \<noteq> []"
  have t: "takeWhile is_digit w = w" "dropWhile is_digit w = []" using w(1) by (auto simp: list_all_iff)
  show ?thesis unfolding unsigned_re_def Let_def t using w(2) by simp
qed

lemma unsigned_dotted: "list_all is_digit w \<Longrightarrow> w \<noteq> [] \<Longrightarrow> list_all is_digit f \<Longrightarrow> f \<noteq> [] \<Longrightarrow>
     unsigned_re (w @ CHR ''.'' # f) = Some (w, f)"
  by (simp add: unsigned_re_def takeWhile_digits_dot dropWhile_digits_dot)

lemma decimal_re_print:
  assumes "list_all is_digit w" "w \<noteq> []" "list_all is_digit f"
  shows "decimal_re ((if neg then ''-'' else []) @ w @ (if f = [] then [] else CHR ''.'' # f)) = Some (neg, w, f)"
proof -
  let ?r = "w @ (if f = [] then [] else CHR ''.'' # f)"
  obtain c cs where r: "?r = c # cs" and c: "is_digit c" using assms(1,2) by (cases w) auto
  have "unsigned_re ?r = Some (w, f)"
    using unsigned_whole [OF assms(1,2)] unsigned_dotted [OF assms] by simp
  then show ?thesis
    using sign_of_digit [OF c, of cs] r by (cases neg) (simp_all add: decimal_re_def)
qed

text \<open>The two halves \<open>formatAmount\<close> cuts the digits into.\<close>

definition halves :: "nat \<Rightarrow> nat \<Rightarrow> string \<times> string" where
  "halves d n =
     (let digits = dec_digits n in
      if d = 0 then (digits, [])
      else if length digits \<le> d then (''0'', pad_start d CHR ''0'' digits)
      else (take (length digits - d) digits, drop (length digits - d) digits))"

lemma halves_props:
  assumes "halves d n = (w, f)"
  shows "list_all is_digit w \<and> w \<noteq> [] \<and> list_all is_digit f \<and> length f = d \<and> nat_of_dec (w @ f) = n"
proof -
  have d: "list_all is_digit (dec_digits n)" by simp
  consider "d = 0" | "d \<noteq> 0" "length (dec_digits n) \<le> d" | "d \<noteq> 0" "d < length (dec_digits n)"
    by linarith
  then show ?thesis
  proof cases
    case 1
    then show ?thesis using assms by (auto simp: halves_def)
  next
    case 2
    then have "w = ''0''" "f = pad_start d CHR ''0'' (dec_digits n)" using assms by (auto simp: halves_def Let_def)
    then show ?thesis using 2 list_all_pad_start [OF d]
      by (simp add: nat_of_dec_Cons digit_val_def char_code_def)
  next
    case 3
    then have "w = take (length (dec_digits n) - d) (dec_digits n)"
        "f = drop (length (dec_digits n) - d) (dec_digits n)" using assms by (auto simp: halves_def Let_def)
    then show ?thesis using 3 d by (auto simp: list_all_iff dest: in_set_takeD in_set_dropD)
  qed
qed

lemma formatAmount_eq:
  assumes "valid_decimals x" "halves (nat (jfloor x)) (nat \<bar>raw\<bar>) = (w, f)"
  shows "formatAmount raw x = Inr ((if raw < 0 then ''-'' else []) @ w @
     (if strip_zeros f = [] then [] else CHR ''.'' # strip_zeros f))"
proof -
  have "(if raw < 0 then - raw else raw) = \<bar>raw\<bar>" by simp
  then have "formatAmount raw x =
     (case halves (nat (jfloor x)) (nat \<bar>raw\<bar>) of (w, f) \<Rightarrow>
        Inr (if raw < 0 then CHR ''-'' # (if length (strip_zeros f) > 0 then w @ ''.'' @ strip_zeros f else w)
             else (if length (strip_zeros f) > 0 then w @ ''.'' @ strip_zeros f else w)))"
    by (simp only: formatAmount_def valid_decimals_scale [OF assms(1)] and_then_simps halves_def Let_def)
  then show ?thesis by (simp add: assms(2))
qed

lemma parse_format:
  assumes "valid_decimals x"
  shows "\<exists>s. formatAmount raw x = Inr s \<and> parseAmount s x = Inr raw"
proof -
  let ?d = "nat (jfloor x)"
  obtain w f where h: "halves ?d (nat \<bar>raw\<bar>) = (w, f)" by (cases "halves ?d (nat \<bar>raw\<bar>)")
  note p = halves_props [OF h]
  define g where "g = strip_zeros f"
  have g: "list_all is_digit g" "length g \<le> ?d" "pad_end ?d CHR ''0'' g = f"
    using p strip_zeros_digits [of f] length_strip_zeros [of f] pad_end_strip_zeros [of f ?d]
    by (auto simp: g_def)
  define s where "s = (if raw < 0 then ''-'' else []) @ w @ (if g = [] then [] else CHR ''.'' # g)"
  have "\<not> is_space c" if "c \<in> set s" for c
    using that digits_no_space [of w c] digits_no_space [of g c] p g
    by (auto simp: s_def is_space_def char_code_def split: if_splits)
  then have trim: "js_trim s = s" by (rule trim_no_space)
  have re: "decimal_re s = Some (raw < 0, w, g)"
    using p g decimal_re_print [of w g "raw < 0"] by (simp add: s_def)
  have "(if raw < 0 then -1 else 1) * int (nat_of_dec (w @ f)) = raw" using p by simp
  then have "parseAmount s x = Inr raw"
    using g by (simp add: parseAmount_def valid_decimals_scale [OF assms] trim re Let_def)
  moreover have "formatAmount raw x = Inr s"
    using formatAmount_eq [OF assms h] by (simp add: s_def g_def)
  ultimately show ?thesis by blast
qed

text \<open>\<open>codec d\<close>: the printer and the parser for \<open>d\<close> decimals.\<close>

definition print_amount :: "js_number \<Rightarrow> int \<Rightarrow> string" where
  "print_amount x raw = (case formatAmount raw x of Inl _ \<Rightarrow> [] | Inr s \<Rightarrow> s)"

interpretation suggest_codec:
  decimal_codec "print_amount x" "\<lambda>s. result_option (parseAmount s x)" "\<lambda>raw. valid_decimals x"
  for x
proof
  fix raw assume "valid_decimals x"
  from parse_format [OF this, of raw] show "result_option (parseAmount (print_amount x raw) x) = Some raw"
    by (auto simp: print_amount_def)
next
  fix s n assume "result_option (parseAmount s x) = Some n"
  then show "valid_decimals x" by (auto simp: parseAmount_def unitScale_Inr)
qed

lemma format_total: "valid_decimals x \<Longrightarrow> formatAmount raw x = Inr (print_amount x raw)"
  using parse_format [of x raw] by (auto simp: print_amount_def)

text \<open>Printing an amount loses nothing, for every sign and size and every legal number of
  decimals: \<open>parseAmount\<close> reads back exactly the raw amount \<open>formatAmount\<close> printed, so two
  amounts print alike only when they are equal.\<close>

theorem amount_codec:
  assumes "valid_decimals x"
  shows "\<exists>s. formatAmount raw x = Inr s \<and> parseAmount s x = Inr raw
     \<and> (formatAmount raw' x = Inr s \<longrightarrow> raw' = raw)"
proof -
  have "formatAmount raw' x = Inr (print_amount x raw) \<Longrightarrow> raw' = raw"
    using suggest_codec.print_inj [OF assms assms] assms by (simp add: format_total)
  moreover have "parseAmount (print_amount x raw) x = Inr raw"
    using suggest_codec.parse_print [OF assms] by simp
  ultimately show ?thesis using assms by (simp add: format_total)
qed

theorem amount_codec_witness:
  "\<exists>s. formatAmount (-184000000) (jint 7) = Inr s \<and> parseAmount s (jint 7) = Inr (-184000000)"
proof -
  have "valid_decimals (jint 7)" unfolding valid_decimals_def by (intro exI [of _ 7]) simp
  from amount_codec [OF this, of "-184000000" 0] show ?thesis by blast
qed

section \<open>Rounding\<close>

lemma ceil_div_bounds:
  fixes a b :: int
  assumes "0 < b"
  shows "a \<le> ((a + b - 1) div b) * b" "((a + b - 1) div b) * b < a + b"
proof -
  have "(a + b - 1) mod b < b" "0 \<le> (a + b - 1) mod b" using assms by simp_all
  moreover have "((a + b - 1) div b) * b + (a + b - 1) mod b = a + b - 1" by simp
  ultimately show "a \<le> ((a + b - 1) div b) * b" "((a + b - 1) div b) * b < a + b" by linarith+
qed

lemma least_multiple:
  fixes m :: int
  assumes "m < a + b" "a \<le> k * b" "m = j * b" "0 < b"
  shows "m \<le> k * b"
proof (rule ccontr)
  assume "\<not> m \<le> k * b"
  then have "k < j" using assms by (simp add: not_le)
  then have "(k + 1) * b \<le> j * b" using assms(4) by (intro mult_right_mono) simp_all
  then show False using assms by (simp add: algebra_simps)
qed

lemma round_up_least:
  assumes "0 < step"
  shows "\<exists>r. roundUpToStep raw step = Inr r \<and> max 0 raw \<le> r \<and> step dvd r
       \<and> (\<forall>k. max 0 raw \<le> k * step \<longrightarrow> r \<le> k * step)"
proof (cases "raw \<le> 0")
  case True
  then show ?thesis using assms by (intro exI [of _ 0]) (simp add: roundUpToStep_def max_def)
next
  case False
  let ?r = "((raw + step - 1) div step) * step"
  have "roundUpToStep raw step = Inr ?r" using assms False by (simp add: roundUpToStep_def ceilDiv_def)
  then show ?thesis
    using ceil_div_bounds [OF assms, of raw] least_multiple [of ?r raw step] assms False
    by (intro exI [of _ ?r]) (auto simp: max_def)
qed

text \<open>Rounding goes up, to a multiple of the step, and no further: for a positive step
  \<open>roundUpToStep\<close> returns the least multiple of the step that is at least the amount and at
  least zero, and \<open>mulDivCeil\<close> of non-negative numbers the least integer at least the exact
  quotient.  Everything else is refused.\<close>

theorem rounding_least:
  "(0 < step \<longrightarrow> (\<exists>r. roundUpToStep raw step = Inr r \<and> max 0 raw \<le> r \<and> step dvd r
       \<and> (\<forall>k. max 0 raw \<le> k * step \<longrightarrow> r \<le> k * step)))
   \<and> (0 < den \<and> 0 \<le> num \<and> 0 \<le> a \<longrightarrow> (\<exists>q. mulDivCeil a num den = Inr q \<and> a * num \<le> q * den
       \<and> (\<forall>k. a * num \<le> k * den \<longrightarrow> q \<le> k)))
   \<and> (step \<le> 0 \<longrightarrow> roundUpToStep raw step = Inl Step_Not_Positive)
   \<and> (den \<le> 0 \<longrightarrow> mulDivCeil a num den = Inl Divisor_Not_Positive)"
proof (intro conjI impI)
  assume s: "0 < step"
  show "\<exists>r. roundUpToStep raw step = Inr r \<and> max 0 raw \<le> r \<and> step dvd r
       \<and> (\<forall>k. max 0 raw \<le> k * step \<longrightarrow> r \<le> k * step)"
    using s by (rule round_up_least)
next
  assume h: "0 < den \<and> 0 \<le> num \<and> 0 \<le> a"
  show "\<exists>q. mulDivCeil a num den = Inr q \<and> a * num \<le> q * den \<and> (\<forall>k. a * num \<le> k * den \<longrightarrow> q \<le> k)"
  proof (cases "a * num \<le> 0")
    case True
    then have "a * num = 0" using h mult_nonneg_nonneg [of a num] by linarith
    then show ?thesis using h
      by (intro exI [of _ 0]) (auto simp: mulDivCeil_def ceilDiv_def zero_le_mult_iff)
  next
    case False
    let ?q = "(a * num + den - 1) div den"
    have "mulDivCeil a num den = Inr ?q" using h False by (simp add: mulDivCeil_def ceilDiv_def)
    moreover have "?q \<le> k" if "a * num \<le> k * den" for k
    proof -
      have "?q * den \<le> k * den"
        using least_multiple [of "?q * den" "a * num" den k ?q] ceil_div_bounds [of den "a * num"] h that by simp
      then show ?thesis using h by simp
    qed
    ultimately show ?thesis using ceil_div_bounds [of den "a * num"] h by (intro exI [of _ ?q]) simp
  qed
qed (simp_all add: roundUpToStep_def mulDivCeil_def)

theorem rounding_least_witness:
  "\<exists>r. roundUpToStep 217 50 = Inr r \<and> 217 \<le> r \<and> r \<le> 250"
  using rounding_least [of 50 217 1 0 0, THEN conjunct1] by force

end
