(* ===== verification/Suggest_Stats.thy ===== *)
theory Suggest_Stats
  imports Suggest_Amount Collections_JS
begin

text \<open>
  \<open>stellar/src/suggest/stats.ts\<close> and the history record of \<open>types.ts\<close>: the statistics of the
  suggestions engine over raw amounts.  Timestamps and counts are integers.  \<open>Intl\<close> is
  external: a \<open>day_formatter\<close> is \<open>formatToParts\<close> of the engine's formatter in a zone it accepts.
\<close>

datatype history_mode = Mode_Public | Mode_Confidential | Mode_Private
datatype history_route = Route_Direct | Route_Pay_Owner | Route_Pay_Executor | Route_Schedule_Run
datatype history_status = Confirmed | Status_Failed | Partial

record history_record =
  h_id :: string
  h_ts :: int
  h_recipientAddress :: string
  h_recipientAlias :: "string option"
  h_asset :: string
  h_amountRaw :: int
  h_mode :: history_mode
  h_route :: history_route
  h_status :: history_status

definition DAY_SECONDS :: int where "DAY_SECONDS = 86400"

definition sortBigints :: "int list \<Rightarrow> int list" where
  "sortBigints values = js_sort (\<lambda>a b. a \<le> b) values"

definition percentileNearestRank :: "int list \<Rightarrow> int \<Rightarrow> suggest_error + int" where
  "percentileNearestRank sortedAsc percentile =
     (if sortedAsc = [] then Inl Empty_Input
      else if percentile \<le> 0 \<or> percentile > 100 then Inl Percentile_Out_Of_Range
      else
        let n = int (length sortedAsc);
            rank = (percentile * n + 99) div 100;
            index = min (max rank 1) n - 1
        in Inr (sortedAsc ! nat index))"

definition median :: "int list \<Rightarrow> suggest_error + int" where
  "median sortedAsc =
     (if sortedAsc = [] then Inl Empty_Input
      else
        let middle = length sortedAsc div 2 in
        if length sortedAsc mod 2 = 1 then Inr (sortedAsc ! middle)
        else
          let s = sortedAsc ! (middle - 1) + sortedAsc ! middle
          in Inr (if s < 0 then - ((- s) div 2) else s div 2))"

definition maxOf :: "int list \<Rightarrow> suggest_error + int" where
  "maxOf values =
     (case values of
        [] \<Rightarrow> Inl Empty_Input
      | v # _ \<Rightarrow> Inr (fold (\<lambda>value out. if value > out then value else out) values v))"

text \<open>Of several parts of one type the last one stays.\<close>

definition day_key :: "(string \<times> string) list \<Rightarrow> string" where
  "day_key parts =
     (let pick = (\<lambda>ty. fold (\<lambda>(t, v) out. if t = ty then v else out) parts [])
      in pick ''year'' @ ''-'' @ pick ''month'' @ ''-'' @ pick ''day'')"

text \<open>A formatter of days is \<open>None\<close> when the engine refuses its zone; no formatter prints an instant
  outside the range of a \<open>Date\<close>.  Both throw a \<open>RangeError\<close>.\<close>

type_synonym day_formatter = "(int \<Rightarrow> (string \<times> string) list) option"

definition localDayKey :: "day_formatter \<Rightarrow> int \<Rightarrow> suggest_error + string" where
  "localDayKey formatter unixSeconds =
     (case formatter of
        None \<Rightarrow> Inl Invalid_Time_Zone
      | Some formatToParts \<Rightarrow>
          let ms = unixSeconds * 1000 in
          if \<bar>ms\<bar> > 8640000000000000 then Inl Invalid_Time_Value
          else Inr (day_key (formatToParts ms)))"

definition add_to_day :: "string \<Rightarrow> history_record \<Rightarrow> (string, int) js_map \<Rightarrow> (string, int) js_map" where
  "add_to_day key r m = jm_set m key ((case jm_get m key of Some v \<Rightarrow> v | None \<Rightarrow> 0) + h_amountRaw r)"

fun days_loop :: "day_formatter \<Rightarrow> history_record list \<Rightarrow> (string, int) js_map \<Rightarrow> suggest_error + (string, int) js_map" where
  "days_loop formatter [] byDay = Inr byDay"
| "days_loop formatter (r # records) byDay =
     and_then (localDayKey formatter (h_ts r)) (\<lambda>key. days_loop formatter records (add_to_day key r byDay))"

definition dailyTotals :: "day_formatter \<Rightarrow> history_record list \<Rightarrow> suggest_error + int list" where
  "dailyTotals formatter records = and_then (days_loop formatter records []) (\<lambda>byDay. Inr (sortBigints (map snd byDay)))"

definition spanDays :: "history_record list \<Rightarrow> int" where
  "spanDays records =
     (if length records < 2 then 0
      else
        let ts = map h_ts records;
            lo = fold (\<lambda>t m. if t < m then t else m) ts (hd ts);
            hi = fold (\<lambda>t m. if t > m then t else m) ts (hd ts)
        in (hi - lo) div DAY_SECONDS)"

definition recipientFrequency :: "history_record list \<Rightarrow> (string, int) js_map" where
  "recipientFrequency records =
     fold (\<lambda>r m. jm_set m (h_recipientAddress r)
             ((case jm_get m (h_recipientAddress r) of Some n \<Rightarrow> n | None \<Rightarrow> 0) + 1)) records []"

definition dropAmountOutliers :: "int list \<Rightarrow> int \<Rightarrow> suggest_error + int list" where
  "dropAmountOutliers sortedAsc multiplier =
     (if sortedAsc = [] then Inl Empty_Input
      else if multiplier < 1 then Inl Multiplier_Out_Of_Range
      else and_then (median sortedAsc) (\<lambda>m. Inr (filter (\<lambda>v. v \<le> multiplier * m) sortedAsc)))"

definition medianInt :: "int list \<Rightarrow> suggest_error + int" where
  "medianInt values =
     (if values = [] then Inl Empty_Input
      else
        let sorted = js_sort (\<lambda>a b. a \<le> b) values; middle = length sorted div 2 in
        if length sorted mod 2 = 1 then Inr (sorted ! middle)
        else Inr ((sorted ! (middle - 1) + sorted ! middle) div 2))"

section \<open>Sorted lists\<close>

lemma sortBigints_sort: "sortBigints xs = sort xs"
  by (simp add: sortBigints_def js_sort_asc)

lemma length_filter_split:
  "length (filter P xs) = length (filter P (take i xs)) + length (filter P (drop i xs))"
  by (metis append_take_drop_id filter_append length_append)

lemma length_filter_mono: "(\<And>v. P v \<Longrightarrow> Q v) \<Longrightarrow> length (filter P xs) \<le> length (filter Q xs)"
  by (induction xs) auto

lemma sorted_below:
  "sorted xs \<Longrightarrow> i < length xs \<Longrightarrow> Suc i \<le> length (filter (\<lambda>v. v \<le> xs ! i) (xs :: int list))"
proof -
  assume s: "sorted xs" and i: "i < length xs"
  have "filter (\<lambda>v. v \<le> xs ! i) (take (Suc i) xs) = take (Suc i) xs"
    using s i by (intro filter_True) (auto simp: in_set_conv_nth sorted_iff_nth_mono)
  then show ?thesis
    using i length_filter_split [of "\<lambda>v. v \<le> xs ! i" xs "Suc i"] by simp
qed

lemma sorted_strictly_below:
  "sorted xs \<Longrightarrow> i < length xs \<Longrightarrow> u < xs ! i \<Longrightarrow> length (filter (\<lambda>v. v \<le> u) (xs :: int list)) \<le> i"
proof -
  assume s: "sorted xs" and i: "i < length xs" and u: "u < xs ! i"
  have "filter (\<lambda>v. v \<le> u) (drop i xs) = []"
  proof -
    have "xs ! i \<le> v" if "v \<in> set (drop i xs)" for v
      using that s i by (auto simp: in_set_conv_nth sorted_iff_nth_mono)
    then show ?thesis using u by (force simp: filter_empty_conv)
  qed
  moreover have "length (filter (\<lambda>v. v \<le> u) (take i xs)) \<le> i"
    using length_filter_le [of "\<lambda>v. v \<le> u" "take i xs"] i by simp
  ultimately show ?thesis using length_filter_split [of "\<lambda>v. v \<le> u" xs i] by simp
qed

lemma sorted_filter_takeWhile:
  "sorted xs \<Longrightarrow> filter (\<lambda>v. v \<le> c) xs = takeWhile (\<lambda>v. v \<le> c) (xs :: int list)"
proof (induction xs)
  case (Cons a xs)
  have "filter (\<lambda>v. v \<le> c) xs = []" if "\<not> a \<le> c"
    using that Cons.prems by (fastforce simp: filter_empty_conv)
  then show ?case using Cons by auto
qed simp

section \<open>Percentile\<close>

lemma percentile_index:
  assumes "xs \<noteq> []" "0 < p" "p \<le> 100"
  shows "\<exists>i < length xs. percentileNearestRank xs p = Inr (xs ! i)
     \<and> p * int (length xs) \<le> 100 * int (Suc i) \<and> 100 * int i < p * int (length xs)"
proof -
  let ?n = "int (length xs)"
  define rank where "rank = (p * ?n + 99) div 100"
  have n: "0 < ?n" using assms(1) by simp
  have pn: "0 < p * ?n" "p * ?n \<le> 100 * ?n" using assms n by (simp_all add: mult_right_mono)
  have r: "p * ?n \<le> rank * 100" "rank * 100 < p * ?n + 100"
    using ceil_div_bounds [of 100 "p * ?n"] by (simp_all add: rank_def)
  then have "1 \<le> rank" "rank \<le> ?n" using pn by linarith+
  then have "min (max rank 1) ?n - 1 = rank - 1" by simp
  moreover have "Suc (nat (rank - 1)) = nat rank" using \<open>1 \<le> rank\<close> by simp
  ultimately show ?thesis
    using assms r \<open>1 \<le> rank\<close> \<open>rank \<le> ?n\<close>
    by (intro exI [of _ "nat (rank - 1)"])
      (simp add: percentileNearestRank_def Let_def flip: rank_def)
qed

text \<open>The percentile is the nearest rank and nothing else: on a sorted non-empty list the
  result is one of its values, at least \<open>p\<close> percent of the values are at most it, and fewer
  than \<open>p\<close> percent are at most any smaller number.\<close>

theorem percentile_nearest_rank:
  assumes "sorted xs" "xs \<noteq> []" "0 < p" "p \<le> 100"
  shows "\<exists>v \<in> set xs. percentileNearestRank xs p = Inr v
     \<and> p * int (length xs) \<le> 100 * int (length (filter (\<lambda>x. x \<le> v) xs))
     \<and> (\<forall>u < v. 100 * int (length (filter (\<lambda>x. x \<le> u) xs)) < p * int (length xs))"
proof -
  obtain i where i: "i < length xs" "percentileNearestRank xs p = Inr (xs ! i)"
      "p * int (length xs) \<le> 100 * int (Suc i)" "100 * int i < p * int (length xs)"
    using percentile_index [OF assms(2-4)] by blast
  have "p * int (length xs) \<le> 100 * int (length (filter (\<lambda>x. x \<le> xs ! i) xs))"
  proof -
    have "int (Suc i) \<le> int (length (filter (\<lambda>x. x \<le> xs ! i) xs))"
      using sorted_below [OF assms(1) i(1)] by (simp only: zle_int)
    then have "100 * int (Suc i) \<le> 100 * int (length (filter (\<lambda>x. x \<le> xs ! i) xs))" by simp
    with i(3) show ?thesis by (rule order_trans)
  qed
  moreover have "100 * int (length (filter (\<lambda>x. x \<le> u) xs)) < p * int (length xs)" if "u < xs ! i" for u
  proof -
    have "int (length (filter (\<lambda>x. x \<le> u) xs)) \<le> int i"
      using sorted_strictly_below [OF assms(1) i(1) that] by (simp only: zle_int)
    then have "100 * int (length (filter (\<lambda>x. x \<le> u) xs)) \<le> 100 * int i" by simp
    then show ?thesis using i(4) by (rule le_less_trans)
  qed
  ultimately show ?thesis using i(1,2) by (intro bexI [of _ "xs ! i"]) simp_all
qed

theorem percentile_nearest_rank_witness:
  "\<exists>v \<in> set [1, 2, 3, 4, 50::int]. percentileNearestRank [1, 2, 3, 4, 50] 90 = Inr v
     \<and> 450 \<le> 100 * int (length (filter (\<lambda>x. x \<le> v) [1, 2, 3, 4, 50]))"
  using percentile_nearest_rank [of "[1, 2, 3, 4, 50]" 90] by auto

section \<open>Median and outliers\<close>

lemma median_cases:
  assumes "xs \<noteq> []" "sorted xs" "\<forall>v \<in> set xs. 0 \<le> v"
  shows "\<exists>m. median xs = Inr m \<and> xs ! ((length xs - 1) div 2) \<le> m \<and> m \<le> xs ! (length xs div 2)"
proof (cases "length xs mod 2 = 1")
  case True
  then have "(length xs - 1) div 2 = length xs div 2" by presburger
  then show ?thesis using True assms by (simp add: median_def Let_def)
next
  case False
  then have e: "(length xs - 1) div 2 = length xs div 2 - 1" "length xs div 2 - 1 < length xs div 2"
      "length xs div 2 < length xs"
  proof -
    have "length xs \<noteq> 0" using assms(1) by simp
    with False show "(length xs - 1) div 2 = length xs div 2 - 1"
      "length xs div 2 - 1 < length xs div 2" "length xs div 2 < length xs" by presburger+
  qed
  let ?a = "xs ! (length xs div 2 - 1)" and ?b = "xs ! (length xs div 2)"
  have "?a \<le> ?b" using assms(2) e by (simp add: sorted_iff_nth_mono)
  moreover have "0 \<le> ?a" using assms(3) e by simp
  ultimately have "?a \<le> (?a + ?b) div 2" "(?a + ?b) div 2 \<le> ?b" "\<not> ?a + ?b < 0" by linarith+
  then show ?thesis using False assms(1) e by (simp add: median_def Let_def)
qed

lemma outliers_half:
  assumes "sorted xs" "xs \<noteq> []" "\<forall>v \<in> set xs. 0 \<le> v" "1 \<le> k"
  shows "\<exists>ys m. dropAmountOutliers xs k = Inr ys \<and> median xs = Inr m
     \<and> ys = takeWhile (\<lambda>v. v \<le> k * m) xs \<and> length xs \<le> 2 * length ys"
proof -
  obtain m where m: "median xs = Inr m" "xs ! ((length xs - 1) div 2) \<le> m"
    using median_cases [OF assms(2,1,3)] by blast
  let ?i = "(length xs - 1) div 2"
  let ?ys = "filter (\<lambda>v. v \<le> k * m) xs"
  have i: "?i < length xs" using assms(2) by (cases xs) auto
  have "0 \<le> xs ! ?i" using assms(3) i by simp
  then have "0 \<le> m" using m by linarith
  then have "m \<le> k * m" using assms(4) mult_right_mono [of 1 k m] by simp
  then have "\<And>v. v \<le> xs ! ?i \<Longrightarrow> v \<le> k * m" using m by linarith
  then have "length (filter (\<lambda>v. v \<le> xs ! ?i) xs) \<le> length ?ys"
    by (rule length_filter_mono)
  then have "Suc ?i \<le> length ?ys" using sorted_below [OF assms(1) i] by simp
  moreover have "length xs \<le> 2 * Suc ?i" by presburger
  ultimately have "length xs \<le> 2 * length ?ys" by linarith
  moreover have "?ys = takeWhile (\<lambda>v. v \<le> k * m) xs"
    using assms(1) by (rule sorted_filter_takeWhile)
  ultimately show ?thesis using assms m(1) by (simp add: dropAmountOutliers_def)
qed

text \<open>Dropping outliers never leaves a pool too small to be representative: for a sorted
  non-empty list of non-negative amounts and a multiplier of at least 1, the result is a
  prefix-closed part of the list that keeps at least half of it, in order, and contains no
  amount above the multiple of the median.\<close>

theorem outliers_keep_half:
  assumes "sorted xs" "xs \<noteq> []" "\<forall>v \<in> set xs. 0 \<le> v" "1 \<le> k"
  shows "\<exists>ys m. dropAmountOutliers xs k = Inr ys \<and> median xs = Inr m
     \<and> ys = takeWhile (\<lambda>v. v \<le> k * m) xs \<and> length xs \<le> 2 * length ys"
  using assms by (rule outliers_half)

theorem outliers_keep_half_witness:
  "\<exists>ys m. dropAmountOutliers [10, 10, 10, 1000] 3 = Inr ys \<and> median [10, 10, 10, 1000] = Inr m
     \<and> 4 \<le> 2 * length ys"
  using outliers_keep_half [of "[10, 10, 10, 1000]" 3] by auto

lemma maxOf_Max: "xs \<noteq> [] \<Longrightarrow> maxOf xs = Inr (Max (set xs))"
proof -
  have m: "(\<lambda>value out. if value > out then value else out) = (max :: int \<Rightarrow> int \<Rightarrow> int)"
    by (auto simp: fun_eq_iff max_def)
  assume "xs \<noteq> []"
  then obtain v vs where "xs = v # vs" by (cases xs) auto
  then show ?thesis using Max.set_eq_fold [of v vs] by (simp add: maxOf_def m)
qed

end
