(* ===== verification/Suggest.thy ===== *)
theory Suggest
  imports Suggest_Stats
begin

text \<open>
  \<open>stellar/src/suggest/suggest.ts\<close>: the deterministic suggestions engine, from the filtering of
  the history to the sorted list of suggestions and the payload an LLM may see.

  External are the \<open>Intl\<close> day formatter of a zone, the rounded quotient of two numbers and
  \<open>toFixed(1)\<close> (\<open>suggest_env\<close>).  Counts, timestamps and options are integers below 2 to
  the 53.
\<close>

section \<open>Data\<close>

datatype suggestion_kind =
  Auto_Pay_Threshold | Daily_Limit | Schedule_From_Recurrence | Tighten_Dormant | Unusual_Payment_Alert

datatype confidence = Low_Confidence | Medium_Confidence | High_Confidence

record rule_view =
  rv_autoApproveLimit :: "string option"
  rv_perTxLimit :: "string option"
  rv_dailyLimit :: "string option"

record rule_draft =
  dr_autoApproveLimit :: string
  dr_perTxLimit :: "string option"
  dr_dailyLimit :: "string option"
  dr_assets :: "string list"
  dr_knownRecipientsOnly :: bool
  dr_source :: string

record schedule_draft =
  sd_recipient :: string
  sd_recipientAlias :: "string option"
  sd_asset :: string
  sd_amount :: string
  sd_firstRunAt :: int
  sd_intervalSecs :: int
  sd_runs :: int
  sd_source :: string

datatype suggestion_change =
  Rule_Change rule_draft | Schedule_Change schedule_draft | Disable_Change | No_Change

record suggest_context =
  cx_now :: int
  cx_timeZone :: string
  cx_rule :: "rule_view option"
  cx_autoPayEnabled :: bool
  cx_autoPayEnabledSince :: "int option"
  cx_lastAutoPayUse :: "int option"
  cx_knownContacts :: "string list"
  cx_dismissed :: "string list"
  cx_assetDecimals :: "js_number option"
  cx_displayAsset :: string

record suggest_options =
  so_windowDays :: "int option"
  so_minPayments :: "int option"
  so_minSpanDays :: "int option"

record evidence =
  ev_windowDays :: int
  ev_count :: int
  ev_median :: string
  ev_p90 :: string
  ev_max :: string
  ev_p95DailyTotal :: "string option"
  ev_dailyMedian :: "string option"
  ev_dailyMax :: "string option"
  ev_occurrences :: "int option"
  ev_intervalSecs :: "int option"
  ev_intervalDays :: "rat option"
  ev_amount :: "string option"
  ev_lastUsedDays :: "int option"
  ev_unusedDays :: "int option"
  ev_ratio :: "string option"
  ev_ratioWindowDays :: "int option"

record suggestion =
  sg_id :: string
  sg_kind :: suggestion_kind
  sg_title :: string
  sg_rationale :: string
  sg_evidence :: evidence
  sg_proposedChange :: suggestion_change
  sg_confidence :: confidence

record suggest_env =
  se_dayFormatter :: "string \<Rightarrow> day_formatter"
  se_quotient :: "int \<Rightarrow> int \<Rightarrow> rat"
  se_fixed1 :: "rat \<Rightarrow> string"

definition DEFAULT_WINDOW_DAYS :: int where "DEFAULT_WINDOW_DAYS = 30"
definition DEFAULT_MIN_PAYMENTS :: int where "DEFAULT_MIN_PAYMENTS = 8"
definition DEFAULT_MIN_SPAN_DAYS :: int where "DEFAULT_MIN_SPAN_DAYS = 7"
definition DEFAULT_ASSET_DECIMALS :: int where "DEFAULT_ASSET_DECIMALS = 7"
definition DAILY_LIMIT_MULTIPLIER_NUM :: int where "DAILY_LIMIT_MULTIPLIER_NUM = 3"
definition DAILY_LIMIT_MULTIPLIER_DEN :: int where "DAILY_LIMIT_MULTIPLIER_DEN = 2"
definition DAILY_LIMIT_MIN_ACTIVE_DAYS :: nat where "DAILY_LIMIT_MIN_ACTIVE_DAYS = 3"
definition RECURRENCE_MIN_OCCURRENCES :: nat where "RECURRENCE_MIN_OCCURRENCES = 3"
definition RECURRENCE_MAX_INTERVAL_JITTER_PCT :: int where "RECURRENCE_MAX_INTERVAL_JITTER_PCT = 10"
definition RECURRENCE_AMOUNT_TOLERANCE_PCT :: int where "RECURRENCE_AMOUNT_TOLERANCE_PCT = 10"
definition DEFAULT_SCHEDULE_RUNS :: int where "DEFAULT_SCHEDULE_RUNS = 12"
definition MAX_FIRST_RUN_ADVANCE_STEPS :: nat where "MAX_FIRST_RUN_ADVANCE_STEPS = 10000"
definition DORMANT_DAYS :: int where "DORMANT_DAYS = 30"
definition UNUSUAL_WINDOW_DAYS :: int where "UNUSUAL_WINDOW_DAYS = 7"
definition UNUSUAL_MULTIPLIER :: int where "UNUSUAL_MULTIPLIER = 3"
definition CONFIDENCE_MEDIUM_MIN_PAYMENTS :: int where "CONFIDENCE_MEDIUM_MIN_PAYMENTS = 12"
definition CONFIDENCE_HIGH_MIN_PAYMENTS :: int where "CONFIDENCE_HIGH_MIN_PAYMENTS = 20"
definition CONFIDENCE_HIGH_MIN_SPAN_DAYS :: int where "CONFIDENCE_HIGH_MIN_SPAN_DAYS = 14"
definition RECURRENCE_CONFIDENCE_MEDIUM_OCCURRENCES :: int where
  "RECURRENCE_CONFIDENCE_MEDIUM_OCCURRENCES = 4"
definition RECURRENCE_CONFIDENCE_HIGH_OCCURRENCES :: int where
  "RECURRENCE_CONFIDENCE_HIGH_OCCURRENCES = 6"

lemmas suggest_constants = DEFAULT_WINDOW_DAYS_def DEFAULT_MIN_PAYMENTS_def DEFAULT_MIN_SPAN_DAYS_def
  DEFAULT_ASSET_DECIMALS_def DAILY_LIMIT_MULTIPLIER_NUM_def DAILY_LIMIT_MULTIPLIER_DEN_def
  DAILY_LIMIT_MIN_ACTIVE_DAYS_def RECURRENCE_MIN_OCCURRENCES_def RECURRENCE_MAX_INTERVAL_JITTER_PCT_def
  RECURRENCE_AMOUNT_TOLERANCE_PCT_def DEFAULT_SCHEDULE_RUNS_def MAX_FIRST_RUN_ADVANCE_STEPS_def
  DORMANT_DAYS_def UNUSUAL_WINDOW_DAYS_def UNUSUAL_MULTIPLIER_def CONFIDENCE_MEDIUM_MIN_PAYMENTS_def
  CONFIDENCE_HIGH_MIN_PAYMENTS_def CONFIDENCE_HIGH_MIN_SPAN_DAYS_def
  RECURRENCE_CONFIDENCE_MEDIUM_OCCURRENCES_def RECURRENCE_CONFIDENCE_HIGH_OCCURRENCES_def
  DAY_SECONDS_def ROUNDING_STEP_DISPLAY_def

section \<open>Options and the eligible records\<close>

record resolved =
  rs_windowDays :: int
  rs_minPayments :: int
  rs_minSpanDays :: int
  rs_decimals :: js_number

definition or_default :: "'a option \<Rightarrow> 'a \<Rightarrow> 'a" where
  "or_default x d = (case x of Some v \<Rightarrow> v | None \<Rightarrow> d)"

definition resolve :: "suggest_context \<Rightarrow> suggest_options \<Rightarrow> resolved" where
  "resolve context options =
     \<lparr>rs_windowDays = or_default (so_windowDays options) DEFAULT_WINDOW_DAYS,
      rs_minPayments = or_default (so_minPayments options) DEFAULT_MIN_PAYMENTS,
      rs_minSpanDays = or_default (so_minSpanDays options) DEFAULT_MIN_SPAN_DAYS,
      rs_decimals = or_default (cx_assetDecimals context) (jint DEFAULT_ASSET_DECIMALS)\<rparr>"

text \<open>\<open>None\<close> is \<open>undefined\<close>, \<open>Some None\<close> is \<open>null\<close>.\<close>

definition tryParseAmount :: "string option \<Rightarrow> js_number \<Rightarrow> int option option" where
  "tryParseAmount display decimals = map_option (\<lambda>s. result_option (parseAmount s decimals)) display"

text \<open>The name of the offending field, or \<open>assetDecimals\<close>.\<close>

definition validateSuggestContext :: "suggest_context \<Rightarrow> string + unit" where
  "validateSuggestContext context =
     (let decimals = or_default (cx_assetDecimals context) (jint DEFAULT_ASSET_DECIMALS) in
      if \<not> is_integer decimals \<or> jless decimals 0 \<or> jgreater decimals 100 then Inl ''assetDecimals''
      else
        case cx_rule context of
          None \<Rightarrow> Inr ()
        | Some rule \<Rightarrow>
            if tryParseAmount (rv_autoApproveLimit rule) decimals = Some None then Inl ''rule.autoApproveLimit''
            else if tryParseAmount (rv_perTxLimit rule) decimals = Some None then Inl ''rule.perTxLimit''
            else if tryParseAmount (rv_dailyLimit rule) decimals = Some None then Inl ''rule.dailyLimit''
            else Inr ())"

record guard_result =
  gr_records :: "history_record list"
  gr_count :: int
  gr_spanDays :: int
  gr_enough :: bool

fun dedupe :: "string list \<Rightarrow> history_record list \<Rightarrow> history_record list" where
  "dedupe seen [] = []"
| "dedupe seen (r # rs) =
     (if List.member seen (h_id r) then dedupe seen rs else r # dedupe (h_id r # seen) rs)"

definition eligible :: "suggest_context \<Rightarrow> int \<Rightarrow> history_record \<Rightarrow> bool" where
  "eligible context start r \<longleftrightarrow>
     h_status r = Confirmed \<and> h_mode r = Mode_Public \<and> h_asset r = cx_displayAsset context
     \<and> h_ts r \<ge> start \<and> h_ts r \<le> cx_now context"

definition guard_history :: "history_record list \<Rightarrow> suggest_context \<Rightarrow> resolved \<Rightarrow> guard_result" where
  "guard_history history context resolved =
     (let start = cx_now context - rs_windowDays resolved * DAY_SECONDS;
          records = filter (eligible context start) (dedupe [] history);
          days_spanned = spanDays records
      in \<lparr>gr_records = records, gr_count = int (length records), gr_spanDays = days_spanned,
          gr_enough = (int (length records) \<ge> rs_minPayments resolved \<and> days_spanned \<ge> rs_minSpanDays resolved)\<rparr>)"

record no_suggestions =
  ns_count :: int
  ns_minPayments :: int
  ns_spanDays :: int
  ns_minSpanDays :: int
  ns_windowDays :: int

definition explainNoSuggestions ::
    "history_record list \<Rightarrow> suggest_context \<Rightarrow> suggest_options \<Rightarrow> no_suggestions option" where
  "explainNoSuggestions history context options =
     (let resolved = resolve context options; result = guard_history history context resolved in
      if gr_enough result then None
      else Some \<lparr>ns_count = gr_count result, ns_minPayments = rs_minPayments resolved,
                 ns_spanDays = gr_spanDays result, ns_minSpanDays = rs_minSpanDays resolved,
                 ns_windowDays = rs_windowDays resolved\<rparr>)"

definition confidenceFor :: "int \<Rightarrow> int \<Rightarrow> confidence" where
  "confidenceFor cnt days_spanned =
     (if cnt \<ge> CONFIDENCE_HIGH_MIN_PAYMENTS \<and> days_spanned \<ge> CONFIDENCE_HIGH_MIN_SPAN_DAYS then High_Confidence
      else if cnt \<ge> CONFIDENCE_MEDIUM_MIN_PAYMENTS then Medium_Confidence
      else Low_Confidence)"

definition recurrenceConfidence :: "int \<Rightarrow> confidence" where
  "recurrenceConfidence occurrences =
     (if occurrences \<ge> RECURRENCE_CONFIDENCE_HIGH_OCCURRENCES then High_Confidence
      else if occurrences \<ge> RECURRENCE_CONFIDENCE_MEDIUM_OCCURRENCES then Medium_Confidence
      else Low_Confidence)"

section \<open>Statistics of the amounts\<close>

record amount_stats =
  as_count :: int
  as_median :: string
  as_p90 :: string
  as_max :: string
  as_p90Raw :: int
  as_maxRaw :: int

definition amountStatsFromSorted :: "int list \<Rightarrow> js_number \<Rightarrow> suggest_error + amount_stats" where
  "amountStatsFromSorted amounts decimals =
     and_then (median amounts) (\<lambda>m. and_then (formatAmount m decimals) (\<lambda>md.
     and_then (percentileNearestRank amounts 90) (\<lambda>p. and_then (formatAmount p decimals) (\<lambda>pd.
     and_then (maxOf amounts) (\<lambda>x. and_then (formatAmount x decimals) (\<lambda>xd.
       Inr \<lparr>as_count = int (length amounts), as_median = md, as_p90 = pd, as_max = xd,
            as_p90Raw = p, as_maxRaw = x\<rparr>))))))"

definition amountStats :: "history_record list \<Rightarrow> js_number \<Rightarrow> suggest_error + amount_stats" where
  "amountStats records decimals = amountStatsFromSorted (sortBigints (map h_amountRaw records)) decimals"

definition thresholdPool :: "history_record list \<Rightarrow> suggest_context \<Rightarrow> history_record list" where
  "thresholdPool records context =
     (if cx_knownContacts context = [] then records
      else filter (\<lambda>r. List.member (cx_knownContacts context) (h_recipientAddress r)) records)"

definition baseEvidence :: "resolved \<Rightarrow> amount_stats \<Rightarrow> evidence" where
  "baseEvidence resolved stats =
     \<lparr>ev_windowDays = rs_windowDays resolved, ev_count = as_count stats, ev_median = as_median stats,
      ev_p90 = as_p90 stats, ev_max = as_max stats, ev_p95DailyTotal = None, ev_dailyMedian = None,
      ev_dailyMax = None, ev_occurrences = None, ev_intervalSecs = None, ev_intervalDays = None,
      ev_amount = None, ev_lastUsedDays = None, ev_unusedDays = None, ev_ratio = None,
      ev_ratioWindowDays = None\<rparr>"

section \<open>The threshold\<close>

definition rule_perTx :: "suggest_context \<Rightarrow> string option" where
  "rule_perTx context = (case cx_rule context of None \<Rightarrow> None | Some r \<Rightarrow> rv_perTxLimit r)"

definition rule_autoApprove :: "suggest_context \<Rightarrow> string option" where
  "rule_autoApprove context = (case cx_rule context of None \<Rightarrow> None | Some r \<Rightarrow> rv_autoApproveLimit r)"

definition rule_daily :: "suggest_context \<Rightarrow> string option" where
  "rule_daily context = (case cx_rule context of None \<Rightarrow> None | Some r \<Rightarrow> rv_dailyLimit r)"

record threshold_computation =
  tc_proposedRaw :: int
  tc_capped :: bool
  tc_capDisplay :: string

definition computeAutoApproveThreshold ::
    "int \<Rightarrow> int \<Rightarrow> suggest_context \<Rightarrow> js_number \<Rightarrow> suggest_error + threshold_computation option" where
  "computeAutoApproveThreshold p90Raw maxRaw context decimals =
     and_then (roundUpToDisplayMultiple p90Raw decimals ROUNDING_STEP_DISPLAY) (\<lambda>rounded.
     and_then (roundUpToDisplayMultiple maxRaw decimals ROUNDING_STEP_DISPLAY) (\<lambda>roundedMax.
       let proposedRaw = (if rounded > roundedMax then roundedMax else rounded) in
       if rule_perTx context \<noteq> None then
         (case tryParseAmount (rule_perTx context) decimals of
            Some (Some capRaw) \<Rightarrow>
              if capRaw \<le> 0 then Inr None
              else
                and_then (formatAmount capRaw decimals) (\<lambda>capDisplay.
                  Inr (Some \<lparr>tc_proposedRaw = (if proposedRaw > capRaw then capRaw else proposedRaw),
                             tc_capped = (proposedRaw > capRaw), tc_capDisplay = capDisplay\<rparr>))
          | _ \<Rightarrow> Inr None)
       else Inr (Some \<lparr>tc_proposedRaw = proposedRaw, tc_capped = False, tc_capDisplay = []\<rparr>)))"

definition isRuleDraftOrdered :: "rule_draft \<Rightarrow> js_number \<Rightarrow> bool" where
  "isRuleDraftOrdered draft decimals =
     (case tryParseAmount (Some (dr_autoApproveLimit draft)) decimals of
        Some (Some autoApprove) \<Rightarrow>
          if autoApprove < 0 then False
          else
            let perTx = tryParseAmount (dr_perTxLimit draft) decimals;
                daily = tryParseAmount (dr_dailyLimit draft) decimals in
            if perTx = Some None \<or> (case perTx of Some (Some v) \<Rightarrow> v < 0 | _ \<Rightarrow> False) then False
            else if daily = Some None \<or> (case daily of Some (Some v) \<Rightarrow> v < 0 | _ \<Rightarrow> False) then False
            else if (case perTx of Some (Some v) \<Rightarrow> autoApprove > v | _ \<Rightarrow> False) then False
            else (case daily of
                    Some (Some d) \<Rightarrow>
                      (case perTx of Some (Some p) \<Rightarrow> \<not> d < p | _ \<Rightarrow> \<not> d < autoApprove)
                  | _ \<Rightarrow> True)
      | _ \<Rightarrow> False)"

record robust_threshold =
  rt_pool :: "int list"
  rt_thresholdRaw :: int
  rt_capped :: bool
  rt_capDisplay :: string
  rt_stats :: amount_stats

definition deriveRobustThreshold ::
    "history_record list \<Rightarrow> suggest_context \<Rightarrow> resolved \<Rightarrow> suggest_error + robust_threshold option" where
  "deriveRobustThreshold records context resolved =
     (let pool = thresholdPool records context in
      if pool = [] then Inr None
      else
        let amounts = sortBigints (map h_amountRaw pool) in
        and_then (dropAmountOutliers amounts UNUSUAL_MULTIPLIER) (\<lambda>robustAmounts.
        if int (length robustAmounts) < rs_minPayments resolved then Inr None
        else
          and_then (amountStatsFromSorted robustAmounts (rs_decimals resolved)) (\<lambda>stats.
          if as_p90Raw stats \<le> 0 then Inr None
          else
            and_then (computeAutoApproveThreshold (as_p90Raw stats) (as_maxRaw stats) context (rs_decimals resolved))
              (\<lambda>computation. case computation of
                 None \<Rightarrow> Inr None
               | Some c \<Rightarrow>
                   Inr (Some \<lparr>rt_pool = robustAmounts, rt_thresholdRaw = tc_proposedRaw c,
                              rt_capped = tc_capped c, rt_capDisplay = tc_capDisplay c, rt_stats = stats\<rparr>)))))"

text \<open>Auto-pay already covers the p90, or its limit cannot be read.\<close>

definition threshold_settled :: "suggest_context \<Rightarrow> resolved \<Rightarrow> int \<Rightarrow> bool" where
  "threshold_settled context resolved p90Raw \<longleftrightarrow>
     cx_autoPayEnabled context \<and> rule_autoApprove context \<noteq> None
     \<and> (case tryParseAmount (rule_autoApprove context) (rs_decimals resolved) of
          Some None \<Rightarrow> True
        | Some (Some currentRaw) \<Rightarrow> currentRaw \<ge> p90Raw
        | None \<Rightarrow> False)"

definition autoPayThresholdSuggestion ::
    "guard_result \<Rightarrow> suggest_context \<Rightarrow> resolved \<Rightarrow> suggest_error + suggestion option" where
  "autoPayThresholdSuggestion result context resolved =
     and_then (deriveRobustThreshold (gr_records result) context resolved) (\<lambda>derivation.
       case derivation of
         None \<Rightarrow> Inr None
       | Some dv \<Rightarrow>
           let stats = rt_stats dv; thresholdRaw = rt_thresholdRaw dv; p90Raw = as_p90Raw stats in
           if threshold_settled context resolved p90Raw then Inr None
           else
             and_then (formatAmount thresholdRaw (rs_decimals resolved)) (\<lambda>proposedDisplay.
             let cnt = as_count stats;
                 windowDays = rs_windowDays resolved;
                 asset = cx_displayAsset context;
                 contactPhrase = (if cx_knownContacts context \<noteq> []
                                  then show_int cnt @ '' payments to saved contacts''
                                  else show_int cnt @ '' payments'');
                 rationale = ''Over the last '' @ show_int windowDays @ '' days you sent '' @ contactPhrase
                   @ '', all under '' @ proposedDisplay @ '' '' @ asset @ '' (median '' @ as_median stats
                   @ '', p90 '' @ as_p90 stats @ ''). Allow automatic payments up to '' @ proposedDisplay
                   @ '' '' @ asset @ ''?''
                   @ (if rt_capped dv then '' Capped at your existing on-chain per-transaction limit of ''
                                             @ rt_capDisplay dv @ '' '' @ asset @ ''.''
                      else if rule_perTx context = None
                        then '' No on-chain per-transaction cap is set yet, so this would create one.''
                      else []);
                 draft = \<lparr>dr_autoApproveLimit = proposedDisplay,
                          dr_perTxLimit = (if rule_perTx context = None then Some proposedDisplay else None),
                          dr_dailyLimit = None, dr_assets = [asset], dr_knownRecipientsOnly = True,
                          dr_source = ''suggested from the last '' @ show_int windowDays @ '' days of payments''\<rparr>
             in
             if \<not> isRuleDraftOrdered draft (rs_decimals resolved) then Inr None
             else Inr (Some
               \<lparr>sg_id = ''auto_pay_threshold:'' @ asset @ '':'' @ proposedDisplay,
                sg_kind = Auto_Pay_Threshold,
                sg_title = ''Allow auto-pay up to '' @ proposedDisplay @ '' '' @ asset,
                sg_rationale = rationale,
                sg_evidence = baseEvidence resolved stats,
                sg_proposedChange = Rule_Change draft,
                sg_confidence = confidenceFor cnt (gr_spanDays result)\<rparr>)))"


section \<open>The daily limit\<close>

text \<open>The multiplication sign of the rationales.\<close>

definition times_sign :: string where "times_sign = [CHR 0xD7]"

text \<open>The threshold of a daily draft: the one of the rule, or a derived one with its cap.
  \<open>None\<close> drops the suggestion.\<close>

definition daily_threshold ::
    "guard_result \<Rightarrow> suggest_context \<Rightarrow> resolved \<Rightarrow> suggest_error + (string \<times> bool \<times> string) option" where
  "daily_threshold result context resolved =
     (case rule_autoApprove context of
        Some limit \<Rightarrow>
          (case tryParseAmount (Some limit) (rs_decimals resolved) of
             Some (Some currentRaw) \<Rightarrow> Inr (if currentRaw < 0 then None else Some (limit, False, []))
           | _ \<Rightarrow> Inr None)
      | None \<Rightarrow>
          and_then (deriveRobustThreshold (gr_records result) context resolved) (\<lambda>derivation.
            case derivation of
              None \<Rightarrow> Inr None
            | Some dv \<Rightarrow>
                and_then (formatAmount (rt_thresholdRaw dv) (rs_decimals resolved)) (\<lambda>limit.
                  Inr (Some (limit, rt_capped dv, rt_capDisplay dv)))))"

text \<open>The daily limit is already the proposed one, or cannot be read.\<close>

definition daily_settled :: "suggest_context \<Rightarrow> resolved \<Rightarrow> int \<Rightarrow> bool" where
  "daily_settled context resolved proposedRaw \<longleftrightarrow>
     (case tryParseAmount (rule_daily context) (rs_decimals resolved) of
        Some None \<Rightarrow> True
      | Some (Some currentRaw) \<Rightarrow> currentRaw = proposedRaw
      | None \<Rightarrow> False)"

definition daily_draft :: "suggest_context \<Rightarrow> resolved \<Rightarrow> string \<Rightarrow> string \<Rightarrow> rule_draft" where
  "daily_draft context resolved limit proposedDisplay =
     \<lparr>dr_autoApproveLimit = limit, dr_perTxLimit = rule_perTx context, dr_dailyLimit = Some proposedDisplay,
      dr_assets = [cx_displayAsset context], dr_knownRecipientsOnly = True,
      dr_source = ''suggested from the last '' @ show_int (rs_windowDays resolved) @ '' days of daily totals''\<rparr>"

definition daily_rationale :: "suggest_context \<Rightarrow> resolved \<Rightarrow> string \<Rightarrow> string \<Rightarrow> bool \<Rightarrow> string \<Rightarrow> string" where
  "daily_rationale context resolved p95Display proposedDisplay capped capDisplay =
     (let asset = cx_displayAsset context in
      ''Over the last '' @ show_int (rs_windowDays resolved) @ '' days your busiest typical day reached ''
      @ p95Display @ '' '' @ asset @ '' (p95), so a daily limit of '' @ proposedDisplay @ '' '' @ asset
      @ '' (1.5'' @ times_sign @ '' with headroom) keeps auto-pay bounded. This is the agent's real daily mandate.''
      @ (if capped then '' The auto-pay threshold is capped at your existing on-chain per-transaction limit of ''
                        @ capDisplay @ '' '' @ asset @ ''.''
         else []))"

definition dailyLimitSuggestion ::
    "suggest_env \<Rightarrow> guard_result \<Rightarrow> suggest_context \<Rightarrow> resolved \<Rightarrow> suggest_error + suggestion option" where
  "dailyLimitSuggestion env result context resolved =
     (let decimals = rs_decimals resolved;
          asset = cx_displayAsset context in
      and_then (dailyTotals (se_dayFormatter env (cx_timeZone context)) (gr_records result)) (\<lambda>totals.
      if length totals < DAILY_LIMIT_MIN_ACTIVE_DAYS then Inr None
      else and_then (percentileNearestRank totals 95) (\<lambda>p95.
      if p95 \<le> 0 then Inr None
      else and_then (maxOf totals) (\<lambda>dailyMax.
      and_then (median totals) (\<lambda>dailyMedian.
      and_then (mulDivCeil p95 DAILY_LIMIT_MULTIPLIER_NUM DAILY_LIMIT_MULTIPLIER_DEN) (\<lambda>target.
      and_then (roundUpToDisplayMultiple target decimals ROUNDING_STEP_DISPLAY) (\<lambda>proposedRaw.
      if daily_settled context resolved proposedRaw then Inr None
      else and_then (formatAmount proposedRaw decimals) (\<lambda>proposedDisplay.
      and_then (formatAmount p95 decimals) (\<lambda>p95Display.
      and_then (amountStats (gr_records result) decimals) (\<lambda>stats.
      and_then (formatAmount dailyMedian decimals) (\<lambda>dailyMedianDisplay.
      and_then (formatAmount dailyMax decimals) (\<lambda>dailyMaxDisplay.
      and_then (daily_threshold result context resolved) (\<lambda>threshold. case threshold of
        None \<Rightarrow> Inr None
      | Some (limit, capped, capDisplay) \<Rightarrow>
          let draft = daily_draft context resolved limit proposedDisplay in
          if \<not> isRuleDraftOrdered draft decimals then Inr None
          else Inr (Some
            \<lparr>sg_id = ''daily_limit:'' @ asset @ '':'' @ proposedDisplay,
             sg_kind = Daily_Limit,
             sg_title = ''Set a daily limit of '' @ proposedDisplay @ '' '' @ asset,
             sg_rationale = daily_rationale context resolved p95Display proposedDisplay capped capDisplay,
             sg_evidence = (baseEvidence resolved stats)
               \<lparr>ev_p95DailyTotal := Some p95Display, ev_dailyMedian := Some dailyMedianDisplay,
                ev_dailyMax := Some dailyMaxDisplay\<rparr>,
             sg_proposedChange = Rule_Change draft,
             sg_confidence = confidenceFor (as_count stats) (gr_spanDays result)\<rparr>))))))))))))))"

section \<open>Recurring payments\<close>

definition add_to_group ::
    "history_record \<Rightarrow> (string, history_record list) js_map \<Rightarrow> (string, history_record list) js_map" where
  "add_to_group r m =
     jm_set m (h_recipientAddress r) ((case jm_get m (h_recipientAddress r) of Some l \<Rightarrow> l | None \<Rightarrow> []) @ [r])"

definition groupByRecipient :: "history_record list \<Rightarrow> (string, history_record list) js_map" where
  "groupByRecipient records = fold add_to_group records []"

text \<open>The comparator answers at most 0.\<close>

definition byTimestampThenId :: "history_record \<Rightarrow> history_record \<Rightarrow> bool" where
  "byTimestampThenId a b \<longleftrightarrow> h_ts a < h_ts b \<or> h_ts a = h_ts b \<and> h_id a \<le> h_id b"

fun advance_steps :: "nat \<Rightarrow> int \<Rightarrow> int \<Rightarrow> int \<Rightarrow> int" where
  "advance_steps 0 firstRunAt interval now = firstRunAt"
| "advance_steps (Suc n) firstRunAt interval now =
     (if firstRunAt \<le> now then advance_steps n (firstRunAt + interval) interval now else firstRunAt)"

definition advanceFirstRunAt :: "int \<Rightarrow> int \<Rightarrow> int \<Rightarrow> int" where
  "advanceFirstRunAt lastTs interval now =
     (let firstRunAt = advance_steps MAX_FIRST_RUN_ADVANCE_STEPS (lastTs + interval) interval now
      in if firstRunAt \<le> now then lastTs + ((now - lastTs) div interval + 1) * interval else firstRunAt)"

fun gaps :: "int list \<Rightarrow> int list" where
  "gaps (a # b # ts) = (b - a) # gaps (b # ts)"
| "gaps _ = []"

text \<open>\<open>Math.min(...xs)\<close> and \<open>Math.max(...xs)\<close> of a non-empty list.\<close>

definition math_min :: "int list \<Rightarrow> int" where
  "math_min xs = fold min xs (hd xs)"

definition math_max :: "int list \<Rightarrow> int" where
  "math_max xs = fold max xs (hd xs)"

definition regular_intervals :: "int list \<Rightarrow> bool" where
  "regular_intervals intervals \<longleftrightarrow>
     0 < sum_list intervals
     \<and> (math_max intervals - math_min intervals) * int (length intervals) * 100
         \<le> sum_list intervals * RECURRENCE_MAX_INTERVAL_JITTER_PCT"

text \<open>The first alias that is not empty.\<close>

definition first_alias :: "history_record list \<Rightarrow> string option" where
  "first_alias records =
     (case filter (\<lambda>r. case h_recipientAlias r of None \<Rightarrow> False | Some a \<Rightarrow> a \<noteq> []) records of
        [] \<Rightarrow> None
      | r # _ \<Rightarrow> h_recipientAlias r)"

definition schedule_evidence ::
    "suggest_env \<Rightarrow> resolved \<Rightarrow> int \<Rightarrow> int \<Rightarrow> int \<Rightarrow> string \<Rightarrow> string \<Rightarrow> string \<Rightarrow> evidence" where
  "schedule_evidence env resolved overallCount occurrences interval amountDisplay p90Display maxDisplay =
     \<lparr>ev_windowDays = rs_windowDays resolved, ev_count = overallCount, ev_median = amountDisplay,
      ev_p90 = p90Display, ev_max = maxDisplay, ev_p95DailyTotal = None, ev_dailyMedian = None,
      ev_dailyMax = None, ev_occurrences = Some occurrences, ev_intervalSecs = Some interval,
      ev_intervalDays = Some (se_quotient env interval DAY_SECONDS), ev_amount = Some amountDisplay,
      ev_lastUsedDays = None, ev_unusedDays = None, ev_ratio = None, ev_ratioWindowDays = None\<rparr>"

definition scheduleSuggestion ::
    "suggest_env \<Rightarrow> string \<Rightarrow> history_record list \<Rightarrow> suggest_context \<Rightarrow> resolved \<Rightarrow> int
      \<Rightarrow> suggest_error + suggestion option" where
  "scheduleSuggestion env address records context resolved overallCount =
     (if length records < RECURRENCE_MIN_OCCURRENCES then Inr None
      else
        let sorted_records = js_sort byTimestampThenId records;
            intervals = gaps (map h_ts sorted_records);
            amounts = sortBigints (map h_amountRaw sorted_records);
            decimals = rs_decimals resolved;
            asset = cx_displayAsset context;
            occurrences = int (length sorted_records) in
        if \<not> regular_intervals intervals then Inr None
        else and_then (median amounts) (\<lambda>medianAmount.
        if medianAmount \<le> 0 then Inr None
        else if (last amounts - hd amounts) * 100 > RECURRENCE_AMOUNT_TOLERANCE_PCT * medianAmount then Inr None
        else and_then (medianInt intervals) (\<lambda>proposedInterval.
        if proposedInterval \<le> 0 then Inr None
        else and_then (formatAmount medianAmount decimals) (\<lambda>amountDisplay.
        and_then (percentileNearestRank amounts 90) (\<lambda>p90. and_then (formatAmount p90 decimals) (\<lambda>p90Display.
        and_then (formatAmount (last amounts) decimals) (\<lambda>maxDisplay.
        let recipientAlias = first_alias sorted_records;
            label = (case recipientAlias of Some a \<Rightarrow> a | None \<Rightarrow> address);
            cadenceDays = se_quotient env proposedInterval DAY_SECONDS in
        Inr (Some
          \<lparr>sg_id = ''schedule_from_recurrence:'' @ asset @ '':'' @ address,
           sg_kind = Schedule_From_Recurrence,
           sg_title = ''Create a recurring payment to '' @ label,
           sg_rationale = ''You sent '' @ show_int occurrences @ '' similar payments of about '' @ amountDisplay
             @ '' '' @ asset @ '' to '' @ label @ '' every ~'' @ se_fixed1 env cadenceDays
             @ '' days. Create a schedule with '' @ show_int DEFAULT_SCHEDULE_RUNS
             @ '' future runs instead of paying manually?'',
           sg_evidence = schedule_evidence env resolved overallCount occurrences proposedInterval
                           amountDisplay p90Display maxDisplay,
           sg_proposedChange = Schedule_Change
             \<lparr>sd_recipient = address, sd_recipientAlias = recipientAlias, sd_asset = asset,
              sd_amount = amountDisplay,
              sd_firstRunAt = advanceFirstRunAt (h_ts (last sorted_records)) proposedInterval (cx_now context),
              sd_intervalSecs = proposedInterval, sd_runs = DEFAULT_SCHEDULE_RUNS,
              sd_source = ''suggested from '' @ show_int occurrences @ '' similar payments''\<rparr>,
           sg_confidence = recurrenceConfidence occurrences\<rparr>))))))))"

text \<open>A loop that pushes the suggestions its body returns.\<close>

fun collect :: "('a \<Rightarrow> 'e + 'b option) \<Rightarrow> 'a list \<Rightarrow> 'e + 'b list" where
  "collect f [] = Inr []"
| "collect f (x # xs) = and_then (f x) (\<lambda>y. and_then (collect f xs) (\<lambda>ys.
     Inr (case y of None \<Rightarrow> ys | Some b \<Rightarrow> b # ys)))"

definition recurrenceSuggestions ::
    "suggest_env \<Rightarrow> guard_result \<Rightarrow> suggest_context \<Rightarrow> resolved \<Rightarrow> suggest_error + suggestion list" where
  "recurrenceSuggestions env result context resolved =
     (let groups = groupByRecipient (gr_records result);
          addresses = js_sort (\<lambda>a b. a \<le> b) (jm_keys groups)
      in collect (\<lambda>address. scheduleSuggestion env address
                    (case jm_get groups address of Some g \<Rightarrow> g | None \<Rightarrow> []) context resolved (gr_count result))
           addresses)"

section \<open>Dormant auto-pay\<close>

definition last_used :: "history_record list \<Rightarrow> suggest_context \<Rightarrow> int option" where
  "last_used records context =
     (let used = filter (\<lambda>r. h_route r = Route_Pay_Executor) records;
          historyLastUsed = (if used \<noteq> [] then Some (math_max (map h_ts used)) else None)
      in case (historyLastUsed, cx_lastAutoPayUse context) of
           (Some a, Some b) \<Rightarrow> Some (max a b)
         | (Some a, None) \<Rightarrow> Some a
         | (None, b) \<Rightarrow> b)"

text \<open>The days auto-pay was idle, when they are too many.\<close>

definition dormant_days :: "suggest_context \<Rightarrow> int option \<Rightarrow> int option" where
  "dormant_days context lastUsedTs =
     (let enabledDays = map_option (\<lambda>since. (cx_now context - since) div DAY_SECONDS) (cx_autoPayEnabledSince context)
      in case lastUsedTs of
           None \<Rightarrow> (case enabledDays of None \<Rightarrow> None | Some d \<Rightarrow> if d \<le> DORMANT_DAYS then None else Some d)
         | Some t \<Rightarrow>
             let unusedDays = (cx_now context - t) div DAY_SECONDS in
             if unusedDays \<le> DORMANT_DAYS then None
             else if (case enabledDays of Some d \<Rightarrow> d \<le> DORMANT_DAYS | None \<Rightarrow> False) then None
             else Some unusedDays)"

definition dormantSuggestion ::
    "guard_result \<Rightarrow> suggest_context \<Rightarrow> resolved \<Rightarrow> suggest_error + suggestion option" where
  "dormantSuggestion result context resolved =
     (if \<not> cx_autoPayEnabled context then Inr None
      else
        let lastUsedTs = last_used (gr_records result) context; asset = cx_displayAsset context in
        case dormant_days context lastUsedTs of
          None \<Rightarrow> Inr None
        | Some unusedDays \<Rightarrow>
            and_then (amountStats (gr_records result) (rs_decimals resolved)) (\<lambda>stats.
              Inr (Some
                \<lparr>sg_id = ''tighten_dormant:'' @ asset,
                 sg_kind = Tighten_Dormant,
                 sg_title = ''Turn off auto-pay for '' @ asset @ ''?'',
                 sg_rationale = (if lastUsedTs = None
                   then ''Auto-pay has been on for '' @ show_int unusedDays
                        @ '' days but no automatic (pay_executor) payment was ''
                        @ ''used in that period. Revoking the executor reduces risk.''
                   else ''Auto-pay is on but has not been used for '' @ show_int unusedDays @ '' days ''
                        @ ''(threshold '' @ show_int DORMANT_DAYS @ '' days). Consider revoking the executor.''),
                 sg_evidence = (baseEvidence resolved stats)
                   \<lparr>ev_unusedDays := Some unusedDays,
                    ev_lastUsedDays := (if lastUsedTs = None then None else Some unusedDays)\<rparr>,
                 sg_proposedChange = Disable_Change,
                 sg_confidence = (if as_count stats \<ge> CONFIDENCE_MEDIUM_MIN_PAYMENTS
                                  then Medium_Confidence else Low_Confidence)\<rparr>)))"

section \<open>Unusual payments\<close>

definition ratio_display :: "int \<Rightarrow> int \<Rightarrow> string" where
  "ratio_display amountRaw baselineRaw =
     (let ratioTenths = (amountRaw * 10) div baselineRaw
      in show_int (ratioTenths div 10) @ ''.'' @ show_int (ratioTenths mod 10))"

definition unusual_alert ::
    "guard_result \<Rightarrow> suggest_context \<Rightarrow> resolved \<Rightarrow> int \<Rightarrow> history_record \<Rightarrow> suggest_error + suggestion option" where
  "unusual_alert result context resolved baselineRaw r =
     (let decimals = rs_decimals resolved; asset = cx_displayAsset context;
          ratio = ratio_display (h_amountRaw r) baselineRaw in
      and_then (formatAmount (h_amountRaw r) decimals) (\<lambda>amountDisplay.
      and_then (formatAmount baselineRaw decimals) (\<lambda>baselineDisplay.
      and_then (amountStats (gr_records result) decimals) (\<lambda>stats.
        Inr (Some
          \<lparr>sg_id = ''unusual_payment_alert:'' @ asset @ '':'' @ h_id r,
           sg_kind = Unusual_Payment_Alert,
           sg_title = ''Unusual payment of '' @ amountDisplay @ '' '' @ asset,
           sg_rationale = ''A payment of '' @ amountDisplay @ '' '' @ asset @ '' in the last ''
             @ show_int UNUSUAL_WINDOW_DAYS @ '' days is '' @ ratio @ times_sign @ '' your typical p90 of ''
             @ baselineDisplay @ '' '' @ asset @ ''. Consider requiring extra confirmation next time.'',
           sg_evidence = (baseEvidence resolved stats)
             \<lparr>ev_p90 := baselineDisplay, ev_amount := Some amountDisplay, ev_ratio := Some ratio,
              ev_ratioWindowDays := Some UNUSUAL_WINDOW_DAYS\<rparr>,
           sg_proposedChange = No_Change,
           sg_confidence = Medium_Confidence\<rparr>)))))"

definition unusualSuggestions ::
    "guard_result \<Rightarrow> suggest_context \<Rightarrow> resolved \<Rightarrow> suggest_error + suggestion list" where
  "unusualSuggestions result context resolved =
     (if gr_records result = [] then Inr []
      else
        and_then (dropAmountOutliers (sortBigints (map h_amountRaw (gr_records result))) UNUSUAL_MULTIPLIER)
          (\<lambda>baselineAmounts. and_then (percentileNearestRank baselineAmounts 90) (\<lambda>baselineRaw.
            if baselineRaw \<le> 0 then Inr []
            else
              let cutoff = cx_now context - UNUSUAL_WINDOW_DAYS * DAY_SECONDS;
                  unusual = js_sort byTimestampThenId
                    (filter (\<lambda>r. h_ts r \<ge> cutoff \<and> h_amountRaw r > UNUSUAL_MULTIPLIER * baselineRaw)
                      (gr_records result))
              in collect (unusual_alert result context resolved baselineRaw) unusual)))"

section \<open>The engine\<close>

fun KIND_ORDER :: "suggestion_kind \<Rightarrow> nat" where
  "KIND_ORDER Auto_Pay_Threshold = 0"
| "KIND_ORDER Daily_Limit = 1"
| "KIND_ORDER Schedule_From_Recurrence = 2"
| "KIND_ORDER Tighten_Dormant = 3"
| "KIND_ORDER Unusual_Payment_Alert = 4"

fun kind_name :: "suggestion_kind \<Rightarrow> string" where
  "kind_name Auto_Pay_Threshold = ''auto_pay_threshold''"
| "kind_name Daily_Limit = ''daily_limit''"
| "kind_name Schedule_From_Recurrence = ''schedule_from_recurrence''"
| "kind_name Tighten_Dormant = ''tighten_dormant''"
| "kind_name Unusual_Payment_Alert = ''unusual_payment_alert''"

text \<open>The comparator answers at most 0.\<close>

definition compareSuggestions :: "suggestion \<Rightarrow> suggestion \<Rightarrow> bool" where
  "compareSuggestions a b \<longleftrightarrow>
     KIND_ORDER (sg_kind a) < KIND_ORDER (sg_kind b)
     \<or> KIND_ORDER (sg_kind a) = KIND_ORDER (sg_kind b) \<and> sg_id a \<le> sg_id b"

definition isDismissed :: "suggestion \<Rightarrow> string list \<Rightarrow> bool" where
  "isDismissed s dismissed \<longleftrightarrow> List.member dismissed (sg_id s) \<or> List.member dismissed (kind_name (sg_kind s))"

fun optional :: "'a option \<Rightarrow> 'a list" where
  "optional None = []"
| "optional (Some x) = [x]"

definition candidates ::
    "suggest_env \<Rightarrow> guard_result \<Rightarrow> suggest_context \<Rightarrow> resolved \<Rightarrow> suggest_error + suggestion list" where
  "candidates env result context resolved =
     and_then (autoPayThresholdSuggestion result context resolved) (\<lambda>threshold.
     and_then (dailyLimitSuggestion env result context resolved) (\<lambda>daily.
     and_then (recurrenceSuggestions env result context resolved) (\<lambda>recurring.
     and_then (dormantSuggestion result context resolved) (\<lambda>dormant.
     and_then (unusualSuggestions result context resolved) (\<lambda>unusual.
       Inr (optional threshold @ optional daily @ recurring @ optional dormant @ unusual))))))"

definition suggest ::
    "suggest_env \<Rightarrow> history_record list \<Rightarrow> suggest_context \<Rightarrow> suggest_options \<Rightarrow> suggest_error + suggestion list" where
  "suggest env history context options =
     (let resolved = resolve context options; result = guard_history history context resolved in
      if \<not> gr_enough result then Inr []
      else and_then (candidates env result context resolved) (\<lambda>cs.
        Inr (js_sort compareSuggestions (filter (\<lambda>s. \<not> isDismissed s (cx_dismissed context)) cs))))"

section \<open>What an LLM may see\<close>

datatype llm_value = LStr string | LNum int | LUndefined

record llm_safe =
  ls_kind :: suggestion_kind
  ls_evidence :: evidence
  ls_proposal :: "(string \<times> llm_value) list"

text \<open>The casts read the fields of the change; a field the change does not have is \<open>undefined\<close>.\<close>

fun numericProposal :: "suggestion_kind \<Rightarrow> suggestion_change \<Rightarrow> (string \<times> llm_value) list" where
  "numericProposal Auto_Pay_Threshold change =
     [(''autoApproveLimit'', case change of Rule_Change d \<Rightarrow> LStr (dr_autoApproveLimit d) | _ \<Rightarrow> LUndefined)]"
| "numericProposal Daily_Limit change =
     (case change of
        Rule_Change d \<Rightarrow> (case dr_dailyLimit d of None \<Rightarrow> [] | Some v \<Rightarrow> [(''dailyLimit'', LStr v)])
      | _ \<Rightarrow> [])"
| "numericProposal Schedule_From_Recurrence change =
     (case change of
        Schedule_Change d \<Rightarrow> [(''amount'', LStr (sd_amount d)), (''intervalSecs'', LNum (sd_intervalSecs d)),
                              (''runs'', LNum (sd_runs d))]
      | _ \<Rightarrow> [(''amount'', LUndefined), (''intervalSecs'', LUndefined), (''runs'', LUndefined)])"
| "numericProposal Tighten_Dormant change = [(''action'', LStr ''disable_auto_pay'')]"
| "numericProposal Unusual_Payment_Alert change = [(''action'', LStr ''require_extra_confirmation'')]"

definition toLlmSafeEvidence :: "suggestion \<Rightarrow> llm_safe" where
  "toLlmSafeEvidence s =
     \<lparr>ls_kind = sg_kind s, ls_evidence = sg_evidence s,
      ls_proposal = numericProposal (sg_kind s) (sg_proposedChange s)\<rparr>"

end
