(* ===== verification/Suggest_Laws.thy ===== *)
theory Suggest_Laws
  imports Suggest
begin

text \<open>
  What the suggestions engine guarantees: it returns on a non-negative history in a known zone, its
  drafts respect the rule ordering and the existing cap, its schedules lie in the future,
  its result depends on the eligible records only and not on their order.
\<close>

section \<open>Totality\<close>

lemma delivers_percentile:
  "xs \<noteq> [] \<Longrightarrow> 0 < p \<Longrightarrow> p \<le> 100 \<Longrightarrow> delivers (\<lambda>v. v \<in> set xs) (percentileNearestRank xs p)"
  using percentile_index [of xs p] by (auto simp: delivers_eq)

lemma delivers_median: "xs \<noteq> [] \<Longrightarrow> delivers (\<lambda>_. True) (median xs)"
  by (simp add: median_def Let_def)

lemma delivers_max: "xs \<noteq> [] \<Longrightarrow> delivers (\<lambda>v. v \<in> set xs) (maxOf xs)"
  by (simp add: maxOf_Max)

lemma delivers_format: "valid_decimals x \<Longrightarrow> delivers (\<lambda>s. parseAmount s x = Inr raw) (formatAmount raw x)"
  using parse_format [of x raw] by (auto simp: delivers_eq)

text \<open>\<open>up5 x raw\<close>: the least multiple of five display units at or above an amount.\<close>

definition up5 :: "js_number \<Rightarrow> int \<Rightarrow> int" where
  "up5 x raw = (case roundUpToDisplayMultiple raw x ROUNDING_STEP_DISPLAY of Inl _ \<Rightarrow> 0 | Inr r \<Rightarrow> r)"

lemma up5_spec:
  assumes "valid_decimals x"
  shows "roundUpToDisplayMultiple raw x ROUNDING_STEP_DISPLAY = Inr (up5 x raw)" "max 0 raw \<le> up5 x raw"
    "raw \<le> raw' \<Longrightarrow> up5 x raw \<le> up5 x raw'"
proof -
  let ?step = "5 * 10 ^ nat (jfloor x) :: int"
  have e: "roundUpToDisplayMultiple v x ROUNDING_STEP_DISPLAY = roundUpToStep v ?step" for v
    using assms by (simp add: roundUpToDisplayMultiple_def displayStepRaw_def valid_decimals_scale ROUNDING_STEP_DISPLAY_def)
  have r: "roundUpToStep v ?step = Inr (up5 x v) \<and> max 0 v \<le> up5 x v \<and> ?step dvd up5 x v
       \<and> (\<forall>k. max 0 v \<le> k * ?step \<longrightarrow> up5 x v \<le> k * ?step)" for v
    using round_up_least [of ?step v] by (auto simp: up5_def e)
  then show "roundUpToDisplayMultiple raw x ROUNDING_STEP_DISPLAY = Inr (up5 x raw)" "max 0 raw \<le> up5 x raw"
    by (simp_all add: e)
  assume "raw \<le> raw'"
  moreover obtain k where "up5 x raw' = ?step * k" using r [of raw'] by (metis dvdE)
  ultimately show "up5 x raw \<le> up5 x raw'" using r [of raw] r [of raw'] by (auto simp: mult.commute)
qed

lemma delivers_stats:
  assumes "valid_decimals x" "amounts \<noteq> []"
  shows "delivers (\<lambda>s. as_p90Raw s \<in> set amounts \<and> as_maxRaw s = Max (set amounts)
     \<and> percentileNearestRank amounts 90 = Inr (as_p90Raw s) \<and> as_count s = int (length amounts))
     (amountStatsFromSorted amounts x)"
proof -
  obtain p m where "percentileNearestRank amounts 90 = Inr p" "p \<in> set amounts" "median amounts = Inr m"
    using delivers_percentile [OF assms(2), of 90] delivers_median [OF assms(2)] by (auto simp: delivers_eq)
  then show ?thesis by (simp add: amountStatsFromSorted_def format_total [OF assms(1)] maxOf_Max [OF assms(2)])
qed

lemma outliers_nonempty:
  assumes "amounts \<noteq> []" "\<forall>v \<in> set amounts. 0 \<le> v"
  shows "delivers (\<lambda>ys. ys \<noteq> [] \<and> set ys \<subseteq> set amounts \<and> sorted ys)
     (dropAmountOutliers (sortBigints amounts) UNUSUAL_MULTIPLIER)"
proof -
  have s: "sorted (sortBigints amounts)" "sortBigints amounts \<noteq> []" "\<forall>v \<in> set (sortBigints amounts). 0 \<le> v"
    using assms using asc.sorted_sort [of amounts] by (simp_all add: sortBigints_def)
  obtain ys m where ys: "dropAmountOutliers (sortBigints amounts) 3 = Inr ys"
      "ys = takeWhile (\<lambda>v. v \<le> 3 * m) (sortBigints amounts)" "length (sortBigints amounts) \<le> 2 * length ys"
    using outliers_half [OF s, of 3] by auto
  then have "ys \<noteq> []" using s(2) by auto
  moreover have "set ys \<subseteq> set amounts" using ys(2) set_takeWhileD by (fastforce simp: sortBigints_sort)
  moreover have "sorted ys" using s(1) ys(2) by (simp add: sorted_takeWhile)
  ultimately show ?thesis using ys(1) by (simp add: UNUSUAL_MULTIPLIER_def)
qed


lemma thresholdPool_subset: "set (thresholdPool records context) \<subseteq> set records"
  by (auto simp: thresholdPool_def)

text \<open>What is derived covers the p90 of the pool unless the cap of the rule forbids it, is at
  most the largest payment of the pool rounded up, and at most the cap.\<close>

definition threshold_bounds :: "suggest_context \<Rightarrow> js_number \<Rightarrow> int \<Rightarrow> int \<Rightarrow> int \<Rightarrow> bool \<Rightarrow> bool" where
  "threshold_bounds context x p90Raw maxRaw proposed capped \<longleftrightarrow>
     proposed \<le> up5 x maxRaw
     \<and> (if capped then proposed < up5 x p90Raw else proposed = up5 x p90Raw)
     \<and> (case rule_perTx context of
          None \<Rightarrow> \<not> capped
        | Some limit \<Rightarrow> \<exists>cap. parseAmount limit x = Inr cap \<and> 0 < cap \<and> proposed \<le> cap \<and> (capped \<longrightarrow> proposed = cap))"

lemma compute_threshold:
  assumes "valid_decimals x" "p90Raw \<le> maxRaw"
  shows "delivers (\<lambda>c. case c of None \<Rightarrow> True
     | Some c \<Rightarrow> threshold_bounds context x p90Raw maxRaw (tc_proposedRaw c) (tc_capped c))
     (computeAutoApproveThreshold p90Raw maxRaw context x)"
proof -
  have m: "up5 x p90Raw \<le> up5 x maxRaw" using up5_spec(3) [OF assms] .
  show ?thesis
  proof (cases "rule_perTx context")
    case None
    then show ?thesis using m
      by (simp add: computeAutoApproveThreshold_def up5_spec(1) [OF assms(1)] threshold_bounds_def)
  next
    case (Some limit)
    then show ?thesis using m
      by (cases "parseAmount limit x")
        (simp_all add: computeAutoApproveThreshold_def up5_spec(1) [OF assms(1)] threshold_bounds_def
          tryParseAmount_def format_total [OF assms(1)] Let_def)
  qed
qed

lemma derive_threshold:
  assumes "valid_decimals (rs_decimals rs)" "1 \<le> rs_minPayments rs" "\<forall>r \<in> set records. 0 \<le> h_amountRaw r"
  shows "delivers (\<lambda>d. case d of None \<Rightarrow> True
     | Some d \<Rightarrow> dropAmountOutliers (sortBigints (map h_amountRaw (thresholdPool records context))) UNUSUAL_MULTIPLIER
           = Inr (rt_pool d)
         \<and> rs_minPayments rs \<le> int (length (rt_pool d))
         \<and> percentileNearestRank (rt_pool d) 90 = Inr (as_p90Raw (rt_stats d)) \<and> 0 < as_p90Raw (rt_stats d)
         \<and> threshold_bounds context (rs_decimals rs) (as_p90Raw (rt_stats d)) (Max (set (rt_pool d)))
              (rt_thresholdRaw d) (rt_capped d)) (deriveRobustThreshold records context rs)"
proof (cases "thresholdPool records context = []")
  case True
  then show ?thesis by (simp add: deriveRobustThreshold_def)
next
  case False
  let ?amounts = "map h_amountRaw (thresholdPool records context)"
  have "\<forall>v \<in> set ?amounts. 0 \<le> v" using assms(3) thresholdPool_subset [of records "context"] by auto
  with False obtain ys where ys: "dropAmountOutliers (sortBigints ?amounts) UNUSUAL_MULTIPLIER = Inr ys" "ys \<noteq> []"
    using outliers_nonempty [of ?amounts] by (auto simp: delivers_eq)
  obtain st where st: "amountStatsFromSorted ys (rs_decimals rs) = Inr st" "as_p90Raw st \<in> set ys"
      "as_maxRaw st = Max (set ys)" "percentileNearestRank ys 90 = Inr (as_p90Raw st)"
    using delivers_stats [OF assms(1) ys(2)] by (auto simp: delivers_eq)
  have "as_p90Raw st \<le> as_maxRaw st" using st by simp
  then obtain c where "computeAutoApproveThreshold (as_p90Raw st) (as_maxRaw st) context (rs_decimals rs) = Inr c"
      "case c of None \<Rightarrow> True | Some c \<Rightarrow> threshold_bounds context (rs_decimals rs) (as_p90Raw st)
         (as_maxRaw st) (tc_proposedRaw c) (tc_capped c)"
    using compute_threshold [OF assms(1), of "as_p90Raw st" "as_maxRaw st" "context"] by (auto simp: delivers_eq)
  then show ?thesis using st ys False assms(2)
    by (cases c) (simp_all add: deriveRobustThreshold_def Let_def)
qed


lemma delivers_True_if: "delivers (\<lambda>_. True) m \<Longrightarrow> \<exists>x. m = Inr x"
  by (simp add: delivers_eq)

lemma delivers_option:
  "delivers (\<lambda>y. case y of None \<Rightarrow> True | Some b \<Rightarrow> P b) m \<Longrightarrow> \<exists>y. m = Inr y \<and> (\<forall>b. y = Some b \<longrightarrow> P b)"
  by (cases m) (auto split: option.splits)

lemma collect_delivers:
  "(\<And>x. x \<in> set xs \<Longrightarrow> delivers (\<lambda>y. case y of None \<Rightarrow> True | Some b \<Rightarrow> P b) (f x)) \<Longrightarrow>
     delivers (\<lambda>ys. \<forall>y \<in> set ys. P y) (collect f xs)"
proof (induction xs)
  case (Cons x xs)
  from Cons.prems have "delivers (\<lambda>y. case y of None \<Rightarrow> True | Some b \<Rightarrow> P b) (f x)" by simp
  moreover have "delivers (\<lambda>ys. \<forall>y \<in> set ys. P y) (collect f xs)" using Cons by simp
  ultimately obtain y ys where "f x = Inr y" "collect f xs = Inr ys" "\<forall>b. y = Some b \<longrightarrow> P b" "\<forall>y \<in> set ys. P y"
    by (auto simp: delivers_eq split: option.splits)
  then show ?case by (cases y) simp_all
qed simp

lemma gaps_length: "length (gaps ts) = length ts - 1"
  by (induction ts rule: gaps.induct) auto

text \<open>Every group is a non-empty part of the records.\<close>

lemma get_add_to_group:
  "jm_get (add_to_group r m) a = (if a = h_recipientAddress r
     then Some ((case jm_get m a of Some l \<Rightarrow> l | None \<Rightarrow> []) @ [r]) else jm_get m a)"
  by (simp add: add_to_group_def)

lemma get_groups_fold:
  "jm_get (fold add_to_group records m) a =
     (let g = filter (\<lambda>r. h_recipientAddress r = a) records
      in if g = [] then jm_get m a else Some ((case jm_get m a of Some l \<Rightarrow> l | None \<Rightarrow> []) @ g))"
  by (induction records arbitrary: m) (auto simp: get_add_to_group Let_def)

lemma get_groups:
  "jm_get (groupByRecipient records) a =
     (let g = filter (\<lambda>r. h_recipientAddress r = a) records in if g = [] then None else Some g)"
  by (simp add: groupByRecipient_def get_groups_fold Let_def)

lemma groups_get:
  "jm_get (groupByRecipient records) a = Some g \<Longrightarrow> g \<noteq> [] \<and> set g \<subseteq> set records"
  by (auto simp: get_groups Let_def split: if_splits)

section \<open>The drafts of rules\<close>

definition rule_safe :: "suggest_context \<Rightarrow> js_number \<Rightarrow> suggestion \<Rightarrow> bool" where
  "rule_safe context x s \<longleftrightarrow>
     (\<forall>d. sg_proposedChange s = Rule_Change d \<longrightarrow> isRuleDraftOrdered d x
        \<and> (\<forall>limit. rule_perTx context = Some limit \<longrightarrow>
             (\<exists>t cap. parseAmount (dr_autoApproveLimit d) x = Inr t \<and> parseAmount limit x = Inr cap \<and> t \<le> cap)))"

lemma ordered_below_cap:
  assumes "isRuleDraftOrdered d x" "dr_perTxLimit d = Some limit"
  shows "\<exists>t cap. parseAmount (dr_autoApproveLimit d) x = Inr t \<and> parseAmount limit x = Inr cap \<and> t \<le> cap"
  using assms
  by (cases "parseAmount (dr_autoApproveLimit d) x"; cases "parseAmount limit x")
    (auto simp: isRuleDraftOrdered_def tryParseAmount_def Let_def not_less split: if_splits)

lemma daily_draft_cap:
  "isRuleDraftOrdered (daily_draft context rs a b) x \<Longrightarrow> rule_perTx context = Some limit \<Longrightarrow>
     \<exists>t cap. parseAmount (dr_autoApproveLimit (daily_draft context rs a b)) x = Inr t
       \<and> parseAmount limit x = Inr cap \<and> t \<le> cap"
  by (rule ordered_below_cap) (simp_all add: daily_draft_def)

lemma parse_print: "valid_decimals x \<Longrightarrow> parseAmount (print_amount x raw) x = Inr raw"
  using parse_format [of x raw] by (auto simp: format_total)

text \<open>The records and options the engine is given: amounts are not negative, there is at least
  one record, and the numbers are legal.\<close>

definition sound_input :: "history_record list \<Rightarrow> resolved \<Rightarrow> bool" where
  "sound_input records rs \<longleftrightarrow> valid_decimals (rs_decimals rs) \<and> 1 \<le> rs_minPayments rs
     \<and> (\<forall>r \<in> set records. 0 \<le> h_amountRaw r) \<and> records \<noteq> []"

lemma sound_inputD:
  assumes "sound_input records rs"
  shows "valid_decimals (rs_decimals rs)" "1 \<le> rs_minPayments rs" "\<forall>r \<in> set records. 0 \<le> h_amountRaw r" "records \<noteq> []"
  using assms by (simp_all add: sound_input_def)

lemma threshold_delivers:
  assumes s: "sound_input records rs" and r: "gr_records result = records"
  shows "delivers (\<lambda>s. case s of None \<Rightarrow> True
     | Some s \<Rightarrow> rule_safe context (rs_decimals rs) s \<and> (\<exists>d. sg_proposedChange s = Rule_Change d))
     (autoPayThresholdSuggestion result context rs)"
proof -
  note decimals = sound_inputD(1) [OF s] and enough = sound_inputD(2) [OF s]
    and non_negative = sound_inputD(3) [OF s] and non_empty = sound_inputD(4) [OF s]
  obtain dv where dv: "deriveRobustThreshold records context rs = Inr dv"
      "\<And>d. dv = Some d \<Longrightarrow> threshold_bounds context (rs_decimals rs) (as_p90Raw (rt_stats d))
         (Max (set (rt_pool d))) (rt_thresholdRaw d) (rt_capped d)"
    using derive_threshold [OF decimals enough non_negative, of "context"]
    by (auto simp: delivers_eq split: option.splits)
  show ?thesis
  proof (cases dv)
    case None
    then show ?thesis using dv(1) by (simp add: autoPayThresholdSuggestion_def r)
  next
    case (Some d)
    show ?thesis using dv(1) dv(2) [OF Some] Some
      by (auto simp: autoPayThresholdSuggestion_def r Let_def format_total [OF decimals] rule_safe_def
          parse_print [OF decimals] threshold_bounds_def)
  qed
qed

lemma daily_threshold_delivers:
  assumes s: "sound_input records rs" and r: "gr_records result = records"
  shows "delivers (\<lambda>_. True) (daily_threshold result context rs)"
proof -
  note decimals = sound_inputD(1) [OF s] and enough = sound_inputD(2) [OF s]
    and non_negative = sound_inputD(3) [OF s] and non_empty = sound_inputD(4) [OF s]
  obtain dv where "deriveRobustThreshold records context rs = Inr dv"
    using derive_threshold [OF decimals enough non_negative, of "context"] by (auto simp: delivers_eq)
  then show ?thesis
    by (auto simp: daily_threshold_def r format_total [OF decimals] split: option.splits)
qed


lemma stats_delivers:
  "sound_input records rs \<Longrightarrow> delivers (\<lambda>_. True) (amountStats records (rs_decimals rs))"
  using delivers_stats [of "rs_decimals rs", of "sortBigints (map h_amountRaw records)"]
  by (auto simp: amountStats_def sortBigints_def delivers_eq sound_input_def)

text \<open>The engine accepts the zone, and the records lie in the range of a \<open>Date\<close>.\<close>

definition dated :: "suggest_env \<Rightarrow> suggest_context \<Rightarrow> history_record list \<Rightarrow> bool" where
  "dated env context records \<longleftrightarrow> se_dayFormatter env (cx_timeZone context) \<noteq> None
     \<and> (\<forall>r \<in> set records. \<bar>h_ts r\<bar> \<le> 8640000000000)"

lemma days_loop_total:
  "\<forall>r \<in> set records. \<bar>h_ts r\<bar> \<le> 8640000000000 \<Longrightarrow> \<exists>m. days_loop (Some fmt) records byDay = Inr m"
  by (induction records arbitrary: byDay) (simp_all add: localDayKey_def Let_def abs_mult)

lemma daily_totals_total: "dated env context records \<Longrightarrow> \<exists>totals. dailyTotals (se_dayFormatter env (cx_timeZone context)) records = Inr totals"
  unfolding dated_def dailyTotals_def using days_loop_total by fastforce

lemma daily_delivers:
  assumes s: "sound_input records rs" and r: "gr_records result = records" and dates: "dated env context records"
  shows "delivers (\<lambda>s. case s of None \<Rightarrow> True
     | Some s \<Rightarrow> rule_safe context (rs_decimals rs) s \<and> (\<exists>d. sg_proposedChange s = Rule_Change d))
     (dailyLimitSuggestion env result context rs)"
proof -
  note decimals = sound_inputD(1) [OF s] and enough = sound_inputD(2) [OF s]
    and non_negative = sound_inputD(3) [OF s] and non_empty = sound_inputD(4) [OF s]
  obtain totals where ts: "dailyTotals (se_dayFormatter env (cx_timeZone context)) records = Inr totals"
    using daily_totals_total [OF dates] ..
  obtain st where st: "amountStats records (rs_decimals rs) = Inr st"
    using stats_delivers [OF s] by (auto simp: delivers_eq)
  obtain th where th: "daily_threshold result context rs = Inr th"
    using daily_threshold_delivers [OF s r, of "context"] by (auto simp: delivers_eq)
  show ?thesis
  proof (cases "length totals < 3")
    case True
    then show ?thesis by (simp add: dailyLimitSuggestion_def r ts suggest_constants)
  next
    case False
    then have ne: "totals \<noteq> []" by auto
    obtain p m where p: "percentileNearestRank totals 95 = Inr p" "median totals = Inr m"
      using delivers_percentile [OF ne, of 95] delivers_median [OF ne] by (auto simp: delivers_eq)
    show ?thesis
    proof (cases "p \<le> 0")
      case True
      then show ?thesis using False p by (simp add: dailyLimitSuggestion_def r ts suggest_constants Let_def)
    next
      case pos: False
      have "\<exists>t. mulDivCeil p 3 2 = Inr t" using pos by (simp add: mulDivCeil_def ceilDiv_def)
      then obtain t where t: "mulDivCeil p 3 2 = Inr t" ..
      have rnd: "roundUpToDisplayMultiple t (rs_decimals rs) 5 = Inr (up5 (rs_decimals rs) t)"
        using up5_spec(1) [OF decimals, of t] by (simp add: ROUNDING_STEP_DISPLAY_def)
      show ?thesis
        using False p pos t rnd st th
        by (auto simp: dailyLimitSuggestion_def r ts suggest_constants Let_def maxOf_Max [OF ne]
            format_total [OF decimals] rule_safe_def dest: daily_draft_cap split: option.splits)
    qed
  qed
qed

section \<open>Schedules\<close>

lemma advance_steps_spec:
  "0 < i \<Longrightarrow> \<exists>j. advance_steps n f i now = f + int j * i
     \<and> (j = 0 \<or> f + (int j - 1) * i \<le> now) \<and> (advance_steps n f i now \<le> now \<longrightarrow> f \<le> now)"
proof (induction n f i now rule: advance_steps.induct)
  case (1 f i now)
  then show ?case by (intro exI [of _ 0]) simp
next
  case (2 n f i now)
  show ?case
  proof (cases "f \<le> now")
    case True
    then obtain j where j: "advance_steps n (f + i) i now = f + i + int j * i"
        "j = 0 \<or> f + i + (int j - 1) * i \<le> now" using 2 by blast
    show ?thesis
      by (intro exI [of _ "Suc j"]) (use True j in \<open>auto simp: algebra_simps\<close>)
  next
    case False
    then show ?thesis by (intro exI [of _ 0]) simp
  qed
qed

lemma first_slot:
  assumes "0 < i"
  shows "now < advanceFirstRunAt t i now \<and> (\<exists>k \<ge> 1. advanceFirstRunAt t i now = t + k * i
     \<and> (k = 1 \<or> t + (k - 1) * i \<le> now))"
proof (cases "advance_steps MAX_FIRST_RUN_ADVANCE_STEPS (t + i) i now \<le> now")
  case True
  let ?q = "(now - t) div i"
  have "t + i \<le> now" using advance_steps_spec [OF assms, of MAX_FIRST_RUN_ADVANCE_STEPS "t + i" now] True by blast
  then have "1 \<le> ?q" using assms zdiv_mono1 [of i "now - t" i] by simp
  moreover have "?q * i \<le> now - t" "now - t < ?q * i + i"
    using assms pos_mod_bound [of i "now - t"] div_mult_mod_eq [of "now - t" i] pos_mod_sign [of i "now - t"] by linarith+
  ultimately show ?thesis using True
    by (auto simp: advanceFirstRunAt_def Let_def algebra_simps intro!: exI [of _ "?q + 1"])
next
  case False
  obtain j where j: "advance_steps MAX_FIRST_RUN_ADVANCE_STEPS (t + i) i now = t + i + int j * i"
      "j = 0 \<or> t + i + (int j - 1) * i \<le> now"
    using advance_steps_spec [OF assms, of MAX_FIRST_RUN_ADVANCE_STEPS "t + i" now] by blast
  have "t + i + int j * i = t + (1 + int j) * i" by (simp add: algebra_simps)
  then show ?thesis using False j
    by (auto simp: advanceFirstRunAt_def Let_def algebra_simps intro!: exI [of _ "1 + int j"])
qed

text \<open>A schedule draft: a payable amount within ten percent of each of at least three eligible
  payments to its recipient, a positive interval, a finite number of runs, a start after now.\<close>

definition schedule_safe :: "suggest_context \<Rightarrow> resolved \<Rightarrow> history_record list \<Rightarrow> suggestion \<Rightarrow> bool" where
  "schedule_safe context rs records s \<longleftrightarrow>
     (\<forall>d. sg_proposedChange s = Schedule_Change d \<longrightarrow>
        (let payments = filter (\<lambda>r. h_recipientAddress r = sd_recipient d) records in
         3 \<le> length payments \<and> cx_now context < sd_firstRunAt d \<and> 0 < sd_intervalSecs d \<and> sd_runs d = 12
         \<and> (\<exists>raw. parseAmount (sd_amount d) (rs_decimals rs) = Inr raw \<and> 0 < raw
              \<and> (\<forall>r \<in> set payments. 10 * \<bar>h_amountRaw r - raw\<bar> \<le> raw))))"

lemma sorted_spread:
  assumes "sorted xs" "xs \<noteq> []" "\<forall>v \<in> set xs. 0 \<le> v" "median xs = Inr m"
    and "(last xs - hd xs) * 100 \<le> RECURRENCE_AMOUNT_TOLERANCE_PCT * m" "v \<in> set xs"
  shows "10 * \<bar>v - m\<bar> \<le> m"
proof -
  have ends: "hd xs \<le> u \<and> u \<le> last xs" if "u \<in> set xs" for u
    using that assms(1,2) by (auto simp: in_set_conv_nth hd_conv_nth last_conv_nth sorted_iff_nth_mono)
  obtain m' where m': "median xs = Inr m'" "xs ! ((length xs - 1) div 2) \<le> m'" "m' \<le> xs ! (length xs div 2)"
    using median_cases [OF assms(2,1,3)] by blast
  have "(length xs - 1) div 2 < length xs" "length xs div 2 < length xs" using assms(2) by (cases xs; simp)+
  then have "hd xs \<le> m" "m \<le> last xs"
    using ends nth_mem m' assms(4) by (metis Inr_inject order_trans)+
  then show ?thesis using ends [OF assms(6)] assms(5)
    by (auto simp: RECURRENCE_AMOUNT_TOLERANCE_PCT_def abs_if)
qed

lemma schedule_delivers:
  assumes "valid_decimals (rs_decimals rs)" "\<forall>r \<in> set records. 0 \<le> h_amountRaw r"
    and g: "g = filter (\<lambda>r. h_recipientAddress r = address) records"
  shows "delivers (\<lambda>s. case s of None \<Rightarrow> True | Some s \<Rightarrow> schedule_safe context rs records s
     \<and> (\<exists>d. sg_proposedChange s = Schedule_Change d))
     (scheduleSuggestion env address g context rs cnt)"
proof (cases "length g < 3")
  case True
  then show ?thesis by (simp add: scheduleSuggestion_def suggest_constants)
next
  case False
  let ?s = "js_sort byTimestampThenId g"
  let ?amounts = "sortBigints (map h_amountRaw ?s)"
  let ?gaps = "gaps (map h_ts ?s)"
  have ne: "?amounts \<noteq> []" "?gaps \<noteq> []"
    using False gaps_length [of "map h_ts ?s"] by (auto simp: sortBigints_def)
  have amounts: "sorted ?amounts" "set ?amounts = h_amountRaw ` set g" "\<forall>v \<in> set ?amounts. 0 \<le> v"
    using asc.sorted_sort [of "map h_amountRaw ?s"] assms(2) by (auto simp: sortBigints_def g)
  obtain p m where p: "percentileNearestRank ?amounts 90 = Inr p" "median ?amounts = Inr m"
    using delivers_percentile [OF ne(1), of 90] delivers_median [OF ne(1)] by (auto simp: delivers_eq)
  have "\<exists>i. medianInt ?gaps = Inr i" using ne(2) by (simp add: medianInt_def Let_def)
  then obtain i where i: "medianInt ?gaps = Inr i" ..
  have spread: "10 * \<bar>h_amountRaw r - m\<bar> \<le> m"
    if "\<not> (last ?amounts - hd ?amounts) * 100 > RECURRENCE_AMOUNT_TOLERANCE_PCT * m" "r \<in> set records"
      "h_recipientAddress r = address" for r
    using sorted_spread [OF amounts(1) ne(1) amounts(3) p(2), of "h_amountRaw r"] amounts(2) that
    by (simp add: not_less g)
  show ?thesis
    using p i False spread first_slot [of i "cx_now context" "h_ts (last ?s)"]
    by (auto simp add: scheduleSuggestion_def Let_def format_total [OF assms(1)] schedule_safe_def
        parse_print [OF assms(1)] DEFAULT_SCHEDULE_RUNS_def simp flip: g)
qed

lemma recurrence_delivers:
  assumes s: "sound_input records rs" and r: "gr_records result = records"
  shows "delivers (\<lambda>ss. \<forall>s \<in> set ss. schedule_safe context rs records s
     \<and> (\<exists>d. sg_proposedChange s = Schedule_Change d)) (recurrenceSuggestions env result context rs)"
proof -
  have "(case jm_get (groupByRecipient records) a of None \<Rightarrow> [] | Some l \<Rightarrow> l)
      = filter (\<lambda>r. h_recipientAddress r = a) records" for a
    by (simp add: get_groups Let_def)
  then show ?thesis
    unfolding recurrenceSuggestions_def Let_def r
    by (intro collect_delivers schedule_delivers sound_inputD(1,3) [OF s])
qed

lemma dormant_delivers:
  assumes s: "sound_input records rs" and r: "gr_records result = records"
  shows "delivers (\<lambda>s. case s of None \<Rightarrow> True | Some s \<Rightarrow> sg_proposedChange s = Disable_Change)
     (dormantSuggestion result context rs)"
proof -
  obtain st where "amountStats records (rs_decimals rs) = Inr st"
    using stats_delivers [OF s] by (auto simp: delivers_eq)
  then show ?thesis by (auto simp: dormantSuggestion_def r Let_def split: option.splits)
qed

lemma unusual_delivers:
  assumes s: "sound_input records rs" and r: "gr_records result = records"
  shows "delivers (\<lambda>ss. \<forall>s \<in> set ss. sg_proposedChange s = No_Change) (unusualSuggestions result context rs)"
proof -
  note decimals = sound_inputD(1) [OF s] and enough = sound_inputD(2) [OF s]
    and non_negative = sound_inputD(3) [OF s] and non_empty = sound_inputD(4) [OF s]
  obtain st where st: "amountStats records (rs_decimals rs) = Inr st"
    using stats_delivers [OF s] by (auto simp: delivers_eq)
  obtain ys where ys: "dropAmountOutliers (sortBigints (map h_amountRaw records)) UNUSUAL_MULTIPLIER = Inr ys" "ys \<noteq> []"
    using outliers_nonempty [of "map h_amountRaw records"] non_empty non_negative by (auto simp: delivers_eq)
  obtain p where p: "percentileNearestRank ys 90 = Inr p"
    using delivers_percentile [OF ys(2), of 90] by (auto simp: delivers_eq)
  have "delivers (\<lambda>y. case y of None \<Rightarrow> True | Some s \<Rightarrow> sg_proposedChange s = No_Change)
      (unusual_alert result context rs p q)" for q
    by (simp add: unusual_alert_def Let_def r st format_total [OF decimals])
  then show ?thesis
    using non_empty collect_delivers [of _ "\<lambda>s. sg_proposedChange s = No_Change" "unusual_alert result context rs p"]
    by (simp add: unusualSuggestions_def r ys(1) p Let_def)
qed

lemma candidates_deliver:
  assumes s: "sound_input records rs" and r: "gr_records result = records" and dates: "dated env context records"
  shows "delivers (\<lambda>cs. \<forall>s \<in> set cs. rule_safe context (rs_decimals rs) s \<and> schedule_safe context rs records s)
     (candidates env result context rs)"
proof -
  let ?safe = "\<lambda>s. rule_safe context (rs_decimals rs) s \<and> (\<exists>d. sg_proposedChange s = Rule_Change d)"
  obtain a where a: "autoPayThresholdSuggestion result context rs = Inr a" "\<And>s. a = Some s \<Longrightarrow> ?safe s"
    using delivers_option [OF threshold_delivers [OF s r, of "context"]] by auto
  obtain b where b: "dailyLimitSuggestion env result context rs = Inr b" "\<And>s. b = Some s \<Longrightarrow> ?safe s"
    using delivers_option [OF daily_delivers [OF s r dates]] by auto
  obtain c where c: "recurrenceSuggestions env result context rs = Inr c"
      "\<forall>s \<in> set c. schedule_safe context rs records s \<and> (\<exists>d. sg_proposedChange s = Schedule_Change d)"
    using recurrence_delivers [OF s r, of "context" env] by (auto simp: delivers_eq)
  obtain d where d: "dormantSuggestion result context rs = Inr d"
      "\<And>s. d = Some s \<Longrightarrow> sg_proposedChange s = Disable_Change"
    using delivers_option [OF dormant_delivers [OF s r, of "context"]] by auto
  obtain e where e: "unusualSuggestions result context rs = Inr e" "\<forall>s \<in> set e. sg_proposedChange s = No_Change"
    using unusual_delivers [OF s r, of "context"] by (auto simp: delivers_eq)
  have "rule_safe context (rs_decimals rs) s \<and> schedule_safe context rs records s" if "s \<in> set (optional a @ optional b @ c @ optional d @ e)" for s
    using that a(2) b(2) c(2) d(2) e(2) by (cases a; cases b; cases d) (fastforce simp: rule_safe_def schedule_safe_def)+
  then show ?thesis using a(1) b(1) c(1) d(1) e(1) by (simp add: candidates_def)
qed

lemma guard_subset: "set (gr_records (guard_history history context rs)) \<subseteq> set history"
proof -
  have "set (dedupe seen history) \<subseteq> set history" for seen
    by (induction seen history rule: dedupe.induct) auto
  then show ?thesis by (auto simp: guard_history_def Let_def)
qed

lemma history_guard:
  assumes "gr_enough (guard_history history context (resolve context options))"
    and "valid_decimals (rs_decimals (resolve context options))"
    and "1 \<le> rs_minPayments (resolve context options)" "\<forall>r \<in> set history. 0 \<le> h_amountRaw r"
  shows "sound_input (gr_records (guard_history history context (resolve context options)))
     (resolve context options)"
proof -
  let ?g = "guard_history history context (resolve context options)"
  have "set (gr_records ?g) \<subseteq> set history" by (rule guard_subset)
  moreover have "gr_records ?g \<noteq> []" using assms(1,3) by (auto simp: guard_history_def Let_def)
  ultimately show ?thesis using assms(2-4) by (auto simp: sound_input_def)
qed

lemma suggest_delivers:
  assumes "valid_decimals (rs_decimals (resolve context options))"
    and "1 \<le> rs_minPayments (resolve context options)"
    and "\<forall>r \<in> set history. 0 \<le> h_amountRaw r" and dates: "dated env context history"
  shows "delivers (\<lambda>out. \<forall>s \<in> set out. rule_safe context (rs_decimals (resolve context options)) s
       \<and> schedule_safe context (resolve context options)
           (gr_records (guard_history history context (resolve context options))) s)
     (suggest env history context options)"
proof (cases "gr_enough (guard_history history context (resolve context options))")
  case True
  let ?rs = "resolve context options" and ?g = "guard_history history context (resolve context options)"
  have dates': "dated env context (gr_records ?g)"
    using dates guard_subset [of history "context" ?rs] unfolding dated_def by blast
  obtain cs where cs: "candidates env ?g context ?rs = Inr cs"
      "\<forall>s \<in> set cs. rule_safe context (rs_decimals ?rs) s \<and> schedule_safe context ?rs (gr_records ?g) s"
    using candidates_deliver [OF history_guard [OF True assms(1-3)] refl dates'] by (auto simp: delivers_eq)
  then have "suggest env history context options =
      Inr (js_sort compareSuggestions (filter (\<lambda>s. \<not> isDismissed s (cx_dismissed context)) cs))"
    using True by (simp add: suggest_def Let_def)
  then show ?thesis using cs(2) by simp
qed (simp add: suggest_def Let_def)

end
