(* ===== verification/Suggest_Order.thy ===== *)
theory Suggest_Order
  imports Suggest_Laws
begin

text \<open>
  The suggestions engine is a function of the multiset of eligible records: neither their order nor
  any other record matters, as long as the ids are distinct.
\<close>

section \<open>Aggregates\<close>

lemma math_max_Max: "xs \<noteq> [] \<Longrightarrow> math_max xs = Max (set xs)"
  using Max.set_eq_fold [of "hd xs" xs] by (simp add: math_max_def insert_absorb)

lemma sortBigints_mset: "mset xs = mset ys \<Longrightarrow> sortBigints xs = sortBigints ys"
  unfolding sortBigints_def by (rule asc.sort_mset)

lemma mset_map_eq: "mset xs = mset ys \<Longrightarrow> mset (map f xs) = mset (map f ys)"
  by simp

lemma mset_filter_eq: "mset xs = mset ys \<Longrightarrow> mset (filter P xs) = mset (filter P ys)"
  by simp

lemma mset_Nil_iff: "mset xs = mset ys \<Longrightarrow> xs = [] \<longleftrightarrow> ys = []"
  by auto

lemma fold_less: "fold (\<lambda>t m. if t < m then t else m) xs a = fold min xs (a :: int)"
  by (induction xs arbitrary: a) (auto simp: min_def not_less)

lemma fold_greater: "fold (\<lambda>t m. if t > m then t else m) xs a = fold max xs (a :: int)"
  by (induction xs arbitrary: a) (auto simp: max_def not_less)

lemma fold_min_Min: "xs \<noteq> [] \<Longrightarrow> fold min xs (hd xs) = Min (set (xs :: int list))"
  using Min.set_eq_fold [of "hd xs" xs] by (simp add: insert_absorb)

lemma fold_max_Max: "xs \<noteq> [] \<Longrightarrow> fold max xs (hd xs) = Max (set (xs :: int list))"
  using Max.set_eq_fold [of "hd xs" xs] by (simp add: insert_absorb)

lemma spanDays_Max_Min:
  "spanDays records = (if length records < 2 then 0
     else (Max (set (map h_ts records)) - Min (set (map h_ts records))) div DAY_SECONDS)"
proof (cases "length records < 2")
  case False
  then have ne: "map h_ts records \<noteq> []" by auto
  show ?thesis using False
    by (simp only: spanDays_def Let_def fold_less fold_greater fold_min_Min [OF ne] fold_max_Max [OF ne] if_False)
qed (simp add: spanDays_def)

lemma spanDays_mset: "mset xs = mset ys \<Longrightarrow> spanDays xs = spanDays ys"
proof -
  assume e: "mset xs = mset ys"
  have "set (map h_ts xs) = set (map h_ts ys)" using mset_eq_setD [OF mset_map_eq [OF e]] .
  then show ?thesis using mset_eq_length [OF e] by (simp only: spanDays_Max_Min)
qed

text \<open>The values of a map with distinct keys are determined by what it looks up.\<close>

lemma values_mset: "jm_wf m \<Longrightarrow> mset (map snd m) = image_mset (\<lambda>k. the (jm_get m k)) (mset_set (dom (jm_get m)))"
proof -
  assume w: "jm_wf m"
  have "mset_set (dom (jm_get m)) = mset (map fst m)"
    using w mset_set_set [of "jm_keys m"] jm_keys_dom [of m] by (simp add: jm_wf_def jm_keys_def)
  moreover have "map snd m = map (\<lambda>k. the (jm_get m k)) (map fst m)"
    using jm_get_mem [OF w] by (auto simp: map_eq_conv)
  ultimately show ?thesis by (metis mset_map)
qed

lemma values_eq:
  assumes "jm_wf m" "jm_wf m'" "jm_get m = jm_get m'"
  shows "mset (map snd m) = mset (map snd m')"
  by (simp only: values_mset [OF assms(1)] values_mset [OF assms(2)] assms(3))

text \<open>Where no key fails the loop adds every record to its day; which error a failing key gives does not
  depend on the record.\<close>

definition add_day :: "(int \<Rightarrow> (string \<times> string) list) \<Rightarrow> history_record \<Rightarrow> (string, int) js_map \<Rightarrow> (string, int) js_map" where
  "add_day f r m = add_to_day (day_key (f (h_ts r * 1000))) r m"

lemma days_loop_eq:
  "days_loop formatter records byDay =
     (case formatter of
        None \<Rightarrow> if records = [] then Inr byDay else Inl Invalid_Time_Zone
      | Some f \<Rightarrow> if \<forall>r \<in> set records. \<bar>h_ts r\<bar> \<le> 8640000000000 then Inr (fold (add_day f) records byDay) else Inl Invalid_Time_Value)"
  by (induction formatter records byDay rule: days_loop.induct)
    (auto simp: localDayKey_def Let_def add_day_def split: option.splits)

lemma wf_days: "jm_wf m \<Longrightarrow> jm_wf (fold (add_day f) records m)"
  by (induction records arbitrary: m) (auto simp: add_day_def add_to_day_def jm_wf_set)

lemma get_days:
  "jm_get (fold (add_day f) records m) k =
     (let rs = filter (\<lambda>r. day_key (f (h_ts r * 1000)) = k) records
      in if rs = [] then jm_get m k
         else Some ((case jm_get m k of Some v \<Rightarrow> v | None \<Rightarrow> 0) + sum_list (map h_amountRaw rs)))"
  by (induction records arbitrary: m) (auto simp: add_day_def add_to_day_def Let_def)

lemma dailyTotals_mset: "mset xs = mset ys \<Longrightarrow> dailyTotals formatter xs = dailyTotals formatter ys"
proof -
  assume e: "mset xs = mset ys"
  have "jm_get (fold (add_day f) xs []) = jm_get (fold (add_day f) ys [])" for f
  proof
    fix k
    have m: "mset (filter (\<lambda>r. day_key (f (h_ts r * 1000)) = k) xs) = mset (filter (\<lambda>r. day_key (f (h_ts r * 1000)) = k) ys)"
      using e by simp
    then have "sum_list (map h_amountRaw (filter (\<lambda>r. day_key (f (h_ts r * 1000)) = k) xs))
        = sum_list (map h_amountRaw (filter (\<lambda>r. day_key (f (h_ts r * 1000)) = k) ys))"
      using sum_mset_sum_list [symmetric] mset_map_eq [OF m, of h_amountRaw] by (simp only: sum_mset_sum_list [symmetric])
    then show "jm_get (fold (add_day f) xs []) k = jm_get (fold (add_day f) ys []) k"
      using mset_Nil_iff [OF m] by (simp add: get_days Let_def)
  qed
  then have "sortBigints (map snd (fold (add_day f) xs [])) = sortBigints (map snd (fold (add_day f) ys []))" for f
    by (intro sortBigints_mset values_eq wf_days) simp_all
  moreover have "set xs = set ys" using e by (rule mset_eq_setD)
  moreover have "xs = [] \<longleftrightarrow> ys = []" by (rule mset_Nil_iff [OF e])
  ultimately show ?thesis by (auto simp: dailyTotals_def days_loop_eq split: option.split)
qed

section \<open>Sorting by time and id\<close>

interpretation by_time: comparator byTimestampThenId
  using lex_comparator [of h_ts h_id] unfolding byTimestampThenId_def [abs_def] by simp

lemma by_time_sort:
  assumes "mset xs = mset ys" "inj_on h_id (set xs)"
  shows "js_sort byTimestampThenId xs = js_sort byTimestampThenId ys"
  using assms(1)
proof (rule by_time.sort_perm)
  fix x y assume "x \<in> set xs" "y \<in> set xs" "byTimestampThenId x y" "byTimestampThenId y x"
  then show "x = y" using inj_onD [OF assms(2)] by (auto simp: byTimestampThenId_def)
qed


section \<open>The suggestions\<close>

text \<open>Two guard results with the same records in another order.\<close>

definition same_records :: "guard_result \<Rightarrow> guard_result \<Rightarrow> bool" where
  "same_records g g' \<longleftrightarrow> mset (gr_records g) = mset (gr_records g') \<and> gr_count g = gr_count g'
     \<and> gr_spanDays g = gr_spanDays g' \<and> inj_on h_id (set (gr_records g))"

lemma same_recordsD:
  assumes "same_records g g'"
  shows "mset (gr_records g) = mset (gr_records g')" "gr_count g = gr_count g'" "gr_spanDays g = gr_spanDays g'"
    "inj_on h_id (set (gr_records g))" "gr_records g = [] \<longleftrightarrow> gr_records g' = []"
  using assms mset_Nil_iff by (auto simp: same_records_def)

lemma amountStats_mset: "mset xs = mset ys \<Longrightarrow> amountStats xs x = amountStats ys x"
  using sortBigints_mset [OF mset_map_eq, of xs ys h_amountRaw] by (simp add: amountStats_def)

lemma derive_mset:
  assumes "mset xs = mset ys"
  shows "deriveRobustThreshold xs context rs = deriveRobustThreshold ys context rs"
proof -
  have p: "mset (thresholdPool xs context) = mset (thresholdPool ys context)"
    using assms by (simp add: thresholdPool_def)
  show ?thesis
    unfolding deriveRobustThreshold_def Let_def
    by (simp only: sortBigints_mset [OF mset_map_eq [OF p]] mset_Nil_iff [OF p])
qed

lemma threshold_same:
  assumes s: "same_records g g'"
  shows "autoPayThresholdSuggestion g context rs = autoPayThresholdSuggestion g' context rs"
  unfolding autoPayThresholdSuggestion_def
  by (simp only: derive_mset [OF same_recordsD(1) [OF s]] same_recordsD(3) [OF s])

lemma daily_same:
  assumes s: "same_records g g'"
  shows "dailyLimitSuggestion env g context rs = dailyLimitSuggestion env g' context rs"
  unfolding dailyLimitSuggestion_def daily_threshold_def
  by (simp only: derive_mset [OF same_recordsD(1) [OF s]] same_recordsD(3) [OF s]
      amountStats_mset [OF same_recordsD(1) [OF s]] dailyTotals_mset [OF same_recordsD(1) [OF s]])

lemma last_used_mset: "mset xs = mset ys \<Longrightarrow> last_used xs context = last_used ys context"
proof -
  assume e: "mset xs = mset ys"
  let ?u = "\<lambda>xs. filter (\<lambda>r. h_route r = Route_Pay_Executor) xs"
  have m: "mset (?u xs) = mset (?u ys)" using e by simp
  have "math_max (map h_ts (?u xs)) = math_max (map h_ts (?u ys))" if "?u xs \<noteq> []"
  proof -
    have "map h_ts (?u xs) \<noteq> []" "map h_ts (?u ys) \<noteq> []" using that mset_Nil_iff [OF m] by simp_all
    then show ?thesis
      using mset_eq_setD [OF mset_map_eq [OF m, of h_ts]] by (metis math_max_Max)
  qed
  then have "(if ?u xs \<noteq> [] then Some (math_max (map h_ts (?u xs))) else None)
      = (if ?u ys \<noteq> [] then Some (math_max (map h_ts (?u ys))) else None)"
    using mset_Nil_iff [OF m] by auto
  then show ?thesis unfolding last_used_def Let_def by (simp only:)
qed

lemma dormant_same:
  assumes s: "same_records g g'"
  shows "dormantSuggestion g context rs = dormantSuggestion g' context rs"
  unfolding dormantSuggestion_def
  by (simp only: last_used_mset [OF same_recordsD(1) [OF s]]
      amountStats_mset [OF same_recordsD(1) [OF s]])

lemma unusual_same: "same_records g g' \<Longrightarrow> unusualSuggestions g context rs = unusualSuggestions g' context rs"
proof -
  assume s: "same_records g g'"
  note m = same_recordsD(1) [OF s]
  have a: "unusual_alert g context rs b = unusual_alert g' context rs b" for b
    by (rule ext) (simp only: unusual_alert_def amountStats_mset [OF m])
  have f: "js_sort byTimestampThenId (filter P (gr_records g)) = js_sort byTimestampThenId (filter P (gr_records g'))" for P
    using same_recordsD(4) [OF s] by (intro by_time_sort mset_filter_eq [OF m]) (auto intro: inj_on_subset)
  show ?thesis
    unfolding unusualSuggestions_def Let_def
    by (simp only: a f sortBigints_mset [OF mset_map_eq [OF m]] same_recordsD(5) [OF s])
qed

lemma schedule_mset:
  assumes "mset xs = mset ys" "inj_on h_id (set xs)"
  shows "scheduleSuggestion env a xs context rs n = scheduleSuggestion env a ys context rs n"
  unfolding scheduleSuggestion_def by (simp only: by_time_sort [OF assms] mset_eq_length [OF assms(1)])

lemma groups_wf: "jm_wf (groupByRecipient records)"
proof -
  have "jm_wf m \<Longrightarrow> jm_wf (fold add_to_group records m)" for m
    by (induction records arbitrary: m) (auto simp: add_to_group_def jm_wf_set)
  then show ?thesis by (simp add: groupByRecipient_def)
qed

lemma recurrence_same: "same_records g g' \<Longrightarrow> recurrenceSuggestions env g context rs = recurrenceSuggestions env g' context rs"
proof -
  assume s: "same_records g g'"
  note m = same_recordsD(1) [OF s]
  let ?G = "\<lambda>g. groupByRecipient (gr_records g)" and ?f = "\<lambda>g a. filter (\<lambda>r. h_recipientAddress r = a) (gr_records g)"
  have group: "(case jm_get (?G g) a of None \<Rightarrow> [] | Some l \<Rightarrow> l) = ?f g a" for g a
    by (simp add: get_groups Let_def)
  have nil: "?f g a = [] \<longleftrightarrow> ?f g' a = []" for a
    by (rule mset_Nil_iff) (rule mset_filter_eq [OF m])
  have dom: "set (jm_keys (?G g)) = set (jm_keys (?G g'))"
    using nil by (auto simp: jm_keys_dom get_groups Let_def split: if_splits)
  have keys: "js_sort (\<lambda>a b. a \<le> b) (jm_keys (?G g)) = js_sort (\<lambda>a b. a \<le> b) (jm_keys (?G g'))"
    using dom groups_wf by (intro asc.sort_mset) (simp add: set_eq_iff_mset_eq_distinct jm_wf_def)
  have sch: "scheduleSuggestion env a (?f g a) context rs n = scheduleSuggestion env a (?f g' a) context rs n" for a n
    using same_recordsD(4) [OF s] by (intro schedule_mset mset_filter_eq [OF m]) (auto intro: inj_on_subset)
  show ?thesis
    unfolding recurrenceSuggestions_def Let_def by (simp only: group keys sch same_recordsD(2) [OF s])
qed

lemma candidates_same:
  assumes s: "same_records g g'"
  shows "candidates env g context rs = candidates env g' context rs"
  unfolding candidates_def
  by (simp only: threshold_same [OF s] daily_same [OF s] recurrence_same [OF s] dormant_same [OF s] unusual_same [OF s])

lemma dedupe_distinct: "distinct (map h_id rs) \<Longrightarrow> set (map h_id rs) \<inter> set seen = {} \<Longrightarrow> dedupe seen rs = rs"
  by (induction seen rs rule: dedupe.induct) auto

text \<open>The oldest timestamp of the window.\<close>

definition window_start :: "suggest_context \<Rightarrow> suggest_options \<Rightarrow> int" where
  "window_start context options = cx_now context - rs_windowDays (resolve context options) * DAY_SECONDS"

lemma guard_same:
  assumes "distinct (map h_id history)" "distinct (map h_id history')"
    and m: "mset (filter (eligible context (window_start context options)) history)
       = mset (filter (eligible context (window_start context options)) history')"
  shows "same_records (guard_history history context (resolve context options))
       (guard_history history' context (resolve context options))
     \<and> gr_enough (guard_history history context (resolve context options))
       = gr_enough (guard_history history' context (resolve context options))"
proof -
  have d: "dedupe [] history = history" "dedupe [] history' = history'" using assms(1,2) by (simp_all add: dedupe_distinct)
  have "inj_on h_id (set (filter (eligible context (window_start context options)) history))"
    using assms(1) by (auto simp: distinct_map intro: inj_on_subset)
  then show ?thesis
    using m mset_eq_length [OF m] spanDays_mset [OF m]
    by (simp add: same_records_def guard_history_def Let_def d window_start_def)
qed

end
