(* ===== verification/Suggest_Props.thy ===== *)
theory Suggest_Props
  imports Suggest_Order
begin

text \<open>
  Properties of the suggestions engine built on the laws: what a threshold may be, when a schedule
  starts, what a dismissal does, and what the payload for an LLM cannot depend on.
\<close>

section \<open>Examples\<close>

text \<open>A zone whose days are those of UTC, and a payment of \<open>raw\<close> on day \<open>n\<close>.\<close>

definition example_env :: suggest_env where
  "example_env = \<lparr>se_dayFormatter = (\<lambda>zone. if zone = ''UTC'' then Some (\<lambda>ms. [(''day'', show_int (ms div 86400000))]) else None),
     se_quotient = (\<lambda>a b. of_int a / of_int b), se_fixed1 = (\<lambda>q. show_int \<lfloor>q\<rfloor>)\<rparr>"

definition example_payment :: "nat \<Rightarrow> int \<Rightarrow> history_record" where
  "example_payment n raw = \<lparr>h_id = dec_digits n, h_ts = 86400 * int n, h_recipientAddress = ''G'' @ dec_digits (n mod 3),
     h_recipientAlias = None, h_asset = ''USDC'', h_amountRaw = raw, h_mode = Mode_Public,
     h_route = Route_Pay_Owner, h_status = Confirmed\<rparr>"

definition example_history :: "history_record list" where
  "example_history = map (\<lambda>n. example_payment n 20) [1, 2, 3, 4, 5, 6, 7, 8, 9, 10] @ [example_payment 11 60]"

definition example_context :: suggest_context where
  "example_context = \<lparr>cx_now = 1000000, cx_timeZone = ''UTC'', cx_rule = None, cx_autoPayEnabled = False,
     cx_autoPayEnabledSince = None, cx_lastAutoPayUse = None, cx_knownContacts = [], cx_dismissed = [],
     cx_assetDecimals = Some (jint 0), cx_displayAsset = ''USDC''\<rparr>"

definition no_options :: suggest_options where
  "no_options = \<lparr>so_windowDays = None, so_minPayments = None, so_minSpanDays = None\<rparr>"

lemma example_resolved: "valid_decimals (rs_decimals (resolve example_context no_options))"
    "1 \<le> rs_minPayments (resolve example_context no_options)"
  unfolding valid_decimals_def
  by (auto simp: resolve_def example_context_def no_options_def or_default_def DEFAULT_MIN_PAYMENTS_def intro: exI [of _ 0])

lemma example_amounts: "\<forall>r \<in> set example_history. 0 \<le> h_amountRaw r"
  by (simp add: example_history_def example_payment_def)

section \<open>The engine as a whole\<close>

text \<open>C18: The engine returns, and its rule drafts are safe.  With a legal number of decimals, a positive
  minimum of payments, a time zone the engine of the language accepts and a history without negative
  amounts and without times outside the range of a \<open>Date\<close>, whatever strings the current rule holds,
  \<open>suggest\<close> returns a list; every rule it proposes satisfies the ordering the contract demands, and
  under an existing per-payment cap the proposed automatic limit parses to at most that cap.\<close>

theorem suggest_drafts_safe:
  assumes "valid_decimals (rs_decimals (resolve context options))"
    and "1 \<le> rs_minPayments (resolve context options)"
    and "\<forall>r \<in> set history. 0 \<le> h_amountRaw r \<and> \<bar>h_ts r\<bar> \<le> 8640000000000"
    and "se_dayFormatter env (cx_timeZone context) \<noteq> None"
  shows "\<exists>out. suggest env history context options = Inr out
     \<and> (\<forall>s \<in> set out. \<forall>d. sg_proposedChange s = Rule_Change d \<longrightarrow>
          isRuleDraftOrdered d (rs_decimals (resolve context options))
          \<and> (\<forall>limit. rule_perTx context = Some limit \<longrightarrow>
               (\<exists>t cap. parseAmount (dr_autoApproveLimit d) (rs_decimals (resolve context options)) = Inr t
                  \<and> parseAmount limit (rs_decimals (resolve context options)) = Inr cap \<and> t \<le> cap)))"
proof -
  have "\<forall>r \<in> set history. 0 \<le> h_amountRaw r" "dated env context history" using assms(3,4) by (simp_all add: dated_def)
  from suggest_delivers [OF assms(1,2) this] show ?thesis unfolding delivers_eq rule_safe_def by blast
qed

theorem suggest_drafts_safe_witness:
  "\<exists>out. suggest example_env example_history example_context no_options = Inr out"
proof -
  have "\<forall>r \<in> set example_history. 0 \<le> h_amountRaw r \<and> \<bar>h_ts r\<bar> \<le> 8640000000000"
    "se_dayFormatter example_env (cx_timeZone example_context) \<noteq> None"
    by (simp_all add: example_history_def example_payment_def example_env_def example_context_def)
  from suggest_drafts_safe [OF example_resolved this] show ?thesis by blast
qed

text \<open>A zone the engine refuses makes the whole engine throw, as soon as there are enough payments.\<close>

lemma suggest_throws_on_zone:
  "suggest example_env example_history (example_context\<lparr>cx_timeZone := ''Mars''\<rparr>) no_options = Inl Invalid_Time_Zone"
  by code_simp

text \<open>Every proposed schedule is payable and lies ahead: it repeats at least three eligible
  payments to its recipient, its amount is positive and within ten percent of each of them, its
  interval is positive, its first run is after now, and it ends after twelve runs.\<close>

theorem suggest_schedules_ahead:
  assumes "valid_decimals (rs_decimals (resolve context options))"
    and "1 \<le> rs_minPayments (resolve context options)"
    and "\<forall>r \<in> set history. 0 \<le> h_amountRaw r" "dated env context history"
    and "suggest env history context options = Inr out" "s \<in> set out" "sg_proposedChange s = Schedule_Change d"
  shows "cx_now context < sd_firstRunAt d \<and> 0 < sd_intervalSecs d \<and> sd_runs d = 12
     \<and> (\<exists>payments raw. payments = filter (\<lambda>r. h_recipientAddress r = sd_recipient d)
            (gr_records (guard_history history context (resolve context options)))
          \<and> 3 \<le> length payments \<and> parseAmount (sd_amount d) (rs_decimals (resolve context options)) = Inr raw
          \<and> 0 < raw \<and> (\<forall>r \<in> set payments. 10 * \<bar>h_amountRaw r - raw\<bar> \<le> raw))"
proof -
  have "schedule_safe context (resolve context options)
      (gr_records (guard_history history context (resolve context options))) s"
    using suggest_delivers [OF assms(1-4)] assms(5,6) by simp
  then show ?thesis using assms(7) by (auto simp: schedule_safe_def Let_def)
qed

text \<open>Every third day of \<open>steady_history\<close> pays the same recipient the same amount.\<close>

definition steady_history :: "history_record list" where
  "steady_history = map (\<lambda>n. example_payment n 20) [1, 2, 3, 4, 5, 6, 7, 8, 9]"

definition schedule_of :: "suggestion \<Rightarrow> schedule_draft option" where
  "schedule_of s = (case sg_proposedChange s of Schedule_Change d \<Rightarrow> Some d | _ \<Rightarrow> None)"

lemma schedule_of_Some: "schedule_of s = Some d \<longleftrightarrow> sg_proposedChange s = Schedule_Change d"
  by (cases "sg_proposedChange s") (simp_all add: schedule_of_def)

theorem suggest_schedules_ahead_witness:
  "\<exists>s d out. suggest example_env steady_history example_context no_options = Inr out \<and> s \<in> set out
     \<and> sg_proposedChange s = Schedule_Change d \<and> 1000000 < sd_firstRunAt d \<and> sd_runs d = 12"
proof -
  have "(case suggest example_env steady_history example_context no_options of
      Inr out \<Rightarrow> list_ex (\<lambda>s. schedule_of s \<noteq> None) out | Inl _ \<Rightarrow> False)" by code_simp
  then obtain out s d where o: "suggest example_env steady_history example_context no_options = Inr out"
      "s \<in> set out" "sg_proposedChange s = Schedule_Change d"
    by (auto simp: list_ex_iff schedule_of_Some split: sum.splits)
  have "\<forall>r \<in> set steady_history. 0 \<le> h_amountRaw r" "dated example_env example_context steady_history"
    by (simp_all add: steady_history_def example_payment_def dated_def example_env_def example_context_def)
  from suggest_schedules_ahead [OF example_resolved this o] o show ?thesis
    by (auto simp: example_context_def)
qed

section \<open>Thresholds\<close>

text \<open>A proposed automatic limit is bounded from both sides.  On non-negative records the
  derivation returns; what it proposes is at most the largest payment of the outlier-free pool
  rounded up to five units, covers the 90th percentile of that pool rounded up unless an existing
  cap forbids it, is positive, and under a cap is at most the cap.\<close>

theorem threshold_bounded:
  assumes "valid_decimals (rs_decimals rs)" "1 \<le> rs_minPayments rs" "\<forall>r \<in> set records. 0 \<le> h_amountRaw r"
  shows "deriveRobustThreshold records context rs = Inr None
     \<or> (\<exists>d pool p90. deriveRobustThreshold records context rs = Inr (Some d)
          \<and> dropAmountOutliers (sortBigints (map h_amountRaw (thresholdPool records context))) UNUSUAL_MULTIPLIER = Inr pool
          \<and> rs_minPayments rs \<le> int (length pool) \<and> percentileNearestRank pool 90 = Inr p90
          \<and> 0 < rt_thresholdRaw d
          \<and> roundUpToDisplayMultiple (Max (set pool)) (rs_decimals rs) ROUNDING_STEP_DISPLAY = Inr (up5 (rs_decimals rs) (Max (set pool)))
          \<and> rt_thresholdRaw d \<le> up5 (rs_decimals rs) (Max (set pool))
          \<and> (rt_capped d \<or> p90 \<le> rt_thresholdRaw d)
          \<and> (\<forall>limit cap. rule_perTx context = Some limit \<and> parseAmount limit (rs_decimals rs) = Inr cap \<longrightarrow> rt_thresholdRaw d \<le> cap))"
proof -
  note valid = assms(1)
  obtain dv where dv: "deriveRobustThreshold records context rs = Inr dv"
    and d: "\<And>d. dv = Some d \<Longrightarrow>
         dropAmountOutliers (sortBigints (map h_amountRaw (thresholdPool records context))) UNUSUAL_MULTIPLIER = Inr (rt_pool d)
         \<and> rs_minPayments rs \<le> int (length (rt_pool d))
         \<and> percentileNearestRank (rt_pool d) 90 = Inr (as_p90Raw (rt_stats d)) \<and> 0 < as_p90Raw (rt_stats d)
         \<and> threshold_bounds context (rs_decimals rs) (as_p90Raw (rt_stats d)) (Max (set (rt_pool d)))
              (rt_thresholdRaw d) (rt_capped d)"
    using delivers_option [OF derive_threshold [OF assms, of "context"]] by auto
  show ?thesis
  proof (cases dv)
    case (Some d')
    have "as_p90Raw (rt_stats d') \<le> up5 (rs_decimals rs) (as_p90Raw (rt_stats d'))"
      using up5_spec(2) [OF valid, of "as_p90Raw (rt_stats d')"] by simp
    then show ?thesis using d [OF Some] dv Some
      by (intro disjI2 exI [of _ d'] exI [of _ "rt_pool d'"] exI [of _ "as_p90Raw (rt_stats d')"])
        (auto simp: threshold_bounds_def up5_spec(1) [OF valid] split: option.splits if_splits)
  qed (use dv in simp)
qed

theorem threshold_bounded_witness:
  "deriveRobustThreshold example_history example_context (resolve example_context no_options) = Inr None
   \<or> (\<exists>d. deriveRobustThreshold example_history example_context (resolve example_context no_options) = Inr (Some d)
        \<and> 0 < rt_thresholdRaw d)"
  using threshold_bounded [OF example_resolved, of example_history example_context]
  by (auto simp: example_history_def example_payment_def)

text \<open>The card's claim that all payments were under the proposed limit is not guaranteed: ten
  payments of 20 and one of 60 give a proposal of 20 whose rationale says all payments were under
  20 while its evidence reports a maximum of 60.\<close>

theorem threshold_claim_overstates:
  "\<exists>s. autoPayThresholdSuggestion (guard_history example_history example_context (resolve example_context no_options))
         example_context (resolve example_context no_options) = Inr (Some s)
     \<and> sg_title s = ''Allow auto-pay up to 20 USDC''
     \<and> take 67 (sg_rationale s) = ''Over the last 30 days you sent 11 payments, all under 20 USDC (medi''
     \<and> ev_max (sg_evidence s) = ''60''"
proof -
  let ?out = "autoPayThresholdSuggestion (guard_history example_history example_context (resolve example_context no_options))
         example_context (resolve example_context no_options)"
  have "(case ?out of Inr (Some s) \<Rightarrow> sg_title s = ''Allow auto-pay up to 20 USDC''
     \<and> take 67 (sg_rationale s) = ''Over the last 30 days you sent 11 payments, all under 20 USDC (medi''
     \<and> ev_max (sg_evidence s) = ''60'' | _ \<Rightarrow> False)" by code_simp
  then show ?thesis by (cases ?out) (auto split: option.splits)
qed

section \<open>Schedules\<close>

text \<open>The first run of a proposed schedule is the first slot after now, whatever the cadence:
  for a positive interval \<open>advanceFirstRunAt\<close> returns the least multiple of the interval after
  the last payment that lies strictly after now, both when the bounded loop finds it and when
  the arithmetic of the fallback does.\<close>

theorem first_run_is_next_slot:
  assumes "0 < interval"
  shows "now < advanceFirstRunAt lastTs interval now
     \<and> (\<exists>k \<ge> 1. advanceFirstRunAt lastTs interval now = lastTs + k * interval
          \<and> (\<forall>j \<ge> 1. now < lastTs + j * interval \<longrightarrow> k \<le> j))"
proof -
  obtain k where k: "now < advanceFirstRunAt lastTs interval now" "1 \<le> k"
      "advanceFirstRunAt lastTs interval now = lastTs + k * interval" "k = 1 \<or> lastTs + (k - 1) * interval \<le> now"
    using first_slot [OF assms, of now lastTs] by blast
  have "k \<le> j" if "1 \<le> j" "now < lastTs + j * interval" for j
  proof (rule ccontr)
    assume "\<not> k \<le> j"
    then have "j * interval \<le> (k - 1) * interval" using assms by (intro mult_right_mono) simp_all
    then show False using k that \<open>\<not> k \<le> j\<close> by linarith
  qed
  then show ?thesis using k by blast
qed

theorem first_run_is_next_slot_witness:
  "1000000 < advanceFirstRunAt 5 1 1000000"
  using first_run_is_next_slot [of 1 1000000 5] by simp

section \<open>Dismissal\<close>

lemma dismissed_candidates:
  "candidates env g (context\<lparr>cx_dismissed := D\<rparr>) rs = candidates env g context rs"
proof -
  have f: "cx_now (context\<lparr>cx_dismissed := D\<rparr>) = cx_now context"
    "cx_timeZone (context\<lparr>cx_dismissed := D\<rparr>) = cx_timeZone context"
    "cx_rule (context\<lparr>cx_dismissed := D\<rparr>) = cx_rule context"
    "cx_autoPayEnabled (context\<lparr>cx_dismissed := D\<rparr>) = cx_autoPayEnabled context"
    "cx_autoPayEnabledSince (context\<lparr>cx_dismissed := D\<rparr>) = cx_autoPayEnabledSince context"
    "cx_lastAutoPayUse (context\<lparr>cx_dismissed := D\<rparr>) = cx_lastAutoPayUse context"
    "cx_knownContacts (context\<lparr>cx_dismissed := D\<rparr>) = cx_knownContacts context"
    "cx_assetDecimals (context\<lparr>cx_dismissed := D\<rparr>) = cx_assetDecimals context"
    "cx_displayAsset (context\<lparr>cx_dismissed := D\<rparr>) = cx_displayAsset context"
    by simp_all
  have p: "thresholdPool records (context\<lparr>cx_dismissed := D\<rparr>) = thresholdPool records context" for records
    by (simp only: thresholdPool_def f)
  have r: "rule_perTx (context\<lparr>cx_dismissed := D\<rparr>) = rule_perTx context"
    "rule_autoApprove (context\<lparr>cx_dismissed := D\<rparr>) = rule_autoApprove context"
    "rule_daily (context\<lparr>cx_dismissed := D\<rparr>) = rule_daily context"
    by (simp_all only: rule_perTx_def rule_autoApprove_def rule_daily_def f)
  have c: "computeAutoApproveThreshold a b (context\<lparr>cx_dismissed := D\<rparr>) x = computeAutoApproveThreshold a b context x" for a b x
    by (simp only: computeAutoApproveThreshold_def r)
  have dv: "deriveRobustThreshold records (context\<lparr>cx_dismissed := D\<rparr>) rs = deriveRobustThreshold records context rs" for records
    by (simp only: deriveRobustThreshold_def p c)
  have a: "autoPayThresholdSuggestion g (context\<lparr>cx_dismissed := D\<rparr>) rs = autoPayThresholdSuggestion g context rs"
    by (simp only: autoPayThresholdSuggestion_def dv r threshold_settled_def f)
  have d: "dailyLimitSuggestion env g (context\<lparr>cx_dismissed := D\<rparr>) rs = dailyLimitSuggestion env g context rs"
    by (simp only: dailyLimitSuggestion_def daily_threshold_def daily_settled_def daily_draft_def daily_rationale_def dv r f)
  have s: "scheduleSuggestion env x l (context\<lparr>cx_dismissed := D\<rparr>) rs n = scheduleSuggestion env x l context rs n" for x l n
    by (simp only: scheduleSuggestion_def f)
  have o: "dormantSuggestion g (context\<lparr>cx_dismissed := D\<rparr>) rs = dormantSuggestion g context rs"
    by (simp only: dormantSuggestion_def dormant_days_def last_used_def f)
  have u: "unusual_alert g (context\<lparr>cx_dismissed := D\<rparr>) rs b = unusual_alert g context rs b" for b
    by (rule ext) (simp only: unusual_alert_def f)
  show ?thesis
    by (simp only: candidates_def a d o recurrenceSuggestions_def s unusualSuggestions_def u f)
qed

interpretation by_kind: comparator compareSuggestions
  using lex_comparator [of "\<lambda>s. KIND_ORDER (sg_kind s)" sg_id] unfolding compareSuggestions_def [abs_def] by simp

lemma guard_dismissed: "guard_history history (context\<lparr>cx_dismissed := D\<rparr>) rs = guard_history history context rs"
proof -
  have "eligible (context\<lparr>cx_dismissed := D\<rparr>) start = eligible context start" for start
    by (rule ext) (simp add: eligible_def)
  then show ?thesis by (simp add: guard_history_def)
qed

text \<open>Dismissing only removes, and removes exactly what was dismissed: with more ids or kinds
  dismissed the result is the previous result without the suggestions whose id or kind is among
  them, in the same order, and that order is by kind and then by id.\<close>

theorem dismissal_only_removes:
  "suggest env history (context\<lparr>cx_dismissed := cx_dismissed context @ D\<rparr>) options =
     and_then (suggest env history context options) (\<lambda>out. Inr (filter (\<lambda>s. \<not> isDismissed s D) out))
   \<and> upon (\<lambda>out. sorted_wrt compareSuggestions out \<and> list_all (\<lambda>s. \<not> isDismissed s (cx_dismissed context)) out)
       (suggest env history context options)"
proof
  let ?rs = "resolve context options" and ?g = "guard_history history context (resolve context options)"
  have rs: "resolve (context\<lparr>cx_dismissed := E\<rparr>) options = ?rs" for E by (simp add: resolve_def)
  have m: "isDismissed s (E @ D) \<longleftrightarrow> isDismissed s E \<or> isDismissed s D" for s E
    by (auto simp: isDismissed_def)
  show "suggest env history (context\<lparr>cx_dismissed := cx_dismissed context @ D\<rparr>) options =
     and_then (suggest env history context options) (\<lambda>out. Inr (filter (\<lambda>s. \<not> isDismissed s D) out))"
  proof (cases "candidates env ?g context ?rs")
    case (Inr cs)
    have "filter (\<lambda>s. \<not> isDismissed s (cx_dismissed context @ D)) cs
        = filter (\<lambda>s. \<not> isDismissed s D) (filter (\<lambda>s. \<not> isDismissed s (cx_dismissed context)) cs)"
      by (auto simp: m intro: filter_cong)
    then show ?thesis
      by (simp add: suggest_def Let_def rs guard_dismissed dismissed_candidates Inr by_kind.filter_sort)
  qed (simp add: suggest_def Let_def rs guard_dismissed dismissed_candidates)
  show "upon (\<lambda>out. sorted_wrt compareSuggestions out \<and> list_all (\<lambda>s. \<not> isDismissed s (cx_dismissed context)) out)
       (suggest env history context options)"
    by (rule uponI) (auto simp: suggest_def Let_def by_kind.sorted_sort list_all_iff split: if_splits)
qed

section \<open>Order and eligibility\<close>

text \<open>C39: Only eligible records count, and not their order.  Two histories with distinct ids whose
  confirmed, public records of the asset inside the window are the same, in whatever order and
  among whatever other records, give the same result: confidential, failed, foreign and old
  payments cannot influence a suggestion.\<close>

theorem suggest_depends_on_eligible:
  assumes "distinct (map h_id history)" "distinct (map h_id history')"
    and "mset (filter (eligible context (window_start context options)) history)
       = mset (filter (eligible context (window_start context options)) history')"
  shows "suggest env history context options = suggest env history' context options"
  using guard_same [OF assms] candidates_same by (auto simp: suggest_def Let_def)

text \<open>A failed, foreign-asset payment that may join any history.\<close>

definition failed_payment :: history_record where
  "failed_payment = (example_payment 77 1000)\<lparr>h_status := Status_Failed\<rparr>"

theorem suggest_depends_on_eligible_witness:
  "suggest example_env (failed_payment # rev steady_history) example_context no_options
     = suggest example_env steady_history example_context no_options"
proof (rule suggest_depends_on_eligible)
  show "distinct (map h_id (failed_payment # rev steady_history))" "distinct (map h_id steady_history)" by code_simp+
  show "mset (filter (eligible example_context (window_start example_context no_options)) (failed_payment # rev steady_history))
      = mset (filter (eligible example_context (window_start example_context no_options)) steady_history)"
    by (simp add: failed_payment_def eligible_def flip: rev_filter)
qed

text \<open>With two conflicting records of one id the result does depend on the order of the history:
  the first of them wins, and the other disappears from the statistics.\<close>

theorem order_matters_for_conflicting_ids:
  "\<exists>history history'. mset history = mset history'
     \<and> suggest example_env history example_context no_options \<noteq> suggest example_env history' example_context no_options"
proof -
  let ?h = "failed_payment\<lparr>h_id := dec_digits 1\<rparr> # map (\<lambda>n. example_payment n 20) [1, 2, 3, 4, 5, 6, 7, 8]"
  let ?h' = "map (\<lambda>n. example_payment n 20) [1, 2, 3, 4, 5, 6, 7, 8] @ [failed_payment\<lparr>h_id := dec_digits 1\<rparr>]"
  have "suggest example_env ?h example_context no_options = Inr []" by code_simp
  moreover have "(case suggest example_env ?h' example_context no_options of Inr (s # _) \<Rightarrow> True | _ \<Rightarrow> False)" by code_simp
  moreover have "mset ?h = mset ?h'" by simp
  ultimately show ?thesis by (metis list.case(1) old.sum.simps(6))
qed

section \<open>Privacy of the payload\<close>

text \<open>Any change of the aliases of a history.\<close>

definition realias :: "(history_record \<Rightarrow> string option) \<Rightarrow> history_record \<Rightarrow> history_record" where
  "realias f r = r\<lparr>h_recipientAlias := f r\<rparr>"

lemma realias_simps [simp]:
  "h_id (realias f r) = h_id r" "h_ts (realias f r) = h_ts r" "h_recipientAddress (realias f r) = h_recipientAddress r"
  "h_asset (realias f r) = h_asset r" "h_amountRaw (realias f r) = h_amountRaw r" "h_mode (realias f r) = h_mode r"
  "h_route (realias f r) = h_route r" "h_status (realias f r) = h_status r"
  by (simp_all add: realias_def)

lemma map_realias: "map (\<lambda>x. h_amountRaw (realias f x)) rs = map h_amountRaw rs" "map (\<lambda>x. h_ts (realias f x)) rs = map h_ts rs"
  "map (h_amountRaw \<circ> realias f) rs = map h_amountRaw rs" "map (h_ts \<circ> realias f) rs = map h_ts rs"
  by (simp_all add: comp_def)

lemma dedupe_realias: "dedupe seen (map (realias f) rs) = map (realias f) (dedupe seen rs)"
  by (induction seen rs rule: dedupe.induct) auto

lemma guard_realias: "guard_history (map (realias f) history) context rs =
    (guard_history history context rs)\<lparr>gr_records := map (realias f) (gr_records (guard_history history context rs))\<rparr>"
proof -
  have e: "eligible context start \<circ> realias f = eligible context start" for start
    by (rule ext) (simp add: eligible_def)
  have "spanDays (map (realias f) rs) = spanDays rs" for rs
    by (simp add: spanDays_Max_Min image_image del: set_map add: set_map)
  then show ?thesis by (simp add: guard_history_def Let_def dedupe_realias filter_map e)
qed

text \<open>What a suggestion shows of itself beyond this device, and what its order depends on.\<close>

definition shown :: "suggestion \<Rightarrow> string \<times> llm_safe" where
  "shown s = (sg_id s, toLlmSafeEvidence s)"

lemma collect_map: "collect f (map g xs) = collect (f \<circ> g) xs"
  by (induction xs) simp_all

lemma collect_shown:
  "(\<And>x. and_then (f x) (\<lambda>s. Inr (map_option shown s)) = and_then (f' x) (\<lambda>s. Inr (map_option shown s))) \<Longrightarrow>
     and_then (collect f xs) (\<lambda>ss. Inr (map shown ss)) = and_then (collect f' xs) (\<lambda>ss. Inr (map shown ss))"
proof (induction xs)
  case (Cons x xs)
  note IH = Cons.IH [OF Cons.prems]
  show ?case
    using Cons.prems [of x] IH
    by (cases "f x"; cases "f' x"; cases "collect f xs"; cases "collect f' xs")
      (auto split: option.splits simp: eq_commute [of "Some _" "map_option _ _"])
qed simp

lemma threshold_realias:
  "autoPayThresholdSuggestion (g\<lparr>gr_records := map (realias f) (gr_records g)\<rparr>) context rs
     = autoPayThresholdSuggestion g context rs"
  and daily_realias:
  "dailyLimitSuggestion env (g\<lparr>gr_records := map (realias f) (gr_records g)\<rparr>) context rs
     = dailyLimitSuggestion env g context rs"
  and dormant_realias:
  "dormantSuggestion (g\<lparr>gr_records := map (realias f) (gr_records g)\<rparr>) context rs = dormantSuggestion g context rs"
  and unusual_realias:
  "unusualSuggestions (g\<lparr>gr_records := map (realias f) (gr_records g)\<rparr>) context rs = unusualSuggestions g context rs"
proof -
  let ?g = "g\<lparr>gr_records := map (realias f) (gr_records g)\<rparr>"
  have g: "gr_records ?g = map (realias f) (gr_records g)" "gr_spanDays ?g = gr_spanDays g" by simp_all
  have p: "thresholdPool (map (realias f) l) context = map (realias f) (thresholdPool l context)" for l
    by (simp add: thresholdPool_def filter_map comp_def)
  have d: "deriveRobustThreshold (map (realias f) l) context rs = deriveRobustThreshold l context rs" for l
    by (simp add: deriveRobustThreshold_def p map_realias)
  have st: "amountStats (map (realias f) l) x = amountStats l x" for l x
    by (simp add: amountStats_def map_realias)
  have t: "dailyTotals z (map (realias f) l) = dailyTotals z l" for z l
  proof -
    have "days_loop z (map (realias f) l) byDay = days_loop z l byDay" for byDay
      by (induction z l byDay rule: days_loop.induct) (simp_all add: add_to_day_def)
    then show ?thesis by (simp add: dailyTotals_def)
  qed
  have u: "last_used (map (realias f) l) context = last_used l context" for l
    by (simp add: last_used_def Let_def filter_map comp_def map_realias)
  have a: "unusual_alert ?g context rs b \<circ> realias f = unusual_alert g context rs b" for b
    by (rule ext) (simp add: unusual_alert_def st)
  have srt: "js_sort byTimestampThenId (filter P (map (realias f) l))
      = map (realias f) (js_sort byTimestampThenId (filter (P \<circ> realias f) l))" for P l
    unfolding filter_map by (rule js_sort_map) (simp add: byTimestampThenId_def)
  show "autoPayThresholdSuggestion ?g context rs = autoPayThresholdSuggestion g context rs"
    by (simp only: autoPayThresholdSuggestion_def g d)
  show "dailyLimitSuggestion env ?g context rs = dailyLimitSuggestion env g context rs"
    by (simp only: dailyLimitSuggestion_def daily_threshold_def g d st t)
  show "dormantSuggestion ?g context rs = dormantSuggestion g context rs"
    by (simp only: dormantSuggestion_def g u st)
  show "unusualSuggestions ?g context rs = unusualSuggestions g context rs"
    by (simp only: unusualSuggestions_def Let_def g srt collect_map a map_is_Nil_conv map_map map_realias)
      (simp only: comp_def realias_simps)
qed

lemma schedule_realias:
  "and_then (scheduleSuggestion env a (map (realias f) l) context rs n) (\<lambda>s. Inr (map_option shown s))
     = and_then (scheduleSuggestion env a l context rs n) (\<lambda>s. Inr (map_option shown s))"
proof -
  have s: "js_sort byTimestampThenId (map (realias f) l) = map (realias f) (js_sort byTimestampThenId l)"
    by (rule js_sort_map) (simp add: byTimestampThenId_def)
  show ?thesis
  proof (cases "length l < RECURRENCE_MIN_OCCURRENCES")
    case False
    then have "js_sort byTimestampThenId l \<noteq> []" by (auto simp: RECURRENCE_MIN_OCCURRENCES_def)
    then have t: "h_ts (last (map (realias f) (js_sort byTimestampThenId l))) = h_ts (last (js_sort byTimestampThenId l))"
      by (simp add: last_map)
    show ?thesis
      using False
      by (simp only: scheduleSuggestion_def s Let_def map_map map_realias length_map t if_False)
        (auto simp: shown_def toLlmSafeEvidence_def and_then_def split: sum.splits)
  qed (simp add: scheduleSuggestion_def)
qed

lemma recurrence_realias:
  "and_then (recurrenceSuggestions env (g\<lparr>gr_records := map (realias f) (gr_records g)\<rparr>) context rs) (\<lambda>ss. Inr (map shown ss))
     = and_then (recurrenceSuggestions env g context rs) (\<lambda>ss. Inr (map shown ss))"
proof -
  let ?l = "gr_records g"
  have group: "(case jm_get (groupByRecipient l) a of None \<Rightarrow> [] | Some x \<Rightarrow> x) = filter (\<lambda>r. h_recipientAddress r = a) l" for a l
    by (simp add: get_groups Let_def)
  have f: "filter (\<lambda>r. h_recipientAddress r = a) (map (realias f) ?l) = map (realias f) (filter (\<lambda>r. h_recipientAddress r = a) ?l)" for a
    by (simp add: filter_map comp_def)
  have "dom (jm_get (groupByRecipient (map (realias f) ?l))) = dom (jm_get (groupByRecipient ?l))"
    by (auto simp: get_groups Let_def f split: if_splits)
  then have "js_sort (\<lambda>a b. a \<le> b) (jm_keys (groupByRecipient (map (realias f) ?l)))
      = js_sort (\<lambda>a b. a \<le> b) (jm_keys (groupByRecipient ?l))"
    using groups_wf by (intro asc.sort_mset) (simp add: set_eq_iff_mset_eq_distinct jm_wf_def flip: jm_keys_dom)
  then show ?thesis
    by (simp only: recurrenceSuggestions_def Let_def group f guard_result.simps)
      (auto intro: collect_shown schedule_realias simp: f)
qed

lemma shown_filter: "map shown xs = map shown ys \<Longrightarrow>
     map shown (filter (\<lambda>s. \<not> isDismissed s D) xs) = map shown (filter (\<lambda>s. \<not> isDismissed s D) ys)"
proof -
  have "map shown (filter (\<lambda>s. \<not> isDismissed s D) l)
      = filter (\<lambda>(i, l). \<not> (List.member D i \<or> List.member D (kind_name (ls_kind l)))) (map shown l)" for l
    by (induction l) (auto simp: shown_def isDismissed_def toLlmSafeEvidence_def)
  then show "map shown xs = map shown ys \<Longrightarrow> ?thesis" by simp
qed

lemma shown_sort: "map shown (js_sort compareSuggestions xs)
    = js_sort (\<lambda>(i, l) (i', l'). KIND_ORDER (ls_kind l) < KIND_ORDER (ls_kind l')
         \<or> KIND_ORDER (ls_kind l) = KIND_ORDER (ls_kind l') \<and> i \<le> i') (map shown xs)"
  by (rule js_sort_map [symmetric]) (simp add: shown_def compareSuggestions_def toLlmSafeEvidence_def)

lemma candidates_realias:
  "and_then (candidates env (g\<lparr>gr_records := map (realias f) (gr_records g)\<rparr>) context rs) (\<lambda>ss. Inr (map shown ss))
     = and_then (candidates env g context rs) (\<lambda>ss. Inr (map shown ss))"
  using recurrence_realias [of env f g "context" rs]
  by (auto simp: candidates_def threshold_realias daily_realias dormant_realias unusual_realias and_then_def split: sum.splits)

text \<open>C40: What may reach an LLM does not depend on aliases: replacing every alias of the history by
  anything else changes neither whether suggestions are made nor the payload of any of them, nor
  their order.\<close>

theorem payload_blind_to_aliases:
  "and_then (suggest env (map (realias f) history) context options) (\<lambda>out. Inr (map toLlmSafeEvidence out))
     = and_then (suggest env history context options) (\<lambda>out. Inr (map toLlmSafeEvidence out))"
proof -
  let ?rs = "resolve context options" and ?g = "guard_history history context (resolve context options)"
  let ?g' = "?g\<lparr>gr_records := map (realias f) (gr_records ?g)\<rparr>"
  have llm: "map toLlmSafeEvidence l = map snd (map shown l)" for l by (simp add: shown_def)
  have c: "and_then (candidates env ?g' context ?rs) (\<lambda>ss. Inr (map shown ss))
      = and_then (candidates env ?g context ?rs) (\<lambda>ss. Inr (map shown ss))" by (rule candidates_realias)
  have e: "gr_enough ?g' = gr_enough ?g" by simp
  have sorted_eq: "map toLlmSafeEvidence (js_sort compareSuggestions (filter (\<lambda>s. \<not> isDismissed s D) xs))
      = map toLlmSafeEvidence (js_sort compareSuggestions (filter (\<lambda>s. \<not> isDismissed s D) ys))"
    if "map shown xs = map shown ys" for xs ys D
    by (simp only: llm shown_sort shown_filter [OF that])
  have s': "suggest env (map (realias f) history) context options = (if \<not> gr_enough ?g then Inr [] else
       and_then (candidates env ?g' context ?rs) (\<lambda>cs.
         Inr (js_sort compareSuggestions (filter (\<lambda>s. \<not> isDismissed s (cx_dismissed context)) cs))))"
    by (simp only: suggest_def Let_def guard_realias e)
  have s: "suggest env history context options = (if \<not> gr_enough ?g then Inr [] else
       and_then (candidates env ?g context ?rs) (\<lambda>cs.
         Inr (js_sort compareSuggestions (filter (\<lambda>s. \<not> isDismissed s (cx_dismissed context)) cs))))"
    by (simp only: suggest_def Let_def)
  show ?thesis
    using c unfolding s s'
    by (cases "candidates env ?g' context ?rs"; cases "candidates env ?g context ?rs") (auto intro: sorted_eq)
qed

end
