(* ===== verification/P2p_Escrow.thy ===== *)
theory P2p_Escrow
  imports Guard_Schedules
begin

text \<open>
  The contract \<open>contracts/polaris_p2p_escrow/src/lib.rs\<close>: the offers of the peer-to-peer ramp as a state
  machine over the ledger of its tokens.  An operation is the call after \<open>require_auth\<close>; the token
  contract is external, its \<open>transfer\<close> a parameter that either moves the tokens or traps, which rolls
  the whole call back.  Storage rent and events are not modelled.
\<close>

section \<open>Data\<close>

datatype escrow_error =
  OfferNotFound | Offer_InvalidAmount | InvalidPrice | InvalidTtl | OfferNotOpen | OfferExpired | SelfTrade
| OfferNotAccepted | NotSeller | ReclaimTooEarly | ReclaimNotAllowed | Offer_Overflow

fun escrow_code :: "escrow_error \<Rightarrow> nat" where
  "escrow_code OfferNotFound = 200"
| "escrow_code Offer_InvalidAmount = 201"
| "escrow_code InvalidPrice = 202"
| "escrow_code InvalidTtl = 203"
| "escrow_code OfferNotOpen = 204"
| "escrow_code OfferExpired = 205"
| "escrow_code SelfTrade = 206"
| "escrow_code OfferNotAccepted = 207"
| "escrow_code NotSeller = 208"
| "escrow_code ReclaimTooEarly = 209"
| "escrow_code ReclaimNotAllowed = 210"
| "escrow_code Offer_Overflow = 211"

text \<open>A call fails with an error of the contract, or because the token trapped.\<close>

datatype escrow_failure = Escrow_Err escrow_error | Transfer_Trap

datatype offer_state = Open | Accepted | Settled | Cancelled | Expired

record offer =
  of_id :: int
  of_seller :: string
  of_token :: string
  of_amount :: int
  of_price_try_kurus :: int
  of_created_at :: int
  of_expires_at :: int
  of_buyer :: "string option"
  of_accepted_at :: int
  of_pay_deadline :: int
  of_state :: offer_state

record 'b escrow =
  es_next :: int
  es_offer :: "int \<Rightarrow> offer option"
  es_tokens :: 'b

text \<open>The address of the contract, and \<open>transfer token from to amount\<close> on the ledger of tokens.\<close>

record 'b escrow_env =
  ee_self :: string
  ee_transfer :: "string \<Rightarrow> string \<Rightarrow> string \<Rightarrow> int \<Rightarrow> 'b \<Rightarrow> 'b option"

definition MIN_TTL_SECS :: int where "MIN_TTL_SECS = 60"

definition MAX_TTL_SECS :: int where "MAX_TTL_SECS = 7 * 24 * 60 * 60"

definition PAY_WINDOW_SECS :: int where "PAY_WINDOW_SECS = 1800"

definition MAX_PAGE :: int where "MAX_PAGE = 20"

section \<open>Operations\<close>

definition escrow_err :: "escrow_error + 'a \<Rightarrow> escrow_failure + 'a" where
  "escrow_err r = catchE r Escrow_Err"

text \<open>The last step of every call that moves tokens.\<close>

definition pay_tokens :: "'b escrow_env \<Rightarrow> string \<Rightarrow> string \<Rightarrow> string \<Rightarrow> int \<Rightarrow> 'b escrow \<Rightarrow> escrow_failure + 'b escrow" where
  "pay_tokens env token from_addr to_addr amount st =
     (case ee_transfer env token from_addr to_addr amount (es_tokens st) of
        None \<Rightarrow> Inl Transfer_Trap
      | Some b \<Rightarrow> Inr (st\<lparr>es_tokens := b\<rparr>))"

definition load_offer :: "'b escrow \<Rightarrow> int \<Rightarrow> escrow_failure + offer" where
  "load_offer st i = escrow_err (ok_or (es_offer st i) OfferNotFound)"

definition store_offer :: "'b escrow \<Rightarrow> int \<Rightarrow> offer \<Rightarrow> 'b escrow" where
  "store_offer st i x = st\<lparr>es_offer := (es_offer st)(i \<mapsto> x)\<rparr>"

definition create_offer ::
    "'b escrow_env \<Rightarrow> int \<Rightarrow> 'b escrow \<Rightarrow> string \<Rightarrow> string \<Rightarrow> int \<Rightarrow> int \<Rightarrow> int \<Rightarrow> escrow_failure + int \<times> 'b escrow" where
  "create_offer env now st seller token amount price_try_kurus ttl_secs =
     (if amount \<le> 0 then Inl (Escrow_Err Offer_InvalidAmount)
      else if price_try_kurus \<le> 0 then Inl (Escrow_Err InvalidPrice)
      else if \<not> (MIN_TTL_SECS \<le> ttl_secs \<and> ttl_secs \<le> MAX_TTL_SECS) then Inl (Escrow_Err InvalidTtl)
      else
        and_then (escrow_err (ok_or (checked_u64 (now + ttl_secs)) Offer_Overflow)) (\<lambda>expires_at.
        let i = es_next st in
        and_then (escrow_err (ok_or (checked_u64 (i + 1)) Offer_Overflow)) (\<lambda>next_id.
        let x = \<lparr>of_id = i, of_seller = seller, of_token = token, of_amount = amount,
                 of_price_try_kurus = price_try_kurus, of_created_at = now, of_expires_at = expires_at,
                 of_buyer = None, of_accepted_at = 0, of_pay_deadline = 0, of_state = Open\<rparr> in
        and_then (pay_tokens env token seller (ee_self env) amount (store_offer (st\<lparr>es_next := next_id\<rparr>) i x)) (\<lambda>st'.
          Inr (i, st')))))"

definition accept :: "int \<Rightarrow> 'b escrow \<Rightarrow> string \<Rightarrow> int \<Rightarrow> escrow_failure + 'b escrow" where
  "accept now st buyer i =
     and_then (load_offer st i) (\<lambda>x.
       if of_state x \<noteq> Open then Inl (Escrow_Err OfferNotOpen)
       else if now \<ge> of_expires_at x then Inl (Escrow_Err OfferExpired)
       else if buyer = of_seller x then Inl (Escrow_Err SelfTrade)
       else
         and_then (escrow_err (ok_or (checked_u64 (now + PAY_WINDOW_SECS)) Offer_Overflow)) (\<lambda>pay_deadline.
           Inr (store_offer st i (x\<lparr>of_buyer := Some buyer, of_accepted_at := now,
                                    of_pay_deadline := pay_deadline, of_state := Accepted\<rparr>))))"

definition confirm_fiat :: "'b escrow_env \<Rightarrow> 'b escrow \<Rightarrow> string \<Rightarrow> int \<Rightarrow> escrow_failure + 'b escrow" where
  "confirm_fiat env st seller i =
     and_then (load_offer st i) (\<lambda>x.
       if of_seller x \<noteq> seller then Inl (Escrow_Err NotSeller)
       else if of_state x \<noteq> Accepted then Inl (Escrow_Err OfferNotAccepted)
       else
         and_then (escrow_err (ok_or (of_buyer x) OfferNotAccepted)) (\<lambda>buyer.
           pay_tokens env (of_token x) (ee_self env) buyer (of_amount x)
             (store_offer st i (x\<lparr>of_state := Settled\<rparr>))))"

definition cancel :: "'b escrow_env \<Rightarrow> 'b escrow \<Rightarrow> string \<Rightarrow> int \<Rightarrow> escrow_failure + 'b escrow" where
  "cancel env st seller i =
     and_then (load_offer st i) (\<lambda>x.
       if of_seller x \<noteq> seller then Inl (Escrow_Err NotSeller)
       else if of_state x \<noteq> Open then Inl (Escrow_Err OfferNotOpen)
       else pay_tokens env (of_token x) (ee_self env) seller (of_amount x)
              (store_offer st i (x\<lparr>of_state := Cancelled\<rparr>)))"

text \<open>Whether the time to take an offer back has come; \<open>None\<close> once it is settled or returned.\<close>

definition refundable :: "int \<Rightarrow> offer \<Rightarrow> bool option" where
  "refundable now x =
     (case of_state x of
        Open \<Rightarrow> Some (now \<ge> of_expires_at x)
      | Accepted \<Rightarrow> Some (now > of_pay_deadline x)
      | _ \<Rightarrow> None)"

definition reclaim :: "'b escrow_env \<Rightarrow> int \<Rightarrow> 'b escrow \<Rightarrow> string \<Rightarrow> int \<Rightarrow> escrow_failure + 'b escrow" where
  "reclaim env now st seller i =
     and_then (load_offer st i) (\<lambda>x.
       if of_seller x \<noteq> seller then Inl (Escrow_Err NotSeller)
       else case refundable now x of
         None \<Rightarrow> Inl (Escrow_Err ReclaimNotAllowed)
       | Some False \<Rightarrow> Inl (Escrow_Err ReclaimTooEarly)
       | Some True \<Rightarrow>
           pay_tokens env (of_token x) (ee_self env) seller (of_amount x)
             (store_offer st i (x\<lparr>of_state := Expired\<rparr>)))"

definition get_offer :: "'b escrow \<Rightarrow> int \<Rightarrow> offer option" where
  "get_offer st i = es_offer st i"

definition next_offer_id :: "'b escrow \<Rightarrow> int" where
  "next_offer_id st = es_next st"

definition open_at :: "int \<Rightarrow> 'b escrow \<Rightarrow> int \<Rightarrow> offer option" where
  "open_at now st i =
     (case es_offer st i of
        Some x \<Rightarrow> if of_state x = Open \<and> now < of_expires_at x then Some x else None
      | None \<Rightarrow> None)"

definition saturating_add_u64 :: "int \<Rightarrow> int \<Rightarrow> int" where
  "saturating_add_u64 a b = min (a + b) (2 ^ 64 - 1)"

definition list_open :: "int \<Rightarrow> 'b escrow \<Rightarrow> int \<Rightarrow> int \<Rightarrow> offer list" where
  "list_open now st start limit =
     (let window = (if limit > MAX_PAGE then MAX_PAGE else limit);
          start = (if start < 1 then 1 else start)
      in if window = 0 \<or> start \<ge> es_next st then []
         else
           let stop = min (saturating_add_u64 start window) (es_next st)
           in List.map_filter (open_at now st) [start..stop - 1])"

end
