(* ===== verification/P2p_Client.thy ===== *)
theory P2p_Client
  imports Guard_Client P2p_Escrow
begin

text \<open>
  \<open>stellar/src/p2p\<close>: prices in kurus, the typed refusals and the sentence a user reads, decoding of
  offers, and the client that builds the unsigned calls of the escrow.  The RPC node and the SDK are
  the external \<open>guard_rpc\<close> and \<open>guard_sdk\<close>; the optional details of a refusal, which this package never
  sets, are not modelled.
\<close>

section \<open>Refusals\<close>

datatype p2p_code = Not_Configured | Invalid_Intent | Invalid_Price | Simulation_Failed

record p2p_refusal =
  pr_code :: p2p_code
  pr_message :: string

text \<open>What the client throws: a refusal of its own, or any other value.\<close>

datatype p2p_thrown = Thrown_P2p p2p_refusal | Thrown_Other js_thrown

definition p2p_refuse :: "p2p_code \<Rightarrow> string \<Rightarrow> p2p_refusal" where
  "p2p_refuse c m = \<lparr>pr_code = c, pr_message = m\<rparr>"

fun p2p_text :: "p2p_thrown \<Rightarrow> string" where
  "p2p_text (Thrown_P2p r) = pr_message r"
| "p2p_text (Thrown_Other t) = thrown_message t"

fun isP2pRefusal :: "p2p_thrown \<Rightarrow> bool" where
  "isP2pRefusal (Thrown_P2p r) = True"
| "isP2pRefusal (Thrown_Other t) = False"

fun asP2pRefusal :: "p2p_thrown \<Rightarrow> p2p_refusal" where
  "asP2pRefusal (Thrown_P2p r) = r"
| "asP2pRefusal (Thrown_Other t) = p2p_refuse Simulation_Failed (thrown_message t)"

section \<open>Prices\<close>

definition KURUS_PER_LIRA :: int where "KURUS_PER_LIRA = 100"

definition tryToKurus :: "string \<Rightarrow> p2p_refusal + int" where
  "tryToKurus amount =
     (if \<not> amount_re 2 amount then
        Inl (p2p_refuse Invalid_Price (''price must be a positive TRY decimal string with at most 2 fraction digits, got ''
              @ json_quote amount))
      else
        let parts = js_split CHR ''.'' amount;
            whole = nth_or ''0'' parts 0;
            frac = nth_or [] parts 1;
            kurus = int (nat_of_dec whole) * KURUS_PER_LIRA + int (nat_of_dec (pad_end 2 CHR ''0'' frac))
        in if kurus \<le> 0 then Inl (p2p_refuse Invalid_Price (''price must be greater than zero, got '' @ json_quote amount))
           else Inr kurus)"

definition kurusToTry :: "int \<Rightarrow> p2p_refusal + string" where
  "kurusToTry kurus =
     (if kurus < 0 then Inl (p2p_refuse Invalid_Price (''kurus must not be negative, got '' @ show_int kurus))
      else
        let whole = kurus div KURUS_PER_LIRA;
            frac = strip_zeros (pad_start 2 CHR ''0'' (show_int (kurus mod KURUS_PER_LIRA)))
        in Inr (if frac \<noteq> [] then show_int whole @ ''.'' @ frac else show_int whole))"

section \<open>The sentence for the user\<close>

definition DEFAULT_ASSET :: string where "DEFAULT_ASSET = ''this asset''"

definition ESCROW_MESSAGES :: "nat \<rightharpoonup> string" where
  "ESCROW_MESSAGES = map_of [
     (200, ''That offer no longer exists.''),
     (201, ''The amount must be greater than zero.''),
     (202, ''The price must be greater than zero.''),
     (203, ''The offer lifetime must be between 60 seconds and 7 days.''),
     (204, ''That offer is no longer open, so this action is not allowed.''),
     (205, ''That offer has expired.''),
     (206, ''You cannot take your own offer.''),
     (207, ''That offer has not been accepted yet.''),
     (208, ''Only the offer's seller can do that.''),
     (209, ''It is too early to reclaim this offer.''),
     (210, ''This offer cannot be reclaimed.''),
     (211, ''The trade amounts are out of range; try a smaller amount.'')]"

definition TOKEN_MESSAGES :: "string \<Rightarrow> nat \<rightharpoonup> string" where
  "TOKEN_MESSAGES a = map_of [
     (4, ''Your wallet is not allowed to move '' @ a @ ''.''),
     (5, ''The '' @ a @ '' authorization failed.''),
     (6, ''An account involved in the trade does not exist.''),
     (7, ''That address cannot hold this kind of asset.''),
     (8, ''The '' @ a @ '' amount cannot be negative.''),
     (9, ''The '' @ a @ '' allowance is missing or too small.''),
     (10, ''Not enough '' @ a @ '' in your wallet.''),
     (11, ''The '' @ a @ '' issuer has deauthorized your wallet.''),
     (12, ''The trade amounts are out of range.''),
     (13, ''Your wallet has no '' @ a @ '' trustline yet.''),
     (14, ''Your wallet needs a little more XLM to hold this asset.''),
     (15, ''Your wallet has too many trustlines to add another.'')]"

definition HOST_ERROR_RE :: "string \<Rightarrow> bool" where
  "HOST_ERROR_RE s \<longleftrightarrow> contains ''HostError'' s \<or> contains ''Error(Contract,'' s"

definition firstLine :: "string \<Rightarrow> string" where
  "firstLine text = js_trim (upto_newline text)"

definition host_fallback :: "string \<Rightarrow> string" where
  "host_fallback asset = ''The network refused this trade. Check that your wallet holds '' @ asset @ '', then try again.''"

definition p2pErrorMessage :: "p2p_thrown \<Rightarrow> string option \<Rightarrow> string" where
  "p2pErrorMessage err context_asset =
     (let raw = p2p_text err in
      if (case err of Thrown_P2p r \<Rightarrow> pr_code r = Not_Configured \<or> pr_code r = Invalid_Price | Thrown_Other t \<Rightarrow> False)
      then raw
      else
        let asset = (case context_asset of Some a \<Rightarrow> a | None \<Rightarrow> DEFAULT_ASSET);
            fallback = (if HOST_ERROR_RE raw then host_fallback asset else firstLine raw)
        in case ce_code (classifyContractText raw) of
             Some code \<Rightarrow>
               if 200 \<le> code then (case ESCROW_MESSAGES code of Some m \<Rightarrow> m | None \<Rightarrow> ''The escrow rejected this trade.'')
               else (case TOKEN_MESSAGES asset code of Some m \<Rightarrow> m | None \<Rightarrow> fallback)
           | None \<Rightarrow> fallback)"

section \<open>Cards\<close>

fun describeArg :: "native \<Rightarrow> string" where
  "describeArg (N_Str s) = s"
| "describeArg (N_Big i) = show_int i"
| "describeArg (N_Num i) = show_int i"
| "describeArg (N_Bool b) = (if b then ''true'' else ''false'')"
| "describeArg N_Null = ''null''"
| "describeArg N_Undefined = ''undefined''"
| "describeArg (N_List vs) = ''['' @ js_join '', '' (map describeArg vs) @ '']''"
| "describeArg (N_Obj fs) = ''{ '' @ js_join '', '' (map (\<lambda>(k, v). k @ '': '' @ describeArg v) fs) @ '' }''"

record p2p_summary_input =
  ps_unsignedXdr :: string
  ps_networkPassphrase :: string
  ps_contractId :: string
  ps_functionName :: string
  ps_title :: string
  ps_context :: "string list option"
  ps_explorerBase :: "string option"

definition p2p_note :: string where
  "p2p_note = ''Note: the TRY payment happens outside Polaris; confirm only after you received it.''"

definition buildP2pCallSummary :: "('acc, 'tx, 'sim) guard_sdk \<Rightarrow> p2p_summary_input \<Rightarrow> string + built_guard_summary" where
  "buildP2pCallSummary sdk i =
     and_then (gk_fromXDR sdk (ps_unsignedXdr i) (ps_networkPassphrase i)) (\<lambda>tx. case tx of
       None \<Rightarrow> Inl ''fee-bump envelopes are not supported for P2P calls''
     | Some t \<Rightarrow>
         and_then (decodeInvocation sdk (ps_unsignedXdr i) (ps_networkPassphrase i)) (\<lambda>invocation.
         if di_contractId invocation \<noteq> ps_contractId i then
           Inl (''P2P summary mismatch: XDR targets '' @ di_contractId invocation @ '', client is '' @ ps_contractId i)
         else if di_functionName invocation \<noteq> ps_functionName i then
           Inl (''P2P summary mismatch: XDR calls '' @ di_functionName invocation @ '', expected '' @ ps_functionName i)
         else
           let payloadHash = toHex (gk_hash sdk t); fee = stroopsToXlm (gk_fee sdk t) @ '' XLM'' in
           Inr \<lparr>bs_summary =
                  \<lparr>su_title = ps_title i,
                   su_lines = (case ps_context i of Some c \<Rightarrow> c | None \<Rightarrow> [])
                     @ [''Contract: '' @ shortKey (ps_contractId i) @ '' '' @ em_dash @ '' '' @ ps_functionName i,
                        ''Args: '' @ js_join '', '' (map describeArg (di_args invocation)),
                        ''Network: '' @ ps_networkPassphrase i,
                        ''Fee: '' @ fee,
                        p2p_note],
                   su_explorerUrl = explorer_url (ps_explorerBase i) payloadHash,
                   su_estimatedFee = fee\<rparr>,
                bs_payloadHash = payloadHash\<rparr>))"

section \<open>Decoding offers\<close>

fun native_field :: "native \<Rightarrow> string \<Rightarrow> native" where
  "native_field (N_Obj fs) k = (case map_of fs k of Some v \<Rightarrow> v | None \<Rightarrow> N_Undefined)"
| "native_field _ k = N_Undefined"

text \<open>\<open>JSON.stringify\<close>, which throws on a big integer anywhere.\<close>

fun has_big :: "native \<Rightarrow> bool" where
  "has_big (N_Big i) = True"
| "has_big (N_List vs) = list_ex has_big vs"
| "has_big (N_Obj fs) = list_ex (\<lambda>(k, v). has_big v) fs"
| "has_big _ = False"

fun native_json :: "native \<Rightarrow> string" where
  "native_json (N_Big i) = []"
| "native_json (N_Str s) = json_quote s"
| "native_json (N_Num i) = show_int i"
| "native_json (N_Bool b) = (if b then ''true'' else ''false'')"
| "native_json (N_List vs) = ''['' @ js_join '','' (map (\<lambda>v. if v = N_Undefined then ''null'' else native_json v) vs) @ '']''"
| "native_json (N_Obj fs) = ''{'' @ js_join '','' (map (\<lambda>(k, v). json_quote k @ '':'' @ native_json v) (filter (\<lambda>(k, v). v \<noteq> N_Undefined) fs)) @ ''}''"
| "native_json N_Null = ''null''"
| "native_json N_Undefined = ''undefined''"

fun offer_state_name :: "offer_state \<Rightarrow> string" where
  "offer_state_name Open = ''Open''"
| "offer_state_name Accepted = ''Accepted''"
| "offer_state_name Settled = ''Settled''"
| "offer_state_name Cancelled = ''Cancelled''"
| "offer_state_name Expired = ''Expired''"

definition OFFER_STATES :: "offer_state list" where
  "OFFER_STATES = [Open, Accepted, Settled, Cancelled, Expired]"

definition isOfferState :: "native \<Rightarrow> offer_state option" where
  "isOfferState v = (case v of N_Str s \<Rightarrow> find (\<lambda>x. offer_state_name x = s) OFFER_STATES | _ \<Rightarrow> None)"

text \<open>A refusal of the decoder.\<close>

definition bad_read :: "string \<Rightarrow> p2p_thrown" where
  "bad_read m = Thrown_P2p (p2p_refuse Simulation_Failed m)"

definition normalizeOfferState :: "native \<Rightarrow> p2p_thrown + offer_state" where
  "normalizeOfferState v =
     (case (case isOfferState v of
              Some s \<Rightarrow> Some s
            | None \<Rightarrow> (case v of N_List [x] \<Rightarrow> isOfferState x | _ \<Rightarrow> None)) of
        Some s \<Rightarrow> Inr s
      | None \<Rightarrow>
          if has_big v then Inl (Thrown_Other (Js_Error ''TypeError'' ''Do not know how to serialize a BigInt''))
          else Inl (bad_read (''get_offer returned an unknown state: '' @ native_json v)))"

definition asBigInt :: "native \<Rightarrow> string \<Rightarrow> p2p_thrown + int" where
  "asBigInt v name =
     (case v of
        N_Big i \<Rightarrow> Inr i
      | N_Num i \<Rightarrow> Inr i
      | _ \<Rightarrow> Inl (bad_read (''get_offer field '' @ name @ '' is not an integer'')))"

definition asAddress :: "native \<Rightarrow> string \<Rightarrow> p2p_thrown + string" where
  "asAddress v name =
     (case v of
        N_Str (c # s) \<Rightarrow> Inr (c # s)
      | _ \<Rightarrow> Inl (bad_read (''get_offer field '' @ name @ '' is not an address'')))"

fun native_object :: "native \<Rightarrow> bool" where
  "native_object (N_List vs) = True"
| "native_object (N_Obj fs) = True"
| "native_object _ = False"

definition decodeOffer :: "native \<Rightarrow> p2p_thrown + offer" where
  "decodeOffer v =
     (if \<not> native_object v then Inl (bad_read ''get_offer returned a non-struct value'')
      else
        let buyer = native_field v ''buyer'' in
        and_then (asBigInt (native_field v ''id'') ''id'') (\<lambda>oid.
        and_then (asAddress (native_field v ''seller'') ''seller'') (\<lambda>seller.
        and_then (asAddress (native_field v ''token'') ''token'') (\<lambda>token.
        and_then (asBigInt (native_field v ''amount'') ''amount'') (\<lambda>amount.
        and_then (asBigInt (native_field v ''price_try_kurus'') ''price_try_kurus'') (\<lambda>price.
        and_then (asBigInt (native_field v ''created_at'') ''created_at'') (\<lambda>created.
        and_then (asBigInt (native_field v ''expires_at'') ''expires_at'') (\<lambda>expires.
        and_then (if buyer = N_Null \<or> buyer = N_Undefined then Inr None
                  else and_then (asAddress buyer ''buyer'') (\<lambda>a. Inr (Some a))) (\<lambda>b.
        and_then (asBigInt (native_field v ''accepted_at'') ''accepted_at'') (\<lambda>accepted.
        and_then (asBigInt (native_field v ''pay_deadline'') ''pay_deadline'') (\<lambda>deadline.
        and_then (normalizeOfferState (native_field v ''state'')) (\<lambda>state.
          Inr \<lparr>of_id = oid, of_seller = seller, of_token = token, of_amount = amount, of_price_try_kurus = price,
               of_created_at = created, of_expires_at = expires, of_buyer = b, of_accepted_at = accepted,
               of_pay_deadline = deadline, of_state = state\<rparr>))))))))))))"

section \<open>The client\<close>

text \<open>The client keeps what the guard client keeps; its failures are those of the RPC, seen as thrown values.\<close>

fun thrown_of :: "client_error \<Rightarrow> p2p_thrown" where
  "thrown_of (Guard_Failure e) = Thrown_Other (Js_Error (ge_name e) (ge_message e))"
| "thrown_of (Raised m) = Thrown_Other (Js_Error ''Error'' m)"

definition plain_error :: "string \<Rightarrow> p2p_thrown" where
  "plain_error m = Thrown_Other (Js_Error ''Error'' m)"

definition createP2pClient ::
    "('w, 'acc, 'tx, 'sim) guard_client_options \<Rightarrow> p2p_refusal + ('w, 'acc, 'tx, 'sim) guard_client" where
  "createP2pClient opts =
     (if length (op_contractId opts) = 0 then Inl (p2p_refuse Not_Configured ''createP2pClient requires a contractId'')
      else Inr \<lparr>cl_contractId = op_contractId opts, cl_rpc = op_rpc opts, cl_networkPassphrase = op_networkPassphrase opts,
                cl_source = op_source opts,
                cl_txTimeoutSeconds = (case op_txTimeoutSeconds opts of Some t \<Rightarrow> t | None \<Rightarrow> DEFAULT_TX_TIMEOUT_SECONDS),
                cl_explorerBase = op_explorerBase opts\<rparr>)"

definition buildWrite ::
    "('acc, 'tx, 'sim) guard_sdk \<Rightarrow> ('w, 'acc, 'tx, 'sim) guard_rpc \<Rightarrow> invoke_options \<Rightarrow> ('w, p2p_thrown, string) eff" where
  "buildWrite sdk rpc opts =
     eff_try (buildUnsignedInvoke sdk rpc opts) (\<lambda>e. eff_throw (Thrown_P2p (asP2pRefusal (thrown_of e)))) (\<lambda>(tx, xdr). eff_ret xdr)"

definition simulateRead ::
    "('acc, 'tx, 'sim) guard_sdk \<Rightarrow> ('w, 'acc, 'tx, 'sim) guard_rpc \<Rightarrow> invoke_options \<Rightarrow> ('w, p2p_thrown, native) eff" where
  "simulateRead sdk rpc opts =
     eff_try (simulateReadValue sdk rpc opts) (\<lambda>e. eff_throw (Thrown_P2p (asP2pRefusal (thrown_of e)))) eff_ret"

type_synonym ('w, 'acc, 'tx, 'sim, 'a) p2p_method =
  "('acc, 'tx, 'sim) guard_sdk \<Rightarrow> ('w, 'acc, 'tx, 'sim) guard_client \<Rightarrow> ('w, p2p_thrown, 'a) eff"

text \<open>The arguments are encoded by the caller, before \<open>write\<close> builds anything.\<close>

definition p2p_write ::
    "string \<Rightarrow> string \<Rightarrow> sc_value list \<Rightarrow> string \<Rightarrow> string list option \<Rightarrow> ('w, 'acc, 'tx, 'sim, guard_call) p2p_method" where
  "p2p_write functionName source args title ctx sdk cl =
     eff_bind (eff_of plain_error (encode_args sdk args)) (\<lambda>args.
     eff_bind (buildWrite sdk (cl_rpc cl) (client_options cl source functionName args)) (\<lambda>unsignedXdr.
     eff_bind (eff_of plain_error (buildP2pCallSummary sdk
        \<lparr>ps_unsignedXdr = unsignedXdr, ps_networkPassphrase = cl_networkPassphrase cl, ps_contractId = cl_contractId cl,
         ps_functionName = functionName, ps_title = title, ps_context = ctx,
         ps_explorerBase = truthy_string (cl_explorerBase cl)\<rparr>)) (\<lambda>built.
       eff_ret \<lparr>gc_unsignedXdr = unsignedXdr, gc_summary = bs_summary built, gc_payloadHash = bs_payloadHash built\<rparr>)))"

definition createOffer :: "string \<Rightarrow> string \<Rightarrow> int \<Rightarrow> int \<Rightarrow> int \<Rightarrow> ('w, 'acc, 'tx, 'sim, guard_call) p2p_method" where
  "createOffer seller token amount priceTryKurus ttlSecs sdk cl =
     eff_bind (eff_of (\<lambda>e. thrown_of (Guard_Failure e)) (fromRawUnits amount)) (\<lambda>tokens.
     eff_bind (eff_of Thrown_P2p (kurusToTry priceTryKurus)) (\<lambda>lira.
       p2p_write ''create_offer'' seller
         [Sc_Address seller, Sc_Address token, Sc_I128 amount, Sc_I128 priceTryKurus, Sc_U64 ttlSecs]
         (''P2P offer: sell '' @ tokens @ '' for '' @ lira @ '' TRY'')
         (Some [''Seller locks '' @ tokens @ '' tokens in escrow'',
                ''Asks '' @ lira @ '' TRY, paid off-chain by the buyer'',
                ''Offer expires in '' @ show_int ttlSecs @ '' s'']) sdk cl))"

definition p2p_accept :: "string \<Rightarrow> int \<Rightarrow> ('w, 'acc, 'tx, 'sim, guard_call) p2p_method" where
  "p2p_accept buyer offerId =
     p2p_write ''accept'' buyer [Sc_Address buyer, Sc_U64 offerId] (''P2P accept offer #'' @ show_int offerId)
       (Some [''Buyer takes offer #'' @ show_int offerId,
              ''Pay the TRY off-chain to the seller before the pay deadline''])"

definition confirmFiat :: "string \<Rightarrow> int \<Rightarrow> ('w, 'acc, 'tx, 'sim, guard_call) p2p_method" where
  "confirmFiat seller offerId =
     p2p_write ''confirm_fiat'' seller [Sc_Address seller, Sc_U64 offerId]
       (''P2P confirm payment received on offer #'' @ show_int offerId)
       (Some [''Confirm you received the TRY for offer #'' @ show_int offerId,
              ''This releases the locked tokens to the buyer '' @ em_dash @ '' confirm only after the TRY arrived''])"

definition p2p_cancel :: "string \<Rightarrow> int \<Rightarrow> ('w, 'acc, 'tx, 'sim, guard_call) p2p_method" where
  "p2p_cancel seller offerId =
     p2p_write ''cancel'' seller [Sc_Address seller, Sc_U64 offerId] (''P2P cancel offer #'' @ show_int offerId)
       (Some [''Cancel offer #'' @ show_int offerId @ '' and unlock the tokens''])"

definition p2p_reclaim :: "string \<Rightarrow> int \<Rightarrow> ('w, 'acc, 'tx, 'sim, guard_call) p2p_method" where
  "p2p_reclaim seller offerId =
     p2p_write ''reclaim'' seller [Sc_Address seller, Sc_U64 offerId] (''P2P reclaim offer #'' @ show_int offerId)
       (Some [''The buyer did not pay by the pay deadline; reclaim the locked tokens''])"

definition p2p_read :: "string \<Rightarrow> sc_value list \<Rightarrow> ('w, 'acc, 'tx, 'sim, native) p2p_method" where
  "p2p_read m args sdk cl =
     eff_bind (eff_of plain_error (encode_args sdk args)) (\<lambda>args.
       simulateRead sdk (cl_rpc cl) (client_options cl (cl_source cl) m args))"

definition getOffer :: "int \<Rightarrow> ('w, 'acc, 'tx, 'sim, offer option) p2p_method" where
  "getOffer offerId sdk cl =
     eff_bind (p2p_read ''get_offer'' [Sc_U64 offerId] sdk cl) (\<lambda>v.
       if v = N_Null \<or> v = N_Undefined then eff_ret None
       else eff_bind (eff_of (\<lambda>e. e) (decodeOffer v)) (\<lambda>x. eff_ret (Some x)))"

definition nextOfferId :: "('w, 'acc, 'tx, 'sim, int) p2p_method" where
  "nextOfferId sdk cl =
     eff_bind (p2p_read ''next_offer_id'' [] sdk cl) (\<lambda>v.
       case v of
         N_Big i \<Rightarrow> eff_ret i
       | N_Num i \<Rightarrow> eff_ret i
       | _ \<Rightarrow> eff_throw (bad_read (''next_offer_id returned '' @ js_string v)))"

fun decode_offers :: "native list \<Rightarrow> p2p_thrown + offer list" where
  "decode_offers [] = Inr []"
| "decode_offers (v # vs) = and_then (decodeOffer v) (\<lambda>x. and_then (decode_offers vs) (\<lambda>xs. Inr (x # xs)))"

text \<open>\<open>num\<close> is \<open>String\<close> of a number.\<close>

definition listOpen :: "(js_number \<Rightarrow> string) \<Rightarrow> int \<Rightarrow> js_number \<Rightarrow> ('w, 'acc, 'tx, 'sim, offer list) p2p_method" where
  "listOpen num start limit sdk cl =
     (if \<not> is_integer limit \<or> jless limit 0 then
        eff_throw (Thrown_P2p (p2p_refuse Invalid_Intent (''listOpen limit must be a non-negative integer, got '' @ num limit)))
      else
        eff_bind (p2p_read ''list_open'' [Sc_U64 start, Sc_U32 (jfloor limit)] sdk cl) (\<lambda>v.
          case v of
            N_List vs \<Rightarrow> eff_of (\<lambda>e. e) (decode_offers vs)
          | _ \<Rightarrow> eff_ret []))"

end
