(* ===== verification/P2p_Escrow_Laws.thy ===== *)
theory P2p_Escrow_Laws
  imports P2p_Escrow
begin

text \<open>
  What the escrow contract keeps over every history of calls: the tokens it holds cover the offers
  that are still live, and the contract itself never keeps an offer from its seller for good.
\<close>

section \<open>Histories\<close>

text \<open>
  \<open>sep41 tr bal\<close>: \<open>bal b t a\<close> is the balance of the address \<open>a\<close> in the token \<open>t\<close>, and a transfer that
  succeeds moves exactly the amount.
\<close>

definition sep41 :: "(string \<Rightarrow> string \<Rightarrow> string \<Rightarrow> int \<Rightarrow> 'b \<Rightarrow> 'b option) \<Rightarrow> ('b \<Rightarrow> string \<Rightarrow> string \<Rightarrow> int) \<Rightarrow> bool" where
  "sep41 tr bal \<longleftrightarrow>
     (\<forall>token from_addr to_addr amount b b'. tr token from_addr to_addr amount b = Some b' \<longrightarrow>
        (\<forall>t a. bal b' t a = bal b t a
           + (if t = token \<and> a = to_addr then amount else 0) - (if t = token \<and> a = from_addr then amount else 0)))"

datatype escrow_event = Ev_Offered int | Ev_Accepted int string | Ev_Closed int | Ev_Elsewhere

text \<open>
  A step is a call that succeeds, or anything the rest of the ledger does to the tokens: only the
  contract takes from its own balances, and it is never the party that signs a call to itself.
\<close>

inductive escrow_step ::
    "'b escrow_env \<Rightarrow> ('b \<Rightarrow> string \<Rightarrow> string \<Rightarrow> int) \<Rightarrow> int \<Rightarrow> 'b escrow \<Rightarrow> escrow_event \<Rightarrow> 'b escrow \<Rightarrow> bool"
  for env bal where
  offer_made: "create_offer env now st seller token amount price ttl = Inr (i, st') \<Longrightarrow> seller \<noteq> ee_self env \<Longrightarrow>
    escrow_step env bal now st (Ev_Offered i) st'"
| offer_accepted: "accept now st buyer i = Inr st' \<Longrightarrow> buyer \<noteq> ee_self env \<Longrightarrow>
    escrow_step env bal now st (Ev_Accepted i buyer) st'"
| offer_confirmed: "confirm_fiat env st seller i = Inr st' \<Longrightarrow> escrow_step env bal now st (Ev_Closed i) st'"
| offer_cancelled: "cancel env st seller i = Inr st' \<Longrightarrow> escrow_step env bal now st (Ev_Closed i) st'"
| offer_reclaimed: "reclaim env now st seller i = Inr st' \<Longrightarrow> escrow_step env bal now st (Ev_Closed i) st'"
| elsewhere: "st' = st\<lparr>es_tokens := b\<rparr> \<Longrightarrow> (\<And>t. bal (es_tokens st) t (ee_self env) \<le> bal b t (ee_self env)) \<Longrightarrow>
    escrow_step env bal now st Ev_Elsewhere st'"

inductive_cases escrow_stepE: "escrow_step env bal now st ev st'"

inductive escrow_steps ::
    "'b escrow_env \<Rightarrow> ('b \<Rightarrow> string \<Rightarrow> string \<Rightarrow> int) \<Rightarrow> int \<Rightarrow> 'b escrow \<Rightarrow> (int \<times> escrow_event) list \<Rightarrow> 'b escrow \<Rightarrow> bool"
  for env bal where
  no_step: "escrow_steps env bal t0 st [] st"
| one_step: "t0 \<le> now \<Longrightarrow> escrow_step env bal now st ev st' \<Longrightarrow> escrow_steps env bal now st' evs st'' \<Longrightarrow>
    escrow_steps env bal t0 st ((now, ev) # evs) st''"

definition empty_escrow :: "'b \<Rightarrow> 'b escrow" where
  "empty_escrow b = \<lparr>es_next = 1, es_offer = (\<lambda>_. None), es_tokens = b\<rparr>"

section \<open>The operations in one line\<close>

lemma escrow_err_Inr [simp]: "escrow_err r = Inr x \<longleftrightarrow> r = Inr x"
  by (simp add: escrow_err_def)

lemma escrow_err_Inl [simp]: "escrow_err r = Inl e \<longleftrightarrow> (\<exists>e'. r = Inl e' \<and> e = Escrow_Err e')"
  by (auto simp: escrow_err_def)

lemma load_offer_Inr [simp]: "load_offer st i = Inr x \<longleftrightarrow> es_offer st i = Some x"
  by (simp add: load_offer_def)

lemma pay_tokens_Inr: "pay_tokens env token f t amount st = Inr st' \<longleftrightarrow>
    (\<exists>b. ee_transfer env token f t amount (es_tokens st) = Some b \<and> st' = st\<lparr>es_tokens := b\<rparr>)"
  by (auto simp: pay_tokens_def split: option.splits)

definition live :: "offer \<Rightarrow> bool" where
  "live x \<longleftrightarrow> of_state x = Open \<or> of_state x = Accepted"

text \<open>A payout closes a live offer: \<open>closed i x s a\<close> goes to the state \<open>s\<close> and pays the address \<open>a\<close>.\<close>

definition closed :: "'b escrow_env \<Rightarrow> 'b escrow \<Rightarrow> int \<Rightarrow> offer \<Rightarrow> offer_state \<Rightarrow> string \<Rightarrow> 'b escrow \<Rightarrow> bool" where
  "closed env st i x s a st' \<longleftrightarrow> es_offer st i = Some x \<and> live x \<and> s \<in> {Settled, Cancelled, Expired}
     \<and> (s = Settled \<longrightarrow> of_state x = Accepted \<and> of_buyer x = Some a) \<and> (s \<noteq> Settled \<longrightarrow> a = of_seller x)
     \<and> (\<exists>b. ee_transfer env (of_token x) (ee_self env) a (of_amount x) (es_tokens st) = Some b
          \<and> st' = (store_offer st i (x\<lparr>of_state := s\<rparr>))\<lparr>es_tokens := b\<rparr>)"

lemma tokens_store [simp]: "es_tokens (store_offer st i x) = es_tokens st" "es_next (store_offer st i x) = es_next st"
  "es_offer (store_offer st i x) = (es_offer st)(i \<mapsto> x)"
  by (simp_all add: store_offer_def)

lemma confirm_closes:
  "confirm_fiat env st seller i = Inr st' \<Longrightarrow> \<exists>x a. of_buyer x = Some a \<and> closed env st i x Settled a st'"
  by (auto simp: confirm_fiat_def pay_tokens_Inr closed_def live_def split: if_splits)

lemma cancel_closes: "cancel env st seller i = Inr st' \<Longrightarrow> \<exists>x. closed env st i x Cancelled seller st'"
  by (auto simp: cancel_def pay_tokens_Inr closed_def live_def split: if_splits)

lemma reclaim_closes:
  "reclaim env now st seller i = Inr st' \<Longrightarrow> \<exists>x. refundable now x = Some True \<and> closed env st i x Expired seller st'"
  by (auto simp: reclaim_def refundable_def pay_tokens_Inr closed_def live_def
      split: if_splits option.splits bool.splits offer_state.splits)

definition fresh_offer :: "int \<Rightarrow> string \<Rightarrow> string \<Rightarrow> int \<Rightarrow> int \<Rightarrow> int \<Rightarrow> int \<Rightarrow> offer" where
  "fresh_offer i seller token amount price now ttl =
     \<lparr>of_id = i, of_seller = seller, of_token = token, of_amount = amount, of_price_try_kurus = price,
      of_created_at = now, of_expires_at = now + ttl, of_buyer = None, of_accepted_at = 0, of_pay_deadline = 0,
      of_state = Open\<rparr>"

lemma create_offer_Inr:
  assumes "create_offer env now st seller token amount price ttl = Inr (i, st')"
  shows "0 < amount \<and> 0 < price \<and> 60 \<le> ttl \<and> ttl \<le> 604800 \<and> i = es_next st
     \<and> (\<exists>b. ee_transfer env token seller (ee_self env) amount (es_tokens st) = Some b
          \<and> st' = st\<lparr>es_next := i + 1, es_offer := (es_offer st)(i \<mapsto> fresh_offer i seller token amount price now ttl),
                    es_tokens := b\<rparr>)"
proof -
  have c: "0 < amount" "0 < price" "60 \<le> ttl" "ttl \<le> 604800"
    using assms by (simp_all add: create_offer_def MIN_TTL_SECS_def MAX_TTL_SECS_def split: if_split_asm)
  then have "\<not> amount \<le> 0" "\<not> price \<le> 0" "MIN_TTL_SECS \<le> ttl \<and> ttl \<le> MAX_TTL_SECS"
    by (simp_all add: MIN_TTL_SECS_def MAX_TTL_SECS_def)
  with assms obtain b where "i = es_next st" "ee_transfer env token seller (ee_self env) amount (es_tokens st) = Some b"
      "st' = (store_offer (st\<lparr>es_next := i + 1\<rparr>) i (fresh_offer i seller token amount price now ttl))\<lparr>es_tokens := b\<rparr>"
    unfolding create_offer_def Let_def by (auto simp: pay_tokens_Inr fresh_offer_def)
  then show ?thesis using c by (simp add: store_offer_def)
qed

lemma accept_Inr:
  assumes "accept now st buyer i = Inr st'"
  shows "\<exists>x. es_offer st i = Some x \<and> of_state x = Open \<and> now < of_expires_at x \<and> buyer \<noteq> of_seller x
        \<and> st' = store_offer st i (x\<lparr>of_buyer := Some buyer, of_accepted_at := now, of_pay_deadline := now + 1800,
                                    of_state := Accepted\<rparr>)"
proof -
  obtain x where x: "es_offer st i = Some x" using assms by (auto simp: accept_def)
  then have "of_state x = Open \<and> \<not> now \<ge> of_expires_at x \<and> buyer \<noteq> of_seller x"
    using assms by (simp add: accept_def load_offer_def ok_or_def escrow_err_def split: if_split_asm)
  moreover from this have "st' = store_offer st i (x\<lparr>of_buyer := Some buyer, of_accepted_at := now, of_pay_deadline := now + 1800,
                                    of_state := Accepted\<rparr>)"
    using assms x by (simp add: accept_def load_offer_def ok_or_def escrow_err_def PAY_WINDOW_SECS_def checked_u64_def split: if_split_asm)
  ultimately show ?thesis using x by auto
qed

section \<open>The invariant\<close>

definition held :: "'b escrow \<Rightarrow> string \<Rightarrow> int \<Rightarrow> int" where
  "held st t i = (case es_offer st i of Some x \<Rightarrow> if live x \<and> of_token x = t then of_amount x else 0 | None \<Rightarrow> 0)"

text \<open>What the live offers in a token are worth together.\<close>

definition locked :: "'b escrow \<Rightarrow> string \<Rightarrow> int" where
  "locked st t = (\<Sum>i \<in> {1..<es_next st}. held st t i)"

definition good_offer :: "string \<Rightarrow> int \<Rightarrow> offer \<Rightarrow> bool" where
  "good_offer self i x \<longleftrightarrow> of_id x = i \<and> 0 < of_amount x \<and> 0 < of_price_try_kurus x \<and> of_seller x \<noteq> self
     \<and> of_buyer x \<noteq> Some self \<and> of_buyer x \<noteq> Some (of_seller x)
     \<and> (of_state x = Accepted \<longrightarrow> of_buyer x \<noteq> None
          \<and> of_accepted_at x < of_expires_at x \<and> of_pay_deadline x = of_accepted_at x + 1800)"

definition escrow_inv :: "'b escrow_env \<Rightarrow> ('b \<Rightarrow> string \<Rightarrow> string \<Rightarrow> int) \<Rightarrow> 'b escrow \<Rightarrow> bool" where
  "escrow_inv env bal st \<longleftrightarrow> 1 \<le> es_next st
     \<and> (\<forall>i. es_offer st i \<noteq> None \<longleftrightarrow> 1 \<le> i \<and> i < es_next st)
     \<and> (\<forall>i x. es_offer st i = Some x \<longrightarrow> good_offer (ee_self env) i x)
     \<and> (\<forall>t. locked st t \<le> bal (es_tokens st) t (ee_self env))"

lemma escrow_invD:
  assumes "escrow_inv env bal st"
  shows "1 \<le> es_next st" "es_offer st i \<noteq> None \<longleftrightarrow> 1 \<le> i \<and> i < es_next st"
    "es_offer st i = Some x \<Longrightarrow> good_offer (ee_self env) i x" "locked st t \<le> bal (es_tokens st) t (ee_self env)"
  using assms unfolding escrow_inv_def by blast+

lemma locked_store:
  assumes "1 \<le> i" "i < es_next st"
  shows "locked (store_offer st i x) t = locked st t - held st t i + held (store_offer st i x) t i"
proof -
  let ?I = "{1..<es_next st}"
  have i: "i \<in> ?I" using assms by simp
  have "(\<Sum>j \<in> ?I. held (store_offer st i x) t j) = held (store_offer st i x) t i + (\<Sum>j \<in> ?I - {i}. held (store_offer st i x) t j)"
    using i by (subst sum.remove) simp_all
  also have "(\<Sum>j \<in> ?I - {i}. held (store_offer st i x) t j) = (\<Sum>j \<in> ?I - {i}. held st t j)"
    by (rule sum.cong) (auto simp: held_def)
  also have "\<dots> = (\<Sum>j \<in> ?I. held st t j) - held st t i" using i by (simp add: sum.remove [of ?I i])
  finally show ?thesis by (simp add: locked_def)
qed

lemma locked_tokens [simp]: "locked (st\<lparr>es_tokens := b\<rparr>) t = locked st t"
  by (simp add: locked_def held_def)

lemma sep41_move:
  assumes "sep41 tr bal" "tr token f a amount b = Some b'"
  shows "bal b' t c = bal b t c + (if t = token \<and> c = a then amount else 0) - (if t = token \<and> c = f then amount else 0)"
  using assms unfolding sep41_def by blast

lemma empty_inv: "(\<And>t. 0 \<le> bal b t (ee_self env)) \<Longrightarrow> escrow_inv env bal (empty_escrow b)"
  by (simp add: escrow_inv_def empty_escrow_def locked_def)

lemma closed_inv:
  assumes inv: "escrow_inv env bal st" and sep: "sep41 (ee_transfer env) bal" and c: "closed env st i x s a st'"
  shows "escrow_inv env bal st'"
proof -
  note d = escrow_invD [OF inv]
  let ?y = "x\<lparr>of_state := s\<rparr>"
  from c obtain b where x: "es_offer st i = Some x" "live x" and b: "ee_transfer env (of_token x) (ee_self env) a (of_amount x) (es_tokens st) = Some b"
      and st': "st' = (store_offer st i ?y)\<lparr>es_tokens := b\<rparr>" and s: "s \<in> {Settled, Cancelled, Expired}"
      and a: "s = Settled \<longrightarrow> of_buyer x = Some a" "s \<noteq> Settled \<longrightarrow> a = of_seller x"
    by (auto simp: closed_def)
  have i: "1 \<le> i" "i < es_next st" using d(2) [of i] x(1) by simp_all
  have g: "good_offer (ee_self env) i x" by (rule d(3) [OF x(1)])
  then have self: "a \<noteq> ee_self env" using a by (cases "s = Settled") (auto simp: good_offer_def)
  have "locked st' t \<le> bal b t (ee_self env)" for t
  proof -
    have "locked st' t = locked st t - (if of_token x = t then of_amount x else 0)"
      using x s by (auto simp: st' locked_store [OF i] held_def live_def)
    moreover have "bal b t (ee_self env) = bal (es_tokens st) t (ee_self env) - (if of_token x = t then of_amount x else 0)"
      using sep41_move [OF sep b, of t "ee_self env"] self by auto
    ultimately show ?thesis using d(4) [of t] by simp
  qed
  moreover have "good_offer (ee_self env) i ?y" using g s by (auto simp: good_offer_def)
  ultimately show ?thesis
    unfolding escrow_inv_def using d(1,2,3) i by (auto simp: st')
qed

lemma accept_inv:
  assumes inv: "escrow_inv env bal st" and a: "accept now st buyer i = Inr st'" and self: "buyer \<noteq> ee_self env"
  shows "escrow_inv env bal st'"
proof -
  note d = escrow_invD [OF inv]
  from accept_Inr [OF a] obtain x y where x: "es_offer st i = Some x" "of_state x = Open" "now < of_expires_at x" "buyer \<noteq> of_seller x"
      and y: "y = x\<lparr>of_buyer := Some buyer, of_accepted_at := now, of_pay_deadline := now + 1800, of_state := Accepted\<rparr>"
      and st': "st' = store_offer st i y" by blast
  have i: "1 \<le> i" "i < es_next st" using d(2) [of i] x(1) by simp_all
  have g: "good_offer (ee_self env) i y" using d(3) [OF x(1)] self x by (auto simp: good_offer_def y)
  have "locked st' t = locked st t" for t
    using x by (simp add: st' locked_store [OF i] held_def live_def y)
  then show ?thesis unfolding escrow_inv_def using d g i by (auto simp: st')
qed

lemma create_offer_inv:
  assumes inv: "escrow_inv env bal st" and sep: "sep41 (ee_transfer env) bal"
    and c: "create_offer env now st seller token amount price ttl = Inr (i, st')" and self: "seller \<noteq> ee_self env"
  shows "escrow_inv env bal st'"
proof -
  note d = escrow_invD [OF inv]
  from create_offer_Inr [OF c] obtain b where p: "0 < amount" "0 < price" "i = es_next st"
      and b: "ee_transfer env token seller (ee_self env) amount (es_tokens st) = Some b"
      and st': "st' = st\<lparr>es_next := i + 1, es_offer := (es_offer st)(i \<mapsto> fresh_offer i seller token amount price now ttl), es_tokens := b\<rparr>"
    by blast
  have "locked st' t = locked st t + (if token = t then amount else 0)" for t
  proof -
    have "{1..<es_next st + 1} = insert (es_next st) {1..<es_next st}" using d(1) by auto
    moreover have "(\<Sum>j \<in> {1..<es_next st}. held st' t j) = (\<Sum>j \<in> {1..<es_next st}. held st t j)"
      by (rule sum.cong) (auto simp: st' held_def p(3))
    ultimately show ?thesis using p by (simp add: locked_def st' held_def live_def fresh_offer_def)
  qed
  moreover have "bal b t (ee_self env) = bal (es_tokens st) t (ee_self env) + (if token = t then amount else 0)" for t
    using sep41_move [OF sep b, of t "ee_self env"] self by auto
  ultimately have "locked st' t \<le> bal (es_tokens st') t (ee_self env)" for t
    using d(4) [of t] by (simp add: st')
  moreover have "good_offer (ee_self env) i (fresh_offer i seller token amount price now ttl)"
    using p self by (simp add: good_offer_def fresh_offer_def)
  moreover have "es_offer st' j \<noteq> None \<longleftrightarrow> 1 \<le> j \<and> j < es_next st'" for j
    using d(2) [of j] d(1) p(3) by (auto simp: st')
  ultimately show ?thesis
    unfolding escrow_inv_def using d(1,3) p(3) by (auto simp: st')
qed

lemma escrow_step_inv:
  assumes "escrow_step env bal now st ev st'" and inv: "escrow_inv env bal st" and sep: "sep41 (ee_transfer env) bal"
  shows "escrow_inv env bal st'"
  using assms(1)
proof cases
  case offer_made
  then show ?thesis using create_offer_inv [OF inv sep] by blast
next
  case offer_accepted
  then show ?thesis using accept_inv [OF inv] by blast
next
  case offer_confirmed
  then show ?thesis using confirm_closes closed_inv [OF inv sep] by blast
next
  case offer_cancelled
  then show ?thesis using cancel_closes closed_inv [OF inv sep] by blast
next
  case offer_reclaimed
  then show ?thesis using reclaim_closes closed_inv [OF inv sep] by blast
next
  case (elsewhere b)
  then show ?thesis using escrow_invD [OF inv] unfolding escrow_inv_def by simp (meson order_trans)
qed

lemma escrow_steps_inv:
  assumes "escrow_steps env bal t0 st evs st'" "escrow_inv env bal st" "sep41 (ee_transfer env) bal"
  shows "escrow_inv env bal st'"
  using assms by (induction rule: escrow_steps.induct) (auto dest: escrow_step_inv)

section \<open>The life of an offer\<close>

definition offer_terms :: "offer \<Rightarrow> offer \<Rightarrow> bool" where
  "offer_terms x y \<longleftrightarrow> of_id y = of_id x \<and> of_seller y = of_seller x \<and> of_token y = of_token x \<and> of_amount y = of_amount x
     \<and> of_price_try_kurus y = of_price_try_kurus x \<and> of_created_at y = of_created_at x \<and> of_expires_at y = of_expires_at x"

text \<open>Who a closed offer was paid to: the buyer of a settled one, the seller of any other.\<close>

definition recipient :: "offer \<Rightarrow> string" where
  "recipient y = (case of_buyer y of Some a \<Rightarrow> if of_state y = Settled then a else of_seller y | None \<Rightarrow> of_seller y)"

lemma offer_terms_refl [simp]: "offer_terms x x"
  by (simp add: offer_terms_def)

lemma offer_terms_trans: "offer_terms x y \<Longrightarrow> offer_terms y z \<Longrightarrow> offer_terms x z"
  by (simp add: offer_terms_def)

lemma live_fresh: "live (fresh_offer i seller token amount price now ttl)"
  by (simp add: live_def fresh_offer_def)

section \<open>Properties\<close>

lemma held_le_locked:
  assumes inv: "escrow_inv env bal st" and x: "es_offer st i = Some x" "live x"
  shows "of_amount x \<le> locked st (of_token x)"
proof -
  note d = escrow_invD [OF inv]
  have i: "i \<in> {1..<es_next st}" using d(2) [of i] x(1) by simp
  have "0 \<le> held st (of_token x) j" for j
    using d(3) [of j] by (force simp: held_def good_offer_def split: option.splits)
  then have "held st (of_token x) i \<le> locked st (of_token x)"
    unfolding locked_def using i by (intro member_le_sum) simp_all
  then show ?thesis using x by (simp add: held_def)
qed

text \<open>C10: The escrow is always covered.  Whatever calls are made and however tokens move elsewhere, what the
  contract holds in a token is at least what all its live offers in that token are worth together, so
  that every live offer can be paid out, whichever are paid before.\<close>

theorem escrow_covers_offers:
  assumes "sep41 (ee_transfer env) bal" "\<forall>t. 0 \<le> bal b t (ee_self env)" "escrow_steps env bal t0 (empty_escrow b) evs st"
  shows "(\<Sum>i \<in> {1..<es_next st}. case es_offer st i of
            Some x \<Rightarrow> if (of_state x = Open \<or> of_state x = Accepted) \<and> of_token x = t then of_amount x else 0
          | None \<Rightarrow> 0) \<le> bal (es_tokens st) t (ee_self env)
    \<and> (\<forall>i x. es_offer st i = Some x \<and> live x \<longrightarrow> 0 < of_amount x \<and> of_amount x \<le> bal (es_tokens st) (of_token x) (ee_self env))"
proof -
  have inv: "escrow_inv env bal st"
    using escrow_steps_inv [OF assms(3) empty_inv assms(1)] assms(2) by simp
  have "locked st t \<le> bal (es_tokens st) t (ee_self env)" for t by (rule escrow_invD(4) [OF inv])
  moreover have "0 < of_amount x" if "es_offer st i = Some x" for i x
    using escrow_invD(3) [OF inv that] by (simp add: good_offer_def)
  ultimately show ?thesis using held_le_locked [OF inv] unfolding locked_def held_def live_def by (meson order_trans)
qed

text \<open>C13: The contract never keeps an offer.  The tokens of a live offer are there, and later than half an
  hour after its expiry the contract lets its seller take them back: the only thing that can still refuse
  is the transfer of the token contract, and then nothing has changed.  While the pay window of an
  accepted offer runs the seller cannot take the tokens back; confirming is all there is, and it pays the
  buyer unless the token contract refuses.  This is about offers whose storage entry is live: rent and
  archival are not modelled.\<close>

theorem offer_never_stuck:
  assumes "sep41 (ee_transfer env) bal" "\<forall>t. 0 \<le> bal b t (ee_self env)" "escrow_steps env bal t0 (empty_escrow b) evs st"
    "es_offer st i = Some x" "live x"
  shows "of_amount x \<le> bal (es_tokens st) (of_token x) (ee_self env)
    \<and> (of_expires_at x + 1800 < now \<longrightarrow>
       (case ee_transfer env (of_token x) (ee_self env) (of_seller x) (of_amount x) (es_tokens st) of
          None \<Rightarrow> reclaim env now st (of_seller x) i = Inl Transfer_Trap
        | Some b' \<Rightarrow> \<exists>st'. reclaim env now st (of_seller x) i = Inr st' \<and> es_offer st' i = Some (x\<lparr>of_state := Expired\<rparr>)
            \<and> bal (es_tokens st') (of_token x) (of_seller x) = bal (es_tokens st) (of_token x) (of_seller x) + of_amount x))
    \<and> (of_state x = Accepted \<and> now \<le> of_pay_deadline x \<longrightarrow>
         reclaim env now st (of_seller x) i = Inl (Escrow_Err ReclaimTooEarly)
         \<and> cancel env st (of_seller x) i = Inl (Escrow_Err OfferNotOpen)
         \<and> (\<exists>buyer. of_buyer x = Some buyer
              \<and> (case ee_transfer env (of_token x) (ee_self env) buyer (of_amount x) (es_tokens st) of
                   None \<Rightarrow> confirm_fiat env st (of_seller x) i = Inl Transfer_Trap
                 | Some b' \<Rightarrow> \<exists>st'. confirm_fiat env st (of_seller x) i = Inr st'
                     \<and> es_offer st' i = Some (x\<lparr>of_state := Settled\<rparr>)
                     \<and> bal (es_tokens st') (of_token x) buyer = bal (es_tokens st) (of_token x) buyer + of_amount x)))"
proof -
  have inv: "escrow_inv env bal st" using escrow_steps_inv [OF assms(3) empty_inv assms(1)] assms(2) by simp
  have g: "good_offer (ee_self env) i x" by (rule escrow_invD(3) [OF inv assms(4)])
  have covered: "of_amount x \<le> bal (es_tokens st) (of_token x) (ee_self env)"
    using held_le_locked [OF inv assms(4,5)] escrow_invD(4) [OF inv, of "of_token x"] by simp
  have load: "load_offer st i = Inr x" using assms(4) by simp
  have gets: "bal b' (of_token x) a = bal (es_tokens st) (of_token x) a + of_amount x"
    if "ee_transfer env (of_token x) (ee_self env) a (of_amount x) (es_tokens st) = Some b'" "a \<noteq> ee_self env" for a b'
    using sep41_move [OF assms(1) that(1), of "of_token x" a] that(2) by simp
  have late: "refundable now x = Some True" if "of_expires_at x + 1800 < now"
    using that g assms(5) by (auto simp: refundable_def good_offer_def live_def)
  have seller: "of_seller x \<noteq> ee_self env" using g by (simp add: good_offer_def)
  have buyer: "\<exists>a. of_buyer x = Some a \<and> a \<noteq> ee_self env" if "of_state x = Accepted" using g that by (auto simp: good_offer_def)
  show ?thesis
    using covered buyer gets [OF _ seller] gets late
    by (auto simp: reclaim_def cancel_def confirm_fiat_def load pay_tokens_def refundable_def escrow_err_def ok_or_def split: option.splits)
qed

section \<open>An example ledger\<close>

definition ledger_move :: "string \<Rightarrow> string \<Rightarrow> string \<Rightarrow> int \<Rightarrow> (string \<Rightarrow> string \<Rightarrow> int) \<Rightarrow> string \<Rightarrow> string \<Rightarrow> int" where
  "ledger_move token f a amount b = (\<lambda>t c. b t c + (if t = token \<and> c = a then amount else 0) - (if t = token \<and> c = f then amount else 0))"

definition ledger_transfer :: "string \<Rightarrow> string \<Rightarrow> string \<Rightarrow> int \<Rightarrow> (string \<Rightarrow> string \<Rightarrow> int) \<Rightarrow> (string \<Rightarrow> string \<Rightarrow> int) option" where
  "ledger_transfer token f a amount b = (if 0 \<le> amount \<and> amount \<le> b token f then Some (ledger_move token f a amount b) else None)"

definition ledger_example :: "string \<Rightarrow> string \<Rightarrow> int" where
  "ledger_example t a = (if a = ''GSELL'' then 100 else 0)"

definition escrow_env_example :: "(string \<Rightarrow> string \<Rightarrow> int) escrow_env" where
  "escrow_env_example = \<lparr>ee_self = ''CESC'', ee_transfer = ledger_transfer\<rparr>"

definition offer_example :: offer where
  "offer_example = fresh_offer 1 ''GSELL'' ''CUSDC'' 40 340000 1000 60"

definition accepted_example :: offer where
  "accepted_example = offer_example\<lparr>of_buyer := Some ''GBUY'', of_accepted_at := 1010, of_pay_deadline := 2810, of_state := Accepted\<rparr>"

definition escrow_example :: "offer \<Rightarrow> (string \<Rightarrow> string \<Rightarrow> int) escrow" where
  "escrow_example x = \<lparr>es_next = 2, es_offer = (\<lambda>_. None)(1 \<mapsto> x), es_tokens = ledger_move ''CUSDC'' ''GSELL'' ''CESC'' 40 ledger_example\<rparr>"

lemma sep41_example: "sep41 (ee_transfer escrow_env_example) (\<lambda>b. b)"
  by (simp add: sep41_def escrow_env_example_def ledger_transfer_def ledger_move_def)

lemma ledger_example_start: "\<forall>t. 0 \<le> ledger_example t (ee_self escrow_env_example)"
  by (simp add: ledger_example_def escrow_env_example_def)

lemma offered_example:
  "escrow_step escrow_env_example (\<lambda>b. b) 1000 (empty_escrow ledger_example) (Ev_Offered 1) (escrow_example offer_example)"
proof (rule offer_made)
  show "create_offer escrow_env_example 1000 (empty_escrow ledger_example) ''GSELL'' ''CUSDC'' 40 340000 60
      = Inr (1, escrow_example offer_example)"
    by (simp add: create_offer_def MIN_TTL_SECS_def MAX_TTL_SECS_def checked_u64_def ok_or_def escrow_err_def pay_tokens_def
        empty_escrow_def escrow_example_def store_offer_def escrow_env_example_def ledger_transfer_def offer_example_def
        fresh_offer_def ledger_example_def Let_def)
qed (simp add: escrow_env_example_def)

lemma accepted_step_example:
  "escrow_step escrow_env_example (\<lambda>b. b) 1010 (escrow_example offer_example) (Ev_Accepted 1 ''GBUY'') (escrow_example accepted_example)"
proof (rule offer_accepted)
  show "accept 1010 (escrow_example offer_example) ''GBUY'' 1 = Inr (escrow_example accepted_example)"
    by (simp add: accept_def load_offer_def escrow_example_def store_offer_def ok_or_def escrow_err_def checked_u64_def
        PAY_WINDOW_SECS_def offer_example_def accepted_example_def fresh_offer_def)
qed (simp add: escrow_env_example_def)

lemma history_example:
  "escrow_steps escrow_env_example (\<lambda>b. b) 0 (empty_escrow ledger_example) [(1000, Ev_Offered 1), (1010, Ev_Accepted 1 ''GBUY'')]
     (escrow_example accepted_example)"
  using one_step [OF _ offered_example one_step [OF _ accepted_step_example no_step]] by simp

theorem escrow_covers_offers_witness: "40 \<le> es_tokens (escrow_example accepted_example) ''CUSDC'' ''CESC''"
  using escrow_covers_offers [OF sep41_example ledger_example_start history_example, of "''CUSDC''"]
  by (simp add: escrow_example_def accepted_example_def offer_example_def fresh_offer_def escrow_env_example_def live_def)

theorem offer_never_stuck_witness:
  "\<exists>st'. reclaim escrow_env_example 5000 (escrow_example accepted_example) ''GSELL'' 1 = Inr st'
     \<and> es_tokens st' ''CUSDC'' ''GSELL'' = es_tokens (escrow_example accepted_example) ''CUSDC'' ''GSELL'' + 40"
proof -
  have "es_offer (escrow_example accepted_example) 1 = Some accepted_example" "live accepted_example"
    by (simp_all add: escrow_example_def accepted_example_def live_def)
  from offer_never_stuck [OF sep41_example ledger_example_start history_example this, of 5000]
  show ?thesis
    by (simp add: accepted_example_def offer_example_def fresh_offer_def escrow_env_example_def ledger_transfer_def escrow_example_def
        ledger_move_def ledger_example_def) blast
qed

section \<open>The order book\<close>

lemma list_open_window:
  assumes "1 \<le> start" "0 < limit" "limit \<le> 20" "start + limit < 2 ^ 64"
  shows "list_open now st start limit = List.map_filter (open_at now st) [start..min (start + limit) (es_next st) - 1]"
proof (cases "start \<ge> es_next st")
  case True
  then have "[start..min (start + limit) (es_next st) - 1] = []" by simp
  then show ?thesis using True assms by (simp add: list_open_def Let_def MAX_PAGE_def List.map_filter_simps)
next
  case False
  have "saturating_add_u64 start limit = start + limit" using assms(4) by (simp add: saturating_add_u64_def)
  then show ?thesis using False assms by (simp add: list_open_def Let_def MAX_PAGE_def)
qed

lemma map_filter_append: "List.map_filter f (xs @ ys) = List.map_filter f xs @ List.map_filter f ys"
  by (simp add: List.map_filter_def)

lemma window_append:
  fixes a b n :: int
  assumes "1 \<le> a" "a \<le> b" "1 \<le> n"
  shows "[1..min a n - 1] @ [a..min b n - 1] = [1..min b n - 1]"
proof (cases "a < n")
  case True
  then have "[1..min b n - 1] = [1..a - 1] @ [a..min b n - 1]"
    using upto_split1 [of 1 a "min b n - 1"] assms by (cases "a = b") simp_all
  then show ?thesis using True by simp
qed (use assms in simp)

text \<open>C30: The sweep of the contract's documentation lists the book.  Pages of 20 ids, one after the other from
  id 1 until the next id is reached, hold exactly the offers that can be taken, in the order of their
  ids: no offer is missed between two pages and none is listed twice.\<close>

theorem sweep_lists_the_book:
  assumes "1 \<le> es_next st" "es_next st \<le> 1 + 20 * int n" "20 * int n < 2 ^ 63"
  shows "concat (map (\<lambda>k. list_open now st (1 + 20 * int k) 20) [0..<n]) = List.map_filter (open_at now st) [1..es_next st - 1]"
proof -
  have "concat (map (\<lambda>k. list_open now st (1 + 20 * int k) 20) [0..<m])
      = List.map_filter (open_at now st) [1..min (1 + 20 * int m) (es_next st) - 1]" if "m \<le> n" for m
    using that
  proof (induction m)
    case 0
    then show ?case using assms(1) by (simp add: List.map_filter_simps)
  next
    case (Suc m)
    let ?a = "1 + 20 * int m"
    have bound: "?a + 20 < 2 ^ 64" using Suc.prems assms(3) by simp
    have page: "list_open now st ?a 20 = List.map_filter (open_at now st) [?a..min (?a + 20) (es_next st) - 1]"
      by (rule list_open_window) (use bound in simp_all)
    have "[1..min ?a (es_next st) - 1] @ [?a..min (?a + 20) (es_next st) - 1] = [1..min (?a + 20) (es_next st) - 1]"
      by (rule window_append) (use assms(1) in simp_all)
    then show ?case using Suc page by (simp flip: map_filter_append add: algebra_simps)
  qed
  from this [of n] assms(2) show ?thesis by simp
qed

theorem sweep_lists_the_book_witness:
  "concat (map (\<lambda>k. list_open 1005 (escrow_example offer_example) (1 + 20 * int k) 20) [0..<1]) = [offer_example]"
proof -
  have "open_at 1005 (escrow_example offer_example) 1 = Some offer_example"
    by (simp add: open_at_def escrow_example_def offer_example_def fresh_offer_def)
  then show ?thesis
    using sweep_lists_the_book [of "escrow_example offer_example" 1 1005]
    by (simp add: escrow_example_def List.map_filter_simps)
qed

end
