(* ===== verification/P2p_Client_Laws.thy ===== *)
theory P2p_Client_Laws
  imports P2p_Client P2p_Escrow_Laws
begin

text \<open>
  What the client of the escrow promises: prices are read back exactly, an error of the contract
  reaches the user as its own sentence, a text marked as a host error is never shown, the client reads the offers the contract
  holds, and a write is the call it is named after.
\<close>

section \<open>Prices\<close>

lemma tryToKurus_eq:
  "tryToKurus s =
     (if amount_re 2 s then
        (if scaled_value 2 s = 0 then Inl (p2p_refuse Invalid_Price (''price must be greater than zero, got '' @ json_quote s))
         else Inr (int (scaled_value 2 s)))
      else Inl (p2p_refuse Invalid_Price (''price must be a positive TRY decimal string with at most 2 fraction digits, got ''
              @ json_quote s)))"
proof -
  have "int (nat_of_dec (nth_or ''0'' (js_split CHR ''.'' s) 0)) * KURUS_PER_LIRA
      + int (nat_of_dec (pad_end 2 CHR ''0'' (nth_or [] (js_split CHR ''.'' s) 1))) = int (scaled_value 2 s)"
    by (simp add: scaled_value_def Let_def KURUS_PER_LIRA_def)
  then show ?thesis by (simp add: tryToKurus_def Let_def)
qed

lemma kurusToTry_eq: "0 \<le> k \<Longrightarrow> kurusToTry k = Inr (scaled_print 2 (nat k))"
proof -
  assume k: "0 \<le> k"
  then have "0 \<le> k div 100" "0 \<le> k mod 100" by (simp_all add: pos_imp_zdiv_nonneg_iff)
  with k show ?thesis
    by (simp add: kurusToTry_def scaled_print_def scaled_frac_def Let_def KURUS_PER_LIRA_def nat_div_distrib nat_mod_distrib not_less)
qed

definition price_printable :: "int \<Rightarrow> bool" where
  "price_printable k \<longleftrightarrow> 0 < k \<and> k < 10 ^ 14"

definition print_price :: "int \<Rightarrow> string" where
  "print_price k = (case kurusToTry k of Inl _ \<Rightarrow> [] | Inr s \<Rightarrow> s)"

interpretation price_codec:
  decimal_codec print_price "\<lambda>s. result_option (tryToKurus s)" price_printable
proof
  fix k assume "price_printable k"
  then have k: "0 < k" "nat k < 10 ^ (12 + 2)" by (simp_all add: price_printable_def nat_less_iff)
  then have "amount_re 2 (scaled_print 2 (nat k))" by (intro scaled_print_re) simp_all
  then show "result_option (tryToKurus (print_price k)) = Some k"
    using k by (simp add: print_price_def kurusToTry_eq tryToKurus_eq scaled_roundtrip)
next
  fix s k assume "result_option (tryToKurus s) = Some k"
  then show "price_printable k"
    using scaled_value_bound [of 2 s] by (auto simp: tryToKurus_eq price_printable_def split: if_splits)
qed

text \<open>C32: A price is read back as it was printed: for every asking price below \<open>10^14\<close> kurus the text the
  client shows is one it accepts, with the same value; and a text it accepts is a positive price in that
  range, however it is written, whose printed form means the same.\<close>

theorem price_roundtrip:
  "(0 < k \<and> k < 10 ^ 14 \<longrightarrow> (\<exists>s. kurusToTry k = Inr s \<and> tryToKurus s = Inr k))
    \<and> (tryToKurus s = Inr n \<longrightarrow> 0 < n \<and> n < 10 ^ 14 \<and> (\<exists>t. kurusToTry n = Inr t \<and> tryToKurus t = Inr n))"
proof -
  have r: "\<exists>s. kurusToTry k = Inr s \<and> tryToKurus s = Inr k" if "0 < k" "k < 10 ^ 14" for k
    using price_codec.parse_print [of k] that by (simp add: price_printable_def print_price_def kurusToTry_eq)
  have b: "0 < n \<and> n < 10 ^ 14" if "tryToKurus s = Inr n"
    using price_codec.parse_ok [of s n] that by (simp add: price_printable_def)
  show ?thesis using r [of k] r [of n] b by blast
qed

theorem price_roundtrip_witness: "\<exists>s. kurusToTry 340050 = Inr s \<and> tryToKurus s = Inr 340050"
  using price_roundtrip [of 340050 "[]" 0] by simp

section \<open>Sentences\<close>

text \<open>What the client throws when a simulation fails with a text of the host.\<close>

definition simulation_refusal :: "string \<Rightarrow> p2p_thrown" where
  "simulation_refusal text = Thrown_P2p (asP2pRefusal (thrown_of (Guard_Failure (classifyGuardText text))))"

lemma simulation_refusal_eq: "simulation_refusal text = Thrown_P2p (p2p_refuse Simulation_Failed (first_line text))"
proof -
  have "ce_message (classifyContractText text) = first_line text"
    by (simp add: classifyContractText_def classify_with_table_def classified_def split: option.splits)
  then show ?thesis
    by (simp add: simulation_refusal_def classifyGuardText_def guardErrorFromClassified_def guard_error_def)
qed

lemma upto_newline_append:
  assumes "CHR 0x0A \<notin> set p" "CHR 0x0D \<notin> set p"
  shows "upto_newline (p @ t) = p @ upto_newline t"
  using assms by (induction p) auto

lemma host_error_chars: "CHR 0x0A \<notin> set (host_error c)" "CHR 0x0D \<notin> set (host_error c)"
  using dec_digits_all [of c] by (auto simp: host_error_def list_all_iff is_digit_def char_code_def)

lemma first_line_keeps:
  assumes "CHR 0x0A \<notin> set p" "CHR 0x0D \<notin> set p" "length (p @ host_error c) \<le> 297"
  shows "\<exists>t'. first_line (p @ host_error c @ t) = p @ host_error c @ t'"
proof -
  let ?h = "p @ host_error c" and ?u = "upto_newline t"
  have u: "upto_newline (?h @ t) = ?h @ ?u"
    by (rule upto_newline_append) (use assms host_error_chars in auto)
  have "\<exists>t'. first_line (?h @ t) = ?h @ t'"
  proof (cases "300 < length (?h @ ?u)")
    case True
    have "take 297 (?h @ ?u) = ?h @ take (297 - length ?h) ?u" using assms(3) by simp
    then show ?thesis using True unfolding first_line_def Let_def u by (metis append.assoc)
  next
    case False
    then show ?thesis unfolding first_line_def Let_def u by simp
  qed
  then show ?thesis by simp
qed

lemma classified_code:
  assumes "\<not> contains ''Error(Contract,'' (p @ ''Error(Contract'')"
  shows "ce_code (classifyContractText (p @ host_error code @ t)) = Some code"
proof -
  have "ge_code (classifyGuardText (p @ host_error code @ t)) = Some code"
    unfolding classify_host_text [OF assms] guardErrorFromCode_def guard_error_def by (simp split: option.split)
  then show ?thesis by (simp add: classifyGuardText_def guardErrorFromClassified_def guard_error_def)
qed

lemma refusal_sentence:
  assumes "\<not> contains ''Error(Contract,'' (p @ ''Error(Contract'')" "CHR 0x0A \<notin> set p" "CHR 0x0D \<notin> set p"
    "length (p @ host_error code) \<le> 297" "200 \<le> code"
  shows "p2pErrorMessage (simulation_refusal (p @ host_error code @ t)) ctx
    = (case ESCROW_MESSAGES code of Some m \<Rightarrow> m | None \<Rightarrow> ''The escrow rejected this trade.'')"
proof -
  obtain t' where t': "first_line (p @ host_error code @ t) = p @ host_error code @ t'"
    using first_line_keeps [OF assms(2-4)] by blast
  show ?thesis
    using classified_code [OF assms(1), of code t'] assms(5)
    by (simp add: simulation_refusal_eq t' p2pErrorMessage_def p2p_refuse_def)
qed

definition escrow_sentence :: "escrow_error \<Rightarrow> string" where
  "escrow_sentence e = (case ESCROW_MESSAGES (escrow_code e) of Some m \<Rightarrow> m | None \<Rightarrow> [])"

lemma escrow_sentence_inj: "escrow_sentence e = escrow_sentence e' \<Longrightarrow> e = e'"
proof -
  let ?es = "[OfferNotFound, Offer_InvalidAmount, InvalidPrice, InvalidTtl, OfferNotOpen, OfferExpired, SelfTrade,
     OfferNotAccepted, NotSeller, ReclaimTooEarly, ReclaimNotAllowed, Offer_Overflow]"
  have "distinct (map escrow_sentence ?es)" by code_simp
  then have "inj_on escrow_sentence (set ?es)" by (simp only: distinct_map)
  moreover have "e \<in> set ?es" "e' \<in> set ?es" by (cases e; simp) (cases e'; simp)
  moreover assume "escrow_sentence e = escrow_sentence e'"
  ultimately show ?thesis by (simp only: inj_onD)
qed

text \<open>The sentences the client writes itself, about the asset \<open>a\<close>.\<close>

definition client_sentence :: "string \<Rightarrow> string \<Rightarrow> bool" where
  "client_sentence a m \<longleftrightarrow> m \<in> ran ESCROW_MESSAGES \<or> m = ''The escrow rejected this trade.'' \<or> m \<in> ran (TOKEN_MESSAGES a) \<or> m = host_fallback a"

text \<open>
  A refusal of the escrow contract reaches the user as a sentence of its own: when the simulation fails
  with the host's text for an error of the contract, on its first line, the message is the sentence of
  exactly that error, and no two errors share one.  And a text with one of the two marks of a host error
  is never shown: short of a refusal about configuration or price, which shows its own message, the
  message then is one of the sentences of the client, whatever the asset.  A text with neither mark and
  without a code is shown by its first line; \<open>Error(Auth, InvalidAction)\<close> is such a text.
\<close>

theorem escrow_errors_reach_user:
  assumes "\<not> contains ''Error(Contract,'' (p @ ''Error(Contract'')" "CHR 0x0A \<notin> set p" "CHR 0x0D \<notin> set p"
    "length p \<le> 200"
  shows "p2pErrorMessage (simulation_refusal (p @ host_error (escrow_code e) @ t)) ctx = escrow_sentence e
    \<and> (escrow_sentence e = escrow_sentence e' \<longrightarrow> e = e')
    \<and> ((\<forall>r. err = Thrown_P2p r \<longrightarrow> pr_code r = Invalid_Intent \<or> pr_code r = Simulation_Failed) \<longrightarrow>
         (HOST_ERROR_RE (p2p_text err) \<longrightarrow> client_sentence (case asset of Some a \<Rightarrow> a | None \<Rightarrow> DEFAULT_ASSET) (p2pErrorMessage err asset))
         \<and> (\<not> HOST_ERROR_RE (p2p_text err) \<and> ce_code (classifyContractText (p2p_text err)) = None \<longrightarrow>
              p2pErrorMessage err asset = firstLine (p2p_text err)))"
proof -
  have "200 \<le> escrow_code e" "\<exists>m. ESCROW_MESSAGES (escrow_code e) = Some m"
    by (cases e; simp add: ESCROW_MESSAGES_def)+
  moreover have "length (host_error (escrow_code e)) \<le> 97"
  proof -
    have "escrow_code e < 10 ^ 3" by (cases e) simp_all
    then have "length (dec_digits (escrow_code e)) \<le> 3" by (simp add: dec_digits_length)
    then show ?thesis by (simp add: host_error_def)
  qed
  ultimately have "p2pErrorMessage (simulation_refusal (p @ host_error (escrow_code e) @ t)) ctx = escrow_sentence e"
    using refusal_sentence [OF assms(1-3), of "escrow_code e" t ctx] assms(4) by (auto simp: escrow_sentence_def)
  moreover have "(HOST_ERROR_RE (p2p_text err) \<longrightarrow> client_sentence (case asset of Some a \<Rightarrow> a | None \<Rightarrow> DEFAULT_ASSET) (p2pErrorMessage err asset))
       \<and> (\<not> HOST_ERROR_RE (p2p_text err) \<and> ce_code (classifyContractText (p2p_text err)) = None \<longrightarrow>
            p2pErrorMessage err asset = firstLine (p2p_text err))"
    if "\<forall>r. err = Thrown_P2p r \<longrightarrow> pr_code r = Invalid_Intent \<or> pr_code r = Simulation_Failed"
  proof -
    have "\<not> (case err of Thrown_P2p r \<Rightarrow> pr_code r = Not_Configured \<or> pr_code r = Invalid_Price | Thrown_Other t \<Rightarrow> False)"
      using that by (auto split: p2p_thrown.splits)
    then show ?thesis
      by (auto simp: p2pErrorMessage_def client_sentence_def Let_def ran_def split: option.splits)
  qed
  ultimately show ?thesis using escrow_sentence_inj by blast
qed

theorem escrow_errors_reach_user_witness:
  "p2pErrorMessage (simulation_refusal (''HostError: '' @ host_error (escrow_code ReclaimTooEarly) @ '' event log'')) (Some ''USDC'')
     = ''It is too early to reclaim this offer.''"
proof -
  have "\<not> contains ''Error(Contract,'' (''HostError: '' @ ''Error(Contract'')" by code_simp
  then have "p2pErrorMessage (simulation_refusal (''HostError: '' @ host_error (escrow_code ReclaimTooEarly) @ '' event log'')) (Some ''USDC'')
     = escrow_sentence ReclaimTooEarly"
    using escrow_errors_reach_user [of "''HostError: ''" ReclaimTooEarly] by simp
  then show ?thesis by (simp add: escrow_sentence_def ESCROW_MESSAGES_def)
qed

section \<open>Offers read from the contract\<close>

text \<open>The value \<open>scValToNative\<close> makes of the contract's struct: its fields in the order of their names, a
  big integer for every integer, a one-element array for the state and \<open>null\<close> for an absent buyer.\<close>

definition native_offer :: "offer \<Rightarrow> native" where
  "native_offer x = N_Obj
     [(''accepted_at'', N_Big (of_accepted_at x)), (''amount'', N_Big (of_amount x)),
      (''buyer'', case of_buyer x of None \<Rightarrow> N_Null | Some a \<Rightarrow> N_Str a), (''created_at'', N_Big (of_created_at x)),
      (''expires_at'', N_Big (of_expires_at x)), (''id'', N_Big (of_id x)), (''pay_deadline'', N_Big (of_pay_deadline x)),
      (''price_try_kurus'', N_Big (of_price_try_kurus x)), (''seller'', N_Str (of_seller x)),
      (''state'', N_List [N_Str (offer_state_name (of_state x))]), (''token'', N_Str (of_token x))]"

text \<open>No address is the empty text.\<close>

definition proper_offer :: "offer \<Rightarrow> bool" where
  "proper_offer x \<longleftrightarrow> of_seller x \<noteq> [] \<and> of_token x \<noteq> [] \<and> of_buyer x \<noteq> Some []"

lemma asAddress_Str [simp]: "s \<noteq> [] \<Longrightarrow> asAddress (N_Str s) name = Inr s"
  by (cases s) (simp_all add: asAddress_def)

lemma asBigInt_Big [simp]: "asBigInt (N_Big i) name = Inr i"
  by (simp add: asBigInt_def)

lemma state_name: "isOfferState (N_Str (offer_state_name s)) = Some s"
  by (cases s) (simp_all add: isOfferState_def OFFER_STATES_def)

lemma normalize_state: "normalizeOfferState (N_List [N_Str (offer_state_name s)]) = Inr s"
  using state_name [of s] by (simp add: normalizeOfferState_def isOfferState_def)

lemma native_offer_fields:
  "native_field (native_offer x) ''id'' = N_Big (of_id x)" "native_field (native_offer x) ''seller'' = N_Str (of_seller x)"
  "native_field (native_offer x) ''token'' = N_Str (of_token x)" "native_field (native_offer x) ''amount'' = N_Big (of_amount x)"
  "native_field (native_offer x) ''price_try_kurus'' = N_Big (of_price_try_kurus x)"
  "native_field (native_offer x) ''created_at'' = N_Big (of_created_at x)"
  "native_field (native_offer x) ''expires_at'' = N_Big (of_expires_at x)"
  "native_field (native_offer x) ''buyer'' = (case of_buyer x of None \<Rightarrow> N_Null | Some a \<Rightarrow> N_Str a)"
  "native_field (native_offer x) ''accepted_at'' = N_Big (of_accepted_at x)"
  "native_field (native_offer x) ''pay_deadline'' = N_Big (of_pay_deadline x)"
  "native_field (native_offer x) ''state'' = N_List [N_Str (offer_state_name (of_state x))]"
  by (simp_all add: native_offer_def)

lemma decode_native_offer: "proper_offer x \<Longrightarrow> decodeOffer (native_offer x) = Inr x"
proof -
  assume p: "proper_offer x"
  have "native_object (native_offer x)" by (simp add: native_offer_def)
  with p show ?thesis
    by (cases "of_buyer x") (simp_all add: decodeOffer_def Let_def native_offer_fields normalize_state proper_offer_def)
qed

lemma decode_native_offers: "list_all proper_offer xs \<Longrightarrow> decode_offers (map native_offer xs) = Inr xs"
  by (induction xs) (simp_all add: decode_native_offer)

text \<open>A node that answers a simulated view with what the contract returns.\<close>

definition answers :: "('acc, 'tx, 'sim) guard_sdk \<Rightarrow> ('w, 'acc, 'tx, 'sim) guard_client \<Rightarrow> 'w \<Rightarrow> string \<Rightarrow> sc_value list \<Rightarrow> native \<Rightarrow> bool" where
  "answers sdk cl w m args v \<longleftrightarrow>
     (\<exists>w'. simulateReadValue sdk (cl_rpc cl) (client_options cl (cl_source cl) m args) w = Some (Inr v, w'))"

lemma read_answers:
  assumes "answers sdk cl w m args v" "encode_args sdk args = Inr args"
  shows "\<exists>w'. p2p_read m args sdk cl w = Some (Inr v, w')"
proof -
  obtain w' where "simulateReadValue sdk (cl_rpc cl) (client_options cl (cl_source cl) m args) w = Some (Inr v, w')"
    using assms(1) by (auto simp: answers_def)
  then show ?thesis by (simp add: p2p_read_def assms(2) simulateRead_def eff_try_def)
qed

text \<open>C29: The client shows the order book the contract holds.  Where the node answers the views with the
  contract's own values, \<open>getOffer\<close> returns the very offer that is stored, or nothing when there is none,
  and \<open>listOpen\<close> the very page of the contract, in its order.\<close>

theorem client_reads_the_book:
  assumes "\<forall>i x. es_offer st i = Some x \<longrightarrow> proper_offer x"
    "\<forall>v \<in> {Sc_U64 i, Sc_U64 start, Sc_U32 (int limit)}. gk_encode_error sdk v = None"
    "answers sdk cl w ''get_offer'' [Sc_U64 i] (case get_offer st i of None \<Rightarrow> N_Null | Some x \<Rightarrow> native_offer x)"
    "answers sdk cl w ''list_open'' [Sc_U64 start, Sc_U32 (int limit)] (N_List (map native_offer (list_open now st start (int limit))))"
  shows "(\<exists>w'. getOffer i sdk cl w = Some (Inr (get_offer st i), w'))
    \<and> (\<exists>w'. listOpen num start (jint (int limit)) sdk cl w = Some (Inr (list_open now st start (int limit)), w'))"
proof
  obtain w' where r: "p2p_read ''get_offer'' [Sc_U64 i] sdk cl w
      = Some (Inr (case get_offer st i of None \<Rightarrow> N_Null | Some x \<Rightarrow> native_offer x), w')"
    using read_answers [OF assms(3)] assms(2) by auto
  show "\<exists>w'. getOffer i sdk cl w = Some (Inr (get_offer st i), w')"
  proof (cases "get_offer st i")
    case None
    then show ?thesis using r by (simp add: getOffer_def eff_bind_def)
  next
    case (Some x)
    then have "proper_offer x" using assms(1) by (simp add: get_offer_def)
    moreover have "native_offer x \<noteq> N_Null" "native_offer x \<noteq> N_Undefined" by (simp_all add: native_offer_def)
    ultimately show ?thesis using r Some by (simp add: getOffer_def eff_bind_def decode_native_offer)
  qed
next
  have "list_all proper_offer (List.map_filter (open_at now st) is)" for "is"
    using assms(1) by (auto simp: list_all_iff List.map_filter_def open_at_def split: option.splits if_splits)
  then have "list_all proper_offer (list_open now st start (int limit))" by (simp add: list_open_def Let_def)
  moreover obtain w' where "p2p_read ''list_open'' [Sc_U64 start, Sc_U32 (int limit)] sdk cl w
      = Some (Inr (N_List (map native_offer (list_open now st start (int limit)))), w')"
    using read_answers [OF assms(4)] assms(2) by auto
  ultimately show "\<exists>w'. listOpen num start (jint (int limit)) sdk cl w = Some (Inr (list_open now st start (int limit)), w')"
    by (simp add: listOpen_def eff_bind_def decode_native_offers)
qed

section \<open>Writes\<close>

text \<open>\<open>p2p_built sdk cl src m args c\<close>: the XDR of \<open>c\<close> is the assembled transaction of the invocation of
  the function \<open>m\<close> of the client's own contract, and it decodes to that contract and function.\<close>

definition p2p_built :: "('acc, 'tx, 'sim) guard_sdk \<Rightarrow> ('w, 'acc, 'tx, 'sim) guard_client \<Rightarrow> string \<Rightarrow> string \<Rightarrow> sc_value list \<Rightarrow> guard_call \<Rightarrow> bool" where
  "p2p_built sdk cl src m args c \<longleftrightarrow>
     (\<exists>account tx s assembled. buildTransaction sdk (client_options cl src m args) account = Inr tx
        \<and> gk_assemble sdk tx s = Inr assembled \<and> gc_unsignedXdr c = gk_toXDR sdk assembled)
     \<and> (\<exists>inv. decodeInvocation sdk (gc_unsignedXdr c) (cl_networkPassphrase cl) = Inr inv
          \<and> di_contractId inv = cl_contractId cl \<and> di_functionName inv = m
          \<and> ''Args: '' @ js_join '', '' (map describeArg (di_args inv)) \<in> set (su_lines (gc_summary c)))"

lemma summary_decodes:
  assumes "buildP2pCallSummary sdk i = Inr b"
  shows "\<exists>inv. decodeInvocation sdk (ps_unsignedXdr i) (ps_networkPassphrase i) = Inr inv
    \<and> di_contractId inv = ps_contractId i \<and> di_functionName inv = ps_functionName i
    \<and> ''Args: '' @ js_join '', '' (map describeArg (di_args inv)) \<in> set (su_lines (bs_summary b))
    \<and> su_title (bs_summary b) = ps_title i"
  using assms by (auto simp: buildP2pCallSummary_def Let_def split: option.splits if_splits)

lemma p2p_write_yields:
  "yields (\<lambda>c. p2p_built sdk cl src m args c \<and> su_title (gc_summary c) = title) (p2p_write m src args title ctx sdk cl)"
  unfolding p2p_write_def
proof (rule yields_bind [where Q = "\<lambda>a. a = args"])
  show "yields (\<lambda>a. a = args) (eff_of plain_error (encode_args sdk args))"
    by (auto intro!: uponI encode_args_Inr)
next
  fix a assume "a = args"
  let ?opts = "client_options cl src m args"
  have built: "yields (\<lambda>x. \<exists>account tx s assembled. buildTransaction sdk ?opts account = Inr tx \<and> gk_assemble sdk tx s = Inr assembled
      \<and> x = gk_toXDR sdk assembled) (buildWrite sdk (cl_rpc cl) ?opts)"
    using buildUnsignedInvoke_yields [where sdk = sdk and rpc = "cl_rpc cl" and opts = ?opts]
    unfolding yields_def buildWrite_def by (simp add: eff_try_Some split: prod.splits) blast
  show "yields (\<lambda>c. p2p_built sdk cl src m args c \<and> su_title (gc_summary c) = title)
     (eff_bind (buildWrite sdk (cl_rpc cl) (client_options cl src m a)) (\<lambda>unsignedXdr.
     eff_bind (eff_of plain_error (buildP2pCallSummary sdk
        \<lparr>ps_unsignedXdr = unsignedXdr, ps_networkPassphrase = cl_networkPassphrase cl, ps_contractId = cl_contractId cl,
         ps_functionName = m, ps_title = title, ps_context = ctx,
         ps_explorerBase = truthy_string (cl_explorerBase cl)\<rparr>)) (\<lambda>built.
       eff_ret \<lparr>gc_unsignedXdr = unsignedXdr, gc_summary = bs_summary built, gc_payloadHash = bs_payloadHash built\<rparr>)))"
    unfolding \<open>a = args\<close>
    apply (rule yields_bind [OF built])
    apply (rule yields_bind [where Q = "\<lambda>b. \<exists>i. buildP2pCallSummary sdk i = Inr b \<and> i = _"])
     apply (simp, rule uponI, blast)
    apply (auto simp: p2p_built_def dest!: summary_decodes)
    done
qed

text \<open>C31: Every write of the client builds exactly the call it is named after, for the client's own contract,
  with the contract's arguments in order and the first party as the account that signs; its card lists
  the arguments decoded from that XDR, and the title of an offer states the very amount and price that
  are in it.\<close>

theorem p2p_writes_build_their_call:
  "yields (\<lambda>c. p2p_built sdk cl seller ''create_offer''
        [Sc_Address seller, Sc_Address token, Sc_I128 amount, Sc_I128 price, Sc_U64 ttl] c
      \<and> (\<exists>tokens lira. fromRawUnits amount = Inr tokens \<and> kurusToTry price = Inr lira
           \<and> su_title (gc_summary c) = ''P2P offer: sell '' @ tokens @ '' for '' @ lira @ '' TRY''))
     (createOffer seller token amount price ttl sdk cl)
   \<and> yields (p2p_built sdk cl buyer ''accept'' [Sc_Address buyer, Sc_U64 i]) (p2p_accept buyer i sdk cl)
   \<and> yields (p2p_built sdk cl seller ''confirm_fiat'' [Sc_Address seller, Sc_U64 i]) (confirmFiat seller i sdk cl)
   \<and> yields (p2p_built sdk cl seller ''cancel'' [Sc_Address seller, Sc_U64 i]) (p2p_cancel seller i sdk cl)
   \<and> yields (p2p_built sdk cl seller ''reclaim'' [Sc_Address seller, Sc_U64 i]) (p2p_reclaim seller i sdk cl)"
proof -
  have w: "yields (p2p_built sdk cl src m args) (p2p_write m src args title ctx sdk cl)" for src m args title ctx
    by (rule yields_mono [OF p2p_write_yields]) simp
  have "yields (\<lambda>c. p2p_built sdk cl seller ''create_offer''
        [Sc_Address seller, Sc_Address token, Sc_I128 amount, Sc_I128 price, Sc_U64 ttl] c
      \<and> (\<exists>tokens lira. fromRawUnits amount = Inr tokens \<and> kurusToTry price = Inr lira
           \<and> su_title (gc_summary c) = ''P2P offer: sell '' @ tokens @ '' for '' @ lira @ '' TRY''))
     (createOffer seller token amount price ttl sdk cl)"
  proof (cases "fromRawUnits amount")
    case (Inr tokens)
    show ?thesis
    proof (cases "kurusToTry price")
      case lira: (Inr lira)
      show ?thesis unfolding createOffer_def Inr lira eff_of_Inr eff_bind_simps
        by (rule yields_mono [OF p2p_write_yields]) auto
    qed (simp add: createOffer_def Inr yields_def)
  qed (simp add: createOffer_def yields_def)
  then show ?thesis by (simp add: p2p_accept_def confirmFiat_def p2p_cancel_def p2p_reclaim_def w)
qed

section \<open>An example node\<close>

definition view_sdk_example :: "(unit, invoke_options, unit) guard_sdk" where
  "view_sdk_example = \<lparr>gk_encode_error = (\<lambda>_. None), gk_build = (\<lambda>opts _. Inr opts), gk_assemble = (\<lambda>tx _. Inr tx),
     gk_toXDR = (\<lambda>_. []), gk_fromXDR = (\<lambda>_ _. Inr None), gk_first_op = (\<lambda>_. No_Operation), gk_hash = (\<lambda>_. []), gk_fee = (\<lambda>_. 0)\<rparr>"

definition view_rpc_example :: "(unit, unit, invoke_options, unit) guard_rpc" where
  "view_rpc_example = \<lparr>rq_getAccount = (\<lambda>_ w. (Inr (), w)),
     rq_simulateTransaction = (\<lambda>tx w. (Inr (Sim_Ok () (Some
        (if io_method tx = ''get_offer'' then native_offer offer_example else N_List [native_offer offer_example]))), w)),
     rq_getLatestLedger = (\<lambda>w. (Inr (jint 0), w))\<rparr>"

definition view_client_example :: "(unit, unit, invoke_options, unit) guard_client" where
  "view_client_example = \<lparr>cl_contractId = ''CESC'', cl_rpc = view_rpc_example, cl_networkPassphrase = ''net'',
     cl_source = ''GSELL'', cl_txTimeoutSeconds = 300, cl_explorerBase = None\<rparr>"

lemma answers_example:
  "answers view_sdk_example view_client_example () m args
     (if m = ''get_offer'' then native_offer offer_example else N_List [native_offer offer_example])"
  by (simp add: answers_def simulateReadValue_def request_def view_sdk_example_def view_client_example_def view_rpc_example_def
      buildTransaction_def client_options_def)

theorem client_reads_the_book_witness:
  "\<exists>w'. listOpen (\<lambda>_. []) 1 (jint 20) view_sdk_example view_client_example () = Some (Inr [offer_example], w')"
proof -
  let ?st = "escrow_example offer_example"
  have x: "\<forall>i x. es_offer ?st i = Some x \<longrightarrow> proper_offer x"
    by (simp add: escrow_example_def proper_offer_def offer_example_def fresh_offer_def)
  have enc: "\<forall>v \<in> {Sc_U64 1, Sc_U64 1, Sc_U32 (int 20)}. gk_encode_error view_sdk_example v = None"
    by (simp add: view_sdk_example_def)
  have page: "list_open 1005 ?st 1 (int 20) = [offer_example]"
    by (simp add: list_open_def Let_def MAX_PAGE_def saturating_add_u64_def escrow_example_def open_at_def List.map_filter_simps
        offer_example_def fresh_offer_def)
  have get: "get_offer ?st 1 = Some offer_example" by (simp add: get_offer_def escrow_example_def)
  show ?thesis
    using client_reads_the_book [OF x enc, of view_client_example "()" 1005]
      answers_example [of "''get_offer''"] answers_example [of "''list_open''"] page get by simp
qed

end
