(* ===== verification/P2p_Payouts.thy ===== *)
theory P2p_Payouts
  imports P2p_Escrow_Laws "HOL-Library.Multiset"
begin

text \<open>
  Every token transfer the escrow contract makes.  The ledger of tokens is given a record of the
  transfers it was asked for and made, and over every run of calls that record is compared with the
  offers: one deposit for each offer, one payout for each closed offer, and nothing else.
\<close>

section \<open>Runs that record the transfers\<close>

text \<open>A transfer: the token, from whom, to whom, and the amount.\<close>

type_synonym transfer = "string \<times> string \<times> string \<times> int"

definition recording :: "'b escrow_env \<Rightarrow> ('b \<times> transfer list) escrow_env" where
  "recording env = \<lparr>ee_self = ee_self env,
     ee_transfer = (\<lambda>token from_addr to_addr amount (b, made).
       map_option (\<lambda>b'. (b', made @ [(token, from_addr, to_addr, amount)])) (ee_transfer env token from_addr to_addr amount b))\<rparr>"

definition made :: "('b \<times> transfer list) escrow \<Rightarrow> transfer list" where
  "made st = snd (es_tokens st)"

datatype escrow_call =
  Call_Create string string int int int | Call_Accept string int | Call_Confirm string int | Call_Cancel string int
| Call_Reclaim string int

fun call_escrow :: "'b escrow_env \<Rightarrow> int \<Rightarrow> escrow_call \<Rightarrow> 'b escrow \<Rightarrow> escrow_failure + 'b escrow" where
  "call_escrow env now (Call_Create seller token amount price ttl) st =
     and_then (create_offer env now st seller token amount price ttl) (\<lambda>(i, st'). Inr st')"
| "call_escrow env now (Call_Accept buyer i) st = accept now st buyer i"
| "call_escrow env now (Call_Confirm seller i) st = confirm_fiat env st seller i"
| "call_escrow env now (Call_Cancel seller i) st = cancel env st seller i"
| "call_escrow env now (Call_Reclaim seller i) st = reclaim env now st seller i"

text \<open>
  Calls of anybody, at any time and in any order, between which the ledger of the tokens changes in any
  way; a call that fails leaves no trace.
\<close>

inductive escrow_run :: "'b escrow_env \<Rightarrow> ('b \<times> transfer list) escrow \<Rightarrow> ('b \<times> transfer list) escrow \<Rightarrow> bool" for env where
  run_start: "escrow_run env st st"
| run_call: "escrow_run env st0 st \<Longrightarrow> call_escrow (recording env) now c st = Inr st' \<Longrightarrow> escrow_run env st0 st'"
| run_elsewhere: "escrow_run env st0 st \<Longrightarrow> st' = st\<lparr>es_tokens := (b, made st)\<rparr> \<Longrightarrow> escrow_run env st0 st'"

lemma recording_self [simp]: "ee_self (recording env) = ee_self env"
  by (simp add: recording_def)

lemma recording_Some:
  "ee_transfer (recording env) token f t amount bl = Some bl' \<longleftrightarrow>
     (\<exists>b. ee_transfer env token f t amount (fst bl) = Some b \<and> bl' = (b, snd bl @ [(token, f, t, amount)]))"
  by (cases bl) (auto simp: recording_def)

text \<open>What a call that succeeds does: it makes an offer, accepts one, or closes one.\<close>

lemma call_cases:
  assumes "call_escrow (recording env) now c st = Inr st'"
  obtains (made_offer) seller token amount price ttl b where "0 < amount"
      "st' = st\<lparr>es_next := es_next st + 1, es_offer := (es_offer st)(es_next st \<mapsto> fresh_offer (es_next st) seller token amount price now ttl),
             es_tokens := (b, made st @ [(token, seller, ee_self env, amount)])\<rparr>"
    | (accepted) i x buyer where "es_offer st i = Some x" "of_state x = Open"
      "st' = store_offer st i (x\<lparr>of_buyer := Some buyer, of_accepted_at := now, of_pay_deadline := now + 1800, of_state := Accepted\<rparr>)"
    | (closes) i x s a b where "es_offer st i = Some x" "live x" "s \<in> {Settled, Cancelled, Expired}"
      "s = Settled \<longrightarrow> of_buyer x = Some a" "s \<noteq> Settled \<longrightarrow> a = of_seller x"
      "st' = (store_offer st i (x\<lparr>of_state := s\<rparr>))\<lparr>es_tokens := (b, made st @ [(of_token x, ee_self env, a, of_amount x)])\<rparr>"
proof -
  have close: thesis if "closed (recording env) st i x s a st'" for i x s a
  proof -
    from that obtain bl where c: "es_offer st i = Some x" "live x" "s \<in> {Settled, Cancelled, Expired}"
        "s = Settled \<longrightarrow> of_buyer x = Some a" "s \<noteq> Settled \<longrightarrow> a = of_seller x"
        "ee_transfer (recording env) (of_token x) (ee_self env) a (of_amount x) (es_tokens st) = Some bl"
        "st' = (store_offer st i (x\<lparr>of_state := s\<rparr>))\<lparr>es_tokens := bl\<rparr>"
      unfolding closed_def recording_self by blast
    from c(6) obtain b where "bl = (b, made st @ [(of_token x, ee_self env, a, of_amount x)])"
      unfolding recording_Some made_def by blast
    with c show thesis by (intro closes [where i = i and x = x and s = s and a = a and b = b]) simp_all
  qed
  show thesis
  proof (cases c)
    case (Call_Create seller token amount price ttl)
    then obtain i where "create_offer (recording env) now st seller token amount price ttl = Inr (i, st')" using assms by auto
    from create_offer_Inr [OF this] obtain b where "0 < amount" "i = es_next st"
        "st' = st\<lparr>es_next := i + 1, es_offer := (es_offer st)(i \<mapsto> fresh_offer i seller token amount price now ttl), es_tokens := b\<rparr>"
        "ee_transfer (recording env) token seller (ee_self env) amount (es_tokens st) = Some b" by auto
    moreover from this(4) obtain b' where "b = (b', made st @ [(token, seller, ee_self env, amount)])"
      by (auto simp: recording_Some made_def)
    ultimately show thesis using made_offer [where seller = seller and token = token and amount = amount and price = price and ttl = ttl and b = b'] by simp
  next
    case (Call_Accept buyer i)
    then have "accept now st buyer i = Inr st'" using assms by simp
    from accept_Inr [OF this] show thesis using accepted by blast
  next
    case (Call_Confirm seller i)
    then have "confirm_fiat (recording env) st seller i = Inr st'" using assms by simp
    from confirm_closes [OF this] show thesis using close by blast
  next
    case (Call_Cancel seller i)
    then have "cancel (recording env) st seller i = Inr st'" using assms by simp
    from cancel_closes [OF this] show thesis using close by blast
  next
    case (Call_Reclaim seller i)
    then have "reclaim (recording env) now st seller i = Inr st'" using assms by simp
    from reclaim_closes [OF this] show thesis using close by blast
  qed
qed

section \<open>The transfers of an offer\<close>

definition transfers_of :: "string \<Rightarrow> offer \<Rightarrow> transfer multiset" where
  "transfers_of self x = {#(of_token x, of_seller x, self, of_amount x)#}
     + (if live x then {#} else {#(of_token x, self, recipient x, of_amount x)#})"

definition book_transfers :: "string \<Rightarrow> 'b escrow \<Rightarrow> transfer multiset" where
  "book_transfers self st = (\<Sum>i \<in> {1..<es_next st}. case es_offer st i of Some x \<Rightarrow> transfers_of self x | None \<Rightarrow> {#})"

definition book_ok :: "string \<Rightarrow> ('b \<times> transfer list) escrow \<Rightarrow> bool" where
  "book_ok self st \<longleftrightarrow> 1 \<le> es_next st \<and> (\<forall>i. es_offer st i \<noteq> None \<longleftrightarrow> 1 \<le> i \<and> i < es_next st)
     \<and> (\<forall>i x. es_offer st i = Some x \<longrightarrow> of_state x = Settled \<longrightarrow> of_buyer x \<noteq> None)
     \<and> mset (made st) = book_transfers self st"

lemma book_okD:
  assumes "book_ok self st"
  shows "1 \<le> es_next st" "es_offer st i \<noteq> None \<longleftrightarrow> 1 \<le> i \<and> i < es_next st"
    "es_offer st i = Some x \<Longrightarrow> of_state x = Settled \<Longrightarrow> of_buyer x \<noteq> None" "mset (made st) = book_transfers self st"
  using assms unfolding book_ok_def by blast+

lemma book_stored:
  assumes "1 \<le> i" "i < es_next st" "es_offer st i = Some x" "transfers_of self y = transfers_of self x + extra"
  shows "book_transfers self (store_offer st i y) = book_transfers self st + extra"
proof -
  let ?I = "{1..<es_next st}" and ?f = "\<lambda>m i. case m i of Some x \<Rightarrow> transfers_of self x | None \<Rightarrow> {#}"
  have i: "i \<in> ?I" using assms(1,2) by simp
  have "(\<Sum>j \<in> ?I - {i}. ?f ((es_offer st)(i \<mapsto> y)) j) = (\<Sum>j \<in> ?I - {i}. ?f (es_offer st) j)"
    by (rule sum.cong) auto
  then show ?thesis using assms(3,4) i by (simp add: book_transfers_def sum.remove [OF _ i])
qed

lemma book_next:
  assumes "1 \<le> es_next st"
  shows "book_transfers self (st\<lparr>es_next := es_next st + 1, es_offer := (es_offer st)(es_next st \<mapsto> y)\<rparr>)
     = book_transfers self st + transfers_of self y"
proof -
  let ?f = "\<lambda>m i. case m i of Some x \<Rightarrow> transfers_of self x | None \<Rightarrow> {#}"
  have "{1..<es_next st + 1} = insert (es_next st) {1..<es_next st}" using assms by auto
  moreover have "(\<Sum>j \<in> {1..<es_next st}. ?f ((es_offer st)(es_next st \<mapsto> y)) j) = (\<Sum>j \<in> {1..<es_next st}. ?f (es_offer st) j)"
    by (rule sum.cong) auto
  ultimately show ?thesis by (simp add: book_transfers_def)
qed

lemma book_tokens [simp]: "book_transfers self (st\<lparr>es_tokens := b\<rparr>) = book_transfers self st"
  by (simp add: book_transfers_def)

lemma made_tokens [simp]: "made (st\<lparr>es_tokens := (b, m)\<rparr>) = m" "made (store_offer st i x) = made st"
  by (simp_all add: made_def)

text \<open>One call keeps the book, the terms of every offer and whatever is closed.\<close>

definition kept :: "'b escrow \<Rightarrow> 'b escrow \<Rightarrow> bool" where
  "kept st st' \<longleftrightarrow> (\<forall>i y. es_offer st i = Some y \<longrightarrow> (\<exists>z. es_offer st' i = Some z \<and> offer_terms y z \<and> (\<not> live y \<longrightarrow> z = y)))"

lemma kept_refl: "es_offer st' = es_offer st \<Longrightarrow> kept st st'"
  by (simp add: kept_def)

lemma kept_trans: "kept st t \<Longrightarrow> kept t u \<Longrightarrow> kept st u"
  unfolding kept_def by (metis offer_terms_trans)

lemma kept_store:
  "es_offer st i = Some x \<Longrightarrow> live x \<Longrightarrow> offer_terms x y \<Longrightarrow> es_offer st' = (es_offer st)(i \<mapsto> y) \<Longrightarrow> kept st st'"
  by (auto simp: kept_def)

lemma call_book:
  assumes ok: "book_ok (ee_self env) st" and call: "call_escrow (recording env) now c st = Inr st'"
  shows "book_ok (ee_self env) st' \<and> kept st st'"
  using call
proof (cases rule: call_cases)
  case (made_offer seller token amount price ttl b)
  note d = book_okD [OF ok]
  let ?y = "fresh_offer (es_next st) seller token amount price now ttl"
  have none: "es_offer st (es_next st) = None" using d(2) [of "es_next st"] by simp
  have t: "transfers_of (ee_self env) ?y = {#(token, seller, ee_self env, amount)#}"
    by (simp add: transfers_of_def live_fresh) (simp add: fresh_offer_def)
  have "es_offer st' i \<noteq> None \<longleftrightarrow> 1 \<le> i \<and> i < es_next st'" for i using d(1) d(2) [of i] by (auto simp: made_offer(2))
  moreover have "mset (made st') = book_transfers (ee_self env) st'"
    using d(4) book_next [OF d(1), of "ee_self env" ?y] t by (simp add: made_offer(2) made_def)
  ultimately show ?thesis using d(1,3) none by (auto simp: book_ok_def kept_def made_offer(2) fresh_offer_def)
next
  case (accepted i x buyer)
  note d = book_okD [OF ok]
  let ?y = "x\<lparr>of_buyer := Some buyer, of_accepted_at := now, of_pay_deadline := now + 1800, of_state := Accepted\<rparr>"
  have i: "1 \<le> i" "i < es_next st" using d(2) [of i] accepted(1) by simp_all
  have "transfers_of (ee_self env) ?y = transfers_of (ee_self env) x + {#}" using accepted(2) by (simp add: transfers_of_def live_def)
  from book_stored [OF i accepted(1) this] have "mset (made st') = book_transfers (ee_self env) st'" using d(4) by (simp add: accepted(3))
  moreover have "kept st st'"
    using accepted by (intro kept_store [of st i x ?y]) (simp_all add: live_def offer_terms_def)
  ultimately show ?thesis using d(1,2,3) i by (auto simp: book_ok_def accepted(3))
next
  case (closes i x s a b)
  note d = book_okD [OF ok]
  let ?y = "x\<lparr>of_state := s\<rparr>"
  have i: "1 \<le> i" "i < es_next st" using d(2) [of i] closes(1) by simp_all
  have "\<not> live ?y" using closes(3) by (auto simp: live_def)
  moreover have "recipient ?y = a" using closes(4,5) by (cases "s = Settled") (auto simp: recipient_def split: option.split)
  ultimately have "transfers_of (ee_self env) ?y = transfers_of (ee_self env) x + {#(of_token x, ee_self env, a, of_amount x)#}"
    using closes(2) by (simp add: transfers_of_def)
  from book_stored [OF i closes(1) this] have "mset (made st') = book_transfers (ee_self env) st'" using d(4) by (simp add: closes(6))
  moreover have "kept st st'"
    using closes by (intro kept_store [of st i x ?y]) (simp_all add: offer_terms_def)
  ultimately show ?thesis using d(1,2,3) i closes(4) by (auto simp: book_ok_def closes(6))
qed

lemma run_book: "escrow_run env st st' \<Longrightarrow> book_ok (ee_self env) st \<Longrightarrow> book_ok (ee_self env) st' \<and> kept st st'"
proof (induction rule: escrow_run.induct)
  case (run_start st)
  then show ?case by (simp add: kept_refl)
next
  case (run_call st0 st now c st')
  then show ?case using call_book kept_trans by blast
next
  case (run_elsewhere st0 st st' b)
  then have "book_ok (ee_self env) st'" by (auto simp: book_ok_def)
  moreover have "kept st st'" using run_elsewhere by (simp add: kept_refl)
  ultimately show ?case using run_elsewhere kept_trans by blast
qed

lemma empty_book: "book_ok self (empty_escrow (b, []))"
  by (simp add: book_ok_def empty_escrow_def book_transfers_def made_def)

section \<open>Property\<close>

text \<open>C5: The escrow pays every offer out once, to the right party, and pays nothing else.  Whatever calls are made,
  the transfers the token contract was asked for and made are exactly these: for each offer of the book
  one deposit of its amount by its seller, and for each offer that is closed one payout of the very
  same amount of the same token, to its buyer when the seller confirmed the payment and to its seller
  otherwise.  The terms of an offer never change, and once closed nothing about it does.\<close>

theorem offer_paid_once:
  assumes "escrow_run env (empty_escrow (b, [])) st"
  shows "mset (made st) = (\<Sum>i \<in> {1..<es_next st}. case es_offer st i of
        Some x \<Rightarrow> {#(of_token x, of_seller x, ee_self env, of_amount x)#}
          + (if of_state x = Open \<or> of_state x = Accepted then {#}
             else {#(of_token x, ee_self env, if of_state x = Settled then the (of_buyer x) else of_seller x, of_amount x)#})
      | None \<Rightarrow> {#})
    \<and> (\<forall>i x. es_offer st i = Some x \<longrightarrow> 1 \<le> i \<and> i < es_next st \<and> (of_state x = Settled \<longrightarrow> of_buyer x \<noteq> None))
    \<and> (\<forall>st' i y. escrow_run env st st' \<and> es_offer st i = Some y \<longrightarrow>
         (\<exists>z. es_offer st' i = Some z \<and> offer_terms y z \<and> (\<not> live y \<longrightarrow> z = y)))"
proof -
  have ok: "book_ok (ee_self env) st" using run_book [OF assms empty_book] ..
  note d = book_okD [OF ok]
  have "(case es_offer st i of Some x \<Rightarrow> transfers_of (ee_self env) x | None \<Rightarrow> {#})
     = (case es_offer st i of
        Some x \<Rightarrow> {#(of_token x, of_seller x, ee_self env, of_amount x)#}
          + (if of_state x = Open \<or> of_state x = Accepted then {#}
             else {#(of_token x, ee_self env, if of_state x = Settled then the (of_buyer x) else of_seller x, of_amount x)#})
      | None \<Rightarrow> {#})" for i
    using d(3) [of i] by (auto simp: transfers_of_def live_def recipient_def split: option.split)
  moreover have "1 \<le> i \<and> i < es_next st" if "es_offer st i = Some x" for i x using d(2) [of i] that by simp
  moreover have "\<exists>z. es_offer st' i = Some z \<and> offer_terms y z \<and> (\<not> live y \<longrightarrow> z = y)"
    if "escrow_run env st st'" "es_offer st i = Some y" for st' i y
    using run_book [OF that(1) ok] that(2) unfolding kept_def by blast
  ultimately show ?thesis using d(3,4) unfolding book_transfers_def by simp
qed

text \<open>An offer that is made, accepted and confirmed: one deposit and one payout to the buyer.\<close>

definition recorded_example :: "offer \<Rightarrow> transfer list \<Rightarrow> ((string \<Rightarrow> string \<Rightarrow> int) \<times> transfer list) escrow" where
  "recorded_example x l = \<lparr>es_next = 2, es_offer = (\<lambda>_. None)(1 \<mapsto> x), es_tokens = (es_tokens (escrow_example x), l)\<rparr>"

lemmas call_eval = load_offer_def store_offer_def ok_or_def escrow_err_def checked_u64_def pay_tokens_def recording_def
  escrow_env_example_def ledger_transfer_def recorded_example_def escrow_example_def fresh_offer_def

definition deposit_example :: transfer where "deposit_example = (''CUSDC'', ''GSELL'', ''CESC'', 40)"

definition payout_example :: transfer where "payout_example = (''CUSDC'', ''CESC'', ''GBUY'', 40)"

definition paid_example :: "((string \<Rightarrow> string \<Rightarrow> int) \<times> transfer list) escrow" where
  "paid_example = \<lparr>es_next = 2, es_offer = (\<lambda>_. None)(1 \<mapsto> accepted_example\<lparr>of_state := Settled\<rparr>),
     es_tokens = (ledger_move ''CUSDC'' ''CESC'' ''GBUY'' 40 (es_tokens (escrow_example offer_example)), [deposit_example, payout_example])\<rparr>"

lemma offered_call:
  "call_escrow (recording escrow_env_example) 1000 (Call_Create ''GSELL'' ''CUSDC'' 40 340000 60) (empty_escrow (ledger_example, []))
     = Inr (recorded_example offer_example [deposit_example])"
  by (simp add: call_eval create_offer_def MIN_TTL_SECS_def MAX_TTL_SECS_def empty_escrow_def offer_example_def ledger_example_def
      deposit_example_def Let_def)

lemma accepted_call:
  "call_escrow (recording escrow_env_example) 1010 (Call_Accept ''GBUY'' 1) (recorded_example offer_example l)
     = Inr (recorded_example accepted_example l)"
  by (simp add: call_eval accept_def PAY_WINDOW_SECS_def offer_example_def accepted_example_def)

lemma confirmed_call:
  "call_escrow (recording escrow_env_example) 1020 (Call_Confirm ''GSELL'' 1) (recorded_example accepted_example [deposit_example])
     = Inr paid_example"
proof -
  have "40 \<le> ledger_move ''CUSDC'' ''GSELL'' ''CESC'' 40 ledger_example ''CUSDC'' ''CESC''" by (simp add: ledger_move_def ledger_example_def)
  then show ?thesis
    by (simp add: call_eval confirm_fiat_def offer_example_def accepted_example_def paid_example_def payout_example_def)
qed

lemma paid_run: "escrow_run escrow_env_example (empty_escrow (ledger_example, [])) paid_example"
  by (rule run_call [OF run_call [OF run_call [OF run_start offered_call] accepted_call] confirmed_call])

theorem offer_paid_once_witness: "mset (made paid_example) = {#deposit_example, payout_example#}"
proof -
  have "{1..<2::int} = {1}" by auto
  then show ?thesis using offer_paid_once [OF paid_run]
    by (simp add: paid_example_def accepted_example_def offer_example_def fresh_offer_def deposit_example_def payout_example_def
        escrow_env_example_def)
qed

end
