(* ===== verification/Anchor_Text.thy ===== *)
theory Anchor_Text
  imports JS_Value Scaled_Decimal Guard_Describe
begin

text \<open>
  \<open>stellar/src/anchor\<close>, what handles text: \<open>text.ts\<close>, \<open>amount.ts\<close>, the key shortening of
  \<open>explain.ts\<close>, the asset ids of \<open>types.ts\<close> and the quoting and capping of \<open>sep6.ts\<close>.

  A character of these theories is one code unit of the windows-1252 repertoire, so that the two
  other characters the sources write, the ellipsis (0x85) and the long dash (0x97), are characters
  as well and every length and cap is exact.
\<close>

section \<open>Characters\<close>

definition hellip :: string where "hellip = [CHR 0x85]"

definition mdash :: string where "mdash = [CHR 0x97]"

text \<open>A text between double quotes, as it is.\<close>

definition dq :: "string \<Rightarrow> string" where "dq s = CHR 0x22 # s @ [CHR 0x22]"

definition is_lower :: "char \<Rightarrow> bool" where
  "is_lower c \<longleftrightarrow> 97 \<le> char_code c \<and> char_code c \<le> 122"

definition is_upper :: "char \<Rightarrow> bool" where
  "is_upper c \<longleftrightarrow> 65 \<le> char_code c \<and> char_code c \<le> 90"

definition is_alnum :: "char \<Rightarrow> bool" where
  "is_alnum c \<longleftrightarrow> is_lower c \<or> is_upper c \<or> is_digit c"

definition is_hex :: "char \<Rightarrow> bool" where
  "is_hex c \<longleftrightarrow> is_digit c \<or> 97 \<le> char_code c \<and> char_code c \<le> 102 \<or> 65 \<le> char_code c \<and> char_code c \<le> 70"

text \<open>The letters of \<open>[A-Z2-7]\<close>, and \<open>^p{lo,hi}$\<close> for a class of characters \<open>p\<close>.\<close>

definition is_base32 :: "char \<Rightarrow> bool" where
  "is_base32 c \<longleftrightarrow> is_upper c \<or> 50 \<le> char_code c \<and> char_code c \<le> 55"

definition all_of :: "(char \<Rightarrow> bool) \<Rightarrow> nat \<Rightarrow> nat \<Rightarrow> string \<Rightarrow> bool" where
  "all_of p lo hi s \<longleftrightarrow> lo \<le> length s \<and> length s \<le> hi \<and> list_all p s"

text \<open>The patterns \<open>^G[A-Z2-7]{55}$\<close> and \<open>^\d{1,m}(\.\d{1,n})?$\<close>.\<close>

definition stellar_address_re :: "string \<Rightarrow> bool" where
  "stellar_address_re s \<longleftrightarrow> length s = 56 \<and> hd s = CHR ''G'' \<and> list_all is_base32 (tl s)"

definition decimal_text :: "nat \<Rightarrow> nat \<Rightarrow> string \<Rightarrow> bool" where
  "decimal_text m n s =
     (let w = takeWhile is_digit s
      in 1 \<le> length w \<and> length w \<le> m \<and>
         (case dropWhile is_digit s of
            [] \<Rightarrow> True
          | c # f \<Rightarrow> c = CHR ''.'' \<and> 1 \<le> length f \<and> length f \<le> n \<and> list_all is_digit f))"

section \<open>Untrusted text\<close>

definition MAX_ANCHOR_TEXT :: nat where "MAX_ANCHOR_TEXT = 200"

text \<open>The hidden characters: of the repertoire, the controls and the five codes it does not assign.\<close>

definition HIDDEN :: "char \<Rightarrow> bool" where
  "HIDDEN c \<longleftrightarrow> char_code c < 32 \<or> char_code c \<in> {127, 129, 141, 143, 144, 157}"

function collapse_spaces :: "string \<Rightarrow> string" where
  "collapse_spaces [] = []"
| "collapse_spaces (c # s) =
     (if is_space c then CHR '' '' # collapse_spaces (dropWhile is_space s) else c # collapse_spaces s)"
  by pat_completeness auto
termination by (relation "measure length") (auto simp: le_imp_less_Suc length_dropWhile_le)

definition sanitize_text :: "string \<Rightarrow> nat \<Rightarrow> string option" where
  "sanitize_text s cap =
     (let cleaned = js_trim (collapse_spaces (map (\<lambda>c. if HIDDEN c then CHR '' '' else c) s))
      in if cleaned = [] then None
         else Some (if length cleaned > cap then take (cap - 1) cleaned @ hellip else cleaned))"

definition sanitizeAnchorText :: "js_value \<Rightarrow> nat \<Rightarrow> string option" where
  "sanitizeAnchorText v cap = (case v of V_Str s \<Rightarrow> sanitize_text s cap | _ \<Rightarrow> None)"

definition SAFE_ID :: "string \<Rightarrow> bool" where
  "SAFE_ID s \<longleftrightarrow> s \<noteq> [] \<and> is_alnum (hd s)
     \<and> all_of (\<lambda>c. is_alnum c \<or> c \<in> {CHR ''_'', CHR ''.'', CHR '':'', CHR ''-''}) 0 79 (tl s)"

definition safeId :: "js_value \<Rightarrow> string \<Rightarrow> string + string" where
  "safeId v what =
     (case v of
        V_Str s \<Rightarrow> if SAFE_ID s then Inr s else Inl (''the anchor sent an unusable '' @ what)
      | _ \<Rightarrow> Inl (''the anchor sent an unusable '' @ what))"

text \<open>What \<open>new URL\<close> makes of a text.  The parser of the URL standard is an argument, \<open>url\<close>.\<close>

record url_parts =
  up_protocol :: string
  up_username :: string
  up_password :: string
  up_hostname :: string
  up_port :: string
  up_pathname :: string
  up_hash :: string
  up_href :: string

type_synonym url_parser = "string \<Rightarrow> url_parts option"

definition up_host :: "url_parts \<Rightarrow> string" where
  "up_host u = (if up_port u = [] then up_hostname u else up_hostname u @ '':'' @ up_port u)"

definition safeHttpsUrl :: "url_parser \<Rightarrow> js_value \<Rightarrow> nat \<Rightarrow> string option" where
  "safeHttpsUrl url v cap =
     (case v of
        V_Str s \<Rightarrow>
          if length s > cap then None
          else (case url s of
                  None \<Rightarrow> None
                | Some u \<Rightarrow> if up_protocol u \<noteq> ''https:'' \<or> up_username u \<noteq> [] \<or> up_password u \<noteq> [] then None
                            else Some (up_href u))
      | _ \<Rightarrow> None)"

definition short_key :: "string \<Rightarrow> string" where
  "short_key key = (if length key > 12 then take 4 key @ ''...'' @ drop (length key - 4) key else key)"

definition narrate :: "string \<Rightarrow> string \<Rightarrow> string" where
  "narrate what why = what @ '' '' @ why"

section \<open>Amounts\<close>

text \<open>\<open>^\d+(\.\d{1,7})?$\<close>.\<close>

definition anchor_decimal :: "string \<Rightarrow> bool" where
  "anchor_decimal s =
     (takeWhile is_digit s \<noteq> [] \<and>
        (case dropWhile is_digit s of
           [] \<Rightarrow> True
         | c # f \<Rightarrow> c = CHR ''.'' \<and> 1 \<le> length f \<and> length f \<le> 7 \<and> list_all is_digit f))"

definition toStroops :: "string \<Rightarrow> string + nat" where
  "toStroops amount =
     (if anchor_decimal amount then Inr (scaled_value 7 amount) else Inl (''not a valid amount: '' @ json_quote amount))"

definition assertAmount :: "string \<Rightarrow> string \<Rightarrow> string + unit" where
  "assertAmount amount label =
     (let bad = label @ '' must be a positive decimal string with at most 7 decimals, got '' @ json_quote amount in
      if anchor_decimal amount
      then and_then (toStroops amount) (\<lambda>n. guardE (0 < n) bad)
      else Inl bad)"

record anchor_asset =
  aa_code :: string
  aa_issuer :: string

definition stellarAssetId :: "anchor_asset \<Rightarrow> string" where
  "stellarAssetId a = ''stellar:'' @ aa_code a @ '':'' @ aa_issuer a"

definition fiatAssetId :: "string \<Rightarrow> string" where
  "fiatAssetId code = ''iso4217:'' @ code"

section \<open>The text of a timeout\<close>

definition MAX_POLL_TIMEOUT_MESSAGE :: nat where "MAX_POLL_TIMEOUT_MESSAGE = 600"

definition escape_char :: "char \<Rightarrow> string" where
  "escape_char c = (if c = CHR 0x5C \<or> c = CHR 0x22 then [CHR 0x5C, c] else [c])"

definition quoteAnchorText :: "string \<Rightarrow> string" where
  "quoteAnchorText s = CHR 0x22 # concat (map escape_char s) @ [CHR 0x22]"

definition composeTimeoutMessage :: "string \<Rightarrow> string \<Rightarrow> string \<Rightarrow> string \<Rightarrow> string" where
  "composeTimeoutMessage base said linkText hint =
     (let withLink = base @ said @ linkText @ hint; withoutLink = base @ said @ hint in
      if length withLink \<le> MAX_POLL_TIMEOUT_MESSAGE then withLink
      else if length withoutLink \<le> MAX_POLL_TIMEOUT_MESSAGE then withoutLink
      else take (MAX_POLL_TIMEOUT_MESSAGE - 1) withoutLink @ hellip)"

section \<open>Names of fields\<close>

definition FIELD_NAME :: "string \<Rightarrow> bool" where
  "FIELD_NAME s \<longleftrightarrow> all_of (\<lambda>c. is_alnum c \<or> c = CHR ''_'') 1 40 s"

text \<open>\<open>Object.entries\<close> of an object, an array or a text.\<close>

fun object_entries :: "js_value \<Rightarrow> (string \<times> js_value) list" where
  "object_entries (V_Obj fs) = fs"
| "object_entries (V_Arr vs) = zip (map (\<lambda>i. dec_digits i) [0..<length vs]) vs"
| "object_entries (V_Str s) = zip (map (\<lambda>i. dec_digits i) [0..<length s]) (map (\<lambda>c. V_Str [c]) s)"
| "object_entries _ = []"

fun string_value :: "js_value \<Rightarrow> string option" where
  "string_value (V_Str s) = Some s"
| "string_value _ = None"

definition cleanFieldNames :: "js_value \<Rightarrow> string list" where
  "cleanFieldNames v =
     (let names = (case v of V_Arr vs \<Rightarrow> vs | V_Obj fs \<Rightarrow> map (\<lambda>(k, _). V_Str k) fs | _ \<Rightarrow> [])
      in take 20 (filter FIELD_NAME (List.map_filter string_value names)))"

section \<open>Facts\<close>

lemma hellip_length [simp]: "length hellip = 1"
  by (simp add: hellip_def)

text \<open>What is left of an untrusted text: it has no hidden character and respects its cap.\<close>

lemma set_collapse: "set (collapse_spaces s) \<subseteq> insert CHR '' '' (set s)"
  by (induction s rule: collapse_spaces.induct) (auto dest: set_dropWhileD)

lemma set_js_trim: "set (js_trim s) \<subseteq> set s"
proof
  fix c assume "c \<in> set (js_trim s)"
  then have "c \<in> set (rev (dropWhile is_space s))" unfolding js_trim_def set_rev [of "dropWhile _ (rev _)"] by (rule set_dropWhileD)
  then show "c \<in> set s" by (auto dest: set_dropWhileD)
qed

lemma sanitize_clean:
  assumes "sanitize_text s cap = Some t" "1 \<le> cap"
  shows "length t \<le> cap \<and> t \<noteq> [] \<and> (\<forall>c \<in> set t. \<not> HIDDEN c)"
proof -
  let ?shown = "map (\<lambda>c. if HIDDEN c then CHR '' '' else c) s"
  let ?cleaned = "js_trim (collapse_spaces ?shown)"
  have plain: "\<not> HIDDEN CHR '' ''" "\<not> HIDDEN (CHR 0x85)" by (simp_all add: HIDDEN_def char_code_def)
  have "set ?cleaned \<subseteq> insert CHR '' '' (set ?shown)" using set_js_trim set_collapse by blast
  then have c: "\<not> HIDDEN c" if "c \<in> set ?cleaned" for c using that plain by (auto split: if_splits)
  show ?thesis
  proof (cases "length ?cleaned > cap")
    case True
    then have "t = take (cap - 1) ?cleaned @ hellip"
      using assms(1) by (auto simp: sanitize_text_def Let_def split: if_splits)
    then show ?thesis using c plain assms(2) by (auto simp: hellip_def dest: in_set_takeD)
  next
    case False
    then have "t = ?cleaned" "?cleaned \<noteq> []" using assms(1) by (auto simp: sanitize_text_def Let_def split: if_splits)
    then show ?thesis using c False by auto
  qed
qed

lemma compose_bounded: "length (composeTimeoutMessage base said linkText hint) \<le> 600"
  by (simp add: composeTimeoutMessage_def MAX_POLL_TIMEOUT_MESSAGE_def Let_def) arith

end
