(* ===== verification/Anchor_Http.thy ===== *)
theory Anchor_Http
  imports Anchor_Text Keeper_Errors Civil_Time
begin

text \<open>
  The ground of the anchor client: the data of \<open>types.ts\<close>, the defaults of \<open>config.ts\<close>, the narration
  log of \<open>explain.ts\<close>, JSON over HTTP of \<open>http.ts\<close>, the ledger access of \<open>horizon.ts\<close> and the sandbox
  call of \<open>sandbox.ts\<close>.

  The world holds what is outside the client, the narration log, the requests sent and the envelopes
  handed to the signer so far; the last two are histories that no code reads.  External are \<open>fetch\<close>, the clock, the timer, \<open>JSON.parse\<close>,
  \<open>JSON.stringify\<close> and \<open>String\<close> of values that are no strings, the URL parser with its query
  parameters, the UTF-8 decoder, \<open>Date.parse\<close>, the TOML parser, and the quotient and formats of doubles.
  Listeners of the log, whose failures are swallowed, are left out.
\<close>

section \<open>Data\<close>

record anchor_tx =
  at_id :: string
  at_kind :: string
  at_status :: string
  at_message :: "string option"
  at_moreInfoUrl :: "string option"
  at_requiredInfoUpdates :: "string list option"
  at_requiredInfoMessage :: "string option"
  at_amountIn :: "string option"
  at_amountInAsset :: "string option"
  at_amountOut :: "string option"
  at_amountOutAsset :: "string option"
  at_amountFee :: "string option"
  at_amountFeeAsset :: "string option"
  at_stellarTransactionId :: "string option"
  at_externalTransactionId :: "string option"
  at_withdrawAnchorAccount :: "string option"
  at_withdrawMemo :: "string option"
  at_withdrawMemoType :: "string option"
  at_startedAt :: "string option"
  at_completedAt :: "string option option"

record toml_currency =
  tc_code :: string
  tc_issuer :: "string option"
  tc_status :: "string option"
  tc_anchorAsset :: "string option"
  tc_anchorAssetType :: "string option"

record anchor_toml =
  am_homeDomain :: string
  am_networkPassphrase :: string
  am_signingKey :: string
  am_webAuthEndpoint :: string
  am_transferServer :: string
  am_kycServer :: "string option"
  am_quoteServer :: "string option"
  am_currencies :: "toml_currency list"

record auth_token =
  au_jwt :: string
  au_account :: string
  au_expiresAt :: "int option"

text \<open>What the client throws.\<close>

record http_error =
  he_message :: string
  he_status :: int
  he_url :: string
  he_body :: js_value

datatype anchor_thrown =
  Http_Thrown http_error
| Kyc_Thrown string string "string list"
| Timeout_Thrown string anchor_tx
| Interrupted_Thrown string anchor_tx
| Info_Thrown string anchor_tx "string list"
| Js_Thrown js_thrown

abbreviation plain_throw :: "string \<Rightarrow> anchor_thrown" where
  "plain_throw m \<equiv> Js_Thrown (Js_Error ''Error'' m)"

abbreviation named_throw :: "string \<Rightarrow> string \<Rightarrow> anchor_thrown" where
  "named_throw n m \<equiv> Js_Thrown (Js_Error n m)"

fun anchor_message :: "anchor_thrown \<Rightarrow> string" where
  "anchor_message (Http_Thrown e) = he_message e"
| "anchor_message (Kyc_Thrown m st fs) = m"
| "anchor_message (Timeout_Thrown m tx) = m"
| "anchor_message (Interrupted_Thrown m tx) = m"
| "anchor_message (Info_Thrown m tx fs) = m"
| "anchor_message (Js_Thrown t) = thrown_message t"

section \<open>Defaults\<close>

definition DEFAULT_HOME_DOMAIN :: string where "DEFAULT_HOME_DOMAIN = ''tr-mock-anchor.fly.dev''"

definition SDF_TEST_ANCHOR_HOME_DOMAIN :: string where "SDF_TEST_ANCHOR_HOME_DOMAIN = ''testanchor.stellar.org''"

definition DEFAULT_ASSET_CODE :: string where "DEFAULT_ASSET_CODE = ''USDC''"

definition TESTNET_PASSPHRASE :: string where "TESTNET_PASSPHRASE = ''Test SDF Network ; September 2015''"

definition TESTNET_HORIZON_URL :: string where "TESTNET_HORIZON_URL = ''https://horizon-testnet.stellar.org''"

definition TESTNET_FRIENDBOT_URL :: string where "TESTNET_FRIENDBOT_URL = ''https://friendbot.stellar.org''"

definition KNOWN_ISSUERS :: "string \<Rightarrow> string \<Rightarrow> string option" where
  "KNOWN_ISSUERS domain code =
     (if domain = ''tr-mock-anchor.fly.dev'' \<and> code = ''USDC''
      then Some ''GBBD47IF6LWK7P7MDEVSCWR7DPUWV3NY3DTQEVFL4NAT4AQH3ZLLFLA5'' else None)"

section \<open>The world\<close>

record explain_record =
  er_step :: string
  er_what :: string
  er_why :: string
  er_anchorSaid :: "string option"
  er_link :: "string option"
  er_at :: string

record http_init =
  hi_method :: string
  hi_headers :: "(string \<times> string) list"
  hi_body :: "string option"

text \<open>A body is read as a stream of chunks, which may break.\<close>

datatype body_item = Chunk "nat list" | Broken js_thrown

record http_response =
  hr_status :: int
  hr_content_length :: js_number
  hr_body :: "body_item list option"

text \<open>\<open>response.ok\<close>.\<close>

definition hr_ok :: "http_response \<Rightarrow> bool" where
  "hr_ok r \<longleftrightarrow> 200 \<le> hr_status r \<and> hr_status r \<le> 299"

record 'w anchor_world =
  aw_ext :: 'w
  aw_log :: "explain_record list"
  aw_requests :: "(string \<times> http_init) list"
  aw_signed :: "string list"

record 'w anchor_ctx =
  ax_fetch :: "string \<Rightarrow> http_init \<Rightarrow> 'w \<Rightarrow> (js_thrown + http_response) \<times> 'w"
  ax_now :: "'w \<Rightarrow> int \<times> 'w"
  ax_sleep :: "int \<Rightarrow> 'w \<Rightarrow> 'w"
  ax_json_parse :: "string \<Rightarrow> js_value option"
  ax_stringify :: "js_value \<Rightarrow> string"
  ax_show :: "js_value \<Rightarrow> string"
  ax_url :: url_parser
  ax_set_query :: "string \<Rightarrow> (string \<times> string) list \<Rightarrow> string option"
  ax_form :: "(string \<times> string) list \<Rightarrow> string"
  ax_utf8_decode :: "nat list \<Rightarrow> string"
  ax_date_parse :: "string \<Rightarrow> int option"
  ax_toml_parse :: "string \<Rightarrow> string + js_value"
  ax_quotient :: "string \<Rightarrow> string \<Rightarrow> js_number"
  ax_toFixed2 :: "js_number \<Rightarrow> string"
  ax_toPrecision3 :: "js_number \<Rightarrow> string"
  ax_horizonUrl :: string
  ax_friendbotUrl :: string
  ax_networkPassphrase :: string
  ax_allowInsecure :: bool
  ax_allowedEndpointHosts :: "string list option"

type_synonym ('w, 'z, 'a) act = "(('w, 'z) anchor_world_scheme, anchor_thrown, 'a) eff"

definition ext_call :: "('w \<Rightarrow> (js_thrown + 'a) \<times> 'w) \<Rightarrow> ('w, 'z, 'a) act" where
  "ext_call f s = (case f (aw_ext s) of (r, w) \<Rightarrow> Some (catchE r Js_Thrown, s\<lparr>aw_ext := w\<rparr>))"

definition ctx_now :: "'w anchor_ctx \<Rightarrow> ('w, 'z, int) act" where
  "ctx_now ctx = ext_call (\<lambda>w. case ax_now ctx w of (t, w') \<Rightarrow> (Inr t, w'))"

definition ctx_sleep :: "'w anchor_ctx \<Rightarrow> int \<Rightarrow> ('w, 'z, unit) act" where
  "ctx_sleep ctx ms = ext_call (\<lambda>w. (Inr (), ax_sleep ctx ms w))"

text \<open>A pure step that may throw an \<open>Error\<close>.\<close>

abbreviation pure_step :: "string + 'a \<Rightarrow> ('w, 'z, 'a) act" where
  "pure_step \<equiv> eff_of plain_throw"

definition record_step ::
    "'w anchor_ctx \<Rightarrow> string \<Rightarrow> string \<Rightarrow> string \<Rightarrow> string option \<Rightarrow> string option \<Rightarrow> ('w, 'z, unit) act" where
  "record_step ctx step what why said link =
     eff_bind (ctx_now ctx) (\<lambda>t.
     eff_bind (eff_of (named_throw ''RangeError'') (iso_string t)) (\<lambda>stamp s.
       Some (Inr (),
         s\<lparr>aw_log := aw_log s @ [
             \<lparr>er_step = step, er_what = what, er_why = why,
              er_anchorSaid = (case said of Some v \<Rightarrow> sanitize_text v MAX_ANCHOR_TEXT | None \<Rightarrow> None),
              er_link = (case link of Some v \<Rightarrow> safeHttpsUrl (ax_url ctx) (V_Str v) 300 | None \<Rightarrow> None),
              er_at = stamp\<rparr>]\<rparr>)))"

text \<open>\<open>explain.record(step, what, why)\<close>.\<close>

abbreviation narrated :: "'w anchor_ctx \<Rightarrow> string \<Rightarrow> string \<Rightarrow> string \<Rightarrow> ('w, 'z, unit) act" where
  "narrated ctx step what why \<equiv> record_step ctx step what why None None"

text \<open>A \<open>for (;;)\<close> loop: the body continues with another state or returns.\<close>

partial_function (option) eff_loop ::
    "('s \<Rightarrow> 'w \<Rightarrow> (('e + 's + 'a) \<times> 'w) option) \<Rightarrow> 's \<Rightarrow> 'w \<Rightarrow> (('e + 'a) \<times> 'w) option" where
  "eff_loop body st w =
     (case body st w of
        None \<Rightarrow> None
      | Some (Inl e, w') \<Rightarrow> Some (Inl e, w')
      | Some (Inr (Inl st'), w') \<Rightarrow> eff_loop body st' w'
      | Some (Inr (Inr r), w') \<Rightarrow> Some (Inr r, w'))"

section \<open>Requests\<close>

definition MAX_TOML_BYTES :: nat where "MAX_TOML_BYTES = 100 * 1024"

definition MAX_JSON_BYTES :: nat where "MAX_JSON_BYTES = 1024 * 1024"

text \<open>\<open>AnchorHttpError.errorType\<close>.\<close>

definition errorType :: "http_error \<Rightarrow> string option" where
  "errorType e = (case js_field (he_body e) ''type'' of V_Str t \<Rightarrow> Some t | _ \<Rightarrow> None)"

record request_options =
  ro_method :: string
  ro_json :: "(string \<times> string) list option"
  ro_form :: "(string \<times> string) list option"
  ro_query :: "(string \<times> string option) list option"
  ro_bearer :: "string option"
  ro_preParse :: "string \<Rightarrow> string"

definition plain_get :: request_options where
  "plain_get = \<lparr>ro_method = ''GET'', ro_json = None, ro_form = None, ro_query = None, ro_bearer = None, ro_preParse = (\<lambda>t. t)\<rparr>"

definition invalid_url :: anchor_thrown where
  "invalid_url = named_throw ''TypeError'' ''Invalid URL''"

definition buildUrl :: "'w anchor_ctx \<Rightarrow> string \<Rightarrow> (string \<times> string option) list option \<Rightarrow> anchor_thrown + string" where
  "buildUrl ctx base query =
     (case query of
        None \<Rightarrow> Inr base
      | Some kvs \<Rightarrow>
          (case ax_set_query ctx base (List.map_filter (\<lambda>(k, v). map_option (Pair k) v) kvs) of
             None \<Rightarrow> Inl invalid_url
           | Some u \<Rightarrow> Inr u))"

definition too_large :: "string \<Rightarrow> nat \<Rightarrow> http_response \<Rightarrow> anchor_thrown" where
  "too_large url cap res =
     Http_Thrown \<lparr>he_message = ''response from '' @ url @ '' is larger than '' @ dec_digits cap @ '' bytes'',
                  he_status = hr_status res, he_url = url, he_body = V_Str []\<rparr>"

fun read_stream :: "string \<Rightarrow> nat \<Rightarrow> http_response \<Rightarrow> nat list \<Rightarrow> body_item list \<Rightarrow> anchor_thrown + nat list" where
  "read_stream url cap res got [] = Inr got"
| "read_stream url cap res got (Broken e # items) = Inl (Js_Thrown e)"
| "read_stream url cap res got (Chunk bs # items) =
     (if length got + length bs > cap then Inl (too_large url cap res)
      else read_stream url cap res (got @ bs) items)"

text \<open>A response without a body has the empty text.\<close>

definition readCapped :: "'w anchor_ctx \<Rightarrow> http_response \<Rightarrow> nat \<Rightarrow> string \<Rightarrow> anchor_thrown + string" where
  "readCapped ctx res cap url =
     (if (case hr_content_length res of JNum q \<Rightarrow> q > of_nat cap | _ \<Rightarrow> False) then Inl (too_large url cap res)
      else case hr_body res of
        None \<Rightarrow> Inr []
      | Some items \<Rightarrow> and_then (read_stream url cap res [] items) (\<lambda>all. Inr (ax_utf8_decode ctx all)))"

text \<open>Redirects are refused and the request has a time limit; both are options of \<open>fetch\<close>.\<close>

definition send :: "'w anchor_ctx \<Rightarrow> string \<Rightarrow> http_init \<Rightarrow> ('w, 'z, http_response) act" where
  "send ctx url init s = ext_call (ax_fetch ctx url init) (s\<lparr>aw_requests := aw_requests s @ [(url, init)]\<rparr>)"

definition json_object :: "(string \<times> string) list \<Rightarrow> string" where
  "json_object kvs = ''{'' @ js_join '','' (map (\<lambda>(k, v). json_quote k @ '':'' @ json_quote v) kvs) @ ''}''"

definition request_init :: "'w anchor_ctx \<Rightarrow> request_options \<Rightarrow> http_init" where
  "request_init ctx opts =
     (let bearer = (case ro_bearer opts of
            Some b \<Rightarrow> if b \<noteq> [] then [(''authorization'', ''Bearer '' @ b)] else []
          | None \<Rightarrow> []);
          (kind, body) = (case (ro_json opts, ro_form opts) of
            (Some j, _) \<Rightarrow> ([(''content-type'', ''application/json'')], Some (json_object j))
          | (None, Some f) \<Rightarrow> ([(''content-type'', ''application/x-www-form-urlencoded'')], Some (ax_form ctx f))
          | (None, None) \<Rightarrow> ([], None))
      in \<lparr>hi_method = ro_method opts, hi_headers = (''accept'', ''application/json'') # bearer @ kind, hi_body = body\<rparr>)"

definition parse_body :: "'w anchor_ctx \<Rightarrow> request_options \<Rightarrow> string \<Rightarrow> js_value" where
  "parse_body ctx opts text =
     (if text = [] then V_Obj []
      else case ax_json_parse ctx (ro_preParse opts text) of Some v \<Rightarrow> v | None \<Rightarrow> V_Str text)"

definition request_failed :: "request_options \<Rightarrow> string \<Rightarrow> http_response \<Rightarrow> js_value \<Rightarrow> anchor_thrown" where
  "request_failed opts url res parsed =
     (let said = (case js_field parsed ''error'' of V_Str m \<Rightarrow> V_Str m | _ \<Rightarrow> parsed);
          detail = (case sanitizeAnchorText said MAX_ANCHOR_TEXT of
              Some d \<Rightarrow> d | None \<Rightarrow> ''HTTP '' @ show_int (hr_status res))
      in Http_Thrown
           \<lparr>he_message = ro_method opts @ '' '' @ url @ '' failed ('' @ show_int (hr_status res) @ ''): '' @ detail,
            he_status = hr_status res, he_url = url, he_body = parsed\<rparr>)"

definition requestJson :: "'w anchor_ctx \<Rightarrow> string \<Rightarrow> request_options \<Rightarrow> ('w, 'z, js_value) act" where
  "requestJson ctx url opts =
     eff_bind (eff_of (\<lambda>e. e) (buildUrl ctx url (ro_query opts))) (\<lambda>finalUrl.
     eff_bind (send ctx finalUrl (request_init ctx opts)) (\<lambda>res.
     eff_bind (eff_of (\<lambda>e. e) (readCapped ctx res MAX_JSON_BYTES finalUrl)) (\<lambda>text.
     let parsed = parse_body ctx opts text in
     if hr_ok res then eff_ret parsed else eff_throw (request_failed opts finalUrl res parsed))))"

definition requestText :: "'w anchor_ctx \<Rightarrow> string \<Rightarrow> nat \<Rightarrow> ('w, 'z, string) act" where
  "requestText ctx url maxBytes =
     eff_bind (send ctx url \<lparr>hi_method = ''GET'', hi_headers = [], hi_body = None\<rparr>) (\<lambda>res.
     eff_bind (eff_of (\<lambda>e. e) (readCapped ctx res maxBytes url)) (\<lambda>text.
     if hr_ok res then eff_ret text
     else eff_throw (Http_Thrown
            \<lparr>he_message = ''GET '' @ url @ '' failed ('' @ show_int (hr_status res) @ '')'', he_status = hr_status res,
             he_url = url,
             he_body = V_Str (case sanitize_text text MAX_ANCHOR_TEXT of Some t \<Rightarrow> t | None \<Rightarrow> [])\<rparr>)))"

text \<open>A property read of an answer, which throws on \<open>null\<close> and \<open>undefined\<close>.\<close>

definition quoted :: "string \<Rightarrow> string" where
  "quoted k = CHR 0x27 # k @ [CHR 0x27]"

definition read_prop :: "js_value \<Rightarrow> string \<Rightarrow> anchor_thrown + js_value" where
  "read_prop v k =
     (if v = V_Null then Inl (named_throw ''TypeError'' (''Cannot read properties of null (reading '' @ quoted k @ '')''))
      else if v = V_Undefined then Inl (named_throw ''TypeError'' (''Cannot read properties of undefined (reading '' @ quoted k @ '')''))
      else Inr (js_field v k))"

text \<open>What counts as false in a condition.\<close>

fun falsy :: "js_value \<Rightarrow> bool" where
  "falsy V_Undefined = True"
| "falsy V_Null = True"
| "falsy (V_Bool b) = (\<not> b)"
| "falsy (V_Num n) = (n = JNaN \<or> n = jint 0)"
| "falsy (V_Str s) = (s = [])"
| "falsy (V_Arr vs) = False"
| "falsy (V_Obj fs) = False"

section \<open>Horizon\<close>

text \<open>The client reads the fields of an answer without checking them first.\<close>

type_synonym horizon_account = js_value

definition loadAccount :: "'w anchor_ctx \<Rightarrow> string \<Rightarrow> ('w, 'z, horizon_account option) act" where
  "loadAccount ctx account =
     eff_try (requestJson ctx (ax_horizonUrl ctx @ ''/accounts/'' @ account) plain_get)
       (\<lambda>e. case e of
              Http_Thrown h \<Rightarrow> if he_status h = 404 then eff_ret None else eff_throw e
            | _ \<Rightarrow> eff_throw e)
       (\<lambda>v. eff_ret (Some v))"

datatype balance_asset = Native | Issued anchor_asset

definition is_balance_of :: "balance_asset \<Rightarrow> js_value \<Rightarrow> anchor_thrown + bool" where
  "is_balance_of a x =
     (case a of
        Native \<Rightarrow> and_then (read_prop x ''asset_type'') (\<lambda>t. Inr (t = V_Str ''native''))
      | Issued b \<Rightarrow> and_then (read_prop x ''asset_code'') (\<lambda>c.
          Inr (c = V_Str (aa_code b) \<and> js_field x ''asset_issuer'' = V_Str (aa_issuer b))))"

fun find_first :: "('a \<Rightarrow> 'e + bool) \<Rightarrow> 'a list \<Rightarrow> 'e + 'a option" where
  "find_first p [] = Inr None"
| "find_first p (x # xs) = and_then (p x) (\<lambda>b. if b then Inr (Some x) else find_first p xs)"

definition not_a_function :: "string \<Rightarrow> anchor_thrown" where
  "not_a_function f = named_throw ''TypeError'' (f @ '' is not a function'')"

definition balances_of :: "string \<Rightarrow> horizon_account \<Rightarrow> anchor_thrown + js_value list" where
  "balances_of method acct =
     and_then (read_prop acct ''balances'') (\<lambda>b.
     and_then (read_prop b method) (\<lambda>_.
       case b of V_Arr vs \<Rightarrow> Inr vs | _ \<Rightarrow> Inl (not_a_function (''balances.'' @ method))))"

definition balanceOf :: "horizon_account option \<Rightarrow> balance_asset \<Rightarrow> anchor_thrown + js_value" where
  "balanceOf acct a =
     (case acct of
        None \<Rightarrow> Inr (V_Str ''0'')
      | Some h \<Rightarrow> if falsy h then Inr (V_Str ''0'')
          else and_then (balances_of ''find'' h) (\<lambda>vs. and_then (find_first (is_balance_of a) vs) (\<lambda>b.
            Inr (case b of None \<Rightarrow> V_Str ''0'' | Some x \<Rightarrow> js_or (js_field x ''balance'') (V_Str ''0'')))))"

definition hasTrustline :: "horizon_account option \<Rightarrow> anchor_asset \<Rightarrow> anchor_thrown + bool" where
  "hasTrustline acct a =
     (case acct of
        None \<Rightarrow> Inr False
      | Some h \<Rightarrow> if nullish h then Inr False
          else and_then (balances_of ''some'' h) (\<lambda>vs. and_then (find_first (is_balance_of (Issued a)) vs) (\<lambda>b. Inr (b \<noteq> None))))"

record submit_outcome =
  so_hash :: js_value
  so_ledger :: "js_number option"

definition submitEnvelope :: "'w anchor_ctx \<Rightarrow> string \<Rightarrow> ('w, 'z, submit_outcome) act" where
  "submitEnvelope ctx signedXdr =
     eff_try
       (eff_bind (requestJson ctx (ax_horizonUrl ctx @ ''/transactions'')
                    (plain_get\<lparr>ro_method := ''POST'', ro_form := Some [(''tx'', signedXdr)]\<rparr>)) (\<lambda>res.
        eff_of (\<lambda>e. e) (and_then (read_prop res ''hash'') (\<lambda>h.
          Inr \<lparr>so_hash = h, so_ledger = (case js_field res ''ledger'' of V_Num n \<Rightarrow> Some n | _ \<Rightarrow> None)\<rparr>))))
       (\<lambda>e. case e of
              Http_Thrown h \<Rightarrow>
                let codes = js_field (js_field (he_body h) ''extras'') ''result_codes'' in
                if falsy codes then eff_throw e
                else eff_throw (plain_throw (''Stellar rejected the transaction: '' @ ax_stringify ctx codes))
            | _ \<Rightarrow> eff_throw e)
       eff_ret"

definition explorer_net :: "string \<Rightarrow> string" where
  "explorer_net passphrase = (if starts_with ''Test'' passphrase then ''testnet'' else ''public'')"

definition explorerTxUrl :: "string \<Rightarrow> string \<Rightarrow> string" where
  "explorerTxUrl hash passphrase = ''https://stellar.expert/explorer/'' @ explorer_net passphrase @ ''/tx/'' @ hash"

definition explorerAccountUrl :: "string \<Rightarrow> string \<Rightarrow> string" where
  "explorerAccountUrl account passphrase =
     ''https://stellar.expert/explorer/'' @ explorer_net passphrase @ ''/account/'' @ account"

text \<open>\<open>String(v)\<close> in a text.\<close>

definition show_value :: "'w anchor_ctx \<Rightarrow> js_value \<Rightarrow> string" where
  "show_value ctx v = (case v of V_Str s \<Rightarrow> s | _ \<Rightarrow> ax_show ctx v)"

text \<open>\<open>hash.slice(0, 8)\<close>.\<close>

definition hash_prefix :: "'w anchor_ctx \<Rightarrow> js_value \<Rightarrow> anchor_thrown + string" where
  "hash_prefix ctx v =
     (case v of
        V_Str s \<Rightarrow> Inr (take 8 s)
      | V_Arr vs \<Rightarrow> Inr (ax_show ctx (V_Arr (take 8 vs)))
      | _ \<Rightarrow> and_then (read_prop v ''slice'') (\<lambda>_. Inl (not_a_function ''hash.slice'')))"

section \<open>The sandbox\<close>

text \<open>\<open>encodeURIComponent\<close> of a text; order ids are made of characters it keeps, but for the colon.\<close>

definition uri_keeps :: "char \<Rightarrow> bool" where
  "uri_keeps c \<longleftrightarrow> is_alnum c \<or> c \<in> set ''-_.!~*()'' \<or> c = CHR 0x27"

definition hex_upper :: "nat \<Rightarrow> char" where
  "hex_upper n = (if n < 10 then char_of (48 + n) else char_of (55 + n))"

definition percent_byte :: "nat \<Rightarrow> string" where
  "percent_byte b = [CHR ''%'', hex_upper (b div 16), hex_upper (b mod 16)]"

definition encode_id :: "string \<Rightarrow> string" where
  "encode_id s = concat (map (\<lambda>c. if uri_keeps c then [c] else percent_byte (char_code c)) s)"

definition simulateBankTransfer ::
    "'w anchor_ctx \<Rightarrow> anchor_toml \<Rightarrow> string \<Rightarrow> string \<Rightarrow> string \<Rightarrow> ('w, 'z, unit) act" where
  "simulateBankTransfer ctx toml i amountFiat fiatCode =
     eff_bind (requestJson ctx (am_transferServer toml @ ''/tx/'' @ encode_id i @ ''/simulate-bank-transfer'')
                 (plain_get\<lparr>ro_method := ''POST'', ro_json := Some [(''amount'', amountFiat)]\<rparr>)) (\<lambda>_.
     narrated ctx ''sandbox.bank''
       (''Sandbox: pretended to be the bank and told the test anchor that '' @ amountFiat
          @ (if fiatCode \<noteq> [] then '' '' @ fiatCode else '' of local currency'') @ '' arrived for order '' @ i @ ''.'')
       ''This test anchor has no real bank, so we trigger the step a real bank transfer would normally trigger by itself.'')"

end
