(* ===== verification/Anchor_Preflight.thy ===== *)
theory Anchor_Preflight
  imports Anchor_Http
begin

text \<open>
  \<open>describe.ts\<close>: the card decoded from an envelope and the check that the signer returned the same
  transaction; and \<open>preflight.ts\<close>: funding the account and adding the trustline.

  External are the SDK, which builds an envelope from an order and decodes one, and the signer.
\<close>

section \<open>The SDK and the signer\<close>

datatype memo_kind = Memo_Text | Memo_Id | Memo_Hash

record withdraw_memo =
  wm_kind :: memo_kind
  wm_value :: string

datatype anchor_op = Pay_Asset string anchor_asset string | Trust_Asset anchor_asset

text \<open>What a builder is asked for; the sequence number is what Horizon answered.\<close>

record tx_order =
  to_source :: string
  to_sequence :: js_value
  to_fee :: string
  to_networkPassphrase :: string
  to_op :: anchor_op
  to_memo :: "withdraw_memo option"
  to_timeout :: int

datatype decoded_asset = Native_Token | Token string string

datatype trust_target = Line_Asset decoded_asset | Pool_Share

datatype op_body =
  Change_Trust trust_target | Payment string decoded_asset string | Manage_Data string | Other_Type string

datatype memo_value = Memo_Bytes "nat list" | Memo_Shown string

text \<open>A decoded envelope: for a fee bump only the hash and the signatures are read.\<close>

record decoded_tx =
  dt_is_transaction :: bool
  dt_source :: string
  dt_sequence :: string
  dt_operations :: "(string option \<times> op_body) list"
  dt_memo :: "(string \<times> memo_value) option"
  dt_fee :: nat
  dt_hash :: "nat list"
  dt_signatures :: nat

record anchor_sdk =
  ak_BASE_FEE :: string
  ak_is_account :: "string \<Rightarrow> bool"
  ak_build :: "tx_order \<Rightarrow> js_thrown + string"
  ak_fromXDR :: "string \<Rightarrow> string \<Rightarrow> js_thrown + decoded_tx"

record 'w anchor_signer =
  sg_publicKey :: "'w \<Rightarrow> (js_thrown + string) \<times> 'w"
  sg_sign :: "string \<Rightarrow> string \<Rightarrow> 'w \<Rightarrow> (js_thrown + string) \<times> 'w"

definition ask_signature :: "'w anchor_signer \<Rightarrow> string \<Rightarrow> string \<Rightarrow> ('w, 'z, string) act" where
  "ask_signature signer xdr passphrase s =
     ext_call (sg_sign signer xdr passphrase) (s\<lparr>aw_signed := aw_signed s @ [xdr]\<rparr>)"

definition lift_js :: "js_thrown + 'a \<Rightarrow> anchor_thrown + 'a" where
  "lift_js r = catchE r Js_Thrown"

definition fromXDR :: "anchor_sdk \<Rightarrow> string \<Rightarrow> string \<Rightarrow> anchor_thrown + decoded_tx" where
  "fromXDR sdk xdr passphrase = lift_js (ak_fromXDR sdk xdr passphrase)"

abbreviation sync_step :: "anchor_thrown + 'a \<Rightarrow> ('w, 'z, 'a) act" where
  "sync_step \<equiv> eff_of (\<lambda>e. e)"

section \<open>Cards\<close>

fun assetLabel :: "decoded_asset \<Rightarrow> string" where
  "assetLabel Native_Token = ''XLM (native)''"
| "assetLabel (Token code issuer) = code @ '':'' @ issuer"

definition describeOperation :: "string option \<times> op_body \<Rightarrow> string \<Rightarrow> string" where
  "describeOperation op txSource =
     (let src = (case fst op of
            Some s \<Rightarrow> if s \<noteq> [] \<and> s \<noteq> txSource then '' [operation source: '' @ s @ '']'' else []
          | None \<Rightarrow> [])
      in case snd op of
           Change_Trust line \<Rightarrow>
             ''Trust asset '' @ (case line of Line_Asset a \<Rightarrow> assetLabel a | Pool_Share \<Rightarrow> ''a liquidity pool share'')
               @ '' (opt in to hold it)'' @ src
         | Payment destination a amount \<Rightarrow> ''Pay '' @ amount @ '' '' @ assetLabel a @ '' to '' @ destination @ src
         | Manage_Data name \<Rightarrow>
             ''Login proof entry '' @ dq name
               @ '' (authentication only; this transaction is never submitted to the network)'' @ src
         | Other_Type t \<Rightarrow> ''Operation: '' @ t @ src)"

text \<open>\<open>(Number(fee) / 1e7).toFixed(7)\<close>.\<close>

definition fixed7 :: "nat \<Rightarrow> string" where
  "fixed7 n = dec_digits (n div 10 ^ 7) @ ''.'' @ pad_start 7 CHR ''0'' (dec_digits (n mod 10 ^ 7))"

fun memo_text :: "memo_value \<Rightarrow> string" where
  "memo_text (Memo_Bytes bs) = toHex bs"
| "memo_text (Memo_Shown s) = s"

record xdr_description =
  xd_lines :: "string list"
  xd_feeXlm :: string
  xd_source :: string

definition describeXdr :: "anchor_sdk \<Rightarrow> string \<Rightarrow> string \<Rightarrow> anchor_thrown + xdr_description" where
  "describeXdr sdk xdr passphrase =
     and_then (fromXDR sdk xdr passphrase) (\<lambda>tx.
       if \<not> dt_is_transaction tx then Inl (plain_throw ''fee-bump envelopes are not supported here'')
       else Inr
         \<lparr>xd_lines = map (\<lambda>op. describeOperation op (dt_source tx)) (dt_operations tx)
            @ (case dt_memo tx of
                 None \<Rightarrow> []
               | Some (kind, v) \<Rightarrow> [''Memo ('' @ kind @ ''): '' @ memo_text v]),
          xd_feeXlm = fixed7 (dt_fee tx), xd_source = dt_source tx\<rparr>)"

definition assertSameTransaction :: "anchor_sdk \<Rightarrow> string \<Rightarrow> string \<Rightarrow> string \<Rightarrow> anchor_thrown + unit" where
  "assertSameTransaction sdk expectedXdr actualXdr passphrase =
     and_then (fromXDR sdk expectedXdr passphrase) (\<lambda>a.
     and_then (fromXDR sdk actualXdr passphrase) (\<lambda>b.
       if toHex (dt_hash a) \<noteq> toHex (dt_hash b) then
         Inl (plain_throw ''the signer returned a different transaction than the one we asked it to sign'')
       else guardE (dt_signatures b \<noteq> 0) (plain_throw ''the signer returned an unsigned transaction'')))"

record withdrawal_summary_input =
  ws_xdr :: string
  ws_networkPassphrase :: string
  ws_orderId :: string
  ws_homeDomain :: string
  ws_asset :: anchor_asset
  ws_destination :: string
  ws_amount :: string

definition withdrawalSummary :: "anchor_sdk \<Rightarrow> withdrawal_summary_input \<Rightarrow> anchor_thrown + guard_summary" where
  "withdrawalSummary sdk i =
     and_then (describeXdr sdk (ws_xdr i) (ws_networkPassphrase i)) (\<lambda>d.
       Inr \<lparr>su_title = ''Pay '' @ ws_amount i @ '' '' @ aa_code (ws_asset i) @ '' to '' @ ws_homeDomain i @ '' to cash out'',
            su_lines =
              [''Withdrawal order '' @ ws_orderId i @ '' at '' @ ws_homeDomain i, ''From '' @ xd_source d]
              @ xd_lines d
              @ [''Asset issuer: '' @ aa_issuer (ws_asset i),
                 ''The anchor pays out local currency after it receives this payment. Approve only if you asked to cash out.''],
            su_explorerUrl = explorerAccountUrl (ws_destination i) (ws_networkPassphrase i),
            su_estimatedFee = xd_feeXlm d @ '' XLM''\<rparr>)"

section \<open>Preflight\<close>

record account_state =
  as_exists :: bool
  as_xlmBalance :: js_value
  as_hasTrustline :: bool
  as_assetBalance :: js_value
  as_raw :: "horizon_account option"

definition inspectAccount :: "'w anchor_ctx \<Rightarrow> string \<Rightarrow> anchor_asset \<Rightarrow> ('w, 'z, account_state) act" where
  "inspectAccount ctx account a =
     eff_bind (loadAccount ctx account) (\<lambda>raw.
     let present = (case raw of None \<Rightarrow> False | Some h \<Rightarrow> \<not> falsy h) in
     sync_step
       (and_then (balanceOf raw Native) (\<lambda>xlm.
        and_then (hasTrustline raw a) (\<lambda>trust.
        and_then (balanceOf raw (Issued a)) (\<lambda>bal.
          Inr \<lparr>as_exists = present, as_xlmBalance = xlm, as_hasTrustline = trust, as_assetBalance = bal,
               as_raw = (if present then raw else None)\<rparr>)))))"

text \<open>\<open>state.raw?.sequence ?? "0"\<close>.\<close>

definition sequence_of :: "account_state \<Rightarrow> js_value" where
  "sequence_of s = (case as_raw s of None \<Rightarrow> V_Str ''0'' | Some h \<Rightarrow> js_or (js_field h ''sequence'') (V_Str ''0''))"

definition buildTrustlineTx :: "anchor_sdk \<Rightarrow> string \<Rightarrow> js_value \<Rightarrow> string \<Rightarrow> anchor_asset \<Rightarrow> anchor_thrown + string" where
  "buildTrustlineTx sdk account seq passphrase a =
     lift_js (ak_build sdk
       \<lparr>to_source = account, to_sequence = seq, to_fee = ak_BASE_FEE sdk, to_networkPassphrase = passphrase,
        to_op = Trust_Asset a, to_memo = None, to_timeout = 300\<rparr>)"

datatype preflight_action = Friendbot_Funded | Trustline_Created

record preflight_result =
  pf_account :: string
  pf_actions :: "preflight_action list"
  pf_trustlineTxHash :: "js_value option"
  pf_state :: account_state

record preflight_options =
  po_useFriendbot :: "bool option"
  po_settleTimeoutMs :: "int option"

definition wait_turn ::
    "'w anchor_ctx \<Rightarrow> string \<Rightarrow> anchor_asset \<Rightarrow> (account_state \<Rightarrow> bool) \<Rightarrow> int \<Rightarrow> int \<Rightarrow> unit \<Rightarrow> ('w, 'z, unit + account_state) act" where
  "wait_turn ctx account a ok timeoutMs start u =
     eff_bind (inspectAccount ctx account a) (\<lambda>s.
       if ok s then eff_ret (Inr s)
       else
         eff_bind (ctx_now ctx) (\<lambda>t.
           if t - start \<ge> timeoutMs then eff_ret (Inr s)
           else eff_bind (ctx_sleep ctx 1000) (\<lambda>_. eff_ret (Inl ()))))"

definition waitForState ::
    "'w anchor_ctx \<Rightarrow> string \<Rightarrow> anchor_asset \<Rightarrow> (account_state \<Rightarrow> bool) \<Rightarrow> int \<Rightarrow> ('w, 'z, account_state) act" where
  "waitForState ctx account a ok timeoutMs =
     eff_bind (ctx_now ctx) (\<lambda>start. eff_loop (wait_turn ctx account a ok timeoutMs start) ())"

text \<open>\<open>${ms / 1000}\<close>.\<close>

definition show_seconds :: "int \<Rightarrow> string" where
  "show_seconds ms = (if ms < 0 then ''-'' else []) @ scaled_print 3 (nat \<bar>ms\<bar>)"

definition fund_account ::
    "'w anchor_ctx \<Rightarrow> string \<Rightarrow> anchor_asset \<Rightarrow> bool \<Rightarrow> int \<Rightarrow> ('w, 'z, account_state) act" where
  "fund_account ctx account a allowed settleMs =
     (if \<not> allowed then
        eff_throw (plain_throw (''account '' @ short_key account
          @ '' does not exist on the network and cannot be funded automatically here''))
      else
        eff_bind
          (eff_try (requestJson ctx (ax_friendbotUrl ctx) (plain_get\<lparr>ro_query := Some [(''addr'', Some account)]\<rparr>))
             (\<lambda>e. case e of
                    Http_Thrown h \<Rightarrow> if he_status h = 400 then eff_ret () else eff_throw e
                  | _ \<Rightarrow> eff_throw e)
             (\<lambda>_. eff_ret ())) (\<lambda>_.
        eff_bind (waitForState ctx account a as_exists settleMs) (\<lambda>state.
        if \<not> as_exists state then
          eff_throw (plain_throw (''Friendbot ran but '' @ short_key account @ '' still does not exist after ''
            @ show_seconds settleMs @ ''s''))
        else
          eff_bind (narrated ctx ''preflight.fund''
              (''Preflight: '' @ short_key account
                @ '' was brand new, so the test-network faucet (Friendbot) sent it starter XLM.'')
              ''A Stellar account does not exist until it holds a minimum XLM balance, and every transaction needs a small XLM fee. (On mainnet you would fund it yourself or have a sponsor pay.)'') (\<lambda>_.
          eff_ret state))))"

text \<open>The signer is asked for one signature, and what it returns is checked before it is submitted.\<close>

definition sign_and_submit ::
    "anchor_sdk \<Rightarrow> 'w anchor_ctx \<Rightarrow> 'w anchor_signer \<Rightarrow> string \<Rightarrow> ('w, 'z, submit_outcome) act" where
  "sign_and_submit sdk ctx signer xdr =
     eff_bind (ask_signature signer xdr (ax_networkPassphrase ctx)) (\<lambda>signed.
     eff_bind (sync_step (assertSameTransaction sdk xdr signed (ax_networkPassphrase ctx))) (\<lambda>_.
     submitEnvelope ctx signed))"

definition add_trustline ::
    "anchor_sdk \<Rightarrow> 'w anchor_ctx \<Rightarrow> 'w anchor_signer \<Rightarrow> string \<Rightarrow> anchor_asset \<Rightarrow> int \<Rightarrow> account_state
       \<Rightarrow> ('w, 'z, js_value \<times> account_state) act" where
  "add_trustline sdk ctx signer account a settleMs state0 =
     eff_bind (sync_step (buildTrustlineTx sdk account (sequence_of state0) (ax_networkPassphrase ctx) a)) (\<lambda>xdr.
     eff_bind (sign_and_submit sdk ctx signer xdr) (\<lambda>out.
     eff_bind (waitForState ctx account a as_hasTrustline settleMs) (\<lambda>state.
     if \<not> as_hasTrustline state then
       eff_throw (plain_throw (''trustline transaction '' @ show_value ctx (so_hash out)
         @ '' was accepted but is not visible yet''))
     else
       eff_bind (sync_step (hash_prefix ctx (so_hash out))) (\<lambda>prefix.
       eff_bind (narrated ctx ''preflight.trustline''
           (''Preflight: added a '' @ aa_code a @ '' trustline to '' @ short_key account @ '' (transaction '' @ prefix @ ''...).'')
           (''A trustline is the account opting in to hold '' @ aa_code a
             @ ''. Without it the anchor cannot pay us and holds the deposit in '' @ dq ''pending_trust'' @ ''.'')) (\<lambda>_.
       eff_ret (so_hash out, state))))))"

definition preflight ::
    "anchor_sdk \<Rightarrow> 'w anchor_ctx \<Rightarrow> 'w anchor_signer \<Rightarrow> anchor_asset \<Rightarrow> preflight_options
       \<Rightarrow> ('w, 'z, preflight_result) act" where
  "preflight sdk ctx signer a opts =
     eff_bind (ext_call (sg_publicKey signer)) (\<lambda>account.
     let isTestnet = starts_with ''Test SDF'' (ax_networkPassphrase ctx);
         useFriendbot = (case po_useFriendbot opts of Some b \<Rightarrow> b | None \<Rightarrow> isTestnet);
         settleMs = (case po_settleTimeoutMs opts of Some t \<Rightarrow> t | None \<Rightarrow> 20000) in
     eff_bind (inspectAccount ctx account a) (\<lambda>state0.
     eff_bind
       (if as_exists state0 then eff_ret ([], state0)
        else eff_bind (fund_account ctx account a (useFriendbot \<and> isTestnet) settleMs) (\<lambda>s. eff_ret ([Friendbot_Funded], s)))
       (\<lambda>(funded, state1).
     eff_bind
       (if as_hasTrustline state1 then eff_ret (funded, None, state1)
        else eff_bind (add_trustline sdk ctx signer account a settleMs state1)
               (\<lambda>(hash, s). eff_ret (funded @ [Trustline_Created], Some hash, s)))
       (\<lambda>(actions, hash, state2).
     eff_bind
       (if actions \<noteq> [] then eff_ret ()
        else narrated ctx ''preflight.ready''
               (''Preflight: '' @ short_key account @ '' already exists and already trusts '' @ aa_code a @ '' '' @ mdash
                 @ '' nothing to set up.'')
               ''Checking first means we never repeat a step or pay a needless fee.'') (\<lambda>_.
     eff_ret \<lparr>pf_account = account, pf_actions = actions,
              pf_trustlineTxHash = (case hash of Some h \<Rightarrow> if falsy h then None else Some h | None \<Rightarrow> None),
              pf_state = state2\<rparr>)))))"

end
