(* ===== verification/Anchor_Discovery.thy ===== *)
theory Anchor_Discovery
  imports Anchor_Preflight
begin

text \<open>
  From a domain name to the services of an anchor: the checks of \<open>net.ts\<close> on domains and endpoints,
  the discovery of \<open>sep1.ts\<close>, and the registry of \<open>scenarios.ts\<close>.
\<close>

section \<open>Domains and endpoints\<close>

abbreviation unsafe_anchor :: "string \<Rightarrow> anchor_thrown" where
  "unsafe_anchor m \<equiv> named_throw ''UnsafeAnchorError'' m"

record net_policy =
  np_allowInsecure :: bool
  np_allowedEndpointHosts :: "string list option"

definition strict_policy :: net_policy where
  "strict_policy = \<lparr>np_allowInsecure = False, np_allowedEndpointHosts = None\<rparr>"

definition lower_alnum :: "char \<Rightarrow> bool" where
  "lower_alnum c \<longleftrightarrow> is_lower c \<or> is_digit c"

definition LABEL :: "string \<Rightarrow> bool" where
  "LABEL s \<longleftrightarrow> s \<noteq> [] \<and> length s \<le> 63 \<and> lower_alnum (hd s) \<and> lower_alnum (last s)
     \<and> list_all (\<lambda>c. lower_alnum c \<or> c = CHR ''-'') s"

definition BLOCKED_TLDS :: "string list" where
  "BLOCKED_TLDS = [''localhost'', ''local'', ''internal'', ''intranet'', ''lan'', ''home'', ''corp'', ''private'', ''arpa'',
     ''onion'', ''invalid'']"

text \<open>\<open>looksLikeIp\<close>, which \<open>sep6.ts\<close> and \<open>scenarios.ts\<close> repeat.\<close>

definition looksLikeIp :: "string \<Rightarrow> bool" where
  "looksLikeIp host \<longleftrightarrow> CHR '':'' \<in> set host \<or> starts_with ''['' host
     \<or> host \<noteq> [] \<and> list_all (\<lambda>c. is_digit c \<or> c = CHR ''.'') host
     \<or> 3 \<le> length host \<and> js_lower (take 2 host) = ''0x'' \<and> list_all is_hex (drop 2 host)"

definition all_digits :: "string \<Rightarrow> bool" where
  "all_digits s \<longleftrightarrow> s \<noteq> [] \<and> list_all is_digit s"

definition assertPublicDnsName :: "string \<Rightarrow> string \<Rightarrow> anchor_thrown + unit" where
  "assertPublicDnsName host label =
     (let labels = js_split CHR ''.'' host; tld = last labels in
      if host = [] \<or> length host > 253 then Inl (unsafe_anchor (label @ '' is not a valid host name''))
      else if looksLikeIp host then Inl (unsafe_anchor (label @ '' must be a domain name, not an IP address''))
      else if length labels < 2 then Inl (unsafe_anchor (label @ '' must be a fully qualified domain name''))
      else if \<not> list_all LABEL labels then
        Inl (unsafe_anchor (label @ '' contains characters that are not allowed in a domain name''))
      else if all_digits tld then Inl (unsafe_anchor (label @ '' must be a domain name, not an IP address''))
      else guardE (\<not> List.member BLOCKED_TLDS tld) (unsafe_anchor (label @ '' is a local or private name'')))"

text \<open>\<open>s.replace(/^prefix/i, "")\<close> for a prefix in lower case, and \<open>if (s.endsWith("/")) s = s.slice(0, -1)\<close>.\<close>

definition strip_prefix_i :: "string \<Rightarrow> string \<Rightarrow> string" where
  "strip_prefix_i p s = (if js_lower (take (length p) s) = p then drop (length p) s else s)"

definition strip_slash :: "string \<Rightarrow> string" where
  "strip_slash s = (if s \<noteq> [] \<and> last s = CHR ''/'' then butlast s else s)"

definition host_char :: "char \<Rightarrow> bool" where
  "host_char c \<longleftrightarrow> is_alnum c \<or> c = CHR ''.'' \<or> c = CHR ''-''"

text \<open>\<open>^[A-Za-z0-9.-]+(:[0-9]{1,5})?$\<close>.\<close>

definition host_port_re :: "string \<Rightarrow> bool" where
  "host_port_re s =
     (takeWhile host_char s \<noteq> [] \<and>
        (case dropWhile host_char s of [] \<Rightarrow> True | c # p \<Rightarrow> c = CHR '':'' \<and> all_of is_digit 1 5 p))"

definition parseHomeDomain :: "string \<Rightarrow> net_policy \<Rightarrow> anchor_thrown + string" where
  "parseHomeDomain input pol =
     (let s0 = js_trim input;
          s1 = (if np_allowInsecure pol then strip_prefix_i ''http://'' s0 else s0);
          s = strip_slash (strip_prefix_i ''https://'' s1)
      in if np_allowInsecure pol then
           if host_port_re s then Inr (js_lower s)
           else Inl (unsafe_anchor (dq (take 60 input) @ '' is not a valid host''))
         else if s = [] \<or> \<not> list_all host_char s then
           Inl (unsafe_anchor (dq (take 60 input)
             @ '' is not a plain domain name (no ports, paths, credentials or special characters)''))
         else and_then (assertPublicDnsName (js_lower s) ''the anchor domain'') (\<lambda>_. Inr (js_lower s)))"

definition ends_with :: "string \<Rightarrow> string \<Rightarrow> bool" where
  "ends_with e s \<longleftrightarrow> starts_with (rev e) (rev s)"

text \<open>\<open>home.replace(/:[0-9]+$/, "")\<close>.\<close>

definition strip_port :: "string \<Rightarrow> string" where
  "strip_port s =
     (let r = rev s; rest = dropWhile is_digit r in
      if takeWhile is_digit r \<noteq> [] \<and> rest \<noteq> [] \<and> hd rest = CHR '':'' then rev (tl rest) else s)"

definition hostBelongs :: "string \<Rightarrow> string \<Rightarrow> net_policy \<Rightarrow> bool" where
  "hostBelongs host home pol =
     (let homeHost = strip_port home in
      host = homeHost \<or> ends_with (CHR ''.'' # homeHost) host
      \<or> (case np_allowedEndpointHosts pol of None \<Rightarrow> False | Some hs \<Rightarrow> list_ex (\<lambda>h. js_lower h = host) hs))"

text \<open>\<open>s.replace(":", "")\<close>.\<close>

fun drop_colon :: "string \<Rightarrow> string" where
  "drop_colon [] = []"
| "drop_colon (c # s) = (if c = CHR '':'' then s else c # drop_colon s)"

definition assertSafeEndpoint ::
    "url_parser \<Rightarrow> string \<Rightarrow> string \<Rightarrow> string \<Rightarrow> net_policy \<Rightarrow> anchor_thrown + string" where
  "assertSafeEndpoint url raw label homeDomain pol =
     (case url raw of
        None \<Rightarrow> Inl (unsafe_anchor (label @ '' is not a valid URL''))
      | Some u \<Rightarrow>
          let insecure = np_allowInsecure pol in
          if up_protocol u \<noteq> ''https:'' \<and> \<not> (insecure \<and> up_protocol u = ''http:'') then
            Inl (unsafe_anchor (label @ '' must use https (got '' @ drop_colon (up_protocol u) @ '')''))
          else if up_username u \<noteq> [] \<or> up_password u \<noteq> [] then
            Inl (unsafe_anchor (label @ '' must not contain credentials''))
          else if up_hash u \<noteq> [] then Inl (unsafe_anchor (label @ '' must not contain a fragment''))
          else
            and_then
              (if insecure then Inr ()
               else if up_port u \<noteq> [] then Inl (unsafe_anchor (label @ '' must use the default https port''))
               else assertPublicDnsName (up_hostname u) label) (\<lambda>_.
            if \<not> hostBelongs (up_hostname u) homeDomain pol then
              Inl (unsafe_anchor (label @ '' points at '' @ up_hostname u @ '', which is not part of '' @ homeDomain))
            else Inr (strip_slash (up_href u))))"

section \<open>The file an anchor publishes\<close>

abbreviation toml_error :: "string \<Rightarrow> anchor_thrown" where
  "toml_error m \<equiv> named_throw ''TomlError'' m"

definition ASSET_CODE :: "string \<Rightarrow> bool" where
  "ASSET_CODE s = all_of is_alnum 1 12 s"

definition FIAT_CODE :: "string \<Rightarrow> bool" where
  "FIAT_CODE s = all_of (\<lambda>c. is_upper c \<or> is_digit c) 2 12 s"

text \<open>\<open>str\<close>: a text that is not empty; and one that matches a pattern.\<close>

definition str_of :: "js_value \<Rightarrow> string option" where
  "str_of v = (case v of V_Str (c # s) \<Rightarrow> Some (c # s) | _ \<Rightarrow> None)"

definition matching :: "(string \<Rightarrow> bool) \<Rightarrow> js_value \<Rightarrow> string option" where
  "matching p v = (case str_of v of Some s \<Rightarrow> if p s then Some s else None | None \<Rightarrow> None)"

definition parse_currency :: "js_value \<Rightarrow> toml_currency option" where
  "parse_currency c =
     (if \<not> is_object c then None
      else case matching ASSET_CODE (js_field c ''code'') of
        None \<Rightarrow> None
      | Some code \<Rightarrow> Some
          \<lparr>tc_code = code,
           tc_issuer = matching stellar_address_re (js_field c ''issuer''),
           tc_status = matching (all_of is_lower 1 16) (js_field c ''status''),
           tc_anchorAsset = matching FIAT_CODE (js_field c ''anchor_asset''),
           tc_anchorAssetType = matching (all_of (\<lambda>c. is_lower c \<or> c = CHR ''_'') 1 16) (js_field c ''anchor_asset_type'')\<rparr>)"

definition optional_endpoint :: "(string \<Rightarrow> anchor_thrown + string) \<Rightarrow> string option \<Rightarrow> anchor_thrown + string option" where
  "optional_endpoint check v = (case v of None \<Rightarrow> Inr None | Some e \<Rightarrow> and_then (check e) (\<lambda>u. Inr (Some u)))"

definition parseStellarToml :: "'w anchor_ctx \<Rightarrow> string \<Rightarrow> string \<Rightarrow> net_policy \<Rightarrow> anchor_thrown + anchor_toml" where
  "parseStellarToml ctx homeDomain text pol =
     (case ax_toml_parse ctx text of
        Inl m \<Rightarrow> Inl (toml_error (homeDomain @ '' does not publish a valid stellar.toml''
          @ (case sanitize_text m MAX_ANCHOR_TEXT of Some d \<Rightarrow> '' (parser said: '' @ d @ '')'' | None \<Rightarrow> [])))
      | Inr doc \<Rightarrow>
          let endpoint = (\<lambda>label v. assertSafeEndpoint (ax_url ctx) v label homeDomain pol) in
          and_then (ok_or (str_of (js_field doc ''WEB_AUTH_ENDPOINT''))
            (toml_error (homeDomain @ '' does not publish WEB_AUTH_ENDPOINT (SEP-10)''))) (\<lambda>webAuth.
          and_then (ok_or (str_of (js_field doc ''TRANSFER_SERVER''))
            (toml_error (homeDomain @ '' does not publish TRANSFER_SERVER (SEP-6)''))) (\<lambda>transfer.
          and_then (ok_or (matching stellar_address_re (js_field doc ''SIGNING_KEY''))
            (toml_error (homeDomain @ '' does not publish a valid SIGNING_KEY (needed to verify SEP-10 challenges)''))) (\<lambda>signingKey.
          and_then (ok_or (str_of (js_field doc ''NETWORK_PASSPHRASE''))
            (toml_error (homeDomain @ '' does not publish NETWORK_PASSPHRASE''))) (\<lambda>passphrase.
          let currencies = (case js_field doc ''CURRENCIES'' of V_Arr cs \<Rightarrow> List.map_filter parse_currency cs | _ \<Rightarrow> []) in
          and_then (endpoint ''WEB_AUTH_ENDPOINT'' webAuth) (\<lambda>auth.
          and_then (endpoint ''TRANSFER_SERVER'' transfer) (\<lambda>server.
          and_then (optional_endpoint (endpoint ''KYC_SERVER'') (str_of (js_field doc ''KYC_SERVER''))) (\<lambda>kyc.
          and_then (optional_endpoint (endpoint ''ANCHOR_QUOTE_SERVER'') (str_of (js_field doc ''ANCHOR_QUOTE_SERVER''))) (\<lambda>quote_server.
            Inr \<lparr>am_homeDomain = homeDomain, am_networkPassphrase = passphrase, am_signingKey = signingKey,
                 am_webAuthEndpoint = auth, am_transferServer = server, am_kycServer = kyc,
                 am_quoteServer = quote_server, am_currencies = currencies\<rparr>)))))))))"

definition ctx_policy :: "'w anchor_ctx \<Rightarrow> net_policy" where
  "ctx_policy ctx = \<lparr>np_allowInsecure = ax_allowInsecure ctx, np_allowedEndpointHosts = ax_allowedEndpointHosts ctx\<rparr>"

definition endpoint_path :: "'w anchor_ctx \<Rightarrow> string \<Rightarrow> anchor_thrown + string" where
  "endpoint_path ctx u =
     (case ax_url ctx u of
        None \<Rightarrow> Inl invalid_url
      | Some p \<Rightarrow> Inr (case sanitize_text (up_pathname p) 120 of Some t \<Rightarrow> t | None \<Rightarrow> ''/''))"

definition or_undefined :: "string option \<Rightarrow> string" where
  "or_undefined t = (case t of Some s \<Rightarrow> s | None \<Rightarrow> ''undefined'')"

definition discoverAnchor :: "'w anchor_ctx \<Rightarrow> string \<Rightarrow> ('w, 'z, anchor_toml) act" where
  "discoverAnchor ctx homeDomainInput =
     eff_bind (sync_step (parseHomeDomain homeDomainInput (ctx_policy ctx))) (\<lambda>homeDomain.
     let scheme = (if ax_allowInsecure ctx \<and> js_lower (take 7 (js_trim homeDomainInput)) = ''http://'' then ''http'' else ''https'') in
     eff_bind (requestText ctx (scheme @ ''://'' @ homeDomain @ ''/.well-known/stellar.toml'') MAX_TOML_BYTES) (\<lambda>text.
     eff_bind (sync_step (parseStellarToml ctx homeDomain text (ctx_policy ctx))) (\<lambda>toml.
     if am_networkPassphrase toml \<noteq> ax_networkPassphrase ctx then
       eff_throw (toml_error (homeDomain @ '' runs on a different Stellar network than this wallet (''
         @ or_undefined (sanitize_text (am_networkPassphrase toml) 60) @ '') '' @ mdash @ '' refusing to talk to it''))
     else
       eff_bind (sync_step (endpoint_path ctx (am_webAuthEndpoint toml))) (\<lambda>authPath.
       eff_bind (sync_step (endpoint_path ctx (am_transferServer toml))) (\<lambda>transferPath.
       eff_bind (narrated ctx ''sep1.discover''
           (''SEP-1: read '' @ homeDomain @ CHR 0x27 # ''s public stellar.toml and learned where to log in ('' @ authPath
              @ ''), move money ('' @ transferPath @ ''), do KYC and fetch quotes. The anchor'' @ CHR 0x27 # ''s signing key is ''
              @ short_key (am_signingKey toml) @ ''. All of its endpoints use https on '' @ homeDomain @ ''.'')
           ''Everything about an anchor is published in one standard file, so all we need from you is the anchor's domain name. We only accept https endpoints on that same domain.'') (\<lambda>_.
       eff_ret toml))))))"

record found_asset =
  fa_code :: string
  fa_issuer :: string
  fa_anchorAsset :: "string option"

definition findAsset :: "anchor_toml \<Rightarrow> string \<Rightarrow> string option \<Rightarrow> anchor_thrown + found_asset" where
  "findAsset toml code expectedIssuer =
     (let candidates = List.map_filter (\<lambda>c. if tc_code c = code \<and> tc_status c \<noteq> Some ''dead''
             then map_option (\<lambda>i. (c, i)) (tc_issuer c) else None) (am_currencies toml);
          found = (\<lambda>(c, i). \<lparr>fa_code = tc_code c, fa_issuer = i, fa_anchorAsset = tc_anchorAsset c\<rparr>)
      in case candidates of
           [] \<Rightarrow> Inl (toml_error (am_homeDomain toml @ '' does not list '' @ code @ '' with an issuer in its stellar.toml''))
         | first # _ \<Rightarrow>
             (case expectedIssuer of
                Some e \<Rightarrow>
                  (case find (\<lambda>(c, i). i = e) candidates of
                     None \<Rightarrow> Inl (toml_error (am_homeDomain toml @ '' lists '' @ code @ '' issued by ''
                       @ js_join '', '' (map (\<lambda>(c, i). short_key i) candidates) @ '', but this wallet only accepts ''
                       @ code @ '' from '' @ short_key e @ '' '' @ mdash @ '' refusing (possible look-alike asset)''))
                   | Some m \<Rightarrow> Inr (found m))
              | None \<Rightarrow>
                  if length (js_set_of (map snd candidates)) > 1 then
                    Inl (toml_error (am_homeDomain toml @ '' lists several issuers for '' @ code
                      @ ''; pin the one to trust with expectedIssuer''))
                  else Inr (found first)))"

end
