(* ===== verification/Anchor_Auth.thy ===== *)
theory Anchor_Auth
  imports Anchor_Discovery
begin

text \<open>
  What the client asks of an anchor before an order: the login of \<open>sep10.ts\<close>, the customer data of
  \<open>sep12.ts\<close> and the prices of \<open>sep38.ts\<close>.  The challenge reader and verifier of the SDK are external.
\<close>

section \<open>Login\<close>

abbreviation challenge_error :: "string \<Rightarrow> anchor_thrown" where
  "challenge_error m \<equiv> named_throw ''ChallengeError'' m"

definition MAX_CHALLENGE_WINDOW_SECONDS :: int where "MAX_CHALLENGE_WINDOW_SECONDS = 24 * 60 * 60"

text \<open>What the SDK reads from a challenge; a missing time bound counts as zero.\<close>

record challenge_tx =
  ct_clientAccountID :: string
  ct_memo :: "string option"
  ct_timeBounds :: "(int \<times> int) option"
  ct_operations :: "(string \<times> string option) list"

record web_auth =
  wa_readChallengeTx :: "string \<Rightarrow> string \<Rightarrow> string \<Rightarrow> string \<Rightarrow> string \<Rightarrow> string + challenge_tx"
  wa_verifySigners :: "string \<Rightarrow> string \<Rightarrow> string \<Rightarrow> string list \<Rightarrow> string \<Rightarrow> string \<Rightarrow> string + unit"

definition web_auth_host :: "'w anchor_ctx \<Rightarrow> anchor_toml \<Rightarrow> anchor_thrown + string" where
  "web_auth_host ctx toml = (case ax_url ctx (am_webAuthEndpoint toml) of None \<Rightarrow> Inl invalid_url | Some u \<Rightarrow> Inr (up_host u))"

text \<open>The time checks on a challenge.\<close>

definition check_window :: "int \<Rightarrow> (int \<times> int) option \<Rightarrow> anchor_thrown + unit" where
  "check_window nowMs tb =
     (let nowSec = nowMs div 1000;
          (minTime, maxTime) = (case tb of Some b \<Rightarrow> b | None \<Rightarrow> (0, 0));
          windowStart = (if minTime > 0 then minTime else nowSec)
      in if tb = None \<or> maxTime = 0 then Inl (challenge_error ''challenge has no expiry time'')
         else if nowSec > maxTime then Inl (challenge_error ''challenge has expired'')
         else if minTime > nowSec + 60 then Inl (challenge_error ''challenge is not valid yet'')
         else guardE (\<not> maxTime - windowStart > MAX_CHALLENGE_WINDOW_SECONDS)
                (challenge_error ''challenge stays valid for an unreasonably long time''))"

record validated_challenge =
  vc_clientAccount :: string
  vc_webAuthDomain :: string

definition validateChallenge ::
    "web_auth \<Rightarrow> 'w anchor_ctx \<Rightarrow> anchor_toml \<Rightarrow> string \<Rightarrow> string \<Rightarrow> js_value \<Rightarrow> int \<Rightarrow> anchor_thrown + validated_challenge" where
  "validateChallenge wa ctx toml challengeXdr clientAccount reportedPassphrase nowMs =
     (if reportedPassphrase \<noteq> V_Undefined \<and> reportedPassphrase \<noteq> V_Str (ax_networkPassphrase ctx) then
        Inl (challenge_error (''challenge was issued for network '' @ dq (show_value ctx reportedPassphrase)
          @ '', not '' @ dq (ax_networkPassphrase ctx)))
      else
        and_then (web_auth_host ctx toml) (\<lambda>webAuthDomain.
        and_then (catchE (wa_readChallengeTx wa challengeXdr (am_signingKey toml) (ax_networkPassphrase ctx)
            (am_homeDomain toml) webAuthDomain) (\<lambda>m. challenge_error (''challenge rejected: '' @ m))) (\<lambda>read.
        if ct_clientAccountID read \<noteq> clientAccount then
          Inl (challenge_error (''challenge is for '' @ short_key (ct_clientAccountID read) @ '', not for our account ''
            @ short_key clientAccount))
        else if ct_memo read \<noteq> None then
          Inl (challenge_error ''challenge carries a memo although we did not request one'')
        else
          and_then (check_window nowMs (ct_timeBounds read)) (\<lambda>_.
          if \<not> List.member (ct_operations read) (''manageData'', Some ''web_auth_domain'') then
            Inl (challenge_error ''challenge has no web_auth_domain operation, so we cannot tell which service issued it'')
          else Inr \<lparr>vc_clientAccount = ct_clientAccountID read, vc_webAuthDomain = webAuthDomain\<rparr>))))"

definition assertSignedChallenge ::
    "anchor_sdk \<Rightarrow> web_auth \<Rightarrow> 'w anchor_ctx \<Rightarrow> anchor_toml \<Rightarrow> string \<Rightarrow> string \<Rightarrow> string \<Rightarrow> anchor_thrown + unit" where
  "assertSignedChallenge sdk wa ctx toml signedXdr original clientAccount =
     and_then (fromXDR sdk original (ax_networkPassphrase ctx)) (\<lambda>a.
     and_then (fromXDR sdk signedXdr (ax_networkPassphrase ctx)) (\<lambda>b.
       if toHex (dt_hash a) \<noteq> toHex (dt_hash b) then
         Inl (challenge_error ''the signer returned a different transaction than the challenge we asked it to sign'')
       else
         catchE
           (and_then (catchE (web_auth_host ctx toml) anchor_message) (\<lambda>host.
              wa_verifySigners wa signedXdr (am_signingKey toml) (ax_networkPassphrase ctx) [clientAccount]
                (am_homeDomain toml) host))
           (\<lambda>m. challenge_error (''signed challenge does not verify against our key: '' @ m))))"

text \<open>\<open>Buffer.from(s, "base64")\<close>: other characters are skipped, and the first padding ends the text.\<close>

definition b64_digit :: "char \<Rightarrow> nat option" where
  "b64_digit c =
     (if is_upper c then Some (char_code c - 65)
      else if is_lower c then Some (char_code c - 71)
      else if is_digit c then Some (char_code c + 4)
      else if c = CHR ''+'' \<or> c = CHR ''-'' then Some 62
      else if c = CHR ''/'' \<or> c = CHR ''_'' then Some 63
      else None)"

fun b64_group :: "nat list \<Rightarrow> nat list" where
  "b64_group (a # b # c # d # rest) = [a * 4 + b div 16, b mod 16 * 16 + c div 4, c mod 4 * 64 + d] @ b64_group rest"
| "b64_group [a, b, c] = [a * 4 + b div 16, b mod 16 * 16 + c div 4]"
| "b64_group [a, b] = [a * 4 + b div 16]"
| "b64_group _ = []"

definition base64_bytes :: "string \<Rightarrow> nat list" where
  "base64_bytes s = b64_group (List.map_filter b64_digit (takeWhile (\<lambda>c. c \<noteq> CHR ''='') s))"

definition decodeJwt :: "'w anchor_ctx \<Rightarrow> string \<Rightarrow> anchor_thrown + js_value" where
  "decodeJwt ctx jwt =
     (case js_nth (js_split CHR ''.'' jwt) 1 of
        Some (c # part) \<Rightarrow>
          (let swapped = map (\<lambda>c. if c = CHR ''-'' then CHR ''+'' else if c = CHR ''_'' then CHR ''/'' else c) (c # part) in
           ok_or (ax_json_parse ctx (ax_utf8_decode ctx (base64_bytes swapped)))
             (challenge_error ''anchor returned a malformed token''))
      | _ \<Rightarrow> Inl (challenge_error ''anchor returned a malformed token''))"

definition requestChallenge :: "web_auth \<Rightarrow> 'w anchor_ctx \<Rightarrow> anchor_toml \<Rightarrow> string \<Rightarrow> ('w, 'z, string) act" where
  "requestChallenge wa ctx toml account =
     eff_bind (requestJson ctx (am_webAuthEndpoint toml)
         (plain_get\<lparr>ro_query := Some [(''account'', Some account), (''home_domain'', Some (am_homeDomain toml))]\<rparr>)) (\<lambda>ch.
     case js_field ch ''transaction'' of
       V_Str xdr \<Rightarrow>
         eff_bind (ctx_now ctx) (\<lambda>t.
         eff_bind (sync_step (validateChallenge wa ctx toml xdr account (js_field ch ''network_passphrase'') t)) (\<lambda>_.
         eff_bind (narrated ctx ''sep10.challenge''
             (''SEP-10: the anchor sent a login challenge for '' @ short_key account
               @ ''. It is a transaction with sequence number 0, so it cannot be run on the network.'')
             (''It is the anchor'' @ CHR 0x27 # ''s way of asking '' @ dq ''prove you own this account'' @ '' without a password.'')) (\<lambda>_.
         eff_bind (narrated ctx ''sep10.verify''
             (''SEP-10: checked the challenge before signing '' @ mdash @ '' it is signed by the key '' @ am_homeDomain toml
               @ '' publishes ('' @ short_key (am_signingKey toml) @ ''), has sequence number 0, contains only login entries for ''
               @ am_homeDomain toml @ '', and is not expired.'')
             ''This stops a login prompt from smuggling in a real payment. It confirms the challenge is well-formed and matches what the anchor's own domain publishes; it cannot prove the domain itself is trustworthy.'') (\<lambda>_.
         eff_ret xdr))))
     | _ \<Rightarrow> eff_throw (challenge_error ''anchor did not return a challenge transaction''))"

text \<open>\<open>new Date(exp * 1000)\<close>: a number that is not the time of a \<open>Date\<close> makes an invalid one.\<close>

datatype expiry = No_Expiry | Expires int | Invalid_Date

definition truncate :: "rat \<Rightarrow> int" where
  "truncate q = (if 0 \<le> q then \<lfloor>q\<rfloor> else \<lceil>q\<rceil>)"

fun expiry_of :: "js_value \<Rightarrow> expiry" where
  "expiry_of (V_Num (JNum q)) = (if \<bar>q * 1000\<bar> \<le> 8640000000000000 then Expires (truncate (q * 1000)) else Invalid_Date)"
| "expiry_of (V_Num _) = Invalid_Date"
| "expiry_of _ = No_Expiry"

definition token_text :: "js_value \<Rightarrow> anchor_thrown + string" where
  "token_text v =
     (if falsy v then Inl (challenge_error ''anchor accepted the signature but returned no token'')
      else case v of V_Str j \<Rightarrow> Inr j | _ \<Rightarrow> Inl (not_a_function ''jwt.split''))"

definition wrong_subject :: "'w anchor_ctx \<Rightarrow> js_value \<Rightarrow> anchor_thrown" where
  "wrong_subject ctx sub =
     challenge_error
       (if falsy sub then ''anchor issued a token without a subject''
        else ''anchor issued a token for ''
          @ short_key (case sanitize_text (show_value ctx sub) 20 of Some s \<Rightarrow> s | None \<Rightarrow> ''?'') @ '', not for us'')"

definition completeChallenge ::
    "anchor_sdk \<Rightarrow> web_auth \<Rightarrow> 'w anchor_ctx \<Rightarrow> anchor_toml \<Rightarrow> string \<Rightarrow> string \<Rightarrow> string \<Rightarrow> ('w, 'z, auth_token) act" where
  "completeChallenge sdk wa ctx toml account challengeXdr signedXdr =
     eff_bind (sync_step (assertSignedChallenge sdk wa ctx toml signedXdr challengeXdr account)) (\<lambda>_.
     eff_bind (narrated ctx ''sep10.sign''
         (''SEP-10: proved we own '' @ short_key account @ '' by signing the challenge '' @ mdash
           @ '' no password involved and no funds moved.'')
         ''A signature can only be made by the holder of the private key, so the anchor now knows this is really you.'') (\<lambda>_.
     eff_bind (requestJson ctx (am_webAuthEndpoint toml)
         (plain_get\<lparr>ro_method := ''POST'', ro_json := Some [(''transaction'', signedXdr)]\<rparr>)) (\<lambda>res.
     eff_bind (sync_step (read_prop res ''token'')) (\<lambda>tokenValue.
     eff_bind (sync_step (token_text tokenValue)) (\<lambda>jwt.
     eff_bind (sync_step (decodeJwt ctx jwt)) (\<lambda>claims.
     eff_bind (sync_step (read_prop claims ''sub'')) (\<lambda>sub.
     if sub \<noteq> V_Str account then eff_throw (wrong_subject ctx sub)
     else
       let expires = expiry_of (js_field claims ''exp'') in
       eff_bind (eff_of (named_throw ''RangeError'')
           (case expires of
              No_Expiry \<Rightarrow> Inr []
            | Expires t \<Rightarrow> and_then (iso_string t) (\<lambda>s. Inr ('' valid until '' @ s))
            | Invalid_Date \<Rightarrow> Inl ''Invalid time value'')) (\<lambda>until.
       eff_bind (narrated ctx ''sep10.token''
           (''SEP-10: the anchor accepted the signature and gave us a session token'' @ until @ ''.'')
           ''The token is like a short-lived visitor badge: it lets us ask for quotes, deposits and withdrawals for this account only.'') (\<lambda>_.
       eff_ret \<lparr>au_jwt = jwt, au_account = account,
                au_expiresAt = (case expires of Expires t \<Rightarrow> Some t | _ \<Rightarrow> None)\<rparr>)))))))))"

definition authenticate ::
    "anchor_sdk \<Rightarrow> web_auth \<Rightarrow> 'w anchor_ctx \<Rightarrow> anchor_toml \<Rightarrow> 'w anchor_signer \<Rightarrow> ('w, 'z, auth_token) act" where
  "authenticate sdk wa ctx toml signer =
     eff_bind (ext_call (sg_publicKey signer)) (\<lambda>account.
     eff_bind (requestChallenge wa ctx toml account) (\<lambda>challenge.
     eff_bind (ask_signature signer challenge (ax_networkPassphrase ctx)) (\<lambda>signed.
     completeChallenge sdk wa ctx toml account challenge signed)))"

definition isExpired :: "auth_token option \<Rightarrow> int \<Rightarrow> bool" where
  "isExpired token nowMs =
     (case token of
        None \<Rightarrow> True
      | Some t \<Rightarrow> (case au_expiresAt t of None \<Rightarrow> False | Some e \<Rightarrow> e - 60000 \<le> nowMs))"

section \<open>Customers\<close>

record customer_info =
  ci_id :: "string option"
  ci_status :: string
  ci_message :: "string option"
  ci_missingFields :: "string list"

text \<open>\<open>!v?.optional\<close> for the description of a field.\<close>

definition parseCustomer :: "js_value \<Rightarrow> customer_info" where
  "parseCustomer body =
     (let fs = js_field body ''fields'';
          missing = take 20 (map fst (filter (\<lambda>(k, v). falsy (js_field v ''optional'') \<and> FIELD_NAME k) (object_entries fs)))
      in \<lparr>ci_id = (case js_field body ''id'' of
              V_Str s \<Rightarrow> if all_of (\<lambda>c. is_alnum c \<or> c \<in> {CHR ''_'', CHR ''.'', CHR '':'', CHR ''-''}) 1 80 s then Some s else None
            | _ \<Rightarrow> None),
          ci_status = (case js_field body ''status'' of
              V_Str s \<Rightarrow> if all_of (\<lambda>c. is_upper c \<or> c = CHR ''_'') 1 30 s then s else ''NEEDS_INFO''
            | _ \<Rightarrow> ''NEEDS_INFO''),
          ci_message = sanitizeAnchorText (js_field body ''message'') MAX_ANCHOR_TEXT,
          ci_missingFields = missing\<rparr>)"

definition kycServer :: "anchor_toml \<Rightarrow> anchor_thrown + string" where
  "kycServer toml =
     (case am_kycServer toml of
        Some (c # s) \<Rightarrow> Inr (c # s)
      | _ \<Rightarrow> Inl (Kyc_Thrown (am_homeDomain toml @ '' publishes no KYC_SERVER'') ''NEEDS_INFO'' []))"

definition getCustomer :: "'w anchor_ctx \<Rightarrow> anchor_toml \<Rightarrow> auth_token \<Rightarrow> string option \<Rightarrow> ('w, 'z, customer_info) act" where
  "getCustomer ctx toml token transactionId =
     eff_bind (sync_step (kycServer toml)) (\<lambda>server.
     eff_bind (requestJson ctx (server @ ''/customer'')
         (plain_get\<lparr>ro_bearer := Some (au_jwt token),
                    ro_query := Some [(''account'', Some (au_account token)), (''transaction_id'', transactionId)]\<rparr>)) (\<lambda>body.
     eff_ret (parseCustomer body)))"

text \<open>\<open>name in fields\<close> also finds what every object inherits.\<close>

definition OBJECT_PROTOTYPE :: "string list" where
  "OBJECT_PROTOTYPE = [''constructor'', ''__defineGetter__'', ''__defineSetter__'', ''hasOwnProperty'', ''__lookupGetter__'',
     ''__lookupSetter__'', ''isPrototypeOf'', ''propertyIsEnumerable'', ''toString'', ''valueOf'', ''__proto__'', ''toLocaleString'']"

definition has_field :: "(string, string) js_map \<Rightarrow> string \<Rightarrow> bool" where
  "has_field customer f \<longleftrightarrow> jm_get customer f \<noteq> None \<or> List.member OBJECT_PROTOTYPE f"

text \<open>The fields sent: a value that is inherited is a function, which \<open>JSON.stringify\<close> leaves out.\<close>

definition provided_fields :: "(string, string) js_map \<Rightarrow> string list \<Rightarrow> (string \<times> string) list" where
  "provided_fields customer requested = List.map_filter (\<lambda>f. map_option (Pair f) (jm_get customer f)) requested"

definition put_customer ::
    "'w anchor_ctx \<Rightarrow> string \<Rightarrow> auth_token \<Rightarrow> (string \<times> string) list \<Rightarrow> (string \<times> string) list \<Rightarrow> ('w, 'z, js_value) act" where
  "put_customer ctx server token base provided =
     requestJson ctx (server @ ''/customer'')
       (plain_get\<lparr>ro_method := ''PUT'', ro_bearer := Some (au_jwt token),
                  ro_json := Some (foldl (\<lambda>m (k, v). jm_set m k v) ((''account'', au_account token) # base) provided)\<rparr>)"

definition needs_text :: "string list \<Rightarrow> string" where
  "needs_text missing = (if missing \<noteq> [] then ''; needs: '' @ js_join '', '' missing else [])"

definition ensureCustomer ::
    "'w anchor_ctx \<Rightarrow> anchor_toml \<Rightarrow> auth_token \<Rightarrow> (string, string) js_map \<Rightarrow> ('w, 'z, customer_info) act" where
  "ensureCustomer ctx toml token customer =
     (case am_kycServer toml of
        Some (c # server) \<Rightarrow>
          eff_bind (getCustomer ctx toml token None) (\<lambda>info0.
          eff_bind
            (if ci_status info0 = ''ACCEPTED'' then eff_ret (info0, False)
             else
               let requested = (if ci_missingFields info0 \<noteq> [] then ci_missingFields info0 else jm_keys customer);
                   unknown = filter (\<lambda>f. \<not> has_field customer f) requested in
               if unknown \<noteq> [] then
                 eff_throw (Kyc_Thrown (''anchor KYC needs customer fields this project does not supply: '' @ js_join '', '' unknown)
                   (ci_status info0) unknown)
               else
                 eff_bind (put_customer ctx (c # server) token [] (provided_fields customer requested)) (\<lambda>_.
                 eff_bind (getCustomer ctx toml token None) (\<lambda>info.
                 eff_ret (info, list_ex (has_field customer) requested)))) (\<lambda>(info, sentDemoFields).
          if ci_status info \<noteq> ''ACCEPTED'' then
            eff_throw (Kyc_Thrown (''anchor KYC status is '' @ ci_status info @ needs_text (ci_missingFields info))
              (ci_status info) (ci_missingFields info))
          else
            eff_bind (narrated ctx ''sep12.customer''
                (''SEP-12: the anchor has us on file as an approved customer''
                  @ (if sentDemoFields then '' (using clearly-fake demo data)'' else '' (it asked for no personal data)'') @ ''.'')
                ''Anchors are regulated, so they must know who they pay out to; SEP-12 is the standard place to send that information.'') (\<lambda>_.
            eff_ret info)))
      | _ \<Rightarrow>
          eff_bind (narrated ctx ''sep12.skip''
              ''SEP-12: this anchor publishes no KYC server, so there is no identity form to fill.''
              ''Some anchors only ask for identity data when a specific transfer requires it.'') (\<lambda>_.
          eff_ret \<lparr>ci_id = None, ci_status = ''ACCEPTED'', ci_message = None, ci_missingFields = []\<rparr>))"

text \<open>One round of the order's questions.\<close>

definition customer_round ::
    "'w anchor_ctx \<Rightarrow> anchor_toml \<Rightarrow> auth_token \<Rightarrow> string \<Rightarrow> (string, string) js_map \<Rightarrow> string \<Rightarrow> customer_info
       \<Rightarrow> ('w, 'z, customer_info) act" where
  "customer_round ctx toml token transactionId customer server info =
     (let requested = ci_missingFields info; unknown = filter (\<lambda>f. \<not> has_field customer f) requested in
      if unknown \<noteq> [] then
        eff_throw (Kyc_Thrown (''anchor KYC for order '' @ transactionId
          @ '' needs customer fields this project does not supply: '' @ js_join '', '' unknown) (ci_status info) unknown)
      else
        eff_bind (put_customer ctx server token [(''transaction_id'', transactionId)] (provided_fields customer requested)) (\<lambda>_.
        getCustomer ctx toml token (Some transactionId)))"

fun customer_rounds ::
    "nat \<Rightarrow> 'w anchor_ctx \<Rightarrow> anchor_toml \<Rightarrow> auth_token \<Rightarrow> string \<Rightarrow> (string, string) js_map \<Rightarrow> string \<Rightarrow> customer_info
       \<Rightarrow> ('w, 'z, customer_info) act" where
  "customer_rounds 0 ctx toml token i customer server info = eff_ret info"
| "customer_rounds (Suc n) ctx toml token i customer server info =
     (if ci_status info = ''ACCEPTED'' then eff_ret info
      else eff_bind (customer_round ctx toml token i customer server info)
             (\<lambda>info'. customer_rounds n ctx toml token i customer server info'))"

definition ensureTransactionCustomer ::
    "'w anchor_ctx \<Rightarrow> anchor_toml \<Rightarrow> auth_token \<Rightarrow> string \<Rightarrow> (string, string) js_map \<Rightarrow> ('w, 'z, customer_info) act" where
  "ensureTransactionCustomer ctx toml token transactionId customer =
     eff_bind (sync_step (kycServer toml)) (\<lambda>server.
     eff_bind (getCustomer ctx toml token (Some transactionId)) (\<lambda>info0.
     eff_bind (customer_rounds 5 ctx toml token transactionId customer server info0) (\<lambda>info.
     if ci_status info \<noteq> ''ACCEPTED'' then
       eff_throw (Kyc_Thrown (''anchor KYC for order '' @ transactionId @ '' is '' @ ci_status info
         @ needs_text (ci_missingFields info)) (ci_status info) (ci_missingFields info))
     else if ci_status info0 = ''ACCEPTED'' then eff_ret info
     else
       eff_bind (narrated ctx ''sep12.transaction''
           (''SEP-12: supplied the per-order customer details the anchor asked for on order '' @ transactionId
             @ '' (clearly-fake test data only).'')
           ''A single transfer can need extra identity data beyond the account-level KYC; SEP-12 is where that per-order information is submitted.'') (\<lambda>_.
       eff_ret info))))"

section \<open>Prices\<close>

abbreviation quote_error :: "string \<Rightarrow> anchor_thrown" where
  "quote_error m \<equiv> named_throw ''QuoteError'' m"

definition QUOTE_AMOUNT :: "string \<Rightarrow> bool" where
  "QUOTE_AMOUNT s = decimal_text 20 10 s"

text \<open>\<open>^(iso4217:[A-Z0-9]{2,12}|stellar:[A-Za-z0-9]{1,12}:X[A-Z2-7]{55}|stellar:native)$\<close>, with the first
  letter of the issuer in a set.\<close>

definition asset_id_re :: "char set \<Rightarrow> string \<Rightarrow> bool" where
  "asset_id_re leading s \<longleftrightarrow>
     (case js_split CHR '':'' s of
        [a, b] \<Rightarrow> a = ''iso4217'' \<and> FIAT_CODE b \<or> a = ''stellar'' \<and> b = ''native''
      | [a, b, c] \<Rightarrow> a = ''stellar'' \<and> ASSET_CODE b \<and> length c = 56 \<and> hd c \<in> leading \<and> list_all is_base32 (tl c)
      | _ \<Rightarrow> False)"

definition quoteAmount :: "js_value \<Rightarrow> string \<Rightarrow> anchor_thrown + string" where
  "quoteAmount v what =
     (case v of
        V_Str s \<Rightarrow> if QUOTE_AMOUNT s then Inr s else Inl (quote_error (''anchor returned an unusable '' @ what))
      | _ \<Rightarrow> Inl (quote_error (''anchor returned an unusable '' @ what)))"

definition quoteAssetId :: "js_value \<Rightarrow> string \<Rightarrow> anchor_thrown + string option" where
  "quoteAssetId v what =
     (case v of
        V_Str s \<Rightarrow> if asset_id_re {CHR ''G'', CHR ''C''} s then Inr (Some s)
                   else Inl (quote_error (''anchor returned an unusable '' @ what))
      | _ \<Rightarrow> Inr None)"

record anchor_quote =
  aq_sellAsset :: string
  aq_buyAsset :: string
  aq_sellAmount :: string
  aq_buyAmount :: string
  aq_totalPrice :: string
  aq_price :: string
  aq_feeTotal :: "string option"
  aq_feeAsset :: "string option"

record price_request =
  pq_sellAsset :: string
  pq_buyAsset :: string
  pq_sellAmount :: "string option"
  pq_buyAmount :: "string option"
  pq_deliveryMethod :: "string option"

definition displayAsset :: "string \<Rightarrow> string" where
  "displayAsset i = (case js_nth (js_split CHR '':'' i) 1 of Some p \<Rightarrow> p | None \<Rightarrow> i)"

fun finite_number :: "js_number \<Rightarrow> bool" where
  "finite_number (JNum q) = True"
| "finite_number _ = False"

fun at_least_one :: "js_number \<Rightarrow> bool" where
  "at_least_one (JNum q) = (q \<ge> 1)"
| "at_least_one JNaN = False"
| "at_least_one (JInf b) = b"

definition unitRate :: "'w anchor_ctx \<Rightarrow> anchor_quote \<Rightarrow> string" where
  "unitRate ctx q =
     (let r = ax_quotient ctx (aq_buyAmount q) (aq_sellAmount q) in
      if \<not> finite_number r then ''?''
      else if at_least_one r then ax_toFixed2 ctx r else ax_toPrecision3 ctx r)"

definition price_query :: "price_request \<Rightarrow> (string \<times> string option) list" where
  "price_query q =
     [(''sell_asset'', Some (pq_sellAsset q)), (''buy_asset'', Some (pq_buyAsset q)), (''context'', Some ''sep6''),
      (''sell_amount'', pq_sellAmount q), (''buy_amount'', pq_buyAmount q)]
     @ (case pq_deliveryMethod q of
          Some (c # m) \<Rightarrow>
            [(if starts_with ''iso4217:'' (pq_sellAsset q) then ''sell_delivery_method'' else ''buy_delivery_method'', Some (c # m))]
        | _ \<Rightarrow> [])"

definition parse_quote :: "price_request \<Rightarrow> js_value \<Rightarrow> anchor_thrown + anchor_quote" where
  "parse_quote q res =
     and_then (read_prop res ''sell_amount'') (\<lambda>sell.
       let buy = js_field res ''buy_amount''; total = js_field res ''total_price''; price = js_field res ''price'';
           fee = js_field res ''fee'' in
       if sell = V_Undefined \<or> buy = V_Undefined \<or> total = V_Undefined \<or> price = V_Undefined then
         Inl (quote_error ''anchor returned an incomplete price'')
       else
         and_then (quoteAmount sell ''sell_amount'') (\<lambda>sellAmount.
         and_then (quoteAmount buy ''buy_amount'') (\<lambda>buyAmount.
         and_then (quoteAmount total ''total_price'') (\<lambda>totalPrice.
         and_then (quoteAmount price ''price'') (\<lambda>unitPrice.
         and_then (if js_field fee ''total'' = V_Undefined then Inr None
                   else and_then (quoteAmount (js_field fee ''total'') ''fee.total'') (\<lambda>t. Inr (Some t))) (\<lambda>feeTotal.
         and_then (if js_field fee ''asset'' = V_Undefined then Inr None
                   else quoteAssetId (js_field fee ''asset'') ''fee.asset'') (\<lambda>feeAsset.
           Inr \<lparr>aq_sellAsset = pq_sellAsset q, aq_buyAsset = pq_buyAsset q, aq_sellAmount = sellAmount,
                aq_buyAmount = buyAmount, aq_totalPrice = totalPrice, aq_price = unitPrice, aq_feeTotal = feeTotal,
                aq_feeAsset = feeAsset\<rparr>)))))))"

definition getPrice ::
    "'w anchor_ctx \<Rightarrow> anchor_toml \<Rightarrow> price_request \<Rightarrow> string \<Rightarrow> ('w, 'z, anchor_quote) act" where
  "getPrice ctx toml q label =
     (case am_quoteServer toml of
        Some (c # server) \<Rightarrow>
          if (pq_sellAmount q = None) = (pq_buyAmount q = None) then
            eff_throw (quote_error ''give exactly one of sellAmount or buyAmount'')
          else
            eff_bind (requestJson ctx ((c # server) @ ''/price'') (plain_get\<lparr>ro_query := Some (price_query q)\<rparr>)) (\<lambda>res.
            eff_bind (sync_step (parse_quote q res)) (\<lambda>quote.
            let said = (\<lambda>v. case sanitize_text v 64 of Some s \<Rightarrow> s | None \<Rightarrow> ''?'');
                labelText = (case sanitize_text label 160 of Some s \<Rightarrow> s | None \<Rightarrow> ''quote'');
                sell = displayAsset (aq_sellAsset quote);
                buy = displayAsset (aq_buyAsset quote);
                fee = (case aq_feeTotal quote of
                    Some t \<Rightarrow> '' The anchor'' @ CHR 0x27 # ''s fee is '' @ said t @ '' ''
                      @ displayAsset (case aq_feeAsset quote of Some a \<Rightarrow> a | None \<Rightarrow> aq_sellAsset quote) @ ''.''
                  | None \<Rightarrow> []) in
            eff_bind (narrated ctx ''sep38.price''
                (''SEP-38: '' @ labelText @ '' '' @ said (aq_sellAmount quote) @ '' '' @ sell @ '' would become about ''
                  @ said (aq_buyAmount quote) @ '' '' @ buy @ '' (roughly 1 '' @ sell @ '' = '' @ unitRate ctx quote @ '' '' @ buy
                  @ '', fees included).'' @ fee)
                ''A quote lets you see what you would get before you commit; the final amount is confirmed when the anchor processes the transfer.'') (\<lambda>_.
            eff_ret quote)))
      | _ \<Rightarrow> eff_throw (quote_error (am_homeDomain toml @ '' publishes no ANCHOR_QUOTE_SERVER (SEP-38)'')))"

end
