(* ===== verification/Anchor_Orders.thy ===== *)
theory Anchor_Orders
  imports Anchor_Auth
begin

text \<open>
  \<open>sep6.ts\<close>: what an anchor offers, starting a deposit or a withdrawal, the memo of the payment, the
  record of an order and its status, and the loop that follows an order to its end.
\<close>

section \<open>Info\<close>

record asset_info =
  ai_enabled :: bool
  ai_minAmount :: "js_number option"
  ai_maxAmount :: "js_number option"
  ai_feePercent :: "js_number option"
  ai_feeFixed :: "js_number option"

record sep6_info =
  si_deposit :: "(string, asset_info) js_map"
  si_withdraw :: "(string, asset_info) js_map"

fun number_value :: "js_value \<Rightarrow> js_number option" where
  "number_value (V_Num n) = Some n"
| "number_value _ = None"

definition parseAssetInfoMap :: "js_value \<Rightarrow> (string, asset_info) js_map" where
  "parseAssetInfoMap v =
     (if \<not> is_object v then []
      else foldl (\<lambda>out (code, info).
             if \<not> ASSET_CODE code \<or> \<not> is_object info then out
             else jm_set out code
               \<lparr>ai_enabled = (js_field info ''enabled'' = V_Bool True),
                ai_minAmount = number_value (js_field info ''min_amount''),
                ai_maxAmount = number_value (js_field info ''max_amount''),
                ai_feePercent = number_value (js_field info ''fee_percent''),
                ai_feeFixed = number_value (js_field info ''fee_fixed'')\<rparr>) [] (object_entries v))"

definition enabled_in :: "(string, asset_info) js_map \<Rightarrow> string \<Rightarrow> bool" where
  "enabled_in m code = (case jm_get m code of Some i \<Rightarrow> ai_enabled i | None \<Rightarrow> False)"

definition offers_text :: "sep6_info \<Rightarrow> string \<Rightarrow> string" where
  "offers_text info code =
     (let both = js_join '' and '' ((if enabled_in (si_deposit info) code then [''deposits''] else [])
            @ (if enabled_in (si_withdraw info) code then [''withdrawals''] else []))
      in if both = [] then ''nothing'' else both)"

definition getInfo :: "'w anchor_ctx \<Rightarrow> anchor_toml \<Rightarrow> string \<Rightarrow> ('w, 'z, sep6_info) act" where
  "getInfo ctx toml assetCode =
     eff_bind (requestJson ctx (am_transferServer toml @ ''/info'') plain_get) (\<lambda>raw.
     eff_bind (sync_step (read_prop raw ''deposit'')) (\<lambda>dep.
     let info = \<lparr>si_deposit = parseAssetInfoMap dep, si_withdraw = parseAssetInfoMap (js_field raw ''withdraw'')\<rparr> in
     eff_bind (narrated ctx ''sep6.info''
         (''SEP-6: asked the anchor what it supports for '' @ assetCode @ '': '' @ offers_text info assetCode @ ''.'')
         ''Anchors differ in which assets and directions they offer, so we check before promising anything.'') (\<lambda>_.
     eff_ret info)))"

section \<open>Starting an order\<close>

definition toKycError :: "http_error \<Rightarrow> anchor_thrown option" where
  "toKycError e =
     (case errorType e of
        None \<Rightarrow> None
      | Some t \<Rightarrow>
          if he_status e \<noteq> 403 then None
          else if t = ''non_interactive_customer_info_needed'' then
            (let fs = cleanFieldNames (js_field (he_body e) ''fields'') in
             Some (Kyc_Thrown (''the anchor needs more customer information: '' @ js_join '', '' fs) ''NEEDS_INFO'' fs))
          else if t = ''customer_info_status'' then
            (let st = (case sanitizeAnchorText (js_field (he_body e) ''status'') 30 of Some s \<Rightarrow> s | None \<Rightarrow> ''PROCESSING'') in
             Some (Kyc_Thrown (''the anchor is still reviewing our customer information ('' @ st @ '')'') st []))
          else None)"

text \<open>A request for an order: some of its failures ask for customer data.\<close>

definition order_request ::
    "'w anchor_ctx \<Rightarrow> anchor_toml \<Rightarrow> auth_token \<Rightarrow> string \<Rightarrow> (string \<times> string option) list \<Rightarrow> (string \<Rightarrow> string)
       \<Rightarrow> ('w, 'z, js_value) act" where
  "order_request ctx toml token path query preParse =
     eff_try
       (requestJson ctx (am_transferServer toml @ path)
          (plain_get\<lparr>ro_bearer := Some (au_jwt token), ro_query := Some query, ro_preParse := preParse\<rparr>))
       (\<lambda>e. case e of
              Http_Thrown h \<Rightarrow> (case toKycError h of Some k \<Rightarrow> eff_throw k | None \<Rightarrow> eff_throw e)
            | _ \<Rightarrow> eff_throw e)
       eff_ret"

definition finite_value :: "js_value \<Rightarrow> js_number option" where
  "finite_value v = (case v of V_Num n \<Rightarrow> if finite_number n then Some n else None | _ \<Rightarrow> None)"

record deposit_instructions =
  di_order :: string
  di_how :: "string option"
  di_instructions :: "(string, string \<times> string option) js_map option"
  di_minAmount :: "js_number option"
  di_maxAmount :: "js_number option"
  di_feePercent :: "js_number option"
  di_eta :: "js_number option"

text \<open>Setting the key \<open>__proto__\<close> changes no own field of the result.\<close>

definition cleanInstructions :: "js_value \<Rightarrow> (string, string \<times> string option) js_map option" where
  "cleanInstructions v =
     (if \<not> is_object v then None
      else
        let out = foldl (\<lambda>m (k, item).
              if \<not> FIELD_NAME k \<or> \<not> is_object item then m
              else case sanitizeAnchorText (js_field item ''value'') 120 of
                None \<Rightarrow> m
              | Some shown \<Rightarrow> if k = ''__proto__'' then m
                  else jm_set m k (shown, sanitizeAnchorText (js_field item ''description'') 150))
              [] (take 20 (object_entries v))
        in if out = [] then None else Some out)"

record deposit_params =
  dp_assetCode :: string
  dp_account :: string
  dp_amount :: string
  dp_type :: "string option"
  dp_memo :: "string option"
  dp_fiatCode :: "string option"

definition delivery_type :: "string option \<Rightarrow> string" where
  "delivery_type t = (case t of Some s \<Rightarrow> s | None \<Rightarrow> ''bank_account'')"

definition startDeposit ::
    "'w anchor_ctx \<Rightarrow> anchor_toml \<Rightarrow> auth_token \<Rightarrow> deposit_params \<Rightarrow> ('w, 'z, deposit_instructions) act" where
  "startDeposit ctx toml token p =
     (let type = delivery_type (dp_type p) in
      eff_bind (order_request ctx toml token ''/deposit''
          [(''asset_code'', Some (dp_assetCode p)), (''account'', Some (dp_account p)), (''amount'', Some (dp_amount p)),
           (''type'', Some type), (''funding_method'', Some type), (''memo'', dp_memo p)] (\<lambda>t. t)) (\<lambda>raw.
      eff_bind (sync_step (read_prop raw ''id'')) (\<lambda>i.
      eff_bind (pure_step (safeId i ''deposit order id'')) (\<lambda>order.
      let out = \<lparr>di_order = order, di_how = sanitizeAnchorText (js_field raw ''how'') 300,
                 di_instructions = cleanInstructions (js_field raw ''instructions''),
                 di_minAmount = finite_value (js_field raw ''min_amount''), di_maxAmount = finite_value (js_field raw ''max_amount''),
                 di_feePercent = finite_value (js_field raw ''fee_percent''), di_eta = finite_value (js_field raw ''eta'')\<rparr>;
          said = (case di_how out of
              Some h \<Rightarrow> Some h
            | None \<Rightarrow> map_option (\<lambda>m. js_join ''; '' (map (\<lambda>(k, v, d). k @ '': '' @ v) m)) (di_instructions out)) in
      eff_bind (record_step ctx ''sep6.deposit''
          (''SEP-6: asked the anchor to turn '' @ dp_amount p @ '' ''
            @ (case dp_fiatCode p of Some f \<Rightarrow> f | None \<Rightarrow> ''of your local currency'') @ '' into '' @ dp_assetCode p @ '' on ''
            @ short_key (dp_account p) @ ''. It created order '' @ order
            @ (if said \<noteq> None then '' and gave payment instructions for the bank transfer (shown as the anchor'' @ CHR 0x27 # ''s own words).''
               else '' but sent no payment instructions.''))
          ''The order is the anchor's promise: once its bank receives your transfer, it pays the tokens straight to your Stellar account.''
          said None) (\<lambda>_.
      eff_ret out)))))"

section \<open>Memos\<close>

text \<open>\<open>text.replace(/(?<!\\)("memo"\s*:\s*)(-?\d+)(?=\s*[,}\]])/g, '$1"$2"')\<close>: the match at a
  position is the key with its colon and the number; what follows must close the value.\<close>

definition numeric_memo_at :: "string \<Rightarrow> (string \<times> string \<times> string) option" where
  "numeric_memo_at s =
     (if \<not> starts_with (dq ''memo'') s then None
      else
        let s1 = drop 6 s; sp1 = takeWhile is_space s1; s2 = dropWhile is_space s1 in
        case s2 of
          [] \<Rightarrow> None
        | c # s3 \<Rightarrow>
            if c \<noteq> CHR '':'' then None
            else
              let sp2 = takeWhile is_space s3; s4 = dropWhile is_space s3;
                  (minus, s5) = (case s4 of d # t \<Rightarrow> if d = CHR ''-'' then ([d], t) else ([], s4) | [] \<Rightarrow> ([], []));
                  digits = takeWhile is_digit s5; s6 = dropWhile is_digit s5 in
              if digits = [] then None
              else case dropWhile is_space s6 of
                d # t \<Rightarrow> if d = CHR '','' \<or> d = CHR 0x7D \<or> d = CHR '']'' then
                           Some (dq ''memo'' @ sp1 @ [c] @ sp2, minus @ digits, s6) else None
              | [] \<Rightarrow> None)"

lemma numeric_memo_shorter:
  assumes "numeric_memo_at s = Some (key, n, rest)"
  shows "length rest < length s"
proof -
  have p: "starts_with (dq ''memo'') s" using assms by (auto simp: numeric_memo_at_def split: if_split_asm)
  then have "s \<noteq> []" by (cases s) (simp_all add: dq_def)
  then have d: "length (drop 6 s) < length s" by simp
  obtain c s3 where s2: "dropWhile is_space (drop 6 s) = c # s3"
    using assms p by (auto simp: numeric_memo_at_def Let_def split: list.splits if_split_asm)
  let ?s4 = "dropWhile is_space s3"
  let ?s5 = "case ?s4 of d # t \<Rightarrow> if d = CHR ''-'' then t else ?s4 | [] \<Rightarrow> []"
  have "rest = dropWhile is_digit ?s5"
    using assms p s2
    by (cases ?s4) (auto simp: numeric_memo_at_def Let_def simp del: dropWhile_eq_Nil_conv split: list.split_asm if_split_asm)
  then have "length rest \<le> length ?s5" by (simp add: length_dropWhile_le)
  also have "length ?s5 \<le> length ?s4" by (simp split: list.splits)
  also have "length ?s4 \<le> length s3" by (rule length_dropWhile_le)
  also have "length s3 \<le> length (drop 6 s)" using length_dropWhile_le [of is_space "drop 6 s"] s2 by simp
  finally show ?thesis using d by simp
qed

function quote_memo_from :: "char option \<Rightarrow> string \<Rightarrow> string" where
  "quote_memo_from prev [] = []"
| "quote_memo_from prev (c # s) =
     (case (if prev = Some (CHR 0x5C) then None else numeric_memo_at (c # s)) of
        Some (key, n, rest) \<Rightarrow> key @ dq n @ quote_memo_from (Some (last n)) rest
      | None \<Rightarrow> c # quote_memo_from (Some c) s)"
  by pat_completeness auto
termination
  by (relation "measure (\<lambda>(prev, s). length s)") (auto split: if_split_asm dest: numeric_memo_shorter)

definition quoteNumericMemo :: "string \<Rightarrow> string" where
  "quoteNumericMemo text = quote_memo_from None text"

definition MAX_SAFE_ID_MEMO :: nat where "MAX_SAFE_ID_MEMO = 18446744073709551615"

text \<open>The length of a text in UTF-8.\<close>

definition utf8_bytes :: "char \<Rightarrow> nat" where
  "utf8_bytes c =
     (let n = char_code c in
      if n < 128 then 1
      else if n \<in> {128, 130, 132, 133, 134, 135, 137, 139, 145, 146, 147, 148, 149, 150, 151, 153, 155} then 3
      else 2)"

definition utf8_length :: "string \<Rightarrow> nat" where
  "utf8_length s = sum_list (map utf8_bytes s)"

definition memo_missing :: "js_value \<Rightarrow> bool" where
  "memo_missing v \<longleftrightarrow> v = V_Undefined \<or> v = V_Null \<or> v = V_Str []"

definition memo_value_text :: "js_value \<Rightarrow> string + string" where
  "memo_value_text memo =
     (case memo of
        V_Num n \<Rightarrow> if is_safe_integer n then Inr (show_int (jfloor n))
                   else Inl ''the anchor sent an id memo that is too large to be represented safely''
      | V_Str s \<Rightarrow> Inr s
      | _ \<Rightarrow> Inl ''the anchor sent a memo of an unexpected type'')"

text \<open>\<open>^[A-Za-z0-9+/]{43}=$\<close>.\<close>

definition base64_32 :: "string \<Rightarrow> bool" where
  "base64_32 s \<longleftrightarrow> length s = 44 \<and> last s = CHR ''=''
     \<and> list_all (\<lambda>c. is_alnum c \<or> c = CHR ''+'' \<or> c = CHR ''/'') (butlast s)"

definition typed_memo :: "memo_kind \<Rightarrow> string \<Rightarrow> string + withdraw_memo" where
  "typed_memo kind v =
     (case kind of
        Memo_Text \<Rightarrow>
          if utf8_length v > 28 then Inl ''the anchor's text memo is longer than 28 bytes''
          else Inr \<lparr>wm_kind = Memo_Text, wm_value = v\<rparr>
      | Memo_Id \<Rightarrow>
          if \<not> all_of is_digit 1 20 v \<or> nat_of_dec v > MAX_SAFE_ID_MEMO then
            Inl ''the anchor's id memo is not a valid 64-bit number''
          else Inr \<lparr>wm_kind = Memo_Id, wm_value = dec_digits (nat_of_dec v)\<rparr>
      | Memo_Hash \<Rightarrow>
          if all_of is_hex 64 64 v then Inr \<lparr>wm_kind = Memo_Hash, wm_value = js_lower v\<rparr>
          else if base64_32 v \<and> length (base64_bytes v) = 32 then
            Inr \<lparr>wm_kind = Memo_Hash, wm_value = toHex (base64_bytes v)\<rparr>
          else Inl ''the anchor's hash memo is not a 32-byte base64 or hex value'')"

definition memo_kind_of :: "js_value \<Rightarrow> memo_kind option" where
  "memo_kind_of v =
     (if v = V_Str ''text'' then Some Memo_Text else if v = V_Str ''id'' then Some Memo_Id
      else if v = V_Str ''hash'' then Some Memo_Hash else None)"

definition parseWithdrawMemo :: "js_value \<Rightarrow> js_value \<Rightarrow> string + withdraw_memo option" where
  "parseWithdrawMemo memo memoType =
     (if memo_missing memo \<and> memo_missing memoType then Inr None
      else if memo_missing memo then Inl ''the anchor named a memo type but sent no memo''
      else case memo_kind_of memoType of
        None \<Rightarrow> Inl ''the anchor sent a memo with an unsupported memo type''
      | Some kind \<Rightarrow> and_then (memo_value_text memo) (\<lambda>v. and_then (typed_memo kind v) (\<lambda>m. Inr (Some m))))"

section \<open>Starting a withdrawal\<close>

record withdraw_instructions =
  wi_id :: string
  wi_accountId :: "string option"
  wi_memo :: "withdraw_memo option"
  wi_minAmount :: "js_number option"
  wi_maxAmount :: "js_number option"
  wi_feePercent :: "js_number option"
  wi_eta :: "js_number option"

record withdraw_params =
  wp_assetCode :: string
  wp_account :: string
  wp_amount :: string
  wp_type :: "string option"
  wp_dest :: "string option"

text \<open>The account the anchor names, if it names one: a plain account that is not ours.\<close>

definition payout_account :: "anchor_sdk \<Rightarrow> string \<Rightarrow> js_value \<Rightarrow> string + string option" where
  "payout_account sdk own v =
     (if memo_missing v then Inr None
      else case v of
        V_Str a \<Rightarrow>
          if \<not> ak_is_account sdk a then
            Inl ''the anchor did not give a valid plain Stellar account (G...) to pay for the withdrawal''
          else if a = own then Inl ''the anchor asked us to pay our own account''
          else Inr (Some a)
      | _ \<Rightarrow> Inl ''the anchor did not give a valid plain Stellar account (G...) to pay for the withdrawal'')"

fun memo_kind_name :: "memo_kind \<Rightarrow> string" where
  "memo_kind_name Memo_Text = ''text''"
| "memo_kind_name Memo_Id = ''id''"
| "memo_kind_name Memo_Hash = ''hash''"

definition memo_phrase :: "withdraw_memo option \<Rightarrow> string" where
  "memo_phrase m =
     (case m of
        None \<Rightarrow> '', with no memo''
      | Some w \<Rightarrow> '' with '' @ memo_kind_name (wm_kind w) @ '' memo ''
          @ (if wm_kind w = Memo_Hash then short_key (wm_value w)
             else case sanitize_text (wm_value w) 28 of Some t \<Rightarrow> t | None \<Rightarrow> ''?''))"

definition parse_withdraw :: "anchor_sdk \<Rightarrow> string \<Rightarrow> js_value \<Rightarrow> string + withdraw_instructions" where
  "parse_withdraw sdk own raw =
     and_then (safeId (js_field raw ''id'') ''withdrawal order id'') (\<lambda>order.
     and_then (payout_account sdk own (js_field raw ''account_id'')) (\<lambda>account.
     and_then (if account = None then Inr None
               else parseWithdrawMemo (js_field raw ''memo'') (js_field raw ''memo_type'')) (\<lambda>memo.
       Inr \<lparr>wi_id = order, wi_accountId = account, wi_memo = memo,
            wi_minAmount = finite_value (js_field raw ''min_amount''), wi_maxAmount = finite_value (js_field raw ''max_amount''),
            wi_feePercent = finite_value (js_field raw ''fee_percent''), wi_eta = finite_value (js_field raw ''eta'')\<rparr>)))"

definition startWithdraw ::
    "anchor_sdk \<Rightarrow> 'w anchor_ctx \<Rightarrow> anchor_toml \<Rightarrow> auth_token \<Rightarrow> withdraw_params \<Rightarrow> ('w, 'z, withdraw_instructions) act" where
  "startWithdraw sdk ctx toml token p =
     (let type = delivery_type (wp_type p) in
      eff_bind (order_request ctx toml token ''/withdraw''
          [(''asset_code'', Some (wp_assetCode p)), (''account'', Some (wp_account p)), (''amount'', Some (wp_amount p)),
           (''type'', Some type), (''funding_method'', Some type), (''dest'', wp_dest p)] quoteNumericMemo) (\<lambda>raw.
      eff_bind (sync_step (read_prop raw ''id'')) (\<lambda>_.
      eff_bind (pure_step (parse_withdraw sdk (wp_account p) raw)) (\<lambda>out.
      eff_bind (narrated ctx ''sep6.withdraw''
          (''SEP-6: asked the anchor to cash out '' @ wp_amount p @ '' '' @ wp_assetCode p @ ''. It created order '' @ wi_id out
            @ (case wi_accountId out of
                 Some a \<Rightarrow> '' and told us to pay '' @ short_key a @ memo_phrase (wi_memo out)
               | None \<Rightarrow> ''; it will give us the payout account once the order'' @ CHR 0x27 # ''s KYC is complete'')
            @ ''.'')
          ''The memo is a reference number: it is how the anchor matches our on-chain payment to this order, so it must be included exactly.'') (\<lambda>_.
      eff_ret out)))))"

definition buildWithdrawPayment ::
    "anchor_sdk \<Rightarrow> string \<Rightarrow> js_value \<Rightarrow> string \<Rightarrow> anchor_asset \<Rightarrow> string \<Rightarrow> string \<Rightarrow> withdraw_memo option \<Rightarrow> anchor_thrown + string" where
  "buildWithdrawPayment sdk sourceAccount seq passphrase a amount destination memo =
     (if \<not> ak_is_account sdk destination then Inl (plain_throw ''withdrawal destination must be a plain G... account'')
      else lift_js (ak_build sdk
        \<lparr>to_source = sourceAccount, to_sequence = seq, to_fee = ak_BASE_FEE sdk, to_networkPassphrase = passphrase,
         to_op = Pay_Asset destination a amount, to_memo = memo, to_timeout = 300\<rparr>))"

section \<open>Records of orders\<close>

definition DECIMAL :: "string \<Rightarrow> bool" where "DECIMAL s = decimal_text 20 10 s"

definition ASSET_ID :: "string \<Rightarrow> bool" where "ASSET_ID s = asset_id_re {CHR ''G''} s"

definition str_field :: "js_value \<Rightarrow> string \<Rightarrow> string option" where
  "str_field raw k = string_value (js_field raw k)"

definition str_matching :: "js_value \<Rightarrow> string \<Rightarrow> (string \<Rightarrow> bool) \<Rightarrow> string option" where
  "str_matching raw k p = (case str_field raw k of Some s \<Rightarrow> if s \<noteq> [] \<and> p s then Some s else None | None \<Rightarrow> None)"

definition parseTransaction :: "anchor_sdk \<Rightarrow> url_parser \<Rightarrow> js_value \<Rightarrow> string + anchor_tx" where
  "parseTransaction sdk url raw =
     and_then (safeId (js_field raw ''id'') ''order id'') (\<lambda>i.
       let kind = take 30 (filter (\<lambda>c. is_lower c \<or> c = CHR ''_'' \<or> c = CHR ''-'')
             (case str_field raw ''kind'' of Some s \<Rightarrow> s | None \<Rightarrow> []));
           status = take 60 (filter (\<lambda>c. is_lower c \<or> c = CHR ''_'')
             (case str_field raw ''status'' of Some s \<Rightarrow> s | None \<Rightarrow> ''error''));
           req = cleanFieldNames (js_field raw ''required_info_updates'') in
       Inr
         \<lparr>at_id = i, at_kind = kind, at_status = (if status = [] then ''error'' else status),
          at_message = sanitizeAnchorText (js_field raw ''message'') MAX_ANCHOR_TEXT,
          at_moreInfoUrl = safeHttpsUrl url (js_field raw ''more_info_url'') 300,
          at_requiredInfoUpdates = (if req = [] then None else Some req),
          at_requiredInfoMessage = sanitizeAnchorText (js_field raw ''required_info_message'') MAX_ANCHOR_TEXT,
          at_amountIn = str_matching raw ''amount_in'' DECIMAL,
          at_amountInAsset = str_matching raw ''amount_in_asset'' ASSET_ID,
          at_amountOut = str_matching raw ''amount_out'' DECIMAL,
          at_amountOutAsset = str_matching raw ''amount_out_asset'' ASSET_ID,
          at_amountFee = str_matching raw ''amount_fee'' DECIMAL,
          at_amountFeeAsset = str_matching raw ''amount_fee_asset'' ASSET_ID,
          at_stellarTransactionId = map_option js_lower (str_matching raw ''stellar_transaction_id'' (all_of is_hex 64 64)),
          at_externalTransactionId = str_matching raw ''external_transaction_id''
            (all_of (\<lambda>c. is_alnum c \<or> c \<in> {CHR ''_'', CHR ''.'', CHR '':'', CHR ''-''}) 1 80),
          at_withdrawAnchorAccount = str_matching raw ''withdraw_anchor_account'' (ak_is_account sdk),
          at_withdrawMemo = (case str_field raw ''withdraw_memo'' of Some m \<Rightarrow> sanitize_text m 64 | None \<Rightarrow> None),
          at_withdrawMemoType = (case str_field raw ''withdraw_memo_type'' of
              Some t \<Rightarrow> if List.member [''text'', ''id'', ''hash''] t then Some t else None
            | None \<Rightarrow> None),
          at_startedAt = sanitizeAnchorText (js_field raw ''started_at'') 40,
          at_completedAt = (if js_field raw ''completed_at'' = V_Null then Some None
            else map_option Some (sanitizeAnchorText (js_field raw ''completed_at'') 40))\<rparr>)"

definition getTransaction ::
    "anchor_sdk \<Rightarrow> 'w anchor_ctx \<Rightarrow> anchor_toml \<Rightarrow> auth_token \<Rightarrow> string \<Rightarrow> ('w, 'z, anchor_tx) act" where
  "getTransaction sdk ctx toml token i =
     eff_bind (requestJson ctx (am_transferServer toml @ ''/transaction'')
         (plain_get\<lparr>ro_bearer := Some (au_jwt token), ro_query := Some [(''id'', Some i)]\<rparr>)) (\<lambda>res.
     eff_bind (sync_step (read_prop res ''transaction'')) (\<lambda>t.
     if falsy t then eff_throw (plain_throw (''anchor has no transaction '' @ i))
     else pure_step (parseTransaction sdk (ax_url ctx) t)))"

definition listed_records :: "js_value \<Rightarrow> anchor_thrown + js_value list" where
  "listed_records v =
     (case v of
        V_Arr vs \<Rightarrow> Inr (take 100 vs)
      | V_Str s \<Rightarrow> Inr (map (\<lambda>c. V_Str [c]) (take 100 s))
      | _ \<Rightarrow> if nullish v then Inr [] else Inl (not_a_function ''transactions.slice''))"

definition listTransactions ::
    "anchor_sdk \<Rightarrow> 'w anchor_ctx \<Rightarrow> anchor_toml \<Rightarrow> auth_token \<Rightarrow> string \<Rightarrow> ('w, 'z, anchor_tx list) act" where
  "listTransactions sdk ctx toml token assetCode =
     eff_bind (requestJson ctx (am_transferServer toml @ ''/transactions'')
         (plain_get\<lparr>ro_bearer := Some (au_jwt token),
                    ro_query := Some [(''asset_code'', Some assetCode), (''account'', Some (au_account token))]\<rparr>)) (\<lambda>res.
     eff_bind (sync_step (and_then (read_prop res ''transactions'') listed_records)) (\<lambda>ts.
     eff_ret (List.map_filter (\<lambda>t. result_option (parseTransaction sdk (ax_url ctx) t)) ts)))"

end
