(* ===== verification/Anchor_Poll.thy ===== *)
theory Anchor_Poll
  imports Anchor_Orders
begin

text \<open>
  The status machine of an order in \<open>sep6.ts\<close>: its classes and sentences, the links that may be shown,
  and \<open>pollTransaction\<close>, which follows an order until it ends, needs the user, or takes too long.  One
  turn of its loop is \<open>poll_turn\<close>; the hooks of the caller are actions in the same world.
\<close>

section \<open>Status\<close>

definition FINAL_STATUSES :: "string list" where
  "FINAL_STATUSES = [''completed'', ''refunded'', ''expired'', ''no_market'', ''too_small'', ''too_large'', ''error'']"

datatype status_class =
  In_Progress | Needs_Trustline | Needs_User | Needs_Info | Waiting_User_Transfer | Success | Failed

definition classifyStatus :: "string \<Rightarrow> status_class" where
  "classifyStatus st =
     (if st = ''completed'' then Success
      else if st = ''refunded'' \<or> st = ''expired'' \<or> st = ''no_market'' \<or> st = ''too_small'' \<or> st = ''too_large'' \<or> st = ''error''
        then Failed
      else if st = ''pending_trust'' then Needs_Trustline
      else if st = ''pending_customer_info_update'' \<or> st = ''pending_transaction_info_update'' then Needs_Info
      else if st = ''pending_user'' then Needs_User
      else if st = ''incomplete'' then In_Progress
      else if st = ''pending_user_transfer_start'' then Waiting_User_Transfer
      else In_Progress)"

definition explainStatus :: "string \<Rightarrow> string \<Rightarrow> string \<times> string" where
  "explainStatus kind st =
     (if st = ''pending_user_transfer_start'' then
        if starts_with ''deposit'' kind
        then (''The anchor is waiting for your bank transfer.'', ''Nothing is paid out until its bank sees the money.'')
        else (''The anchor is waiting for your on-chain payment.'',
              ''The cash-out starts only after the tokens arrive with the right memo.'')
      else if st = ''pending_user_transfer_complete'' then
        (''The anchor has seen your payment and is preparing the payout.'',
         ''It has to confirm funds before releasing the other side.'')
      else if st = ''pending_external'' then
        (''The anchor is waiting on an external system (bank or blockchain).'',
         ''Bank rails and confirmations take a moment; nothing is needed from you.'')
      else if st = ''pending_anchor'' then
        (''The anchor is processing the order.'', ''It is converting the funds and preparing the payout.'')
      else if st = ''pending_stellar'' then
        (''The anchor is submitting the Stellar transaction.'', ''Once it lands in a ledger the tokens are yours.'')
      else if st = ''pending_trust'' then
        (''The anchor is HOLDING the deposit because our account has no trustline for the asset yet.'',
         ''A Stellar account can only receive an asset after it opts in with a trustline, so the anchor cannot pay until we add one.'')
      else if st = ''pending_customer_info_update'' then
        (''The anchor needs more customer (KYC) information before it can continue.'',
         ''Anchors are regulated and may ask for more identity data; the order is paused until it is provided.'')
      else if st = ''pending_transaction_info_update'' then
        (''The anchor says some details of this order need to be corrected.'',
         ''The information sent with the order was incomplete or wrong, so the anchor cannot process it yet.'')
      else if st = ''pending_user'' then
        (''The anchor needs something from us before it can continue.'', ''Usually extra identity data or an approval.'')
      else if st = ''incomplete'' then (''The order is not complete yet.'', ''The anchor is still waiting for required input.'')
      else if st = ''completed'' then (''The order is complete.'', ''Both sides of the swap have been paid.'')
      else if st = ''refunded'' then
        (''The order was refunded.'', ''The anchor could not complete it and returned the funds.'')
      else if st = ''expired'' then
        (''The order expired before the payment arrived.'', ''Anchors cancel orders that are not funded in time.'')
      else if st = ''no_market'' then
        (''The anchor has no market for this conversion right now.'', ''It cannot quote the pair at the moment.'')
      else if st = ''too_small'' \<or> st = ''too_large'' then
        (''The amount is '' @ (if st = ''too_small'' then ''below'' else ''above'') @ '' the anchor'' @ CHR 0x27 # ''s limit.'',
         ''Anchors enforce minimum and maximum sizes per transaction.'')
      else if st = ''error'' then
        (''The anchor reported an error.'', ''Something went wrong on their side; the order will not complete.'')
      else
        (''The order is in a status this client does not recognise; it is treated as still in progress.'',
         ''New statuses can appear as anchors evolve.''))"

section \<open>Links\<close>

definition TR_MOCK_PAYOUT_HINT :: string where
  "TR_MOCK_PAYOUT_HINT =
     ''The TR mock anchor accepted the order but has not paid out; run ''
     @ ''`npm run anchor:check -w @polaris/stellar -- --live --payout-check` and, for a demo, the labelled non-TR scenario ''
     @ ''`--home-domain testanchor.stellar.org`.''"

text \<open>The host of a link or an endpoint, when it is plain https on the default port.\<close>

definition plain_host :: "url_parts \<Rightarrow> string option" where
  "plain_host u =
     (if up_protocol u = ''https:'' \<and> up_username u = [] \<and> up_password u = [] \<and> up_port u = [] \<and> \<not> looksLikeIp (up_hostname u)
      then Some (js_lower (up_hostname u)) else None)"

definition declared_host :: "url_parser \<Rightarrow> string \<Rightarrow> string option" where
  "declared_host url v =
     (if v = [] then None
      else case url (if contains ''://'' v then v else ''https://'' @ v) of Some u \<Rightarrow> plain_host u | None \<Rightarrow> None)"

definition anchorDeclaredHosts :: "url_parser \<Rightarrow> anchor_toml \<Rightarrow> string list" where
  "anchorDeclaredHosts url toml =
     List.map_filter (declared_host url) [am_homeDomain toml, am_transferServer toml, am_webAuthEndpoint toml]"

definition anchorOwnedLink :: "url_parser \<Rightarrow> string option \<Rightarrow> anchor_toml \<Rightarrow> string option" where
  "anchorOwnedLink url value toml =
     (case value of
        None \<Rightarrow> None
      | Some v \<Rightarrow>
          if v = [] \<or> length v > 300 then None
          else if list_ex (\<lambda>c. char_code c < 32 \<or> char_code c = 127) v then None
          else case url v of
            None \<Rightarrow> None
          | Some u \<Rightarrow>
              (case plain_host u of
                 None \<Rightarrow> None
               | Some h \<Rightarrow> if List.member (anchorDeclaredHosts url toml) h then Some (up_href u) else None))"

section \<open>The loop\<close>

datatype poll_outcome = Completed_Order | Failed_Order | Stopped_Order

definition MAX_CUSTOMER_INFO_ATTEMPTS :: nat where "MAX_CUSTOMER_INFO_ATTEMPTS = 6"

record ('w, 'z) poll_options =
  lo_intervalMs :: int
  lo_timeoutMs :: int
  lo_stopAt :: "string list"
  lo_onPendingTrust :: "(anchor_tx \<Rightarrow> ('w, 'z, unit) act) option"
  lo_onCustomerInfoRequired :: "(anchor_tx \<Rightarrow> ('w, 'z, unit) act) option"
  lo_onUpdate :: "(anchor_tx \<Rightarrow> ('w, 'z, unit) act) option"
  lo_maxTransientFailures :: int

text \<open>The options of a caller that sets none.\<close>

definition default_poll :: "('w, 'z) poll_options" where
  "default_poll = \<lparr>lo_intervalMs = 2000, lo_timeoutMs = 180000, lo_stopAt = [], lo_onPendingTrust = None,
     lo_onCustomerInfoRequired = None, lo_onUpdate = None, lo_maxTransientFailures = 3\<rparr>"

record poll_result =
  pr_tx :: anchor_tx
  pr_outcome :: poll_outcome
  pr_history :: "string list"

record poll_state =
  pl_history :: "string list"
  pl_trustHandled :: bool
  pl_attempts :: nat
  pl_failures :: int
  pl_last :: "anchor_tx option"

definition poll_start :: poll_state where
  "poll_start = \<lparr>pl_history = [], pl_trustHandled = False, pl_attempts = 0, pl_failures = 0, pl_last = None\<rparr>"

definition isTransient :: "anchor_thrown \<Rightarrow> bool" where
  "isTransient e =
     (case e of
        Http_Thrown h \<Rightarrow> he_status h \<ge> 500 \<or> he_status h = 429
      | Js_Thrown (Js_Error n m) \<Rightarrow> n = ''TypeError'' \<or> n = ''TimeoutError'' \<or> n = ''AbortError''
      | _ \<Rightarrow> False)"

text \<open>A failed request: a few in a row are retried.\<close>

definition poll_failed ::
    "'w anchor_ctx \<Rightarrow> ('w, 'z) poll_options \<Rightarrow> string \<Rightarrow> poll_state \<Rightarrow> anchor_thrown \<Rightarrow> ('w, 'z, poll_state + poll_result) act" where
  "poll_failed ctx opts i st e =
     (if \<not> isTransient e then eff_throw e
      else
        let failures = pl_failures st + 1 in
        eff_bind (narrated ctx ''sep6.retry''
            (''Could not reach the anchor to check order '' @ i @ '' (attempt '' @ show_int failures @ '' of ''
              @ show_int (lo_maxTransientFailures opts) @ ''); trying again shortly.'')
            ''A brief network hiccup does not change what already happened on chain, so we keep checking instead of giving up.'') (\<lambda>_.
        if failures \<ge> lo_maxTransientFailures opts then
          (case pl_last st of
             Some tx \<Rightarrow> eff_throw (Interrupted_Thrown (''lost contact with the anchor while checking order '' @ i
               @ ''; last known status '' @ dq (at_status tx)) tx)
           | None \<Rightarrow> eff_throw e)
        else
          eff_bind (ctx_sleep ctx (lo_intervalMs opts)) (\<lambda>_. eff_ret (Inl (st\<lparr>pl_failures := failures\<rparr>)))))"

text \<open>A changed status is narrated and handed to the listener.\<close>

definition poll_update ::
    "'w anchor_ctx \<Rightarrow> ('w, 'z) poll_options \<Rightarrow> string \<Rightarrow> poll_state \<Rightarrow> anchor_tx \<Rightarrow> ('w, 'z, poll_state) act" where
  "poll_update ctx opts i st tx =
     (let st1 = st\<lparr>pl_failures := 0, pl_last := Some tx\<rparr> in
      if pl_history st \<noteq> [] \<and> last (pl_history st) = at_status tx then eff_ret st1
      else
        let (what, why) = explainStatus (at_kind tx) (at_status tx) in
        eff_bind (record_step ctx (''sep6.status.'' @ at_status tx) (''SEP-6 order '' @ i @ '': '' @ what) why (at_message tx) None) (\<lambda>_.
        eff_bind (case lo_onUpdate opts of Some f \<Rightarrow> f tx | None \<Rightarrow> eff_ret ()) (\<lambda>_.
        eff_ret (st1\<lparr>pl_history := pl_history st @ [at_status tx]\<rparr>))))"

definition info_required ::
    "'w anchor_ctx \<Rightarrow> anchor_toml \<Rightarrow> auth_token \<Rightarrow> string \<Rightarrow> anchor_tx \<Rightarrow> ('w, 'z, 'a) act" where
  "info_required ctx toml token i tx =
     (let listed = (case at_requiredInfoUpdates tx of Some fs \<Rightarrow> fs | None \<Rightarrow> []);
          customer = (at_status tx = ''pending_customer_info_update'') in
      eff_bind
        (if customer \<and> (case am_kycServer toml of Some k \<Rightarrow> k \<noteq> [] | None \<Rightarrow> False)
         then eff_try (getCustomer ctx toml token (Some i)) (\<lambda>_. eff_ret listed) (\<lambda>c. eff_ret (ci_missingFields c))
         else eff_ret listed) (\<lambda>fields.
      let what = (if customer then ''customer (KYC) information'' else ''corrected order details'') in
      eff_bind (record_step ctx ''sep6.info_required''
          (''Order '' @ i @ '' is paused: the anchor needs '' @ what
            @ (if fields \<noteq> [] then '' '' @ mdash @ '' missing: '' @ js_join '', '' fields else []) @ ''. We stopped waiting.'')
          ''Polling more will not help; the order only moves on once that information is submitted (customer data through SEP-12).''
          (at_requiredInfoMessage tx) None) (\<lambda>_.
      eff_throw (Info_Thrown (''order '' @ i @ '' is waiting for '' @ what
        @ (if fields \<noteq> [] then '': '' @ js_join '', '' fields else [])) tx fields))))"

definition poll_timed_out ::
    "'w anchor_ctx \<Rightarrow> anchor_toml \<Rightarrow> ('w, 'z) poll_options \<Rightarrow> string \<Rightarrow> anchor_tx \<Rightarrow> ('w, 'z, 'a) act" where
  "poll_timed_out ctx toml opts i tx =
     (let seconds = show_int ((lo_timeoutMs opts + 500) div 1000);
          said = (case at_message tx of Some m \<Rightarrow> ''; the anchor last said: '' @ quoteAnchorText m | None \<Rightarrow> []);
          safeLink = anchorOwnedLink (ax_url ctx) (at_moreInfoUrl tx) toml;
          withheld = (safeLink = None \<and> (case at_moreInfoUrl tx of Some u \<Rightarrow> u \<noteq> [] | None \<Rightarrow> False));
          linkText = (case safeLink of
              Some l \<Rightarrow> '' (order details: '' @ l @ '')''
            | None \<Rightarrow> if withheld then '' (link withheld: not on the anchor'' @ CHR 0x27 # ''s host)'' else []);
          hint = (if am_homeDomain toml = DEFAULT_HOME_DOMAIN then '' '' @ TR_MOCK_PAYOUT_HINT else []) in
      eff_bind (record_step ctx ''sep6.timeout''
          (''SEP-6 order '' @ i @ '' is still '' @ dq (at_status tx) @ '' after '' @ seconds @ ''s, so we stopped waiting.''
            @ (if at_message tx \<noteq> None then '' The anchor'' @ CHR 0x27 # ''s own status message is attached.'' else [])
            @ (if withheld then '' The anchor'' @ CHR 0x27 # ''s order link was not shown (link withheld: not on the anchor''
                 @ CHR 0x27 # ''s host).'' else [])
            @ hint)
          (''The order never reached a final state. A status like '' @ dq ''pending_anchor'' @ '' that does not move usually means a problem on the anchor''
            @ CHR 0x27 # ''s side, not with your account; the safe next step is to check the order later instead of paying again.'')
          (at_message tx) safeLink) (\<lambda>_.
      eff_throw (Timeout_Thrown
        (composeTimeoutMessage (''order '' @ i @ '' is still '' @ dq (at_status tx) @ '' after '' @ seconds @ ''s'') said linkText hint) tx)))"

text \<open>The end of a turn that waits: the time limit, then the pause.\<close>

definition poll_wait ::
    "'w anchor_ctx \<Rightarrow> anchor_toml \<Rightarrow> ('w, 'z) poll_options \<Rightarrow> string \<Rightarrow> int \<Rightarrow> poll_state \<Rightarrow> anchor_tx
       \<Rightarrow> ('w, 'z, poll_state + poll_result) act" where
  "poll_wait ctx toml opts i started st tx =
     eff_bind (ctx_now ctx) (\<lambda>t.
       if t - started \<ge> lo_timeoutMs opts then poll_timed_out ctx toml opts i tx
       else eff_bind (ctx_sleep ctx (lo_intervalMs opts)) (\<lambda>_. eff_ret (Inl st)))"

definition poll_seen ::
    "'w anchor_ctx \<Rightarrow> anchor_toml \<Rightarrow> auth_token \<Rightarrow> ('w, 'z) poll_options \<Rightarrow> string \<Rightarrow> int \<Rightarrow> poll_state \<Rightarrow> anchor_tx
       \<Rightarrow> ('w, 'z, poll_state + poll_result) act" where
  "poll_seen ctx toml token opts i started st tx =
     (let done = (\<lambda>outcome. eff_ret (Inr \<lparr>pr_tx = tx, pr_outcome = outcome, pr_history = pl_history st\<rparr>)) in
      if classifyStatus (at_status tx) = Success then done Completed_Order
      else if classifyStatus (at_status tx) = Failed then done Failed_Order
      else if List.member (lo_stopAt opts) (at_status tx) then done Stopped_Order
      else case classifyStatus (at_status tx) of
        Needs_Info \<Rightarrow>
          (case lo_onCustomerInfoRequired opts of
             Some f \<Rightarrow>
               if at_status tx = ''pending_customer_info_update'' \<and> pl_attempts st < MAX_CUSTOMER_INFO_ATTEMPTS then
                 eff_bind (f tx) (\<lambda>_.
                 eff_bind (ctx_sleep ctx (lo_intervalMs opts)) (\<lambda>_.
                 eff_ret (Inl (st\<lparr>pl_attempts := Suc (pl_attempts st)\<rparr>))))
               else info_required ctx toml token i tx
           | None \<Rightarrow> info_required ctx toml token i tx)
      | Needs_Trustline \<Rightarrow>
          (case lo_onPendingTrust opts of
             None \<Rightarrow> done Stopped_Order
           | Some f \<Rightarrow>
               if pl_trustHandled st then poll_wait ctx toml opts i started st tx
               else eff_bind (f tx) (\<lambda>_. poll_wait ctx toml opts i started (st\<lparr>pl_trustHandled := True\<rparr>) tx))
      | Needs_User \<Rightarrow> done Stopped_Order
      | _ \<Rightarrow> poll_wait ctx toml opts i started st tx)"

definition poll_turn ::
    "anchor_sdk \<Rightarrow> 'w anchor_ctx \<Rightarrow> anchor_toml \<Rightarrow> auth_token \<Rightarrow> ('w, 'z) poll_options \<Rightarrow> string \<Rightarrow> int \<Rightarrow> poll_state
       \<Rightarrow> ('w, 'z, poll_state + poll_result) act" where
  "poll_turn sdk ctx toml token opts i started st =
     eff_try (getTransaction sdk ctx toml token i) (poll_failed ctx opts i st) (\<lambda>tx.
       eff_bind (poll_update ctx opts i st tx) (\<lambda>st'. poll_seen ctx toml token opts i started st' tx))"

definition pollTransaction ::
    "anchor_sdk \<Rightarrow> 'w anchor_ctx \<Rightarrow> anchor_toml \<Rightarrow> auth_token \<Rightarrow> string \<Rightarrow> ('w, 'z) poll_options \<Rightarrow> ('w, 'z, poll_result) act" where
  "pollTransaction sdk ctx toml token i opts =
     eff_bind (ctx_now ctx) (\<lambda>started. eff_loop (poll_turn sdk ctx toml token opts i started) poll_start)"

end
