(* ===== verification/Anchor_Session.thy ===== *)
theory Anchor_Session
  imports Anchor_Poll
begin

text \<open>
  \<open>session.ts\<close>: the session the agent drives.  Its caches, the login in progress and the withdrawal it
  requested extend the world, so that the functions of the other files work on it as they are.  Each
  method is one narrated step, which returns the records it added to the log.  \<open>flows.ts\<close> composes the
  methods into whole journeys.

  A step runs to its end before the next one starts; the sharing of one discovery request by
  concurrent steps is not modelled.
\<close>

section \<open>State\<close>

record 'w anchor_session = "'w anchor_world" +
  ss_toml :: "anchor_toml option"
  ss_token :: "auth_token option"
  ss_customerOk :: bool
  ss_pendingChallenge :: "string option"
  ss_asset :: "found_asset option"
  ss_withdraw :: "(withdraw_instructions \<times> string) option"

type_synonym ('w, 'a) session_act = "('w anchor_session, anchor_thrown, 'a) eff"

text \<open>The parts of a session that never change.\<close>

record 'w session_env =
  se_sdk :: anchor_sdk
  se_auth :: web_auth
  se_ctx :: "'w anchor_ctx"
  se_signer :: "'w anchor_signer"
  se_homeDomain :: string
  se_assetCode :: string
  se_fiatCode :: "string option"
  se_sep38DeliveryMethod :: "string option"
  se_customerFields :: "(string, string) js_map"

record 'w session_config =
  sf_sdk :: anchor_sdk
  sf_auth :: web_auth
  sf_ctx :: "'w anchor_ctx"
  sf_signer :: "'w anchor_signer"
  sf_homeDomain :: "string option"
  sf_assetCode :: "string option"
  sf_fiatCode :: "string option"
  sf_sep38DeliveryMethod :: "string option"
  sf_horizonUrl :: "string option"
  sf_friendbotUrl :: "string option"
  sf_networkPassphrase :: "string option"
  sf_allowInsecure :: bool
  sf_allowedEndpointHosts :: "string list option"
  sf_customerFields :: "(string, string) js_map option"

definition or_default :: "'a option \<Rightarrow> 'a \<Rightarrow> 'a" where
  "or_default v d = (case v of Some x \<Rightarrow> x | None \<Rightarrow> d)"

definition newSession :: "'w session_config \<Rightarrow> anchor_thrown + 'w session_env" where
  "newSession c =
     and_then (parseHomeDomain (or_default (sf_homeDomain c) DEFAULT_HOME_DOMAIN)
         \<lparr>np_allowInsecure = sf_allowInsecure c, np_allowedEndpointHosts = None\<rparr>) (\<lambda>home.
       Inr \<lparr>se_sdk = sf_sdk c, se_auth = sf_auth c,
            se_ctx = (sf_ctx c)
              \<lparr>ax_horizonUrl := strip_slash (or_default (sf_horizonUrl c) TESTNET_HORIZON_URL),
               ax_friendbotUrl := or_default (sf_friendbotUrl c) TESTNET_FRIENDBOT_URL,
               ax_networkPassphrase := or_default (sf_networkPassphrase c) TESTNET_PASSPHRASE,
               ax_allowInsecure := sf_allowInsecure c,
               ax_allowedEndpointHosts := sf_allowedEndpointHosts c\<rparr>,
            se_signer = sf_signer c, se_homeDomain = home,
            se_assetCode = or_default (sf_assetCode c) DEFAULT_ASSET_CODE,
            se_fiatCode = sf_fiatCode c, se_sep38DeliveryMethod = sf_sep38DeliveryMethod c,
            se_customerFields = or_default (sf_customerFields c) []\<rparr>)"

definition reads :: "('s \<Rightarrow> 'a) \<Rightarrow> ('s, 'e, 'a) eff" where
  "reads f s = Some (Inr (f s), s)"

definition writes :: "('s \<Rightarrow> 's) \<Rightarrow> ('s, 'e, unit) eff" where
  "writes g s = Some (Inr (), g s)"

text \<open>One step: its value and the records it added.\<close>

definition session_step :: "('w, 'a) session_act \<Rightarrow> ('w, 'a \<times> explain_record list) session_act" where
  "session_step m =
     eff_bind (reads (\<lambda>s. length (aw_log s))) (\<lambda>mark.
     eff_bind m (\<lambda>x.
     eff_bind (reads (\<lambda>s. drop mark (aw_log s))) (\<lambda>records. eff_ret (x, records))))"

section \<open>Plumbing\<close>

definition session_toml :: "'w session_env \<Rightarrow> ('w, anchor_toml) session_act" where
  "session_toml env =
     eff_bind (reads ss_toml) (\<lambda>cached. case cached of
       Some t \<Rightarrow> eff_ret t
     | None \<Rightarrow>
         eff_bind (discoverAnchor (se_ctx env) (se_homeDomain env)) (\<lambda>t.
         eff_bind (writes (\<lambda>s. s\<lparr>ss_toml := Some t\<rparr>)) (\<lambda>_. eff_ret t)))"

definition session_asset :: "'w session_env \<Rightarrow> ('w, found_asset) session_act" where
  "session_asset env =
     eff_bind (reads ss_asset) (\<lambda>cached. case cached of
       Some a \<Rightarrow> eff_ret a
     | None \<Rightarrow>
         eff_bind (session_toml env) (\<lambda>t.
         eff_bind (sync_step (findAsset t (se_assetCode env) (KNOWN_ISSUERS (se_homeDomain env) (se_assetCode env)))) (\<lambda>a.
         eff_bind (writes (\<lambda>s. s\<lparr>ss_asset := Some a\<rparr>)) (\<lambda>_. eff_ret a))))"

definition asset_of :: "found_asset \<Rightarrow> anchor_asset" where
  "asset_of a = \<lparr>aa_code = fa_code a, aa_issuer = fa_issuer a\<rparr>"

definition session_fiat :: "'w session_env \<Rightarrow> ('w, string) session_act" where
  "session_fiat env =
     (case se_fiatCode env of
        Some f \<Rightarrow> eff_ret f
      | None \<Rightarrow> eff_bind (session_asset env) (\<lambda>a. eff_ret (or_default (fa_anchorAsset a) ''TRY'')))"

definition public_key :: "'w session_env \<Rightarrow> ('w, string) session_act" where
  "public_key env = ext_call (sg_publicKey (se_signer env))"

text \<open>The login in use: the cached token, or that of a new login.\<close>

definition session_token :: "'w session_env \<Rightarrow> ('w, auth_token) session_act" where
  "session_token env =
     eff_bind (ctx_now (se_ctx env)) (\<lambda>t.
     eff_bind (reads ss_token) (\<lambda>cached.
     case cached of
       Some token \<Rightarrow>
         if isExpired (Some token) t then
           eff_bind (session_toml env) (\<lambda>toml.
           eff_bind (authenticate (se_sdk env) (se_auth env) (se_ctx env) toml (se_signer env)) (\<lambda>fresh.
           eff_bind (writes (\<lambda>s. s\<lparr>ss_token := Some fresh\<rparr>)) (\<lambda>_. eff_ret fresh)))
         else eff_ret token
     | None \<Rightarrow>
         eff_bind (session_toml env) (\<lambda>toml.
         eff_bind (authenticate (se_sdk env) (se_auth env) (se_ctx env) toml (se_signer env)) (\<lambda>fresh.
         eff_bind (writes (\<lambda>s. s\<lparr>ss_token := Some fresh\<rparr>)) (\<lambda>_. eff_ret fresh)))))"

definition session_kyc :: "'w session_env \<Rightarrow> ('w, customer_info option) session_act" where
  "session_kyc env =
     eff_bind (reads ss_customerOk) (\<lambda>ok.
     if ok then eff_ret None
     else
       eff_bind (session_toml env) (\<lambda>toml.
       eff_bind (session_token env) (\<lambda>token.
       eff_bind (ensureCustomer (se_ctx env) toml token (se_customerFields env)) (\<lambda>info.
       eff_bind (writes (\<lambda>s. s\<lparr>ss_customerOk := True\<rparr>)) (\<lambda>_. eff_ret (Some info))))))"

definition kycForTransaction :: "'w session_env \<Rightarrow> string \<Rightarrow> ('w, unit) session_act" where
  "kycForTransaction env i =
     eff_bind (session_toml env) (\<lambda>toml.
     eff_bind (session_token env) (\<lambda>token.
     eff_bind (ensureTransactionCustomer (se_ctx env) toml token i (se_customerFields env)) (\<lambda>_. eff_ret ())))"

text \<open>An absent text is \<open>undefined\<close>.\<close>

definition text_value :: "string option \<Rightarrow> js_value" where
  "text_value t = (case t of Some s \<Rightarrow> V_Str s | None \<Rightarrow> V_Undefined)"

definition deferred_turn ::
    "'w session_env \<Rightarrow> anchor_toml \<Rightarrow> auth_token \<Rightarrow> withdraw_instructions \<Rightarrow> int \<Rightarrow> unit
       \<Rightarrow> ('w, unit + withdraw_instructions) session_act" where
  "deferred_turn env toml token base deadline u =
     eff_bind (getTransaction (se_sdk env) (se_ctx env) toml token (wi_id base)) (\<lambda>tx.
     case at_withdrawAnchorAccount tx of
       Some accountId \<Rightarrow>
         eff_bind (public_key env) (\<lambda>own.
         if accountId = own then eff_throw (plain_throw ''the anchor asked us to pay our own account'')
         else
           eff_bind (pure_step (parseWithdrawMemo (text_value (at_withdrawMemo tx)) (text_value (at_withdrawMemoType tx)))) (\<lambda>memo.
           eff_bind (narrated (se_ctx env) ''sep6.withdraw_account''
               (''SEP-6: after the order'' @ CHR 0x27 # ''s KYC, the anchor gave us its payout account '' @ short_key accountId
                 @ '' for order '' @ wi_id base @ ''.'')
               ''A withdrawal only names the account to pay once the anchor has the identity data it needs for that order.'') (\<lambda>_.
           eff_ret (Inr (base\<lparr>wi_accountId := Some accountId,
                              wi_memo := (case memo of Some m \<Rightarrow> Some m | None \<Rightarrow> wi_memo base)\<rparr>)))))
     | None \<Rightarrow>
         eff_bind
           (if at_status tx = ''pending_customer_info_update'' then kycForTransaction env (wi_id base)
            else if classifyStatus (at_status tx) = Failed then
              eff_throw (plain_throw (''withdrawal '' @ wi_id base @ '' ended as '' @ at_status tx @ '' before naming a payout account''))
            else eff_ret ()) (\<lambda>_.
         eff_bind (ctx_now (se_ctx env)) (\<lambda>t.
         if t \<ge> deadline then
           eff_throw (plain_throw (''the anchor has not provided a payout account for withdrawal '' @ wi_id base
             @ '' yet (status '' @ at_status tx @ '')''))
         else eff_bind (ctx_sleep (se_ctx env) 2000) (\<lambda>_. eff_ret (Inl ())))))"

definition resolveDeferredWithdraw :: "'w session_env \<Rightarrow> withdraw_instructions \<Rightarrow> ('w, withdraw_instructions) session_act" where
  "resolveDeferredWithdraw env base =
     eff_bind (session_toml env) (\<lambda>toml.
     eff_bind (session_token env) (\<lambda>token.
     eff_bind (kycForTransaction env (wi_id base)) (\<lambda>_.
     eff_bind (ctx_now (se_ctx env)) (\<lambda>t.
     eff_loop (deferred_turn env toml token base (t + 60000)) ()))))"

section \<open>Steps\<close>

type_synonym ('w, 'a) step_act = "('w, 'a \<times> explain_record list) session_act"

definition session_discover :: "'w session_env \<Rightarrow> ('w, anchor_toml) step_act" where
  "session_discover env = session_step (session_toml env)"

definition session_info :: "'w session_env \<Rightarrow> ('w, sep6_info) step_act" where
  "session_info env = session_step (eff_bind (session_toml env) (\<lambda>t. getInfo (se_ctx env) t (se_assetCode env)))"

text \<open>What a step may show of a login: the account and the expiry, never the token.\<close>

definition toSessionInfo :: "auth_token \<Rightarrow> string \<times> int option" where
  "toSessionInfo token = (au_account token, au_expiresAt token)"

definition session_login :: "'w session_env \<Rightarrow> ('w, string \<times> int option) step_act" where
  "session_login env = session_step (eff_bind (session_token env) (\<lambda>t. eff_ret (toSessionInfo t)))"

definition beginLogin :: "'w session_env \<Rightarrow> ('w, string) step_act" where
  "beginLogin env = session_step
     (eff_bind (session_toml env) (\<lambda>toml.
      eff_bind (public_key env) (\<lambda>account.
      eff_bind (requestChallenge (se_auth env) (se_ctx env) toml account) (\<lambda>xdr.
      eff_bind (writes (\<lambda>s. s\<lparr>ss_pendingChallenge := Some xdr\<rparr>)) (\<lambda>_. eff_ret xdr)))))"

definition finishLogin :: "'w session_env \<Rightarrow> string \<Rightarrow> ('w, string \<times> int option) step_act" where
  "finishLogin env signedXdr = session_step
     (eff_bind (reads ss_pendingChallenge) (\<lambda>pending.
      case pending of
        Some (c # xdr) \<Rightarrow>
          eff_bind (session_toml env) (\<lambda>toml.
          eff_bind (public_key env) (\<lambda>account.
          eff_bind (completeChallenge (se_sdk env) (se_auth env) (se_ctx env) toml account (c # xdr) signedXdr) (\<lambda>token.
          eff_bind (writes (\<lambda>s. s\<lparr>ss_token := Some token, ss_pendingChallenge := None\<rparr>)) (\<lambda>_.
          eff_ret (toSessionInfo token)))))
      | _ \<Rightarrow> eff_throw (plain_throw ''call beginLogin() first'')))"

definition session_inspect :: "'w session_env \<Rightarrow> ('w, account_state) step_act" where
  "session_inspect env = session_step
     (eff_bind (public_key env) (\<lambda>account.
      eff_bind (session_asset env) (\<lambda>a. inspectAccount (se_ctx env) account (asset_of a))))"

definition session_buildTrustline :: "'w session_env \<Rightarrow> ('w, string option) step_act" where
  "session_buildTrustline env = session_step
     (eff_bind (public_key env) (\<lambda>account.
      eff_bind (session_asset env) (\<lambda>a.
      eff_bind (inspectAccount (se_ctx env) account (asset_of a)) (\<lambda>state.
      if \<not> as_exists state \<or> as_hasTrustline state then eff_ret None
      else
        eff_bind (sync_step (buildTrustlineTx (se_sdk env) account (sequence_of state) (ax_networkPassphrase (se_ctx env)) (asset_of a)))
          (\<lambda>xdr. eff_ret (Some xdr))))))"

definition registerCustomer :: "'w session_env \<Rightarrow> ('w, customer_info option) step_act" where
  "registerCustomer env = session_step (session_kyc env)"

definition prepareAccount :: "'w session_env \<Rightarrow> preflight_options \<Rightarrow> ('w, preflight_result) step_act" where
  "prepareAccount env opts = session_step
     (eff_bind (session_asset env) (\<lambda>a. preflight (se_sdk env) (se_ctx env) (se_signer env) (asset_of a) opts))"

text \<open>A price in either direction; only the amount sold is given.\<close>

definition session_quote ::
    "'w session_env \<Rightarrow> string \<Rightarrow> string \<Rightarrow> (anchor_asset \<Rightarrow> string \<Rightarrow> string \<times> string \<times> string) \<Rightarrow> ('w, anchor_quote) step_act" where
  "session_quote env amount label parts = session_step
     (eff_bind (pure_step (assertAmount amount label)) (\<lambda>_.
      eff_bind (session_toml env) (\<lambda>toml.
      eff_bind (session_asset env) (\<lambda>a.
      eff_bind (session_fiat env) (\<lambda>fiat.
      let (sell, buy, question) = parts (asset_of a) fiat in
      getPrice (se_ctx env) toml
        \<lparr>pq_sellAsset = sell, pq_buyAsset = buy, pq_sellAmount = Some amount, pq_buyAmount = None,
         pq_deliveryMethod = se_sep38DeliveryMethod env\<rparr> question)))))"

definition quoteDeposit :: "'w session_env \<Rightarrow> string \<Rightarrow> ('w, anchor_quote) step_act" where
  "quoteDeposit env amountFiat = session_quote env amountFiat ''deposit amount'' (\<lambda>a fiat.
     (fiatAssetId fiat, stellarAssetId a,
      ''if you deposit '' @ amountFiat @ '' '' @ fiat @ '', how much '' @ aa_code a @ '' would you get?''))"

definition quoteWithdraw :: "'w session_env \<Rightarrow> string \<Rightarrow> ('w, anchor_quote) step_act" where
  "quoteWithdraw env amountAsset = session_quote env amountAsset ''withdraw amount'' (\<lambda>a fiat.
     (stellarAssetId a, fiatAssetId fiat,
      ''if you cash out '' @ amountAsset @ '' '' @ aa_code a @ '', how much '' @ fiat @ '' would you get?''))"

definition session_startDeposit :: "'w session_env \<Rightarrow> string \<Rightarrow> ('w, deposit_instructions) step_act" where
  "session_startDeposit env amountFiat = session_step
     (eff_bind (pure_step (assertAmount amountFiat ''deposit amount'')) (\<lambda>_.
      eff_bind (session_kyc env) (\<lambda>_.
      eff_bind (session_toml env) (\<lambda>toml.
      eff_bind (session_token env) (\<lambda>token.
      eff_bind (public_key env) (\<lambda>account.
      eff_bind (session_fiat env) (\<lambda>fiat.
      startDeposit (se_ctx env) toml token
        \<lparr>dp_assetCode = se_assetCode env, dp_account = account, dp_amount = amountFiat, dp_type = None, dp_memo = None,
         dp_fiatCode = Some fiat\<rparr>)))))))"

definition session_startWithdraw :: "'w session_env \<Rightarrow> string \<Rightarrow> ('w, withdraw_instructions) step_act" where
  "session_startWithdraw env amountAsset = session_step
     (eff_bind (pure_step (assertAmount amountAsset ''withdraw amount'')) (\<lambda>_.
      eff_bind (session_kyc env) (\<lambda>_.
      eff_bind (session_toml env) (\<lambda>toml.
      eff_bind (session_token env) (\<lambda>token.
      eff_bind (public_key env) (\<lambda>account.
      eff_bind (startWithdraw (se_sdk env) (se_ctx env) toml token
          \<lparr>wp_assetCode = se_assetCode env, wp_account = account, wp_amount = amountAsset, wp_type = None, wp_dest = None\<rparr>) (\<lambda>first.
      eff_bind (if wi_accountId first = None then resolveDeferredWithdraw env first else eff_ret first) (\<lambda>instructions.
      eff_bind (writes (\<lambda>s. s\<lparr>ss_withdraw := Some (instructions, amountAsset)\<rparr>)) (\<lambda>_.
      eff_ret instructions)))))))))"

section \<open>Paying a withdrawal\<close>

record built_withdrawal =
  bw_xdr :: string
  bw_summary :: guard_summary
  bw_instructions :: withdraw_instructions
  bw_asset :: anchor_asset

definition stroops_of_value :: "'w anchor_ctx \<Rightarrow> js_value \<Rightarrow> string + nat" where
  "stroops_of_value ctx v =
     (case v of V_Str s \<Rightarrow> toStroops s | _ \<Rightarrow> Inl (''not a valid amount: '' @ ax_stringify ctx v))"

text \<open>The request must be the session's own and for the same amount.\<close>

definition own_request :: "'w session_env \<Rightarrow> string \<Rightarrow> (withdraw_instructions \<times> string) option \<Rightarrow> string + withdraw_instructions" where
  "own_request env amountAsset request =
     (case request of
        None \<Rightarrow> Inl ''call startWithdraw() first: this session has no withdrawal to pay''
      | Some (w, amount) \<Rightarrow>
          and_then (toStroops amount) (\<lambda>asked.
          and_then (toStroops amountAsset) (\<lambda>paid.
            if asked \<noteq> paid then
              Inl (''this withdrawal was requested for '' @ amount @ '' '' @ se_assetCode env @ ''; refusing to pay '' @ amountAsset)
            else Inr w)))"

definition check_funds ::
    "'w anchor_ctx \<Rightarrow> horizon_account \<Rightarrow> anchor_asset \<Rightarrow> string \<Rightarrow> anchor_thrown + unit" where
  "check_funds ctx acct a amount =
     and_then (balanceOf (Some acct) (Issued a)) (\<lambda>have.
     catchE (and_then (stroops_of_value ctx have) (\<lambda>held.
             and_then (toStroops amount) (\<lambda>needed.
               guardE (\<not> held < needed)
                 (''not enough '' @ aa_code a @ '': have '' @ show_value ctx have @ '', need '' @ amount)))) plain_throw)"

definition buildWithdrawal :: "'w session_env \<Rightarrow> string \<Rightarrow> ('w, built_withdrawal) session_act" where
  "buildWithdrawal env amountAsset =
     eff_bind (pure_step (assertAmount amountAsset ''payment amount'')) (\<lambda>_.
     eff_bind (reads ss_withdraw) (\<lambda>request.
     eff_bind (pure_step (own_request env amountAsset request)) (\<lambda>w.
     eff_bind (public_key env) (\<lambda>account.
     eff_bind (loadAccount (se_ctx env) account) (\<lambda>acct.
     case acct of
       None \<Rightarrow> eff_throw (plain_throw (''account '' @ short_key account @ '' does not exist yet''))
     | Some h \<Rightarrow>
         if falsy h then eff_throw (plain_throw (''account '' @ short_key account @ '' does not exist yet''))
         else
           eff_bind (session_asset env) (\<lambda>found.
           let a = asset_of found in
           eff_bind (sync_step (check_funds (se_ctx env) h a amountAsset)) (\<lambda>_.
           case wi_accountId w of
             None \<Rightarrow> eff_throw (plain_throw ''this withdrawal has no payout account yet; the anchor must complete its KYC first'')
           | Some destination \<Rightarrow>
               eff_bind (sync_step (buildWithdrawPayment (se_sdk env) account (js_field h ''sequence'')
                   (ax_networkPassphrase (se_ctx env)) a amountAsset destination (wi_memo w))) (\<lambda>xdr.
               eff_bind (sync_step (withdrawalSummary (se_sdk env)
                   \<lparr>ws_xdr = xdr, ws_networkPassphrase = ax_networkPassphrase (se_ctx env), ws_orderId = wi_id w,
                    ws_homeDomain = se_homeDomain env, ws_asset = a, ws_destination = destination, ws_amount = amountAsset\<rparr>)) (\<lambda>summary.
               eff_ret \<lparr>bw_xdr = xdr, bw_summary = summary, bw_instructions = w, bw_asset = a\<rparr>)))))))))"

definition prepareWithdrawal :: "'w session_env \<Rightarrow> string \<Rightarrow> ('w, string \<times> guard_summary) step_act" where
  "prepareWithdrawal env amountAsset = session_step
     (eff_bind (buildWithdrawal env amountAsset) (\<lambda>b. eff_ret (bw_xdr b, bw_summary b)))"

definition payWithdrawal :: "'w session_env \<Rightarrow> string \<Rightarrow> ('w, js_value \<times> string) step_act" where
  "payWithdrawal env amountAsset = session_step
     (eff_bind (buildWithdrawal env amountAsset) (\<lambda>b.
      eff_bind (sign_and_submit (se_sdk env) (se_ctx env) (se_signer env) (bw_xdr b)) (\<lambda>out.
      eff_bind (writes (\<lambda>s. s\<lparr>ss_withdraw := None\<rparr>)) (\<lambda>_.
      eff_bind (sync_step (hash_prefix (se_ctx env) (so_hash out))) (\<lambda>prefix.
      eff_bind (narrated (se_ctx env) ''withdraw.pay''
          (''Sent '' @ amountAsset @ '' '' @ aa_code (bw_asset b) @ '' to the anchor'' @ CHR 0x27 # ''s account ''
            @ short_key (or_default (wi_accountId (bw_instructions b)) ''?'') @ memo_phrase (wi_memo (bw_instructions b))
            @ '' (transaction '' @ prefix @ ''...).'')
          ''This on-chain payment is the anchor's trigger: when it sees the tokens and memo it pays out the local currency to your bank.'') (\<lambda>_.
      eff_ret (so_hash out, explorerTxUrl (show_value (se_ctx env) (so_hash out)) (ax_networkPassphrase (se_ctx env)))))))))"

section \<open>Following an order\<close>

text \<open>The repairs the session makes while it waits.\<close>

definition session_poll :: "'w session_env \<Rightarrow> string \<Rightarrow> ('w, unit anchor_session_ext) poll_options
    \<Rightarrow> ('w, unit anchor_session_ext) poll_options" where
  "session_poll env i opts = opts
     \<lparr>lo_onPendingTrust := Some (\<lambda>tx.
        eff_bind (narrated (se_ctx env) ''sep6.repair_trust''
            ''The anchor is stuck waiting for a trustline, so we are adding it now.''
            (''Once the trustline exists the anchor'' @ CHR 0x27 # ''s pending payment can go through '' @ mdash @ '' no need to start over.'')) (\<lambda>_.
        eff_bind (session_asset env) (\<lambda>a.
        eff_bind (preflight (se_sdk env) (se_ctx env) (se_signer env) (asset_of a) \<lparr>po_useFriendbot = None, po_settleTimeoutMs = None\<rparr>)
          (\<lambda>_. eff_ret ())))),
      lo_onCustomerInfoRequired := Some (\<lambda>tx.
        eff_bind (narrated (se_ctx env) ''sep6.kyc_required''
            (''Order '' @ i @ '' is paused for per-transaction KYC, so we are sending the anchor the fields it asked for.'')
            ''A single transfer can need extra identity data; we only ever send the fields the anchor requests and that this scenario is allowed to provide.'') (\<lambda>_.
        kycForTransaction env (at_id tx)))\<rparr>"

definition waitForTransaction ::
    "'w session_env \<Rightarrow> string \<Rightarrow> ('w, unit anchor_session_ext) poll_options \<Rightarrow> ('w, poll_result) step_act" where
  "waitForTransaction env i opts = session_step
     (eff_bind (session_toml env) (\<lambda>toml.
      eff_bind (session_token env) (\<lambda>token.
      pollTransaction (se_sdk env) (se_ctx env) toml token i (session_poll env i opts))))"

definition session_transaction :: "'w session_env \<Rightarrow> string \<Rightarrow> ('w, anchor_tx) step_act" where
  "session_transaction env i = session_step
     (eff_bind (session_toml env) (\<lambda>toml.
      eff_bind (session_token env) (\<lambda>token. getTransaction (se_sdk env) (se_ctx env) toml token i)))"

definition session_history :: "'w session_env \<Rightarrow> ('w, anchor_tx list) step_act" where
  "session_history env = session_step
     (eff_bind (session_toml env) (\<lambda>toml.
      eff_bind (session_token env) (\<lambda>token. listTransactions (se_sdk env) (se_ctx env) toml token (se_assetCode env))))"

definition session_balance :: "'w session_env \<Rightarrow> ('w, string \<times> js_value) step_act" where
  "session_balance env = session_step
     (eff_bind (public_key env) (\<lambda>account.
      eff_bind (session_asset env) (\<lambda>a.
      eff_bind (loadAccount (se_ctx env) account) (\<lambda>acct.
      eff_bind (sync_step (balanceOf acct (Issued (asset_of a)))) (\<lambda>bal.
      eff_bind (narrated (se_ctx env) ''horizon.balance''
          (''Checked the ledger: '' @ short_key account @ '' holds '' @ show_value (se_ctx env) bal @ '' '' @ fa_code a @ ''.'')
          ''The blockchain is the source of truth for the balance, not the anchor's word.'') (\<lambda>_.
      eff_ret (fa_code a, bal)))))))"

definition simulateBank :: "'w session_env \<Rightarrow> string \<Rightarrow> string \<Rightarrow> ('w, unit) step_act" where
  "simulateBank env i amountFiat = session_step
     (eff_bind (session_toml env) (\<lambda>toml.
      eff_bind (session_fiat env) (\<lambda>fiat. simulateBankTransfer (se_ctx env) toml i amountFiat fiat)))"

section \<open>Journeys\<close>

record deposit_flow_result =
  fr_preflight :: preflight_result
  fr_quote :: anchor_quote
  fr_deposit :: deposit_instructions
  fr_poll :: poll_result
  fr_balanceBefore :: js_value
  fr_balanceAfter :: js_value
  fr_explain :: "explain_record list"

definition runDepositFlow ::
    "'w session_env \<Rightarrow> string \<Rightarrow> bool \<Rightarrow> ('w, unit anchor_session_ext) poll_options \<Rightarrow> ('w, deposit_flow_result) session_act" where
  "runDepositFlow env amountFiat sandboxBank opts =
     eff_bind (reads (\<lambda>s. length (aw_log s))) (\<lambda>mark.
     eff_bind (prepareAccount env \<lparr>po_useFriendbot = None, po_settleTimeoutMs = None\<rparr>) (\<lambda>(pre, _).
     eff_bind (session_balance env) (\<lambda>((_, before), _).
     eff_bind (quoteDeposit env amountFiat) (\<lambda>(quote, _).
     eff_bind (session_startDeposit env amountFiat) (\<lambda>(dep, _).
     eff_bind (if sandboxBank then eff_bind (simulateBank env (di_order dep) amountFiat) (\<lambda>_. eff_ret ()) else eff_ret ()) (\<lambda>_.
     eff_bind (waitForTransaction env (di_order dep) opts) (\<lambda>(poll, _).
     eff_bind (session_balance env) (\<lambda>((_, after), _).
     eff_bind (reads (\<lambda>s. drop mark (aw_log s))) (\<lambda>records.
     eff_ret \<lparr>fr_preflight = pre, fr_quote = quote, fr_deposit = dep, fr_poll = poll, fr_balanceBefore = before,
              fr_balanceAfter = after, fr_explain = records\<rparr>)))))))))"

record withdraw_flow_result =
  wr_quote :: anchor_quote
  wr_withdraw :: withdraw_instructions
  wr_payment :: "js_value \<times> string"
  wr_poll :: poll_result
  wr_balanceBefore :: js_value
  wr_balanceAfter :: js_value
  wr_explain :: "explain_record list"

definition runWithdrawFlow ::
    "'w session_env \<Rightarrow> string \<Rightarrow> ('w, unit anchor_session_ext) poll_options \<Rightarrow> ('w, withdraw_flow_result) session_act" where
  "runWithdrawFlow env amountAsset opts =
     eff_bind (reads (\<lambda>s. length (aw_log s))) (\<lambda>mark.
     eff_bind (session_balance env) (\<lambda>((_, before), _).
     eff_bind (quoteWithdraw env amountAsset) (\<lambda>(quote, _).
     eff_bind (session_startWithdraw env amountAsset) (\<lambda>(w, _).
     eff_bind (payWithdrawal env amountAsset) (\<lambda>(payment, _).
     eff_bind (waitForTransaction env (wi_id w) opts) (\<lambda>(poll, _).
     eff_bind (session_balance env) (\<lambda>((_, after), _).
     eff_bind (reads (\<lambda>s. drop mark (aw_log s))) (\<lambda>records.
     eff_ret \<lparr>wr_quote = quote, wr_withdraw = w, wr_payment = payment, wr_poll = poll, wr_balanceBefore = before,
              wr_balanceAfter = after, wr_explain = records\<rparr>))))))))"

end
