(* ===== verification/Anchor_Select.thy ===== *)
theory Anchor_Select
  imports Anchor_Poll
begin

text \<open>
  Which anchor to use: the registry of \<open>scenarios.ts\<close>, the check of candidates in \<open>selection.ts\<close>, and the
  judgement on the payouts of the mock anchor in \<open>payoutHealth.ts\<close>.
\<close>

section \<open>Scenarios\<close>

datatype scenario_id = Tr_Mock | Sdf_Test | Custom_Anchor

record anchor_scenario =
  sn_id :: scenario_id
  sn_label :: string
  sn_allowed :: "string list"
  sn_fiat :: "string option"
  sn_assetCode :: "string option"
  sn_sep38DeliveryMethod :: "string option"
  sn_notes :: string

definition SEP_SCOPE :: string where "SEP_SCOPE = ''SEP-6 only''"

definition TR_MOCK_HOME_DOMAIN :: string where "TR_MOCK_HOME_DOMAIN = ''tr-mock-anchor.fly.dev''"

definition SDF_HOME_DOMAIN :: string where "SDF_HOME_DOMAIN = ''testanchor.stellar.org''"

definition SDF_DEMO_CUSTOMER :: "(string, string) js_map" where
  "SDF_DEMO_CUSTOMER =
     [(''first_name'', ''Demo''), (''last_name'', ''User''), (''email_address'', ''demo@polaris.invalid''),
      (''address'', ''1 Test Street, Testville''), (''birth_date'', ''1990-01-01''), (''id_type'', ''national_id''),
      (''id_country_code'', ''US''), (''id_issue_date'', ''2015-01-01''), (''id_expiration_date'', ''2035-01-01''),
      (''id_number'', ''TEST-0000001''), (''bank_account_number'', ''000123456789''), (''bank_account_type'', ''checking''),
      (''bank_number'', ''000111222''), (''bank_branch_number'', ''001'')]"

definition demoCustomerFields :: "string \<Rightarrow> (string, string) js_map" where
  "demoCustomerFields homeDomain = (if homeDomain = SDF_HOME_DOMAIN then SDF_DEMO_CUSTOMER else [])"

definition ALLOWED_STEPS :: "string list" where
  "ALLOWED_STEPS = [''sep1.discovery'', ''sep10.login'', ''sep6.info'', ''sep12.customer'', ''sep38.quote'', ''sep6.deposit'',
     ''sep6.withdraw'']"

definition tr_scenario :: anchor_scenario where
  "tr_scenario =
     \<lparr>sn_id = Tr_Mock, sn_label = ''TR path '' @ mdash @ '' SEP-6 only (SEP-24 prohibited in Turkey)'', sn_allowed = ALLOWED_STEPS,
      sn_fiat = Some ''TRY'', sn_assetCode = Some ''USDC'', sn_sep38DeliveryMethod = Some ''bank_account'',
      sn_notes = ''The Turkish path uses the programmatic SEP-6 flow only. SEP-24's hosted/interactive flow is prohibited under MASAK rules and is never read, configured or demoed here.''\<rparr>"

definition sdf_scenario :: anchor_scenario where
  "sdf_scenario =
     \<lparr>sn_id = Sdf_Test,
      sn_label = ''NON-TR test scenario (Stellar SDF test anchor) '' @ mdash
        @ '' full SEP-6 deposit/withdraw loop with clearly-fake SEP-12 demo KYC (USD/SRT)'',
      sn_allowed = ALLOWED_STEPS, sn_fiat = Some ''USD'', sn_assetCode = Some ''SRT'', sn_sep38DeliveryMethod = None,
      sn_notes = ''NON-TR comparison only, never presented as the Turkish path. SEP-12 sends ONLY clearly-fake TEST data: the base demo customer (first_name, last_name, email_address) plus the anchor's requested per-transaction identity/bank fields; any field we do not know still stops with KycRequiredError. Quotes are USD (the anchor does not quote TRY) and the default asset is SRT (its demo asset, deposit type bank_account).''\<rparr>"

definition KNOWN_SCENARIOS :: "(string \<times> anchor_scenario) list" where
  "KNOWN_SCENARIOS = [(TR_MOCK_HOME_DOMAIN, tr_scenario), (SDF_HOME_DOMAIN, sdf_scenario)]"

definition plain_domain_char :: "char \<Rightarrow> bool" where
  "plain_domain_char c \<longleftrightarrow> lower_alnum c \<or> c = CHR ''.'' \<or> c = CHR ''-''"

definition bad_label :: "string \<Rightarrow> bool" where
  "bad_label l \<longleftrightarrow> l = [] \<or> length l > 63 \<or> starts_with ''-'' l \<or> ends_with ''-'' l"

text \<open>A host that only embeds an approved one.\<close>

definition look_alike :: "string \<Rightarrow> string \<Rightarrow> bool" where
  "look_alike known s \<longleftrightarrow> s \<noteq> known \<and> (starts_with (known @ ''.'') s \<or> ends_with (''.'' @ known) s)"

definition assertPlainAnchorDomain :: "string \<Rightarrow> anchor_thrown + string" where
  "assertPlainAnchorDomain input =
     (let s = js_trim input; labels = js_split CHR ''.'' s; tld = last labels in
      if s = [] then Inl (unsafe_anchor ''the anchor domain is empty'')
      else if length s > 253 then Inl (unsafe_anchor ''the anchor domain is too long'')
      else if \<not> list_all plain_domain_char s then
        Inl (unsafe_anchor (dq (take 60 input)
          @ '' is not a plain lowercase domain name (no scheme, port, credentials, path, uppercase or special characters)''))
      else if ends_with ''.'' s then Inl (unsafe_anchor ''the anchor domain must not have a trailing dot'')
      else if contains ''..'' s then Inl (unsafe_anchor ''the anchor domain has an empty label'')
      else if looksLikeIp s then Inl (unsafe_anchor ''the anchor domain must be a domain name, not an IP address'')
      else if length labels < 2 then Inl (unsafe_anchor ''the anchor domain must be a fully qualified domain name'')
      else if list_ex bad_label labels then Inl (unsafe_anchor ''the anchor domain has an invalid label'')
      else if all_digits tld then Inl (unsafe_anchor ''the anchor domain must be a domain name, not an IP address'')
      else if List.member BLOCKED_TLDS tld then Inl (unsafe_anchor ''the anchor domain is a local or private name'')
      else case find (\<lambda>(known, _). look_alike known s) KNOWN_SCENARIOS of
        Some (known, _) \<Rightarrow> Inl (unsafe_anchor (dq s @ '' looks like a look-alike of '' @ known @ '' but is a different host ''
          @ mdash @ '' refusing''))
      | None \<Rightarrow> Inr s)"

definition custom_scenario :: "string \<Rightarrow> anchor_scenario" where
  "custom_scenario host =
     \<lparr>sn_id = Custom_Anchor,
      sn_label = ''CUSTOM anchor ('' @ host @ '') '' @ mdash @ '' UNVERIFIED, not a TR or SDF demo scenario'',
      sn_allowed = [], sn_fiat = None, sn_assetCode = None, sn_sep38DeliveryMethod = None,
      sn_notes = ''Custom home domain: strict validation passed, but nothing about this anchor is verified. SEP-24 is never used. Development only ''
        @ mdash @ '' never present it as the Turkish path.''\<rparr>"

definition describeAnchorScenario :: "string \<Rightarrow> bool \<Rightarrow> anchor_thrown + anchor_scenario" where
  "describeAnchorScenario homeDomain custom =
     and_then (assertPlainAnchorDomain homeDomain) (\<lambda>host.
       case map_of KNOWN_SCENARIOS host of
         Some s \<Rightarrow> Inr s
       | None \<Rightarrow>
           if custom then Inr (custom_scenario host)
           else Inl (unsafe_anchor (dq host @ '' is not an approved anchor scenario; this check supports '' @ TR_MOCK_HOME_DOMAIN
             @ '' and '' @ SDF_HOME_DOMAIN @ '' only (pass { custom: true } to override deliberately)'')))"

section \<open>Candidates\<close>

record anchor_candidate =
  ac_homeDomain :: string
  ac_scenario :: scenario_id
  ac_label :: string
  ac_assetCode :: string
  ac_fiatCode :: "string option"
  ac_sep38DeliveryMethod :: "string option"
  ac_customerFields :: "(string, string) js_map"

definition candidate_of :: "string \<Rightarrow> anchor_thrown + anchor_candidate" where
  "candidate_of homeDomain =
     and_then (describeAnchorScenario homeDomain False) (\<lambda>s.
       Inr \<lparr>ac_homeDomain = homeDomain, ac_scenario = sn_id s, ac_label = sn_label s,
            ac_assetCode = (case sn_assetCode s of Some c \<Rightarrow> c | None \<Rightarrow> DEFAULT_ASSET_CODE),
            ac_fiatCode = sn_fiat s, ac_sep38DeliveryMethod = sn_sep38DeliveryMethod s,
            ac_customerFields = demoCustomerFields homeDomain\<rparr>)"

fun collect_results :: "('a \<Rightarrow> 'e + 'b) \<Rightarrow> 'a list \<Rightarrow> 'e + 'b list" where
  "collect_results f [] = Inr []"
| "collect_results f (x # xs) = and_then (f x) (\<lambda>y. and_then (collect_results f xs) (\<lambda>ys. Inr (y # ys)))"

definition approvedAnchorCandidates :: "string option \<Rightarrow> anchor_thrown + anchor_candidate list" where
  "approvedAnchorCandidates preferred =
     (let order = [SDF_HOME_DOMAIN, TR_MOCK_HOME_DOMAIN];
          tried = (case preferred of
              Some d \<Rightarrow> if d \<noteq> [] \<and> List.member order d then d # filter (\<lambda>x. x \<noteq> d) order else order
            | None \<Rightarrow> order)
      in collect_results candidate_of tried)"

definition NO_ANCHOR_MESSAGE :: string where
  "NO_ANCHOR_MESSAGE = ''No anchor is reachable right now '' @ mdash @ '' try again in a minute''"

record anchor_health =
  hl_homeDomain :: string
  hl_assetCode :: string
  hl_found :: "(anchor_toml \<times> sep6_info) option"
  hl_reason :: string

definition hl_ok :: "anchor_health \<Rightarrow> bool" where
  "hl_ok h \<longleftrightarrow> hl_found h \<noteq> None"

text \<open>The context of a candidate: the injected functions, the defaults of the testnet, a log of its own.\<close>

record 'w selection_deps =
  sd_ctx :: "'w anchor_ctx"
  sd_networkPassphrase :: "string option"
  sd_horizonUrl :: "string option"
  sd_friendbotUrl :: "string option"

definition selection_ctx :: "'w selection_deps \<Rightarrow> 'w anchor_ctx" where
  "selection_ctx deps = (sd_ctx deps)
     \<lparr>ax_horizonUrl := (case sd_horizonUrl deps of Some u \<Rightarrow> u | None \<Rightarrow> TESTNET_HORIZON_URL),
      ax_friendbotUrl := (case sd_friendbotUrl deps of Some u \<Rightarrow> u | None \<Rightarrow> TESTNET_FRIENDBOT_URL),
      ax_networkPassphrase := (case sd_networkPassphrase deps of Some p \<Rightarrow> p | None \<Rightarrow> TESTNET_PASSPHRASE),
      ax_allowInsecure := False, ax_allowedEndpointHosts := None\<rparr>"

definition own_log :: "(('w, 'z) anchor_world_scheme, 'e, 'a) eff \<Rightarrow> (('w, 'z) anchor_world_scheme, 'e, 'a) eff" where
  "own_log m s = (case m (s\<lparr>aw_log := []\<rparr>) of None \<Rightarrow> None | Some (r, s') \<Rightarrow> Some (r, s'\<lparr>aw_log := aw_log s\<rparr>))"

definition reasonOf :: "anchor_thrown \<Rightarrow> string" where
  "reasonOf e =
     (let line = js_trim (takeWhile (\<lambda>c. c \<noteq> CHR 0x0A) (anchor_message e));
          first = (if line = [] then ''unhealthy'' else line)
      in case sanitize_text first 160 of Some t \<Rightarrow> t | None \<Rightarrow> ''unhealthy'')"

definition probe :: "'w anchor_ctx \<Rightarrow> anchor_candidate \<Rightarrow> ('w, 'z, anchor_toml \<times> sep6_info) act" where
  "probe ctx c =
     eff_bind (discoverAnchor ctx (ac_homeDomain c)) (\<lambda>toml.
     eff_bind (sync_step (findAsset toml (ac_assetCode c) (KNOWN_ISSUERS (ac_homeDomain c) (ac_assetCode c)))) (\<lambda>_.
     eff_bind (getInfo ctx toml (ac_assetCode c)) (\<lambda>info.
     if enabled_in (si_deposit info) (ac_assetCode c) \<or> enabled_in (si_withdraw info) (ac_assetCode c) then eff_ret (toml, info)
     else eff_throw (plain_throw (''SEP-6 /info does not enable '' @ ac_assetCode c @ '' for deposit or withdraw'')))))"

definition preflightAnchor ::
    "'w selection_deps \<Rightarrow> anchor_candidate \<Rightarrow> (('w, 'z) anchor_world_scheme, 'e, anchor_health) eff" where
  "preflightAnchor deps c =
     eff_try (own_log (probe (selection_ctx deps) c))
       (\<lambda>e. eff_ret \<lparr>hl_homeDomain = ac_homeDomain c, hl_assetCode = ac_assetCode c, hl_found = None, hl_reason = reasonOf e\<rparr>)
       (\<lambda>f. eff_ret \<lparr>hl_homeDomain = ac_homeDomain c, hl_assetCode = ac_assetCode c, hl_found = Some f, hl_reason = []\<rparr>)"

text \<open>The candidates are probed in order until one is healthy; the failure carries what each one said.\<close>

fun select_from ::
    "'w selection_deps \<Rightarrow> anchor_health list \<Rightarrow> anchor_candidate list
       \<Rightarrow> (('w, 'z) anchor_world_scheme, anchor_health list, anchor_candidate \<times> anchor_health list) eff" where
  "select_from deps seen [] = eff_throw seen"
| "select_from deps seen (c # cs) =
     eff_bind (preflightAnchor deps c) (\<lambda>h.
       if hl_ok h then eff_ret (c, seen @ [h]) else select_from deps (seen @ [h]) cs)"

definition selectAnchor ::
    "'w selection_deps \<Rightarrow> anchor_candidate list
       \<Rightarrow> (('w, 'z) anchor_world_scheme, anchor_health list, anchor_candidate \<times> anchor_health list) eff" where
  "selectAnchor deps cs = select_from deps [] cs"

section \<open>Payout health\<close>

definition TR_MOCK_TREASURY :: string where
  "TR_MOCK_TREASURY = ''GCLCZEQZ2THTEDAOFI66LACNPLY4OBKN7VKLEZFMBIHYKYQOW2W7T3Z6''"

definition PAYOUT_FLOWING_WITHIN_MS :: int where "PAYOUT_FLOWING_WITHIN_MS = 10 * 60 * 1000"

definition PAYOUT_STALLED_AFTER_MS :: int where "PAYOUT_STALLED_AFTER_MS = 30 * 60 * 1000"

definition PAYMENT_HISTORY_LIMIT :: nat where "PAYMENT_HISTORY_LIMIT = 200"

definition CLOCK_SKEW_TOLERANCE_MS :: int where "CLOCK_SKEW_TOLERANCE_MS = 2 * 60 * 1000"

record payout_payment =
  py_outgoing :: bool
  py_createdAt :: string
  py_amount :: "string option"
  py_assetCode :: "string option"

datatype payout_verdict = Payouts_Flowing | Payouts_Stalled | Payouts_Unknown

record payout_health =
  ph_verdict :: payout_verdict
  ph_treasury :: string
  ph_fromHealth :: bool
  ph_totalPayments :: nat
  ph_outgoingCount :: nat
  ph_incomingCount :: nat
  ph_newestOutgoingAt :: "string option"
  ph_oldestOutgoingAt :: "string option"
  ph_newestIncomingAt :: "string option"
  ph_incomingSinceNewestOutgoing :: nat
  ph_ageOfNewestOutgoingMs :: "int option"
  ph_reasons :: "string list"

text \<open>The extreme of the times seen so far, the first of equal ones.\<close>

definition extreme_at :: "(int \<Rightarrow> int \<Rightarrow> bool) \<Rightarrow> (string \<Rightarrow> int option) \<Rightarrow> string option \<Rightarrow> string \<Rightarrow> string option" where
  "extreme_at better parse best created =
     (case best of
        None \<Rightarrow> Some created
      | Some b \<Rightarrow> (case (parse created, parse b) of
          (Some t, Some u) \<Rightarrow> if better t u then Some created else Some b
        | _ \<Rightarrow> Some b))"

text \<open>\<open>Math.round(ms / 60000)\<close>.\<close>

definition minutes_of :: "int \<Rightarrow> int" where
  "minutes_of ms = (ms + 30000) div 60000"

definition judge_payouts :: "nat \<Rightarrow> nat \<Rightarrow> nat \<Rightarrow> int option \<Rightarrow> payout_verdict \<times> string list" where
  "judge_payouts counted incoming incomingSince age =
     (if counted = 0 then
        (Payouts_Unknown, [''Horizon returned no payments for the treasury, so there is nothing to judge.''])
      else if (case age of Some a \<Rightarrow> a < - CLOCK_SKEW_TOLERANCE_MS | None \<Rightarrow> False) then
        (Payouts_Unknown,
         [''The newest outgoing payment is dated about '' @ show_int (minutes_of (- the age)) @ '' min in the future (> ''
            @ show_int (CLOCK_SKEW_TOLERANCE_MS div 60000) @ '' min clock-skew tolerance), ''
            @ ''so its age cannot be trusted; not treating it as evidence that payouts are flowing.''])
      else if (case age of Some a \<Rightarrow> a \<le> PAYOUT_FLOWING_WITHIN_MS | None \<Rightarrow> False) then
        (Payouts_Flowing,
         [''The newest outgoing payment is about '' @ show_int (minutes_of (the age)) @ '' min old (within the ''
            @ show_int (PAYOUT_FLOWING_WITHIN_MS div 60000) @ '' min heuristic).''])
      else if incoming > 0 \<and> (case age of Some a \<Rightarrow> a > PAYOUT_STALLED_AFTER_MS | None \<Rightarrow> True) then
        (Payouts_Stalled,
         [(case age of
             None \<Rightarrow> ''No outgoing payment appears in the last '' @ dec_digits PAYMENT_HISTORY_LIMIT @ '' records while ''
               @ dec_digits incoming @ '' incoming payment(s) exist.''
           | Some a \<Rightarrow> ''The newest outgoing payment is about '' @ show_int (minutes_of a) @ '' min old (> ''
               @ show_int (PAYOUT_STALLED_AFTER_MS div 60000) @ '' min heuristic) while '' @ dec_digits incomingSince
               @ '' incoming payment(s) arrived after it.''),
          ''Deposit payouts look stalled; this is advisory evidence for the anchor operators, not proof.''])
      else
        (Payouts_Unknown,
         [''The newest outgoing payment is in the indeterminate window (or there is no incoming demand), so the pipeline cannot be judged from this history.'']))"

definition classifyPayoutHealth ::
    "(string \<Rightarrow> int option) \<Rightarrow> payout_payment list \<Rightarrow> int \<Rightarrow> string \<Rightarrow> bool \<Rightarrow> payout_health" where
  "classifyPayoutHealth parse payments nowMs treasury fromHealth =
     (let dated = filter (\<lambda>p. parse (py_createdAt p) \<noteq> None) payments;
          outgoing = map py_createdAt (filter py_outgoing dated);
          incoming = map py_createdAt (filter (\<lambda>p. \<not> py_outgoing p) dated);
          newestOut = foldl (extreme_at (>) parse) None outgoing;
          newestMs = Option.bind newestOut parse;
          age = map_option (\<lambda>t. nowMs - t) newestMs;
          since = (case newestMs of
              None \<Rightarrow> length incoming
            | Some m \<Rightarrow> length (filter (\<lambda>p. \<not> py_outgoing p
                \<and> (case parse (py_createdAt p) of Some t \<Rightarrow> t > m | None \<Rightarrow> False)) payments));
          counted = length outgoing + length incoming;
          (verdict, reasons) = judge_payouts counted (length incoming) since age
      in \<lparr>ph_verdict = verdict, ph_treasury = treasury, ph_fromHealth = fromHealth, ph_totalPayments = counted,
          ph_outgoingCount = length outgoing, ph_incomingCount = length incoming, ph_newestOutgoingAt = newestOut,
          ph_oldestOutgoingAt = foldl (extreme_at (<) parse) None outgoing,
          ph_newestIncomingAt = foldl (extreme_at (>) parse) None incoming,
          ph_incomingSinceNewestOutgoing = since, ph_ageOfNewestOutgoingMs = age, ph_reasons = reasons\<rparr>)"

definition account_in :: "js_value \<Rightarrow> string list \<Rightarrow> string option" where
  "account_in v keys =
     (case List.map_filter (\<lambda>k. case js_field v k of
             V_Str s \<Rightarrow> if stellar_address_re s then Some s else None | _ \<Rightarrow> None) keys of
        s # _ \<Rightarrow> Some s
      | [] \<Rightarrow> None)"

definition findTreasuryAddress :: "js_value \<Rightarrow> string option" where
  "findTreasuryAddress health =
     (if \<not> is_object health then None
      else case account_in (js_field health ''treasury'') [''address'', ''account'', ''account_id'', ''accountId''] of
        Some s \<Rightarrow> Some s
      | None \<Rightarrow> account_in health [''treasury_address'', ''treasuryAddress''])"

definition payment_types :: "string list" where
  "payment_types = [''payment'', ''path_payment_strict_send'', ''path_payment_strict_receive'']"

definition parse_payment :: "(string \<Rightarrow> int option) \<Rightarrow> string \<Rightarrow> js_value \<Rightarrow> payout_payment option" where
  "parse_payment parse treasury r =
     (if \<not> is_object r \<or> \<not> list_ex (\<lambda>t. js_field r ''type'' = V_Str t) payment_types then None
      else case (js_field r ''from'', js_field r ''to'', js_field r ''created_at'') of
        (V_Str f, V_Str t, V_Str created) \<Rightarrow>
          if f \<noteq> treasury \<and> t \<noteq> treasury \<or> created = [] \<or> parse created = None then None
          else Some \<lparr>py_outgoing = (f = treasury), py_createdAt = created,
                     py_amount = string_value (js_field r ''amount''), py_assetCode = string_value (js_field r ''asset_code'')\<rparr>
      | _ \<Rightarrow> None)"

definition parseHorizonPayments :: "(string \<Rightarrow> int option) \<Rightarrow> js_value \<Rightarrow> string \<Rightarrow> payout_payment list" where
  "parseHorizonPayments parse raw treasury =
     (case js_field (js_field raw ''_embedded'') ''records'' of
        V_Arr rs \<Rightarrow> List.map_filter (parse_payment parse treasury) rs
      | _ \<Rightarrow> [])"

definition readPayoutHealth ::
    "'w anchor_ctx \<Rightarrow> string option \<Rightarrow> int option \<Rightarrow> ('w, 'z, payout_health \<times> bool) act" where
  "readPayoutHealth ctx homeDomain at_time =
     (let home = (case homeDomain of Some d \<Rightarrow> d | None \<Rightarrow> TR_MOCK_HOME_DOMAIN) in
      eff_bind (case at_time of Some t \<Rightarrow> eff_ret t | None \<Rightarrow> ctx_now ctx) (\<lambda>now.
      eff_bind
        (eff_try (requestJson ctx (''https://'' @ home @ ''/health'') plain_get)
           (\<lambda>_. eff_ret (TR_MOCK_TREASURY, False, False))
           (\<lambda>health. eff_ret (case findTreasuryAddress health of
              Some t \<Rightarrow> (t, True, True) | None \<Rightarrow> (TR_MOCK_TREASURY, False, True))))
        (\<lambda>(treasury, fromHealth, reachable).
      eff_bind (requestJson ctx (ax_horizonUrl ctx @ ''/accounts/'' @ treasury @ ''/payments?order=desc&limit=''
          @ dec_digits PAYMENT_HISTORY_LIMIT) plain_get) (\<lambda>raw.
      eff_ret (classifyPayoutHealth (ax_date_parse ctx) (parseHorizonPayments (ax_date_parse ctx) raw treasury) now treasury fromHealth,
               reachable)))))"

end
