(* ===== verification/Anchor_Tools.thy ===== *)
theory Anchor_Tools
  imports Anchor_Session Anchor_Select
begin

text \<open>
  The two front ends of the anchor client: the tools of \<open>chainTools.ts\<close>, which hand one envelope with
  its card to the approval, and the check of \<open>check.ts\<close>, whose lines go to a sink that extends the
  world.  Process arguments, the exit code and the throwaway key are outside.
\<close>

section \<open>Chain tools\<close>

record anchor_intent =
  in_kind :: string
  in_amount :: string

record anchor_card =
  cd_title :: string
  cd_lines :: "string list"
  cd_explorerUrl :: "string option"
  cd_estimatedFee :: string

record anchor_tool_result =
  tr_unsignedXdr :: string
  tr_summary :: anchor_card

definition getAnchorSession :: "'w session_env option \<Rightarrow> ('w, 'w session_env) session_act" where
  "getAnchorSession active =
     (case active of
        Some env \<Rightarrow> eff_ret env
      | None \<Rightarrow> eff_throw (plain_throw ''anchor is not configured: call configureAnchor({ signer }) first''))"

definition wrong_kind :: "string \<Rightarrow> string \<Rightarrow> string \<Rightarrow> anchor_thrown" where
  "wrong_kind tool expected kind = plain_throw (tool @ '' expects a '' @ dq expected @ '' intent, got '' @ dq kind)"

definition deposit_plan :: "'w session_env \<Rightarrow> anchor_quote \<Rightarrow> string list" where
  "deposit_plan env quote =
     [''Deposit '' @ aq_sellAmount quote @ '' '' @ displayAsset (aq_sellAsset quote) @ '' by bank transfer to the anchor (''
        @ se_homeDomain env @ '').'',
      ''Estimated result: about '' @ aq_buyAmount quote @ '' '' @ displayAsset (aq_buyAsset quote)
        @ (case aq_feeTotal quote of
             Some t \<Rightarrow> '' (anchor fee '' @ t @ '' '' @ displayAsset (or_default (aq_feeAsset quote) (aq_sellAsset quote)) @ '')''
           | None \<Rightarrow> []) @ ''.'']"

definition depositTry :: "'w session_env option \<Rightarrow> anchor_intent \<Rightarrow> ('w, anchor_tool_result) session_act" where
  "depositTry active intent =
     (if in_kind intent \<noteq> ''deposit'' then eff_throw (wrong_kind ''depositTry'' ''deposit'' (in_kind intent))
      else
        eff_bind (pure_step (assertAmount (in_amount intent) ''deposit amount'')) (\<lambda>_.
        eff_bind (getAnchorSession active) (\<lambda>env.
        let passphrase = ax_networkPassphrase (se_ctx env) in
        eff_bind (quoteDeposit env (in_amount intent)) (\<lambda>(quote, _).
        eff_bind (session_inspect env) (\<lambda>(state, _).
        let target = displayAsset (aq_buyAsset quote); plan = deposit_plan env quote in
        eff_bind (if as_exists state \<and> \<not> as_hasTrustline state
                  then eff_bind (session_buildTrustline env) (\<lambda>(xdr, _). eff_ret xdr) else eff_ret None) (\<lambda>trust.
        case trust of
          Some xdr \<Rightarrow>
            eff_bind (sync_step (describeXdr (se_sdk env) xdr passphrase)) (\<lambda>d.
            eff_ret
              \<lparr>tr_unsignedXdr = xdr,
               tr_summary =
                 \<lparr>cd_title = ''Allow '' @ target @ '' on your account (needed before the deposit)'',
                  cd_lines = plan @ xd_lines d @ [''Without this the anchor would hold the deposit in pending_trust.''],
                  cd_explorerUrl = None, cd_estimatedFee = xd_feeXlm d @ '' XLM''\<rparr>\<rparr>)
        | None \<Rightarrow>
            eff_bind (beginLogin env) (\<lambda>(challengeXdr, _).
            eff_bind (sync_step (describeXdr (se_sdk env) challengeXdr passphrase)) (\<lambda>d.
            eff_ret
              \<lparr>tr_unsignedXdr = challengeXdr,
               tr_summary =
                 \<lparr>cd_title = ''Sign in to '' @ se_homeDomain env @ '' to start the deposit'',
                  cd_lines = plan @ xd_lines d
                    @ (if as_exists state then []
                       else [''Your account does not exist on the network yet; it must be funded first (testnet: Friendbot).'']),
                  cd_explorerUrl = None, cd_estimatedFee = ''0 XLM (authentication only, never submitted)''\<rparr>\<rparr>))))))))"

definition withdrawTry :: "'w session_env option \<Rightarrow> anchor_intent \<Rightarrow> ('w, anchor_tool_result) session_act" where
  "withdrawTry active intent =
     (if in_kind intent \<noteq> ''withdraw'' then eff_throw (wrong_kind ''withdrawTry'' ''withdraw'' (in_kind intent))
      else
        eff_bind (pure_step (assertAmount (in_amount intent) ''withdraw amount'')) (\<lambda>_.
        eff_bind (getAnchorSession active) (\<lambda>env.
        eff_bind (quoteWithdraw env (in_amount intent)) (\<lambda>(quote, _).
        eff_bind (session_startWithdraw env (in_amount intent)) (\<lambda>_.
        eff_bind (prepareWithdrawal env (in_amount intent)) (\<lambda>((xdr, card), _).
        eff_ret
          \<lparr>tr_unsignedXdr = xdr,
           tr_summary =
             \<lparr>cd_title = su_title card,
              cd_lines = (''Cash out '' @ aq_sellAmount quote @ '' '' @ displayAsset (aq_sellAsset quote) @ '' at '' @ se_homeDomain env
                  @ ''; the anchor pays about '' @ aq_buyAmount quote @ '' '' @ displayAsset (aq_buyAsset quote) @ '' to your bank.'')
                # su_lines card,
              cd_explorerUrl = Some (su_explorerUrl card), cd_estimatedFee = su_estimatedFee card\<rparr>\<rparr>))))))"

text \<open>Submitting a signed envelope; the context is that of the session, or the defaults.\<close>

definition submit_allowed :: "anchor_sdk \<Rightarrow> string \<Rightarrow> string \<Rightarrow> string option \<Rightarrow> anchor_thrown + unit" where
  "submit_allowed sdk passphrase signedXdr expectedXdr =
     and_then (fromXDR sdk signedXdr passphrase) (\<lambda>tx.
       if dt_signatures tx = 0 then Inl (plain_throw ''refusing to submit an unsigned transaction'')
       else if dt_is_transaction tx \<and> dt_sequence tx = ''0'' then
         Inl (plain_throw ''this is a SEP-10 login challenge (sequence 0); send it to AnchorSession.finishLogin(), not to the network'')
       else case expectedXdr of
         Some (c # e) \<Rightarrow> assertSameTransaction sdk (c # e) signedXdr passphrase
       | _ \<Rightarrow> Inr ())"

definition submitSignedTx ::
    "anchor_sdk \<Rightarrow> 'w anchor_ctx \<Rightarrow> string \<Rightarrow> string option \<Rightarrow> ('w, 'z, js_value \<times> string) act" where
  "submitSignedTx sdk ctx signedXdr expectedXdr =
     eff_bind (sync_step (submit_allowed sdk (ax_networkPassphrase ctx) signedXdr expectedXdr)) (\<lambda>_.
     eff_bind (submitEnvelope ctx signedXdr) (\<lambda>out.
     eff_bind (sync_step (hash_prefix ctx (so_hash out))) (\<lambda>prefix.
     eff_bind (narrated ctx ''submit''
         (''Submitted the signed transaction to the Stellar network; it is final in ledger ''
           @ (case so_ledger out of Some n \<Rightarrow> ax_show ctx (V_Num n) | None \<Rightarrow> ''?'') @ '' (hash '' @ prefix @ ''...).'')
         ''Only after your approval and signature does anything reach the blockchain.'') (\<lambda>_.
     eff_ret (so_hash out, explorerTxUrl (show_value ctx (so_hash out)) (ax_networkPassphrase ctx))))))"

section \<open>The check\<close>

definition SDF_KYC_FINAL_LINE :: string where
  "SDF_KYC_FINAL_LINE = ''SEP-12: uses only clearly-fake TEST data for this SDF test anchor (base customer first_name, last_name, email_address plus the requested per-transaction identity fields); any field we do not know still stops with KycRequiredError''"

record scenario_plan =
  sl_scenario :: anchor_scenario
  sl_homeDomain :: string
  sl_steps :: "(string \<times> string) list"

datatype step_status = Step_Pass | Step_Fail | Step_Skip

fun step_status_name :: "step_status \<Rightarrow> string" where
  "step_status_name Step_Pass = ''PASS''"
| "step_status_name Step_Fail = ''FAIL''"
| "step_status_name Step_Skip = ''SKIP''"

record scenario_result =
  sr_scenario :: anchor_scenario
  sr_homeDomain :: string
  sr_steps :: "(string \<times> step_status \<times> string) list"
  sr_finalLine :: "string option"

definition buildScenarioPlan :: "anchor_scenario \<Rightarrow> string \<Rightarrow> scenario_plan" where
  "buildScenarioPlan scenario homeDomain =
     \<lparr>sl_scenario = scenario, sl_homeDomain = homeDomain,
      sl_steps =
        [(''SEP-1 discovery'', ''GET https://'' @ homeDomain
            @ ''/.well-known/stellar.toml (signing key + auth/transfer/kyc/quote endpoints)''),
         (''SEP-6 /info'', ''GET <TRANSFER_SERVER>/info (authentication_required, min/max amounts, fees)''),
         (''SEP-10 login'', ''GET <WEB_AUTH_ENDPOINT>?account=<throwaway> -> validate challenge -> sign -> POST token (JWT never printed)'')]\<rparr>"

definition endpointPath :: "'w anchor_ctx \<Rightarrow> string \<Rightarrow> string" where
  "endpointPath ctx u =
     (case ax_url ctx u of
        None \<Rightarrow> ''?''
      | Some p \<Rightarrow> or_default (sanitize_text (up_pathname p) 60) ''/'')"

definition authFlag :: "js_value \<Rightarrow> string" where
  "authFlag v = (if v = V_Bool True then ''true'' else if v = V_Bool False then ''false'' else ''absent'')"

definition number_or_absent :: "'w anchor_ctx \<Rightarrow> js_value \<Rightarrow> string" where
  "number_or_absent ctx v = (case v of V_Num n \<Rightarrow> ax_show ctx v | _ \<Rightarrow> ''absent'')"

definition summarizeInfoAssets :: "'w anchor_ctx \<Rightarrow> js_value \<Rightarrow> string" where
  "summarizeInfoAssets ctx v =
     (if \<not> is_object v then ''none''
      else
        let parts = List.map_filter (\<lambda>(code, i).
              if \<not> ASSET_CODE code \<or> \<not> is_object i then None
              else Some (code @ ''('' @ js_join '', ''
                ([''enabled='' @ (if js_field i ''enabled'' = V_Bool True then ''true'' else ''false''),
                  ''auth='' @ authFlag (js_field i ''authentication_required''),
                  ''min='' @ number_or_absent ctx (js_field i ''min_amount''),
                  ''max='' @ number_or_absent ctx (js_field i ''max_amount''),
                  ''fee_percent='' @ number_or_absent ctx (js_field i ''fee_percent'')]
                 @ (case js_field i ''fee_fixed'' of V_Num n \<Rightarrow> [''fee_fixed='' @ ax_show ctx (V_Num n)] | _ \<Rightarrow> [])) @ '')''))
              (object_entries v)
        in if parts = [] then ''none'' else js_join ''; '' parts)"

text \<open>The two patterns are tried on the lower-case text.\<close>

definition looksLikeAccountMissing :: "anchor_thrown \<Rightarrow> bool" where
  "looksLikeAccountMissing e \<longleftrightarrow>
     (let m = js_lower (anchor_message e) in
      (case e of
         Http_Thrown h \<Rightarrow> he_status h = 404 \<or> he_status h = 400 \<and> contains ''account'' m
       | _ \<Rightarrow> False)
      \<or> (case e of Js_Thrown (Js_Value s) \<Rightarrow> False | _ \<Rightarrow>
           list_ex (\<lambda>p. contains p m)
             [''account not found'', ''account does not exist'', ''account is not found'', ''account is does not exist'', ''unfunded'']))"

definition message_of :: "anchor_thrown \<Rightarrow> string" where
  "message_of e = or_default (sanitize_text (anchor_message e) 200) ''unknown error''"

definition final_line :: "anchor_scenario \<Rightarrow> string option" where
  "final_line scenario = (if sn_id scenario = Sdf_Test then Some SDF_KYC_FINAL_LINE else None)"

text \<open>An attempt at one step: its outcome is recorded, whatever happens.\<close>

definition attempt :: "string \<Rightarrow> ('w, 'z, string) act \<Rightarrow> (('w, 'z) anchor_world_scheme, 'e, string \<times> step_status \<times> string) eff" where
  "attempt name m = eff_try m (\<lambda>e. eff_ret (name, Step_Fail, message_of e)) (\<lambda>d. eff_ret (name, Step_Pass, d))"

definition discovery_detail :: "'w anchor_ctx \<Rightarrow> anchor_toml \<Rightarrow> string" where
  "discovery_detail ctx toml =
     ''signing key '' @ short_key (am_signingKey toml) @ ''; auth='' @ endpointPath ctx (am_webAuthEndpoint toml) @ ''; ''
       @ ''transfer='' @ endpointPath ctx (am_transferServer toml)
       @ ''; kyc='' @ (case am_kycServer toml of Some k \<Rightarrow> if k = [] then ''none'' else endpointPath ctx k | None \<Rightarrow> ''none'') @ ''; ''
       @ ''quote='' @ (case am_quoteServer toml of Some q \<Rightarrow> if q = [] then ''none'' else endpointPath ctx q | None \<Rightarrow> ''none'')"

definition info_detail :: "'w anchor_ctx \<Rightarrow> anchor_toml \<Rightarrow> ('w, 'z, string) act" where
  "info_detail ctx toml =
     eff_bind (requestJson ctx (am_transferServer toml @ ''/info'') plain_get) (\<lambda>raw.
     eff_bind (sync_step (read_prop raw ''authentication_required'')) (\<lambda>flag.
     eff_ret (''authentication_required(top)='' @ authFlag flag @ ''; deposit: ''
       @ summarizeInfoAssets ctx (js_field raw ''deposit'') @ ''; withdraw: '' @ summarizeInfoAssets ctx (js_field raw ''withdraw''))))"

definition login_detail ::
    "anchor_sdk \<Rightarrow> web_auth \<Rightarrow> 'w anchor_ctx \<Rightarrow> ('w \<Rightarrow> 'w anchor_signer \<times> 'w) \<Rightarrow> anchor_scenario \<Rightarrow> anchor_toml \<Rightarrow> ('w, 'z, string) act" where
  "login_detail sdk wa ctx newSigner scenario toml =
     eff_bind (ext_call (\<lambda>w. case newSigner w of (s, w') \<Rightarrow> (Inr s, w'))) (\<lambda>signer.
     eff_bind (ext_call (sg_publicKey signer)) (\<lambda>account.
     eff_bind
       (eff_try (requestChallenge wa ctx toml account)
          (\<lambda>e. if sn_id scenario = Sdf_Test \<and> looksLikeAccountMissing e then
                 eff_bind (requestJson ctx (ax_friendbotUrl ctx) (plain_get\<lparr>ro_query := Some [(''addr'', Some account)]\<rparr>)) (\<lambda>_.
                 eff_bind (requestChallenge wa ctx toml account) (\<lambda>challenge.
                 eff_ret (challenge, '' (throwaway account funded by Friendbot first: this anchor needs an existing account)'')))
               else eff_throw e)
          (\<lambda>challenge. eff_ret (challenge, []))) (\<lambda>(challenge, fundedNote).
     eff_bind (ask_signature signer challenge (ax_networkPassphrase ctx)) (\<lambda>signed.
     eff_bind (completeChallenge sdk wa ctx toml account challenge signed) (\<lambda>token.
     eff_bind (eff_of (named_throw ''RangeError'')
         (case au_expiresAt token of Some t \<Rightarrow> iso_string t | None \<Rightarrow> Inr ''not reported'')) (\<lambda>expires.
     eff_ret (''account='' @ short_key account @ ''; challenge validated before signing; ''
       @ ''jwt length='' @ dec_digits (length (au_jwt token)) @ ''; expiresAt='' @ expires @ fundedNote)))))))"

definition skipped_steps :: "(string \<times> step_status \<times> string) list" where
  "skipped_steps = [(''SEP-6 /info'', Step_Skip, ''skipped: no stellar.toml''), (''SEP-10 login'', Step_Skip, ''skipped: no stellar.toml'')]"

definition runScenarioLive ::
    "anchor_sdk \<Rightarrow> web_auth \<Rightarrow> 'w anchor_ctx \<Rightarrow> ('w \<Rightarrow> 'w anchor_signer \<times> 'w) \<Rightarrow> anchor_scenario \<Rightarrow> string
       \<Rightarrow> (('w, 'z) anchor_world_scheme, 'e, scenario_result) eff" where
  "runScenarioLive sdk wa ctx newSigner scenario homeDomain =
     (let result = (\<lambda>steps. \<lparr>sr_scenario = scenario, sr_homeDomain = homeDomain, sr_steps = steps,
                              sr_finalLine = final_line scenario\<rparr>) in
      eff_try (discoverAnchor ctx homeDomain)
        (\<lambda>e. eff_ret (result ((''SEP-1 discovery'', Step_Fail, message_of e) # skipped_steps)))
        (\<lambda>toml.
           eff_bind (attempt ''SEP-6 /info'' (info_detail ctx toml)) (\<lambda>info.
           eff_bind (attempt ''SEP-10 login'' (login_detail sdk wa ctx newSigner scenario toml)) (\<lambda>login.
           eff_ret (result [(''SEP-1 discovery'', Step_Pass, discovery_detail ctx toml), info, login])))))"

definition formatPlan :: "scenario_plan \<Rightarrow> string list" where
  "formatPlan plan =
     (let s = sl_scenario plan in
      [''Scenario ['' @ (case sn_id s of Tr_Mock \<Rightarrow> ''tr-mock'' | Sdf_Test \<Rightarrow> ''sdf-test'' | Custom_Anchor \<Rightarrow> ''custom'') @ '']: '' @ sn_label s,
       ''  home domain : '' @ sl_homeDomain plan, ''  scope       : '' @ SEP_SCOPE,
       ''  allowed     : '' @ (if sn_allowed s \<noteq> [] then js_join '', '' (sn_allowed s) else ''none (unverified)''),
       ''  notes       : '' @ sn_notes s, ''  planned steps:'']
      @ map (\<lambda>(name, detail). ''    - '' @ pad_end 18 CHR '' '' name @ '' '' @ detail) (sl_steps plan))"

definition formatResult :: "scenario_result \<Rightarrow> string list" where
  "formatResult r =
     (let s = sr_scenario r in
      [''Scenario ['' @ (case sn_id s of Tr_Mock \<Rightarrow> ''tr-mock'' | Sdf_Test \<Rightarrow> ''sdf-test'' | Custom_Anchor \<Rightarrow> ''custom'') @ '']: '' @ sn_label s,
       ''  home domain: '' @ sr_homeDomain r]
      @ map (\<lambda>(name, st, detail). ''  '' @ pad_end 18 CHR '' '' name @ '' '' @ pad_end 4 CHR '' '' (step_status_name st) @ '' '' @ detail) (sr_steps r)
      @ (case sr_finalLine r of Some l \<Rightarrow> [''  '' @ l] | None \<Rightarrow> []))"

record 'w check_world = "'w anchor_world" +
  cw_out :: "string list"

definition print_lines :: "string list \<Rightarrow> ('w check_world, 'e, unit) eff" where
  "print_lines ls = writes (\<lambda>s. s\<lparr>cw_out := cw_out s @ ls\<rparr>)"

record check_options =
  ko_homeDomains :: "string list"
  ko_live :: bool
  ko_payoutCheck :: bool

record check_report =
  kr_plans :: "scenario_plan list"
  kr_results :: "scenario_result list"
  kr_payout :: "(payout_health \<times> bool) option"
  kr_payoutError :: "string option"
  kr_ok :: bool

text \<open>The context of the check: the injected functions with the defaults of the testnet.\<close>

definition check_ctx :: "'w anchor_ctx \<Rightarrow> 'w anchor_ctx" where
  "check_ctx ctx = selection_ctx \<lparr>sd_ctx = ctx, sd_networkPassphrase = None, sd_horizonUrl = None, sd_friendbotUrl = None\<rparr>"

fun run_live ::
    "anchor_sdk \<Rightarrow> web_auth \<Rightarrow> 'w anchor_ctx \<Rightarrow> ('w \<Rightarrow> 'w anchor_signer \<times> 'w) \<Rightarrow> (anchor_scenario \<times> string) list
       \<Rightarrow> ('w check_world, anchor_thrown, scenario_result list) eff" where
  "run_live sdk wa ctx newSigner [] = eff_ret []"
| "run_live sdk wa ctx newSigner ((scenario, d) # rest) =
     eff_bind (runScenarioLive sdk wa ctx newSigner scenario d) (\<lambda>r.
     eff_bind (print_lines (formatResult r @ [[]])) (\<lambda>_.
     eff_bind (run_live sdk wa ctx newSigner rest) (\<lambda>rs. eff_ret (r # rs))))"

definition payout_lines :: "payout_health \<Rightarrow> string list" where
  "payout_lines p =
     [''  treasury       : '' @ short_key (ph_treasury p) @ '' ('' @ (if ph_fromHealth p then ''health'' else ''documented'') @ '')'',
      ''  verdict        : '' @ (case ph_verdict p of Payouts_Flowing \<Rightarrow> ''payouts-flowing'' | Payouts_Stalled \<Rightarrow> ''payouts-stalled''
          | Payouts_Unknown \<Rightarrow> ''unknown''),
      ''  newest outgoing: '' @ or_default (ph_newestOutgoingAt p) ''none in the last 200 records'',
      ''  incoming since : '' @ dec_digits (ph_incomingSinceNewestOutgoing p) @ '' (of '' @ dec_digits (ph_incomingCount p) @ '' incoming)'']
     @ map (\<lambda>r. ''  reason         : '' @ r) (ph_reasons p)"

definition planned_payout :: "anchor_scenario list \<Rightarrow> string" where
  "planned_payout scenarios =
     (if list_ex (\<lambda>s. sn_id s = Tr_Mock) scenarios
      then ''TR payout-health (planned): read https://'' @ TR_MOCK_HOME_DOMAIN
        @ ''/health and the treasury'' @ CHR 0x27 # ''s Horizon payments, then classify.''
      else ''TR payout-health (planned): payout-check applies to the TR mock only; the requested --home-domain is not the TR scenario, so no payout read is planned.'')"

definition no_step_failed :: "scenario_result list \<Rightarrow> bool" where
  "no_step_failed results = list_all (\<lambda>r. list_all (\<lambda>(_, st, _). st \<noteq> Step_Fail) (sr_steps r)) results"

definition check_payout :: "'w anchor_ctx \<Rightarrow> check_report \<Rightarrow> ('w check_world, anchor_thrown, check_report) eff" where
  "check_payout ctx report =
     eff_bind (print_lines [''TR payout-health (read-only)'']) (\<lambda>_.
     eff_bind
       (eff_try
          (eff_bind (ctx_now ctx) (\<lambda>t. readPayoutHealth ctx (Some TR_MOCK_HOME_DOMAIN) (Some t)))
          (\<lambda>e. eff_bind (print_lines [''  FAILED: '' @ message_of e]) (\<lambda>_.
                eff_ret (report\<lparr>kr_payoutError := Some (message_of e), kr_ok := False\<rparr>)))
          (\<lambda>p. eff_bind (print_lines (payout_lines (fst p))) (\<lambda>_. eff_ret (report\<lparr>kr_payout := Some p\<rparr>)))) (\<lambda>report'.
     eff_bind (print_lines [[]]) (\<lambda>_. eff_ret report')))"

definition runAnchorCheck ::
    "anchor_sdk \<Rightarrow> web_auth \<Rightarrow> 'w anchor_ctx \<Rightarrow> ('w \<Rightarrow> 'w anchor_signer \<times> 'w) \<Rightarrow> check_options
       \<Rightarrow> ('w check_world, anchor_thrown, check_report) eff" where
  "runAnchorCheck sdk wa injected newSigner opts =
     (let ctx = check_ctx injected;
          domains = (if ko_homeDomains opts \<noteq> [] then ko_homeDomains opts else [TR_MOCK_HOME_DOMAIN, SDF_HOME_DOMAIN]) in
      eff_bind (sync_step (collect_results (\<lambda>d. describeAnchorScenario d False) domains)) (\<lambda>scenarios.
      let plans = map2 buildScenarioPlan scenarios domains in
      eff_bind (print_lines [''Anchor check ('' @ (if ko_live opts then ''LIVE'' else ''PLAN ONLY '' @ mdash @ '' pass --live to run'') @ '')'',
                             ''===================='']) (\<lambda>_.
      if \<not> ko_live opts then
        eff_bind (print_lines (concat (map (\<lambda>p. formatPlan p @ [[]]) plans)
            @ (if ko_payoutCheck opts then [planned_payout scenarios, []] else []))) (\<lambda>_.
        eff_ret \<lparr>kr_plans = plans, kr_results = [], kr_payout = None, kr_payoutError = None, kr_ok = True\<rparr>)
      else
        eff_bind (run_live sdk wa ctx newSigner (zip scenarios domains)) (\<lambda>results.
        let report = \<lparr>kr_plans = plans, kr_results = results, kr_payout = None, kr_payoutError = None, kr_ok = no_step_failed results\<rparr> in
        if ko_payoutCheck opts then check_payout ctx report else eff_ret report))))"

fun parse_args :: "string list \<Rightarrow> check_options \<Rightarrow> check_options" where
  "parse_args [] o1 = o1"
| "parse_args [a] o1 =
     (if a = ''--live'' then o1\<lparr>ko_live := True\<rparr> else if a = ''--payout-check'' then o1\<lparr>ko_payoutCheck := True\<rparr> else o1)"
| "parse_args (a # v # rest) o1 =
     (if a = ''--home-domain'' then
        if v \<noteq> [] \<and> \<not> starts_with ''--'' v then parse_args rest (o1\<lparr>ko_homeDomains := ko_homeDomains o1 @ [v]\<rparr>)
        else parse_args (v # rest) o1
      else if a = ''--live'' then parse_args (v # rest) (o1\<lparr>ko_live := True\<rparr>)
      else if a = ''--payout-check'' then parse_args (v # rest) (o1\<lparr>ko_payoutCheck := True\<rparr>)
      else parse_args (v # rest) o1)"

definition parseArgs :: "string list \<Rightarrow> check_options" where
  "parseArgs argv = parse_args argv \<lparr>ko_homeDomains = [], ko_live = False, ko_payoutCheck = False\<rparr>"

end
