(* ===== verification/Anchor_Effects.thy ===== *)
theory Anchor_Effects
  imports Anchor_Tools
begin

text \<open>
  How the actions of the anchor client change the world.  \<open>obeys I R G P m\<close> says that \<open>m\<close>, started in a
  state with \<open>I\<close>, keeps \<open>I\<close>, only adds to the log, to the requests and to the signatures asked for,
  with records that are tame, requests in \<open>R\<close> and envelopes in \<open>G\<close>, and that a value it returns is
  in \<open>P\<close>.  The rules follow the way actions are composed.
\<close>

section \<open>Growth\<close>

text \<open>A record whose words of the anchor are short and show no hidden character.\<close>

definition tame :: "explain_record \<Rightarrow> bool" where
  "tame r \<longleftrightarrow> (case er_anchorSaid r of None \<Rightarrow> True
     | Some v \<Rightarrow> v \<noteq> [] \<and> length v \<le> 200 \<and> list_all (\<lambda>c. \<not> HIDDEN c) v)"

definition added :: "('t \<Rightarrow> bool) \<Rightarrow> 't list \<Rightarrow> 't list \<Rightarrow> bool" where
  "added Q xs ys \<longleftrightarrow> (\<exists>new. ys = xs @ new \<and> list_all Q new)"

lemma added_refl [simp]: "added Q xs xs"
  by (simp add: added_def)

lemma added_one [simp]: "added Q xs (xs @ [x]) \<longleftrightarrow> Q x"
  by (simp add: added_def)

lemma added_trans: "added Q xs ys \<Longrightarrow> added Q ys zs \<Longrightarrow> added Q xs zs"
  by (auto simp: added_def)

lemma added_mono: "added P xs ys \<Longrightarrow> (\<And>x. P x \<Longrightarrow> Q x) \<Longrightarrow> added Q xs ys"
  by (auto simp: added_def list_all_iff)

definition grown :: "(string \<times> http_init \<Rightarrow> bool) \<Rightarrow> (string \<Rightarrow> bool)
    \<Rightarrow> ('w, 'z) anchor_world_scheme \<Rightarrow> ('w, 'z) anchor_world_scheme \<Rightarrow> bool" where
  "grown R G s s' \<longleftrightarrow> added tame (aw_log s) (aw_log s') \<and> added R (aw_requests s) (aw_requests s')
     \<and> added G (aw_signed s) (aw_signed s')"

lemma grown_refl [simp]: "grown R G s s"
  by (simp add: grown_def)

lemma grown_trans: "grown R G s t \<Longrightarrow> grown R G t u \<Longrightarrow> grown R G s u"
  unfolding grown_def by (meson added_trans)

lemma grown_mono: "grown R G s s' \<Longrightarrow> (\<And>x. R x \<Longrightarrow> R' x) \<Longrightarrow> (\<And>x. G x \<Longrightarrow> G' x) \<Longrightarrow> grown R' G' s s'"
  unfolding grown_def by (meson added_mono)

section \<open>Obedience\<close>

definition obeys :: "(('w, 'z) anchor_world_scheme \<Rightarrow> bool) \<Rightarrow> (string \<times> http_init \<Rightarrow> bool) \<Rightarrow> (string \<Rightarrow> bool)
    \<Rightarrow> ('a \<Rightarrow> bool) \<Rightarrow> (('w, 'z) anchor_world_scheme, 'e, 'a) eff \<Rightarrow> bool" where
  "obeys I R G P m \<longleftrightarrow> (\<forall>s r s'. I s \<longrightarrow> m s = Some (r, s') \<longrightarrow> I s' \<and> grown R G s s' \<and> (\<forall>x. r = Inr x \<longrightarrow> P x))"

named_theorems obeys_intro \<open>how obedience composes\<close>

lemma obeysD:
  "obeys I R G P m \<Longrightarrow> I s \<Longrightarrow> m s = Some (r, s') \<Longrightarrow> I s' \<and> grown R G s s' \<and> (\<forall>x. r = Inr x \<longrightarrow> P x)"
  unfolding obeys_def by blast

lemma obeysI:
  "(\<And>s r s'. I s \<Longrightarrow> m s = Some (r, s') \<Longrightarrow> I s' \<and> grown R G s s' \<and> (\<forall>x. r = Inr x \<longrightarrow> P x)) \<Longrightarrow> obeys I R G P m"
  unfolding obeys_def by blast

lemma obeys_weaken: "obeys I R G P m \<Longrightarrow> (\<And>x. P x \<Longrightarrow> Q x) \<Longrightarrow> obeys I R G Q m"
  unfolding obeys_def by blast

lemma obeys_any: "obeys I R G P m \<Longrightarrow> obeys I R G (\<lambda>_. True) m"
  by (erule obeys_weaken) simp

lemma obeys_ret: "P x \<Longrightarrow> obeys I R G P (eff_ret x)"
  by (simp add: obeys_def)

lemma obeys_ret_any [obeys_intro]: "obeys I R G (\<lambda>_. True) (eff_ret x)"
  by (simp add: obeys_def)

lemma obeys_throw [obeys_intro]: "obeys I R G P (eff_throw e)"
  by (simp add: obeys_def)

lemma obeys_of_any [obeys_intro]: "obeys I R G (\<lambda>_. True) (eff_of h m)"
  by (auto simp: obeys_def eff_of_def)

lemma obeys_of: "(\<And>x. m = Inr x \<Longrightarrow> P x) \<Longrightarrow> obeys I R G P (eff_of h m)"
  by (auto simp: obeys_def eff_of_def)

lemma obeys_bind:
  assumes "obeys I R G Q m" "\<And>x. Q x \<Longrightarrow> obeys I R G P (f x)"
  shows "obeys I R G P (eff_bind m f)"
proof (rule obeysI)
  fix s r s' assume i: "I s" and "eff_bind m f s = Some (r, s')"
  then obtain a t where t: "m s = Some (a, t)"
    and n: "(\<exists>e. r = Inl e \<and> s' = t) \<or> (\<exists>x. a = Inr x \<and> f x t = Some (r, s'))"
    by (auto simp: eff_bind_Some)
  from obeysD [OF assms(1) i t] have s: "I t" "grown R G s t" "\<And>x. a = Inr x \<Longrightarrow> Q x" by auto
  from n show "I s' \<and> grown R G s s' \<and> (\<forall>x. r = Inr x \<longrightarrow> P x)"
  proof (elim disjE exE conjE)
    fix x assume "a = Inr x" "f x t = Some (r, s')"
    with obeysD [OF assms(2) s(1)] s(2,3) show ?thesis by (blast intro: grown_trans)
  qed (use s in auto)
qed

lemma obeys_bind_any [obeys_intro]:
  "obeys I R G (\<lambda>_. True) m \<Longrightarrow> (\<And>x. obeys I R G P (f x)) \<Longrightarrow> obeys I R G P (eff_bind m f)"
  by (rule obeys_bind)

lemma obeys_try:
  assumes "obeys I R G Q m" "\<And>e. obeys I R G P (h e)" "\<And>x. Q x \<Longrightarrow> obeys I R G P (f x)"
  shows "obeys I R G P (eff_try m h f)"
proof (rule obeysI)
  fix s r s' assume i: "I s" and "eff_try m h f s = Some (r, s')"
  then obtain a t where t: "m s = Some (a, t)"
    and n: "(\<exists>e. h e t = Some (r, s')) \<or> (\<exists>x. a = Inr x \<and> f x t = Some (r, s'))"
    by (auto simp: eff_try_Some)
  from obeysD [OF assms(1) i t] have s: "I t" "grown R G s t" "\<And>x. a = Inr x \<Longrightarrow> Q x" by auto
  from n show "I s' \<and> grown R G s s' \<and> (\<forall>x. r = Inr x \<longrightarrow> P x)"
  proof (elim disjE exE conjE)
    fix x assume "a = Inr x" "f x t = Some (r, s')"
    with obeysD [OF assms(3) s(1)] s(2,3) show ?thesis by (blast intro: grown_trans)
  next
    fix e assume "h e t = Some (r, s')"
    with obeysD [OF assms(2) s(1)] s(2) show ?thesis by (blast intro: grown_trans)
  qed
qed

lemma obeys_try_any [obeys_intro]:
  "obeys I R G (\<lambda>_. True) m \<Longrightarrow> (\<And>e. obeys I R G P (h e)) \<Longrightarrow> (\<And>x. obeys I R G P (f x)) \<Longrightarrow> obeys I R G P (eff_try m h f)"
  by (rule obeys_try)

lemma obeys_loop:
  assumes "\<And>st. obeys I R G (\<lambda>v. case v of Inl _ \<Rightarrow> True | Inr x \<Rightarrow> P x) (body st)"
  shows "obeys I R G P (eff_loop body st)"
proof (rule obeysI)
  fix s r s' assume i: "I s" and run: "eff_loop body st s = Some (r, s')"
  let ?Q = "\<lambda>v. case v of Inl _ \<Rightarrow> True | Inr x \<Rightarrow> P x"
  let ?done = "\<lambda>s r. I (snd r) \<and> grown R G s (snd r) \<and> (\<forall>x. fst r = Inr x \<longrightarrow> P x)"
  have "(\<forall>st. obeys I R G ?Q (body st)) \<longrightarrow> I s \<longrightarrow> ?done s (r, s')"
  proof (rule eff_loop.raw_induct
      [where P = "\<lambda>body st s r. (\<forall>st. obeys I R G ?Q (body st)) \<longrightarrow> I s \<longrightarrow> ?done s r", OF _ run])
    fix loop body st s r
    assume ih: "\<And>body st s r. loop body st s = Some r \<Longrightarrow> (\<forall>st. obeys I R G ?Q (body st)) \<longrightarrow> I s \<longrightarrow> ?done s r"
      and step: "(case body st s of None \<Rightarrow> None | Some (Inl e, w') \<Rightarrow> Some (Inl e, w')
          | Some (Inr (Inl st'), w') \<Rightarrow> loop body st' w' | Some (Inr (Inr x), w') \<Rightarrow> Some (Inr x, w')) = Some r"
    show "(\<forall>st. obeys I R G ?Q (body st)) \<longrightarrow> I s \<longrightarrow> ?done s r"
    proof (intro impI)
      assume b: "\<forall>st. obeys I R G ?Q (body st)" and i: "I s"
      obtain a t where t: "body st s = Some (a, t)" using step by (cases "body st s") auto
      from b have "obeys I R G ?Q (body st)" ..
      from obeysD [OF this i t] have s: "I t" "grown R G s t" "\<And>x. a = Inr x \<Longrightarrow> ?Q x" by auto
      show "?done s r"
      proof (cases "\<exists>st'. a = Inr (Inl st')")
        case True
        then obtain st' where "loop body st' t = Some r" using step t by auto
        from ih [OF this, rule_format, OF b [rule_format] s(1)] s(2) show ?thesis by (blast intro: grown_trans)
      next
        case False
        then have "snd r = t" "\<And>x. fst r = Inr x \<Longrightarrow> a = Inr (Inr x)" using step t by (auto split: sum.splits)
        with s show ?thesis by fastforce
      qed
    qed
  qed
  with assms i show "I s' \<and> grown R G s s' \<and> (\<forall>x. r = Inr x \<longrightarrow> P x)" by simp
qed

lemma obeys_loop_any [obeys_intro]:
  "(\<And>st. obeys I R G (\<lambda>_. True) (body st)) \<Longrightarrow> obeys I R G (\<lambda>_. True) (eff_loop body st)"
  by (rule obeys_loop, rule obeys_weaken) (auto split: sum.splits)

lemma obeys_if [obeys_intro]:
  "(b \<Longrightarrow> obeys I R G P m) \<Longrightarrow> (\<not> b \<Longrightarrow> obeys I R G P n) \<Longrightarrow> obeys I R G P (if b then m else n)"
  by simp

lemma obeys_let [obeys_intro]: "(\<And>x. x = v \<Longrightarrow> obeys I R G P (f x)) \<Longrightarrow> obeys I R G P (let x = v in f x)"
  by simp

lemma obeys_option [obeys_intro]:
  "(v = None \<Longrightarrow> obeys I R G P m) \<Longrightarrow> (\<And>x. v = Some x \<Longrightarrow> obeys I R G P (f x)) \<Longrightarrow> obeys I R G P (case v of None \<Rightarrow> m | Some x \<Rightarrow> f x)"
  by (cases v) simp_all

lemma obeys_prod [obeys_intro]: "(\<And>a b. obeys I R G P (f a b)) \<Longrightarrow> obeys I R G P (case p of (a, b) \<Rightarrow> f a b)"
  by (cases p) simp

lemma obeys_list [obeys_intro]:
  "obeys I R G P m \<Longrightarrow> (\<And>x xs. v = x # xs \<Longrightarrow> obeys I R G P (f x xs)) \<Longrightarrow> obeys I R G P (case v of [] \<Rightarrow> m | x # xs \<Rightarrow> f x xs)"
  by (cases v) simp_all

lemma obeys_thrown [obeys_intro]:
  "\<lbrakk>\<And>h. obeys I R G P (f1 h); \<And>a b c. obeys I R G P (f2 a b c); \<And>a b. obeys I R G P (f3 a b);
    \<And>a b. obeys I R G P (f4 a b); \<And>a b c. obeys I R G P (f5 a b c); \<And>a. obeys I R G P (f6 a)\<rbrakk> \<Longrightarrow>
   obeys I R G P (case e of Http_Thrown h \<Rightarrow> f1 h | Kyc_Thrown a b c \<Rightarrow> f2 a b c | Timeout_Thrown a b \<Rightarrow> f3 a b
     | Interrupted_Thrown a b \<Rightarrow> f4 a b | Info_Thrown a b c \<Rightarrow> f5 a b c | Js_Thrown a \<Rightarrow> f6 a)"
  by (cases e) simp_all

lemma obeys_value [obeys_intro]:
  "\<lbrakk>obeys I R G P f1; obeys I R G P f2; \<And>b. obeys I R G P (f3 b); \<And>n. obeys I R G P (f4 n);
    \<And>s. v = V_Str s \<Longrightarrow> obeys I R G P (f5 s); \<And>vs. obeys I R G P (f6 vs); \<And>fs. obeys I R G P (f7 fs)\<rbrakk> \<Longrightarrow>
   obeys I R G P (case v of V_Undefined \<Rightarrow> f1 | V_Null \<Rightarrow> f2 | V_Bool b \<Rightarrow> f3 b | V_Num n \<Rightarrow> f4 n | V_Str s \<Rightarrow> f5 s
     | V_Arr vs \<Rightarrow> f6 vs | V_Obj fs \<Rightarrow> f7 fs)"
  by (cases v) simp_all

lemma obeys_class [obeys_intro]:
  "\<lbrakk>obeys I R G P f1; obeys I R G P f2; obeys I R G P f3; obeys I R G P f4; obeys I R G P f5; obeys I R G P f6; obeys I R G P f7\<rbrakk> \<Longrightarrow>
   obeys I R G P (case c of In_Progress \<Rightarrow> f1 | Needs_Trustline \<Rightarrow> f2 | Needs_User \<Rightarrow> f3 | Needs_Info \<Rightarrow> f4
     | Waiting_User_Transfer \<Rightarrow> f5 | Success \<Rightarrow> f6 | Failed \<Rightarrow> f7)"
  by (cases c) simp_all

section \<open>Reads and writes of the state\<close>

lemma obeys_reads: "(\<And>s. I s \<Longrightarrow> P (f s)) \<Longrightarrow> obeys I R G P (reads f)"
  by (simp add: obeys_def reads_def)

lemma obeys_reads_any [obeys_intro]: "obeys I R G (\<lambda>_. True) (reads f)"
  by (simp add: obeys_reads)

lemma obeys_writes:
  "(\<And>s. I s \<Longrightarrow> I (g s) \<and> aw_log (g s) = aw_log s \<and> aw_requests (g s) = aw_requests s \<and> aw_signed (g s) = aw_signed s)
     \<Longrightarrow> obeys I R G (\<lambda>_. True) (writes g)"
  by (simp add: obeys_def writes_def grown_def)

lemma obeys_mono:
  "obeys I R G P m \<Longrightarrow> (\<And>x. R x \<Longrightarrow> R' x) \<Longrightarrow> (\<And>x. G x \<Longrightarrow> G' x) \<Longrightarrow> obeys I R' G' P m"
  by (rule obeysI, drule (2) obeysD) (auto intro: grown_mono)

end
