(* ===== verification/Anchor_Endpoint_Laws.thy ===== *)
theory Anchor_Endpoint_Laws
  imports Anchor_Effects
begin

text \<open>
  Where the client sends anything: an anchor that is discovered under the strict policy has only
  https endpoints on its own public domain, and the discovery itself is one request to that domain.
\<close>

section \<open>Public names\<close>

text \<open>What a public name is, said without the order of the checks.\<close>

definition public_name :: "string \<Rightarrow> bool" where
  "public_name h \<longleftrightarrow> h \<noteq> [] \<and> length h \<le> 253 \<and> CHR '':'' \<notin> set h
     \<and> (\<exists>ls. js_join ''.'' ls = h \<and> 2 \<le> length ls \<and> list_all LABEL ls \<and> \<not> all_digits (last ls) \<and> last ls \<notin> set BLOCKED_TLDS)"

lemma js_join_split: "js_join [d] (js_split d s) = s"
proof (induction d s rule: js_split.induct)
  case (2 d c cs)
  then show ?case by (cases "js_split d cs") (auto, (cases "tl (js_split d cs)"; simp)+)
qed simp

lemma public_dns_name: "assertPublicDnsName h label = Inr u \<Longrightarrow> public_name h"
  unfolding assertPublicDnsName_def public_name_def Let_def
  by (auto simp: looksLikeIp_def List.member_iff not_less js_join_split intro!: exI [of _ "js_split CHR ''.'' h"]
        split: if_splits)

lemma strip_port_plain: "CHR '':'' \<notin> set s \<Longrightarrow> strip_port s = s"
  unfolding strip_port_def Let_def
  by (metis (no_types, lifting) hd_in_set set_dropWhileD set_rev)

text \<open>A host of the anchor: its domain or a name below it.\<close>

definition below :: "string \<Rightarrow> string \<Rightarrow> bool" where
  "below home host \<longleftrightarrow> host = home \<or> (\<exists>sub. host = sub @ CHR ''.'' # home)"

lemma ends_with_iff: "ends_with e s \<longleftrightarrow> (\<exists>t. s = t @ e)"
  unfolding ends_with_def starts_with_iff by (metis rev_append rev_rev_ident)

lemma belongs_below: "np_allowedEndpointHosts pol = None \<Longrightarrow> CHR '':'' \<notin> set home \<Longrightarrow> hostBelongs host home pol \<longleftrightarrow> below home host"
  by (simp add: hostBelongs_def Let_def strip_port_plain ends_with_iff below_def)

section \<open>Endpoints\<close>

text \<open>An endpoint of the anchor at \<open>home\<close>: what the URL parser makes of the published text, without a slash at its end.\<close>

definition own_endpoint :: "url_parser \<Rightarrow> string \<Rightarrow> string \<Rightarrow> bool" where
  "own_endpoint url home e \<longleftrightarrow> (\<exists>raw u. url raw = Some u \<and> e = strip_slash (up_href u) \<and> up_protocol u = ''https:''
     \<and> up_username u = [] \<and> up_password u = [] \<and> up_hash u = [] \<and> up_port u = [] \<and> public_name (up_hostname u)
     \<and> below home (up_hostname u))"

lemma safe_endpoint_own:
  assumes "assertSafeEndpoint url raw label home strict_policy = Inr e" and "public_name home"
  shows "own_endpoint url home e"
proof -
  obtain u where u: "url raw = Some u" using assms(1) by (auto simp: assertSafeEndpoint_def split: option.splits)
  have "public_name (up_hostname u)"
    using assms(1) u by (auto simp: assertSafeEndpoint_def strict_policy_def Let_def split: if_splits dest: public_dns_name)
  moreover have "below home (up_hostname u)"
    using assms u belongs_below [of strict_policy home]
    by (auto simp: assertSafeEndpoint_def public_name_def strict_policy_def Let_def split: if_splits)
  moreover have "e = strip_slash (up_href u) \<and> up_protocol u = ''https:'' \<and> up_username u = [] \<and> up_password u = []
      \<and> up_hash u = [] \<and> up_port u = []"
    using assms(1) u by (auto simp: assertSafeEndpoint_def strict_policy_def Let_def split: if_splits)
  ultimately show ?thesis using u unfolding own_endpoint_def by blast
qed

definition toml_endpoints :: "anchor_toml \<Rightarrow> string list" where
  "toml_endpoints t = am_webAuthEndpoint t # am_transferServer t
     # List.map_filter (\<lambda>e. e) [am_kycServer t, am_quoteServer t]"

lemma optional_endpoint_Inr: "optional_endpoint check v = Inr r \<Longrightarrow> (case r of None \<Rightarrow> True | Some e \<Rightarrow> \<exists>raw. check raw = Inr e)"
  by (auto simp: optional_endpoint_def split: option.splits)

lemma parsed_toml_own:
  assumes "parseStellarToml ctx home text strict_policy = Inr t" and home: "public_name home"
  shows "am_homeDomain t = home \<and> stellar_address_re (am_signingKey t) \<and> list_all (own_endpoint (ax_url ctx) home) (toml_endpoints t)"
proof -
  let ?check = "\<lambda>label v. assertSafeEndpoint (ax_url ctx) v label home strict_policy"
  obtain doc where doc: "ax_toml_parse ctx text = Inr doc"
    using assms(1) by (auto simp: parseStellarToml_def split: sum.splits)
  obtain wa tr key auth server kyc quote where
      key: "matching stellar_address_re (js_field doc ''SIGNING_KEY'') = Some key"
    and eps: "?check ''WEB_AUTH_ENDPOINT'' wa = Inr auth" "?check ''TRANSFER_SERVER'' tr = Inr server"
      "optional_endpoint (?check ''KYC_SERVER'') (str_of (js_field doc ''KYC_SERVER'')) = Inr kyc"
      "optional_endpoint (?check ''ANCHOR_QUOTE_SERVER'') (str_of (js_field doc ''ANCHOR_QUOTE_SERVER'')) = Inr quote"
    and t: "am_homeDomain t = home" "am_signingKey t = key" "am_webAuthEndpoint t = auth" "am_transferServer t = server"
      "am_kycServer t = kyc" "am_quoteServer t = quote"
    using assms(1) doc by (auto simp: parseStellarToml_def Let_def)
  from key have "stellar_address_re key" by (auto simp: matching_def split: option.splits if_splits)
  moreover have "own_endpoint (ax_url ctx) home e" if "e = auth \<or> e = server \<or> Some e = kyc \<or> Some e = quote" for e
    using that eps optional_endpoint_Inr [OF eps(3)] optional_endpoint_Inr [OF eps(4)] safe_endpoint_own [OF _ home]
    by (auto split: option.splits)
  ultimately show ?thesis
    using t by (auto simp: toml_endpoints_def List.map_filter_def list_all_iff split: option.splits)
qed

lemma parsed_home_public: "parseHomeDomain input strict_policy = Inr home \<Longrightarrow> public_name home"
  by (auto simp: parseHomeDomain_def strict_policy_def Let_def split: if_splits dest: public_dns_name)

end
