(* ===== verification/Anchor_Client_Laws.thy ===== *)
theory Anchor_Client_Laws
  imports Anchor_Endpoint_Laws
begin

text \<open>
  What every function of the anchor client may do to the world, proved once for all of them: whom it
  sends a request, what it hands to the signer, and what it writes in the log.  The state beside the
  log and the histories is that of the caller, of which the functions know nothing.
\<close>

section \<open>Allowed requests and signatures\<close>

definition tokenless :: "http_init \<Rightarrow> bool" where
  "tokenless i \<longleftrightarrow> \<not> list_ex (\<lambda>h. fst h = ''authorization'') (hi_headers i)"

text \<open>What discovery makes of an anchor at an allowed domain.\<close>

definition found_anchor :: "'w anchor_ctx \<Rightarrow> (string \<Rightarrow> bool) \<Rightarrow> anchor_toml \<Rightarrow> bool" where
  "found_anchor ctx domain t \<longleftrightarrow> (\<exists>input home text. domain input \<and> parseHomeDomain input (ctx_policy ctx) = Inr home
     \<and> parseStellarToml ctx home text (ctx_policy ctx) = Inr t \<and> am_networkPassphrase t = ax_networkPassphrase ctx)"

definition toml_url :: "string \<Rightarrow> string \<Rightarrow> string" where
  "toml_url scheme home = scheme @ ''://'' @ home @ ''/.well-known/stellar.toml''"

text \<open>
  A request goes to an endpoint of the anchor, or it carries no session token and goes to Horizon, to
  Friendbot or to the public file of an allowed domain.
\<close>

definition request_ok :: "'w anchor_ctx \<Rightarrow> (string \<Rightarrow> bool) \<Rightarrow> string \<times> http_init \<Rightarrow> bool" where
  "request_ok ctx domain p \<longleftrightarrow>
     (\<exists>t e path q. found_anchor ctx domain t \<and> e \<in> set (toml_endpoints t) \<and> buildUrl ctx (e @ path) q = Inr (fst p))
     \<or> tokenless (snd p) \<and>
         ((\<exists>path. fst p = ax_horizonUrl ctx @ path) \<or> (\<exists>q. buildUrl ctx (ax_friendbotUrl ctx) q = Inr (fst p))
          \<or> (\<exists>input home scheme. domain input \<and> parseHomeDomain input (ctx_policy ctx) = Inr home \<and> fst p = toml_url scheme home
               \<and> (scheme = ''https'' \<or> ax_allowInsecure ctx)))"

text \<open>A challenge for an account that passed every check.\<close>

definition validated :: "web_auth \<Rightarrow> 'w anchor_ctx \<Rightarrow> anchor_toml \<Rightarrow> string \<Rightarrow> string \<Rightarrow> bool" where
  "validated wa ctx t account xdr \<longleftrightarrow> (\<exists>reported now v. validateChallenge wa ctx t xdr account reported now = Inr v)"

text \<open>
  The signer is handed a challenge of the anchor that passed every check, a trustline for an accepted
  asset, or a payment.
\<close>

definition signature_ok ::
    "anchor_sdk \<Rightarrow> web_auth \<Rightarrow> 'w anchor_ctx \<Rightarrow> (string \<Rightarrow> bool) \<Rightarrow> (anchor_asset \<Rightarrow> bool) \<Rightarrow> (string \<Rightarrow> bool) \<Rightarrow> string \<Rightarrow> bool" where
  "signature_ok sdk wa ctx domain accepted payment xdr \<longleftrightarrow>
     (\<exists>t account. found_anchor ctx domain t \<and> validated wa ctx t account xdr)
     \<or> (\<exists>account seq a. accepted a \<and> buildTrustlineTx sdk account seq (ax_networkPassphrase ctx) a = Inr xdr)
     \<or> payment xdr"

lemma request_init_tokenless: "ro_bearer opts = None \<Longrightarrow> tokenless (request_init ctx opts)"
  by (auto simp: tokenless_def request_init_def Let_def split: option.splits)

lemma plain_get_fields [simp]: "ro_bearer plain_get = None" "ro_query plain_get = None"
  by (simp_all add: plain_get_def)

section \<open>The client\<close>

text \<open>The caller's part of the state: an invariant that the log and the histories do not touch.\<close>

locale anchor_client =
  fixes ctx :: "'w anchor_ctx"
    and state_ok :: "('w, 'z) anchor_world_scheme \<Rightarrow> bool"
    and domain :: "string \<Rightarrow> bool" and signs :: "string \<Rightarrow> bool"
  assumes untouched: "state_ok (s\<lparr>aw_ext := w\<rparr>) = state_ok s" "state_ok (s\<lparr>aw_log := l\<rparr>) = state_ok s"
    "state_ok (s\<lparr>aw_requests := q\<rparr>) = state_ok s" "state_ok (s\<lparr>aw_signed := g\<rparr>) = state_ok s"
begin

abbreviation ok :: "('a \<Rightarrow> bool) \<Rightarrow> (('w, 'z) anchor_world_scheme, 'e, 'a) eff \<Rightarrow> bool" where
  "ok P m \<equiv> obeys state_ok (request_ok ctx domain) signs P m"

abbreviation found :: "anchor_toml \<Rightarrow> bool" where
  "found \<equiv> found_anchor ctx domain"

abbreviation ok_any :: "(('w, 'z) anchor_world_scheme, 'e, 'a) eff \<Rightarrow> bool" where
  "ok_any m \<equiv> ok (\<lambda>_. True) m"

subsection \<open>Primitives\<close>

lemma ext_ok [obeys_intro]: "ok_any (ext_call f)"
  by (rule obeysI) (auto simp: ext_call_def untouched grown_def split: prod.splits)

lemma now_ok [obeys_intro]: "ok_any (ctx_now ctx)"
  by (simp add: ctx_now_def ext_ok)

lemma sleep_ok [obeys_intro]: "ok_any (ctx_sleep ctx ms)"
  by (simp add: ctx_sleep_def ext_ok)

lemma send_ok: "request_ok ctx domain (url, i) \<Longrightarrow> ok_any (send ctx url i)"
  by (rule obeysI) (auto simp: send_def ext_call_def untouched grown_def split: prod.splits)

lemma ask_ok: "signs xdr \<Longrightarrow> ok_any (ask_signature signer xdr p)"
  by (rule obeysI) (auto simp: ask_signature_def ext_call_def untouched grown_def split: prod.splits)

lemma tame_said: "tame \<lparr>er_step = a, er_what = b, er_why = c,
    er_anchorSaid = (case said of Some v \<Rightarrow> sanitize_text v MAX_ANCHOR_TEXT | None \<Rightarrow> None), er_link = d, er_at = e\<rparr>"
  by (auto simp: tame_def MAX_ANCHOR_TEXT_def list_all_iff split: option.splits dest: sanitize_clean)

lemma record_ok [obeys_intro]: "ok_any (record_step ctx step what why said link)"
  unfolding record_step_def
  by (rule obeys_intro now_ok)+ (rule obeysI, auto simp: untouched grown_def tame_said)

subsection \<open>Requests\<close>

lemma json_ok: "(\<And>u. buildUrl ctx url (ro_query opts) = Inr u \<Longrightarrow> request_ok ctx domain (u, request_init ctx opts)) \<Longrightarrow>
    ok_any (requestJson ctx url opts)"
  unfolding requestJson_def by (rule obeys_bind [OF obeys_of], assumption) (rule obeys_intro send_ok | simp)+

lemma own_json_ok [obeys_intro]:
  "found t \<Longrightarrow> e \<in> set (toml_endpoints t) \<Longrightarrow> ok_any (requestJson ctx (e @ path) opts)"
  by (rule json_ok) (auto simp: request_ok_def)

lemma horizon_json_ok:
  "ro_bearer opts = None \<Longrightarrow> ro_query opts = None \<Longrightarrow> ok_any (requestJson ctx (ax_horizonUrl ctx @ path) opts)"
  by (rule json_ok) (auto simp: request_ok_def buildUrl_def request_init_tokenless)

lemma friendbot_json_ok: "ro_bearer opts = None \<Longrightarrow> ok_any (requestJson ctx (ax_friendbotUrl ctx) opts)"
  by (rule json_ok) (auto simp: request_ok_def request_init_tokenless)

lemma load_ok [obeys_intro]: "ok_any (loadAccount ctx account)"
  unfolding loadAccount_def by (rule obeys_intro horizon_json_ok | simp)+

lemma submit_ok [obeys_intro]: "ok_any (submitEnvelope ctx xdr)"
  unfolding submitEnvelope_def Let_def by (rule obeys_intro horizon_json_ok | simp)+

lemma inspect_ok [obeys_intro]: "ok_any (inspectAccount ctx account a)"
  unfolding inspectAccount_def Let_def by (rule obeys_intro)+

lemma wait_ok [obeys_intro]: "ok_any (waitForState ctx account a p ms)"
  unfolding waitForState_def wait_turn_def by (rule obeys_intro)+

lemma fund_ok [obeys_intro]: "ok_any (fund_account ctx account a allowed ms)"
  unfolding fund_account_def by (rule obeys_intro friendbot_json_ok | simp)+

lemma sign_submit_ok: "signs xdr \<Longrightarrow> ok_any (sign_and_submit sdk ctx signer xdr)"
  unfolding sign_and_submit_def by (rule obeys_intro ask_ok | assumption)+

lemma trustline_ok:
  "(\<And>seq xdr. buildTrustlineTx sdk account seq (ax_networkPassphrase ctx) a = Inr xdr \<Longrightarrow> signs xdr) \<Longrightarrow>
   ok_any (add_trustline sdk ctx signer account a ms state)"
  unfolding add_trustline_def
  by (rule obeys_bind [OF obeys_of], assumption) (rule obeys_intro sign_submit_ok | blast)+

lemma preflight_ok:
  "(\<And>account seq xdr. buildTrustlineTx sdk account seq (ax_networkPassphrase ctx) a = Inr xdr \<Longrightarrow> signs xdr) \<Longrightarrow>
   ok_any (preflight sdk ctx signer a opts)"
  unfolding preflight_def Let_def by (rule obeys_intro trustline_ok | blast)+

subsection \<open>Discovery and login\<close>

lemma text_ok: "request_ok ctx domain (url, \<lparr>hi_method = ''GET'', hi_headers = [], hi_body = None\<rparr>) \<Longrightarrow> ok_any (requestText ctx url cap)"
  unfolding requestText_def by (rule obeys_intro send_ok | assumption)+

lemma toml_text_ok: "domain input \<Longrightarrow> parseHomeDomain input (ctx_policy ctx) = Inr home \<Longrightarrow>
    ok_any (requestText ctx ((if ax_allowInsecure ctx \<and> b then ''http'' else ''https'') @ ''://'' @ home @ ''/.well-known/stellar.toml'') cap)"
  by (rule text_ok) (auto simp: request_ok_def tokenless_def toml_url_def)

lemma discover_ok: "domain input \<Longrightarrow> ok found (discoverAnchor ctx input)"
  unfolding discoverAnchor_def Let_def
  by (rule obeys_bind [OF obeys_of], assumption, rule obeys_bind_any [OF toml_text_ok], assumption, assumption,
      rule obeys_bind [OF obeys_of], assumption)
    (rule obeys_intro obeys_ret | auto simp: found_anchor_def)+

text \<open>A challenge that is returned passed every check.\<close>

lemma challenge_ok:
  assumes "found t"
  shows "ok (validated wa ctx t account) (requestChallenge wa ctx t account)"
proof -
  have own: "ok_any (requestJson ctx (am_webAuthEndpoint t) opts)" for opts
    using own_json_ok [OF assms, of "am_webAuthEndpoint t" "[]"] by (simp add: toml_endpoints_def)
  have checked: "ok (validated wa ctx t account) (eff_bind (sync_step (validateChallenge wa ctx t xdr account reported now)) f)"
    if "\<And>v. validated wa ctx t account xdr \<Longrightarrow> ok (validated wa ctx t account) (f v)" for xdr reported now f
    using that by (intro obeys_bind [OF obeys_of [of _ "\<lambda>_. validated wa ctx t account xdr"]]) (auto simp: validated_def)
  show ?thesis
    unfolding requestChallenge_def by (rule own checked obeys_ret obeys_intro | assumption)+
qed

lemma complete_ok: "found t \<Longrightarrow> ok_any (completeChallenge sdk wa ctx t account challenge signed)"
  unfolding completeChallenge_def Let_def
  using own_json_ok [of t "am_webAuthEndpoint t" "[]"]
  by (intro obeys_intro) (simp add: toml_endpoints_def)

lemma authenticate_ok: "found t \<Longrightarrow> (\<And>account xdr. validated wa ctx t account xdr \<Longrightarrow> signs xdr) \<Longrightarrow> ok_any (authenticate sdk wa ctx t signer)"
  unfolding authenticate_def
  by (rule obeys_intro obeys_bind [OF challenge_ok] ask_ok complete_ok | assumption | blast)+

subsection \<open>Customers and prices\<close>

lemma kyc_server_own: "kycServer t = Inr server \<Longrightarrow> server \<in> set (toml_endpoints t)"
  by (auto simp: kycServer_def toml_endpoints_def List.map_filter_def split: option.splits list.splits)

lemma get_customer_ok [obeys_intro]: "found t \<Longrightarrow> ok_any (getCustomer ctx t token i)"
  unfolding getCustomer_def
  by (rule obeys_bind [OF obeys_of], assumption) (rule obeys_intro kyc_server_own | assumption)+

lemma put_customer_ok [obeys_intro]:
  "found t \<Longrightarrow> server \<in> set (toml_endpoints t) \<Longrightarrow> ok_any (put_customer ctx server token base provided)"
  unfolding put_customer_def by (rule obeys_intro | assumption)+

lemma kyc_own: "am_kycServer t = Some server \<Longrightarrow> server \<in> set (toml_endpoints t)"
  by (auto simp: toml_endpoints_def List.map_filter_def)

lemma quote_own: "am_quoteServer t = Some server \<Longrightarrow> server \<in> set (toml_endpoints t)"
  by (auto simp: toml_endpoints_def List.map_filter_def split: option.splits)

lemma transfer_own: "am_transferServer t \<in> set (toml_endpoints t)"
  by (simp add: toml_endpoints_def)

lemma customer_ok [obeys_intro]: "found t \<Longrightarrow> ok_any (ensureCustomer ctx t token customer)"
  unfolding ensureCustomer_def Let_def by (rule obeys_intro kyc_own | simp)+

lemma rounds_ok [obeys_intro]:
  "found t \<Longrightarrow> server \<in> set (toml_endpoints t) \<Longrightarrow> ok_any (customer_rounds n ctx t token i customer server info)"
proof (induction n arbitrary: info)
  case (Suc n)
  show ?case unfolding customer_rounds.simps customer_round_def Let_def using Suc
    by (intro obeys_intro) auto
qed (simp add: obeys_ret_any)

lemma transaction_customer_ok [obeys_intro]: "found t \<Longrightarrow> ok_any (ensureTransactionCustomer ctx t token i customer)"
  unfolding ensureTransactionCustomer_def
  by (rule obeys_bind [OF obeys_of], assumption) (rule obeys_intro kyc_server_own | assumption)+

lemma price_ok [obeys_intro]: "found t \<Longrightarrow> ok_any (getPrice ctx t q label)"
  unfolding getPrice_def Let_def by (rule obeys_intro quote_own | simp)+

subsection \<open>Orders\<close>

lemma info_ok [obeys_intro]: "found t \<Longrightarrow> ok_any (getInfo ctx t code)"
  unfolding getInfo_def Let_def by (rule obeys_intro transfer_own | assumption)+

lemma order_ok [obeys_intro]: "found t \<Longrightarrow> ok_any (order_request ctx t token path q pre)"
  unfolding order_request_def by (rule obeys_intro transfer_own | assumption)+

lemma deposit_ok [obeys_intro]: "found t \<Longrightarrow> ok_any (startDeposit ctx t token p)"
  unfolding startDeposit_def Let_def by (rule obeys_intro | assumption)+

lemma withdraw_ok [obeys_intro]: "found t \<Longrightarrow> ok_any (startWithdraw sdk ctx t token p)"
  unfolding startWithdraw_def Let_def by (rule obeys_intro | assumption)+

lemma transaction_ok [obeys_intro]: "found t \<Longrightarrow> ok_any (getTransaction sdk ctx t token i)"
  unfolding getTransaction_def by (rule obeys_intro transfer_own | assumption)+

lemma transactions_ok [obeys_intro]: "found t \<Longrightarrow> ok_any (listTransactions sdk ctx t token code)"
  unfolding listTransactions_def by (rule obeys_intro transfer_own | assumption)+

lemma bank_ok [obeys_intro]: "found t \<Longrightarrow> ok_any (simulateBankTransfer ctx t i amount fiat)"
  unfolding simulateBankTransfer_def by (rule obeys_intro transfer_own | assumption)+

subsection \<open>Polling\<close>

text \<open>Callbacks that obey.\<close>

definition callbacks_ok :: "('w, 'z) poll_options \<Rightarrow> bool" where
  "callbacks_ok opts \<longleftrightarrow>
     (\<forall>f \<in> set_option (lo_onPendingTrust opts) \<union> set_option (lo_onCustomerInfoRequired opts) \<union> set_option (lo_onUpdate opts).
        \<forall>tx. ok_any (f tx))"

lemma callback_ok:
  assumes "callbacks_ok opts"
  shows "lo_onPendingTrust opts = Some f \<Longrightarrow> ok_any (f tx)" "lo_onCustomerInfoRequired opts = Some f \<Longrightarrow> ok_any (f tx)"
    "lo_onUpdate opts = Some f \<Longrightarrow> ok_any (f tx)"
  using assms by (auto simp: callbacks_ok_def)

lemma info_required_ok [obeys_intro]: "found t \<Longrightarrow> ok_any (info_required ctx t token i tx)"
  unfolding info_required_def Let_def by (rule obeys_intro | assumption)+

lemma timed_out_ok [obeys_intro]: "ok_any (poll_timed_out ctx t opts i tx)"
  unfolding poll_timed_out_def Let_def by (rule obeys_intro)+

lemma poll_wait_ok [obeys_intro]: "ok_any (poll_wait ctx t opts i started st tx)"
  unfolding poll_wait_def by (rule obeys_intro)+

lemma poll_failed_ok [obeys_intro]: "ok_any (poll_failed ctx opts i st e)"
  unfolding poll_failed_def Let_def by (rule obeys_intro)+

lemma poll_update_ok: "callbacks_ok opts \<Longrightarrow> ok_any (poll_update ctx opts i st tx)"
  unfolding poll_update_def Let_def by (rule obeys_intro callback_ok | assumption)+

lemma poll_seen_ok: "found t \<Longrightarrow> callbacks_ok opts \<Longrightarrow> ok_any (poll_seen ctx t token opts i started st tx)"
  unfolding poll_seen_def Let_def by (rule obeys_intro callback_ok | assumption)+

lemma poll_ok: "found t \<Longrightarrow> callbacks_ok opts \<Longrightarrow> ok_any (pollTransaction sdk ctx t token i opts)"
  unfolding pollTransaction_def poll_turn_def
  by (rule obeys_intro poll_update_ok poll_seen_ok | assumption)+

end

end
