(* ===== verification/Anchor_Session_Laws.thy ===== *)
theory Anchor_Session_Laws
  imports Anchor_Client_Laws
begin

text \<open>
  The session over any sequence of its steps: what is cached is what discovery found, every request
  stays with the anchor, and the only payment the signer is handed is that of the withdrawal the
  session itself requested.
\<close>

section \<open>The invariant of a session\<close>

text \<open>The asset the session accepts: the one it was made for, from the pinned issuer if there is one.\<close>

definition session_accepts :: "'w session_env \<Rightarrow> anchor_asset \<Rightarrow> bool" where
  "session_accepts env a \<longleftrightarrow> aa_code a = se_assetCode env
     \<and> (case KNOWN_ISSUERS (se_homeDomain env) (se_assetCode env) of None \<Rightarrow> True | Some i \<Rightarrow> aa_issuer a = i)"

definition session_found :: "'w session_env \<Rightarrow> anchor_toml \<Rightarrow> bool" where
  "session_found env = found_anchor (se_ctx env) (\<lambda>d. d = se_homeDomain env)"

definition session_ok :: "'w session_env \<Rightarrow> ((withdraw_instructions \<times> string) option \<Rightarrow> bool) \<Rightarrow> 'w anchor_session \<Rightarrow> bool" where
  "session_ok env request s \<longleftrightarrow> (case ss_toml s of None \<Rightarrow> True | Some t \<Rightarrow> session_found env t)
     \<and> (case ss_asset s of None \<Rightarrow> True | Some a \<Rightarrow> session_accepts env (asset_of a)) \<and> request (ss_withdraw s)"

abbreviation session_request :: "'w session_env \<Rightarrow> string \<times> http_init \<Rightarrow> bool" where
  "session_request env \<equiv> request_ok (se_ctx env) (\<lambda>d. d = se_homeDomain env)"

abbreviation session_signature :: "'w session_env \<Rightarrow> (string \<Rightarrow> bool) \<Rightarrow> string \<Rightarrow> bool" where
  "session_signature env payment \<equiv>
     signature_ok (se_sdk env) (se_auth env) (se_ctx env) (\<lambda>d. d = se_homeDomain env) (session_accepts env) payment"

abbreviation session_obeys ::
    "'w session_env \<Rightarrow> ((withdraw_instructions \<times> string) option \<Rightarrow> bool) \<Rightarrow> (string \<Rightarrow> bool) \<Rightarrow> ('a \<Rightarrow> bool) \<Rightarrow> ('w, 'a) session_act \<Rightarrow> bool" where
  "session_obeys env request signs P m \<equiv> obeys (session_ok env request) (session_request env) signs P m"

abbreviation session_safe ::
    "'w session_env \<Rightarrow> ((withdraw_instructions \<times> string) option \<Rightarrow> bool) \<Rightarrow> (string \<Rightarrow> bool) \<Rightarrow> ('w, 'a) session_act \<Rightarrow> bool" where
  "session_safe env request payment m \<equiv> session_obeys env request (session_signature env payment) (\<lambda>_. True) m"

interpretation client: anchor_client "se_ctx env" "session_ok env request" "\<lambda>d. d = se_homeDomain env" signs
  for env request signs
  by unfold_locales (simp_all add: session_ok_def)

section \<open>The parts of a step\<close>

lemma toml_obeys: "session_obeys env request signs (session_found env) (session_toml env)"
  unfolding session_toml_def
proof (rule obeys_bind [OF obeys_reads [of _ "\<lambda>c. case c of None \<Rightarrow> True | Some t \<Rightarrow> session_found env t"]])
  fix cached :: "anchor_toml option"
  assume c: "case cached of None \<Rightarrow> True | Some t \<Rightarrow> session_found env t"
  have new: "session_obeys env request signs (session_found env)
      (eff_bind (discoverAnchor (se_ctx env) (se_homeDomain env)) (\<lambda>t.
       eff_bind (writes (\<lambda>s. s\<lparr>ss_toml := Some t\<rparr>)) (\<lambda>_. eff_ret t)))"
    by (rule obeys_bind [OF client.discover_ok], rule refl, rule obeys_bind_any [OF obeys_writes])
      (auto simp: session_ok_def session_found_def obeys_ret)
  show "session_obeys env request signs (session_found env) (case cached of Some t \<Rightarrow> eff_ret t
     | None \<Rightarrow> eff_bind (discoverAnchor (se_ctx env) (se_homeDomain env)) (\<lambda>t.
         eff_bind (writes (\<lambda>s. s\<lparr>ss_toml := Some t\<rparr>)) (\<lambda>_. eff_ret t)))"
    using c new by (cases cached) (simp_all add: obeys_ret)
qed (simp add: session_ok_def)

lemma toml_any: "session_obeys env request signs (\<lambda>_. True) (session_toml env)"
  by (rule obeys_any [OF toml_obeys])

lemma found_asset:
  assumes "findAsset t code expected = Inr a"
  shows "fa_code a = code \<and> (case expected of None \<Rightarrow> True | Some i \<Rightarrow> fa_issuer a = i)"
proof -
  let ?pick = "\<lambda>c. if tc_code c = code \<and> tc_status c \<noteq> Some ''dead'' then map_option (\<lambda>i. (c, i)) (tc_issuer c) else None"
  define cs where "cs = List.map_filter ?pick (am_currencies t)"
  have code: "tc_code c = code" if "(c, i) \<in> set cs" for c i
    using that by (auto simp: cs_def List.map_filter_def split: if_splits)
  obtain first rest where cs: "cs = first # rest"
    using assms unfolding findAsset_def Let_def cs_def [symmetric] by (cases cs) auto
  show ?thesis
  proof (cases expected)
    case None
    then have "a = \<lparr>fa_code = tc_code (fst first), fa_issuer = snd first, fa_anchorAsset = tc_anchorAsset (fst first)\<rparr>"
      using assms cs unfolding findAsset_def Let_def cs_def [symmetric] by (auto split: if_splits prod.splits)
    then show ?thesis using None code [of "fst first" "snd first"] cs by simp
  next
    case (Some e)
    then obtain c i where m: "find (\<lambda>(c, i). i = e) cs = Some (c, i)"
      and a: "a = \<lparr>fa_code = tc_code c, fa_issuer = i, fa_anchorAsset = tc_anchorAsset c\<rparr>"
      using assms cs unfolding findAsset_def Let_def cs_def [symmetric] by (auto split: option.splits)
    from m have "(c, i) \<in> set cs" "i = e" by (auto simp: find_Some_iff in_set_conv_nth)
    then show ?thesis using Some code a by simp
  qed
qed

lemma found_asset_accepted:
  "findAsset t (se_assetCode env) (KNOWN_ISSUERS (se_homeDomain env) (se_assetCode env)) = Inr a \<Longrightarrow> session_accepts env (asset_of a)"
  by (drule found_asset) (auto simp: session_accepts_def asset_of_def split: option.splits)

lemma asset_obeys: "session_obeys env request signs (\<lambda>a. session_accepts env (asset_of a)) (session_asset env)"
  unfolding session_asset_def
proof (rule obeys_bind [OF obeys_reads [of _ "\<lambda>c. case c of None \<Rightarrow> True | Some a \<Rightarrow> session_accepts env (asset_of a)"]])
  let ?new = "eff_bind (session_toml env) (\<lambda>t.
         eff_bind (sync_step (findAsset t (se_assetCode env) (KNOWN_ISSUERS (se_homeDomain env) (se_assetCode env)))) (\<lambda>a.
         eff_bind (writes (\<lambda>s. s\<lparr>ss_asset := Some a\<rparr>)) (\<lambda>_. eff_ret a)))"
  have "session_obeys env request signs (\<lambda>a. session_accepts env (asset_of a)) ?new"
    by (rule obeys_bind_any [OF toml_any], rule obeys_bind [OF obeys_of], erule found_asset_accepted, rule obeys_bind_any [OF obeys_writes])
      (auto simp: session_ok_def obeys_ret)
  then show "session_obeys env request signs (\<lambda>a. session_accepts env (asset_of a)) (case cached of Some a \<Rightarrow> eff_ret a | None \<Rightarrow> ?new)"
    if "case cached of None \<Rightarrow> True | Some a \<Rightarrow> session_accepts env (asset_of a)" for cached
    using that by (cases cached) (simp_all add: obeys_ret)
qed (simp add: session_ok_def)

lemma asset_any: "session_obeys env request signs (\<lambda>_. True) (session_asset env)"
  by (rule obeys_any [OF asset_obeys])

lemma fiat_obeys [obeys_intro]: "session_obeys env request signs (\<lambda>_. True) (session_fiat env)"
  unfolding session_fiat_def by (rule obeys_intro asset_any)+

lemma key_obeys [obeys_intro]: "session_obeys env request signs (\<lambda>_. True) (public_key env)"
  unfolding public_key_def by (rule client.ext_ok)

lemmas toml_bind = obeys_bind [OF toml_obeys, unfolded session_found_def]
lemmas asset_bind = obeys_bind [OF asset_obeys]

text \<open>A write to a field that the invariant does not read.\<close>

lemma free_write:
  "(\<And>s. session_ok env request s \<Longrightarrow> session_ok env request (g s) \<and> anchor_world.truncate (g s) = anchor_world.truncate s)
     \<Longrightarrow> session_obeys env request signs (\<lambda>_. True) (writes g)"
  by (rule obeys_writes) (metis anchor_world.select_convs anchor_world.truncate_def)

lemma challenge_signed:
  "session_found env t \<Longrightarrow> validated (se_auth env) (se_ctx env) t account xdr \<Longrightarrow> session_signature env payment xdr"
  unfolding signature_ok_def session_found_def by blast

lemma trustline_signed:
  "session_accepts env a \<Longrightarrow> buildTrustlineTx (se_sdk env) account seq (ax_networkPassphrase (se_ctx env)) a = Inr xdr
     \<Longrightarrow> session_signature env payment xdr"
  unfolding signature_ok_def by blast

lemma login_obeys: "session_found env t \<Longrightarrow> session_safe env request payment (authenticate (se_sdk env) (se_auth env) (se_ctx env) t (se_signer env))"
  by (rule client.authenticate_ok) (simp_all add: session_found_def challenge_signed [unfolded session_found_def])

lemma prepare_obeys:
  "session_accepts env a \<Longrightarrow> session_safe env request payment (preflight (se_sdk env) (se_ctx env) (se_signer env) a opts)"
  by (rule client.preflight_ok) (rule trustline_signed)

lemma token_obeys [obeys_intro]: "session_safe env request payment (session_token env)"
  unfolding session_token_def
  by (rule toml_bind login_obeys [unfolded session_found_def] obeys_intro free_write | assumption | simp add: session_ok_def anchor_world.truncate_def)+

lemma kyc_obeys [obeys_intro]: "session_safe env request payment (session_kyc env)"
  unfolding session_kyc_def
  by (rule toml_bind obeys_intro free_write | assumption | simp add: session_ok_def anchor_world.truncate_def)+

lemma kyc_order_obeys [obeys_intro]: "session_safe env request payment (kycForTransaction env i)"
  unfolding kycForTransaction_def by (rule toml_bind obeys_intro | assumption)+

section \<open>The steps\<close>

lemma step_obeys: "session_obeys env request signs P m \<Longrightarrow> session_obeys env request signs (\<lambda>v. P (fst v)) (session_step m)"
  unfolding session_step_def
  by (rule obeys_bind_any [OF obeys_reads_any], erule obeys_bind, rule obeys_bind_any [OF obeys_reads_any], rule obeys_ret) simp

lemma step_any [obeys_intro]:
  "session_safe env request payment m \<Longrightarrow> session_safe env request payment (session_step m)"
  by (rule step_obeys)

lemma discover_step [obeys_intro]: "session_safe env request payment (session_discover env)"
  unfolding session_discover_def by (rule obeys_intro toml_any)+

lemma info_step [obeys_intro]: "session_safe env request payment (session_info env)"
  unfolding session_info_def by (rule step_any toml_bind obeys_intro | assumption)+

lemma login_step [obeys_intro]: "session_safe env request payment (session_login env)"
  unfolding session_login_def by (rule obeys_intro)+

lemma begin_login_step [obeys_intro]: "session_safe env request payment (beginLogin env)"
  unfolding beginLogin_def
  by (rule step_any toml_bind obeys_any [OF client.challenge_ok] obeys_intro free_write | assumption
      | simp add: session_ok_def anchor_world.truncate_def)+

lemma finish_login_step [obeys_intro]: "session_safe env request payment (finishLogin env signed)"
  unfolding finishLogin_def
  by (rule step_any toml_bind client.complete_ok obeys_intro free_write | assumption
      | simp add: session_ok_def anchor_world.truncate_def)+

lemma inspect_step [obeys_intro]: "session_safe env request payment (session_inspect env)"
  unfolding session_inspect_def by (rule obeys_intro asset_any)+

lemma build_trustline_step [obeys_intro]: "session_safe env request payment (session_buildTrustline env)"
  unfolding session_buildTrustline_def by (rule obeys_intro asset_any)+

lemma register_step [obeys_intro]: "session_safe env request payment (registerCustomer env)"
  unfolding registerCustomer_def by (rule obeys_intro)+

lemma prepare_step [obeys_intro]: "session_safe env request payment (prepareAccount env opts)"
  unfolding prepareAccount_def by (rule step_any asset_bind prepare_obeys | assumption)+

lemma quote_step: "session_safe env request payment (session_quote env amount label parts)"
  unfolding session_quote_def Let_def by (rule step_any obeys_bind_any [OF obeys_of_any] toml_bind obeys_bind_any [OF asset_any] obeys_intro | assumption)+

lemma quote_deposit_step [obeys_intro]: "session_safe env request payment (quoteDeposit env amount)"
  unfolding quoteDeposit_def by (rule quote_step)

lemma quote_withdraw_step [obeys_intro]: "session_safe env request payment (quoteWithdraw env amount)"
  unfolding quoteWithdraw_def by (rule quote_step)

lemma start_deposit_step [obeys_intro]: "session_safe env request payment (session_startDeposit env amount)"
  unfolding session_startDeposit_def
  by (rule step_any obeys_bind_any [OF obeys_of_any] toml_bind obeys_intro | assumption)+

lemma transaction_step [obeys_intro]: "session_safe env request payment (session_transaction env i)"
  unfolding session_transaction_def by (rule step_any toml_bind obeys_intro | assumption)+

lemma history_step [obeys_intro]: "session_safe env request payment (session_history env)"
  unfolding session_history_def by (rule step_any toml_bind obeys_intro | assumption)+

lemma balance_step [obeys_intro]: "session_safe env request payment (session_balance env)"
  unfolding session_balance_def by (rule obeys_intro asset_any)+

lemma bank_step [obeys_intro]: "session_safe env request payment (simulateBank env i amount)"
  unfolding simulateBank_def by (rule step_any toml_bind obeys_intro | assumption)+

text \<open>The wait with its repairs; a listener of updates must obey as well.\<close>

lemma wait_step:
  "(\<And>f tx. lo_onUpdate opts = Some f \<Longrightarrow> session_safe env request payment (f tx)) \<Longrightarrow>
   session_safe env request payment (waitForTransaction env i opts)"
  unfolding waitForTransaction_def session_poll_def
  by (rule step_any toml_bind obeys_bind_any [OF token_obeys] client.poll_ok | assumption)+
    (auto simp: client.callbacks_ok_def intro!: obeys_bind_any [OF client.record_ok] obeys_bind [OF asset_obeys]
      obeys_bind_any [OF prepare_obeys] obeys_ret_any kyc_order_obeys)

section \<open>The withdrawal\<close>

lemma eff_bind_assoc: "eff_bind (eff_bind m f) g = eff_bind m (\<lambda>x. eff_bind (f x) g)"
  by (rule ext) (simp add: eff_bind_def split: option.splits sum.splits prod.splits)

lemma deferred_obeys: "session_safe env request payment (resolveDeferredWithdraw env base)"
  unfolding resolveDeferredWithdraw_def deferred_turn_def
  by (rule toml_bind obeys_intro | assumption)+

text \<open>Everything \<open>startWithdraw\<close> does before it remembers the request.\<close>

definition asked_withdrawal :: "'w session_env \<Rightarrow> string \<Rightarrow> ('w, withdraw_instructions) session_act" where
  "asked_withdrawal env amountAsset =
     eff_bind (pure_step (assertAmount amountAsset ''withdraw amount'')) (\<lambda>_.
      eff_bind (session_kyc env) (\<lambda>_.
      eff_bind (session_toml env) (\<lambda>toml.
      eff_bind (session_token env) (\<lambda>token.
      eff_bind (public_key env) (\<lambda>account.
      eff_bind (startWithdraw (se_sdk env) (se_ctx env) toml token
          \<lparr>wp_assetCode = se_assetCode env, wp_account = account, wp_amount = amountAsset, wp_type = None, wp_dest = None\<rparr>) (\<lambda>first.
      if wi_accountId first = None then resolveDeferredWithdraw env first else eff_ret first))))))"

lemma startWithdraw_asked:
  "session_startWithdraw env amount = session_step (eff_bind (asked_withdrawal env amount) (\<lambda>w.
     eff_bind (writes (\<lambda>s. s\<lparr>ss_withdraw := Some (w, amount)\<rparr>)) (\<lambda>_. eff_ret w)))"
  unfolding session_startWithdraw_def asked_withdrawal_def by (simp add: eff_bind_assoc)

lemma asked_obeys: "session_safe env request payment (asked_withdrawal env amount)"
  unfolding asked_withdrawal_def
  by (rule obeys_bind_any [OF obeys_of_any] toml_bind deferred_obeys obeys_intro | assumption)+

lemma step_Some:
  "session_step m s = Some (r, s') \<longleftrightarrow>
     (\<exists>r0. m s = Some (r0, s') \<and> r = (case r0 of Inl e \<Rightarrow> Inl e | Inr x \<Rightarrow> Inr (x, drop (length (aw_log s)) (aw_log s'))))"
  by (auto simp: session_step_def reads_def eff_bind_Some eff_bind_def split: option.splits sum.splits prod.splits)

text \<open>A withdrawal that starts is remembered with the amount it was asked for; one that fails changes nothing of that.\<close>

lemma start_withdraw_step:
  assumes "session_ok env (\<lambda>_. True) s" "session_startWithdraw env amount s = Some (r, s')"
  shows "session_ok env (\<lambda>_. True) s' \<and> grown (session_request env) (session_signature env payment) s s'
     \<and> ss_withdraw s' = (case r of Inl e \<Rightarrow> ss_withdraw s | Inr (w, recs) \<Rightarrow> Some (w, amount))"
proof -
  let ?same = "\<lambda>q. q = ss_withdraw s"
  have s: "session_ok env ?same s" using assms(1) by (simp add: session_ok_def)
  obtain r0 t where t: "asked_withdrawal env amount s = Some (r0, t)"
    and r: "(\<exists>e. r0 = Inl e \<and> r = Inl e \<and> s' = t)
      \<or> (\<exists>w recs. r0 = Inr w \<and> r = Inr (w, recs) \<and> s' = t\<lparr>ss_withdraw := Some (w, amount)\<rparr>)"
    using assms(2) by (auto simp: startWithdraw_asked step_Some eff_bind_Some writes_def)
  from obeysD [OF asked_obeys s t, of payment]
  have "session_ok env ?same t" "grown (session_request env) (session_signature env payment) s t" by auto
  with r show ?thesis by (auto simp: session_ok_def grown_def)
qed

end
