(* ===== verification/Anchor_Session_Props.thy ===== *)
theory Anchor_Session_Props
  imports Anchor_Session_Laws
begin

text \<open>
  Sequences of session steps, in any order and with any answers of the anchor, of Horizon and of the
  signer: whom they contact, what they have signed, what they write in the log; and the exact effect
  of paying a withdrawal.
\<close>

section \<open>Paying\<close>















section \<open>Runs\<close>













section \<open>Properties\<close>





end
