(* ===== verification/Anchor_Examples.thy ===== *)
theory Anchor_Examples
  imports Anchor_Session_Props
begin

text \<open>
  An anchor in a small world, on which the properties of the session are run: it publishes its file,
  lets the wallet log in, and accepts one withdrawal; the world counts down the submissions that
  Horizon answers with a gateway timeout.
\<close>

definition demo_key :: string where "demo_key = CHR ''G'' # replicate 55 CHR ''A''"

definition demo_dest :: string where "demo_dest = CHR ''G'' # replicate 55 CHR ''B''"

definition demo_issuer :: string where "demo_issuer = CHR ''G'' # replicate 55 CHR ''C''"

definition demo_doc :: js_value where
  "demo_doc = V_Obj [(''WEB_AUTH_ENDPOINT'', V_Str ''https://a.co/auth''), (''TRANSFER_SERVER'', V_Str ''https://a.co/sep6''),
     (''SIGNING_KEY'', V_Str demo_issuer), (''NETWORK_PASSPHRASE'', V_Str TESTNET_PASSPHRASE),
     (''CURRENCIES'', V_Arr [V_Obj [(''code'', V_Str ''USDC''), (''issuer'', V_Str demo_issuer)]])]"

definition demo_json :: "string \<Rightarrow> js_value option" where
  "demo_json t =
     (if t = ''challenge'' then Some (V_Obj [(''transaction'', V_Str ''C'')])
      else if t = ''token'' then Some (V_Obj [(''token'', V_Str ''x.y'')])
      else if t = [] then Some (V_Obj [(''sub'', V_Str demo_key)])
      else if t = ''order'' then Some (V_Obj [(''id'', V_Str ''o1''), (''account_id'', V_Str demo_dest), (''memo'', V_Str ''7''), (''memo_type'', V_Str ''id'')])
      else if t = ''account'' then Some (V_Obj [(''sequence'', V_Str ''1''), (''balances'',
        V_Arr [V_Obj [(''asset_code'', V_Str ''USDC''), (''asset_issuer'', V_Str demo_issuer), (''balance'', V_Str ''9.5'')]])])
      else if t = ''sent'' then Some (V_Obj [(''hash'', V_Str ''h1'')])
      else None)"

definition demo_answer :: "int \<Rightarrow> string \<Rightarrow> http_response" where
  "demo_answer status t = \<lparr>hr_status = status, hr_content_length = JNaN, hr_body = Some [Chunk (map char_code t)]\<rparr>"

definition demo_fetch :: "string \<Rightarrow> http_init \<Rightarrow> nat \<Rightarrow> (js_thrown + http_response) \<times> nat" where
  "demo_fetch url i w =
     (if url = ''https://a.co/.well-known/stellar.toml'' then (Inr (demo_answer 200 ''toml''), w)
      else if url = ''https://a.co/auth'' then (Inr (demo_answer 200 (if hi_method i = ''GET'' then ''challenge'' else ''token'')), w)
      else if url = ''https://a.co/sep6/withdraw'' then (Inr (demo_answer 200 ''order''), w)
      else if url = ''h/transactions'' then
        (if w = 0 then (Inr (demo_answer 200 ''sent''), 0) else (Inr (demo_answer 504 ''late''), w - 1))
      else (Inr (demo_answer 200 ''account''), w))"

definition demo_url :: url_parser where
  "demo_url s = Some \<lparr>up_protocol = ''https:'', up_username = [], up_password = [], up_hostname = ''a.co'', up_port = [],
     up_pathname = ''/'', up_hash = [], up_href = s\<rparr>"

definition demo_ctx :: "nat anchor_ctx" where
  "demo_ctx = \<lparr>ax_fetch = demo_fetch, ax_now = (\<lambda>w. (1000, w)), ax_sleep = (\<lambda>ms w. w), ax_json_parse = demo_json,
     ax_stringify = (\<lambda>v. []), ax_show = (\<lambda>v. []), ax_url = demo_url, ax_set_query = (\<lambda>u q. Some u), ax_form = (\<lambda>kvs. []),
     ax_utf8_decode = map char_of, ax_date_parse = (\<lambda>s. None), ax_toml_parse = (\<lambda>t. Inr demo_doc),
     ax_quotient = (\<lambda>a b. JNaN), ax_toFixed2 = (\<lambda>n. []), ax_toPrecision3 = (\<lambda>n. []),
     ax_horizonUrl = ''h'', ax_friendbotUrl = TESTNET_FRIENDBOT_URL, ax_networkPassphrase = TESTNET_PASSPHRASE,
     ax_allowInsecure = False, ax_allowedEndpointHosts = None\<rparr>"

definition demo_sdk :: anchor_sdk where
  "demo_sdk = \<lparr>ak_BASE_FEE = ''100'', ak_is_account = (\<lambda>s. length s = 56),
     ak_build = (\<lambda>order. Inr (case to_op order of Pay_Asset d a n \<Rightarrow> ''pay '' @ n | Trust_Asset a \<Rightarrow> ''trust'')),
     ak_fromXDR = (\<lambda>xdr p. Inr \<lparr>dt_is_transaction = True, dt_source = demo_key, dt_sequence = ''2'', dt_operations = [],
        dt_memo = None, dt_fee = 100, dt_hash = [1], dt_signatures = 1\<rparr>)\<rparr>"

definition demo_auth :: web_auth where
  "demo_auth = \<lparr>wa_readChallengeTx = (\<lambda>x k p d h. Inr \<lparr>ct_clientAccountID = demo_key, ct_memo = None, ct_timeBounds = Some (0, 10),
       ct_operations = [(''manageData'', Some ''web_auth_domain'')]\<rparr>),
     wa_verifySigners = (\<lambda>x k p ks d h. Inr ())\<rparr>"

definition demo_env :: "nat session_env" where
  "demo_env = \<lparr>se_sdk = demo_sdk, se_auth = demo_auth, se_ctx = demo_ctx,
     se_signer = \<lparr>sg_publicKey = (\<lambda>w. (Inr demo_key, w)), sg_sign = (\<lambda>xdr p w. (Inr xdr, w))\<rparr>,
     se_homeDomain = ''a.co'', se_assetCode = ''USDC'', se_fiatCode = None, se_sep38DeliveryMethod = None, se_customerFields = []\<rparr>"


section \<open>The actions in this world\<close>

lemma demo_fields [simp]:
  "ax_fetch demo_ctx = demo_fetch" "ax_now demo_ctx = (\<lambda>w. (1000, w))" "ax_json_parse demo_ctx = demo_json" "ax_url demo_ctx = demo_url"
  "ax_set_query demo_ctx = (\<lambda>u q. Some u)" "ax_utf8_decode demo_ctx = map char_of" "ax_toml_parse demo_ctx = (\<lambda>t. Inr demo_doc)"
  "ax_horizonUrl demo_ctx = ''h''" "ax_networkPassphrase demo_ctx = TESTNET_PASSPHRASE" "ax_allowInsecure demo_ctx = False"
  "ax_allowedEndpointHosts demo_ctx = None"
  "hr_status (demo_answer n t) = n" "hr_content_length (demo_answer n t) = JNaN" "hr_body (demo_answer n t) = Some [Chunk (map char_code t)]"
  "se_sdk demo_env = demo_sdk" "se_auth demo_env = demo_auth" "se_ctx demo_env = demo_ctx" "se_homeDomain demo_env = ''a.co''"
  "se_assetCode demo_env = ''USDC''" "se_fiatCode demo_env = None" "se_customerFields demo_env = []"
  "sg_publicKey (se_signer demo_env) = (\<lambda>w. (Inr demo_key, w))" "sg_sign (se_signer demo_env) = (\<lambda>xdr p w. (Inr xdr, w))"
  by (simp_all add: demo_ctx_def demo_answer_def demo_env_def)








section \<open>A withdrawal\<close>

definition demo_toml :: anchor_toml where
  "demo_toml = \<lparr>am_homeDomain = ''a.co'', am_networkPassphrase = TESTNET_PASSPHRASE, am_signingKey = demo_issuer,
     am_webAuthEndpoint = ''https://a.co/auth'', am_transferServer = ''https://a.co/sep6'', am_kycServer = None, am_quoteServer = None,
     am_currencies = [\<lparr>tc_code = ''USDC'', tc_issuer = Some demo_issuer, tc_status = None, tc_anchorAsset = None, tc_anchorAssetType = None\<rparr>]\<rparr>"










lemma demo_toml_fields [simp]:
  "am_webAuthEndpoint demo_toml = ''https://a.co/auth''" "am_transferServer demo_toml = ''https://a.co/sep6''"
  "am_kycServer demo_toml = None" "am_homeDomain demo_toml = ''a.co''"
  by (simp_all add: demo_toml_def)












definition demo_withdrawal :: withdraw_instructions where
  "demo_withdrawal = \<lparr>wi_id = ''o1'', wi_accountId = Some demo_dest, wi_memo = Some \<lparr>wm_kind = Memo_Id, wm_value = ''7''\<rparr>,
     wi_minAmount = None, wi_maxAmount = None, wi_feePercent = None, wi_eta = None\<rparr>"









section \<open>A payment\<close>








lemma demo_withdrawal_fields [simp]: "wi_accountId demo_withdrawal = Some demo_dest"
  by (simp add: demo_withdrawal_def)










section \<open>Runs\<close>






section \<open>The properties in this world\<close>





end
