(* ===== verification/Spec2Isabelle.thy ===== *)
theory Spec2Isabelle
  imports Approval_Flow_Laws Payment_Laws Trustline Schedule_Examples Keeper Suggest_Props P2p_Client_Laws P2p_Payouts
    Anchor_Examples
begin

text \<open>
  A model of the payment core of Stellar Voice Control.

  \<^bold>\<open>The program.\<close>  A desktop application turns speech into payments on the Stellar
  testnet.  What decides about money is the package \<open>src/stellar\<close>: it parses amounts
  and names, asks the guard contract (\<open>src/contracts/polaris_guard\<close>) for the rule of an owner,
  decides whether an agent key or the owner signs, builds the unsigned transactions, runs a
  keeper that executes the scheduled payments that are due, trades tokens against fiat money through an escrow
  contract (\<open>src/contracts/polaris_p2p_escrow\<close>), and moves money in and out through an anchor over
  HTTP.  The file names below are relative to \<open>src/stellar/src\<close>.

  \<^bold>\<open>How the parts are modelled.\<close>  A pure function is a HOL function with its throws as values of a
  sum type.  An effectful function is an action \<open>('s, 'e, 'a) eff\<close> of \<open>Prelude\<close>: from a state to
  \<open>None\<close> when it does not return, or to an error or a value and the new state.  Loops whose end is not
  evident are \<open>partial_function (option)\<close>, and their end is a theorem.  Numbers are \<open>int\<close> with the
  ranges of the contract written out (\<open>checked_i128\<close>, \<open>checked_u64\<close>), numbers of the language that may be
  fractions are rationals or \<open>NaN\<close>, texts are lists of characters.  What is not under \<open>src\<close> is
  an argument: the Stellar SDK (building, printing and decoding transactions), the RPC node and Horizon,
  \<open>fetch\<close>, JSON, URL and TOML parsers, \<open>Intl\<close>, the clock, timers, the signer, the ledger of tokens.

  \<^bold>\<open>The theories.\<close>
  \<^item> \<open>Prelude\<close>, \<open>Collections_JS\<close>, \<open>Scaled_Decimal\<close>, \<open>JS_Number\<close>, \<open>JS_Value\<close>, \<open>Civil_Time\<close>: the parts of the
    language the sources use (strings, insertion-ordered maps, sorts, decimal text, numbers, dates),
    results and effects as sums, and the facts about them; the locales of comparators, codecs and
    stores that the components interpret.
  \<^item> \<open>Guard_Amount\<close>, \<open>Guard_Errors\<close>, \<open>Keeper_Errors\<close>: \<open>guard/amount.ts\<close>, \<open>guard/errors.ts\<close>, \<open>keeper/errors.ts\<close>.
  \<^item> \<open>Guard_Contract\<close>: the rule, its validation, the executor and the two payment entry points of
    \<open>contracts/polaris_guard/src/lib.rs\<close>; it is the specification the client is compared with.
    \<open>Guard_Schedules\<close>: its schedules as a state machine, the budget of a schedule over every history of
    calls, the refinement of a run to an abstract standing order, and the listing.
  \<^item> \<open>Guard_Route\<close>, \<open>Approval\<close>, \<open>Approval_Flows\<close>, \<open>Approval_Flow_Laws\<close>: \<open>guard/route.ts\<close> and \<open>approval/\<close>: the
    route of a payment equals the mandate of the contract, changes of a rule are classified by
    what they permit, and the flows arm last and disarm first.
  \<^item> \<open>Guard_Describe\<close>, \<open>Guard_Client\<close>, \<open>Guard_Port\<close>: the rest of \<open>guard/\<close>: cards, invocations, the client and
    the interface the tools call, with the contract of its writes as a locale.
  \<^item> \<open>Alias_Book\<close>, \<open>Payments\<close>, \<open>Payment_Laws\<close>, \<open>Trustline\<close>: \<open>payments/\<close>: a payment that is returned is the one
    asked for, within what was read from the chain; what cannot be paid is refused before any request.
  \<^item> \<open>Schedule_Errors\<close>, \<open>Local_Time\<close>, \<open>Schedules\<close>: \<open>schedule/\<close>.  \<open>Local_Time_Laws\<close>: the instants of a local time,
    ambiguous and skipped ones included, for zones with one change around it.  \<open>Iso_Order\<close>: printed
    instants order like the instants.  \<open>Schedule_Laws\<close>: what the three tools build, refuse and list.
    \<open>Schedule_Examples\<close>: their properties at concrete drafts and listings.
  \<^item> \<open>Keeper_Chain\<close>, \<open>Keeper\<close>: \<open>keeper/chain.ts\<close> and \<open>keeper/keeper.ts\<close>: fees under the cap, one attempt for each
    id and tick, an honest log, a sweep that covers the schedules, and rounds that end.
  \<^item> \<open>Suggest_Amount\<close>, \<open>Suggest_Stats\<close>, \<open>Suggest\<close>, \<open>Suggest_Laws\<close>, \<open>Suggest_Order\<close>, \<open>Suggest_Props\<close>: \<open>suggest/\<close>: drafts
    are ordered and capped, the result depends on the eligible records only, payloads do not depend on names.
  \<^item> \<open>P2p_Escrow\<close>: \<open>contracts/polaris_p2p_escrow/src/lib.rs\<close>.  \<open>P2p_Escrow_Laws\<close>: the escrow covers its live
    offers over every history and never keeps one for good; its order book.  \<open>P2p_Payouts\<close>: every transfer it
    makes, recorded by the ledger itself, against the offers.  \<open>P2p_Client\<close>, \<open>P2p_Client_Laws\<close>: \<open>p2p/\<close>.
  \<^item> \<open>Anchor_Text\<close>, \<open>Anchor_Http\<close>, \<open>Anchor_Preflight\<close>, \<open>Anchor_Discovery\<close>, \<open>Anchor_Auth\<close>, \<open>Anchor_Orders\<close>, \<open>Anchor_Poll\<close>,
    \<open>Anchor_Session\<close>, \<open>Anchor_Select\<close>, \<open>Anchor_Tools\<close>: \<open>anchor/\<close>, from untrusted text to the session with its
    steps.  The state of an action holds the world, the log, the requests sent and the envelopes handed to
    the signer.  \<open>Anchor_Effects\<close>: rules for actions that keep an invariant and let these histories grow only
    by what is allowed.  \<open>Anchor_Endpoint_Laws\<close>, \<open>Anchor_Client_Laws\<close>, \<open>Anchor_Session_Laws\<close>: every action of the
    client and every step of a session obeys them.  \<open>Anchor_Session_Props\<close>: runs of a session in any order and
    with any answers.  \<open>Anchor_Examples\<close>: such runs in a small world.

  \<^bold>\<open>Bounds and fuel.\<close>  \<open>scan_pages\<close> reads at most \<open>MAX_PAGES\<close> pages, as the source does.  The keeper runs a
  given number of rounds, and every number of them ends when the clock advances (\<open>keeper_rounds_end\<close>).
  \<open>advance_steps\<close> takes the 10000 steps of the source, \<open>customer_rounds\<close> its five rounds.  The polling loop of
  \<open>submitAndWait\<close>, the bisection of \<open>findTransition\<close> and the loops of the anchor are
  \<open>partial_function (option)\<close>; \<open>submit_returns\<close> and \<open>resolve_picks_earliest\<close> show that the first two return,
  and the properties of the anchor are about what its actions do when they return.

  \<^bold>\<open>Not modelled.\<close>  \<open>keeper/config.ts\<close> and \<open>keeper/cli.ts\<close> (environment and process), \<open>live/\<close> (scripts against
  the public testnet), the test helpers and re-exports of \<open>anchor/\<close>, the agent with its language models, the
  desktop application with its native shell, build scripts and the landing page; of the contracts the
  alias entry points, the events and the storage rent with its archival; concurrent steps of one anchor
  session, which share a discovery in the source.  The texts of the anchor are read as windows-1252.
\<close>

end
